(* ===== verification/Prelude.thy ===== *)
theory Prelude
  imports Main "HOL-Library.Word" "HOL-Library.Multiset"
begin

text \<open>
  What every component of the model shares: Rust's \<open>Result\<close> with the panic made a value, the \<open>?\<close>
  operator as an explicit early return, Rust's fixed-width signed integers, and the inversion
  lemmas that turn a successful run of a guard chain into the conjunction of its guards.
\<close>

section \<open>Collections of facts\<close>

named_theorems inversion \<open>a successful run of an early-return chain, turned into its guards\<close>
named_theorems frame \<open>what an operation leaves unchanged\<close>

section \<open>Results\<close>

text \<open>
  Rust's \<open>Result<A, E>\<close>; the third constructor is a panic (\<open>assert!\<close>, \<open>expect\<close>), with its message.
\<close>

datatype ('a, 'e) result = Ok 'a | Err 'e | Panic string

text \<open>\<open>option.ok_or(e)\<close>\<close>

definition ok_or :: "'a option \<Rightarrow> 'e \<Rightarrow> ('a, 'e) result" where
  "ok_or x e = (case x of None \<Rightarrow> Err e | Some a \<Rightarrow> Ok a)"

text \<open>\<open>result.expect(message)\<close>: an error panics.\<close>

definition expect_ok :: "('a, 'e) result \<Rightarrow> string \<Rightarrow> ('a, 'f) result" where
  "expect_ok r msg = (case r of Ok a \<Rightarrow> Ok a | Err _ \<Rightarrow> Panic msg | Panic p \<Rightarrow> Panic p)"

text \<open>
  \<open>r?\<close> in a function that owns the state \<open>s\<close>: an error is converted by \<open>conv\<close> (the \<open>From\<close>
  implementation, or \<open>map_err\<close>) and returned at once together with the state as it is then.
\<close>

definition attempt ::
  "('a, 'e) result \<Rightarrow> ('e \<Rightarrow> 'f) \<Rightarrow> 's \<Rightarrow> ('a \<Rightarrow> ('b, 'f) result \<times> 's) \<Rightarrow> ('b, 'f) result \<times> 's" where
  "attempt r conv s k =
     (case r of Ok a \<Rightarrow> k a | Err e \<Rightarrow> (Err (conv e), s) | Panic p \<Rightarrow> (Panic p, s))"

text \<open>The same for a function that only reads its state.\<close>

definition attempt_pure ::
  "('a, 'e) result \<Rightarrow> ('e \<Rightarrow> 'f) \<Rightarrow> ('a \<Rightarrow> ('b, 'f) result) \<Rightarrow> ('b, 'f) result" where
  "attempt_pure r conv k = (case r of Ok a \<Rightarrow> k a | Err e \<Rightarrow> Err (conv e) | Panic p \<Rightarrow> Panic p)"

text \<open>\<open>r?\<close> on the result of a call that has changed the state: the new state is kept either way.\<close>

definition perform ::
  "('a, 'e) result \<times> 's \<Rightarrow> ('e \<Rightarrow> 'f) \<Rightarrow> ('a \<Rightarrow> 's \<Rightarrow> ('b, 'f) result \<times> 's) \<Rightarrow> ('b, 'f) result \<times> 's" where
  "perform x conv k = (case x of (r, s) \<Rightarrow> attempt r conv s (\<lambda>a. k a s))"

fun is_ok :: "('a, 'e) result \<Rightarrow> bool" where
  "is_ok (Ok _) = True"
| "is_ok (Err _) = False"
| "is_ok (Panic _) = False"

fun panics :: "('a, 'e) result \<Rightarrow> bool" where
  "panics (Panic _) = True"
| "panics _ = False"

lemma is_ok_iff: "is_ok r \<longleftrightarrow> (\<exists>a. r = Ok a)"
  by (cases r) auto

lemma ok_or_simps [simp]: "ok_or None e = Err e" "ok_or (Some a) e = Ok a"
  by (simp_all add: ok_or_def)

lemma ok_or_Ok [simp]: "ok_or x e = Ok a \<longleftrightarrow> x = Some a"
  by (cases x) auto

lemma ok_or_Err [simp]: "ok_or x e = Err e' \<longleftrightarrow> x = None \<and> e' = e"
  by (cases x) auto

lemma ok_or_Panic [simp]: "ok_or x e \<noteq> Panic p"
  by (cases x) auto

lemma attempt_simps [simp]:
  "attempt (Ok a) conv s k = k a"
  "attempt (Err e) conv s k = (Err (conv e), s)"
  "attempt (Panic p) conv s k = (Panic p, s)"
  by (simp_all add: attempt_def)

lemma attempt_pure_simps [simp]:
  "attempt_pure (Ok a) conv k2 = k2 a"
  "attempt_pure (Err e) conv k2 = Err (conv e)"
  "attempt_pure (Panic p) conv k2 = Panic p"
  by (simp_all add: attempt_pure_def)

lemma expect_ok_simps [simp]:
  "expect_ok (Ok a) msg = Ok a" "expect_ok (Err e) msg = Panic msg" "expect_ok (Panic p) msg = Panic p"
  by (simp_all add: expect_ok_def)

lemma expect_ok_Ok [simp]: "expect_ok r msg = Ok a \<longleftrightarrow> r = Ok a"
  by (cases r) auto

lemma perform_simps [simp]: "perform (r, s) conv k = attempt r conv s (\<lambda>a. k a s)"
  by (simp add: perform_def)

lemma perform_Ok [inversion]:
  "perform x conv k = (Ok b, s') \<longleftrightarrow> (\<exists>a s. x = (Ok a, s) \<and> k a s = (Ok b, s'))"
  by (cases x; cases "fst x") auto

lemma attempt_Ok [inversion]:
  "attempt r conv s k = (Ok b, s') \<longleftrightarrow> (\<exists>a. r = Ok a \<and> k a = (Ok b, s'))"
  by (cases r) auto

lemma attempt_pure_Ok [inversion]:
  "attempt_pure r conv k = Ok b \<longleftrightarrow> (\<exists>a. r = Ok a \<and> k a = Ok b)"
  by (cases r) auto

lemma if_Err_Ok [inversion]:
  "(if c then (Err e, s) else k) = (Ok b, s') \<longleftrightarrow> \<not> c \<and> k = (Ok b, s')"
  by simp

lemma if_Err_pure_Ok [inversion]: "(if c then Err e else r) = Ok b \<longleftrightarrow> \<not> c \<and> r = Ok b"
  by simp

text \<open>A lookup with \<open>ok_or\<close> never panics, so only its two outcomes have to be considered.\<close>

lemma attempt_ok_or:
  "attempt (ok_or x e) conv s k = (case x of None \<Rightarrow> (Err (conv e), s) | Some a \<Rightarrow> k a)"
  by (cases x) auto

lemma attempt_pure_ok_or:
  "attempt_pure (ok_or x e) conv k = (case x of None \<Rightarrow> Err (conv e) | Some a \<Rightarrow> k a)"
  by (cases x) auto

section \<open>Fixed-width integers\<close>

text \<open>
  \<open>i64\<close> is a 64-bit word read in two's complement by \<open>sint\<close>. Word addition wraps, as \<open>+\<close> does in
  a release build (the workspace sets no \<open>overflow-checks\<close>).
\<close>

type_synonym i64 = "64 word"
type_synonym u8 = "8 word"

definition i64_min :: int where "i64_min = - (2 ^ 63)"
definition i64_max :: int where "i64_max = 2 ^ 63 - 1"

definition fits_i64 :: "int \<Rightarrow> bool" where
  "fits_i64 n \<longleftrightarrow> i64_min \<le> n \<and> n \<le> i64_max"

text \<open>\<open>i64::checked_add\<close> and \<open>i64::abs\<close> (which wraps on \<open>i64::MIN\<close>).\<close>

definition checked_add_i64 :: "i64 \<Rightarrow> i64 \<Rightarrow> i64 option" where
  "checked_add_i64 a b = (if fits_i64 (sint a + sint b) then Some (a + b) else None)"

definition abs_i64 :: "i64 \<Rightarrow> i64" where
  "abs_i64 a = (if sint a < 0 then - a else a)"

lemma sint_fits [simp]: "fits_i64 (sint (a :: i64))"
  using sint_range_size [of a] by (auto simp: fits_i64_def i64_min_def i64_max_def size_word_def)

lemma sint_of_int_fits: "fits_i64 n \<Longrightarrow> sint (word_of_int n :: i64) = n"
  by (simp add: sint_sbintrunc' signed_take_bit_int_eq_self fits_i64_def i64_min_def i64_max_def)

lemma sint_add_fits: "fits_i64 (sint a + sint b) \<Longrightarrow> sint (a + b :: i64) = sint a + sint b"
proof -
  assume *: "fits_i64 (sint a + sint b)"
  have "a + b = word_of_int (sint a + sint b)"
    by (simp flip: wi_hom_add)
  then show ?thesis using sint_of_int_fits [OF *] by simp
qed

lemma checked_add_i64_Some:
  "checked_add_i64 a b = Some c \<longleftrightarrow> fits_i64 (sint a + sint b) \<and> c = a + b"
  by (auto simp: checked_add_i64_def)

lemma checked_add_i64_sint:
  "checked_add_i64 a b = Some c \<Longrightarrow> sint c = sint a + sint b"
  by (simp add: checked_add_i64_Some sint_add_fits)

lemma checked_add_i64_None: "checked_add_i64 a b = None \<longleftrightarrow> \<not> fits_i64 (sint a + sint b)"
  by (simp add: checked_add_i64_def)

section \<open>Lists\<close>

text \<open>\<open>iter().find(p)\<close> and \<open>iter().position(p)\<close>.\<close>

lemma find_Some_in: "List.find p xs = Some x \<Longrightarrow> x \<in> set xs \<and> p x"
  by (induction xs) (auto split: if_splits)

lemma find_None: "List.find p xs = None \<longleftrightarrow> (\<forall>x \<in> set xs. \<not> p x)"
  by (induction xs) auto

fun position :: "('a \<Rightarrow> bool) \<Rightarrow> 'a list \<Rightarrow> nat option" where
  "position p [] = None"
| "position p (x # xs) = (if p x then Some 0 else map_option Suc (position p xs))"

lemma position_Some: "position p xs = Some i \<Longrightarrow> i < length xs \<and> p (xs ! i)"
  by (induction xs arbitrary: i) (auto split: if_splits)

lemma position_None: "position p xs = None \<longleftrightarrow> (\<forall>x \<in> set xs. \<not> p x)"
  by (induction xs) auto

text \<open>\<open>Vec::remove(index)\<close>\<close>

definition remove_at :: "nat \<Rightarrow> 'a list \<Rightarrow> 'a list" where
  "remove_at i xs = take i xs @ drop (Suc i) xs"

lemma set_remove_at: "set (remove_at i xs) \<subseteq> set xs"
  by (auto simp: remove_at_def dest: in_set_takeD in_set_dropD)

lemma remove_at_split: "i < length xs \<Longrightarrow> xs = take i xs @ xs ! i # drop (Suc i) xs"
  by (rule id_take_nth_drop)

text \<open>\<open>sort_by(cmp)\<close>, which is stable; \<open>le a b\<close> stands for a comparison that is not \<open>Greater\<close>.\<close>

fun insert_by :: "('a \<Rightarrow> 'a \<Rightarrow> bool) \<Rightarrow> 'a \<Rightarrow> 'a list \<Rightarrow> 'a list" where
  "insert_by le x [] = [x]"
| "insert_by le x (y # ys) = (if le x y then x # y # ys else y # insert_by le x ys)"

definition sort_by :: "('a \<Rightarrow> 'a \<Rightarrow> bool) \<Rightarrow> 'a list \<Rightarrow> 'a list" where
  "sort_by le xs = foldr (insert_by le) xs []"

lemma mset_insert_by [simp]: "mset (insert_by le x xs) = add_mset x (mset xs)"
  by (induction xs) auto

lemma mset_sort_by [simp]: "mset (sort_by le xs) = mset xs"
  by (induction xs) (auto simp: sort_by_def)

lemma set_sort_by [simp]: "set (sort_by le xs) = set xs"
  using mset_sort_by [of le xs] by (metis set_mset_mset)

lemma length_sort_by [simp]: "length (sort_by le xs) = length xs"
  using mset_sort_by [of le xs] by (metis size_mset)

lemma sum_list_sort_by [simp]: "sum_list (map f (sort_by le xs)) = (sum_list (map f xs) :: 'b::comm_monoid_add)"
  by (metis mset_map mset_sort_by sum_mset_sum_list)

lemma sorted_insert_by:
  assumes "sorted_wrt le xs" "\<And>a b. \<not> le a b \<Longrightarrow> le b a" "transp le"
  shows "sorted_wrt le (insert_by le x xs)"
  using assms(1)
proof (induction xs)
  case (Cons y ys)
  have "set (insert_by le x ys) = insert x (set ys)" by (metis mset_insert_by set_mset_add_mset_insert set_mset_mset)
  with Cons assms(2,3) show ?case by (auto dest: transpD)
qed simp

lemma sorted_sort_by:
  assumes "\<And>a b. \<not> le a b \<Longrightarrow> le b a" "transp le"
  shows "sorted_wrt le (sort_by le xs)"
  by (induction xs) (simp_all add: sort_by_def sorted_insert_by [OF _ assms])

text \<open>A loop whose body may fail or panic.\<close>

fun fold_result :: "('a \<Rightarrow> 's \<Rightarrow> ('s, 'e) result) \<Rightarrow> 'a list \<Rightarrow> 's \<Rightarrow> ('s, 'e) result" where
  "fold_result f [] s = Ok s"
| "fold_result f (x # xs) s = attempt_pure (f x s) id (fold_result f xs)"

fun map_result :: "('a \<Rightarrow> ('b, 'e) result) \<Rightarrow> 'a list \<Rightarrow> ('b list, 'e) result" where
  "map_result f [] = Ok []"
| "map_result f (x # xs) = attempt_pure (f x) id (\<lambda>y. attempt_pure (map_result f xs) id (\<lambda>ys. Ok (y # ys)))"

lemma map_result_Ok: "map_result f xs = Ok ys \<longleftrightarrow> map f xs = map Ok ys"
  by (induction xs arbitrary: ys) (auto simp: inversion map_eq_Cons_conv)

end
