(* ===== verification/RustText.thy ===== *)
theory RustText
  imports Prelude "HOL-Library.Char_ord" "HOL-Library.List_Lexorder" "HOL-Library.Product_Lexorder"
begin

text \<open>
  Rust's \<open>String\<close>: the bytes of its UTF-8 encoding, one HOL \<open>char\<close> per byte, so that \<open>len()\<close> is
  the length of the list, \<open>cmp\<close> is the lexicographic order of the list (the order instance of
  \<open>List_Lexorder\<close>) and a literal beyond ASCII is written as its bytes. \<open>trim\<close> removes the
  code points of Unicode's \<open>White_Space\<close> (as byte sequences of length one to three), and
  \<open>chars().count()\<close> counts the bytes that start a code point. Case mapping beyond ASCII is a
  table of the standard library and a parameter of the model (theory \<open>Environment\<close>).
\<close>

section \<open>Bytes\<close>

abbreviation byte :: "char \<Rightarrow> nat" where
  "byte c \<equiv> of_char c"

definition text_of :: "nat list \<Rightarrow> string" where
  "text_of bs = map char_of bs"

section \<open>White space and \<open>trim\<close>\<close>

text \<open>
  One byte: U+0009 to U+000D and U+0020. Two bytes: U+0085, U+00A0. Three bytes: U+1680,
  U+2000 to U+200A, U+2028, U+2029, U+202F, U+205F, U+3000.
\<close>

definition ws1 :: "char \<Rightarrow> bool" where
  "ws1 a \<longleftrightarrow> (9 \<le> byte a \<and> byte a \<le> 13) \<or> byte a = 32"

definition ws2 :: "char \<Rightarrow> char \<Rightarrow> bool" where
  "ws2 a b \<longleftrightarrow> byte a = 0xC2 \<and> (byte b = 0x85 \<or> byte b = 0xA0)"

definition ws3 :: "char \<Rightarrow> char \<Rightarrow> char \<Rightarrow> bool" where
  "ws3 a b c \<longleftrightarrow>
     (byte a = 0xE1 \<and> byte b = 0x9A \<and> byte c = 0x80)
   \<or> (byte a = 0xE2 \<and> byte b = 0x80 \<and>
        ((0x80 \<le> byte c \<and> byte c \<le> 0x8A) \<or> byte c = 0xA8 \<or> byte c = 0xA9 \<or> byte c = 0xAF))
   \<or> (byte a = 0xE2 \<and> byte b = 0x81 \<and> byte c = 0x9F)
   \<or> (byte a = 0xE3 \<and> byte b = 0x80 \<and> byte c = 0x80)"

fun trim_start :: "string \<Rightarrow> string" where
  "trim_start [] = []"
| "trim_start (a # s) =
     (if ws1 a then trim_start s
      else case s of [] \<Rightarrow> [a]
        | b # t \<Rightarrow> if ws2 a b then trim_start t
            else case t of [] \<Rightarrow> [a, b]
              | c # u \<Rightarrow> if ws3 a b c then trim_start u else a # b # c # u)"

text \<open>\<open>trim_end\<close> works on the reversed bytes, where a code point's last byte comes first.\<close>

fun trim_rev :: "string \<Rightarrow> string" where
  "trim_rev [] = []"
| "trim_rev (c # s) =
     (if ws1 c then trim_rev s
      else case s of [] \<Rightarrow> [c]
        | b # t \<Rightarrow> if ws2 b c then trim_rev t
            else case t of [] \<Rightarrow> [c, b]
              | a # u \<Rightarrow> if ws3 a b c then trim_rev u else c # b # a # u)"

definition trim_end :: "string \<Rightarrow> string" where
  "trim_end s = rev (trim_rev (rev s))"

definition trim :: "string \<Rightarrow> string" where
  "trim s = trim_end (trim_start s)"

section \<open>Counting and ASCII case\<close>

text \<open>\<open>chars().count()\<close>: continuation bytes are 0x80 to 0xBF.\<close>

definition continuation :: "char \<Rightarrow> bool" where
  "continuation c \<longleftrightarrow> 0x80 \<le> byte c \<and> byte c < 0xC0"

definition chars_count :: "string \<Rightarrow> nat" where
  "chars_count s = length (filter (\<lambda>c. \<not> continuation c) s)"

definition is_ascii_lowercase :: "char \<Rightarrow> bool" where
  "is_ascii_lowercase c \<longleftrightarrow> 97 \<le> byte c \<and> byte c \<le> 122"

definition is_ascii_uppercase :: "char \<Rightarrow> bool" where
  "is_ascii_uppercase c \<longleftrightarrow> 65 \<le> byte c \<and> byte c \<le> 90"

definition to_ascii_uppercase :: "string \<Rightarrow> string" where
  "to_ascii_uppercase s = map (\<lambda>c. if is_ascii_lowercase c then char_of (byte c - 32) else c) s"

definition to_ascii_lowercase :: "string \<Rightarrow> string" where
  "to_ascii_lowercase s = map (\<lambda>c. if is_ascii_uppercase c then char_of (byte c + 32) else c) s"

section \<open>Splitting and numbers\<close>

text \<open>\<open>split(c)\<close> and \<open>split_once(c)\<close>.\<close>

fun split_on :: "char \<Rightarrow> string \<Rightarrow> string list" where
  "split_on c [] = [[]]"
| "split_on c (x # s) = (if x = c then [] # split_on c s
     else case split_on c s of [] \<Rightarrow> [[x]] | p # ps \<Rightarrow> (x # p) # ps)"

fun split_once :: "char \<Rightarrow> string \<Rightarrow> (string \<times> string) option" where
  "split_once c [] = None"
| "split_once c (x # s) = (if x = c then Some ([], s) else map_option (map_prod (Cons x) id) (split_once c s))"

text \<open>Decimal digits, and \<open>{:04}\<close> and \<open>{:02}\<close>: zeros are put after the sign, up to the width.\<close>

definition digit :: "nat \<Rightarrow> char" where
  "digit n = char_of (48 + n)"

fun decimal :: "nat \<Rightarrow> string" where
  "decimal n = (if n < 10 then [digit n] else decimal (n div 10) @ [digit (n mod 10)])"

declare decimal.simps [simp del]

definition zero_padded :: "nat \<Rightarrow> int \<Rightarrow> string" where
  "zero_padded width n =
     (let digits = decimal (nat \<bar>n\<bar>); sign = (if n < 0 then ''-'' else [])
      in sign @ replicate (width - length (sign @ digits)) (CHR ''0'') @ digits)"

text \<open>
  \<open>parse\<close> of an integer type with the bounds \<open>lo\<close> and \<open>hi\<close>: an optional plus, for a signed type an
  optional minus, then digits.
\<close>

definition digits_value :: "string \<Rightarrow> nat option" where
  "digits_value s =
     (if s \<noteq> [] \<and> list_all (\<lambda>c. 48 \<le> byte c \<and> byte c \<le> 57) s
      then Some (foldl (\<lambda>n c. 10 * n + (byte c - 48)) 0 s) else None)"

definition parse_integer :: "int \<Rightarrow> int \<Rightarrow> string \<Rightarrow> int option" where
  "parse_integer lo hi s =
     (let v = (case s of
          [] \<Rightarrow> None
        | c # r \<Rightarrow>
            if c = CHR ''+'' then map_option int (digits_value r)
            else if c = CHR ''-'' \<and> lo < 0 then map_option (\<lambda>n. - int n) (digits_value r)
            else map_option int (digits_value s))
      in Option.bind v (\<lambda>n. if lo \<le> n \<and> n \<le> hi then Some n else None))"

section \<open>Laws\<close>

text \<open>The head of a string that \<open>trim_start\<close> would remove.\<close>

fun starts_ws :: "string \<Rightarrow> bool" where
  "starts_ws [] = False"
| "starts_ws [a] = ws1 a"
| "starts_ws [a, b] = (ws1 a \<or> ws2 a b)"
| "starts_ws (a # b # c # s) = (ws1 a \<or> ws2 a b \<or> ws3 a b c)"

fun starts_ws_rev :: "string \<Rightarrow> bool" where
  "starts_ws_rev [] = False"
| "starts_ws_rev [c] = ws1 c"
| "starts_ws_rev [c, b] = (ws1 c \<or> ws2 b c)"
| "starts_ws_rev (c # b # a # s) = (ws1 c \<or> ws2 b c \<or> ws3 a b c)"

lemma trim_start_no_ws: "\<not> starts_ws (trim_start s)"
  by (induction s rule: trim_start.induct) (auto split: list.splits)

lemma trim_rev_no_ws: "\<not> starts_ws_rev (trim_rev s)"
  by (induction s rule: trim_rev.induct) (auto split: list.splits)

lemma trim_start_id: "\<not> starts_ws s \<Longrightarrow> trim_start s = s"
  by (cases s rule: starts_ws.cases) auto

lemma trim_rev_id: "\<not> starts_ws_rev s \<Longrightarrow> trim_rev s = s"
  by (cases s rule: starts_ws_rev.cases) auto

lemma starts_ws_append: "starts_ws s \<Longrightarrow> starts_ws (s @ t)"
  by (cases s rule: starts_ws.cases; cases t rule: starts_ws.cases) auto

lemma trim_rev_drop: "\<exists>n. trim_rev s = drop n s"
proof (induction s rule: trim_rev.induct)
  case (2 c s)
  have skip: "trim_rev (c # s) = drop n' t \<Longrightarrow> drop n' t = drop n (c # s) \<Longrightarrow> ?case" for n n' t
    by (rule exI [of _ n]) simp
  show ?case
  proof (cases "ws1 c")
    case True
    with 2 obtain n where "trim_rev s = drop n s" by blast
    with True show ?thesis by (intro skip [of n s "Suc n"]) simp_all
  next
    case one: False
    show ?thesis
    proof (cases s)
      case Nil
      with one show ?thesis by (intro skip [of 0 "c # s" 0]) simp_all
    next
      case (Cons b t)
      show ?thesis
      proof (cases "ws2 b c")
        case True
        with 2 one Cons obtain n where "trim_rev t = drop n t" by blast
        with one True Cons show ?thesis by (intro skip [of n t "Suc (Suc n)"]) simp_all
      next
        case two: False
        show ?thesis
        proof (cases t)
          case Nil
          with one two Cons show ?thesis by (intro skip [of 0 "c # s" 0]) simp_all
        next
          case (Cons a u)
          note t = this
          show ?thesis
          proof (cases "ws3 a b c")
            case True
            with 2 one two \<open>s = b # t\<close> t obtain n where "trim_rev u = drop n u" by blast
            with one two True \<open>s = b # t\<close> t show ?thesis
              by (intro skip [of n u "Suc (Suc (Suc n))"]) simp_all
          next
            case False
            with one two \<open>s = b # t\<close> t show ?thesis
              by (intro skip [of 0 "c # s" 0]) simp_all
          qed
        qed
      qed
    qed
  qed
qed simp

lemma trim_end_prefix: "\<exists>p. s = trim_end s @ p"
proof -
  obtain n where "trim_rev (rev s) = drop n (rev s)"
    using trim_rev_drop by blast
  then have "trim_end s = take (length s - n) s"
    by (simp add: trim_end_def rev_drop)
  then show ?thesis by (metis append_take_drop_id)
qed

lemma trim_end_idem: "trim_end (trim_end s) = trim_end s"
  by (simp add: trim_end_def trim_rev_id trim_rev_no_ws)

lemma trim_start_trim_end: "\<not> starts_ws s \<Longrightarrow> trim_start (trim_end s) = trim_end s"
  by (metis starts_ws_append trim_end_prefix trim_start_id)

lemma trim_idem [simp]: "trim (trim s) = trim s"
  by (simp add: trim_def trim_start_trim_end trim_start_no_ws trim_end_idem)

lemma trim_Nil [simp]: "trim [] = []"
  by (simp add: trim_def trim_end_def)

lemma trim_eq_self: "\<not> starts_ws s \<Longrightarrow> \<not> starts_ws_rev (rev s) \<Longrightarrow> trim s = s"
  by (simp add: trim_def trim_end_def trim_start_id trim_rev_id)

lemma chars_count_le: "chars_count s \<le> length s"
  by (simp add: chars_count_def)

lemma is_ascii_lowercase_upper:
  "is_ascii_lowercase c \<Longrightarrow> is_ascii_uppercase (char_of (byte c - 32))"
  by (auto simp: is_ascii_lowercase_def is_ascii_uppercase_def of_char_of)

lemma upper_not_lower: "is_ascii_uppercase c \<Longrightarrow> \<not> is_ascii_lowercase c"
  by (auto simp: is_ascii_lowercase_def is_ascii_uppercase_def)

lemma to_ascii_uppercase_upper: "\<forall>c \<in> set s. is_ascii_uppercase c \<Longrightarrow> to_ascii_uppercase s = s"
  by (simp add: to_ascii_uppercase_def upper_not_lower map_idI)

text \<open>No ASCII letter is white space, first or last.\<close>

lemma upper_not_ws:
  "is_ascii_uppercase c \<Longrightarrow> \<not> ws1 c"
  "is_ascii_uppercase a \<Longrightarrow> \<not> ws2 a b"
  "is_ascii_uppercase b \<Longrightarrow> \<not> ws2 a b"
  "is_ascii_uppercase a \<Longrightarrow> \<not> ws3 a b c"
  "is_ascii_uppercase c \<Longrightarrow> \<not> ws3 a b c"
  by (auto simp: is_ascii_uppercase_def ws1_def ws2_def ws3_def)

lemma trim_upper: "\<forall>c \<in> set s. is_ascii_uppercase c \<Longrightarrow> trim s = s"
proof (rule trim_eq_self)
  assume *: "\<forall>c \<in> set s. is_ascii_uppercase c"
  then show "\<not> starts_ws s"
    by (cases s rule: starts_ws.cases) (auto simp: upper_not_ws)
  from * have "\<forall>c \<in> set (rev s). is_ascii_uppercase c" by simp
  then show "\<not> starts_ws_rev (rev s)"
    by (cases "rev s" rule: starts_ws_rev.cases) (auto simp: upper_not_ws)
qed

end
