(* ===== verification/Ident.thy ===== *)
theory Ident
  imports RustText
begin

text \<open>
  \<open>cloudledger-core/src/ids.rs\<close>: the macro \<open>id_type!\<close> generates six newtypes over \<open>String\<close> that
  differ only in their name. They are one type with a phantom parameter; the order derived for
  the newtype is the order of the string inside.
\<close>

datatype 'tag ident = Ident (as_str: string)

typedecl account_tag
typedecl approval_tag
typedecl company_tag
typedecl journal_entry_tag
typedecl ledger_tag
typedecl user_tag

type_synonym account_id = "account_tag ident"
type_synonym approval_id = "approval_tag ident"
type_synonym company_id = "company_tag ident"
type_synonym journal_entry_id = "journal_entry_tag ident"
type_synonym ledger_id = "ledger_tag ident"
type_synonym user_id = "user_tag ident"

text \<open>\<open>new\<close> asserts that the value is not blank; the name of the type is in the panic message.\<close>

definition ident_new :: "string \<Rightarrow> string \<Rightarrow> ('tag ident, 'e) result" where
  "ident_new name value =
     (if trim value = [] then Panic (name @ '' cannot be empty'') else Ok (Ident value))"

instantiation ident :: (type) linorder
begin

definition less_eq_ident :: "'a ident \<Rightarrow> 'a ident \<Rightarrow> bool" where
  "less_eq_ident a b \<longleftrightarrow> as_str a \<le> as_str b"

definition less_ident :: "'a ident \<Rightarrow> 'a ident \<Rightarrow> bool" where
  "less_ident a b \<longleftrightarrow> as_str a < as_str b"

instance
  by standard (auto simp: less_eq_ident_def less_ident_def intro: ident.expand)

end

text \<open>A valid identifier is one that \<open>new\<close> can return.\<close>

definition valid_ident :: "'tag ident \<Rightarrow> bool" where
  "valid_ident i \<longleftrightarrow> trim (as_str i) \<noteq> []"

lemma ident_new_Ok: "ident_new name v = Ok i \<longleftrightarrow> valid_ident i \<and> v = as_str i"
  by (cases i) (auto simp: ident_new_def valid_ident_def)

text \<open>A value that starts with a character that is not white space is never rejected.\<close>

lemma trim_visible_head:
  assumes "\<not> starts_ws (c # s)" and "byte c < 0x80"
  shows "trim (c # s) \<noteq> []"
proof
  assume "trim (c # s) = []"
  then have "trim_rev (rev s @ [c]) = []"
    by (simp only: trim_def trim_end_def trim_start_id [OF assms(1)] rev.simps rev_is_Nil_conv)
  moreover have "trim_rev (xs @ [c]) \<noteq> []" if "\<not> ws1 c" for xs
    using that
  proof (induction xs rule: trim_rev.induct)
    case 1
    then show ?case by simp
  next
    case (2 d xs)
    from assms(2) have no: "\<not> ws2 c y" "\<not> ws3 c y z" for y z
      by (auto simp: ws2_def ws3_def)
    show ?case
    proof (cases xs)
      case Nil
      with "2.prems" no show ?thesis by simp
    next
      case (Cons b t)
      note xs = this
      show ?thesis
      proof (cases t)
        case Nil
        with 2 xs no show ?thesis by simp
      next
        case (Cons a u)
        with 2 xs show ?thesis by simp
      qed
    qed
  qed
  moreover have "\<not> ws1 c"
    using assms(1) by (cases "c # s" rule: starts_ws.cases) auto
  ultimately show False by blast
qed

end
