(* ===== verification/Amount.thy ===== *)
theory Amount
  imports RustText
begin

text \<open>
  Money. \<open>cloudledger-core/src/amount.rs\<close> holds the currency code and the money of the double-entry
  model (exported as \<open>LedgerMoney\<close>, here \<open>ledger_money\<close>); \<open>cloudledger-core/src/money.rs\<close> holds the
  money of the application model (exported as \<open>Money\<close>, here \<open>money\<close>). Amounts are \<open>i64\<close> minor units.
\<close>

section \<open>Currency codes (amount.rs)\<close>

datatype currency_code = CurrencyCode (code_str: string)

datatype currency_code_error = Empty | InvalidFormat string

text \<open>\<open>CurrencyCode::try_new\<close>; the error carries the value as it was given.\<close>

definition currency_try_new :: "string \<Rightarrow> (currency_code, currency_code_error) result" where
  "currency_try_new value =
     (if trim value = [] then Err Empty
      else let normalized = to_ascii_uppercase (trim value)
           in if length normalized \<noteq> 3 \<or> \<not> list_all is_ascii_uppercase normalized
              then Err (InvalidFormat value)
              else Ok (CurrencyCode normalized))"

text \<open>\<open>CurrencyCode::new\<close> panics where \<open>try_new\<close> fails.\<close>

definition currency_new :: "string \<Rightarrow> (currency_code, 'e) result" where
  "currency_new value =
     (case currency_try_new value of
        Ok c \<Rightarrow> Ok c
      | Err _ \<Rightarrow> Panic ''currency code must be a three-letter ISO style code''
      | Panic p \<Rightarrow> Panic p)"

definition valid_currency :: "string \<Rightarrow> bool" where
  "valid_currency s \<longleftrightarrow> length s = 3 \<and> list_all is_ascii_uppercase s"

section \<open>Money of the double-entry model (amount.rs)\<close>

record ledger_money =
  lm_currency :: currency_code
  minor_units :: i64

definition ledger_money_new :: "currency_code \<Rightarrow> i64 \<Rightarrow> ledger_money" where
  "ledger_money_new c n = \<lparr>lm_currency = c, minor_units = n\<rparr>"

definition ledger_money_zero :: "currency_code \<Rightarrow> ledger_money" where
  "ledger_money_zero c = ledger_money_new c 0"

definition is_positive :: "ledger_money \<Rightarrow> bool" where
  "is_positive m \<longleftrightarrow> 0 < sint (minor_units m)"

definition same_currency :: "ledger_money \<Rightarrow> ledger_money \<Rightarrow> bool" where
  "same_currency a b \<longleftrightarrow> lm_currency a = lm_currency b"

definition add_same_currency :: "ledger_money \<Rightarrow> ledger_money \<Rightarrow> ledger_money option" where
  "add_same_currency a b =
     (if \<not> same_currency a b then None
      else map_option (ledger_money_new (lm_currency a)) (checked_add_i64 (minor_units a) (minor_units b)))"

section \<open>Money of the application model (money.rs)\<close>

record money =
  amount_minor :: i64
  currency :: string

datatype money_error = InvalidCurrency | CurrencyMismatch | Overflow

text \<open>
  The \<open>Display\<close> text of the errors, as \<open>thiserror\<close> derives it from the attributes.
\<close>

fun money_error_text :: "money_error \<Rightarrow> string" where
  "money_error_text InvalidCurrency = ''currency must be a three-letter ISO code''"
| "money_error_text CurrencyMismatch = ''cannot combine different currencies''"
| "money_error_text Overflow = ''money amount overflowed''"

text \<open>\<open>Money::new\<close> maps the currency to upper case with the full Unicode table, \<open>upper\<close>.\<close>

definition money_new :: "(string \<Rightarrow> string) \<Rightarrow> i64 \<Rightarrow> string \<Rightarrow> (money, money_error) result" where
  "money_new upper n cur =
     (let c = upper (trim cur)
      in if length c \<noteq> 3 \<or> \<not> list_all is_ascii_uppercase c then Err InvalidCurrency
         else Ok \<lparr>amount_minor = n, currency = c\<rparr>)"

definition money_zero :: "(string \<Rightarrow> string) \<Rightarrow> string \<Rightarrow> (money, money_error) result" where
  "money_zero upper cur = money_new upper 0 cur"

definition money_checked_add :: "money \<Rightarrow> money \<Rightarrow> (money, money_error) result" where
  "money_checked_add a b =
     (if currency a \<noteq> currency b then Err CurrencyMismatch
      else attempt_pure (ok_or (checked_add_i64 (amount_minor a) (amount_minor b)) Overflow) id
        (\<lambda>n. Ok \<lparr>amount_minor = n, currency = currency a\<rparr>))"

definition money_absolute :: "money \<Rightarrow> money" where
  "money_absolute a = \<lparr>amount_minor = abs_i64 (amount_minor a), currency = currency a\<rparr>"

section \<open>Lemmas\<close>

lemma currency_try_new_Ok:
  "currency_try_new v = Ok c \<longleftrightarrow>
     trim v \<noteq> [] \<and> code_str c = to_ascii_uppercase (trim v) \<and> valid_currency (code_str c)"
  by (cases c) (auto simp: currency_try_new_def valid_currency_def Let_def)

lemma valid_currency_trim: "valid_currency s \<Longrightarrow> trim s = s"
  by (simp add: valid_currency_def list_all_iff trim_upper)

lemma valid_currency_upper: "valid_currency s \<Longrightarrow> to_ascii_uppercase s = s"
  by (simp add: valid_currency_def list_all_iff to_ascii_uppercase_upper)

lemma valid_currency_not_Nil: "valid_currency s \<Longrightarrow> s \<noteq> []"
  by (auto simp: valid_currency_def)

lemma money_new_Ok:
  "money_new upper n cur = Ok m \<longleftrightarrow>
     amount_minor m = n \<and> currency m = upper (trim cur) \<and> valid_currency (currency m)"
  by (cases m) (auto simp: money_new_def valid_currency_def Let_def)

lemma money_new_no_panic [simp]: "money_new upper n cur \<noteq> Panic p"
  by (simp add: money_new_def Let_def)

lemma money_checked_add_Ok:
  "money_checked_add a b = Ok c \<longleftrightarrow>
     currency a = currency b \<and> currency c = currency a
     \<and> checked_add_i64 (amount_minor a) (amount_minor b) = Some (amount_minor c)"
  by (cases c) (auto simp: money_checked_add_def attempt_pure_Ok)

lemma abs_i64_sint:
  assumes "sint a \<noteq> i64_min"
  shows "sint (abs_i64 a) = \<bar>sint a\<bar>"
proof (cases "sint a < 0")
  case True
  have "fits_i64 (- sint a)"
    using sint_fits [of a] assms True by (auto simp: fits_i64_def i64_min_def i64_max_def)
  moreover have "- a = word_of_int (- sint a)"
    by (simp flip: wi_hom_neg)
  ultimately have "sint (- a) = - sint a"
    by (simp only: sint_of_int_fits)
  with True show ?thesis by (simp add: abs_i64_def)
qed (simp add: abs_i64_def)

end
