(* ===== verification/Book.thy ===== *)
theory Book
  imports Ident Amount
begin

text \<open>
  \<open>cloudledger-core/src/ledger.rs\<close> (module \<open>book\<close>): ledgers of the double-entry model and their
  approval policy, and \<open>cloudledger-core/src/auth.rs\<close>: the roles a user has on a ledger and what a
  role permits.
\<close>

section \<open>Ledgers (ledger.rs)\<close>

datatype book_kind =
    PersonalPrivate user_id
  | CompanyPublic company_id

record approval_policy =
  company_entries_require_approval :: bool
  high_value_threshold :: ledger_money
  policy_min_approvals :: u8

definition policy_personal :: "currency_code \<Rightarrow> approval_policy" where
  "policy_personal base =
     \<lparr>company_entries_require_approval = False,
      high_value_threshold = ledger_money_new base (word_of_int i64_max),
      policy_min_approvals = 0\<rparr>"

definition policy_company :: "ledger_money \<Rightarrow> approval_policy" where
  "policy_company threshold =
     \<lparr>company_entries_require_approval = True,
      high_value_threshold = threshold,
      policy_min_approvals = 1\<rparr>"

definition with_min_approvals :: "u8 \<Rightarrow> approval_policy \<Rightarrow> approval_policy" where
  "with_min_approvals n p = p\<lparr>policy_min_approvals := max n 1\<rparr>"

record book_ledger =
  bl_id :: ledger_id
  bl_name :: string
  base_currency :: currency_code
  bl_kind :: book_kind
  approval_policy :: approval_policy

definition book_personal :: "ledger_id \<Rightarrow> user_id \<Rightarrow> string \<Rightarrow> currency_code \<Rightarrow> book_ledger" where
  "book_personal i owner name base =
     \<lparr>bl_id = i, bl_name = name, base_currency = base,
      bl_kind = PersonalPrivate owner, approval_policy = policy_personal base\<rparr>"

text \<open>\<open>Ledger::company\<close> asserts that the threshold is in the base currency.\<close>

definition book_company ::
  "ledger_id \<Rightarrow> company_id \<Rightarrow> string \<Rightarrow> currency_code \<Rightarrow> ledger_money \<Rightarrow> (book_ledger, 'e) result" where
  "book_company i company name base threshold =
     (if base \<noteq> lm_currency threshold
      then Panic ''company approval threshold must use the ledger base currency''
      else Ok \<lparr>bl_id = i, bl_name = name, base_currency = base,
               bl_kind = CompanyPublic company, approval_policy = policy_company threshold\<rparr>)"

section \<open>Roles and permissions (auth.rs)\<close>

datatype ledger_role = LOwner | LBookkeeper | LApprover | LAuditor

text \<open>The derived order is the order of declaration; \<open>roles.sort()\<close> uses it.\<close>

fun role_rank :: "ledger_role \<Rightarrow> nat" where
  "role_rank LOwner = 0"
| "role_rank LBookkeeper = 1"
| "role_rank LApprover = 2"
| "role_rank LAuditor = 3"

lemma role_rank_inj: "role_rank a = role_rank b \<longleftrightarrow> a = b"
  by (cases a; cases b) auto

instantiation ledger_role :: linorder
begin

definition less_eq_ledger_role :: "ledger_role \<Rightarrow> ledger_role \<Rightarrow> bool" where
  "less_eq_ledger_role a b \<longleftrightarrow> role_rank a \<le> role_rank b"

definition less_ledger_role :: "ledger_role \<Rightarrow> ledger_role \<Rightarrow> bool" where
  "less_ledger_role a b \<longleftrightarrow> role_rank a < role_rank b"

instance
  by standard (auto simp: less_eq_ledger_role_def less_ledger_role_def role_rank_inj)

end

record ledger_member =
  mem_ledger :: ledger_id
  mem_user :: user_id
  mem_role :: ledger_role

definition ledger_member_new :: "ledger_id \<Rightarrow> user_id \<Rightarrow> ledger_role \<Rightarrow> ledger_member" where
  "ledger_member_new l u r = \<lparr>mem_ledger = l, mem_user = u, mem_role = r\<rparr>"

datatype ledger_action =
  LViewLedger | LCreateDraft | LSubmitEntry | LApproveEntry | LPostWithoutApproval | LManageMembers

text \<open>The loop of \<open>roles_for\<close> over the memberships.\<close>

fun collect_roles :: "book_ledger \<Rightarrow> user_id \<Rightarrow> ledger_member list \<Rightarrow> ledger_role list \<Rightarrow> ledger_role list" where
  "collect_roles l u [] roles = roles"
| "collect_roles l u (m # ms) roles =
     collect_roles l u ms
       (if mem_ledger m = bl_id l \<and> mem_user m = u \<and> mem_role m \<notin> set roles
        then roles @ [mem_role m] else roles)"

definition roles_for :: "book_ledger \<Rightarrow> ledger_member list \<Rightarrow> user_id \<Rightarrow> ledger_role list" where
  "roles_for l members u =
     sort (collect_roles l u members
       (case bl_kind l of
          PersonalPrivate owner \<Rightarrow> if owner = u then [LOwner] else []
        | CompanyPublic _ \<Rightarrow> []))"

fun role_allows :: "ledger_role \<Rightarrow> ledger_action \<Rightarrow> bool" where
  "role_allows LOwner a = True"
| "role_allows LBookkeeper a = (a \<in> {LViewLedger, LCreateDraft, LSubmitEntry})"
| "role_allows LApprover a = (a \<in> {LViewLedger, LApproveEntry})"
| "role_allows LAuditor a = (a = LViewLedger)"

definition has_permission :: "book_ledger \<Rightarrow> ledger_member list \<Rightarrow> user_id \<Rightarrow> ledger_action \<Rightarrow> bool" where
  "has_permission l members u a \<longleftrightarrow> list_ex (\<lambda>r. role_allows r a) (roles_for l members u)"

section \<open>Lemmas\<close>

text \<open>The abstract meaning of \<open>roles_for\<close>: the roles granted by ownership or by a membership.\<close>

definition granted :: "book_ledger \<Rightarrow> ledger_member list \<Rightarrow> user_id \<Rightarrow> ledger_role \<Rightarrow> bool" where
  "granted l members u r \<longleftrightarrow>
     (r = LOwner \<and> bl_kind l = PersonalPrivate u)
   \<or> (\<exists>m \<in> set members. mem_ledger m = bl_id l \<and> mem_user m = u \<and> mem_role m = r)"

lemma set_collect_roles:
  "set (collect_roles l u ms roles) =
     set roles \<union> {r. \<exists>m \<in> set ms. mem_ledger m = bl_id l \<and> mem_user m = u \<and> mem_role m = r}"
  by (induction l u ms roles rule: collect_roles.induct) auto

lemma distinct_collect_roles: "distinct roles \<Longrightarrow> distinct (collect_roles l u ms roles)"
  by (induction l u ms roles rule: collect_roles.induct) auto

lemma roles_for_granted: "r \<in> set (roles_for l ms u) \<longleftrightarrow> granted l ms u r"
  by (auto simp: roles_for_def set_collect_roles granted_def split: book_kind.splits)

lemma roles_for_sorted: "sorted (roles_for l ms u)"
  by (simp add: roles_for_def)

lemma roles_for_distinct: "distinct (roles_for l ms u)"
  by (auto simp: roles_for_def intro!: distinct_collect_roles split: book_kind.splits)

lemma has_permission_iff: "has_permission l ms u a \<longleftrightarrow> (\<exists>r. granted l ms u r \<and> role_allows r a)"
  by (auto simp: has_permission_def list_ex_iff roles_for_granted)

lemma approve_roles: "role_allows r LApproveEntry \<longleftrightarrow> r = LOwner \<or> r = LApprover"
  by (cases r) auto

lemma submit_roles: "role_allows r LSubmitEntry \<longleftrightarrow> r = LOwner \<or> r = LBookkeeper"
  by (cases r) auto

lemma post_roles: "role_allows r LPostWithoutApproval \<longleftrightarrow> r = LOwner"
  by (cases r) auto

lemma view_roles: "role_allows r LViewLedger"
  by (cases r) auto

lemma create_roles: "role_allows r LCreateDraft \<longleftrightarrow> r = LOwner \<or> r = LBookkeeper"
  by (cases r) auto

lemma manage_roles: "role_allows r LManageMembers \<longleftrightarrow> r = LOwner"
  by (cases r) auto

lemma book_company_Ok:
  "book_company i c name base t = Ok l \<Longrightarrow>
     base_currency l = lm_currency (high_value_threshold (approval_policy l)) \<and> bl_kind l = CompanyPublic c"
  by (auto simp: book_company_def policy_company_def split: if_splits)

end
