(* ===== verification/Journal.thy ===== *)
theory Journal
  imports Book
begin

text \<open>
  \<open>cloudledger-core/src/journal.rs\<close>: journal entries with debit and credit lines, and the
  validation that makes an entry balance.
\<close>

datatype book_account_kind = Asset | Liability | Equity | Revenue | BookExpense

record book_account =
  ba_id :: account_id
  ba_ledger :: ledger_id
  ba_code :: string
  ba_name :: string
  ba_kind :: book_account_kind

definition book_account_new ::
  "account_id \<Rightarrow> ledger_id \<Rightarrow> string \<Rightarrow> string \<Rightarrow> book_account_kind \<Rightarrow> book_account" where
  "book_account_new i l code name kind =
     \<lparr>ba_id = i, ba_ledger = l, ba_code = code, ba_name = name, ba_kind = kind\<rparr>"

datatype posting_side = Debit | Credit

record journal_line =
  jl_account :: account_id
  jl_side :: posting_side
  jl_amount :: ledger_money
  jl_memo :: "string option"

definition journal_line_new ::
  "account_id \<Rightarrow> posting_side \<Rightarrow> ledger_money \<Rightarrow> string option \<Rightarrow> journal_line" where
  "journal_line_new a side amount memo =
     \<lparr>jl_account = a, jl_side = side, jl_amount = amount, jl_memo = memo\<rparr>"

datatype journal_status = JDraft | JPendingApproval | JPosted | JRejected | JVoided

record journal_entry =
  je_id :: journal_entry_id
  je_ledger :: ledger_id
  je_created_by :: user_id
  je_description :: string
  je_lines :: "journal_line list"
  je_status :: journal_status

definition journal_entry_new ::
  "journal_entry_id \<Rightarrow> ledger_id \<Rightarrow> user_id \<Rightarrow> string \<Rightarrow> journal_line list \<Rightarrow> journal_entry" where
  "journal_entry_new i l creator description ls =
     \<lparr>je_id = i, je_ledger = l, je_created_by = creator, je_description = description,
      je_lines = ls, je_status = JDraft\<rparr>"

text \<open>The totals are \<open>i128\<close> in the code.\<close>

datatype journal_validation_error =
    TooFewLines
  | NonPositiveAmount
  | MixedCurrencies
  | Unbalanced int int

definition je_currency :: "journal_entry \<Rightarrow> currency_code option" where
  "je_currency e = (case je_lines e of [] \<Rightarrow> None | l # _ \<Rightarrow> Some (lm_currency (jl_amount l)))"

text \<open>
  The loop of \<open>validate\<close>, with its two accumulators. \<open>i128\<close> addition cannot overflow here: the
  lemma \<open>totals_fit_i128\<close> below bounds the accumulators for any list that fits in memory.
\<close>

fun validate_lines ::
  "currency_code \<Rightarrow> journal_line list \<Rightarrow> int \<Rightarrow> int \<Rightarrow> (int \<times> int, journal_validation_error) result" where
  "validate_lines cur [] debit credit = Ok (debit, credit)"
| "validate_lines cur (l # ls) debit credit =
     (if \<not> is_positive (jl_amount l) then Err NonPositiveAmount
      else if lm_currency (jl_amount l) \<noteq> cur then Err MixedCurrencies
      else case jl_side l of
             Debit \<Rightarrow> validate_lines cur ls (debit + sint (minor_units (jl_amount l))) credit
           | Credit \<Rightarrow> validate_lines cur ls debit (credit + sint (minor_units (jl_amount l))))"

definition validate :: "journal_entry \<Rightarrow> (unit, journal_validation_error) result" where
  "validate e =
     (if length (je_lines e) < 2 then Err TooFewLines
      else attempt_pure (ok_or (je_currency e) TooFewLines) id (\<lambda>cur.
        attempt_pure (validate_lines cur (je_lines e) 0 0) id (\<lambda>(debit, credit).
          if debit \<noteq> credit then Err (Unbalanced debit credit) else Ok ())))"

text \<open>\<open>max_by_key\<close> returns the last of several maximal elements.\<close>

fun max_by_units :: "ledger_money list \<Rightarrow> ledger_money option" where
  "max_by_units [] = None"
| "max_by_units (m # ms) =
     (case max_by_units ms of
        None \<Rightarrow> Some m
      | Some b \<Rightarrow> Some (if sint (minor_units b) < sint (minor_units m) then m else b))"

definition largest_line_amount :: "journal_entry \<Rightarrow> ledger_money option" where
  "largest_line_amount e = max_by_units (map jl_amount (je_lines e))"

section \<open>What a valid entry is\<close>

definition side_total :: "posting_side \<Rightarrow> journal_line list \<Rightarrow> int" where
  "side_total side ls = (\<Sum>l \<leftarrow> filter (\<lambda>l. jl_side l = side) ls. sint (minor_units (jl_amount l)))"

definition line_ok :: "currency_code \<Rightarrow> journal_line \<Rightarrow> bool" where
  "line_ok cur l \<longleftrightarrow> is_positive (jl_amount l) \<and> lm_currency (jl_amount l) = cur"

definition balanced_entry :: "journal_entry \<Rightarrow> bool" where
  "balanced_entry e \<longleftrightarrow>
     2 \<le> length (je_lines e)
   \<and> (\<exists>cur. \<forall>l \<in> set (je_lines e). line_ok cur l)
   \<and> side_total Debit (je_lines e) = side_total Credit (je_lines e)"

lemma side_total_Nil [simp]: "side_total side [] = 0"
  by (simp add: side_total_def)

lemma side_total_Cons [simp]:
  "side_total side (l # ls) =
     (if jl_side l = side then sint (minor_units (jl_amount l)) else 0) + side_total side ls"
  by (simp add: side_total_def)

lemma validate_lines_Ok:
  "validate_lines cur ls d c = Ok (d', c') \<longleftrightarrow>
     (\<forall>l \<in> set ls. line_ok cur l) \<and> d' = d + side_total Debit ls \<and> c' = c + side_total Credit ls"
  by (induction cur ls d c rule: validate_lines.induct)
    (auto simp: line_ok_def split: posting_side.splits)

lemma validate_lines_no_panic [simp]: "validate_lines cur ls d c \<noteq> Panic p"
  by (induction cur ls d c rule: validate_lines.induct) (auto split: posting_side.splits)

lemma je_currency_first:
  "je_currency e = Some cur \<Longrightarrow> \<exists>l \<in> set (je_lines e). lm_currency (jl_amount l) = cur"
  by (auto simp: je_currency_def split: list.splits)

lemma validate_Ok: "validate e = Ok () \<longleftrightarrow> balanced_entry e"
proof (cases "je_lines e")
  case (Cons l ls)
  let ?cur = "lm_currency (jl_amount l)"
  have "validate e = Ok () \<longleftrightarrow> 2 \<le> length (je_lines e) \<and>
      (\<forall>l \<in> set (je_lines e). line_ok ?cur l) \<and> side_total Debit (je_lines e) = side_total Credit (je_lines e)"
    using Cons
    by (auto simp: validate_def je_currency_def attempt_pure_Ok validate_lines_Ok not_less Suc_le_eq
        split: if_splits simp del: validate_lines.simps side_total_Cons)
  moreover have "(\<forall>l \<in> set (je_lines e). line_ok ?cur l) \<longleftrightarrow> (\<exists>cur. \<forall>l \<in> set (je_lines e). line_ok cur l)"
    using Cons by (auto simp: line_ok_def)
  ultimately show ?thesis by (auto simp: balanced_entry_def)
qed (simp add: validate_def balanced_entry_def)

lemma validate_no_panic [simp]: "validate e \<noteq> Panic p"
  by (auto simp: validate_def attempt_pure_def split: result.splits option.splits)

lemma validate_lines_not_unbalanced [simp]: "validate_lines cur ls d c \<noteq> Err (Unbalanced x y)"
  by (induction cur ls d c rule: validate_lines.induct) (auto split: posting_side.splits)

lemma validate_Unbalanced:
  "validate e = Err (Unbalanced d c) \<Longrightarrow>
     d = side_total Debit (je_lines e) \<and> c = side_total Credit (je_lines e) \<and> d \<noteq> c"
  by (auto simp: validate_def attempt_pure_def validate_lines_Ok split: result.splits option.splits if_splits)

lemma max_by_units_in: "max_by_units ms = Some m \<Longrightarrow> m \<in> set ms"
  by (induction ms arbitrary: m) (auto split: option.splits if_splits)

lemma max_by_units_None: "max_by_units ms = None \<longleftrightarrow> ms = []"
  by (cases ms) (auto split: option.splits)

lemma max_by_units_max:
  "max_by_units ms = Some m \<Longrightarrow> x \<in> set ms \<Longrightarrow> sint (minor_units x) \<le> sint (minor_units m)"
proof (induction ms arbitrary: m x)
  case (Cons a ms)
  show ?case
  proof (cases "max_by_units ms")
    case None
    with Cons.prems show ?thesis by (auto simp: max_by_units_None)
  next
    case (Some b)
    have "x \<in> set ms \<Longrightarrow> sint (minor_units x) \<le> sint (minor_units b)"
      using Cons.IH [OF Some] .
    with Cons.prems Some show ?thesis by (auto split: if_splits)
  qed
qed simp

text \<open>
  The accumulators of \<open>validate\<close> stay far inside \<open>i128\<close>: a vector has fewer than \<open>2 ^ 63\<close> elements.
\<close>

lemma side_total_bound: "\<bar>side_total side ls\<bar> \<le> int (length ls) * 2 ^ 63"
proof (induction ls)
  case (Cons l ls)
  have "\<bar>sint (minor_units (jl_amount l))\<bar> \<le> 2 ^ 63"
    using sint_fits [of "minor_units (jl_amount l)"]
    by (auto simp: fits_i64_def i64_min_def i64_max_def)
  moreover have "\<bar>sint (minor_units (jl_amount l)) + side_total side ls\<bar>
      \<le> \<bar>sint (minor_units (jl_amount l))\<bar> + \<bar>side_total side ls\<bar>"
    by (rule abs_triangle_ineq)
  ultimately have "\<bar>side_total side (l # ls)\<bar> \<le> 2 ^ 63 + \<bar>side_total side ls\<bar>"
    by simp
  also have "\<dots> \<le> int (length (l # ls)) * 2 ^ 63"
    using Cons by (simp add: algebra_simps)
  finally show ?case .
qed simp

lemma totals_fit_i128:
  assumes "length ls < 2 ^ 63"
  shows "\<bar>side_total side ls\<bar> < 2 ^ 127"
proof -
  have "int (length ls) * 2 ^ 63 < 2 ^ 63 * 2 ^ 63"
    using assms by (simp flip: of_nat_less_iff)
  with side_total_bound [of side ls] show ?thesis by simp
qed

end
