(* ===== verification/Machine.thy ===== *)
theory Machine
  imports Prelude
begin

text \<open>
  The contract that every stateful component of the model meets: an operation takes the state and an
  input and yields the next state, and the component's well-formedness is kept by every operation. The
  consequences for whole histories are proved once here, by induction on the history, and each
  component interprets the locale on its own operations.
\<close>

definition run :: "('s \<Rightarrow> 'i \<Rightarrow> 's) \<Rightarrow> 's \<Rightarrow> 'i list \<Rightarrow> 's" where
  "run step s is = fold (\<lambda>i s. step s i) is s"

lemma run_Nil [simp]: "run step s [] = s"
  by (simp add: run_def)

lemma run_Cons [simp]: "run step s (i # is) = run step (step s i) is"
  by (simp add: run_def)

lemma run_append [simp]: "run step s (is @ js) = run step (run step s is) js"
  by (simp add: run_def)

text \<open>A component whose operations keep an invariant, for the inputs the callers may give.\<close>

locale invariant_machine =
  fixes step :: "'s \<Rightarrow> 'i \<Rightarrow> 's"
    and inv :: "'s \<Rightarrow> bool"
    and admissible :: "'i \<Rightarrow> bool"
  assumes step_inv: "inv s \<Longrightarrow> admissible i \<Longrightarrow> inv (step s i)"
begin

lemma run_inv: "inv s \<Longrightarrow> \<forall>i \<in> set is. admissible i \<Longrightarrow> inv (run step s is)"
  by (induction "is" arbitrary: s) (auto intro: step_inv)

text \<open>What the invariant implies holds at the end of every history and at every point within it.\<close>

lemma run_safe:
  assumes "\<And>s. inv s \<Longrightarrow> P s" "inv s" "\<forall>i \<in> set is. admissible i"
  shows "P (run step s (take n is))"
proof -
  have "\<forall>i \<in> set (take n is). admissible i"
    using assms(3) by (meson in_set_takeD)
  then show ?thesis using assms(1) run_inv [OF assms(2)] by blast
qed

end

text \<open>
  A component whose states only move forward along a preorder (a status that is final once reached, a
  store that only grows).
\<close>

locale forward_machine = invariant_machine +
  fixes le :: "'a \<Rightarrow> 'a \<Rightarrow> bool"
  assumes le_refl: "le s s"
    and le_trans: "le s t \<Longrightarrow> le t u \<Longrightarrow> le s u"
    and step_le: "inv s \<Longrightarrow> admissible i \<Longrightarrow> le s (step s i)"
begin

lemma run_le: "inv s \<Longrightarrow> \<forall>i \<in> set is. admissible i \<Longrightarrow> le s (run step s is)"
proof (induction "is" arbitrary: s)
  case (Cons i js)
  then have "le s (step s i)" "le (step s i) (run step (step s i) js)"
    using step_inv step_le by auto
  then show ?case using le_trans by simp
qed (simp add: le_refl)

lemma run_le_take:
  assumes "inv s" "\<forall>i \<in> set is. admissible i"
  shows "le (run step s (take n is)) (run step s is)"
proof -
  have t: "\<forall>i \<in> set (take n is). admissible i" and d: "\<forall>i \<in> set (drop n is). admissible i"
    using assms(2) by (meson in_set_takeD in_set_dropD)+
  have "run step s is = run step (run step s (take n is)) (drop n is)"
    by (simp flip: run_append)
  then show ?thesis using run_le [OF run_inv [OF assms(1) t] d] by simp
qed

end

end
