(* ===== verification/Approval.thy ===== *)
theory Approval
  imports Journal Machine
begin

text \<open>
  \<open>cloudledger-core/src/approval.rs\<close>: which approval an entry needs, and the approval request, a
  state machine that collects the decisions of the approvers.
\<close>

datatype approval_reason = CompanyLedger | HighValueCompanyEntry

record approval_requirement_detail =
  min_approvals :: u8
  required_roles :: "ledger_role list"
  reason :: approval_reason

datatype approval_requirement_t =
    NotRequired
  | Required approval_requirement_detail

definition accepts_any_role :: "approval_requirement_detail \<Rightarrow> ledger_role list \<Rightarrow> bool" where
  "accepts_any_role r roles \<longleftrightarrow>
     list_ex (\<lambda>role. list_ex (\<lambda>required. required = role) (required_roles r)) roles"

definition accepted_role :: "approval_requirement_detail \<Rightarrow> ledger_role list \<Rightarrow> ledger_role option" where
  "accepted_role r roles = List.find (\<lambda>required. required \<in> set roles) (required_roles r)"

datatype approval_vote = Approve | Reject

datatype approval_status = ASPending | ASApproved | ASRejected | ASCancelled

record approval_decision =
  approver_id :: user_id
  decision_role :: ledger_role
  vote :: approval_vote
  decision_note :: "string option"

definition approval_decision_new ::
  "user_id \<Rightarrow> ledger_role \<Rightarrow> approval_vote \<Rightarrow> string option \<Rightarrow> approval_decision" where
  "approval_decision_new u role v note =
     \<lparr>approver_id = u, decision_role = role, vote = v, decision_note = note\<rparr>"

record approval_request =
  ar_id :: approval_id
  ar_ledger :: ledger_id
  ar_entry :: journal_entry_id
  ar_submitted_by :: user_id
  requirement :: approval_requirement_detail
  ar_status :: approval_status
  decisions :: "approval_decision list"

definition approval_request_new ::
  "approval_id \<Rightarrow> ledger_id \<Rightarrow> journal_entry_id \<Rightarrow> user_id \<Rightarrow> approval_requirement_detail
     \<Rightarrow> approval_request" where
  "approval_request_new i l e submitter r =
     \<lparr>ar_id = i, ar_ledger = l, ar_entry = e, ar_submitted_by = submitter, requirement = r,
      ar_status = ASPending, decisions = []\<rparr>"

datatype approval_decision_error = AlreadyClosed | DuplicateApprover | RoleNotAccepted

definition approval_count :: "approval_request \<Rightarrow> nat" where
  "approval_count r = length (filter (\<lambda>d. vote d = Approve) (decisions r))"

definition add_decision ::
  "approval_request \<Rightarrow> approval_decision \<Rightarrow> (unit, approval_decision_error) result \<times> approval_request" where
  "add_decision r d =
     (if ar_status r \<noteq> ASPending then (Err AlreadyClosed, r)
      else if list_ex (\<lambda>x. approver_id x = approver_id d) (decisions r) then (Err DuplicateApprover, r)
      else if decision_role d \<notin> set (required_roles (requirement r)) then (Err RoleNotAccepted, r)
      else let r = r\<lparr>decisions := decisions r @ [d]\<rparr> in
        if list_ex (\<lambda>x. vote x = Reject) (decisions r) then (Ok (), r\<lparr>ar_status := ASRejected\<rparr>)
        else if unat (min_approvals (requirement r)) \<le> approval_count r
             then (Ok (), r\<lparr>ar_status := ASApproved\<rparr>)
        else (Ok (), r))"

definition is_high_value :: "book_ledger \<Rightarrow> journal_entry \<Rightarrow> bool" where
  "is_high_value l e =
     (case largest_line_amount e of
        None \<Rightarrow> False
      | Some amount \<Rightarrow>
          lm_currency amount = lm_currency (high_value_threshold (approval_policy l))
          \<and> sint (minor_units (high_value_threshold (approval_policy l))) \<le> sint (minor_units amount))"

definition approval_requirement ::
  "book_ledger \<Rightarrow> ledger_role list \<Rightarrow> journal_entry \<Rightarrow> approval_requirement_t" where
  "approval_requirement l actor_roles e =
     (case bl_kind l of
        PersonalPrivate _ \<Rightarrow> NotRequired
      | CompanyPublic _ \<Rightarrow>
          if is_high_value l e then
            Required \<lparr>min_approvals = max (policy_min_approvals (approval_policy l)) 1,
                      required_roles = [LOwner], reason = HighValueCompanyEntry\<rparr>
          else if company_entries_require_approval (approval_policy l) \<and> LOwner \<notin> set actor_roles then
            Required \<lparr>min_approvals = max (policy_min_approvals (approval_policy l)) 1,
                      required_roles = [LApprover, LOwner], reason = CompanyLedger\<rparr>
          else NotRequired)"

section \<open>The request as a state machine\<close>

definition decide :: "approval_request \<Rightarrow> approval_decision \<Rightarrow> approval_request" where
  "decide r d = snd (add_decision r d)"

text \<open>
  The invariant: one decision per approver, each in an accepted role, and the status is determined by
  the decisions.
\<close>

definition rejected :: "approval_request \<Rightarrow> bool" where
  "rejected r \<longleftrightarrow> (\<exists>d \<in> set (decisions r). vote d = Reject)"

text \<open>How many approvals close the request: at least one decision is always needed.\<close>

definition quorum :: "approval_request \<Rightarrow> nat" where
  "quorum r = max 1 (unat (min_approvals (requirement r)))"

definition request_ok :: "approval_request \<Rightarrow> bool" where
  "request_ok r \<longleftrightarrow>
     distinct (map approver_id (decisions r))
   \<and> (\<forall>d \<in> set (decisions r). decision_role d \<in> set (required_roles (requirement r)))
   \<and> (case ar_status r of
        ASPending \<Rightarrow> \<not> rejected r \<and> length (decisions r) < quorum r
      | ASApproved \<Rightarrow> \<not> rejected r \<and> length (decisions r) = quorum r
      | ASRejected \<Rightarrow> rejected r \<and> vote (last (decisions r)) = Reject
          \<and> Reject \<notin> vote ` set (butlast (decisions r)) \<and> length (decisions r) \<le> quorum r
      | ASCancelled \<Rightarrow> False)"

text \<open>A request never goes back: its identity stays, a closed one stays as it is, decisions are kept.\<close>

definition request_le :: "approval_request \<Rightarrow> approval_request \<Rightarrow> bool" where
  "request_le r r' \<longleftrightarrow>
     ar_id r' = ar_id r \<and> ar_ledger r' = ar_ledger r \<and> ar_entry r' = ar_entry r
   \<and> ar_submitted_by r' = ar_submitted_by r \<and> requirement r' = requirement r
   \<and> (ar_status r \<noteq> ASPending \<longrightarrow> r' = r)
   \<and> (\<exists>ds. decisions r' = decisions r @ ds)"

lemma list_ex_key: "list_ex (\<lambda>x. f x = a) xs \<longleftrightarrow> a \<in> f ` set xs"
  by (auto simp: list_ex_iff)

lemma request_new_ok: "request_ok (approval_request_new i l e s q)"
  by (simp add: request_ok_def approval_request_new_def rejected_def quorum_def)

lemma add_decision_Ok:
  "fst (add_decision r d) = Ok () \<longleftrightarrow>
     ar_status r = ASPending \<and> approver_id d \<notin> approver_id ` set (decisions r)
   \<and> decision_role d \<in> set (required_roles (requirement r))"
  by (auto simp: add_decision_def Let_def list_ex_key)

lemma add_decision_Err: "fst (add_decision r d) = Err x \<Longrightarrow> decide r d = r"
  by (auto simp: add_decision_def decide_def Let_def split: if_splits)

lemma add_decision_no_panic: "fst (add_decision r d) \<noteq> Panic p"
  by (auto simp: add_decision_def Let_def)

lemma decide_unless_Ok: "fst (add_decision r d) \<noteq> Ok () \<Longrightarrow> decide r d = r"
  by (cases "fst (add_decision r d)") (auto simp: add_decision_Err add_decision_no_panic)

lemma decide_decisions:
  "fst (add_decision r d) = Ok () \<Longrightarrow> decisions (decide r d) = decisions r @ [d]"
  by (auto simp: add_decision_def decide_def Let_def split: if_splits)

lemma decide_frame [simp, frame]:
  "ar_id (decide r d) = ar_id r" "ar_ledger (decide r d) = ar_ledger r"
  "ar_entry (decide r d) = ar_entry r" "ar_submitted_by (decide r d) = ar_submitted_by r"
  "requirement (decide r d) = requirement r"
  by (simp_all add: decide_def add_decision_def Let_def)

lemma rejected_alt: "rejected r \<longleftrightarrow> Reject \<in> vote ` set (decisions r)"
  by (simp add: rejected_def image_iff eq_commute)

lemma count_not_rejected: "\<not> rejected r \<Longrightarrow> approval_count r = length (decisions r)"
proof -
  assume "\<not> rejected r"
  then have "\<forall>d \<in> set (decisions r). vote d = Approve"
    unfolding rejected_def by (metis approval_vote.exhaust)
  then show ?thesis by (simp add: approval_count_def)
qed

lemma decide_status:
  assumes "request_ok r" "fst (add_decision r d) = Ok ()"
  shows "ar_status (decide r d) =
    (if vote d = Reject then ASRejected
     else if unat (min_approvals (requirement r)) \<le> Suc (approval_count r) then ASApproved
     else ASPending)"
proof -
  have "\<not> rejected r" "ar_status r = ASPending"
    using assms by (auto simp: request_ok_def add_decision_Ok)
  moreover have "approver_id d \<notin> approver_id ` set (decisions r)"
    "decision_role d \<in> set (required_roles (requirement r))"
    using assms(2) by (simp_all add: add_decision_Ok)
  ultimately show ?thesis
    by (cases "vote d")
      (simp_all add: decide_def add_decision_def Let_def rejected_alt list_ex_key list_ex_iff approval_count_def)
qed

lemma decide_ok: "request_ok r \<Longrightarrow> request_ok (decide r d)"
proof (cases "fst (add_decision r d) = Ok ()")
  case True
  assume ok: "request_ok r"
  have pending: "ar_status r = ASPending" "approver_id d \<notin> approver_id ` set (decisions r)"
    "decision_role d \<in> set (required_roles (requirement r))"
    using True by (simp_all add: add_decision_Ok)
  have nr: "\<not> rejected r" and len: "length (decisions r) < quorum r"
    using ok pending by (auto simp: request_ok_def)
  have ds: "decisions (decide r d) = decisions r @ [d]"
    using decide_decisions [OF True] .
  have rej: "rejected (decide r d) \<longleftrightarrow> vote d = Reject"
    using nr ds by (auto simp: rejected_def)
  have q: "quorum (decide r d) = quorum r"
    by (simp add: quorum_def)
  have st: "ar_status (decide r d) =
    (if vote d = Reject then ASRejected else if quorum r \<le> Suc (length (decisions r)) then ASApproved else ASPending)"
    using decide_status [OF ok True] count_not_rejected [OF nr] by (auto simp: quorum_def)
  show ?thesis
    using ok pending st rej ds q nr len
    by (simp add: request_ok_def rejected_alt Suc_le_eq)
qed (simp add: decide_unless_Ok)

lemma decide_le: "request_le r (decide r d)"
proof (cases "fst (add_decision r d) = Ok ()")
  case True
  then show ?thesis using decide_decisions [OF True] by (auto simp: request_le_def add_decision_Ok)
qed (simp add: decide_unless_Ok request_le_def)

lemma request_le_refl: "request_le r r"
  by (simp add: request_le_def)

lemma request_le_trans: "request_le r s \<Longrightarrow> request_le s t \<Longrightarrow> request_le r t"
  by (auto simp: request_le_def)

lemma request_ok_status:
  "request_ok r \<Longrightarrow> ar_status r =
     (if rejected r then ASRejected else if length (decisions r) = quorum r then ASApproved else ASPending)"
  by (auto simp: request_ok_def split: approval_status.splits)

interpretation approval: forward_machine decide request_ok "\<lambda>_. True" request_le
  by unfold_locales (auto simp: decide_ok decide_le request_le_refl intro: request_le_trans)

end
