(* ===== verification/OrdMap.thy ===== *)
theory OrdMap
  imports Prelude
begin

text \<open>
  \<open>BTreeMap<K, V>\<close>: a finite map that iterates in ascending key order. It is represented by its
  entries, sorted strictly by key; the type carries the sortedness, so that no operation has to
  assume it. \<open>get\<close>, \<open>insert\<close>, \<open>remove\<close>, \<open>retain\<close>, \<open>values\<close>, \<open>values_mut\<close> and \<open>collect\<close> are the
  operations of the standard library that the program uses. A \<open>HashMap\<close> is modelled by the same
  type; where its iteration order matters, the order is a parameter.
\<close>

section \<open>Sorted association lists\<close>

definition ascending :: "('k::linorder \<times> 'v) list \<Rightarrow> bool" where
  "ascending xs \<longleftrightarrow> sorted_wrt (<) (map fst xs)"

fun ins :: "'k::linorder \<Rightarrow> 'v \<Rightarrow> ('k \<times> 'v) list \<Rightarrow> ('k \<times> 'v) list" where
  "ins k v [] = [(k, v)]"
| "ins k v ((a, b) # xs) =
     (if k < a then (k, v) # (a, b) # xs else if k = a then (k, v) # xs else (a, b) # ins k v xs)"

lemma ascending_Nil [simp]: "ascending []"
  by (simp add: ascending_def)

lemma ascending_Cons [simp]:
  "ascending ((k, v) # xs) \<longleftrightarrow> (\<forall>p \<in> set xs. k < fst p) \<and> ascending xs"
  by (auto simp: ascending_def)

lemma set_ins: "fst ` set (ins k v xs) = insert k (fst ` set xs)"
  by (induction k v xs rule: ins.induct) auto

lemma ascending_ins: "ascending xs \<Longrightarrow> ascending (ins k v xs)"
proof (induction k v xs rule: ins.induct)
  case (2 k v a b xs)
  have "\<forall>p \<in> set (ins k v xs). a < fst p" if "a < k"
  proof
    fix p assume "p \<in> set (ins k v xs)"
    then have "fst p \<in> insert k (fst ` set xs)" by (metis image_eqI set_ins)
    with that "2.prems" show "a < fst p" by auto
  qed
  with 2 show ?case by (auto simp: not_less_iff_gr_or_eq)
qed simp

lemma ascending_filter: "ascending xs \<Longrightarrow> ascending (filter p xs)"
  by (induction xs) auto

lemma ascending_map_snd: "ascending (map (\<lambda>(k, v). (k, f k v)) xs) \<longleftrightarrow> ascending xs"
  by (simp add: ascending_def comp_def case_prod_unfold)

lemma ascending_distinct: "ascending xs \<Longrightarrow> distinct (map fst xs)"
  by (induction xs) (force simp: ascending_def)+

lemma map_of_ins: "map_of (ins k v xs) = (map_of xs)(k \<mapsto> v)"
  by (induction k v xs rule: ins.induct) (auto simp: fun_eq_iff)

lemma ascending_rebuild:
  assumes "ascending xs"
  shows "map (\<lambda>k. (k, the (map_of xs k))) (map fst xs) = xs"
proof -
  have "map_of xs (fst p) = Some (snd p)" if "p \<in> set xs" for p
    using that ascending_distinct [OF assms] by (metis map_of_is_SomeI prod.collapse)
  then show ?thesis by (simp add: comp_def map_idI)
qed

lemma ascending_eqI:
  assumes xs: "ascending xs" and ys: "ascending ys" and eq: "map_of xs = map_of ys"
  shows "xs = ys"
proof -
  have "dom (map_of xs) = dom (map_of ys)" by (simp add: eq)
  then have "set (map fst xs) = set (map fst ys)" by (simp add: dom_map_of_conv_image_fst)
  with xs ys have "map fst xs = map fst ys"
    by (auto simp: ascending_def intro: strict_sorted_equal)
  with ascending_rebuild [OF xs] ascending_rebuild [OF ys] eq show ?thesis by metis
qed

section \<open>The map type and its operations\<close>

typedef (overloaded) ('k::linorder, 'v) ord_map = "{xs :: ('k \<times> 'v) list. ascending xs}"
  morphisms om_entries OrdMap
  by (rule exI [where x = "[]"]) simp

setup_lifting type_definition_ord_map

lift_definition om_empty :: "('k::linorder, 'v) ord_map" is "[]"
  by simp

lift_definition om_get :: "('k::linorder, 'v) ord_map \<Rightarrow> 'k \<Rightarrow> 'v option" is map_of .

lift_definition om_insert :: "'k::linorder \<Rightarrow> 'v \<Rightarrow> ('k, 'v) ord_map \<Rightarrow> ('k, 'v) ord_map" is ins
  by (rule ascending_ins)

lift_definition om_retain :: "('k::linorder \<Rightarrow> 'v \<Rightarrow> bool) \<Rightarrow> ('k, 'v) ord_map \<Rightarrow> ('k, 'v) ord_map" is
  "\<lambda>p. filter (\<lambda>(k, v). p k v)"
  by (rule ascending_filter)

lift_definition om_map :: "('k::linorder \<Rightarrow> 'v \<Rightarrow> 'w) \<Rightarrow> ('k, 'v) ord_map \<Rightarrow> ('k, 'w) ord_map" is
  "\<lambda>f. map (\<lambda>(k, v). (k, f k v))"
  by (simp add: ascending_map_snd)

definition om_remove :: "'k::linorder \<Rightarrow> ('k, 'v) ord_map \<Rightarrow> ('k, 'v) ord_map" where
  "om_remove k m = om_retain (\<lambda>k' _. k' \<noteq> k) m"

definition om_values :: "('k::linorder, 'v) ord_map \<Rightarrow> 'v list" where
  "om_values m = map snd (om_entries m)"

definition om_keys :: "('k::linorder, 'v) ord_map \<Rightarrow> 'k list" where
  "om_keys m = map fst (om_entries m)"

definition om_size :: "('k::linorder, 'v) ord_map \<Rightarrow> nat" where
  "om_size m = length (om_entries m)"

definition om_contains :: "('k::linorder, 'v) ord_map \<Rightarrow> 'k \<Rightarrow> bool" where
  "om_contains m k \<longleftrightarrow> om_get m k \<noteq> None"

text \<open>\<open>get_mut(k)\<close> followed by a write through the reference; nothing happens without an entry.\<close>

definition om_modify :: "'k::linorder \<Rightarrow> ('v \<Rightarrow> 'v) \<Rightarrow> ('k, 'v) ord_map \<Rightarrow> ('k, 'v) ord_map" where
  "om_modify k f m = (case om_get m k of None \<Rightarrow> m | Some v \<Rightarrow> om_insert k (f v) m)"

text \<open>\<open>collect()\<close> of an iterator of pairs: later pairs overwrite earlier ones with the same key.\<close>

definition om_collect :: "('k::linorder \<times> 'v) list \<Rightarrow> ('k, 'v) ord_map" where
  "om_collect ps = fold (\<lambda>(k, v). om_insert k v) ps om_empty"

section \<open>Laws\<close>

lemma om_get_empty [simp]: "om_get om_empty k = None"
  by transfer simp

lemma om_get_insert [simp]: "om_get (om_insert k v m) k' = (if k' = k then Some v else om_get m k')"
  by transfer (auto simp: map_of_ins)

lemma map_of_filter_ascending:
  "ascending m \<Longrightarrow> map_of (filter (\<lambda>(k, v). p k v) m) k =
    (case map_of m k of None \<Rightarrow> None | Some v \<Rightarrow> if p k v then Some v else None)"
proof (induction m)
  case (Cons q m)
  then have "map_of m (fst q) = None"
    by (cases q) (auto simp: map_of_eq_None_iff)
  with Cons show ?case by (cases q) (auto split: option.splits if_splits)
qed simp

lemma om_get_retain:
  "om_get (om_retain p m) k = (case om_get m k of None \<Rightarrow> None | Some v \<Rightarrow> if p k v then Some v else None)"
  by transfer (rule map_of_filter_ascending)

lemma om_get_remove [simp]: "om_get (om_remove k m) k' = (if k' = k then None else om_get m k')"
  by (simp add: om_remove_def om_get_retain split: option.splits)

lemma om_get_map [simp]: "om_get (om_map f m) k = map_option (f k) (om_get m k)"
  by transfer (induct_tac m, auto)

lemma om_get_modify [simp]:
  "om_get (om_modify k f m) k' = (if k' = k then map_option f (om_get m k) else om_get m k')"
  by (simp add: om_modify_def split: option.splits)

lemma om_eqI: "(\<And>k. om_get m k = om_get m' k) \<Longrightarrow> m = m'"
  by transfer (auto intro: ascending_eqI)

lemma om_in_entries: "(k, v) \<in> set (om_entries m) \<longleftrightarrow> om_get m k = Some v"
  by transfer (simp add: ascending_distinct)

lemma om_in_values: "v \<in> set (om_values m) \<longleftrightarrow> (\<exists>k. om_get m k = Some v)"
  by (force simp: om_values_def simp flip: om_in_entries)

lemma om_in_keys: "k \<in> set (om_keys m) \<longleftrightarrow> om_get m k \<noteq> None"
  by (force simp: om_keys_def simp flip: om_in_entries)

lemma om_keys_sorted: "sorted_wrt (<) (om_keys m)"
  unfolding om_keys_def by transfer (simp add: ascending_def)

lemma om_keys_distinct: "distinct (om_keys m)"
  unfolding om_keys_def by transfer (rule ascending_distinct)

lemma om_values_empty [simp]: "om_values om_empty = []"
  unfolding om_values_def by transfer simp

lemma om_entries_empty [simp]: "om_entries om_empty = []"
  by transfer simp

lemma om_size_empty [simp]: "om_size om_empty = 0"
  by (simp add: om_size_def)

lemma om_contains_iff [simp]: "om_contains m k \<longleftrightarrow> (\<exists>v. om_get m k = Some v)"
  by (auto simp: om_contains_def)

lemma om_entries_insert: "om_entries (om_insert k v m) = ins k v (om_entries m)"
  by (rule om_insert.rep_eq)

lemma om_entries_map: "om_entries (om_map f m) = map (\<lambda>(k, v). (k, f k v)) (om_entries m)"
  by (rule om_map.rep_eq)

lemma om_values_map: "om_values (om_map (\<lambda>_. f) m) = map f (om_values m)"
  by (simp add: om_values_def om_entries_map comp_def case_prod_unfold)

lemma om_insert_same [simp]: "om_get m k = Some v \<Longrightarrow> om_insert k v m = m"
  by (rule om_eqI) auto

lemma om_insert_insert [simp]: "om_insert k v (om_insert k u m) = om_insert k v m"
  by (rule om_eqI) auto

lemma om_size_insert: "om_size (om_insert k v m) = (if om_contains m k then om_size m else Suc (om_size m))"
proof -
  have "length (om_entries n) = card (dom (om_get n))" for n :: "('a, 'b) ord_map"
  proof -
    have "dom (om_get n) = fst ` set (om_entries n)"
      by (force simp: dom_def simp flip: om_in_entries)
    moreover have "distinct (map fst (om_entries n))"
      using om_keys_distinct [of n] by (simp add: om_keys_def)
    ultimately show ?thesis by (metis distinct_card length_map list.set_map)
  qed
  moreover have "finite (dom (om_get m))"
    by (rule finite_subset [where B = "fst ` set (om_entries m)"])
      (force simp: dom_def simp flip: om_in_entries)+
  moreover have "dom (om_get (om_insert k v m)) = insert k (dom (om_get m))"
    by (auto split: if_splits)
  ultimately show ?thesis
    by (auto simp: om_size_def card_insert_if dom_def)
qed

lemma om_size_retain_le: "om_size (om_retain p m) \<le> om_size m"
  by (simp add: om_size_def om_retain.rep_eq)

text \<open>Sums over the values, as an entry is inserted or replaced.\<close>

lemma sum_list_ins:
  fixes f :: "'v \<Rightarrow> 'a::ab_group_add"
  assumes "ascending xs"
  shows "sum_list (map (f \<circ> snd) (ins k v xs)) =
    sum_list (map (f \<circ> snd) xs) + f v - (case map_of xs k of None \<Rightarrow> 0 | Some u \<Rightarrow> f u)"
  using assms
proof (induction k v xs rule: ins.induct)
  case (2 k v a b xs)
  consider "k < a" | "k = a" | "a < k" by force
  then show ?case
  proof cases
    case 1
    then have "map_of xs k = None"
      using "2.prems" by (force simp: map_of_eq_None_iff)
    with 1 show ?thesis by auto
  next
    case 2
    then show ?thesis by simp
  next
    case 3
    then have *: "\<not> k < a" "k \<noteq> a" by auto
    with 2 show ?thesis by (simp add: algebra_simps)
  qed
qed simp

lemma om_sum_insert:
  fixes f :: "'v \<Rightarrow> 'a::ab_group_add"
  shows "sum_list (map f (om_values (om_insert k v m))) =
    sum_list (map f (om_values m)) + f v - (case om_get m k of None \<Rightarrow> 0 | Some u \<Rightarrow> f u)"
  unfolding om_values_def map_map
  by transfer (rule sum_list_ins)

section \<open>Keyed stores\<close>

text \<open>
  The contract of every table keyed by a field of its rows: a row saved under its key is the one
  that is read back, and the other rows stay. What a client needs follows once and for all: after
  any sequence of saves a key holds the last row saved under it.
\<close>

locale keyed_store =
  fixes get :: "'s \<Rightarrow> 'k \<Rightarrow> 'v option"
    and put :: "'v \<Rightarrow> 's \<Rightarrow> 's"
    and key :: "'v \<Rightarrow> 'k"
  assumes get_put_same: "get (put v s) (key v) = Some v"
    and get_put_other: "k \<noteq> key v \<Longrightarrow> get (put v s) k = get s k"
begin

lemma get_put: "get (put v s) k = (if k = key v then Some v else get s k)"
  by (simp add: get_put_same get_put_other)

lemma get_fold_put:
  "get (fold put vs s) k = (case List.find (\<lambda>v. key v = k) (rev vs) of None \<Rightarrow> get s k | Some v \<Rightarrow> Some v)"
proof (induction vs rule: rev_induct)
  case (snoc v vs)
  then show ?case by (auto simp: get_put)
qed simp

lemma keyed_put: "(\<And>k v. get s k = Some v \<Longrightarrow> key v = k) \<Longrightarrow> get (put u s) k = Some v \<Longrightarrow> key v = k"
  by (auto simp: get_put split: if_splits)

end

interpretation om_store: keyed_store "om_get" "\<lambda>v m. om_insert (f v) v m" f for f :: "'v \<Rightarrow> 'k::linorder"
  by unfold_locales auto

lemma om_get_collect_keyed:
  "om_get (om_collect (map (\<lambda>v. (f v, v)) vs)) k = List.find (\<lambda>v. f v = k) (rev vs)"
proof -
  have "om_collect (map (\<lambda>v. (f v, v)) vs) = fold (\<lambda>v. om_insert (f v) v) vs om_empty"
    by (simp add: om_collect_def fold_map comp_def)
  then show ?thesis
    using om_store.get_fold_put [of f vs om_empty k] by (simp split: option.splits)
qed

text \<open>Collecting the values of a map whose rows carry their own key gives the map back.\<close>

lemma om_collect_values:
  assumes "\<And>k v. om_get m k = Some v \<Longrightarrow> f v = k"
  shows "om_collect (map (\<lambda>v. (f v, v)) (om_values m)) = m"
proof (rule om_eqI)
  fix k
  show "om_get (om_collect (map (\<lambda>v. (f v, v)) (om_values m))) k = om_get m k"
  proof (cases "List.find (\<lambda>v. f v = k) (rev (om_values m))")
    case None
    then have "f v \<noteq> k" if "om_get m k = Some v" for v
      using that by (auto simp: find_None om_in_values)
    with assms have "om_get m k = None" by (cases "om_get m k") auto
    with None show ?thesis by (simp add: om_get_collect_keyed)
  next
    case (Some v)
    then have "om_get m k = Some v"
      using assms find_Some_in [OF Some] by (auto simp: om_in_values)
    with Some show ?thesis by (simp add: om_get_collect_keyed)
  qed
qed

section \<open>Maps that store each value under its own key\<close>

definition om_keyed :: "('v \<Rightarrow> 'k) \<Rightarrow> ('k::linorder, 'v) ord_map \<Rightarrow> bool" where
  "om_keyed f m \<longleftrightarrow> (\<forall>k v. om_get m k = Some v \<longrightarrow> f v = k)"

lemma om_keyed_empty [simp]: "om_keyed f om_empty"
  by (simp add: om_keyed_def)

lemma om_keyed_insert [simp]: "om_keyed f m \<Longrightarrow> f v = k \<Longrightarrow> om_keyed f (om_insert k v m)"
  by (auto simp: om_keyed_def)

lemma om_keyedD: "om_keyed f m \<Longrightarrow> om_get m k = Some v \<Longrightarrow> f v = k"
  by (simp add: om_keyed_def)

lemma om_keyed_values: "om_keyed f m \<Longrightarrow> v \<in> set (om_values m) \<longleftrightarrow> om_get m (f v) = Some v"
  by (auto simp: om_in_values om_keyed_def)

lemma om_keyed_inj: "om_keyed f m \<Longrightarrow> inj_on f (set (om_values m))"
  by (auto simp: inj_on_def om_keyed_values)

lemma om_values_map_keys: "om_keyed f m \<Longrightarrow> map f (om_values m) = om_keys m"
  by (auto simp: om_values_def om_keys_def om_in_entries om_keyed_def)

lemma om_values_distinct: "om_keyed f m \<Longrightarrow> distinct (om_values m)"
  by (metis distinct_map om_keys_distinct om_values_map_keys)

lemma om_keyed_retain: "om_keyed f m \<Longrightarrow> om_keyed f (om_retain p m)"
  by (auto simp: om_keyed_def om_get_retain split: option.splits if_splits)

lemma om_keyed_modify: "om_keyed f m \<Longrightarrow> (\<And>v. f (g v) = f v) \<Longrightarrow> om_keyed f (om_modify k g m)"
  by (auto simp: om_keyed_def split: if_splits)

lemma om_keyed_map: "om_keyed f m \<Longrightarrow> (\<And>k v. f (g k v) = f v) \<Longrightarrow> om_keyed f (om_map g m)"
  by (auto simp: om_keyed_def)

section \<open>Domains\<close>

definition om_dom :: "('k::linorder, 'v) ord_map \<Rightarrow> 'k set" where
  "om_dom m = {k. om_get m k \<noteq> None}"

lemma om_dom_empty [simp]: "om_dom om_empty = {}"
  by (simp add: om_dom_def)

lemma om_dom_insert [simp]: "om_dom (om_insert k v m) = insert k (om_dom m)"
  by (auto simp: om_dom_def)

lemma om_dom_map [simp]: "om_dom (om_map f m) = om_dom m"
  by (simp add: om_dom_def)

lemma om_dom_modify [simp]: "om_dom (om_modify k f m) = om_dom m"
  by (auto simp: om_dom_def)

lemma om_get_in_dom: "om_get m k = Some v \<Longrightarrow> k \<in> om_dom m"
  by (simp add: om_dom_def)

lemma om_get_notin_dom: "k \<notin> om_dom m \<Longrightarrow> om_get m k = None"
  by (simp add: om_dom_def)

section \<open>Maps that keep their entries up to a relation\<close>

definition om_extends :: "('v \<Rightarrow> 'v \<Rightarrow> bool) \<Rightarrow> ('k::linorder, 'v) ord_map \<Rightarrow> ('k, 'v) ord_map \<Rightarrow> bool" where
  "om_extends R m m' \<longleftrightarrow> (\<forall>k v. om_get m k = Some v \<longrightarrow> (\<exists>v'. om_get m' k = Some v' \<and> R v v'))"

lemma om_extends_refl [simp]: "(\<And>v. R v v) \<Longrightarrow> om_extends R m m"
  by (simp add: om_extends_def)

lemma om_extends_trans:
  assumes "\<And>u v w. R u v \<Longrightarrow> R v w \<Longrightarrow> R u w" "om_extends R l m" "om_extends R m n"
  shows "om_extends R l n"
  unfolding om_extends_def
proof (intro allI impI)
  fix k u assume "om_get l k = Some u"
  then obtain v where "om_get m k = Some v" "R u v"
    using assms(2) unfolding om_extends_def by blast
  moreover then obtain w where "om_get n k = Some w" "R v w"
    using assms(3) unfolding om_extends_def by blast
  ultimately show "\<exists>w. om_get n k = Some w \<and> R u w"
    using assms(1) by blast
qed

lemma om_extends_get:
  assumes "om_extends R m m'" "om_get m k = Some v"
  obtains v' where "om_get m' k = Some v'" "R v v'"
  using assms unfolding om_extends_def by blast

lemma om_extends_new: "(\<And>v. R v v) \<Longrightarrow> om_get m k = None \<Longrightarrow> om_extends R m (om_insert k v m)"
  by (auto simp: om_extends_def)

lemma om_extends_replace:
  "(\<And>v. R v v) \<Longrightarrow> om_get m k = Some v \<Longrightarrow> R v v' \<Longrightarrow> om_extends R m (om_insert k v' m)"
  by (auto simp: om_extends_def)

lemma om_extends_map: "(\<And>k v. R v (f k v)) \<Longrightarrow> om_extends R m (om_map f m)"
  by (auto simp: om_extends_def)

end
