(* ===== verification/Repository.thy ===== *)
theory Repository
  imports Approval OrdMap "HOL-Library.Multiset"
begin

text \<open>
  \<open>cloudledger-db\<close>: the trait \<open>LedgerRepository\<close> (repository.rs) with its error (error.rs), and
  \<open>MemoryLedgerRepository\<close> (memory.rs). The trait is a record of operations, so that the ledger
  service is defined over any implementation; what the service relies on is the locale
  \<open>ledger_repository_laws\<close>, interpreted below on the memory implementation.
\<close>

section \<open>The trait\<close>

datatype repository_error = Backend string

text \<open>
  The methods take \<open>&self\<close> and mutate behind a lock: the repository is passed on explicitly.
\<close>

record 'r ledger_repository =
  save_ledger :: "book_ledger \<Rightarrow> 'r \<Rightarrow> (unit, repository_error) result \<times> 'r"
  get_ledger :: "ledger_id \<Rightarrow> 'r \<Rightarrow> (book_ledger option, repository_error) result"
  save_member :: "ledger_member \<Rightarrow> 'r \<Rightarrow> (unit, repository_error) result \<times> 'r"
  list_members :: "ledger_id \<Rightarrow> 'r \<Rightarrow> (ledger_member list, repository_error) result"
  save_journal_entry :: "journal_entry \<Rightarrow> 'r \<Rightarrow> (unit, repository_error) result \<times> 'r"
  get_journal_entry :: "journal_entry_id \<Rightarrow> 'r \<Rightarrow> (journal_entry option, repository_error) result"
  list_journal_entries :: "ledger_id \<Rightarrow> 'r \<Rightarrow> (journal_entry list, repository_error) result"
  save_approval_request :: "approval_request \<Rightarrow> 'r \<Rightarrow> (unit, repository_error) result \<times> 'r"
  get_approval_request :: "approval_id \<Rightarrow> 'r \<Rightarrow> (approval_request option, repository_error) result"
  list_approval_requests :: "ledger_id \<Rightarrow> 'r \<Rightarrow> (approval_request list, repository_error) result"

text \<open>
  What an implementation stores, seen from outside: each object under its identifier, and the
  memberships of each ledger as \<open>list_members\<close> returns them.
\<close>

record book_store =
  st_ledgers :: "ledger_id \<Rightarrow> book_ledger option"
  st_members :: "ledger_id \<Rightarrow> ledger_member list"
  st_entries :: "journal_entry_id \<Rightarrow> journal_entry option"
  st_approvals :: "approval_id \<Rightarrow> approval_request option"

text \<open>
  \<open>repo_ok\<close> holds of a repository that is in order (for the memory implementation: its lock is not
  poisoned and each object is stored under its own identifier).
\<close>

locale ledger_repository_laws =
  fixes repo :: "'r ledger_repository"
    and view :: "'r \<Rightarrow> book_store"
    and repo_ok :: "'r \<Rightarrow> bool"
  assumes get_ledger_view: "repo_ok r \<Longrightarrow> get_ledger repo l r = Ok (st_ledgers (view r) l)"
    and list_members_view: "repo_ok r \<Longrightarrow> list_members repo l r = Ok (st_members (view r) l)"
    and get_entry_view: "repo_ok r \<Longrightarrow> get_journal_entry repo e r = Ok (st_entries (view r) e)"
    and get_approval_view: "repo_ok r \<Longrightarrow> get_approval_request repo a r = Ok (st_approvals (view r) a)"
    and save_entry_view: "repo_ok r \<Longrightarrow>
      \<exists>r'. save_journal_entry repo x r = (Ok (), r') \<and> repo_ok r'
         \<and> view r' = (view r)\<lparr>st_entries := (st_entries (view r))(je_id x \<mapsto> x)\<rparr>"
    and save_approval_view: "repo_ok r \<Longrightarrow>
      \<exists>r'. save_approval_request repo q r = (Ok (), r') \<and> repo_ok r'
         \<and> view r' = (view r)\<lparr>st_approvals := (st_approvals (view r))(ar_id q \<mapsto> q)\<rparr>"
    and ledger_own_id: "repo_ok r \<Longrightarrow> st_ledgers (view r) l = Some b \<Longrightarrow> bl_id b = l"
    and entry_own_id: "repo_ok r \<Longrightarrow> st_entries (view r) e = Some y \<Longrightarrow> je_id y = e"
    and approval_own_id: "repo_ok r \<Longrightarrow> st_approvals (view r) a = Some p \<Longrightarrow> ar_id p = a"

section \<open>The memory implementation (memory.rs)\<close>

record memory_repository =
  poisoned :: bool
  mr_ledgers :: "(ledger_id, book_ledger) ord_map"
  mr_members :: "(ledger_id \<times> user_id \<times> ledger_role, ledger_member) ord_map"
  mr_entries :: "(journal_entry_id, journal_entry) ord_map"
  mr_approvals :: "(approval_id, approval_request) ord_map"

definition memory_default :: memory_repository where
  "memory_default =
     \<lparr>poisoned = False, mr_ledgers = om_empty, mr_members = om_empty, mr_entries = om_empty,
      mr_approvals = om_empty\<rparr>"

definition mem_read :: "memory_repository \<Rightarrow> (memory_repository, repository_error) result" where
  "mem_read r = (if poisoned r then Err (Backend ''memory repository lock poisoned'') else Ok r)"

definition mem_write ::
  "(memory_repository \<Rightarrow> memory_repository) \<Rightarrow> memory_repository
     \<Rightarrow> (unit, repository_error) result \<times> memory_repository" where
  "mem_write f r = attempt (mem_read r) id r (\<lambda>r. (Ok (), f r))"

definition mem_save_ledger where
  "mem_save_ledger l = mem_write (\<lambda>r. r\<lparr>mr_ledgers := om_insert (bl_id l) l (mr_ledgers r)\<rparr>)"

definition mem_get_ledger where
  "mem_get_ledger i r = attempt_pure (mem_read r) id (\<lambda>r. Ok (om_get (mr_ledgers r) i))"

definition mem_save_member where
  "mem_save_member m =
     mem_write (\<lambda>r. r\<lparr>mr_members := om_insert (mem_ledger m, mem_user m, mem_role m) m (mr_members r)\<rparr>)"

text \<open>
  The list operations filter the values of a \<open>HashMap\<close>, whose order is arbitrary, and sort them; the
  lemma \<open>sort_key_any_order\<close> shows that the result does not depend on that order.
\<close>

definition mem_list_members where
  "mem_list_members l r =
     attempt_pure (mem_read r) id (\<lambda>r.
       Ok (sort_key (\<lambda>m. (mem_user m, mem_role m))
             (filter (\<lambda>m. mem_ledger m = l) (om_values (mr_members r)))))"

definition mem_save_journal_entry where
  "mem_save_journal_entry e = mem_write (\<lambda>r. r\<lparr>mr_entries := om_insert (je_id e) e (mr_entries r)\<rparr>)"

definition mem_get_journal_entry where
  "mem_get_journal_entry i r = attempt_pure (mem_read r) id (\<lambda>r. Ok (om_get (mr_entries r) i))"

definition mem_list_journal_entries where
  "mem_list_journal_entries l r =
     attempt_pure (mem_read r) id (\<lambda>r.
       Ok (sort_key je_id (filter (\<lambda>e. je_ledger e = l) (om_values (mr_entries r)))))"

definition mem_save_approval_request where
  "mem_save_approval_request q =
     mem_write (\<lambda>r. r\<lparr>mr_approvals := om_insert (ar_id q) q (mr_approvals r)\<rparr>)"

definition mem_get_approval_request where
  "mem_get_approval_request i r = attempt_pure (mem_read r) id (\<lambda>r. Ok (om_get (mr_approvals r) i))"

definition mem_list_approval_requests where
  "mem_list_approval_requests l r =
     attempt_pure (mem_read r) id (\<lambda>r.
       Ok (sort_key ar_id (filter (\<lambda>q. ar_ledger q = l) (om_values (mr_approvals r)))))"

definition memory_ledger_repository :: "memory_repository ledger_repository" where
  "memory_ledger_repository =
     \<lparr>save_ledger = mem_save_ledger, get_ledger = mem_get_ledger,
      save_member = mem_save_member, list_members = mem_list_members,
      save_journal_entry = mem_save_journal_entry, get_journal_entry = mem_get_journal_entry,
      list_journal_entries = mem_list_journal_entries,
      save_approval_request = mem_save_approval_request,
      get_approval_request = mem_get_approval_request,
      list_approval_requests = mem_list_approval_requests\<rparr>"

section \<open>The memory implementation meets the contract\<close>

lemma sort_key_any_order:
  "mset xs = mset ys \<Longrightarrow> inj_on f (set xs) \<Longrightarrow> sort_key f xs = sort_key f ys"
  by (rule sort_key_eq_sort_key)

abbreviation member_key :: "ledger_member \<Rightarrow> ledger_id \<times> user_id \<times> ledger_role" where
  "member_key m \<equiv> (mem_ledger m, mem_user m, mem_role m)"

definition mem_ok :: "memory_repository \<Rightarrow> bool" where
  "mem_ok r \<longleftrightarrow> \<not> poisoned r \<and> om_keyed bl_id (mr_ledgers r) \<and> om_keyed member_key (mr_members r)
     \<and> om_keyed je_id (mr_entries r) \<and> om_keyed ar_id (mr_approvals r)"

definition members_view :: "memory_repository \<Rightarrow> ledger_id \<Rightarrow> ledger_member list" where
  "members_view r l =
     sort_key (\<lambda>m. (mem_user m, mem_role m)) (filter (\<lambda>m. mem_ledger m = l) (om_values (mr_members r)))"

definition mem_view :: "memory_repository \<Rightarrow> book_store" where
  "mem_view r =
     \<lparr>st_ledgers = om_get (mr_ledgers r), st_members = members_view r,
      st_entries = om_get (mr_entries r), st_approvals = om_get (mr_approvals r)\<rparr>"

lemma memory_default_ok: "mem_ok memory_default"
  by (simp add: mem_ok_def memory_default_def)

lemma mem_read_ok: "mem_ok r \<Longrightarrow> mem_read r = Ok r"
  by (simp add: mem_ok_def mem_read_def)

lemma mem_write_ok: "mem_ok r \<Longrightarrow> mem_write f r = (Ok (), f r)"
  by (simp add: mem_write_def mem_read_ok)

lemma mem_poisoned_read: "poisoned r \<Longrightarrow> mem_read r = Err (Backend ''memory repository lock poisoned'')"
  by (simp add: mem_read_def)

lemma mem_poisoned_write:
  "poisoned r \<Longrightarrow> mem_write f r = (Err (Backend ''memory repository lock poisoned''), r)"
  by (simp add: mem_write_def mem_read_def)

lemmas memory_ops = memory_ledger_repository_def mem_save_ledger_def mem_get_ledger_def
  mem_save_member_def mem_list_members_def mem_save_journal_entry_def mem_get_journal_entry_def
  mem_list_journal_entries_def mem_save_approval_request_def mem_get_approval_request_def
  mem_list_approval_requests_def

lemma mem_save_ok:
  assumes "mem_ok r"
  shows "mem_ok (snd (mem_save_ledger l r))" "mem_ok (snd (mem_save_member m r))"
    "mem_ok (snd (mem_save_journal_entry e r))" "mem_ok (snd (mem_save_approval_request q r))"
  using assms by (simp_all add: memory_ops mem_write_ok) (simp_all add: mem_ok_def)

interpretation memory: ledger_repository_laws memory_ledger_repository mem_view mem_ok
proof
  fix r x q l b e y a p
  assume ok: "mem_ok r"
  note kd = ok [unfolded mem_ok_def]
  show "get_ledger memory_ledger_repository l r = Ok (st_ledgers (mem_view r) l)"
    "list_members memory_ledger_repository l r = Ok (st_members (mem_view r) l)"
    "get_journal_entry memory_ledger_repository e r = Ok (st_entries (mem_view r) e)"
    "get_approval_request memory_ledger_repository a r = Ok (st_approvals (mem_view r) a)"
    using ok by (simp_all add: memory_ops mem_view_def members_view_def mem_read_ok)
  show "\<exists>r'. save_journal_entry memory_ledger_repository x r = (Ok (), r') \<and> mem_ok r'
      \<and> mem_view r' = (mem_view r)\<lparr>st_entries := (st_entries (mem_view r))(je_id x \<mapsto> x)\<rparr>"
    using ok mem_save_ok(3) [OF ok, of x]
    by (auto simp: memory_ops mem_write_ok mem_view_def members_view_def fun_eq_iff)
  show "\<exists>r'. save_approval_request memory_ledger_repository q r = (Ok (), r') \<and> mem_ok r'
      \<and> mem_view r' = (mem_view r)\<lparr>st_approvals := (st_approvals (mem_view r))(ar_id q \<mapsto> q)\<rparr>"
    using ok mem_save_ok(4) [OF ok, of q]
    by (auto simp: memory_ops mem_write_ok mem_view_def members_view_def fun_eq_iff)
  show "st_ledgers (mem_view r) l = Some b \<Longrightarrow> bl_id b = l"
    "st_entries (mem_view r) e = Some y \<Longrightarrow> je_id y = e"
    "st_approvals (mem_view r) a = Some p \<Longrightarrow> ar_id p = a"
    using kd by (auto simp: mem_view_def dest: om_keyedD)
qed

lemma members_view_in:
  assumes "mem_ok r"
  shows "m \<in> set (members_view r l) \<longleftrightarrow> mem_ledger m = l \<and> om_get (mr_members r) (member_key m) = Some m"
  using assms by (auto simp: members_view_def om_keyed_values [where f = member_key] mem_ok_def)

text \<open>The order in which the \<open>HashMap\<close> yields its values does not reach the callers.\<close>

lemma members_view_any_order:
  assumes "mem_ok r" "mset vs = mset (om_values (mr_members r))"
  shows "sort_key (\<lambda>m. (mem_user m, mem_role m)) (filter (\<lambda>m. mem_ledger m = l) vs) = members_view r l"
  unfolding members_view_def
proof (rule sort_key_any_order)
  show "mset (filter (\<lambda>m. mem_ledger m = l) vs) = mset (filter (\<lambda>m. mem_ledger m = l) (om_values (mr_members r)))"
    using assms(2) by simp
  have "set vs = set (om_values (mr_members r))"
    using assms(2) by (metis set_mset_mset)
  moreover have "inj_on member_key (set (om_values (mr_members r)))"
    using assms(1) by (auto simp: mem_ok_def intro: om_keyed_inj)
  ultimately show "inj_on (\<lambda>m. (mem_user m, mem_role m)) (set (filter (\<lambda>m. mem_ledger m = l) vs))"
    by (auto simp: inj_on_def)
qed

lemma members_view_strict:
  assumes "mem_ok r"
  shows "sorted_wrt (<) (map (\<lambda>m. (mem_user m, mem_role m)) (members_view r l))"
proof -
  let ?ms = "filter (\<lambda>m. mem_ledger m = l) (om_values (mr_members r))"
  have "inj_on member_key (set (om_values (mr_members r)))" "distinct (om_values (mr_members r))"
    using assms by (auto simp: mem_ok_def intro: om_keyed_inj om_values_distinct)
  then have "distinct (map (\<lambda>m. (mem_user m, mem_role m)) ?ms)"
    by (auto simp: distinct_map inj_on_def)
  then have "distinct (map (\<lambda>m. (mem_user m, mem_role m)) (members_view r l))"
    by (simp add: members_view_def distinct_map)
  then show ?thesis
    by (simp add: strict_sorted_iff members_view_def)
qed

end
