(* ===== verification/LedgerService.thy ===== *)
theory LedgerService
  imports Repository
begin

text \<open>
  \<open>cloudledger-service/src/service.rs\<close> and \<open>error.rs\<close>: \<open>LedgerService\<close> over any
  \<open>LedgerRepository\<close>: submitting a journal entry and deciding an approval request.
\<close>

datatype service_error =
    SRepository repository_error
  | SLedgerNotFound
  | SJournalEntryNotFound
  | SApprovalRequestNotFound
  | SActorMismatch
  | SPermissionDenied
  | SInvalidJournal journal_validation_error
  | SApprovalDecision approval_decision_error
  | SSelfApprovalDenied
  | SRoleNotAccepted

datatype submission_outcome =
    Posted journal_entry
  | PendingApproval approval_request

record approval_outcome =
  outcome_request :: approval_request
  outcome_entry :: journal_entry

definition submit_entry ::
  "'r ledger_repository \<Rightarrow> user_id \<Rightarrow> journal_entry \<Rightarrow> 'r
     \<Rightarrow> (submission_outcome, service_error) result \<times> 'r" where
  "submit_entry repo actor e r =
     (if je_created_by e \<noteq> actor then (Err SActorMismatch, r)
      else attempt (get_ledger repo (je_ledger e) r) SRepository r (\<lambda>found.
           attempt (ok_or found SLedgerNotFound) id r (\<lambda>l.
           attempt (list_members repo (bl_id l) r) SRepository r (\<lambda>members.
      if \<not> has_permission l members actor LSubmitEntry then (Err SPermissionDenied, r)
      else attempt (validate e) SInvalidJournal r (\<lambda>_.
        case approval_requirement l (roles_for l members actor) e of
          Required q \<Rightarrow>
            (let e = e\<lparr>je_status := JPendingApproval\<rparr> in
             perform (save_journal_entry repo e r) SRepository (\<lambda>_ r.
             attempt (ident_new ''ApprovalId'' (''approval:'' @ as_str (je_id e))) id r (\<lambda>i.
             let request = approval_request_new i (je_ledger e) (je_id e) actor q in
             perform (save_approval_request repo request r) SRepository (\<lambda>_ r.
               (Ok (PendingApproval request), r)))))
        | NotRequired \<Rightarrow>
            if \<not> has_permission l members actor LPostWithoutApproval then (Err SPermissionDenied, r)
            else let e = e\<lparr>je_status := JPosted\<rparr> in
              perform (save_journal_entry repo e r) SRepository (\<lambda>_ r. (Ok (Posted e), r)))))))"

definition entry_after_decision :: "approval_status \<Rightarrow> journal_entry \<Rightarrow> journal_entry" where
  "entry_after_decision status e =
     (case status of
        ASApproved \<Rightarrow> e\<lparr>je_status := JPosted\<rparr>
      | ASRejected \<Rightarrow> e\<lparr>je_status := JRejected\<rparr>
      | ASPending \<Rightarrow> e
      | ASCancelled \<Rightarrow> e)"

definition ledger_decide_approval ::
  "'r ledger_repository \<Rightarrow> user_id \<Rightarrow> approval_id \<Rightarrow> approval_vote \<Rightarrow> string option \<Rightarrow> 'r
     \<Rightarrow> (approval_outcome, service_error) result \<times> 'r" where
  "ledger_decide_approval repo actor i v note r =
     attempt (get_approval_request repo i r) SRepository r (\<lambda>found.
     attempt (ok_or found SApprovalRequestNotFound) id r (\<lambda>request.
     attempt (get_journal_entry repo (ar_entry request) r) SRepository r (\<lambda>found.
     attempt (ok_or found SJournalEntryNotFound) id r (\<lambda>e.
     attempt (get_ledger repo (ar_ledger request) r) SRepository r (\<lambda>found.
     attempt (ok_or found SLedgerNotFound) id r (\<lambda>l.
     attempt (list_members repo (bl_id l) r) SRepository r (\<lambda>members.
     if \<not> has_permission l members actor LApproveEntry then (Err SPermissionDenied, r)
     else if ar_submitted_by request = actor then (Err SSelfApprovalDenied, r)
     else attempt (ok_or (accepted_role (requirement request) (roles_for l members actor)) SRoleNotAccepted)
            id r (\<lambda>role.
       case add_decision request (approval_decision_new actor role v note) of (added, request) \<Rightarrow>
       attempt added SApprovalDecision r (\<lambda>_.
       let e = entry_after_decision (ar_status request) e in
       perform (save_journal_entry repo e r) SRepository (\<lambda>_ r.
       perform (save_approval_request repo request r) SRepository (\<lambda>_ r.
         (Ok \<lparr>outcome_request = request, outcome_entry = e\<rparr>, r))))))))))))"

section \<open>What the service does to the store\<close>

definition approval_key :: "journal_entry_id \<Rightarrow> approval_id" where
  "approval_key i = Ident (''approval:'' @ as_str i)"

lemma approval_key_inj: "approval_key i = approval_key j \<longleftrightarrow> i = j"
  by (cases i; cases j) (simp add: approval_key_def)

lemma approval_key_valid: "ident_new name (''approval:'' @ as_str i) = Ok (approval_key i)"
  using trim_visible_head [of "CHR ''a''" "''pproval:'' @ as_str i"]
  by (cases "as_str i") (simp_all add: ident_new_def ws1_def ws2_def ws3_def approval_key_def)

lemmas approval_key_fresh [simp] = approval_key_valid [simplified]

text \<open>
  The contract of the service, as a transition relation on what the repository stores: an entry is
  saved together with its request, or posted at once by an owner, or a request is decided by somebody
  else than its submitter. Nothing else changes the store.
\<close>

inductive decide_step :: "user_id \<Rightarrow> approval_id \<Rightarrow> book_store \<Rightarrow> book_store \<Rightarrow> bool" where
  decide_request:
    "st_approvals s i = Some a \<Longrightarrow> st_entries s (ar_entry a) = Some e \<Longrightarrow>
     st_ledgers s (ar_ledger a) = Some l \<Longrightarrow> members = st_members s (bl_id l) \<Longrightarrow>
     granted l members (approver_id d) (decision_role d) \<Longrightarrow> approver_id d \<noteq> ar_submitted_by a \<Longrightarrow>
     fst (add_decision a d) = Ok () \<Longrightarrow>
     decide_step (approver_id d) i s
       (s\<lparr>st_entries := (st_entries s)(je_id e \<mapsto> entry_after_decision (ar_status (decide a d)) e),
          st_approvals := (st_approvals s)(ar_id a \<mapsto> decide a d)\<rparr>)"

inductive book_step :: "book_store \<Rightarrow> book_store \<Rightarrow> bool" where
  submit_pending:
    "st_ledgers s (je_ledger e) = Some l \<Longrightarrow> members = st_members s (bl_id l) \<Longrightarrow>
     granted l members (je_created_by e) role \<Longrightarrow> role \<in> {LOwner, LBookkeeper} \<Longrightarrow> balanced_entry e \<Longrightarrow>
     approval_requirement l (roles_for l members (je_created_by e)) e = Required q \<Longrightarrow>
     book_step s (s\<lparr>st_entries := (st_entries s)(je_id e \<mapsto> e\<lparr>je_status := JPendingApproval\<rparr>),
                    st_approvals := (st_approvals s)(approval_key (je_id e) \<mapsto>
                      approval_request_new (approval_key (je_id e)) (je_ledger e) (je_id e) (je_created_by e) q)\<rparr>)"
| submit_posted:
    "st_ledgers s (je_ledger e) = Some l \<Longrightarrow> members = st_members s (bl_id l) \<Longrightarrow>
     granted l members (je_created_by e) LOwner \<Longrightarrow> balanced_entry e \<Longrightarrow>
     approval_requirement l (roles_for l members (je_created_by e)) e = NotRequired \<Longrightarrow>
     book_step s (s\<lparr>st_entries := (st_entries s)(je_id e \<mapsto> e\<lparr>je_status := JPosted\<rparr>)\<rparr>)"
| decided: "decide_step u i s s' \<Longrightarrow> book_step s s'"

inductive_cases decide_stepE: "decide_step u i s s'"
inductive_cases book_stepE: "book_step s s'"

lemma entry_after_decision_frame [simp]:
  "je_id (entry_after_decision x e) = je_id e" "je_ledger (entry_after_decision x e) = je_ledger e"
  "je_lines (entry_after_decision x e) = je_lines e"
  "je_created_by (entry_after_decision x e) = je_created_by e"
  by (cases x; simp add: entry_after_decision_def)+

lemma accepted_role_granted:
  "accepted_role q (roles_for l ms u) = Some role \<Longrightarrow> granted l ms u role \<and> role \<in> set (required_roles q)"
  by (auto simp: accepted_role_def roles_for_granted dest: find_Some_in)

lemma add_decision_pair_no_panic: "add_decision a d \<noteq> (Panic p, a')"
  using add_decision_no_panic [of a d p] by auto

context ledger_repository_laws
begin

text \<open>Every call either fails and leaves the repository as it was, or makes a step of the contract.\<close>

lemma submit_entry_refines:
  assumes "repo_ok r"
  shows "case submit_entry repo actor e r of
      (Ok _, r') \<Rightarrow> repo_ok r' \<and> book_step (view r) (view r') \<and> je_created_by e = actor
    | (Err x, r') \<Rightarrow> r' = r
    | (Panic p, r') \<Rightarrow> False"
proof (cases "st_ledgers (view r) (je_ledger e)")
  case None
  then show ?thesis using assms by (simp add: submit_entry_def get_ledger_view)
next
  case (Some l)
  let ?ms = "st_members (view r) (bl_id l)"
  show ?thesis
  proof (cases "je_created_by e = actor \<and> has_permission l ?ms actor LSubmitEntry \<and> validate e = Ok ()")
    case False
    then show ?thesis using assms Some
      by (cases "validate e") (auto simp: submit_entry_def get_ledger_view list_members_view validate_no_panic)
  next
    case True
    note ok = True
    obtain role where role: "granted l ?ms (je_created_by e) role" "role \<in> {LOwner, LBookkeeper}"
      using ok by (auto simp: has_permission_iff submit_roles)
    show ?thesis
    proof (cases "approval_requirement l (roles_for l ?ms actor) e")
      case NotRequired
      show ?thesis
      proof (cases "has_permission l ?ms actor LPostWithoutApproval")
        case False
        then show ?thesis using assms Some ok NotRequired
          by (simp add: submit_entry_def get_ledger_view list_members_view)
      next
        case True
        then have owner: "granted l ?ms (je_created_by e) LOwner"
          using ok by (auto simp: has_permission_iff post_roles)
        obtain r' where r': "save_journal_entry repo (e\<lparr>je_status := JPosted\<rparr>) r = (Ok (), r')" "repo_ok r'"
          "view r' = (view r)\<lparr>st_entries := (st_entries (view r))(je_id e \<mapsto> e\<lparr>je_status := JPosted\<rparr>)\<rparr>"
          using save_entry_view [OF assms, of "e\<lparr>je_status := JPosted\<rparr>"] by auto
        have "book_step (view r) (view r')"
          unfolding r'(3) using Some owner ok NotRequired
          by (intro submit_posted [where l = l]) (auto simp: validate_Ok)
        with r' ok True assms Some NotRequired show ?thesis
          by (simp add: submit_entry_def get_ledger_view list_members_view)
      qed
    next
      case (Required q)
      let ?e = "e\<lparr>je_status := JPendingApproval\<rparr>"
      let ?q = "approval_request_new (approval_key (je_id e)) (je_ledger e) (je_id e) actor q"
      obtain r' where r': "save_journal_entry repo ?e r = (Ok (), r')" "repo_ok r'"
        "view r' = (view r)\<lparr>st_entries := (st_entries (view r))(je_id e \<mapsto> ?e)\<rparr>"
        using save_entry_view [OF assms, of ?e] by auto
      obtain r'' where r'': "save_approval_request repo ?q r' = (Ok (), r'')" "repo_ok r''"
        "view r'' = (view r')\<lparr>st_approvals := (st_approvals (view r'))(approval_key (je_id e) \<mapsto> ?q)\<rparr>"
        using save_approval_view [OF r'(2), of ?q] by (auto simp: approval_request_new_def)
      have "book_step (view r) (view r'')"
        using submit_pending [OF Some refl role] ok Required r' r'' by (simp add: validate_Ok)
      with r' r'' ok assms Some Required show ?thesis
        by (simp add: submit_entry_def get_ledger_view list_members_view)
    qed
  qed
qed

lemma decide_approval_refines:
  assumes "repo_ok r"
  shows "case ledger_decide_approval repo actor i v note r of
      (Ok out, r') \<Rightarrow> repo_ok r' \<and> decide_step actor i (view r) (view r')
        \<and> st_approvals (view r') i = Some (outcome_request out)
        \<and> st_entries (view r') (ar_entry (outcome_request out)) = Some (outcome_entry out)
    | (Err x, r') \<Rightarrow> r' = r
    | (Panic p, r') \<Rightarrow> False"
proof (cases "\<exists>a e l. st_approvals (view r) i = Some a \<and> st_entries (view r) (ar_entry a) = Some e
    \<and> st_ledgers (view r) (ar_ledger a) = Some l")
  case False
  then show ?thesis using assms
    by (auto simp: ledger_decide_approval_def get_ledger_view get_entry_view get_approval_view
        attempt_ok_or split: option.splits)
next
  case True
  then obtain a e l where found: "st_approvals (view r) i = Some a" "st_entries (view r) (ar_entry a) = Some e"
    "st_ledgers (view r) (ar_ledger a) = Some l" by blast
  note reads = get_ledger_view [OF assms] get_entry_view [OF assms] get_approval_view [OF assms]
    list_members_view [OF assms] found
  have ids: "ar_id a = i" "je_id e = ar_entry a"
    using approval_own_id [OF assms found(1)] entry_own_id [OF assms found(2)] by auto
  let ?ms = "st_members (view r) (bl_id l)"
  show ?thesis
  proof (cases "\<exists>role. has_permission l ?ms actor LApproveEntry \<and> ar_submitted_by a \<noteq> actor
      \<and> accepted_role (requirement a) (roles_for l ?ms actor) = Some role
      \<and> fst (add_decision a (approval_decision_new actor role v note)) = Ok ()")
    case False
    then show ?thesis
      by (auto simp: ledger_decide_approval_def reads attempt_ok_or attempt_def
          simp: add_decision_pair_no_panic split: option.splits prod.splits result.splits)
  next
    case True
    then obtain role where go: "has_permission l ?ms actor LApproveEntry" "ar_submitted_by a \<noteq> actor"
      "accepted_role (requirement a) (roles_for l ?ms actor) = Some role"
      "fst (add_decision a (approval_decision_new actor role v note)) = Ok ()" by blast
    define d where "d = approval_decision_new actor role v note"
    have added: "add_decision a d = (Ok (), decide a d)"
      using go(4) by (simp add: d_def decide_def prod_eq_iff)
    let ?e = "entry_after_decision (ar_status (decide a d)) e"
    obtain r' where r': "save_journal_entry repo ?e r = (Ok (), r')" "repo_ok r'"
      "view r' = (view r)\<lparr>st_entries := (st_entries (view r))(je_id e \<mapsto> ?e)\<rparr>"
      using save_entry_view [OF assms, of ?e] by auto
    obtain r'' where r'': "save_approval_request repo (decide a d) r' = (Ok (), r'')" "repo_ok r''"
      "view r'' = (view r')\<lparr>st_approvals := (st_approvals (view r'))(ar_id a \<mapsto> decide a d)\<rparr>"
      using save_approval_view [OF r'(2), of "decide a d"] by auto
    have "decide_step actor i (view r) (view r'')"
      using decide_request [OF found refl, of d] accepted_role_granted [OF go(3)] go(2) added r' r''
      by (auto simp: d_def approval_decision_new_def)
    with r' r'' go added ids show ?thesis
      by (simp add: ledger_decide_approval_def reads flip: d_def)
  qed
qed

end

section \<open>The invariant of the store: four eyes\<close>

lemma status_frame [simp]:
  "balanced_entry (e\<lparr>je_status := x\<rparr>) = balanced_entry e"
  "is_high_value l (e\<lparr>je_status := x\<rparr>) = is_high_value l e"
  by (simp_all add: balanced_entry_def is_high_value_def largest_line_amount_def)

lemma after_decision_frame [simp]:
  "balanced_entry (entry_after_decision x e) = balanced_entry e"
  "is_high_value l (entry_after_decision x e) = is_high_value l e"
  by (cases x; simp add: entry_after_decision_def)+

text \<open>The entry was posted by an owner who may post it alone.\<close>

definition owner_cleared :: "book_store \<Rightarrow> book_ledger \<Rightarrow> journal_entry \<Rightarrow> bool" where
  "owner_cleared s l e \<longleftrightarrow>
     granted l (st_members s (bl_id l)) (je_created_by e) LOwner \<and> \<not> is_high_value l e"

text \<open>The entry's status is that of the request that its creator filed for it.\<close>

definition status_match :: "journal_status \<Rightarrow> approval_status \<Rightarrow> bool" where
  "status_match e a \<longleftrightarrow>
     (e, a) \<in> {(JPendingApproval, ASPending), (JPosted, ASApproved), (JRejected, ASRejected)}"

definition request_linked :: "book_store \<Rightarrow> book_ledger \<Rightarrow> journal_entry \<Rightarrow> bool" where
  "request_linked s l e \<longleftrightarrow>
     (\<exists>a. st_approvals s (approval_key (je_id e)) = Some a
        \<and> ar_submitted_by a = je_created_by e \<and> ar_ledger a = je_ledger e
        \<and> (is_high_value l e \<longrightarrow> required_roles (requirement a) = [LOwner])
        \<and> status_match (je_status e) (ar_status a))"

definition entry_cleared :: "book_store \<Rightarrow> journal_entry \<Rightarrow> bool" where
  "entry_cleared s e \<longleftrightarrow>
     (\<forall>l c. st_ledgers s (je_ledger e) = Some l \<longrightarrow> bl_kind l = CompanyPublic c \<longrightarrow>
        owner_cleared s l e \<or> request_linked s l e)"

definition request_sound :: "book_store \<Rightarrow> approval_request \<Rightarrow> bool" where
  "request_sound s a \<longleftrightarrow>
     request_ok a \<and> ar_id a = approval_key (ar_entry a) \<and> 1 \<le> unat (min_approvals (requirement a))
   \<and> set (required_roles (requirement a)) \<subseteq> {LApprover, LOwner}
   \<and> (\<forall>d \<in> set (decisions a). approver_id d \<noteq> ar_submitted_by a
        \<and> (\<forall>l. st_ledgers s (ar_ledger a) = Some l \<longrightarrow>
             granted l (st_members s (bl_id l)) (approver_id d) (decision_role d)))"

definition book_ok :: "book_store \<Rightarrow> bool" where
  "book_ok s \<longleftrightarrow>
     (\<forall>k e. st_entries s k = Some e \<longrightarrow> je_id e = k \<and> balanced_entry e \<and> entry_cleared s e)
   \<and> (\<forall>k a. st_approvals s k = Some a \<longrightarrow> ar_id a = k \<and> request_sound s a)"

lemma approval_requirement_Required:
  assumes "approval_requirement l roles e = Required q"
  shows "1 \<le> unat (min_approvals q)" "set (required_roles q) \<subseteq> {LApprover, LOwner}"
    "is_high_value l e \<Longrightarrow> required_roles q = [LOwner]" "\<exists>c. bl_kind l = CompanyPublic c"
proof -
  have one: "(1::nat) \<le> unat (max w 1)" for w :: u8
    by (auto simp: max_def word_le_nat_alt)
  show "1 \<le> unat (min_approvals q)" "set (required_roles q) \<subseteq> {LApprover, LOwner}"
    "is_high_value l e \<Longrightarrow> required_roles q = [LOwner]" "\<exists>c. bl_kind l = CompanyPublic c"
    using assms one by (auto simp: approval_requirement_def split: book_kind.splits if_splits)
qed

lemma approval_requirement_NotRequired:
  "approval_requirement l roles e = NotRequired \<Longrightarrow> bl_kind l = CompanyPublic c \<Longrightarrow> \<not> is_high_value l e"
  by (auto simp: approval_requirement_def split: if_splits)

lemma request_sound_new:
  "approval_requirement l roles e = Required q \<Longrightarrow>
     request_sound s (approval_request_new (approval_key i) lid i u q)"
  using approval_requirement_Required [of l roles e q]
  by (simp add: request_sound_def request_new_ok) (simp add: approval_request_new_def)

lemma request_sound_decide:
  assumes "request_sound s a" "fst (add_decision a d) = Ok ()" "approver_id d \<noteq> ar_submitted_by a"
    "st_ledgers s (ar_ledger a) = Some l" "granted l (st_members s (bl_id l)) (approver_id d) (decision_role d)"
  shows "request_sound s (decide a d)"
  using assms decide_decisions [OF assms(2)] by (auto simp: request_sound_def decide_ok)

lemma request_sound_frame:
  "st_ledgers s' = st_ledgers s \<Longrightarrow> st_members s' = st_members s \<Longrightarrow> request_sound s' a = request_sound s a"
  by (simp add: request_sound_def)

lemma entry_cleared_frame:
  assumes "st_ledgers s' = st_ledgers s" "st_members s' = st_members s"
    "st_approvals s' (approval_key (je_id e)) = st_approvals s (approval_key (je_id e))"
  shows "entry_cleared s' e = entry_cleared s e"
  using assms by (simp add: entry_cleared_def owner_cleared_def request_linked_def)

lemma status_match_decide:
  assumes "request_ok a" "fst (add_decision a d) = Ok ()" "status_match (je_status e) (ar_status a)"
  shows "status_match (je_status (entry_after_decision (ar_status (decide a d)) e)) (ar_status (decide a d))"
proof -
  have "ar_status a = ASPending" using assms(2) by (simp add: add_decision_Ok)
  then have "je_status e = JPendingApproval" using assms(3) by (simp add: status_match_def)
  then show ?thesis
    by (simp add: decide_status [OF assms(1,2)] entry_after_decision_def status_match_def)
qed

lemma decide_step_ok:
  assumes "decide_step u i s s'" "book_ok s"
  shows "book_ok s'"
  using assms
proof (induction rule: decide_step.induct)
  case (decide_request s i a e l members d)
  note old = decide_request.prems [unfolded book_ok_def]
  have a: "ar_id a = i" "request_sound s a" and e: "je_id e = ar_entry a" "balanced_entry e" "entry_cleared s e"
    using old decide_request.hyps(1,2) by auto
  then have key: "ar_id a = approval_key (je_id e)" and ok: "request_ok a"
    by (auto simp: request_sound_def)
  let ?a = "decide a d"
  let ?e = "entry_after_decision (ar_status ?a) e"
  let ?s = "s\<lparr>st_entries := (st_entries s)(je_id e \<mapsto> ?e), st_approvals := (st_approvals s)(ar_id a \<mapsto> ?a)\<rparr>"
  have "request_linked ?s b ?e" if "request_linked s b e" for b
    using that decide_request.hyps(1) a(1) key status_match_decide [OF ok decide_request.hyps(7)]
    by (auto simp: request_linked_def)
  then have new: "entry_cleared ?s ?e"
    using e(3) by (auto simp: entry_cleared_def owner_cleared_def)
  have others: "entry_cleared ?s y" if "st_entries s k = Some y" "k \<noteq> je_id e" for k y
    using that old key entry_cleared_frame [of ?s s y] by (auto simp: approval_key_inj)
  have "request_sound s ?a"
    using request_sound_decide [OF a(2) decide_request.hyps(7,6,3)] decide_request.hyps(4,5) by simp
  then have "request_sound ?s b" if "st_approvals ?s k = Some b" for k b
    using that old request_sound_frame [of ?s s] by (auto split: if_splits)
  with new others old e(2) a(1) show ?case
    by (auto simp: book_ok_def)
qed

lemma book_step_ok:
  assumes "book_step s s'" "book_ok s"
  shows "book_ok s'"
  using assms
proof (induction rule: book_step.induct)
  case (submit_pending s e l members role q)
  note old = submit_pending.prems [unfolded book_ok_def]
  let ?a = "approval_request_new (approval_key (je_id e)) (je_ledger e) (je_id e) (je_created_by e) q"
  let ?s = "s\<lparr>st_entries := (st_entries s)(je_id e \<mapsto> e\<lparr>je_status := JPendingApproval\<rparr>),
    st_approvals := (st_approvals s)(approval_key (je_id e) \<mapsto> ?a)\<rparr>"
  have "request_linked ?s l (e\<lparr>je_status := JPendingApproval\<rparr>)"
    using approval_requirement_Required(3) [OF submit_pending.hyps(6)]
    by (simp add: request_linked_def approval_request_new_def status_match_def)
  then have new: "entry_cleared ?s (e\<lparr>je_status := JPendingApproval\<rparr>)"
    using submit_pending.hyps(1) by (simp add: entry_cleared_def)
  have others: "entry_cleared ?s y" if "st_entries s k = Some y" "k \<noteq> je_id e" for k y
    using that old entry_cleared_frame [of ?s s y] by (auto simp: approval_key_inj)
  have "request_sound ?s a" if "st_approvals ?s k = Some a" for k a
    using that old request_sound_new [OF submit_pending.hyps(6)] request_sound_frame [of ?s s]
    by (auto split: if_splits)
  with new others old submit_pending.hyps(5) show ?case
    by (auto simp: book_ok_def approval_request_new_def)
next
  case (submit_posted s e l members)
  note old = submit_posted.prems [unfolded book_ok_def]
  let ?e = "e\<lparr>je_status := JPosted\<rparr>"
  let ?s = "s\<lparr>st_entries := (st_entries s)(je_id e \<mapsto> ?e)\<rparr>"
  have "owner_cleared ?s l ?e" if "bl_kind l = CompanyPublic c" for c
    using approval_requirement_NotRequired [OF submit_posted.hyps(5) that] submit_posted.hyps(2,3)
    by (simp add: owner_cleared_def)
  then have new: "entry_cleared ?s ?e"
    using submit_posted.hyps(1) by (auto simp: entry_cleared_def)
  have "entry_cleared ?s y" if "st_entries s k = Some y" for k y
    using that old entry_cleared_frame [of ?s s y] by auto
  with new old submit_posted.hyps(4) request_sound_frame [of ?s s] show ?case
    by (auto simp: book_ok_def)
next
  case (decided u i s s')
  then show ?case by (rule decide_step_ok)
qed

text \<open>What the invariant says of a posted company entry.\<close>

definition approved_by_other :: "book_store \<Rightarrow> book_ledger \<Rightarrow> journal_entry \<Rightarrow> bool" where
  "approved_by_other s l e \<longleftrightarrow>
     (\<exists>a d. st_approvals s (approval_key (je_id e)) = Some a \<and> ar_status a = ASApproved
        \<and> d \<in> set (decisions a) \<and> vote d = Approve \<and> approver_id d \<noteq> je_created_by e
        \<and> decision_role d \<in> {LApprover, LOwner}
        \<and> granted l (st_members s (bl_id l)) (approver_id d) (decision_role d)
        \<and> (is_high_value l e \<longrightarrow> decision_role d = LOwner))"

lemma approved_has_vote:
  assumes "request_ok a" "ar_status a = ASApproved" "1 \<le> unat (min_approvals (requirement a))"
  shows "\<exists>d \<in> set (decisions a). vote d = Approve"
proof -
  have "decisions a \<noteq> []" "\<not> rejected a" using assms by (auto simp: request_ok_def quorum_def)
  then have "approval_count a \<noteq> 0" by (simp add: count_not_rejected)
  then show ?thesis by (auto simp: approval_count_def filter_empty_conv)
qed

lemma posted_four_eyes:
  assumes "book_ok s" "st_entries s k = Some e" "je_status e = JPosted"
    "st_ledgers s (je_ledger e) = Some l" "bl_kind l = CompanyPublic c"
  shows "owner_cleared s l e \<or> approved_by_other s l e"
proof (cases "owner_cleared s l e")
  case False
  then have "request_linked s l e"
    using assms by (auto simp: book_ok_def entry_cleared_def)
  then obtain a where a: "st_approvals s (approval_key (je_id e)) = Some a" "ar_submitted_by a = je_created_by e"
    "ar_ledger a = je_ledger e" "is_high_value l e \<Longrightarrow> required_roles (requirement a) = [LOwner]"
    "ar_status a = ASApproved"
    using assms(3) by (auto simp: request_linked_def status_match_def)
  have sound: "request_sound s a" using assms(1) a(1) by (auto simp: book_ok_def)
  then have ok: "request_ok a" and min: "1 \<le> unat (min_approvals (requirement a))"
    by (simp_all add: request_sound_def)
  obtain d where d: "d \<in> set (decisions a)" "vote d = Approve"
    using approved_has_vote [OF ok a(5) min] by blast
  have role: "decision_role d \<in> set (required_roles (requirement a))"
    using ok d(1) by (auto simp: request_ok_def)
  with sound d(1) a(2,3,4) assms(4) have "approved_by_other s l e"
    unfolding approved_by_other_def request_sound_def
    by (intro exI [of _ a] exI [of _ d]) (use a(1,5) d in auto)
  then show ?thesis ..
qed simp

section \<open>The service over the memory repository\<close>

datatype service_call =
    SubmitEntry user_id journal_entry
  | DecideApproval user_id approval_id approval_vote "string option"

fun service_step :: "memory_repository \<Rightarrow> service_call \<Rightarrow> memory_repository" where
  "service_step r (SubmitEntry u e) = snd (submit_entry memory_ledger_repository u e r)"
| "service_step r (DecideApproval u i v note) =
     snd (ledger_decide_approval memory_ledger_repository u i v note r)"

lemma service_step_refines:
  assumes "mem_ok r"
  shows "mem_ok (service_step r c) \<and> (service_step r c = r \<or> book_step (mem_view r) (mem_view (service_step r c)))"
proof (cases c)
  case (SubmitEntry u e)
  then show ?thesis using memory.submit_entry_refines [OF assms, where actor = u and e = e] assms
    by (cases "submit_entry memory_ledger_repository u e r"; cases "fst (submit_entry memory_ledger_repository u e r)")
      auto
next
  case (DecideApproval u i v n)
  then show ?thesis using memory.decide_approval_refines [OF assms, where actor = u and i = i and v = v and ?note = n] assms
    by (cases "ledger_decide_approval memory_ledger_repository u i v n r";
        cases "fst (ledger_decide_approval memory_ledger_repository u i v n r)") (auto intro: decided)
qed

text \<open>The invariant, together with what the service never touches.\<close>

definition service_inv :: "book_store \<Rightarrow> memory_repository \<Rightarrow> bool" where
  "service_inv s0 r \<longleftrightarrow> mem_ok r \<and> book_ok (mem_view r)
     \<and> st_ledgers (mem_view r) = st_ledgers s0 \<and> st_members (mem_view r) = st_members s0"

text \<open>What a step leaves alone: ledgers and members stay, entries and requests are only added.\<close>

definition store_kept :: "book_store \<Rightarrow> book_store \<Rightarrow> bool" where
  "store_kept s s' \<longleftrightarrow> st_ledgers s' = st_ledgers s \<and> st_members s' = st_members s
     \<and> dom (st_entries s) \<subseteq> dom (st_entries s') \<and> dom (st_approvals s) \<subseteq> dom (st_approvals s')"

lemma decide_step_frame [frame]: "decide_step u i s s' \<Longrightarrow> store_kept s s'"
  by (induction rule: decide_step.induct) (auto simp: store_kept_def)

lemma book_step_frame [frame]: "book_step s s' \<Longrightarrow> store_kept s s'"
proof (induction rule: book_step.induct)
  case (decided u i s s')
  then show ?case by (rule decide_step_frame)
qed (auto simp: store_kept_def)

lemma service_step_inv: "service_inv s0 r \<Longrightarrow> service_inv s0 (service_step r c)"
  using service_step_refines [of r c] book_step_ok [of "mem_view r" "mem_view (service_step r c)"]
    book_step_frame [of "mem_view r" "mem_view (service_step r c)"]
  by (auto simp: service_inv_def store_kept_def)

text \<open>Entries and requests are never deleted.\<close>

definition store_grows :: "memory_repository \<Rightarrow> memory_repository \<Rightarrow> bool" where
  "store_grows r r' \<longleftrightarrow>
     dom (st_entries (mem_view r)) \<subseteq> dom (st_entries (mem_view r'))
   \<and> dom (st_approvals (mem_view r)) \<subseteq> dom (st_approvals (mem_view r'))"

lemma service_step_grows: "mem_ok r \<Longrightarrow> store_grows r (service_step r c)"
  using service_step_refines [of r c] book_step_frame [of "mem_view r" "mem_view (service_step r c)"]
  by (auto simp: store_grows_def store_kept_def)

lemma store_grows_refl: "store_grows r r"
  by (simp add: store_grows_def)

lemma store_grows_trans: "store_grows r s \<Longrightarrow> store_grows s t \<Longrightarrow> store_grows r t"
  unfolding store_grows_def by blast

lemma service_inv_mem_ok: "service_inv s0 r \<Longrightarrow> mem_ok r"
  by (simp add: service_inv_def)

interpretation service: forward_machine service_step "service_inv s0" "\<lambda>_. True" store_grows for s0
  by unfold_locales
    (auto intro: service_step_inv service_step_grows store_grows_refl store_grows_trans service_inv_mem_ok)

text \<open>
  A decision on a request whose only accepted role is held by nobody but its submitter fails, so an
  entry that waits for such a request waits for ever, whatever the approvers do.
\<close>

definition waits_for_owner :: "book_store \<Rightarrow> user_id \<Rightarrow> book_ledger \<Rightarrow> journal_entry \<Rightarrow> bool" where
  "waits_for_owner s u l e \<longleftrightarrow>
     st_ledgers s (je_ledger e) = Some l \<and> st_entries s (je_id e) = Some e
   \<and> (\<forall>v. granted l (st_members s (bl_id l)) v LOwner \<longrightarrow> v = u)
   \<and> (\<exists>a. st_approvals s (approval_key (je_id e)) = Some a \<and> ar_ledger a = je_ledger e
        \<and> ar_submitted_by a = u \<and> required_roles (requirement a) = [LOwner])"

lemma decide_step_waits:
  assumes "decide_step v i s s'" "book_ok s" "waits_for_owner s u l e"
  shows "waits_for_owner s' u l e"
  using assms
proof (induction rule: decide_step.induct)
  case (decide_request s i a y b members d)
  have a: "ar_id a = i" "ar_id a = approval_key (ar_entry a)" and y: "je_id y = ar_entry a"
    using decide_request.prems(1) decide_request.hyps(1,2) by (auto simp: book_ok_def request_sound_def)
  have "ar_entry a \<noteq> je_id e"
  proof
    assume "ar_entry a = je_id e"
    then have "b = l" "required_roles (requirement a) = [LOwner]" "ar_submitted_by a = u"
      using decide_request.prems(2) decide_request.hyps(1,3) a by (auto simp: waits_for_owner_def)
    then show False
      using decide_request.prems(2) decide_request.hyps(4,5,6,7)
      by (auto simp: waits_for_owner_def add_decision_Ok)
  qed
  then have "approval_key (je_id e) \<noteq> ar_id a" "je_id e \<noteq> je_id y"
    using a y by (auto simp: approval_key_inj)
  with decide_request.prems(2) show ?case
    by (simp add: waits_for_owner_def)
qed

definition is_decision :: "service_call \<Rightarrow> bool" where
  "is_decision c \<longleftrightarrow> (case c of SubmitEntry _ _ \<Rightarrow> False | DecideApproval _ _ _ _ \<Rightarrow> True)"

lemma service_decision_step:
  assumes "mem_ok r" "is_decision c"
  shows "service_step r c = r \<or> (\<exists>u i. decide_step u i (mem_view r) (mem_view (service_step r c)))"
proof -
  obtain u i v n where c: "c = DecideApproval u i v n"
    using assms(2) by (cases c) (auto simp: is_decision_def)
  show ?thesis
    using memory.decide_approval_refines [OF assms(1), where actor = u and i = i and v = v and ?note = n] c
    by (cases "ledger_decide_approval memory_ledger_repository u i v n r";
        cases "fst (ledger_decide_approval memory_ledger_repository u i v n r)") auto
qed

interpretation waiting: invariant_machine service_step
    "\<lambda>r. mem_ok r \<and> book_ok (mem_view r) \<and> waits_for_owner (mem_view r) u l e" is_decision for u l e
proof
  fix r c
  assume inv: "mem_ok r \<and> book_ok (mem_view r) \<and> waits_for_owner (mem_view r) u l e" and c: "is_decision c"
  have "service_inv (mem_view r) r" using inv by (simp add: service_inv_def)
  then have "service_inv (mem_view r) (service_step r c)" by (rule service_step_inv)
  moreover have "waits_for_owner (mem_view (service_step r c)) u l e"
    using service_decision_step [of r c] inv c decide_step_waits by metis
  ultimately show "mem_ok (service_step r c) \<and> book_ok (mem_view (service_step r c))
      \<and> waits_for_owner (mem_view (service_step r c)) u l e"
    by (simp add: service_inv_def)
qed

lemma submit_high_value:
  assumes "mem_ok r" "om_get (mr_ledgers r) (je_ledger e) = Some l" "bl_kind l = CompanyPublic c"
    "is_high_value l e" "submit_entry memory_ledger_repository u e r = (Ok out, r')"
  shows "st_entries (mem_view r') (je_id e) = Some (e\<lparr>je_status := JPendingApproval\<rparr>)
    \<and> (\<exists>a. st_approvals (mem_view r') (approval_key (je_id e)) = Some a \<and> ar_ledger a = je_ledger e
        \<and> ar_submitted_by a = u \<and> required_roles (requirement a) = [LOwner])"
proof -
  have req: "\<exists>q. approval_requirement l roles e = Required q \<and> required_roles q = [LOwner]" for roles
    using assms(3,4) by (simp add: approval_requirement_def)
  show ?thesis
    using assms(1,2,5) req [of "roles_for l (members_view r (bl_id l)) u"]
    by (auto simp: submit_entry_def memory_ops mem_read_def mem_write_def mem_ok_def inversion Let_def
         mem_view_def approval_request_new_def members_view_def split: if_splits)
qed

end
