(* ===== verification/LedgerProperties.thy ===== *)
theory LedgerProperties
  imports LedgerService
begin

text \<open>
  The properties of the double-entry half of the program (cloudledger-core, cloudledger-db and the
  ledger service) and the concrete company on which they are exercised: a bookkeeper, an approver and
  an owner, with a threshold of 100.00 CNY.
\<close>

section \<open>A company\<close>

definition demo_cny :: "nat \<Rightarrow> ledger_money" where
  "demo_cny n = ledger_money_new (CurrencyCode ''CNY'') (of_nat n)"

definition demo_company :: book_ledger where
  "demo_company =
     \<lparr>bl_id = Ident ''co'', bl_name = ''ACME'', base_currency = CurrencyCode ''CNY'',
      bl_kind = CompanyPublic (Ident ''acme''), approval_policy = policy_company (demo_cny 10000)\<rparr>"

definition demo_member :: "string \<Rightarrow> ledger_role \<Rightarrow> ledger_member" where
  "demo_member u role = ledger_member_new (Ident ''co'') (Ident u) role"

definition demo_entry :: "string \<Rightarrow> string \<Rightarrow> nat \<Rightarrow> journal_entry" where
  "demo_entry i u n =
     journal_entry_new (Ident i) (Ident ''co'') (Ident u) ''rent''
       [journal_line_new (Ident ''expense'') Debit (demo_cny n) None,
        journal_line_new (Ident ''cash'') Credit (demo_cny n) None]"

definition demo_repo :: memory_repository where
  "demo_repo = fold (\<lambda>m r. snd (mem_save_member m r))
     [demo_member ''bo'' LBookkeeper, demo_member ''ap'' LApprover, demo_member ''ow'' LOwner]
     (snd (mem_save_ledger demo_company memory_default))"

lemmas demo_defs = demo_entry_def journal_entry_new_def journal_line_new_def demo_cny_def
  ledger_money_new_def demo_member_def ledger_member_new_def demo_company_def policy_company_def

lemmas lookup_defs = om_values_def om_entries_insert less_prod_def' less_eq_prod_def
  less_ident_def less_eq_ident_def less_char_def less_eq_ledger_role_def less_ledger_role_def

lemmas service_defs = submit_entry_def ledger_decide_approval_def memory_ops mem_write_def mem_read_def
  has_permission_def roles_for_def approval_requirement_def is_high_value_def largest_line_amount_def
  validate_def je_currency_def is_positive_def approval_key_valid accepted_role_def
  approval_request_new_def approval_decision_new_def add_decision_def Let_def approval_count_def
  entry_after_decision_def ident_new_def trim_def trim_end_def ws1_def ws2_def ws3_def

lemma demo_repo_eq:
  "demo_repo = \<lparr>poisoned = False, mr_ledgers = om_insert (Ident ''co'') demo_company om_empty,
     mr_members = om_insert (Ident ''co'', Ident ''ow'', LOwner) (demo_member ''ow'' LOwner)
       (om_insert (Ident ''co'', Ident ''ap'', LApprover) (demo_member ''ap'' LApprover)
       (om_insert (Ident ''co'', Ident ''bo'', LBookkeeper) (demo_member ''bo'' LBookkeeper) om_empty)),
     mr_entries = om_empty, mr_approvals = om_empty\<rparr>"
  by (simp add: demo_repo_def memory_ops mem_write_def mem_read_def memory_default_def demo_defs)

lemma demo_repo_ok: "mem_ok demo_repo"
  by (simp add: mem_ok_def demo_repo_eq demo_defs)

lemma demo_store_ok: "book_ok (mem_view demo_repo)"
  by (simp add: book_ok_def mem_view_def demo_repo_eq)

lemma demo_members:
  "members_view demo_repo (Ident ''co'') =
     [demo_member ''ap'' LApprover, demo_member ''bo'' LBookkeeper, demo_member ''ow'' LOwner]"
  by (simp add: demo_repo_eq members_view_def lookup_defs demo_defs)

lemma demo_service_inv: "service_inv (mem_view demo_repo) demo_repo"
  by (simp add: service_inv_def demo_repo_ok demo_store_ok)

section \<open>The service\<close>

text \<open>
  C6: whatever sequence of submissions and decisions the ledger service processes, every entry it
  stored balances, and every posted entry of a company ledger was either created by an owner and is
  below the threshold, or approved by a member other than its creator whose role permits it, an owner
  if the entry reaches the threshold.
\<close>

theorem service_four_eyes:
  assumes "mem_ok r" "book_ok (mem_view r)"
    and "om_get (mr_entries (run service_step r calls)) k = Some e"
  shows "balanced_entry e
    \<and> (\<forall>l c. je_status e = JPosted \<longrightarrow> om_get (mr_ledgers (run service_step r calls)) (je_ledger e) = Some l
         \<longrightarrow> bl_kind l = CompanyPublic c \<longrightarrow>
           owner_cleared (mem_view (run service_step r calls)) l e
         \<or> approved_by_other (mem_view (run service_step r calls)) l e)"
proof -
  have "service_inv (mem_view r) (run service_step r calls)"
    using assms by (intro service.run_inv) (auto simp: service_inv_def)
  then have ok: "book_ok (mem_view (run service_step r calls))"
    by (simp add: service_inv_def)
  moreover have entry: "st_entries (mem_view (run service_step r calls)) k = Some e"
    using assms(3) by (simp add: mem_view_def)
  ultimately have "balanced_entry e" by (auto simp: book_ok_def)
  then show ?thesis
    using posted_four_eyes [OF ok entry] by (auto simp: mem_view_def)
qed

definition demo_calls :: "service_call list" where
  "demo_calls =
     [SubmitEntry (Ident ''bo'') (demo_entry ''e1'' ''bo'' 2000),
      DecideApproval (Ident ''ap'') (Ident ''approval:e1'') Approve None]"

lemma demo_run_posts:
  "om_get (mr_entries (run service_step demo_repo demo_calls)) (Ident ''e1'') =
     Some (demo_entry ''e1'' ''bo'' 2000 \<lparr>je_status := JPosted\<rparr>)"
  by (simp add: demo_calls_def demo_repo_eq demo_defs lookup_defs service_defs)

theorem service_four_eyes_witness:
  "balanced_entry (demo_entry ''e1'' ''bo'' 2000 \<lparr>je_status := JPosted\<rparr>)"
  using service_four_eyes [OF demo_repo_ok demo_store_ok demo_run_posts] by blast

text \<open>
  The ledger service refines its contract: each call leaves the memory repository in order, and
  either changes nothing or makes exactly one step of the abstract transition relation (an entry saved
  with its request, an entry posted by an owner, or a decision by somebody other than the submitter).
\<close>

theorem service_refines_contract:
  assumes "mem_ok r"
  shows "mem_ok (service_step r c)
    \<and> (service_step r c = r \<or> book_step (mem_view r) (mem_view (service_step r c)))"
  using service_step_refines [OF assms] .

theorem service_refines_contract_witness:
  "mem_ok (service_step demo_repo (SubmitEntry (Ident ''bo'') (demo_entry ''e1'' ''bo'' 2000)))"
  using service_refines_contract [OF demo_repo_ok] by blast

text \<open>
  A high-value entry of the only owner of a company ledger is never posted: after its submission
  no sequence of decisions, by anybody, moves it out of \<open>PendingApproval\<close>, because the request accepts
  only the role of owner and not the vote of its submitter.
\<close>

theorem sole_owner_high_value_waits:
  assumes "mem_ok r" "book_ok (mem_view r)"
    and "om_get (mr_ledgers r) (je_ledger e) = Some l" "bl_kind l = CompanyPublic c" "is_high_value l e"
    and "\<forall>v. granted l (members_view r (bl_id l)) v LOwner \<longrightarrow> v = u"
    and "submit_entry memory_ledger_repository u e r = (Ok out, r')"
    and "\<forall>call \<in> set calls. is_decision call"
  shows "om_get (mr_entries (run service_step r' calls)) (je_id e) = Some (e\<lparr>je_status := JPendingApproval\<rparr>)"
proof -
  let ?e = "e\<lparr>je_status := JPendingApproval\<rparr>"
  have r': "r' = service_step r (SubmitEntry u e)" using assms(7) by simp
  have "service_inv (mem_view r) r" using assms(1,2) by (simp add: service_inv_def)
  then have inv: "service_inv (mem_view r) r'" unfolding r' by (rule service_step_inv)
  have "waits_for_owner (mem_view r') u l ?e"
    using submit_high_value [OF assms(1,3,4,5,7)] inv assms(3,6)
    by (auto simp: waits_for_owner_def service_inv_def mem_view_def)
  then have "waits_for_owner (mem_view (run service_step r' calls)) u l ?e"
    using waiting.run_inv [of r' u l ?e calls] inv assms(8) by (simp add: service_inv_def)
  then show ?thesis by (simp add: waits_for_owner_def mem_view_def)
qed

lemma demo_big_submitted:
  "submit_entry memory_ledger_repository (Ident ''ow'') (demo_entry ''e2'' ''ow'' 20000) demo_repo =
     (Ok (PendingApproval (approval_request_new (Ident ''approval:e2'') (Ident ''co'') (Ident ''e2'') (Ident ''ow'')
        \<lparr>min_approvals = 1, required_roles = [LOwner], reason = HighValueCompanyEntry\<rparr>)),
      snd (submit_entry memory_ledger_repository (Ident ''ow'') (demo_entry ''e2'' ''ow'' 20000) demo_repo))"
  by (simp add: demo_repo_eq demo_defs lookup_defs service_defs)

definition demo_votes :: "service_call list" where
  "demo_votes =
     [DecideApproval (Ident ''ow'') (Ident ''approval:e2'') Approve None,
      DecideApproval (Ident ''ap'') (Ident ''approval:e2'') Approve None]"

lemma demo_votes_decisions: "\<forall>call \<in> set demo_votes. is_decision call"
  by (simp add: demo_votes_def is_decision_def)

theorem sole_owner_high_value_waits_witness:
  "om_get (mr_entries (run service_step
      (snd (submit_entry memory_ledger_repository (Ident ''ow'') (demo_entry ''e2'' ''ow'' 20000) demo_repo))
      demo_votes)) (Ident ''e2'') =
    Some (demo_entry ''e2'' ''ow'' 20000 \<lparr>je_status := JPendingApproval\<rparr>)"
proof -
  have "je_ledger (demo_entry ''e2'' ''ow'' 20000) = Ident ''co''"
    "je_id (demo_entry ''e2'' ''ow'' 20000) = Ident ''e2''" by (simp_all add: demo_defs)
  moreover have "om_get (mr_ledgers demo_repo) (Ident ''co'') = Some demo_company"
    "bl_kind demo_company = CompanyPublic (Ident ''acme'')" "bl_id demo_company = Ident ''co''"
    by (simp_all add: demo_repo_eq demo_company_def)
  moreover have "is_high_value demo_company (demo_entry ''e2'' ''ow'' 20000)"
    by (simp add: service_defs demo_defs)
  moreover have "\<forall>v. granted demo_company (members_view demo_repo (Ident ''co'')) v LOwner \<longrightarrow> v = Ident ''ow''"
    by (simp add: demo_members granted_def demo_defs)
  ultimately show ?thesis
    using sole_owner_high_value_waits [OF demo_repo_ok demo_store_ok, of "demo_entry ''e2'' ''ow'' 20000" demo_company
        "Ident ''acme''", OF _ _ _ _ demo_big_submitted demo_votes_decisions] by simp
qed

section \<open>Entries, requests and permissions\<close>

text \<open>
  \<open>validate\<close> accepts exactly the balanced entries: at least two lines, all amounts positive, a
  single currency, debits equal to credits; and an \<open>Unbalanced\<close> error reports the two exact totals,
  which differ.
\<close>

theorem validate_exactly_balanced:
  "(validate e = Ok () \<longleftrightarrow> balanced_entry e)
   \<and> (\<forall>d c. validate e = Err (Unbalanced d c) \<longrightarrow>
        d = side_total Debit (je_lines e) \<and> c = side_total Credit (je_lines e) \<and> d \<noteq> c)"
  using validate_Ok validate_Unbalanced by blast

theorem validate_exactly_balanced_witness:
  "side_total Debit (je_lines (demo_entry ''e'' ''bo'' 5)) = side_total Credit (je_lines (demo_entry ''e'' ''bo'' 5))
   \<and> (5::int) = side_total Debit [journal_line_new (Ident ''a'') Debit (demo_cny 5) None]"
proof -
  have "validate (demo_entry ''e'' ''bo'' 5) = Ok ()"
    by (simp add: demo_defs validate_def je_currency_def is_positive_def)
  then have "balanced_entry (demo_entry ''e'' ''bo'' 5)"
    using validate_exactly_balanced by blast
  then show ?thesis by (simp add: balanced_entry_def demo_defs)
qed

text \<open>
  the history of an approval request. Starting from a new request and processing any list of
  decisions: each approver counts once, every recorded decision is in an accepted role, the status is
  determined by the recorded decisions (rejected by the first rejection, approved by exactly the
  required number of approvals, at least one), and a closed request never changes again.
\<close>

theorem approval_request_history:
  "let r = run decide (approval_request_new i l e s q) ds in
     requirement r = q
   \<and> distinct (map approver_id (decisions r))
   \<and> (\<forall>d \<in> set (decisions r). decision_role d \<in> set (required_roles q))
   \<and> ar_status r = (if rejected r then ASRejected
        else if length (decisions r) = max 1 (unat (min_approvals q)) then ASApproved else ASPending)
   \<and> (ar_status r \<noteq> ASPending \<longrightarrow> run decide r later = r)"
proof -
  let ?r = "run decide (approval_request_new i l e s q) ds"
  have ok: "request_ok ?r"
    by (intro approval.run_inv) (simp_all add: request_new_ok)
  have "request_le (approval_request_new i l e s q) ?r"
    by (intro approval.run_le) (simp_all add: request_new_ok)
  then have q: "requirement ?r = q"
    by (simp add: request_le_def approval_request_new_def)
  have "request_le ?r (run decide ?r later)"
    using ok by (intro approval.run_le) simp_all
  then have "ar_status ?r \<noteq> ASPending \<longrightarrow> run decide ?r later = ?r"
    by (simp add: request_le_def)
  with ok q request_ok_status [OF ok] show ?thesis
    unfolding Let_def by (simp add: request_ok_def quorum_def)
qed

theorem approval_request_history_witness:
  "ar_status (run decide (approval_request_new (Ident ''q'') (Ident ''l'') (Ident ''e'') (Ident ''u'')
       \<lparr>min_approvals = 2, required_roles = [LApprover, LOwner], reason = CompanyLedger\<rparr>)
     [approval_decision_new (Ident ''a'') LApprover Approve None,
      approval_decision_new (Ident ''a'') LApprover Approve None]) = ASPending"
proof -
  let ?r = "run decide (approval_request_new (Ident ''q'') (Ident ''l'') (Ident ''e'') (Ident ''u'')
       \<lparr>min_approvals = 2, required_roles = [LApprover, LOwner], reason = CompanyLedger\<rparr>)
     [approval_decision_new (Ident ''a'') LApprover Approve None,
      approval_decision_new (Ident ''a'') LApprover Approve None]"
  have "decisions ?r = [approval_decision_new (Ident ''a'') LApprover Approve None]"
    by (simp add: decide_def add_decision_def approval_request_new_def approval_decision_new_def
        approval_count_def)
  then have "\<not> rejected ?r" "length (decisions ?r) = 1"
    by (simp_all only: rejected_def) (simp_all add: approval_decision_new_def)
  then show ?thesis
    using approval_request_history [of "Ident ''q''" "Ident ''l''" "Ident ''e''" "Ident ''u''"
       "\<lparr>min_approvals = 2, required_roles = [LApprover, LOwner], reason = CompanyLedger\<rparr>"
       "[approval_decision_new (Ident ''a'') LApprover Approve None,
         approval_decision_new (Ident ''a'') LApprover Approve None]"]
    unfolding Let_def by simp
qed

text \<open>
  who may do what on a double-entry ledger: a role is held through a membership of that very
  ledger or by owning a personal one; owners may do everything, bookkeepers submit, approvers approve,
  any role may view, and the computed list of roles is sorted without repetition.
\<close>

theorem ledger_permissions:
  "(r \<in> set (roles_for l ms u) \<longleftrightarrow> granted l ms u r)
   \<and> sorted (roles_for l ms u) \<and> distinct (roles_for l ms u)
   \<and> (has_permission l ms u LViewLedger \<longleftrightarrow> (\<exists>r. granted l ms u r))
   \<and> (has_permission l ms u LCreateDraft \<longleftrightarrow> granted l ms u LOwner \<or> granted l ms u LBookkeeper)
   \<and> (has_permission l ms u LSubmitEntry \<longleftrightarrow> granted l ms u LOwner \<or> granted l ms u LBookkeeper)
   \<and> (has_permission l ms u LApproveEntry \<longleftrightarrow> granted l ms u LOwner \<or> granted l ms u LApprover)
   \<and> (has_permission l ms u LPostWithoutApproval \<longleftrightarrow> granted l ms u LOwner)
   \<and> (has_permission l ms u LManageMembers \<longleftrightarrow> granted l ms u LOwner)"
  by (auto simp: roles_for_granted roles_for_sorted roles_for_distinct has_permission_iff
      submit_roles approve_roles post_roles view_roles create_roles manage_roles)

text \<open>
  which approval an entry needs: a personal ledger never asks for one; a company entry whose largest
  line reaches the threshold (in the threshold's currency) needs owners; any other company entry needs an
  approver or an owner unless the actor is an owner or the policy waives it; and the number of approvals
  asked for is never zero.
\<close>

theorem approval_requirement_cases:
  "approval_requirement l roles e = Required q \<longleftrightarrow>
     (\<exists>c. bl_kind l = CompanyPublic c)
   \<and> (is_high_value l e \<or> company_entries_require_approval (approval_policy l) \<and> LOwner \<notin> set roles)
   \<and> required_roles q = (if is_high_value l e then [LOwner] else [LApprover, LOwner])
   \<and> reason q = (if is_high_value l e then HighValueCompanyEntry else CompanyLedger)
   \<and> unat (min_approvals q) = max 1 (unat (policy_min_approvals (approval_policy l)))"
proof -
  have max_one: "min_approvals q = max w 1 \<longleftrightarrow> unat (min_approvals q) = max 1 (unat w)" for w
    by (auto simp: max_def word_le_nat_alt word_unat_eq_iff)
  have "x = \<lparr>min_approvals = n, required_roles = rs, reason = y\<rparr> \<longleftrightarrow>
      min_approvals x = n \<and> required_roles x = rs \<and> reason x = y" for x :: approval_requirement_detail and n rs y
    by (cases x) auto
  then show ?thesis
    by (auto simp: approval_requirement_def max_one eq_commute [of _ q] split: book_kind.splits)
qed

section \<open>The memory repository\<close>

text \<open>
  the members of a ledger, as the memory repository lists them: exactly the stored memberships of
  that ledger, each once, ordered by user and then role, whatever order the underlying hash map yields
  its values in.
\<close>

theorem list_members_sorted:
  assumes "mem_ok r" and "mset vs = mset (om_values (mr_members r))"
  shows "\<exists>ms. mem_list_members l r = Ok ms
    \<and> ms = sort_key (\<lambda>m. (mem_user m, mem_role m)) (filter (\<lambda>m. mem_ledger m = l) vs)
    \<and> sorted_wrt (<) (map (\<lambda>m. (mem_user m, mem_role m)) ms)
    \<and> (\<forall>m. m \<in> set ms \<longleftrightarrow> mem_ledger m = l \<and> om_get (mr_members r) (mem_ledger m, mem_user m, mem_role m) = Some m)"
proof -
  have "mem_list_members l r = Ok (members_view r l)"
    using memory.list_members_view [OF assms(1)] by (simp add: memory_ledger_repository_def mem_view_def)
  then show ?thesis
    using members_view_any_order [OF assms, of l] members_view_strict [OF assms(1)] members_view_in [OF assms(1)]
    by simp
qed

theorem list_members_sorted_witness:
  "\<exists>ms. mem_list_members (Ident ''co'') demo_repo = Ok ms
     \<and> demo_member ''ap'' LApprover \<in> set ms"
proof -
  have "om_get (mr_members demo_repo) (Ident ''co'', Ident ''ap'', LApprover) = Some (demo_member ''ap'' LApprover)"
    by (simp add: demo_repo_eq)
  then show ?thesis
    using list_members_sorted [OF demo_repo_ok refl, of "Ident ''co''"] by (auto simp: demo_defs)
qed

text \<open>
  once a panic has poisoned the lock, every operation of the memory repository returns the backend
  error and none changes the stored data, so the ledger service cannot act on a half-written state.
\<close>

theorem poisoned_repository_refuses:
  assumes "poisoned r"
  shows "service_step r call = r
    \<and> fst (mem_save_ledger l r) = Err (Backend ''memory repository lock poisoned'')
    \<and> fst (mem_save_member m r) = Err (Backend ''memory repository lock poisoned'')
    \<and> mem_get_ledger i r = Err (Backend ''memory repository lock poisoned'')
    \<and> mem_list_journal_entries i r = Err (Backend ''memory repository lock poisoned'')
    \<and> mem_list_approval_requests i r = Err (Backend ''memory repository lock poisoned'')"
  using assms
  by (cases call) (simp_all add: submit_entry_def ledger_decide_approval_def memory_ops
      mem_poisoned_read mem_poisoned_write)

theorem poisoned_repository_refuses_witness:
  "service_step (demo_repo\<lparr>poisoned := True\<rparr>) (SubmitEntry (Ident ''bo'') (demo_entry ''e1'' ''bo'' 2000))
     = demo_repo\<lparr>poisoned := True\<rparr>"
  by (rule poisoned_repository_refuses [THEN conjunct1]) simp

text \<open>
  Identifiers are chosen by the caller and \<open>submit_entry\<close> does not look for an entry already stored
  under the identifier: a bookkeeper's submission replaces somebody else's posted entry.
\<close>

lemma submission_replaces_posted_entry:
  "om_get (mr_entries (run service_step demo_repo
      [SubmitEntry (Ident ''ow'') (demo_entry ''e1'' ''ow'' 2000),
       SubmitEntry (Ident ''bo'') (demo_entry ''e1'' ''bo'' 1)])) (Ident ''e1'') =
     Some (demo_entry ''e1'' ''bo'' 1 \<lparr>je_status := JPendingApproval\<rparr>)
   \<and> om_get (mr_entries (run service_step demo_repo
      [SubmitEntry (Ident ''ow'') (demo_entry ''e1'' ''ow'' 2000)])) (Ident ''e1'') =
     Some (demo_entry ''e1'' ''ow'' 2000 \<lparr>je_status := JPosted\<rparr>)"
  by (simp add: demo_repo_eq demo_defs lookup_defs service_defs)

end
