(* ===== verification/Environment.thy ===== *)
theory Environment
  imports RustText
begin

text \<open>
  What the program takes from outside. \<open>world\<close> is the supply of random identifiers and the clock:
  the results of the successive calls of \<open>Uuid::new_v4()\<close> and \<open>OffsetDateTime::now_utc()\<close>, threaded
  through every operation that makes such calls. \<open>env\<close> holds the functions of other crates and
  of the standard library's Unicode tables that the program calls and that are not under \<open>src/\<close>:
  Unicode case mapping, the text form of identifiers and times. They are parameters: a theorem
  holds for every \<open>env\<close>, or names what it needs of it.
\<close>

text \<open>
  \<open>Uuid\<close> is an opaque identifier, compared, ordered and hashed as an unsigned number;
  \<open>Uuid::nil()\<close> is 0. The program does no arithmetic on identifiers, and they are natural numbers
  here: the bound of 128 bits is not modelled, because over finitely many identifiers no unbounded
  supply is free of collisions, and the theorems that need fresh identifiers would be void.
  \<open>OffsetDateTime\<close> is compared as an instant: nanoseconds since the Unix epoch.
\<close>

type_synonym uuid = nat
type_synonym instant = int

abbreviation nil_uuid :: uuid where
  "nil_uuid \<equiv> 0"

record world =
  ids :: "nat \<Rightarrow> uuid"
  clock :: "nat \<Rightarrow> instant"

definition new_v4 :: "world \<Rightarrow> uuid \<times> world" where
  "new_v4 w = (ids w 0, w\<lparr>ids := \<lambda>n. ids w (Suc n)\<rparr>)"

definition now_utc :: "world \<Rightarrow> instant \<times> world" where
  "now_utc w = (clock w 0, w\<lparr>clock := \<lambda>n. clock w (Suc n)\<rparr>)"

record env =
  to_uppercase :: "string \<Rightarrow> string"
  to_lowercase :: "string \<Rightarrow> string"
  uuid_to_string :: "uuid \<Rightarrow> string"
  parse_uuid :: "string \<Rightarrow> uuid option"
  format_time :: "instant \<Rightarrow> string"

text \<open>
  Version-4 identifiers do not collide: the supply is injective and avoids the identifiers
  already in use. This is the only thing assumed of the supply, and only where a theorem says so.
\<close>

definition fresh_ids :: "world \<Rightarrow> uuid set \<Rightarrow> bool" where
  "fresh_ids w S \<longleftrightarrow> inj (ids w) \<and> (\<forall>n. ids w n \<notin> S)"

lemma fresh_ids_new_v4:
  assumes "fresh_ids w S" and "new_v4 w = (i, w')"
  shows "i \<notin> S" and "fresh_ids w' (insert i S)"
  using assms by (force simp: fresh_ids_def new_v4_def inj_on_def)+

lemma fresh_ids_now_utc:
  assumes "fresh_ids w S" and "now_utc w = (t, w')"
  shows "fresh_ids w' S"
  using assms by (auto simp: fresh_ids_def now_utc_def)

lemma fresh_ids_mono: "fresh_ids w S \<Longrightarrow> T \<subseteq> S \<Longrightarrow> fresh_ids w T"
  by (auto simp: fresh_ids_def)

text \<open>A concrete world and environment, used to instantiate theorems.\<close>

definition demo_world :: world where
  "demo_world = \<lparr>ids = (\<lambda>n. n + 1000), clock = (\<lambda>n. int n)\<rparr>"

definition demo_env :: env where
  "demo_env = \<lparr>to_uppercase = to_ascii_uppercase, to_lowercase = to_ascii_lowercase,
     uuid_to_string = (\<lambda>u. [char_of u]), parse_uuid = (\<lambda>_. None),
     format_time = (\<lambda>_. [])\<rparr>"

lemma demo_world_fresh: "(\<And>n. n \<in> S \<Longrightarrow> n < 1000) \<Longrightarrow> fresh_ids demo_world S"
  by (fastforce simp: fresh_ids_def demo_world_def inj_on_def)

end
