(* ===== verification/AppTypes.thy ===== *)
theory AppTypes
  imports Environment Amount OrdMap
begin

text \<open>
  \<open>cloudledger-core/src/types.rs\<close>: the data of the application ledger. Every constructor that draws
  an identifier or reads the clock takes the \<open>world\<close> and returns what is left of it.
\<close>

section \<open>Users, organizations, memberships\<close>

record user =
  usr_id :: uuid
  display_name :: string
  email :: "string option"
  phone :: "string option"
  usr_created_at :: instant

definition user_new :: "string \<Rightarrow> string option \<Rightarrow> string option \<Rightarrow> world \<Rightarrow> user \<times> world" where
  "user_new name mail tel w =
     (let (i, w) = new_v4 w; (t, w) = now_utc w in
      (\<lparr>usr_id = i, display_name = name, email = mail, phone = tel, usr_created_at = t\<rparr>, w))"

record organization =
  org_id :: uuid
  org_name :: string
  org_created_by :: uuid
  org_created_at :: instant

definition organization_new :: "string \<Rightarrow> uuid \<Rightarrow> world \<Rightarrow> organization \<times> world" where
  "organization_new name creator w =
     (let (i, w) = new_v4 w; (t, w) = now_utc w in
      (\<lparr>org_id = i, org_name = name, org_created_by = creator, org_created_at = t\<rparr>, w))"

datatype membership_role =
  Owner | Admin | BusinessOwner | Employee | Accountant | Approver | Member | Viewer

record membership =
  ms_id :: uuid
  ms_organization :: uuid
  ms_user :: uuid
  ms_role :: membership_role
  ms_created_at :: instant

definition membership_new :: "uuid \<Rightarrow> uuid \<Rightarrow> membership_role \<Rightarrow> world \<Rightarrow> membership \<times> world" where
  "membership_new org u role w =
     (let (i, w) = new_v4 w; (t, w) = now_utc w in
      (\<lparr>ms_id = i, ms_organization = org, ms_user = u, ms_role = role, ms_created_at = t\<rparr>, w))"

section \<open>Ledgers, accounts, categories\<close>

datatype ledger_kind = Personal | OrganizationPublic

record ledger =
  lg_id :: uuid
  lg_name :: string
  lg_kind :: ledger_kind
  owner_user_id :: "uuid option"
  organization_id :: "uuid option"
  lg_created_at :: instant
  lg_deleted_at :: "instant option"

definition ledger_personal :: "uuid \<Rightarrow> string \<Rightarrow> world \<Rightarrow> ledger \<times> world" where
  "ledger_personal owner name w =
     (let (i, w) = new_v4 w; (t, w) = now_utc w in
      (\<lparr>lg_id = i, lg_name = name, lg_kind = Personal, owner_user_id = Some owner,
        organization_id = None, lg_created_at = t, lg_deleted_at = None\<rparr>, w))"

definition ledger_organization_public :: "uuid \<Rightarrow> string \<Rightarrow> world \<Rightarrow> ledger \<times> world" where
  "ledger_organization_public org name w =
     (let (i, w) = new_v4 w; (t, w) = now_utc w in
      (\<lparr>lg_id = i, lg_name = name, lg_kind = OrganizationPublic, owner_user_id = None,
        organization_id = Some org, lg_created_at = t, lg_deleted_at = None\<rparr>, w))"

datatype financial_account_kind =
  Cash | Bank | Wallet | Wechat | Alipay | CreditAccount | Receivable | Payable

record financial_account =
  fa_id :: uuid
  fa_ledger :: uuid
  fa_name :: string
  fa_kind :: financial_account_kind
  opening_balance :: money
  fa_created_at :: instant
  fa_deleted_at :: "instant option"

definition financial_account_new ::
  "uuid \<Rightarrow> string \<Rightarrow> financial_account_kind \<Rightarrow> money \<Rightarrow> world \<Rightarrow> financial_account \<times> world" where
  "financial_account_new l name kind opening w =
     (let (i, w) = new_v4 w; (t, w) = now_utc w in
      (\<lparr>fa_id = i, fa_ledger = l, fa_name = name, fa_kind = kind, opening_balance = opening,
        fa_created_at = t, fa_deleted_at = None\<rparr>, w))"

datatype category_kind = IncomeCategory | ExpenseCategory

record category =
  cat_id :: uuid
  cat_ledger :: uuid
  cat_name :: string
  cat_kind :: category_kind

section \<open>Transactions\<close>

datatype transaction_kind = Income | Expense | Transfer

datatype approval_state = Draft | Submitted | Approved | Rejected | Voided

datatype payment_state = NotApplicable | PendingPayment | PaidPendingReceipt | Received

record transaction =
  tx_id :: uuid
  client_mutation_id :: "uuid option"
  tx_ledger :: uuid
  tx_account :: uuid
  tx_category :: "uuid option"
  tx_kind :: transaction_kind
  tx_amount :: money
  occurred_at :: instant
  tx_description :: string
  approval_state :: approval_state
  payment_state :: payment_state
  tx_created_by :: uuid
  submitted_by :: "uuid option"
  approved_by :: "uuid option"
  approved_at :: "instant option"
  paid_by :: "uuid option"
  paid_at :: "instant option"
  received_by :: "uuid option"
  received_at :: "instant option"
  tx_version :: i64
  tx_created_at :: instant
  tx_updated_at :: instant
  tx_deleted_at :: "instant option"

text \<open>\<open>Transaction::draft\<close> reads the clock first and draws the identifier then.\<close>

definition transaction_draft ::
  "uuid \<Rightarrow> uuid \<Rightarrow> uuid option \<Rightarrow> transaction_kind \<Rightarrow> money \<Rightarrow> string \<Rightarrow> uuid \<Rightarrow> world
     \<Rightarrow> transaction \<times> world" where
  "transaction_draft l account cat kind amount description creator w =
     (let (now, w) = now_utc w; (i, w) = new_v4 w in
      (\<lparr>tx_id = i, client_mutation_id = None, tx_ledger = l, tx_account = account, tx_category = cat,
        tx_kind = kind, tx_amount = amount, occurred_at = now, tx_description = description,
        approval_state = Draft, payment_state = NotApplicable, tx_created_by = creator,
        submitted_by = None, approved_by = None, approved_at = None, paid_by = None, paid_at = None,
        received_by = None, received_at = None, tx_version = 1, tx_created_at = now,
        tx_updated_at = now, tx_deleted_at = None\<rparr>, w))"

section \<open>The audit log\<close>

record audit_log =
  al_id :: uuid
  al_organization :: "uuid option"
  al_ledger :: uuid
  al_actor :: uuid
  al_action :: string
  al_resource_type :: string
  al_resource :: uuid
  al_summary :: string
  al_created_at :: instant

definition audit_log_new ::
  "uuid option \<Rightarrow> uuid \<Rightarrow> uuid \<Rightarrow> string \<Rightarrow> string \<Rightarrow> uuid \<Rightarrow> string \<Rightarrow> world \<Rightarrow> audit_log \<times> world" where
  "audit_log_new org l actor action resource_type resource summary w =
     (let (i, w) = new_v4 w; (t, w) = now_utc w in
      (\<lparr>al_id = i, al_organization = org, al_ledger = l, al_actor = actor, al_action = action,
        al_resource_type = resource_type, al_resource = resource, al_summary = summary,
        al_created_at = t\<rparr>, w))"

end
