(* ===== verification/Permissions.thy ===== *)
theory Permissions
  imports AppTypes
begin

text \<open>
  \<open>cloudledger-core/src/permissions.rs\<close>: what a user may do on a ledger, from the kind of the ledger
  and the user's role in the organization that owns it.
\<close>

datatype action =
    ViewLedger
  | CreateTransaction
  | SubmitTransaction
  | ApproveTransaction
  | MarkTransactionPaid
  | ConfirmReceipt
  | EditApprovedTransaction
  | VoidTransaction
  | ExportLedger
  | ManageAccounts
  | ManageMembers
  | ViewAuditLog
  | ViewFinancialAnalytics

record authorization_context =
  ctx_actor :: uuid
  ctx_ledger :: ledger
  ctx_role :: "membership_role option"

definition can_perform_personal :: "authorization_context \<Rightarrow> action \<Rightarrow> bool" where
  "can_perform_personal ctx a \<longleftrightarrow>
     owner_user_id (ctx_ledger ctx) = Some (ctx_actor ctx)
   \<and> a \<in> {ViewLedger, CreateTransaction, SubmitTransaction, VoidTransaction, ExportLedger,
          ManageAccounts, ViewAuditLog}"

fun role_permits :: "membership_role \<Rightarrow> action \<Rightarrow> bool" where
  "role_permits Owner a = False"
| "role_permits Admin a = False"
| "role_permits BusinessOwner a =
     (a \<in> {ViewLedger, CreateTransaction, SubmitTransaction, ApproveTransaction, MarkTransactionPaid,
          ConfirmReceipt, VoidTransaction, ExportLedger, ManageAccounts, ViewAuditLog,
          ViewFinancialAnalytics})"
| "role_permits Approver a =
     (a \<in> {ViewLedger, CreateTransaction, SubmitTransaction, ApproveTransaction, MarkTransactionPaid,
          ConfirmReceipt, ExportLedger, ManageAccounts, ViewAuditLog, ViewFinancialAnalytics})"
| "role_permits Employee a =
     (a \<in> {ViewLedger, CreateTransaction, SubmitTransaction, ConfirmReceipt, ViewAuditLog})"
| "role_permits Accountant a =
     (a \<in> {ViewLedger, CreateTransaction, SubmitTransaction, ConfirmReceipt, ViewAuditLog})"
| "role_permits Member a =
     (a \<in> {ViewLedger, CreateTransaction, SubmitTransaction, ConfirmReceipt, ViewAuditLog})"
| "role_permits Viewer a = (a \<in> {ViewLedger, ViewAuditLog})"

definition can_perform_organization :: "authorization_context \<Rightarrow> action \<Rightarrow> bool" where
  "can_perform_organization ctx a \<longleftrightarrow>
     (case ctx_role ctx of None \<Rightarrow> False | Some role \<Rightarrow> role_permits role a)"

definition can_perform :: "authorization_context \<Rightarrow> action \<Rightarrow> bool" where
  "can_perform ctx a \<longleftrightarrow>
     (case lg_kind (ctx_ledger ctx) of
        Personal \<Rightarrow> can_perform_personal ctx a
      | OrganizationPublic \<Rightarrow> can_perform_organization ctx a)"

section \<open>Lemmas\<close>

text \<open>The roles that manage the money of an organization (the code's \<open>matches!\<close> lists).\<close>

abbreviation boss_role :: "membership_role \<Rightarrow> bool" where
  "boss_role r \<equiv> r = BusinessOwner \<or> r = Approver"

lemma permits_approve [simp]: "role_permits r ApproveTransaction \<longleftrightarrow> boss_role r"
  by (cases r) auto

lemma permits_pay [simp]: "role_permits r MarkTransactionPaid \<longleftrightarrow> boss_role r"
  by (cases r) auto

lemma permits_analytics [simp]: "role_permits r ViewFinancialAnalytics \<longleftrightarrow> boss_role r"
  by (cases r) auto

lemma permits_void [simp]: "role_permits r VoidTransaction \<longleftrightarrow> r = BusinessOwner"
  by (cases r) auto

lemma permits_view: "role_permits r ViewLedger \<longleftrightarrow> r \<noteq> Owner \<and> r \<noteq> Admin"
  by (cases r) auto

lemma permits_create: "role_permits r CreateTransaction \<longleftrightarrow> r \<noteq> Owner \<and> r \<noteq> Admin \<and> r \<noteq> Viewer"
  by (cases r) auto

lemma permits_receipt: "role_permits r ConfirmReceipt \<longleftrightarrow> r \<noteq> Owner \<and> r \<noteq> Admin \<and> r \<noteq> Viewer"
  by (cases r) auto

lemma permits_never [simp]: "\<not> role_permits r ManageMembers" "\<not> role_permits r EditApprovedTransaction"
  by (cases r; auto)+

lemma permits_implies_view: "role_permits r a \<Longrightarrow> role_permits r ViewLedger"
  by (cases r) auto

lemma can_perform_simps [simp]:
  "lg_kind (ctx_ledger ctx) = Personal \<Longrightarrow> can_perform ctx a = can_perform_personal ctx a"
  "lg_kind (ctx_ledger ctx) = OrganizationPublic \<Longrightarrow> can_perform ctx a = can_perform_organization ctx a"
  by (simp_all add: can_perform_def)

end
