(* ===== verification/AppState.thy ===== *)
theory AppState
  imports Permissions
begin

text \<open>
  The state of the application ledger (\<open>cloudledger-service/src/app.rs\<close>, \<open>AppLedgerService\<close>), its
  errors and inputs, what it shows to its callers, and the read-only helpers that every operation
  uses: the membership lookup, the authorization check, what an actor may see, the balances.
\<close>

section \<open>Texts\<close>

text \<open>
  String constants beyond ASCII, as their UTF-8 bytes. The names say what they mean: the suffixes of
  ledger names, the standard accounts, the default categories and the parts of audit summaries.
\<close>

definition text_public_suffix :: string where
  "text_public_suffix =
     [CHR 0x20, CHR 0xE5, CHR 0x85, CHR 0xAC, CHR 0xE8, CHR 0xB4, CHR 0xA6]"

definition text_personal_suffix :: string where
  "text_personal_suffix =
     [CHR 0x20, CHR 0xE7, CHR 0xA7, CHR 0x81, CHR 0xE8, CHR 0xB4, CHR 0xA6]"

definition text_public :: string where
  "text_public =
     [CHR 0xE5, CHR 0x85, CHR 0xAC, CHR 0xE8, CHR 0xB4, CHR 0xA6]"

definition text_personal :: string where
  "text_personal =
     [CHR 0xE7, CHR 0xA7, CHR 0x81, CHR 0xE8, CHR 0xB4, CHR 0xA6]"

definition text_wechat :: string where
  "text_wechat =
     [CHR 0xE5, CHR 0xBE, CHR 0xAE, CHR 0xE4, CHR 0xBF, CHR 0xA1]"

definition text_alipay :: string where
  "text_alipay =
     [CHR 0xE6, CHR 0x94, CHR 0xAF, CHR 0xE4, CHR 0xBB, CHR 0x98, CHR 0xE5, CHR 0xAE, CHR 0x9D]"

definition text_bank :: string where
  "text_bank =
     [CHR 0xE9, CHR 0x93, CHR 0xB6, CHR 0xE8, CHR 0xA1, CHR 0x8C, CHR 0xE8, CHR 0xB4, CHR 0xA6,
      CHR 0xE6, CHR 0x88, CHR 0xB7]"

definition text_cash :: string where
  "text_cash =
     [CHR 0xE7, CHR 0x8E, CHR 0xB0, CHR 0xE9, CHR 0x87, CHR 0x91]"

definition text_meals :: string where
  "text_meals =
     [CHR 0xE9, CHR 0xA4, CHR 0x90, CHR 0xE9, CHR 0xA5, CHR 0xAE]"

definition text_transport :: string where
  "text_transport =
     [CHR 0xE4, CHR 0xBA, CHR 0xA4, CHR 0xE9, CHR 0x80, CHR 0x9A]"

definition text_office :: string where
  "text_office =
     [CHR 0xE5, CHR 0x8A, CHR 0x9E, CHR 0xE5, CHR 0x85, CHR 0xAC]"

definition text_purchases :: string where
  "text_purchases =
     [CHR 0xE9, CHR 0x87, CHR 0x87, CHR 0xE8, CHR 0xB4, CHR 0xAD]"

definition text_travel :: string where
  "text_travel =
     [CHR 0xE5, CHR 0xB7, CHR 0xAE, CHR 0xE6, CHR 0x97, CHR 0x85]"

definition text_other_expense :: string where
  "text_other_expense =
     [CHR 0xE5, CHR 0x85, CHR 0xB6, CHR 0xE4, CHR 0xBB, CHR 0x96, CHR 0xE6, CHR 0x94, CHR 0xAF,
      CHR 0xE5, CHR 0x87, CHR 0xBA]"

definition text_salary :: string where
  "text_salary =
     [CHR 0xE5, CHR 0xB7, CHR 0xA5, CHR 0xE8, CHR 0xB5, CHR 0x84]"

definition text_business_income :: string where
  "text_business_income =
     [CHR 0xE4, CHR 0xB8, CHR 0x9A, CHR 0xE5, CHR 0x8A, CHR 0xA1, CHR 0xE6, CHR 0x94, CHR 0xB6,
      CHR 0xE5, CHR 0x85, CHR 0xA5]"

definition text_other_income :: string where
  "text_other_income =
     [CHR 0xE5, CHR 0x85, CHR 0xB6, CHR 0xE4, CHR 0xBB, CHR 0x96, CHR 0xE6, CHR 0x94, CHR 0xB6,
      CHR 0xE5, CHR 0x85, CHR 0xA5]"

definition text_auto_approved :: string where
  "text_auto_approved =
     [CHR 0xE5, CHR 0x8D, CHR 0x95, CHR 0xE8, CHR 0x80, CHR 0x81, CHR 0xE6, CHR 0x9D, CHR 0xBF,
      CHR 0xE7, CHR 0xAD, CHR 0x96, CHR 0xE7, CHR 0x95, CHR 0xA5, CHR 0xE8, CHR 0x87, CHR 0xAA,
      CHR 0xE5, CHR 0x8A, CHR 0xA8, CHR 0xE6, CHR 0x89, CHR 0xB9, CHR 0xE5, CHR 0x87, CHR 0x86,
      CHR 0xE5, CHR 0x85, CHR 0xAC, CHR 0xE8, CHR 0xB4, CHR 0xA6, CHR 0xE6, CHR 0xB5, CHR 0x81,
      CHR 0xE6, CHR 0xB0, CHR 0xB4, CHR 0xEF, CHR 0xBC, CHR 0x9A]"

definition text_submitted :: string where
  "text_submitted =
     [CHR 0xE6, CHR 0x8F, CHR 0x90, CHR 0xE4, CHR 0xBA, CHR 0xA4, CHR 0xE5, CHR 0x85, CHR 0xAC,
      CHR 0xE8, CHR 0xB4, CHR 0xA6, CHR 0xE6, CHR 0xB5, CHR 0x81, CHR 0xE6, CHR 0xB0, CHR 0xB4,
      CHR 0xEF, CHR 0xBC, CHR 0x9A]"

definition text_approved :: string where
  "text_approved =
     [CHR 0xE6, CHR 0x89, CHR 0xB9, CHR 0xE5, CHR 0x87, CHR 0x86, CHR 0xE5, CHR 0x85, CHR 0xAC,
      CHR 0xE8, CHR 0xB4, CHR 0xA6, CHR 0xE6, CHR 0xB5, CHR 0x81, CHR 0xE6, CHR 0xB0, CHR 0xB4,
      CHR 0xEF, CHR 0xBC, CHR 0x8C, CHR 0xE7, CHR 0xAD, CHR 0x89, CHR 0xE5, CHR 0xBE, CHR 0x85,
      CHR 0xE6, CHR 0x89, CHR 0x93, CHR 0xE6, CHR 0xAC, CHR 0xBE, CHR 0xEF, CHR 0xBC, CHR 0x9A]"

definition text_rejected :: string where
  "text_rejected =
     [CHR 0xE9, CHR 0xA9, CHR 0xB3, CHR 0xE5, CHR 0x9B, CHR 0x9E, CHR 0xE5, CHR 0x85, CHR 0xAC,
      CHR 0xE8, CHR 0xB4, CHR 0xA6, CHR 0xE6, CHR 0xB5, CHR 0x81, CHR 0xE6, CHR 0xB0, CHR 0xB4,
      CHR 0xEF, CHR 0xBC, CHR 0x9A]"

definition text_reason :: string where
  "text_reason =
     [CHR 0xEF, CHR 0xBC, CHR 0x8C, CHR 0xE5, CHR 0x8E, CHR 0x9F, CHR 0xE5, CHR 0x9B, CHR 0xA0,
      CHR 0xEF, CHR 0xBC, CHR 0x9A]"

definition text_voided :: string where
  "text_voided =
     [CHR 0xE4, CHR 0xBD, CHR 0x9C, CHR 0xE5, CHR 0xBA, CHR 0x9F, CHR 0xE5, CHR 0x85, CHR 0xAC,
      CHR 0xE8, CHR 0xB4, CHR 0xA6, CHR 0xE6, CHR 0xB5, CHR 0x81, CHR 0xE6, CHR 0xB0, CHR 0xB4,
      CHR 0xEF, CHR 0xBC, CHR 0x9A]"

definition text_paid :: string where
  "text_paid =
     [CHR 0xE6, CHR 0xA0, CHR 0x87, CHR 0xE8, CHR 0xAE, CHR 0xB0, CHR 0xE5, CHR 0x85, CHR 0xAC,
      CHR 0xE8, CHR 0xB4, CHR 0xA6, CHR 0xE7, CHR 0x94, CHR 0xB3, CHR 0xE8, CHR 0xAF, CHR 0xB7,
      CHR 0xE5, CHR 0xB7, CHR 0xB2, CHR 0xE6, CHR 0x89, CHR 0x93, CHR 0xE6, CHR 0xAC, CHR 0xBE,
      CHR 0xEF, CHR 0xBC, CHR 0x9A]"

definition text_received :: string where
  "text_received =
     [CHR 0xE7, CHR 0x94, CHR 0xB3, CHR 0xE8, CHR 0xAF, CHR 0xB7, CHR 0xE4, CHR 0xBA, CHR 0xBA,
      CHR 0xE7, CHR 0xA1, CHR 0xAE, CHR 0xE8, CHR 0xAE, CHR 0xA4, CHR 0xE6, CHR 0x94, CHR 0xB6,
      CHR 0xE5, CHR 0x88, CHR 0xB0, CHR 0xE6, CHR 0xAC, CHR 0xBE, CHR 0xE9, CHR 0xA1, CHR 0xB9,
      CHR 0xEF, CHR 0xBC, CHR 0x9A]"

section \<open>Errors and inputs\<close>

datatype app_error =
    LedgerNotFound
  | UserNotFound
  | AccountNotFound
  | CategoryNotFound
  | InvalidCategoryName
  | DuplicateCategory
  | CategoryDirectionMismatch
  | OrganizationNotFound
  | MembershipNotFound
  | EmployeeBelongsToAnotherOrganization
  | TransactionNotFound
  | Unauthorized
  | InvalidApprovalState
  | InvalidPaymentState
  | ReceiptConfirmationDenied
  | SelfApprovalDenied
  | DecisionNoteRequired
  | VoidReasonRequired
  | InvalidVoidReason
  | PublicLedgerOnly
  | InvalidVoidState
  | AppCurrencyMismatch
  | UnsupportedTransactionKind
  | LastOwnerDenied
  | SetupIncomplete
  | InvalidOrganizationName
  | InvalidUserDisplayName
  | InvalidAmount string
  | InvalidAnalysisRange
  | InvalidTransactionMonth
  | InvalidTransactionDay
  | InvalidAuditGranularity
  | InvalidAuditPeriod
  | Storage string

record create_transaction_input =
  ct_actor :: uuid
  ct_ledger :: uuid
  ct_account :: uuid
  ct_category :: "uuid option"
  ct_kind :: transaction_kind
  ct_amount_minor :: i64
  ct_currency :: string
  ct_description :: string
  ct_mutation_id :: "uuid option"

record create_category_input =
  cc_actor :: uuid
  cc_ledger :: uuid
  cc_name :: string
  cc_kind :: category_kind

datatype approval_choice = ApproveTx | RejectTx

record decide_approval_input =
  da_actor :: uuid
  da_transaction :: uuid
  da_decision :: approval_choice
  da_note :: "string option"

record mark_paid_input =
  mp_actor :: uuid
  mp_transaction :: uuid

record confirm_receipt_input =
  cr_actor :: uuid
  cr_transaction :: uuid

record void_transaction_input =
  vt_actor :: uuid
  vt_transaction :: uuid
  void_reason :: string

record add_member_input =
  am_organization :: uuid
  am_display_name :: string
  am_email :: "string option"
  am_phone :: "string option"
  am_role :: membership_role

record update_role_input =
  ur_organization :: uuid
  ur_membership :: uuid
  ur_role :: membership_role

record ensure_identity_input =
  ei_user :: uuid
  ei_display_name :: string
  ei_email :: "string option"
  ei_phone :: "string option"

record create_organization_input =
  co_name :: string
  co_admin_user :: uuid
  co_admin_display_name :: string
  co_admin_email :: "string option"
  co_admin_phone :: "string option"

section \<open>The state\<close>

record app_ledger_service =
  schema_version :: nat
  current_user_id :: uuid
  users :: "(uuid, user) ord_map"
  organizations :: "(uuid, organization) ord_map"
  memberships :: "membership list"
  ledgers :: "(uuid, ledger) ord_map"
  accounts :: "(uuid, financial_account) ord_map"
  categories :: "(uuid, category) ord_map"
  transactions :: "(uuid, transaction) ord_map"
  audit_logs :: "audit_log list"

definition app_state_schema_version :: nat where
  "app_state_schema_version = 3"

definition uninitialized :: app_ledger_service where
  "uninitialized =
     \<lparr>schema_version = app_state_schema_version, current_user_id = nil_uuid, users = om_empty,
      organizations = om_empty, memberships = [], ledgers = om_empty, accounts = om_empty,
      categories = om_empty, transactions = om_empty, audit_logs = []\<rparr>"

section \<open>Names of roles and states\<close>

fun membership_role_name :: "membership_role \<Rightarrow> string" where
  "membership_role_name Owner = ''owner''"
| "membership_role_name Admin = ''admin''"
| "membership_role_name BusinessOwner = ''business_owner''"
| "membership_role_name Employee = ''employee''"
| "membership_role_name Accountant = ''accountant''"
| "membership_role_name Approver = ''approver''"
| "membership_role_name Member = ''member''"
| "membership_role_name Viewer = ''viewer''"

fun is_business_member_role :: "membership_role \<Rightarrow> bool" where
  "is_business_member_role r = (r \<in> {BusinessOwner, Employee, Accountant, Approver, Member})"

fun approval_state_name :: "approval_state \<Rightarrow> string" where
  "approval_state_name Draft = ''draft''"
| "approval_state_name Submitted = ''submitted''"
| "approval_state_name Approved = ''approved''"
| "approval_state_name Rejected = ''rejected''"
| "approval_state_name Voided = ''voided''"

fun payment_state_name :: "payment_state \<Rightarrow> string" where
  "payment_state_name NotApplicable = ''not_applicable''"
| "payment_state_name PendingPayment = ''pending_payment''"
| "payment_state_name PaidPendingReceipt = ''paid_pending_receipt''"
| "payment_state_name Received = ''received''"

fun transaction_kind_name :: "transaction_kind \<Rightarrow> string" where
  "transaction_kind_name Income = ''income''"
| "transaction_kind_name Expense = ''expense''"
| "transaction_kind_name Transfer = ''transfer''"

fun category_kind_name :: "category_kind \<Rightarrow> string" where
  "category_kind_name IncomeCategory = ''income''"
| "category_kind_name ExpenseCategory = ''expense''"

text \<open>The derived \<open>Debug\<close> name of an account kind, which the account view maps to lower case.\<close>

fun account_kind_debug :: "financial_account_kind \<Rightarrow> string" where
  "account_kind_debug Cash = ''Cash''"
| "account_kind_debug Bank = ''Bank''"
| "account_kind_debug Wallet = ''Wallet''"
| "account_kind_debug Wechat = ''Wechat''"
| "account_kind_debug Alipay = ''Alipay''"
| "account_kind_debug CreditAccount = ''Credit''"
| "account_kind_debug Receivable = ''Receivable''"
| "account_kind_debug Payable = ''Payable''"

section \<open>Normalization of input texts\<close>

definition normalize_email :: "env \<Rightarrow> string \<Rightarrow> string" where
  "normalize_email env s = to_lowercase env (trim s)"

definition normalize_phone :: "string \<Rightarrow> string" where
  "normalize_phone s = trim s"

definition normalize_optional_email :: "env \<Rightarrow> string \<Rightarrow> string option" where
  "normalize_optional_email env s =
     (let normalized = normalize_email env s in if normalized \<noteq> [] then Some normalized else None)"

definition normalize_optional_phone :: "string \<Rightarrow> string option" where
  "normalize_optional_phone s =
     (let normalized = normalize_phone s in if normalized \<noteq> [] then Some normalized else None)"

definition normalize_decision_note :: "string option \<Rightarrow> string option" where
  "normalize_decision_note decision_note =
     (case map_option trim decision_note of
        None \<Rightarrow> None
      | Some value \<Rightarrow> if value \<noteq> [] then Some value else None)"

definition normalize_void_reason :: "string \<Rightarrow> (string, app_error) result" where
  "normalize_void_reason given =
     (let normalized = trim given in
      if normalized = [] then Err VoidReasonRequired
      else if 200 < chars_count normalized then Err InvalidVoidReason
      else Ok normalized)"

section \<open>Memberships and authorization\<close>

definition membership_role :: "app_ledger_service \<Rightarrow> uuid \<Rightarrow> uuid \<Rightarrow> membership_role option" where
  "membership_role s actor org =
     map_option ms_role
       (List.find (\<lambda>m. ms_organization m = org \<and> ms_user m = actor) (memberships s))"

definition business_owner_count :: "app_ledger_service \<Rightarrow> uuid \<Rightarrow> nat" where
  "business_owner_count s org =
     length (filter (\<lambda>m. ms_organization m = org \<and> ms_role m \<in> {BusinessOwner, Approver}) (memberships s))"

definition owner_count :: "app_ledger_service \<Rightarrow> uuid \<Rightarrow> nat" where
  "owner_count s org =
     length (filter (\<lambda>m. ms_organization m = org \<and> ms_role m = Owner) (memberships s))"

definition authorized :: "app_ledger_service \<Rightarrow> uuid \<Rightarrow> ledger \<Rightarrow> action \<Rightarrow> bool" where
  "authorized s actor l a =
     (let role = Option.bind (organization_id l) (\<lambda>org.
          map_option ms_role
            (List.find (\<lambda>m. ms_organization m = org \<and> ms_user m = actor) (memberships s)))
      in can_perform \<lparr>ctx_actor = actor, ctx_ledger = l, ctx_role = role\<rparr> a)"

definition organization_admin_accounts :: "app_ledger_service \<Rightarrow> (uuid \<times> uuid) list" where
  "organization_admin_accounts s =
     map (\<lambda>m. (ms_user m, ms_organization m)) (filter (\<lambda>m. ms_role m \<in> {Owner, Admin}) (memberships s))"

definition ledger_role :: "app_ledger_service \<Rightarrow> uuid \<Rightarrow> ledger \<Rightarrow> string" where
  "ledger_role s actor l =
     (if owner_user_id l = Some actor then ''owner''
      else case Option.bind (organization_id l) (membership_role s actor) of
             Some role \<Rightarrow> membership_role_name role
           | None \<Rightarrow> ''viewer'')"

section \<open>Visibility\<close>

definition can_view_balances :: "app_ledger_service \<Rightarrow> uuid \<Rightarrow> ledger \<Rightarrow> bool" where
  "can_view_balances s actor l =
     (case lg_kind l of
        Personal \<Rightarrow> owner_user_id l = Some actor
      | OrganizationPublic \<Rightarrow>
          (case organization_id l of
             None \<Rightarrow> False
           | Some org \<Rightarrow> membership_role s actor org \<in> {Some BusinessOwner, Some Approver}))"

definition transaction_visible_to_actor :: "app_ledger_service \<Rightarrow> uuid \<Rightarrow> transaction \<Rightarrow> bool" where
  "transaction_visible_to_actor s actor t =
     (case om_get (ledgers s) (tx_ledger t) of
        None \<Rightarrow> False
      | Some l \<Rightarrow>
          if \<not> authorized s actor l ViewLedger then False
          else case lg_kind l of
                 Personal \<Rightarrow> owner_user_id l = Some actor
               | OrganizationPublic \<Rightarrow>
                   if can_view_balances s actor l then True else tx_created_by t = actor)"

definition audit_visible_to_actor :: "app_ledger_service \<Rightarrow> uuid \<Rightarrow> audit_log \<Rightarrow> bool" where
  "audit_visible_to_actor s actor a =
     (case om_get (ledgers s) (al_ledger a) of
        None \<Rightarrow> False
      | Some l \<Rightarrow>
          if can_view_balances s actor l \<or> lg_kind l = Personal then True
          else al_resource_type a = ''transaction''
             \<and> (case om_get (transactions s) (al_resource a) of
                  None \<Rightarrow> False
                | Some t \<Rightarrow> transaction_visible_to_actor s actor t))"

section \<open>Balances\<close>

definition transaction_affects_balance :: "transaction \<Rightarrow> bool" where
  "transaction_affects_balance t \<longleftrightarrow>
     approval_state t = Approved
   \<and> (case tx_kind t of
        Income \<Rightarrow> True
      | Expense \<Rightarrow> payment_state t \<noteq> PendingPayment
      | Transfer \<Rightarrow> False)"

text \<open>The summand of a transaction in \<open>account_balance_minor\<close>; \<open>i64\<close> arithmetic wraps.\<close>

definition signed_amount :: "transaction \<Rightarrow> i64" where
  "signed_amount t =
     (case tx_kind t of
        Income \<Rightarrow> amount_minor (tx_amount t)
      | Expense \<Rightarrow> - amount_minor (tx_amount t)
      | Transfer \<Rightarrow> 0)"

definition account_balance_minor :: "app_ledger_service \<Rightarrow> financial_account \<Rightarrow> i64" where
  "account_balance_minor s a =
     amount_minor (opening_balance a)
   + sum_list (map signed_amount
       (filter (\<lambda>t. tx_account t = fa_id a \<and> tx_deleted_at t = None \<and> transaction_affects_balance t)
         (om_values (transactions s))))"

text \<open>When a transaction moves cash: \<open>None\<close> while it has not.\<close>

definition transaction_cash_effective_at :: "transaction \<Rightarrow> instant option" where
  "transaction_cash_effective_at t =
     (if tx_deleted_at t \<noteq> None \<or> approval_state t \<noteq> Approved then None
      else case tx_kind t of
             Income \<Rightarrow> Some (case approved_at t of Some x \<Rightarrow> x | None \<Rightarrow> occurred_at t)
           | Expense \<Rightarrow>
               if payment_state t \<noteq> PendingPayment
               then Some (case paid_at t of Some x \<Rightarrow> x
                    | None \<Rightarrow> (case received_at t of Some x \<Rightarrow> x | None \<Rightarrow> occurred_at t))
               else None
           | Transfer \<Rightarrow> None)"

section \<open>What callers are shown\<close>

record user_dto =
  ud_id :: string
  ud_display_name :: string

definition user_dto_of :: "env \<Rightarrow> user \<Rightarrow> user_dto" where
  "user_dto_of env u = \<lparr>ud_id = uuid_to_string env (usr_id u), ud_display_name = display_name u\<rparr>"

record organization_dto =
  od_id :: string
  od_name :: string

record membership_dto =
  md_id :: string
  md_organization_id :: string
  md_user_id :: string
  md_display_name :: string
  md_email :: "string option"
  md_phone :: "string option"
  md_role :: string

definition membership_dto_of :: "env \<Rightarrow> app_ledger_service \<Rightarrow> membership \<Rightarrow> membership_dto" where
  "membership_dto_of env s m =
     (let u = om_get (users s) (ms_user m) in
      \<lparr>md_id = uuid_to_string env (ms_id m),
       md_organization_id = uuid_to_string env (ms_organization m),
       md_user_id = uuid_to_string env (ms_user m),
       md_display_name = (case u of Some u \<Rightarrow> display_name u | None \<Rightarrow> uuid_to_string env (ms_user m)),
       md_email = Option.bind u email,
       md_phone = Option.bind u phone,
       md_role = membership_role_name (ms_role m)\<rparr>)"

record app_setup_status =
  setup_initialized :: bool
  setup_reason :: "string option"
  setup_organization_count :: nat
  setup_owner_count :: nat

record ledger_dto =
  ld_id :: string
  ld_name :: string
  ld_kind :: string
  ld_scope_label :: string
  ld_organization_id :: "string option"
  ld_role :: string
  ld_can_view_balances :: bool

definition ledger_dto_of :: "env \<Rightarrow> app_ledger_service \<Rightarrow> uuid \<Rightarrow> ledger \<Rightarrow> ledger_dto" where
  "ledger_dto_of env s actor l =
     (let org = map_option org_name (Option.bind (organization_id l) (om_get (organizations s))) in
      \<lparr>ld_id = uuid_to_string env (lg_id l),
       ld_name = lg_name l,
       ld_kind = (case lg_kind l of Personal \<Rightarrow> ''personal'' | OrganizationPublic \<Rightarrow> ''organization_public''),
       ld_scope_label =
         (case lg_kind l of
            Personal \<Rightarrow> text_personal
          | OrganizationPublic \<Rightarrow> (case org of Some name \<Rightarrow> name @ text_public_suffix | None \<Rightarrow> text_public)),
       ld_organization_id = map_option (uuid_to_string env) (organization_id l),
       ld_role = ledger_role s actor l,
       ld_can_view_balances = can_view_balances s actor l\<rparr>)"

record account_dto =
  acd_id :: string
  acd_ledger_id :: string
  acd_name :: string
  acd_kind :: string
  acd_balance_minor :: "i64 option"
  acd_currency :: string

definition account_dto_of :: "env \<Rightarrow> app_ledger_service \<Rightarrow> uuid \<Rightarrow> financial_account \<Rightarrow> account_dto" where
  "account_dto_of env s actor a =
     (let can_view_balance =
          (case om_get (ledgers s) (fa_ledger a) of None \<Rightarrow> False | Some l \<Rightarrow> can_view_balances s actor l)
      in \<lparr>acd_id = uuid_to_string env (fa_id a),
          acd_ledger_id = uuid_to_string env (fa_ledger a),
          acd_name = fa_name a,
          acd_kind = to_lowercase env (account_kind_debug (fa_kind a)),
          acd_balance_minor = (if can_view_balance then Some (account_balance_minor s a) else None),
          acd_currency = currency (opening_balance a)\<rparr>)"

record category_dto =
  cd_id :: string
  cd_ledger_id :: string
  cd_name :: string
  cd_kind :: string

definition category_dto_of :: "env \<Rightarrow> category \<Rightarrow> category_dto" where
  "category_dto_of env c =
     \<lparr>cd_id = uuid_to_string env (cat_id c), cd_ledger_id = uuid_to_string env (cat_ledger c),
      cd_name = cat_name c, cd_kind = category_kind_name (cat_kind c)\<rparr>"

record transaction_dto =
  td_id :: string
  td_ledger_id :: string
  td_account_id :: string
  td_category_id :: "string option"
  td_kind :: string
  td_amount_minor :: i64
  td_currency :: string
  td_description :: string
  td_approval_state :: string
  td_payment_state :: string
  td_created_by :: string
  td_created_by_user_id :: string
  td_approved_at :: "string option"
  td_paid_at :: "string option"
  td_received_at :: "string option"
  td_occurred_at :: string

definition transaction_dto_of :: "env \<Rightarrow> app_ledger_service \<Rightarrow> transaction \<Rightarrow> transaction_dto" where
  "transaction_dto_of env s t =
     \<lparr>td_id = uuid_to_string env (tx_id t),
      td_ledger_id = uuid_to_string env (tx_ledger t),
      td_account_id = uuid_to_string env (tx_account t),
      td_category_id = map_option (uuid_to_string env) (tx_category t),
      td_kind = transaction_kind_name (tx_kind t),
      td_amount_minor = amount_minor (tx_amount t),
      td_currency = currency (tx_amount t),
      td_description = tx_description t,
      td_approval_state = approval_state_name (approval_state t),
      td_payment_state = payment_state_name (payment_state t),
      td_created_by =
        (case om_get (users s) (tx_created_by t) of
           Some u \<Rightarrow> display_name u
         | None \<Rightarrow> uuid_to_string env (tx_created_by t)),
      td_created_by_user_id = uuid_to_string env (tx_created_by t),
      td_approved_at = map_option (format_time env) (approved_at t),
      td_paid_at = map_option (format_time env) (paid_at t),
      td_received_at = map_option (format_time env) (received_at t),
      td_occurred_at = format_time env (occurred_at t)\<rparr>"

record audit_log_dto =
  aud_id :: string
  aud_ledger_id :: string
  aud_actor_user_id :: string
  aud_actor_display_name :: string
  aud_action :: string
  aud_resource_type :: string
  aud_resource_id :: string
  aud_summary :: string
  aud_created_at :: string

definition audit_dto_of :: "env \<Rightarrow> app_ledger_service \<Rightarrow> audit_log \<Rightarrow> audit_log_dto" where
  "audit_dto_of env s a =
     \<lparr>aud_id = uuid_to_string env (al_id a),
      aud_ledger_id = uuid_to_string env (al_ledger a),
      aud_actor_user_id = uuid_to_string env (al_actor a),
      aud_actor_display_name =
        (case om_get (users s) (al_actor a) of
           Some u \<Rightarrow> display_name u
         | None \<Rightarrow> uuid_to_string env (al_actor a)),
      aud_action = al_action a,
      aud_resource_type = al_resource_type a,
      aud_resource_id = uuid_to_string env (al_resource a),
      aud_summary = al_summary a,
      aud_created_at = format_time env (al_created_at a)\<rparr>"

end
