(* ===== verification/AppTransactions.thy ===== *)
theory AppTransactions
  imports AppState Machine
begin

text \<open>
  The transactions of the application ledger (\<open>app.rs\<close>): creating a category, creating a transaction,
  deciding its approval, marking it paid, confirming the receipt, voiding it. Each operation is the
  whole method: its guards in the order of the code, the change of the transaction, the audit record.
\<close>

type_synonym app_state = "app_ledger_service \<times> world"

section \<open>Categories\<close>

definition create_category ::
  "env \<Rightarrow> create_category_input \<Rightarrow> app_state \<Rightarrow> (category_dto, app_error) result \<times> app_state" where
  "create_category env i \<sigma> =
     (let (s, w) = \<sigma> in
      attempt (ok_or (om_get (ledgers s) (cc_ledger i)) LedgerNotFound) id \<sigma> (\<lambda>l.
      if \<not> authorized s (cc_actor i) l CreateTransaction then (Err Unauthorized, \<sigma>)
      else let name = trim (cc_name i) in
      if name = [] \<or> 24 < chars_count name then (Err InvalidCategoryName, \<sigma>)
      else if list_ex (\<lambda>c. cat_ledger c = cc_ledger i \<and> cat_kind c = cc_kind i
             \<and> to_lowercase env (cat_name c) = to_lowercase env name) (om_values (categories s))
           then (Err DuplicateCategory, \<sigma>)
      else let (new_id, w) = new_v4 w;
               c = \<lparr>cat_id = new_id, cat_ledger = cc_ledger i, cat_name = name, cat_kind = cc_kind i\<rparr>
           in (Ok (category_dto_of env c),
               s\<lparr>categories := om_insert (cat_id c) c (categories s)\<rparr>, w)))"

section \<open>Creating a transaction\<close>

text \<open>The lookup of an earlier transaction with the same client mutation id.\<close>

definition existing_mutation :: "app_ledger_service \<Rightarrow> create_transaction_input \<Rightarrow> transaction option" where
  "existing_mutation s i =
     (case ct_mutation_id i of
        None \<Rightarrow> None
      | Some m \<Rightarrow> List.find (\<lambda>t. tx_ledger t = ct_ledger i \<and> tx_created_by t = ct_actor i
                     \<and> client_mutation_id t = Some m) (om_values (transactions s)))"

fun category_kind_for :: "transaction_kind \<Rightarrow> (category_kind, app_error) result" where
  "category_kind_for Income = Ok IncomeCategory"
| "category_kind_for Expense = Ok ExpenseCategory"
| "category_kind_for Transfer = Err UnsupportedTransactionKind"

fun fallback_category_name :: "category_kind \<Rightarrow> string" where
  "fallback_category_name IncomeCategory = text_other_income"
| "fallback_category_name ExpenseCategory = text_other_expense"

definition resolve_category ::
  "app_ledger_service \<Rightarrow> create_transaction_input \<Rightarrow> category_kind \<Rightarrow> (uuid, app_error) result" where
  "resolve_category s i kind =
     (case ct_category i of
        Some cid \<Rightarrow>
          attempt_pure (ok_or (om_get (categories s) cid) CategoryNotFound) id (\<lambda>c.
            if cat_ledger c \<noteq> ct_ledger i then Err CategoryNotFound
            else if cat_kind c \<noteq> kind then Err CategoryDirectionMismatch
            else Ok (cat_id c))
      | None \<Rightarrow>
          ok_or (map_option cat_id
            (List.find (\<lambda>c. cat_ledger c = ct_ledger i \<and> cat_kind c = kind
               \<and> cat_name c = fallback_category_name kind) (om_values (categories s))))
            CategoryNotFound)"

definition push_audit ::
  "ledger \<Rightarrow> uuid \<Rightarrow> string \<Rightarrow> uuid \<Rightarrow> string \<Rightarrow> app_state \<Rightarrow> app_state" where
  "push_audit l actor act resource summary \<sigma> =
     (let (s, w) = \<sigma>;
          (entry, w) = audit_log_new (organization_id l) (lg_id l) actor act ''transaction'' resource summary w
      in (s\<lparr>audit_logs := audit_logs s @ [entry]\<rparr>, w))"

definition put_transaction :: "uuid \<Rightarrow> transaction \<Rightarrow> app_state \<Rightarrow> app_state" where
  "put_transaction k t \<sigma> = (let (s, w) = \<sigma> in (s\<lparr>transactions := om_insert k t (transactions s)\<rparr>, w))"

text \<open>The state a new transaction starts in; an approval by the single-boss policy records no approver.\<close>

definition auto_approves :: "app_ledger_service \<Rightarrow> uuid \<Rightarrow> uuid \<Rightarrow> bool" where
  "auto_approves s actor org \<longleftrightarrow>
     membership_role s actor org \<in> {Some BusinessOwner, Some Approver} \<and> business_owner_count s org = 1"

text \<open>The second half of \<open>create_transaction\<close>: from the draft to the stored transaction.\<close>

definition admit_transaction ::
  "env \<Rightarrow> create_transaction_input \<Rightarrow> ledger \<Rightarrow> transaction \<Rightarrow> app_state
     \<Rightarrow> (transaction_dto, app_error) result \<times> app_state" where
  "admit_transaction env i l t \<sigma> =
     (let (s, w) = \<sigma> in
      if lg_kind l = OrganizationPublic then
        let t = t\<lparr>submitted_by := Some (ct_actor i)\<rparr> in
        attempt (ok_or (organization_id l) OrganizationNotFound) id (s, w) (\<lambda>org.
        if auto_approves s (ct_actor i) org then
          let (now, w) = now_utc w;
              t = t\<lparr>approval_state := Approved, approved_at := Some now\<rparr>;
              t = (if tx_kind t = Expense then t\<lparr>payment_state := PendingPayment\<rparr> else t);
              \<sigma> = push_audit l (ct_actor i) ''transaction.auto_approved'' (tx_id t)
                    (text_auto_approved @ tx_description t) (s, w)
          in (Ok (transaction_dto_of env s t), put_transaction (tx_id t) t \<sigma>)
        else
          let t = t\<lparr>approval_state := Submitted\<rparr>;
              \<sigma> = push_audit l (ct_actor i) ''transaction.submitted'' (tx_id t)
                    (text_submitted @ tx_description t) (s, w)
          in (Ok (transaction_dto_of env s t), put_transaction (tx_id t) t \<sigma>))
      else
        let (now, w) = now_utc w;
            t = t\<lparr>approval_state := Approved, approved_by := Some (ct_actor i), approved_at := Some now\<rparr>
        in (Ok (transaction_dto_of env s t), put_transaction (tx_id t) t (s, w)))"

definition create_transaction ::
  "env \<Rightarrow> create_transaction_input \<Rightarrow> app_state \<Rightarrow> (transaction_dto, app_error) result \<times> app_state" where
  "create_transaction env i \<sigma> =
     (let (s, w) = \<sigma> in
      attempt (ok_or (om_get (ledgers s) (ct_ledger i)) LedgerNotFound) id \<sigma> (\<lambda>l.
      if \<not> authorized s (ct_actor i) l CreateTransaction then (Err Unauthorized, \<sigma>)
      else case existing_mutation s i of
        Some existing \<Rightarrow> (Ok (transaction_dto_of env s existing), \<sigma>)
      | None \<Rightarrow>
      attempt (ok_or (om_get (accounts s) (ct_account i)) AccountNotFound) id \<sigma> (\<lambda>account.
      if fa_ledger account \<noteq> ct_ledger i then (Err AccountNotFound, \<sigma>)
      else if ct_kind i = Transfer then (Err UnsupportedTransactionKind, \<sigma>)
      else if currency (opening_balance account) \<noteq> ct_currency i then (Err AppCurrencyMismatch, \<sigma>)
      else attempt (category_kind_for (ct_kind i)) id \<sigma> (\<lambda>kind.
      attempt (resolve_category s i kind) id \<sigma> (\<lambda>category_id.
      attempt (money_new (to_uppercase env) (ct_amount_minor i) (ct_currency i))
        (\<lambda>e. InvalidAmount (money_error_text e)) \<sigma> (\<lambda>amount.
      let (t, w) = transaction_draft (ct_ledger i) (ct_account i) (Some category_id) (ct_kind i) amount
                     (ct_description i) (ct_actor i) w;
          t = t\<lparr>client_mutation_id := ct_mutation_id i\<rparr>
      in admit_transaction env i l t (s, w)))))))"

section \<open>Approval, payment, receipt, voiding\<close>

definition decide_approval ::
  "env \<Rightarrow> decide_approval_input \<Rightarrow> app_state \<Rightarrow> (transaction_dto, app_error) result \<times> app_state" where
  "decide_approval env i \<sigma> =
     (let (s, w) = \<sigma> in
      attempt (ok_or (om_get (transactions s) (da_transaction i)) TransactionNotFound) id \<sigma> (\<lambda>t.
      if approval_state t \<noteq> Submitted then (Err InvalidApprovalState, \<sigma>)
      else attempt (ok_or (om_get (ledgers s) (tx_ledger t)) LedgerNotFound) id \<sigma> (\<lambda>l.
      if \<not> authorized s (da_actor i) l ApproveTransaction then (Err Unauthorized, \<sigma>)
      else if submitted_by t = Some (da_actor i) \<or> tx_created_by t = da_actor i
        then (Err SelfApprovalDenied, \<sigma>)
      else let reason_given = normalize_decision_note (da_note i) in
      if da_decision i = RejectTx \<and> reason_given = None then (Err DecisionNoteRequired, \<sigma>)
      else
        let (now, w) = now_utc w;
            t = t\<lparr>tx_updated_at := now\<rparr>;
            (t, act, summary, w) =
              (case da_decision i of
                 ApproveTx \<Rightarrow>
                   let (now, w) = now_utc w;
                       t = t\<lparr>approval_state := Approved, approved_by := Some (da_actor i), approved_at := Some now\<rparr>;
                       t = (if tx_kind t = Expense then t\<lparr>payment_state := PendingPayment\<rparr> else t)
                   in (t, ''transaction.approved'', text_approved @ tx_description t, w)
               | RejectTx \<Rightarrow>
                   (t\<lparr>approval_state := Rejected\<rparr>, ''transaction.rejected'',
                    text_rejected @ tx_description t @ text_reason @ the reason_given, w));
            t = t\<lparr>tx_version := tx_version t + 1\<rparr>;
            \<sigma> = push_audit l (da_actor i) act (tx_id t) summary (put_transaction (da_transaction i) t (s, w))
        in (Ok (transaction_dto_of env (fst \<sigma>) t), \<sigma>))))"

definition void_transaction ::
  "env \<Rightarrow> void_transaction_input \<Rightarrow> app_state \<Rightarrow> (transaction_dto, app_error) result \<times> app_state" where
  "void_transaction env i \<sigma> =
     (let (s, w) = \<sigma> in
      attempt (ok_or (om_get (transactions s) (vt_transaction i)) TransactionNotFound) id \<sigma> (\<lambda>t.
      attempt (ok_or (om_get (ledgers s) (tx_ledger t)) LedgerNotFound) id \<sigma> (\<lambda>l.
      if lg_kind l \<noteq> OrganizationPublic then (Err PublicLedgerOnly, \<sigma>)
      else if \<not> authorized s (vt_actor i) l VoidTransaction then (Err Unauthorized, \<sigma>)
      else if tx_deleted_at t \<noteq> None \<or> approval_state t \<noteq> Approved then (Err InvalidVoidState, \<sigma>)
      else attempt (normalize_void_reason (void_reason i)) id \<sigma> (\<lambda>why.
        let (now, w) = now_utc w;
            t = t\<lparr>approval_state := Voided, tx_updated_at := now, tx_version := tx_version t + 1\<rparr>;
            \<sigma> = push_audit l (vt_actor i) ''transaction.voided'' (tx_id t)
                  (text_voided @ tx_description t @ text_reason @ why)
                  (put_transaction (vt_transaction i) t (s, w))
        in (Ok (transaction_dto_of env (fst \<sigma>) t), \<sigma>)))))"

definition mark_transaction_paid ::
  "env \<Rightarrow> mark_paid_input \<Rightarrow> app_state \<Rightarrow> (transaction_dto, app_error) result \<times> app_state" where
  "mark_transaction_paid env i \<sigma> =
     (let (s, w) = \<sigma> in
      attempt (ok_or (om_get (transactions s) (mp_transaction i)) TransactionNotFound) id \<sigma> (\<lambda>t.
      attempt (ok_or (om_get (ledgers s) (tx_ledger t)) LedgerNotFound) id \<sigma> (\<lambda>l.
      if \<not> authorized s (mp_actor i) l MarkTransactionPaid then (Err Unauthorized, \<sigma>)
      else if approval_state t \<noteq> Approved \<or> payment_state t \<noteq> PendingPayment
        then (Err InvalidPaymentState, \<sigma>)
      else
        let (now, w) = now_utc w;
            t = t\<lparr>payment_state := PaidPendingReceipt, paid_by := Some (mp_actor i), paid_at := Some now,
                  tx_updated_at := now, tx_version := tx_version t + 1\<rparr>;
            \<sigma> = push_audit l (mp_actor i) ''transaction.paid'' (tx_id t) (text_paid @ tx_description t)
                  (put_transaction (mp_transaction i) t (s, w))
        in (Ok (transaction_dto_of env (fst \<sigma>) t), \<sigma>))))"

definition confirm_transaction_receipt ::
  "env \<Rightarrow> confirm_receipt_input \<Rightarrow> app_state \<Rightarrow> (transaction_dto, app_error) result \<times> app_state" where
  "confirm_transaction_receipt env i \<sigma> =
     (let (s, w) = \<sigma> in
      attempt (ok_or (om_get (transactions s) (cr_transaction i)) TransactionNotFound) id \<sigma> (\<lambda>t.
      attempt (ok_or (om_get (ledgers s) (tx_ledger t)) LedgerNotFound) id \<sigma> (\<lambda>l.
      if tx_created_by t \<noteq> cr_actor i then (Err ReceiptConfirmationDenied, \<sigma>)
      else if \<not> authorized s (cr_actor i) l ConfirmReceipt then (Err Unauthorized, \<sigma>)
      else if approval_state t \<noteq> Approved \<or> payment_state t \<noteq> PaidPendingReceipt
        then (Err InvalidPaymentState, \<sigma>)
      else
        let (now, w) = now_utc w;
            t = t\<lparr>payment_state := Received, received_by := Some (cr_actor i), received_at := Some now,
                  tx_updated_at := now, tx_version := tx_version t + 1\<rparr>;
            \<sigma> = push_audit l (cr_actor i) ''transaction.received'' (tx_id t) (text_received @ tx_description t)
                  (put_transaction (cr_transaction i) t (s, w))
        in (Ok (transaction_dto_of env (fst \<sigma>) t), \<sigma>))))"

end
