(* ===== verification/Lifecycle.thy ===== *)
theory Lifecycle
  imports AppTransactions
begin

text \<open>
  The contract of the transaction operations: the events that can happen to a transaction, the phases
  it goes through, and the lemma that each operation of \<open>AppTransactions\<close> either fails without touching
  the books or makes exactly one event and records it in the audit log.
\<close>

section \<open>Events\<close>

datatype tx_act = ActApprove | ActReject | ActVoid | ActPay | ActReceive

fun act_name :: "tx_act \<Rightarrow> string" where
  "act_name ActApprove = ''transaction.approved''"
| "act_name ActReject = ''transaction.rejected''"
| "act_name ActVoid = ''transaction.voided''"
| "act_name ActPay = ''transaction.paid''"
| "act_name ActReceive = ''transaction.received''"

fun act_permission :: "tx_act \<Rightarrow> action" where
  "act_permission ActApprove = ApproveTransaction"
| "act_permission ActReject = ApproveTransaction"
| "act_permission ActVoid = VoidTransaction"
| "act_permission ActPay = MarkTransactionPaid"
| "act_permission ActReceive = ConfirmReceipt"

text \<open>
  No event changes what the transaction is or who made it, and each counts the version up; the two
  groups of fields about the approval and about the payment are changed by their own events only.
\<close>

definition same_subject :: "transaction \<Rightarrow> transaction \<Rightarrow> bool" where
  "same_subject t t' \<longleftrightarrow>
     tx_id t' = tx_id t \<and> tx_ledger t' = tx_ledger t \<and> tx_account t' = tx_account t
   \<and> tx_category t' = tx_category t \<and> tx_kind t' = tx_kind t \<and> tx_amount t' = tx_amount t
   \<and> tx_created_by t' = tx_created_by t \<and> submitted_by t' = submitted_by t
   \<and> client_mutation_id t' = client_mutation_id t \<and> tx_deleted_at t' = tx_deleted_at t
   \<and> occurred_at t' = occurred_at t \<and> tx_description t' = tx_description t
   \<and> tx_created_at t' = tx_created_at t \<and> tx_version t' = tx_version t + 1"

definition same_approval :: "transaction \<Rightarrow> transaction \<Rightarrow> bool" where
  "same_approval t t' \<longleftrightarrow> approved_by t' = approved_by t \<and> approved_at t' = approved_at t"

definition same_payment :: "transaction \<Rightarrow> transaction \<Rightarrow> bool" where
  "same_payment t t' \<longleftrightarrow> paid_by t' = paid_by t \<and> paid_at t' = paid_at t"

definition same_receipt :: "transaction \<Rightarrow> transaction \<Rightarrow> bool" where
  "same_receipt t t' \<longleftrightarrow> received_by t' = received_by t \<and> received_at t' = received_at t"

lemmas same_defs = same_subject_def same_approval_def same_payment_def same_receipt_def

text \<open>\<open>tx_event l u a t t'\<close>: user \<open>u\<close> does \<open>a\<close> to the transaction \<open>t\<close> of ledger \<open>l\<close>, which becomes \<open>t'\<close>.\<close>

inductive tx_event :: "ledger \<Rightarrow> uuid \<Rightarrow> tx_act \<Rightarrow> transaction \<Rightarrow> transaction \<Rightarrow> bool" where
  approve: "approval_state t = Submitted \<Longrightarrow> submitted_by t \<noteq> Some u \<Longrightarrow> tx_created_by t \<noteq> u \<Longrightarrow>
    same_subject t t' \<Longrightarrow> same_payment t t' \<Longrightarrow> same_receipt t t' \<Longrightarrow> approval_state t' = Approved \<Longrightarrow>
    payment_state t' = (if tx_kind t = Expense then PendingPayment else payment_state t) \<Longrightarrow>
    approved_by t' = Some u \<Longrightarrow> approved_at t' \<noteq> None \<Longrightarrow> tx_event l u ActApprove t t'"
| reject: "approval_state t = Submitted \<Longrightarrow> submitted_by t \<noteq> Some u \<Longrightarrow> tx_created_by t \<noteq> u \<Longrightarrow>
    same_subject t t' \<Longrightarrow> same_approval t t' \<Longrightarrow> same_payment t t' \<Longrightarrow> same_receipt t t' \<Longrightarrow>
    approval_state t' = Rejected \<Longrightarrow> payment_state t' = payment_state t \<Longrightarrow> tx_event l u ActReject t t'"
| void: "lg_kind l = OrganizationPublic \<Longrightarrow> tx_deleted_at t = None \<Longrightarrow> approval_state t = Approved \<Longrightarrow>
    same_subject t t' \<Longrightarrow> same_approval t t' \<Longrightarrow> same_payment t t' \<Longrightarrow> same_receipt t t' \<Longrightarrow>
    approval_state t' = Voided \<Longrightarrow> payment_state t' = payment_state t \<Longrightarrow> tx_event l u ActVoid t t'"
| pay: "approval_state t = Approved \<Longrightarrow> payment_state t = PendingPayment \<Longrightarrow>
    same_subject t t' \<Longrightarrow> same_approval t t' \<Longrightarrow> same_receipt t t' \<Longrightarrow> approval_state t' = Approved \<Longrightarrow>
    payment_state t' = PaidPendingReceipt \<Longrightarrow> paid_by t' = Some u \<Longrightarrow> paid_at t' \<noteq> None \<Longrightarrow>
    tx_event l u ActPay t t'"
| receive: "approval_state t = Approved \<Longrightarrow> payment_state t = PaidPendingReceipt \<Longrightarrow> tx_created_by t = u \<Longrightarrow>
    same_subject t t' \<Longrightarrow> same_approval t t' \<Longrightarrow> same_payment t t' \<Longrightarrow> approval_state t' = Approved \<Longrightarrow>
    payment_state t' = Received \<Longrightarrow> received_by t' = Some u \<Longrightarrow> received_at t' \<noteq> None \<Longrightarrow>
    tx_event l u ActReceive t t'"

inductive_cases tx_eventE: "tx_event l u a t t'"

lemma tx_event_frame [frame]: "tx_event l u a t t' \<Longrightarrow> same_subject t t'"
  by (erule tx_eventE)

text \<open>The change of the books that goes with an event: the transaction is replaced, one record is appended.\<close>

definition recorded ::
  "app_ledger_service \<Rightarrow> ledger \<Rightarrow> uuid \<Rightarrow> string \<Rightarrow> uuid \<Rightarrow> transaction \<Rightarrow> app_ledger_service \<Rightarrow> bool" where
  "recorded s l u act k t' s' \<longleftrightarrow>
     (\<exists>entry. s' = s\<lparr>transactions := om_insert k t' (transactions s), audit_logs := audit_logs s @ [entry]\<rparr>
        \<and> al_action entry = act \<and> al_actor entry = u \<and> al_resource_type entry = ''transaction''
        \<and> al_resource entry = tx_id t' \<and> al_ledger entry = lg_id l \<and> al_organization entry = organization_id l)"

text \<open>Drawing from the world never makes a used identifier fresh again.\<close>

definition world_le :: "world \<Rightarrow> world \<Rightarrow> bool" where
  "world_le w w' \<longleftrightarrow> (\<forall>S. fresh_ids w S \<longrightarrow> fresh_ids w' S)"

lemma world_le_refl [simp]: "world_le w w"
  by (simp add: world_le_def)

lemma world_le_now [simp]: "world_le w (snd (now_utc w))"
  by (auto simp: world_le_def fresh_ids_def now_utc_def)

lemma world_le_new [simp]: "world_le w (snd (new_v4 w))"
  by (auto simp: world_le_def fresh_ids_def new_v4_def inj_on_def)

lemma world_le_trans: "world_le u v \<Longrightarrow> world_le v w \<Longrightarrow> world_le u w"
  by (simp add: world_le_def)

lemma world_le_step [simp]:
  "world_le w v \<Longrightarrow> world_le w (snd (now_utc v))" "world_le w v \<Longrightarrow> world_le w (snd (new_v4 v))"
  using world_le_trans world_le_now world_le_new by blast+

lemma push_audit_effect:
  "\<exists>entry w'. push_audit l u act k summary (s, w) = (s\<lparr>audit_logs := audit_logs s @ [entry]\<rparr>, w')
     \<and> al_action entry = act \<and> al_actor entry = u \<and> al_resource_type entry = ''transaction''
     \<and> al_resource entry = k \<and> al_ledger entry = lg_id l \<and> al_organization entry = organization_id l
     \<and> world_le w w'"
proof -
  let ?r = "audit_log_new (organization_id l) (lg_id l) u act ''transaction'' k summary w"
  have "world_le w (snd ?r)"
    using world_le_trans [OF world_le_new [of w] world_le_now]
    by (simp add: audit_log_new_def split_beta)
  then show ?thesis
    by (intro exI [of _ "fst ?r"] exI [of _ "snd ?r"])
      (simp add: push_audit_def split_beta, simp add: audit_log_new_def split_beta)
qed

text \<open>The common tail of the four operations that change a transaction.\<close>

lemma recorded_push:
  assumes "push_audit l u act (tx_id t') summary (put_transaction k t' (s, w)) = (s', w')"
  shows "recorded s l u act k t' s' \<and> world_le w w' \<and> users s' = users s"
  using push_audit_effect [of l u act "tx_id t'" summary "s\<lparr>transactions := om_insert k t' (transactions s)\<rparr>" w]
    assms
  by (auto simp: recorded_def put_transaction_def)

text \<open>What an operation on the transaction \<open>k\<close> by the user \<open>u\<close> does when it succeeds.\<close>

definition event_done ::
  "env \<Rightarrow> uuid \<Rightarrow> tx_act \<Rightarrow> uuid \<Rightarrow> app_state \<Rightarrow> transaction_dto \<Rightarrow> app_state \<Rightarrow> bool" where
  "event_done env u a k \<sigma> dto \<sigma>' \<longleftrightarrow>
     (\<exists>t l t'. om_get (transactions (fst \<sigma>)) k = Some t \<and> om_get (ledgers (fst \<sigma>)) (tx_ledger t) = Some l
        \<and> authorized (fst \<sigma>) u l (act_permission a) \<and> tx_event l u a t t'
        \<and> recorded (fst \<sigma>) l u (act_name a) k t' (fst \<sigma>') \<and> world_le (snd \<sigma>) (snd \<sigma>')
        \<and> dto = transaction_dto_of env (fst \<sigma>') t')"

lemma transaction_dto_users: "users s' = users s \<Longrightarrow> transaction_dto_of env s' t = transaction_dto_of env s t"
  by (simp add: transaction_dto_of_def)

lemma event_doneI:
  assumes "om_get (transactions s) k = Some t" "om_get (ledgers s) (tx_ledger t) = Some l"
    "authorized s u l (act_permission a)" "tx_event l u a t t'" "world_le w w\<^sub>1"
    "push_audit l u (act_name a) (tx_id t') summary (put_transaction k t' (s, w\<^sub>1)) = \<sigma>'"
  shows "event_done env u a k (s, w) (transaction_dto_of env (fst \<sigma>') t') \<sigma>'"
proof -
  obtain s' w' where \<sigma>': "\<sigma>' = (s', w')" by (cases \<sigma>')
  show ?thesis
    using assms recorded_push [OF assms(6) [unfolded \<sigma>']] world_le_trans
    unfolding event_done_def \<sigma>' by fastforce
qed

section \<open>The operations make events\<close>

lemma decide_approval_event:
  assumes "decide_approval env i \<sigma> = (Ok dto, \<sigma>')"
  shows "event_done env (da_actor i) (case da_decision i of ApproveTx \<Rightarrow> ActApprove | RejectTx \<Rightarrow> ActReject)
           (da_transaction i) \<sigma> dto \<sigma>'"
proof -
  obtain s w where \<sigma>: "\<sigma> = (s, w)" by (cases \<sigma>)
  obtain t l where pre: "om_get (transactions s) (da_transaction i) = Some t"
    "om_get (ledgers s) (tx_ledger t) = Some l" "authorized s (da_actor i) l ApproveTransaction"
    "approval_state t = Submitted" "submitted_by t \<noteq> Some (da_actor i)" "tx_created_by t \<noteq> da_actor i"
    using assms unfolding \<sigma> decide_approval_def
    by (auto simp: inversion Let_def split: if_splits)
  note run = assms [unfolded \<sigma> decide_approval_def Let_def prod.case pre(1) ok_or_simps attempt_simps]
  show ?thesis
  proof (cases "da_decision i")
    case ApproveTx
    have "event_done env (da_actor i) ActApprove (da_transaction i) \<sigma> dto \<sigma>'"
      using run pre ApproveTx unfolding \<sigma>
      by (auto simp: split_beta split: if_splits
          intro!: event_doneI [OF pre(1,2)] approve [OF pre(4-6)] simp: same_defs intro: world_le_trans)
    with ApproveTx show ?thesis by simp
  next
    case RejectTx
    have "event_done env (da_actor i) ActReject (da_transaction i) \<sigma> dto \<sigma>'"
      using run pre RejectTx unfolding \<sigma>
      by (auto simp: split_beta split: if_splits
          intro!: event_doneI [OF pre(1,2)] reject [OF pre(4-6)] simp: same_defs intro: world_le_trans)
    with RejectTx show ?thesis by simp
  qed
qed

lemma void_transaction_event:
  assumes "void_transaction env i \<sigma> = (Ok dto, \<sigma>')"
  shows "event_done env (vt_actor i) ActVoid (vt_transaction i) \<sigma> dto \<sigma>'"
proof -
  obtain s w where \<sigma>: "\<sigma> = (s, w)" by (cases \<sigma>)
  obtain t l where pre: "om_get (transactions s) (vt_transaction i) = Some t"
    "om_get (ledgers s) (tx_ledger t) = Some l" "authorized s (vt_actor i) l VoidTransaction"
    "lg_kind l = OrganizationPublic" "tx_deleted_at t = None" "approval_state t = Approved"
    using assms unfolding \<sigma> void_transaction_def
    by (auto simp: inversion Let_def split: if_splits)
  note run = assms [unfolded \<sigma> void_transaction_def Let_def prod.case pre(1,2) ok_or_simps attempt_simps]
  show ?thesis
    using run pre unfolding \<sigma>
    by (auto simp: split_beta inversion same_defs split: if_splits
        intro!: event_doneI [OF pre(1,2)] void [OF pre(4-6)])
qed

lemma mark_transaction_paid_event:
  assumes "mark_transaction_paid env i \<sigma> = (Ok dto, \<sigma>')"
  shows "event_done env (mp_actor i) ActPay (mp_transaction i) \<sigma> dto \<sigma>'"
proof -
  obtain s w where \<sigma>: "\<sigma> = (s, w)" by (cases \<sigma>)
  obtain t l where pre: "om_get (transactions s) (mp_transaction i) = Some t"
    "om_get (ledgers s) (tx_ledger t) = Some l" "authorized s (mp_actor i) l MarkTransactionPaid"
    "approval_state t = Approved" "payment_state t = PendingPayment"
    using assms unfolding \<sigma> mark_transaction_paid_def
    by (auto simp: inversion Let_def split: if_splits)
  note run = assms [unfolded \<sigma> mark_transaction_paid_def Let_def prod.case pre(1,2) ok_or_simps attempt_simps]
  show ?thesis
    using run pre unfolding \<sigma>
    by (auto simp: split_beta inversion same_defs split: if_splits
        intro!: event_doneI [OF pre(1,2)] pay [OF pre(4-5)])
qed

lemma confirm_transaction_receipt_event:
  assumes "confirm_transaction_receipt env i \<sigma> = (Ok dto, \<sigma>')"
  shows "event_done env (cr_actor i) ActReceive (cr_transaction i) \<sigma> dto \<sigma>'"
proof -
  obtain s w where \<sigma>: "\<sigma> = (s, w)" by (cases \<sigma>)
  obtain t l where pre: "om_get (transactions s) (cr_transaction i) = Some t"
    "om_get (ledgers s) (tx_ledger t) = Some l" "authorized s (cr_actor i) l ConfirmReceipt"
    "approval_state t = Approved" "payment_state t = PaidPendingReceipt" "tx_created_by t = cr_actor i"
    using assms unfolding \<sigma> confirm_transaction_receipt_def
    by (auto simp: inversion Let_def split: if_splits)
  note run = assms [unfolded \<sigma> confirm_transaction_receipt_def Let_def prod.case pre(1,2) ok_or_simps attempt_simps]
  show ?thesis
    using run pre unfolding \<sigma>
    by (auto simp: split_beta inversion same_defs split: if_splits
        intro!: event_doneI [OF pre(1,2)] receive [OF pre(4-6)])
qed

text \<open>A failing operation changes nothing, and none of them panics.\<close>

lemma decide_approval_Err: "decide_approval env i \<sigma> = (Err e, \<sigma>') \<Longrightarrow> \<sigma>' = \<sigma>"
  by (auto simp: decide_approval_def Let_def attempt_ok_or split_beta split: option.splits if_splits)

lemma void_transaction_Err: "void_transaction env i \<sigma> = (Err e, \<sigma>') \<Longrightarrow> \<sigma>' = \<sigma>"
  by (auto simp: void_transaction_def normalize_void_reason_def Let_def attempt_ok_or split_beta
      split: option.splits if_splits)

lemma mark_transaction_paid_Err: "mark_transaction_paid env i \<sigma> = (Err e, \<sigma>') \<Longrightarrow> \<sigma>' = \<sigma>"
  by (auto simp: mark_transaction_paid_def Let_def attempt_ok_or split_beta split: option.splits if_splits)

lemma confirm_transaction_receipt_Err: "confirm_transaction_receipt env i \<sigma> = (Err e, \<sigma>') \<Longrightarrow> \<sigma>' = \<sigma>"
  by (auto simp: confirm_transaction_receipt_def Let_def attempt_ok_or split_beta split: option.splits if_splits)

lemma transaction_ops_no_panic:
  "fst (decide_approval env di \<sigma>) \<noteq> Panic p" "fst (void_transaction env vi \<sigma>) \<noteq> Panic p"
  "fst (mark_transaction_paid env mi \<sigma>) \<noteq> Panic p" "fst (confirm_transaction_receipt env ri \<sigma>) \<noteq> Panic p"
  by (auto simp: decide_approval_def void_transaction_def mark_transaction_paid_def
      confirm_transaction_receipt_def normalize_void_reason_def Let_def attempt_ok_or split_beta
      split: option.splits)

section \<open>Creation\<close>

text \<open>The transaction that \<open>create_transaction\<close> adds for the input \<open>i\<close> on the ledger \<open>l\<close>.\<close>

definition initial_transaction ::
  "env \<Rightarrow> app_ledger_service \<Rightarrow> create_transaction_input \<Rightarrow> ledger \<Rightarrow> transaction \<Rightarrow> bool" where
  "initial_transaction env s i l t \<longleftrightarrow>
     tx_ledger t = ct_ledger i \<and> tx_account t = ct_account i \<and> tx_kind t = ct_kind i
   \<and> tx_created_by t = ct_actor i \<and> client_mutation_id t = ct_mutation_id i
   \<and> tx_description t = ct_description i \<and> tx_version t = 1 \<and> tx_deleted_at t = None
   \<and> paid_by t = None \<and> paid_at t = None \<and> received_by t = None \<and> received_at t = None
   \<and> money_new (to_uppercase env) (ct_amount_minor i) (ct_currency i) = Ok (tx_amount t)
   \<and> (\<exists>kind c. category_kind_for (ct_kind i) = Ok kind \<and> resolve_category s i kind = Ok c \<and> tx_category t = Some c)
   \<and> (case lg_kind l of
        Personal \<Rightarrow> approval_state t = Approved \<and> payment_state t = NotApplicable
          \<and> approved_by t = Some (ct_actor i) \<and> approved_at t \<noteq> None \<and> submitted_by t = None
      | OrganizationPublic \<Rightarrow> submitted_by t = Some (ct_actor i) \<and> approved_by t = None
          \<and> (\<exists>org. organization_id l = Some org \<and>
               (if auto_approves s (ct_actor i) org
                then approval_state t = Approved \<and> approved_at t \<noteq> None
                   \<and> payment_state t = (if ct_kind i = Expense then PendingPayment else NotApplicable)
                else approval_state t = Submitted \<and> approved_at t = None \<and> payment_state t = NotApplicable)))"

definition creation_act :: "transaction \<Rightarrow> string" where
  "creation_act t = (if approval_state t = Approved then ''transaction.auto_approved'' else ''transaction.submitted'')"

text \<open>The new identifier is fresh, and the world no longer supplies it.\<close>

definition fresh_draw :: "world \<Rightarrow> uuid \<Rightarrow> world \<Rightarrow> bool" where
  "fresh_draw w i w' \<longleftrightarrow> (\<forall>S. fresh_ids w S \<longrightarrow> i \<notin> S \<and> fresh_ids w' (insert i S))"

lemma fresh_draw_new: "world_le w v \<Longrightarrow> world_le (snd (new_v4 v)) w' \<Longrightarrow> fresh_draw w (fst (new_v4 v)) w'"
  by (auto simp: fresh_draw_def world_le_def fresh_ids_new_v4 [of v _ "fst (new_v4 v)" "snd (new_v4 v)"])

definition created ::
  "env \<Rightarrow> create_transaction_input \<Rightarrow> app_state \<Rightarrow> transaction_dto \<Rightarrow> app_state \<Rightarrow> bool" where
  "created env i \<sigma> dto \<sigma>' \<longleftrightarrow>
     (\<exists>l a t. om_get (ledgers (fst \<sigma>)) (ct_ledger i) = Some l \<and> authorized (fst \<sigma>) (ct_actor i) l CreateTransaction
        \<and> existing_mutation (fst \<sigma>) i = None
        \<and> om_get (accounts (fst \<sigma>)) (ct_account i) = Some a \<and> fa_ledger a = ct_ledger i
        \<and> currency (opening_balance a) = ct_currency i \<and> ct_kind i \<noteq> Transfer
        \<and> initial_transaction env (fst \<sigma>) i l t \<and> fresh_draw (snd \<sigma>) (tx_id t) (snd \<sigma>')
        \<and> dto = transaction_dto_of env (fst \<sigma>') t
        \<and> (if lg_kind l = OrganizationPublic
            then recorded (fst \<sigma>) l (ct_actor i) (creation_act t) (tx_id t) t (fst \<sigma>')
            else fst \<sigma>' = (fst \<sigma>)\<lparr>transactions := om_insert (tx_id t) t (transactions (fst \<sigma>))\<rparr>))"

lemma recorded_put_push:
  assumes "put_transaction k t' (push_audit l u act (tx_id t') summary (s, w)) = (s', w')"
  shows "recorded s l u act k t' s'" "world_le w w'" "users s' = users s"
proof -
  obtain entry w\<^sub>1 where e: "push_audit l u act (tx_id t') summary (s, w) = (s\<lparr>audit_logs := audit_logs s @ [entry]\<rparr>, w\<^sub>1)"
    "al_action entry = act" "al_actor entry = u" "al_resource_type entry = ''transaction''"
    "al_resource entry = tx_id t'" "al_ledger entry = lg_id l" "al_organization entry = organization_id l"
    "world_le w w\<^sub>1"
    using push_audit_effect [of l u act "tx_id t'" summary s w] by blast
  show "recorded s l u act k t' s'"
    unfolding recorded_def by (rule exI [of _ entry]) (use assms e in \<open>auto simp: put_transaction_def\<close>)
  show "world_le w w'" "users s' = users s"
    using assms e by (auto simp: put_transaction_def)
qed

lemma push_audit_users [simp]: "users (fst (push_audit l u act k summary \<sigma>)) = users (fst \<sigma>)"
  by (cases \<sigma>) (simp add: push_audit_def split_beta)

lemma put_transaction_users [simp]: "users (fst (put_transaction k t \<sigma>)) = users (fst \<sigma>)"
  by (cases \<sigma>) (simp add: put_transaction_def)

text \<open>What holds of the draft that \<open>create_transaction\<close> hands to \<open>admit_transaction\<close>.\<close>

definition drafted :: "env \<Rightarrow> app_ledger_service \<Rightarrow> create_transaction_input \<Rightarrow> transaction \<Rightarrow> bool" where
  "drafted env s i t \<longleftrightarrow>
     tx_ledger t = ct_ledger i \<and> tx_account t = ct_account i \<and> tx_kind t = ct_kind i
   \<and> tx_created_by t = ct_actor i \<and> client_mutation_id t = ct_mutation_id i
   \<and> tx_description t = ct_description i \<and> tx_version t = 1 \<and> tx_deleted_at t = None
   \<and> paid_by t = None \<and> paid_at t = None \<and> received_by t = None \<and> received_at t = None
   \<and> submitted_by t = None \<and> approved_by t = None \<and> approved_at t = None
   \<and> payment_state t = NotApplicable
   \<and> money_new (to_uppercase env) (ct_amount_minor i) (ct_currency i) = Ok (tx_amount t)
   \<and> (\<exists>kind c. category_kind_for (ct_kind i) = Ok kind \<and> resolve_category s i kind = Ok c \<and> tx_category t = Some c)"

lemma admit_transaction_Ok:
  assumes "admit_transaction env i l t (s, v) = (Ok dto, (s', w'))" "drafted env s i t"
  shows "\<exists>t'. initial_transaction env s i l t' \<and> tx_id t' = tx_id t \<and> world_le v w'
      \<and> dto = transaction_dto_of env s t' \<and> users s' = users s
      \<and> (if lg_kind l = OrganizationPublic then recorded s l (ct_actor i) (creation_act t') (tx_id t') t' s'
          else s' = s\<lparr>transactions := om_insert (tx_id t') t' (transactions s)\<rparr>)"
proof (cases "lg_kind l")
  case Personal
  then show ?thesis
    using assms
    by (intro exI [of _ "t\<lparr>approval_state := Approved, approved_by := Some (ct_actor i),
        approved_at := Some (fst (now_utc v))\<rparr>"])
      (auto simp: admit_transaction_def Let_def split_beta put_transaction_def initial_transaction_def drafted_def)
next
  case OrganizationPublic
  with assms(1) obtain org where org: "organization_id l = Some org"
    by (auto simp: admit_transaction_def inversion Let_def)
  note run = assms(1) [unfolded admit_transaction_def Let_def prod.case OrganizationPublic org ok_or_simps attempt_simps]
  show ?thesis
  proof (cases "auto_approves s (ct_actor i) org")
    case True
    define ta where "ta = t\<lparr>submitted_by := Some (ct_actor i), approval_state := Approved,
        approved_at := Some (fst (now_utc v))\<rparr>"
    define t' where "t' = (if ct_kind i = Expense then ta\<lparr>payment_state := PendingPayment\<rparr> else ta)"
    have t': "dto = transaction_dto_of env s t'" "tx_id t' = tx_id t" "creation_act t' = ''transaction.auto_approved''"
      "put_transaction (tx_id t') t' (push_audit l (ct_actor i) ''transaction.auto_approved'' (tx_id t')
         (text_auto_approved @ tx_description t') (s, snd (now_utc v))) = (s', w')"
      using run True assms(2) by (auto simp: split_beta t'_def ta_def drafted_def creation_act_def split: if_splits)
    have "initial_transaction env s i l t'"
      using assms(2) OrganizationPublic org True by (auto simp: initial_transaction_def drafted_def t'_def ta_def)
    with recorded_put_push [OF t'(4)] t' OrganizationPublic show ?thesis
      using world_le_trans [OF world_le_now] by (intro exI [of _ t']) auto
  next
    case False
    define t' where "t' = t\<lparr>submitted_by := Some (ct_actor i), approval_state := Submitted\<rparr>"
    have t': "dto = transaction_dto_of env s t'" "tx_id t' = tx_id t" "creation_act t' = ''transaction.submitted''"
      "put_transaction (tx_id t') t' (push_audit l (ct_actor i) ''transaction.submitted'' (tx_id t')
         (text_submitted @ tx_description t') (s, v)) = (s', w')"
      using run False by (auto simp: t'_def creation_act_def)
    have "initial_transaction env s i l t'"
      using assms(2) OrganizationPublic org False by (simp add: initial_transaction_def drafted_def t'_def)
    with recorded_put_push [OF t'(4)] t' OrganizationPublic show ?thesis
      by (intro exI [of _ t']) auto
  qed
qed

lemma create_transaction_created:
  assumes "create_transaction env i \<sigma> = (Ok dto, \<sigma>')"
  shows "(\<exists>t. existing_mutation (fst \<sigma>) i = Some t \<and> \<sigma>' = \<sigma> \<and> dto = transaction_dto_of env (fst \<sigma>) t)
    \<or> created env i \<sigma> dto \<sigma>'"
proof -
  obtain s w s' w' where \<sigma>: "\<sigma> = (s, w)" "\<sigma>' = (s', w')" by (cases \<sigma>; cases \<sigma>')
  obtain l where l: "om_get (ledgers s) (ct_ledger i) = Some l" "authorized s (ct_actor i) l CreateTransaction"
    using assms unfolding \<sigma> create_transaction_def by (auto simp: inversion Let_def split: if_splits)
  note run = assms [unfolded \<sigma> create_transaction_def Let_def prod.case l(1) ok_or_simps attempt_simps]
  show ?thesis
  proof (cases "existing_mutation s i")
    case (Some t)
    then show ?thesis using run l by (auto simp: \<sigma>)
  next
    case None
    obtain a kind c m where pre: "om_get (accounts s) (ct_account i) = Some a" "fa_ledger a = ct_ledger i"
      "currency (opening_balance a) = ct_currency i" "ct_kind i \<noteq> Transfer"
      and kind: "category_kind_for (ct_kind i) = Ok kind" "resolve_category s i kind = Ok c"
      and m: "money_new (to_uppercase env) (ct_amount_minor i) (ct_currency i) = Ok m"
      using run l None by (auto simp: inversion split: if_splits)
    define t where "t = (fst (transaction_draft (ct_ledger i) (ct_account i) (Some c) (ct_kind i) m
        (ct_description i) (ct_actor i) w))\<lparr>client_mutation_id := ct_mutation_id i\<rparr>"
    define v where "v = snd (new_v4 (snd (now_utc w)))"
    have "admit_transaction env i l t (s, v) = (Ok dto, (s', w'))"
      using run l(2) None pre kind m by (simp add: t_def v_def transaction_draft_def split_beta)
    moreover have "drafted env s i t"
      using kind m by (simp add: drafted_def t_def transaction_draft_def split_beta)
    ultimately obtain t' where t': "initial_transaction env s i l t'" "tx_id t' = tx_id t" "world_le v w'"
      "dto = transaction_dto_of env s t'" "users s' = users s"
      "if lg_kind l = OrganizationPublic then recorded s l (ct_actor i) (creation_act t') (tx_id t') t' s'
          else s' = s\<lparr>transactions := om_insert (tx_id t') t' (transactions s)\<rparr>"
      using admit_transaction_Ok by blast
    have "tx_id t = fst (new_v4 (snd (now_utc w)))"
      by (simp add: t_def transaction_draft_def split_beta)
    then have "fresh_draw w (tx_id t') w'"
      using fresh_draw_new [of w "snd (now_utc w)" w'] t'(2,3) by (simp add: v_def)
    with t' l None pre transaction_dto_users [OF t'(5), of env t'] have "created env i \<sigma> dto \<sigma>'"
      unfolding created_def \<sigma> fst_conv snd_conv
      by (intro exI [of _ l] exI [of _ a] exI [of _ t']) simp
    then show ?thesis ..
  qed
qed

lemma create_transaction_Err:
  assumes "create_transaction env i \<sigma> = (Err e, \<sigma>')"
  shows "fst \<sigma>' = fst \<sigma>" "world_le (snd \<sigma>) (snd \<sigma>')"
  using assms
  by (cases "ct_kind i";
      auto simp: create_transaction_def admit_transaction_def Let_def attempt_def ok_or_def split_beta
        transaction_draft_def split: option.splits if_splits result.splits)+

lemma create_transaction_no_panic: "fst (create_transaction env i \<sigma>) \<noteq> Panic p"
  by (cases "ct_kind i")
    (auto simp: create_transaction_def admit_transaction_def resolve_category_def Let_def attempt_def
      attempt_pure_def ok_or_def split_beta split: option.splits if_splits result.splits)

end
