(* ===== verification/AppSetup.thy ===== *)
theory AppSetup
  imports AppTransactions
begin

text \<open>
  Standard accounts and default categories of a ledger, the migration of old states, the snapshot and
  the seed (\<open>app.rs\<close>). A state with an account of an invalid currency makes the setup panic.
\<close>

section \<open>Standard accounts and default categories\<close>

definition default_categories :: "(string \<times> category_kind) list" where
  "default_categories =
     [(text_meals, ExpenseCategory), (text_transport, ExpenseCategory), (text_office, ExpenseCategory),
      (text_purchases, ExpenseCategory), (text_travel, ExpenseCategory),
      (text_other_expense, ExpenseCategory), (text_salary, IncomeCategory),
      (text_business_income, IncomeCategory), (text_other_income, IncomeCategory)]"

definition standard_accounts :: "(string \<times> financial_account_kind) list" where
  "standard_accounts = [(text_wechat, Wechat), (text_alipay, Alipay), (text_bank, Bank), (text_cash, Cash)]"

text \<open>The currency of a ledger: that of its first account that is not deleted, or CNY.\<close>

definition ledger_currency :: "app_ledger_service \<Rightarrow> uuid \<Rightarrow> string" where
  "ledger_currency s l =
     (case List.find (\<lambda>a. fa_ledger a = l \<and> fa_deleted_at a = None) (om_values (accounts s)) of
        Some a \<Rightarrow> currency (opening_balance a)
      | None \<Rightarrow> ''CNY'')"

text \<open>One turn of the loop over the standard accounts: rename the first account of the kind, or add one.\<close>

definition ensure_account ::
  "env \<Rightarrow> uuid \<Rightarrow> string \<Rightarrow> string \<Rightarrow> financial_account_kind \<Rightarrow> app_state \<Rightarrow> (unit, app_error) result \<times> app_state" where
  "ensure_account env l cur name kind \<sigma> =
     (let (s, w) = \<sigma> in
      case List.find (\<lambda>(k, a). fa_ledger a = l \<and> fa_kind a = kind \<and> fa_deleted_at a = None)
             (om_entries (accounts s)) of
        Some (k, a) \<Rightarrow> (Ok (), s\<lparr>accounts := om_insert k (a\<lparr>fa_name := name\<rparr>) (accounts s)\<rparr>, w)
      | None \<Rightarrow>
          attempt (expect_ok (money_new (to_uppercase env) 0 cur) ''existing ledger currency is valid'') id \<sigma>
            (\<lambda>zero. let (a, w) = financial_account_new l name kind zero w
                    in (Ok (), s\<lparr>accounts := om_insert (fa_id a) a (accounts s)\<rparr>, w)))"

fun ensure_accounts ::
  "env \<Rightarrow> uuid \<Rightarrow> string \<Rightarrow> (string \<times> financial_account_kind) list \<Rightarrow> app_state
     \<Rightarrow> (unit, app_error) result \<times> app_state" where
  "ensure_accounts env l cur [] \<sigma> = (Ok (), \<sigma>)"
| "ensure_accounts env l cur ((name, kind) # rest) \<sigma> =
     perform (ensure_account env l cur name kind \<sigma>) id (\<lambda>_ \<sigma>. ensure_accounts env l cur rest \<sigma>)"

definition ensure_standard_accounts_for_ledger ::
  "env \<Rightarrow> uuid \<Rightarrow> app_state \<Rightarrow> (unit, app_error) result \<times> app_state" where
  "ensure_standard_accounts_for_ledger env l \<sigma> =
     ensure_accounts env l (ledger_currency (fst \<sigma>) l) standard_accounts \<sigma>"

definition ensure_category :: "uuid \<Rightarrow> string \<times> category_kind \<Rightarrow> app_state \<Rightarrow> app_state" where
  "ensure_category l entry \<sigma> =
     (let (s, w) = \<sigma>; (name, kind) = entry in
      if list_ex (\<lambda>c. cat_ledger c = l \<and> cat_kind c = kind \<and> cat_name c = name) (om_values (categories s))
      then \<sigma>
      else let (i, w) = new_v4 w;
               c = \<lparr>cat_id = i, cat_ledger = l, cat_name = name, cat_kind = kind\<rparr>
           in (s\<lparr>categories := om_insert (cat_id c) c (categories s)\<rparr>, w))"

definition ensure_default_categories_for_ledger :: "uuid \<Rightarrow> app_state \<Rightarrow> app_state" where
  "ensure_default_categories_for_ledger l \<sigma> = fold (ensure_category l) default_categories \<sigma>"

text \<open>Both, as every caller does for a ledger that it has just created.\<close>

definition ensure_ledger_setup :: "env \<Rightarrow> uuid \<Rightarrow> app_state \<Rightarrow> (unit, app_error) result \<times> app_state" where
  "ensure_ledger_setup env l \<sigma> =
     perform (ensure_standard_accounts_for_ledger env l \<sigma>) id
       (\<lambda>_ \<sigma>. (Ok (), ensure_default_categories_for_ledger l \<sigma>))"

section \<open>Setup of a whole state, migration\<close>

definition default_category_ids :: "category_kind \<Rightarrow> string \<Rightarrow> app_ledger_service \<Rightarrow> (uuid, uuid) ord_map" where
  "default_category_ids kind name s =
     om_collect (map (\<lambda>c. (cat_ledger c, cat_id c))
       (filter (\<lambda>c. cat_kind c = kind \<and> cat_name c = name) (om_values (categories s))))"

definition assign_default_categories :: "app_ledger_service \<Rightarrow> app_ledger_service" where
  "assign_default_categories s =
     (let expense_defaults = default_category_ids ExpenseCategory text_other_expense s;
          income_defaults = default_category_ids IncomeCategory text_other_income s
      in s\<lparr>transactions := om_map (\<lambda>_ t.
             if tx_category t \<noteq> None then t
             else t\<lparr>tx_category :=
                   (case tx_kind t of
                      Income \<Rightarrow> om_get income_defaults (tx_ledger t)
                    | Expense \<Rightarrow> om_get expense_defaults (tx_ledger t)
                    | Transfer \<Rightarrow> None)\<rparr>) (transactions s)\<rparr>)"

fun ensure_ledgers_setup :: "env \<Rightarrow> uuid list \<Rightarrow> app_state \<Rightarrow> (unit, app_error) result \<times> app_state" where
  "ensure_ledgers_setup env [] \<sigma> = (Ok (), \<sigma>)"
| "ensure_ledgers_setup env (l # ls) \<sigma> =
     perform (ensure_ledger_setup env l \<sigma>) id (\<lambda>_ \<sigma>. ensure_ledgers_setup env ls \<sigma>)"

definition wallets_to_wechat :: "app_ledger_service \<Rightarrow> app_ledger_service" where
  "wallets_to_wechat s =
     s\<lparr>accounts := om_map (\<lambda>_ a. if fa_kind a = Wallet then a\<lparr>fa_kind := Wechat\<rparr> else a) (accounts s)\<rparr>"

definition ensure_standard_setup :: "env \<Rightarrow> app_state \<Rightarrow> (unit, app_error) result \<times> app_state" where
  "ensure_standard_setup env \<sigma> =
     (let (s, w) = \<sigma>;
          s = wallets_to_wechat s;
          ledger_ids = map lg_id (filter (\<lambda>l. lg_deleted_at l = None) (om_values (ledgers s)))
      in perform (ensure_ledgers_setup env ledger_ids (s, w)) id
           (\<lambda>_ (s, w). (Ok (), assign_default_categories s, w)))"

fun migrate_role :: "membership_role \<Rightarrow> membership_role" where
  "migrate_role Approver = BusinessOwner"
| "migrate_role Accountant = Employee"
| "migrate_role Member = Employee"
| "migrate_role Viewer = Employee"
| "migrate_role role = role"

definition migrate_transaction :: "(uuid, ledger) ord_map \<Rightarrow> transaction \<Rightarrow> transaction" where
  "migrate_transaction ls t =
     (if approval_state t \<noteq> Approved then t
      else let t = t\<lparr>approved_at := Some (case approved_at t of Some x \<Rightarrow> x | None \<Rightarrow> tx_updated_at t)\<rparr>;
               is_public_expense = (tx_kind t = Expense
                 \<and> (case om_get ls (tx_ledger t) of None \<Rightarrow> False | Some l \<Rightarrow> lg_kind l = OrganizationPublic))
           in if is_public_expense
              then t\<lparr>payment_state := Received, received_by := Some (tx_created_by t),
                     received_at := Some (tx_updated_at t)\<rparr>
              else t)"

definition migrate_to_current_schema :: "env \<Rightarrow> app_state \<Rightarrow> (unit, app_error) result \<times> app_state" where
  "migrate_to_current_schema env \<sigma> =
     (let (s, w) = \<sigma>;
          s = (if schema_version s < 2
               then s\<lparr>memberships := map (\<lambda>m. m\<lparr>ms_role := migrate_role (ms_role m)\<rparr>) (memberships s),
                      transactions := om_map (\<lambda>_. migrate_transaction (ledgers s)) (transactions s)\<rparr>
               else s)
      in perform (if schema_version s < 3 then ensure_standard_setup env (s, w) else (Ok (), s, w)) id
           (\<lambda>_ (s, w). (Ok (), s\<lparr>schema_version := app_state_schema_version\<rparr>, w)))"

section \<open>Snapshots\<close>

record app_ledger_snapshot =
  sn_schema_version :: nat
  sn_current_user_id :: uuid
  sn_users :: "user list"
  sn_organizations :: "organization list"
  sn_memberships :: "membership list"
  sn_ledgers :: "ledger list"
  sn_accounts :: "financial_account list"
  sn_categories :: "category list"
  sn_transactions :: "transaction list"
  sn_audit_logs :: "audit_log list"

definition snapshot :: "app_ledger_service \<Rightarrow> app_ledger_snapshot" where
  "snapshot s =
     \<lparr>sn_schema_version = schema_version s, sn_current_user_id = current_user_id s,
      sn_users = om_values (users s), sn_organizations = om_values (organizations s),
      sn_memberships = memberships s, sn_ledgers = om_values (ledgers s),
      sn_accounts = om_values (accounts s), sn_categories = om_values (categories s),
      sn_transactions = om_values (transactions s), sn_audit_logs = audit_logs s\<rparr>"

text \<open>\<open>into_iter().map(|x| (x.id, x)).collect()\<close>\<close>

definition collect_by :: "('v \<Rightarrow> 'k::linorder) \<Rightarrow> 'v list \<Rightarrow> ('k, 'v) ord_map" where
  "collect_by f vs = om_collect (map (\<lambda>v. (f v, v)) vs)"

definition from_snapshot ::
  "env \<Rightarrow> app_ledger_snapshot \<Rightarrow> world \<Rightarrow> (unit, app_error) result \<times> app_state" where
  "from_snapshot env n w =
     migrate_to_current_schema env
       (\<lparr>schema_version = sn_schema_version n, current_user_id = sn_current_user_id n,
         users = collect_by usr_id (sn_users n), organizations = collect_by org_id (sn_organizations n),
         memberships = sn_memberships n, ledgers = collect_by lg_id (sn_ledgers n),
         accounts = collect_by fa_id (sn_accounts n), categories = collect_by cat_id (sn_categories n),
         transactions = collect_by tx_id (sn_transactions n), audit_logs = sn_audit_logs n\<rparr>, w)"

end
