(* ===== verification/AppOrganizations.thy ===== *)
theory AppOrganizations
  imports AppSetup
begin

text \<open>
  Organizations, their members and the users (\<open>app.rs\<close>): creating an organization with its admin and
  public ledger, registering identities, adding, changing and removing members.
\<close>

section \<open>Personal ledgers\<close>

definition ensure_personal_ledger_for_user ::
  "env \<Rightarrow> uuid \<Rightarrow> string \<Rightarrow> app_state \<Rightarrow> (unit, app_error) result \<times> app_state" where
  "ensure_personal_ledger_for_user env u name \<sigma> =
     (let (s, w) = \<sigma> in
      if list_ex (\<lambda>l. lg_kind l = Personal \<and> owner_user_id l = Some u) (om_values (ledgers s))
      then (Ok (), \<sigma>)
      else let (l, w) = ledger_personal u (name @ text_personal_suffix) w
           in ensure_ledger_setup env (lg_id l) (s\<lparr>ledgers := om_insert (lg_id l) l (ledgers s)\<rparr>, w))"

definition rename_personal_ledger_for_user :: "uuid \<Rightarrow> string \<Rightarrow> app_ledger_service \<Rightarrow> app_ledger_service" where
  "rename_personal_ledger_for_user u name s =
     s\<lparr>ledgers := om_map (\<lambda>_ l.
         if lg_kind l = Personal \<and> owner_user_id l = Some u
         then l\<lparr>lg_name := name @ text_personal_suffix\<rparr> else l) (ledgers s)\<rparr>"

section \<open>Users\<close>

text \<open>\<open>opt.map(f).filter(|x| !x.is_empty())\<close> of a contact.\<close>

definition filled :: "string option \<Rightarrow> string option" where
  "filled x = (case x of Some v \<Rightarrow> if v \<noteq> [] then Some v else None | None \<Rightarrow> None)"

definition user_has_contact :: "env \<Rightarrow> string option \<Rightarrow> string option \<Rightarrow> user \<Rightarrow> bool" where
  "user_has_contact env mail tel u \<longleftrightarrow>
     (case mail of None \<Rightarrow> False
      | Some x \<Rightarrow> (case email u of None \<Rightarrow> False | Some existing \<Rightarrow> normalize_email env existing = x))
   \<or> (case tel of None \<Rightarrow> False
      | Some x \<Rightarrow> (case phone u of None \<Rightarrow> False | Some existing \<Rightarrow> normalize_phone existing = x))"

definition find_user_id_by_email_or_phone ::
  "env \<Rightarrow> app_ledger_service \<Rightarrow> string option \<Rightarrow> string option \<Rightarrow> uuid option" where
  "find_user_id_by_email_or_phone env s mail tel =
     (let normalized_email = filled (map_option (normalize_email env) mail);
          normalized_phone = filled (map_option normalize_phone tel)
      in map_option usr_id
           (List.find (user_has_contact env normalized_email normalized_phone) (om_values (users s))))"

text \<open>Writing the name and the given contacts of an existing user.\<close>

definition update_user :: "string \<Rightarrow> string option \<Rightarrow> string option \<Rightarrow> user \<Rightarrow> user" where
  "update_user name mail tel u =
     u\<lparr>display_name := name,
       email := (if mail \<noteq> None then mail else email u),
       phone := (if tel \<noteq> None then tel else phone u)\<rparr>"

definition ensure_user_identity ::
  "env \<Rightarrow> ensure_identity_input \<Rightarrow> app_state \<Rightarrow> (user_dto, app_error) result \<times> app_state" where
  "ensure_user_identity env i \<sigma> =
     (let (s, w) = \<sigma>; name = trim (ei_display_name i) in
      if name = [] then (Err InvalidUserDisplayName, \<sigma>)
      else
        let mail = Option.bind (ei_email i) (normalize_optional_email env);
            tel = Option.bind (ei_phone i) normalize_optional_phone;
            u = (case find_user_id_by_email_or_phone env s mail tel of Some u \<Rightarrow> u | None \<Rightarrow> ei_user i);
            (s, w) =
              (case om_get (users s) u of
                 Some existing \<Rightarrow>
                   (s\<lparr>users := om_insert u (update_user name mail tel existing) (users s)\<rparr>, w)
               | None \<Rightarrow>
                   let (now, w) = now_utc w
                   in (s\<lparr>users := om_insert u
                         \<lparr>usr_id = u, display_name = name, email = mail, phone = tel, usr_created_at = now\<rparr>
                         (users s)\<rparr>, w));
            s = rename_personal_ledger_for_user u name s
        in perform (ensure_personal_ledger_for_user env u name (s, w)) id (\<lambda>_ (s, w).
             (ok_or (map_option (user_dto_of env) (om_get (users s) u)) UserNotFound, s, w)))"

text \<open>\<open>sort_by\<close> is stable; the users come from the map in the order of their identifiers.\<close>

definition users_dto :: "env \<Rightarrow> app_ledger_service \<Rightarrow> user_dto list" where
  "users_dto env s = sort_key ud_display_name (map (user_dto_of env) (om_values (users s)))"

section \<open>Organizations\<close>

definition organizations_dto :: "env \<Rightarrow> app_ledger_service \<Rightarrow> organization_dto list" where
  "organizations_dto env s =
     sort_key (\<lambda>d. (od_name d, od_id d))
       (map (\<lambda>x. \<lparr>od_id = uuid_to_string env (org_id x), od_name = org_name x\<rparr>) (om_values (organizations s)))"

definition setup_status :: "app_ledger_service \<Rightarrow> app_setup_status" where
  "setup_status s =
     (let count = om_size (organizations s);
          owners = sum_list (map (owner_count s) (om_keys (organizations s)));
          why = (if count = 0 then Some ''missing_organization''
                 else if list_ex (\<lambda>org. owner_count s org = 0) (om_keys (organizations s))
                   then Some ''missing_owner''
                 else None)
      in \<lparr>setup_initialized = (why = None), setup_reason = why,
          setup_organization_count = count, setup_owner_count = owners\<rparr>)"

definition create_organization ::
  "env \<Rightarrow> create_organization_input \<Rightarrow> app_state \<Rightarrow> (membership_dto, app_error) result \<times> app_state" where
  "create_organization env i \<sigma> =
     (let (s, w) = \<sigma>; name = trim (co_name i) in
      if name = [] then (Err InvalidOrganizationName, \<sigma>)
      else let admin_name = trim (co_admin_display_name i) in
      if admin_name = [] then (Err InvalidUserDisplayName, \<sigma>)
      else let mail = Option.bind (co_admin_email i) (normalize_optional_email env);
               tel = Option.bind (co_admin_phone i) normalize_optional_phone in
      if mail = None \<and> tel = None then (Err SetupIncomplete, \<sigma>)
      else
        let (now, w) = now_utc w;
            admin = \<lparr>usr_id = co_admin_user i, display_name = admin_name, email = mail, phone = tel,
                     usr_created_at = now\<rparr>;
            (org, w) = organization_new name (usr_id admin) w;
            (public_ledger, w) = ledger_organization_public (org_id org) (org_name org @ text_public_suffix) w;
            (m, w) = membership_new (org_id org) (usr_id admin) Owner w;
            dto = \<lparr>md_id = uuid_to_string env (ms_id m),
                   md_organization_id = uuid_to_string env (ms_organization m),
                   md_user_id = uuid_to_string env (ms_user m),
                   md_display_name = display_name admin, md_email = email admin, md_phone = phone admin,
                   md_role = membership_role_name (ms_role m)\<rparr>;
            s = (if current_user_id s = nil_uuid then s\<lparr>current_user_id := usr_id admin\<rparr> else s);
            s = s\<lparr>users := om_insert (usr_id admin) admin (users s),
                  organizations := om_insert (org_id org) org (organizations s),
                  memberships := memberships s @ [m],
                  ledgers := om_insert (lg_id public_ledger) public_ledger (ledgers s)\<rparr>
        in perform (ensure_ledger_setup env (lg_id public_ledger) (s, w)) id (\<lambda>_ \<sigma>. (Ok dto, \<sigma>)))"

section \<open>Members\<close>

definition organization_members ::
  "env \<Rightarrow> app_ledger_service \<Rightarrow> uuid \<Rightarrow> (membership_dto list, app_error) result" where
  "organization_members env s org =
     (if \<not> om_contains (organizations s) org then Err OrganizationNotFound
      else Ok (sort_key (\<lambda>d. (md_display_name d, md_user_id d))
             (map (membership_dto_of env s) (filter (\<lambda>m. ms_organization m = org) (memberships s)))))"

text \<open>The guard that keeps the last owner, for the member at an index.\<close>

definition last_owner :: "app_ledger_service \<Rightarrow> uuid \<Rightarrow> nat \<Rightarrow> bool" where
  "last_owner s org n \<longleftrightarrow> ms_role (memberships s ! n) = Owner \<and> owner_count s org \<le> 1"

definition set_role :: "nat \<Rightarrow> membership_role \<Rightarrow> app_ledger_service \<Rightarrow> app_ledger_service" where
  "set_role n role s =
     s\<lparr>memberships := (memberships s)[n := (memberships s ! n)\<lparr>ms_role := role\<rparr>]\<rparr>"

definition find_or_create_user ::
  "env \<Rightarrow> string \<Rightarrow> string option \<Rightarrow> string option \<Rightarrow> app_state \<Rightarrow> uuid \<times> app_state" where
  "find_or_create_user env name mail tel \<sigma> =
     (let (s, w) = \<sigma> in
      case Option.bind mail (\<lambda>e. find_user_id_by_email_or_phone env s (Some e) None) of
        Some u \<Rightarrow> (u, \<sigma>)
      | None \<Rightarrow>
          (case Option.bind tel (\<lambda>p. find_user_id_by_email_or_phone env s None (Some p)) of
             Some u \<Rightarrow> (u, \<sigma>)
           | None \<Rightarrow>
               let (u, w) = user_new name mail tel w
               in (usr_id u, s\<lparr>users := om_insert (usr_id u) u (users s)\<rparr>, w)))"

definition add_organization_member ::
  "env \<Rightarrow> add_member_input \<Rightarrow> app_state \<Rightarrow> (membership_dto, app_error) result \<times> app_state" where
  "add_organization_member env i \<sigma> =
     (if \<not> om_contains (organizations (fst \<sigma>)) (am_organization i) then (Err OrganizationNotFound, \<sigma>)
      else let name = trim (am_display_name i) in
      if name = [] then (Err InvalidUserDisplayName, \<sigma>)
      else
        let mail = Option.bind (am_email i) (normalize_optional_email env);
            tel = Option.bind (am_phone i) normalize_optional_phone;
            (u, s, w) = find_or_create_user env name mail tel \<sigma>
        in if list_ex (\<lambda>m. ms_user m = u \<and> ms_organization m \<noteq> am_organization i) (memberships s)
           then (Err EmployeeBelongsToAnotherOrganization, s, w)
           else
             let s = s\<lparr>users := om_modify u (update_user name mail tel) (users s)\<rparr>
             in perform (ensure_personal_ledger_for_user env u name (s, w)) id (\<lambda>_ (s, w).
                case position (\<lambda>m. ms_organization m = am_organization i \<and> ms_user m = u) (memberships s) of
                  Some n \<Rightarrow>
                    if am_role i \<noteq> Owner \<and> last_owner s (am_organization i) n
                    then (Err LastOwnerDenied, s, w)
                    else let s = set_role n (am_role i) s
                         in (Ok (membership_dto_of env s (memberships s ! n)), s, w)
                | None \<Rightarrow>
                    let (m, w) = membership_new (am_organization i) u (am_role i) w;
                        s = s\<lparr>memberships := memberships s @ [m]\<rparr>
                    in (Ok (membership_dto_of env s m), s, w)))"

definition update_organization_member_role ::
  "env \<Rightarrow> update_role_input \<Rightarrow> app_ledger_service \<Rightarrow> (membership_dto, app_error) result \<times> app_ledger_service" where
  "update_organization_member_role env i s =
     (if \<not> om_contains (organizations s) (ur_organization i) then (Err OrganizationNotFound, s)
      else attempt (ok_or (position (\<lambda>m. ms_id m = ur_membership i \<and> ms_organization m = ur_organization i)
             (memberships s)) MembershipNotFound) id s (\<lambda>n.
        if ur_role i \<noteq> Owner \<and> last_owner s (ur_organization i) n then (Err LastOwnerDenied, s)
        else let s = set_role n (ur_role i) s
             in (Ok (membership_dto_of env s (memberships s ! n)), s)))"

definition remove_organization_member ::
  "uuid \<Rightarrow> uuid \<Rightarrow> app_ledger_service \<Rightarrow> (unit, app_error) result \<times> app_ledger_service" where
  "remove_organization_member org mid s =
     (if \<not> om_contains (organizations s) org then (Err OrganizationNotFound, s)
      else attempt (ok_or (position (\<lambda>m. ms_id m = mid \<and> ms_organization m = org) (memberships s))
             MembershipNotFound) id s (\<lambda>n.
        if last_owner s org n then (Err LastOwnerDenied, s)
        else (Ok (), s\<lparr>memberships := remove_at n (memberships s)\<rparr>)))"

end
