(* ===== verification/Books.thy ===== *)
theory Books
  imports Lifecycle AppOrganizations
begin

text \<open>
  The application ledger as one machine: the commands that change its state, the invariant of the
  books (every transaction belongs to a ledger, an account and a category that fit, its fields agree
  with its phase, and the audit log tells exactly how it got there), and its preservation.
\<close>

section \<open>The commands\<close>

datatype app_command =
    CreateCategoryCmd create_category_input
  | CreateTransactionCmd create_transaction_input
  | DecideApprovalCmd decide_approval_input
  | VoidTransactionCmd void_transaction_input
  | MarkPaidCmd mark_paid_input
  | ConfirmReceiptCmd confirm_receipt_input
  | CreateOrganizationCmd create_organization_input
  | EnsureIdentityCmd ensure_identity_input
  | AddMemberCmd add_member_input
  | UpdateRoleCmd update_role_input
  | RemoveMemberCmd uuid uuid

fun app_step :: "env \<Rightarrow> app_state \<Rightarrow> app_command \<Rightarrow> app_state" where
  "app_step env \<sigma> (CreateCategoryCmd i) = snd (create_category env i \<sigma>)"
| "app_step env \<sigma> (CreateTransactionCmd i) = snd (create_transaction env i \<sigma>)"
| "app_step env \<sigma> (DecideApprovalCmd i) = snd (decide_approval env i \<sigma>)"
| "app_step env \<sigma> (VoidTransactionCmd i) = snd (void_transaction env i \<sigma>)"
| "app_step env \<sigma> (MarkPaidCmd i) = snd (mark_transaction_paid env i \<sigma>)"
| "app_step env \<sigma> (ConfirmReceiptCmd i) = snd (confirm_transaction_receipt env i \<sigma>)"
| "app_step env \<sigma> (CreateOrganizationCmd i) = snd (create_organization env i \<sigma>)"
| "app_step env \<sigma> (EnsureIdentityCmd i) = snd (ensure_user_identity env i \<sigma>)"
| "app_step env \<sigma> (AddMemberCmd i) = snd (add_organization_member env i \<sigma>)"
| "app_step env \<sigma> (UpdateRoleCmd i) =
     (snd (update_organization_member_role env i (fst \<sigma>)), snd \<sigma>)"
| "app_step env \<sigma> (RemoveMemberCmd org m) = (snd (remove_organization_member org m (fst \<sigma>)), snd \<sigma>)"

section \<open>Phases of a transaction\<close>

datatype phase = Drafted | Waiting | Refused | Settled | ToPay | Paid | Closed | Cancelled

definition phase :: "transaction \<Rightarrow> phase" where
  "phase t =
     (case approval_state t of
        Draft \<Rightarrow> Drafted
      | Submitted \<Rightarrow> Waiting
      | Rejected \<Rightarrow> Refused
      | Voided \<Rightarrow> Cancelled
      | Approved \<Rightarrow>
          (case payment_state t of
             NotApplicable \<Rightarrow> Settled
           | PendingPayment \<Rightarrow> ToPay
           | PaidPendingReceipt \<Rightarrow> Paid
           | Received \<Rightarrow> Closed))"

inductive phase_step :: "phase \<Rightarrow> phase \<Rightarrow> bool" where
  "phase_step Waiting Settled"
| "phase_step Waiting ToPay"
| "phase_step Waiting Refused"
| "phase_step ToPay Paid"
| "phase_step Paid Closed"
| "p \<in> {Settled, ToPay, Paid, Closed} \<Longrightarrow> phase_step p Cancelled"

inductive_simps phase_step_simps: "phase_step p q"

text \<open>Every step moves up this rank, so a transaction goes through at most five phases.\<close>

fun phase_rank :: "phase \<Rightarrow> nat" where
  "phase_rank Drafted = 0"
| "phase_rank Waiting = 0"
| "phase_rank ToPay = 1"
| "phase_rank Paid = 2"
| "phase_rank Closed = 3"
| "phase_rank Settled = 3"
| "phase_rank Refused = 4"
| "phase_rank Cancelled = 4"

lemma phase_step_rank: "phase_step p q \<Longrightarrow> phase_rank p < phase_rank q"
  by (induction rule: phase_step.induct) auto

lemma phase_final: "\<not> phase_step Refused q" "\<not> phase_step Cancelled q"
  by (auto simp: phase_step_simps)

section \<open>The invariant\<close>

text \<open>The fields of a transaction agree with each other.\<close>

definition fields_ok :: "ledger \<Rightarrow> transaction \<Rightarrow> bool" where
  "fields_ok l t \<longleftrightarrow>
     (case lg_kind l of
        Personal \<Rightarrow> approval_state t = Approved \<and> payment_state t = NotApplicable
      | OrganizationPublic \<Rightarrow>
          submitted_by t = Some (tx_created_by t) \<and> approved_by t \<noteq> Some (tx_created_by t)
        \<and> approval_state t \<noteq> Draft
        \<and> (approval_state t \<in> {Submitted, Rejected} \<longrightarrow> payment_state t = NotApplicable \<and> approved_by t = None)
        \<and> (approval_state t \<in> {Approved, Voided} \<longrightarrow> (payment_state t = NotApplicable \<longleftrightarrow> tx_kind t = Income))
        \<and> (paid_by t \<noteq> None \<longleftrightarrow> payment_state t \<in> {PaidPendingReceipt, Received})
        \<and> received_by t = (if payment_state t = Received then Some (tx_created_by t) else None))"

definition direction_fits :: "transaction_kind \<Rightarrow> category_kind \<Rightarrow> bool" where
  "direction_fits k c \<longleftrightarrow> category_kind_for k = Ok c"

definition tx_ok :: "app_ledger_service \<Rightarrow> ledger \<Rightarrow> transaction \<Rightarrow> bool" where
  "tx_ok s l t \<longleftrightarrow>
     fields_ok l t \<and> tx_kind t \<noteq> Transfer \<and> tx_deleted_at t = None
   \<and> (\<exists>a. om_get (accounts s) (tx_account t) = Some a \<and> fa_ledger a = tx_ledger t
        \<and> currency (opening_balance a) = currency (tx_amount t))
   \<and> (\<exists>k c. tx_category t = Some k \<and> om_get (categories s) k = Some c \<and> cat_ledger c = tx_ledger t
        \<and> direction_fits (tx_kind t) (cat_kind c))"

text \<open>What the audit log has to say about a transaction, from its fields alone.\<close>

definition approval_trail :: "transaction \<Rightarrow> string list" where
  "approval_trail t =
     (if approved_by t = None then [''transaction.auto_approved'']
      else [''transaction.submitted'', ''transaction.approved''])"

fun payment_trail :: "payment_state \<Rightarrow> string list" where
  "payment_trail NotApplicable = []"
| "payment_trail PendingPayment = []"
| "payment_trail PaidPendingReceipt = [''transaction.paid'']"
| "payment_trail Received = [''transaction.paid'', ''transaction.received'']"

definition expected_trail :: "ledger \<Rightarrow> transaction \<Rightarrow> string list" where
  "expected_trail l t =
     (case lg_kind l of
        Personal \<Rightarrow> []
      | OrganizationPublic \<Rightarrow>
          (case approval_state t of
             Draft \<Rightarrow> []
           | Submitted \<Rightarrow> [''transaction.submitted'']
           | Rejected \<Rightarrow> [''transaction.submitted'', ''transaction.rejected'']
           | Approved \<Rightarrow> approval_trail t @ payment_trail (payment_state t)
           | Voided \<Rightarrow> approval_trail t @ payment_trail (payment_state t) @ [''transaction.voided'']))"

definition entries_for :: "app_ledger_service \<Rightarrow> uuid \<Rightarrow> audit_log list" where
  "entries_for s k = filter (\<lambda>a. al_resource_type a = ''transaction'' \<and> al_resource a = k) (audit_logs s)"

text \<open>Each entry is signed by the user whom the transaction names for that act.\<close>

definition signed :: "transaction \<Rightarrow> audit_log \<Rightarrow> bool" where
  "signed t a \<longleftrightarrow>
     al_ledger a = tx_ledger t
   \<and> (al_action a = ''transaction.submitted'' \<or> al_action a = ''transaction.auto_approved'' \<longrightarrow> al_actor a = tx_created_by t)
   \<and> (al_action a = ''transaction.approved'' \<longrightarrow> approved_by t = Some (al_actor a))
   \<and> (al_action a = ''transaction.paid'' \<longrightarrow> paid_by t = Some (al_actor a))
   \<and> (al_action a = ''transaction.received'' \<longrightarrow> received_by t = Some (al_actor a))"

definition trail_ok :: "app_ledger_service \<Rightarrow> ledger \<Rightarrow> transaction \<Rightarrow> bool" where
  "trail_ok s l t \<longleftrightarrow>
     map al_action (entries_for s (tx_id t)) = expected_trail l t
   \<and> (\<forall>a \<in> set (entries_for s (tx_id t)). signed t a)"

text \<open>The shape of ledgers and accounts, and that every object is stored under its own identifier.\<close>

definition ledger_shape :: "ledger \<Rightarrow> bool" where
  "ledger_shape l \<longleftrightarrow>
     (case lg_kind l of
        Personal \<Rightarrow> owner_user_id l \<noteq> None \<and> organization_id l = None
      | OrganizationPublic \<Rightarrow> owner_user_id l = None \<and> organization_id l \<noteq> None)"

definition maps_ok :: "app_ledger_service \<Rightarrow> bool" where
  "maps_ok s \<longleftrightarrow>
     om_keyed lg_id (ledgers s) \<and> om_keyed fa_id (accounts s) \<and> om_keyed cat_id (categories s)
   \<and> om_keyed tx_id (transactions s) \<and> om_keyed usr_id (users s) \<and> om_keyed org_id (organizations s)
   \<and> (\<forall>k l. om_get (ledgers s) k = Some l \<longrightarrow> ledger_shape l)
   \<and> (\<forall>k a. om_get (accounts s) k = Some a \<longrightarrow> valid_currency (currency (opening_balance a)))"

definition books_ok :: "app_ledger_service \<Rightarrow> bool" where
  "books_ok s \<longleftrightarrow>
     maps_ok s
   \<and> (\<forall>k t. om_get (transactions s) k = Some t \<longrightarrow>
        (\<exists>l. om_get (ledgers s) (tx_ledger t) = Some l \<and> tx_ok s l t \<and> trail_ok s l t))
   \<and> (\<forall>a \<in> set (audit_logs s). al_resource_type a = ''transaction'' \<longrightarrow> om_get (transactions s) (al_resource a) \<noteq> None)"

text \<open>The identifiers drawn so far, which the supply must not yield again.\<close>

definition used_ids :: "app_ledger_service \<Rightarrow> uuid set" where
  "used_ids s = om_dom (ledgers s) \<union> om_dom (accounts s) \<union> om_dom (categories s) \<union> om_dom (transactions s)
     \<union> om_dom (organizations s) \<union> ms_id ` set (memberships s)"

definition app_inv :: "app_state \<Rightarrow> bool" where
  "app_inv \<sigma> \<longleftrightarrow> books_ok (fst \<sigma>) \<and> fresh_ids (snd \<sigma>) (used_ids (fst \<sigma>))"

text \<open>
  The only thing assumed of the environment: upper-casing leaves three upper-case ASCII letters alone.
\<close>

definition env_ok :: "env \<Rightarrow> bool" where
  "env_ok env \<longleftrightarrow> (\<forall>c. valid_currency c \<longrightarrow> to_uppercase env c = c)"

lemma demo_env_ok: "env_ok demo_env"
  by (simp add: env_ok_def demo_env_def valid_currency_upper)

section \<open>Events keep the invariant\<close>

lemma tx_event_public:
  "tx_event l u a t t' \<Longrightarrow> fields_ok l t \<Longrightarrow> lg_kind l = OrganizationPublic"
  by (cases "lg_kind l") (auto simp: fields_ok_def elim: tx_eventE)

lemma tx_event_fields:
  assumes "tx_event l u a t t'" "fields_ok l t" "tx_kind t \<noteq> Transfer"
  shows "fields_ok l t'" "phase_step (phase t) (phase t')"
    "expected_trail l t' = expected_trail l t @ [act_name a]"
proof -
  note pub = tx_event_public [OF assms(1,2)]
  show "fields_ok l t'"
    using assms pub by cases (cases "tx_kind t"; auto simp: fields_ok_def same_defs split: if_splits)+
  show "phase_step (phase t) (phase t')"
    using assms pub
    by cases (cases "tx_kind t"; cases "payment_state t"; auto simp: fields_ok_def phase_def phase_step_simps)+
  show "expected_trail l t' = expected_trail l t @ [act_name a]"
    using assms pub
    by cases (cases "tx_kind t"; auto simp: fields_ok_def expected_trail_def approval_trail_def same_defs)+
qed

lemma tx_event_signed:
  assumes "tx_event l u a t t'" "fields_ok l t" "tx_kind t \<noteq> Transfer" "signed t e"
    "al_action e \<in> set (expected_trail l t)"
  shows "signed t' e"
proof -
  note pub = tx_event_public [OF assms(1,2)]
  show ?thesis
    using assms pub
    by cases (cases "tx_kind t"; auto simp: fields_ok_def signed_def same_defs expected_trail_def)+
qed

lemma tx_event_signs:
  assumes "tx_event l u a t t'" "al_ledger e = tx_ledger t" "al_action e = act_name a" "al_actor e = u"
  shows "signed t' e"
  using assms by cases (auto simp: signed_def same_defs)

lemma tx_event_ok:
  assumes "tx_event l u a t t'" "tx_ok s l t"
  shows "tx_ok s l t'"
  using assms tx_event_fields [OF assms(1)] tx_event_frame [OF assms(1)]
  by (auto simp: tx_ok_def same_subject_def)

text \<open>What a recorded event does to the trails.\<close>

lemma recorded_entries:
  assumes "recorded s l u act k t' s'"
  shows "\<exists>e. entries_for s' j = entries_for s j @ (if j = tx_id t' then [e] else [])
    \<and> al_action e = act \<and> al_actor e = u \<and> al_ledger e = lg_id l"
  using assms by (auto simp: recorded_def entries_for_def)

lemma recorded_frame:
  assumes "recorded s l u act k t' s'"
  shows "ledgers s' = ledgers s" "accounts s' = accounts s" "categories s' = categories s"
    "users s' = users s" "organizations s' = organizations s" "memberships s' = memberships s"
    "transactions s' = om_insert k t' (transactions s)"
    "\<exists>e. audit_logs s' = audit_logs s @ [e] \<and> al_resource e = tx_id t' \<and> al_resource_type e = ''transaction''"
  using assms by (auto simp: recorded_def)

lemma tx_ok_frame:
  "accounts s' = accounts s \<Longrightarrow> categories s' = categories s \<Longrightarrow> tx_ok s' l t = tx_ok s l t"
  by (simp add: tx_ok_def)

lemma books_tx:
  assumes "books_ok s" "om_get (transactions s) k = Some t"
  obtains l where "om_get (ledgers s) (tx_ledger t) = Some l" "tx_ok s l t" "trail_ok s l t"
  using assms unfolding books_ok_def by blast

lemma books_maps: "books_ok s \<Longrightarrow> maps_ok s"
  by (simp add: books_ok_def)

lemma event_done_books:
  assumes "event_done env u a k (s, w) dto (s', w')" "books_ok s"
  shows "books_ok s'"
proof -
  obtain t l t' where e: "om_get (transactions s) k = Some t" "om_get (ledgers s) (tx_ledger t) = Some l"
    "tx_event l u a t t'" "recorded s l u (act_name a) k t' s'"
    using assms(1) by (auto simp: event_done_def)
  note fr = recorded_frame [OF e(4)]
  have same: "tx_id t' = tx_id t" "tx_ledger t' = tx_ledger t"
    using tx_event_frame [OF e(3)] by (auto simp: same_subject_def)
  have maps: "maps_ok s" using assms(2) by (simp add: books_ok_def)
  then have ids: "tx_id t = k" "lg_id l = tx_ledger t"
    using e(1,2) by (auto simp: maps_ok_def dest: om_keyedD)
  have old: "tx_ok s l t" "trail_ok s l t"
    using assms(2) e(1,2) by (force simp: books_ok_def)+
  then have fld: "fields_ok l t" "tx_kind t \<noteq> Transfer" by (auto simp: tx_ok_def)
  obtain x where x: "entries_for s' k = entries_for s k @ [x]" "al_action x = act_name a" "al_actor x = u"
    "al_ledger x = lg_id l"
    using recorded_entries [OF e(4), of k] same ids by auto
  have "\<forall>y \<in> set (entries_for s k). signed t' y"
    using old(2) ids tx_event_signed [OF e(3) fld]
    by (metis (no_types, lifting) image_eqI list.set_map trail_ok_def)
  then have trail: "trail_ok s' l t'"
    using old(2) ids same x tx_event_fields(3) [OF e(3) fld] tx_event_signs [OF e(3), of x]
    by (auto simp: trail_ok_def)
  have new: "tx_ok s' l t'"
    using tx_event_ok [OF e(3) old(1)] fr by (simp add: tx_ok_frame [OF fr(2,3)])
  have others: "trail_ok s' m y" if "om_get (transactions s) j = Some y" "j \<noteq> k" "trail_ok s m y" for j y m
  proof -
    have "tx_id y \<noteq> k" using that(1,2) maps by (auto simp: maps_ok_def dest: om_keyedD)
    then have "entries_for s' (tx_id y) = entries_for s (tx_id y)"
      using recorded_entries [OF e(4), of "tx_id y"] same ids by auto
    with that(3) show ?thesis by (simp add: trail_ok_def)
  qed
  have maps': "maps_ok s'" using maps same ids by (auto simp: maps_ok_def fr)
  show ?thesis
    unfolding books_ok_def
  proof (intro conjI allI impI ballI maps')
    fix j y assume y: "om_get (transactions s') j = Some y"
    show "\<exists>m. om_get (ledgers s') (tx_ledger y) = Some m \<and> tx_ok s' m y \<and> trail_ok s' m y"
    proof (cases "j = k")
      case True
      then show ?thesis using y e(2) same new trail by (simp add: fr)
    next
      case False
      then have "om_get (transactions s) j = Some y" using y by (simp add: fr)
      then obtain m where "om_get (ledgers s) (tx_ledger y) = Some m" "tx_ok s m y" "trail_ok s m y"
        by (rule books_tx [OF assms(2)])
      then show ?thesis using others False \<open>om_get (transactions s) j = Some y\<close>
        by (auto simp: fr tx_ok_frame [OF fr(2,3)])
    qed
  next
    fix y assume "y \<in> set (audit_logs s')" "al_resource_type y = ''transaction''"
    then show "om_get (transactions s') (al_resource y) \<noteq> None"
      using assms(2) fr(8) same ids by (auto simp: books_ok_def fr(7))
  qed
qed

section \<open>Creation keeps the invariant\<close>

lemma resolve_category_Ok:
  assumes "resolve_category s i kind = Ok k" "om_keyed cat_id (categories s)"
  shows "\<exists>c. om_get (categories s) k = Some c \<and> cat_ledger c = ct_ledger i \<and> cat_kind c = kind"
proof (cases "ct_category i")
  case (Some cid)
  then show ?thesis using assms
    by (auto simp: resolve_category_def inversion split: if_splits dest: om_keyedD)
next
  case None
  then obtain c where "c \<in> set (om_values (categories s))" "cat_ledger c = ct_ledger i" "cat_kind c = kind" "cat_id c = k"
    using assms(1) by (auto simp: resolve_category_def dest!: find_Some_in)
  then show ?thesis using assms(2) by (auto simp: om_keyed_values)
qed

lemma category_kind_for_Ok: "category_kind_for k = Ok c \<Longrightarrow> k \<noteq> Transfer"
  by (cases k) auto

lemma initial_fields:
  assumes "initial_transaction env s i l t"
  shows "fields_ok l t" "lg_kind l = OrganizationPublic \<Longrightarrow> expected_trail l t = [creation_act t]"
    "lg_kind l = Personal \<Longrightarrow> expected_trail l t = []"
proof -
  have "tx_kind t \<noteq> Transfer"
    using assms by (auto simp: initial_transaction_def dest: category_kind_for_Ok)
  then show "fields_ok l t"
    using assms by (cases "tx_kind t"; auto simp: initial_transaction_def fields_ok_def
        split: ledger_kind.splits if_splits)
  show "lg_kind l = OrganizationPublic \<Longrightarrow> expected_trail l t = [creation_act t]"
    using assms by (auto simp: initial_transaction_def expected_trail_def creation_act_def approval_trail_def
        split: if_splits)
  show "lg_kind l = Personal \<Longrightarrow> expected_trail l t = []"
    by (simp add: expected_trail_def)
qed

lemma initial_ok:
  assumes "initial_transaction env s i l t" "maps_ok s" "env_ok env"
    and "om_get (accounts s) (ct_account i) = Some a" "fa_ledger a = ct_ledger i"
    "currency (opening_balance a) = ct_currency i"
  shows "tx_ok s l t"
proof -
  obtain kind c where c: "category_kind_for (ct_kind i) = Ok kind" "resolve_category s i kind = Ok c" "tx_category t = Some c"
    using assms(1) by (auto simp: initial_transaction_def)
  have "valid_currency (currency (opening_balance a))"
    using assms(2,4) unfolding maps_ok_def by blast
  then have "valid_currency (ct_currency i)"
    by (simp add: assms(6))
  then have "to_uppercase env (trim (ct_currency i)) = ct_currency i"
    using assms(3) by (simp add: env_ok_def valid_currency_trim)
  then have "currency (tx_amount t) = ct_currency i"
    using assms(1) by (auto simp: initial_transaction_def money_new_Ok)
  moreover have "\<exists>x. om_get (categories s) c = Some x \<and> cat_ledger x = ct_ledger i \<and> cat_kind x = kind"
    using resolve_category_Ok [OF c(2)] assms(2) by (simp add: maps_ok_def)
  ultimately show ?thesis
    using assms(1,4-6) c initial_fields(1) [OF assms(1)] category_kind_for_Ok [OF c(1)]
    by (auto simp: tx_ok_def initial_transaction_def direction_fits_def)
qed

lemma created_books:
  assumes "created env i (s, w) dto (s', w')" "books_ok s" "fresh_ids w (used_ids s)" "env_ok env"
  shows "books_ok s'"
proof -
  obtain l a t where c: "om_get (ledgers s) (ct_ledger i) = Some l"
    "om_get (accounts s) (ct_account i) = Some a" "fa_ledger a = ct_ledger i"
    "currency (opening_balance a) = ct_currency i" "initial_transaction env s i l t"
    "fresh_draw w (tx_id t) w'"
    "if lg_kind l = OrganizationPublic then recorded s l (ct_actor i) (creation_act t) (tx_id t) t s'
     else s' = s\<lparr>transactions := om_insert (tx_id t) t (transactions s)\<rparr>"
    using assms(1) unfolding created_def fst_conv snd_conv by (elim exE conjE) (rule that)
  have maps: "maps_ok s" using assms(2) by (rule books_maps)
  have fresh: "om_get (transactions s) (tx_id t) = None"
    using c(6) assms(3) by (auto simp: fresh_draw_def used_ids_def intro: om_get_notin_dom)
  have led: "tx_ledger t = ct_ledger i" "tx_created_by t = ct_actor i" "lg_id l = ct_ledger i"
    using c(1,5) maps by (auto simp: initial_transaction_def maps_ok_def dest: om_keyedD)
  have fr: "ledgers s' = ledgers s" "accounts s' = accounts s" "categories s' = categories s"
    "users s' = users s" "organizations s' = organizations s"
    "transactions s' = om_insert (tx_id t) t (transactions s)"
    using c(7) by (auto split: if_splits dest: recorded_frame)
  have none: "entries_for s (tx_id t) = []"
    using assms(2) fresh by (auto simp: books_ok_def entries_for_def filter_empty_conv)
  have ent: "entries_for s' j = entries_for s j" if "j \<noteq> tx_id t" for j
    using c(7) that recorded_entries [of s l "ct_actor i" "creation_act t" "tx_id t" t s' j]
    by (auto simp: entries_for_def split: if_splits)
  have trail: "trail_ok s' l t"
  proof (cases "lg_kind l")
    case Personal
    then show ?thesis using c(7) none initial_fields(3) [OF c(5)]
      by (auto simp: trail_ok_def entries_for_def)
  next
    case OrganizationPublic
    then obtain x where "entries_for s' (tx_id t) = [x]" "al_action x = creation_act t" "al_actor x = ct_actor i"
      "al_ledger x = lg_id l"
      using c(7) none recorded_entries [of s l "ct_actor i" "creation_act t" "tx_id t" t s' "tx_id t"] by auto
    then show ?thesis
      using OrganizationPublic initial_fields(2) [OF c(5)] led
      by (auto simp: trail_ok_def signed_def creation_act_def)
  qed
  have new: "tx_ok s' l t"
    using initial_ok [OF c(5) maps assms(4) c(2-4)] by (simp add: tx_ok_frame [OF fr(2,3)])
  have maps': "maps_ok s'" using maps by (auto simp: maps_ok_def fr)
  show ?thesis
    unfolding books_ok_def
  proof (intro conjI allI impI ballI maps')
    fix j y assume y: "om_get (transactions s') j = Some y"
    show "\<exists>m. om_get (ledgers s') (tx_ledger y) = Some m \<and> tx_ok s' m y \<and> trail_ok s' m y"
    proof (cases "j = tx_id t")
      case True
      then show ?thesis using y c(1) led new trail by (simp add: fr)
    next
      case False
      then have y: "om_get (transactions s) j = Some y" using y by (simp add: fr)
      then have "tx_id y \<noteq> tx_id t" using maps False by (auto simp: maps_ok_def dest: om_keyedD)
      moreover obtain m where "om_get (ledgers s) (tx_ledger y) = Some m" "tx_ok s m y" "trail_ok s m y"
        using y by (rule books_tx [OF assms(2)])
      ultimately show ?thesis using ent by (auto simp: fr tx_ok_frame [OF fr(2,3)] trail_ok_def)
    qed
  next
    fix y assume y: "y \<in> set (audit_logs s')" "al_resource_type y = ''transaction''"
    show "om_get (transactions s') (al_resource y) \<noteq> None"
    proof (cases "y \<in> set (audit_logs s)")
      case True
      then show ?thesis using y assms(2) by (auto simp: books_ok_def fr)
    next
      case False
      then have "al_resource y = tx_id t"
        using y(1) c(7) recorded_frame(8) [of s l "ct_actor i" "creation_act t" "tx_id t" t s']
        by (auto split: if_splits)
      then show ?thesis by (simp add: fr)
    qed
  qed
qed

section \<open>Setup operations only extend the books\<close>

definition same_ledger :: "ledger \<Rightarrow> ledger \<Rightarrow> bool" where
  "same_ledger l l' \<longleftrightarrow> lg_id l' = lg_id l \<and> lg_kind l' = lg_kind l \<and> owner_user_id l' = owner_user_id l
     \<and> organization_id l' = organization_id l"

definition same_account :: "financial_account \<Rightarrow> financial_account \<Rightarrow> bool" where
  "same_account a a' \<longleftrightarrow> fa_id a' = fa_id a \<and> fa_ledger a' = fa_ledger a \<and> opening_balance a' = opening_balance a"

definition books_extend :: "app_ledger_service \<Rightarrow> app_ledger_service \<Rightarrow> bool" where
  "books_extend s s' \<longleftrightarrow>
     transactions s' = transactions s \<and> audit_logs s' = audit_logs s
   \<and> om_extends same_ledger (ledgers s) (ledgers s')
   \<and> om_extends same_account (accounts s) (accounts s')
   \<and> om_extends (=) (categories s) (categories s')"

lemma same_refl [simp]: "same_ledger l l" "same_account a a"
  by (simp_all add: same_ledger_def same_account_def)

lemma books_extend_refl [simp]: "books_extend s s"
  by (simp add: books_extend_def)

lemma same_ledger_trans: "same_ledger l m \<Longrightarrow> same_ledger m n \<Longrightarrow> same_ledger l n"
  by (simp add: same_ledger_def)

lemma same_account_trans: "same_account a b \<Longrightarrow> same_account b c \<Longrightarrow> same_account a c"
  by (simp add: same_account_def)

lemma books_extendD:
  assumes "books_extend s t"
  shows "transactions t = transactions s" "audit_logs t = audit_logs s"
    "om_extends same_ledger (ledgers s) (ledgers t)" "om_extends same_account (accounts s) (accounts t)"
    "om_extends (=) (categories s) (categories t)"
  using assms by (simp_all only: books_extend_def)

lemma books_extend_trans:
  assumes st: "books_extend s t" and tu: "books_extend t u"
  shows "books_extend s u"
  unfolding books_extend_def
proof (intro conjI)
  show "transactions u = transactions s"
    by (rule trans [OF books_extendD(1) [OF tu] books_extendD(1) [OF st]])
  show "audit_logs u = audit_logs s"
    by (rule trans [OF books_extendD(2) [OF tu] books_extendD(2) [OF st]])
  show "om_extends same_ledger (ledgers s) (ledgers u)"
    using same_ledger_trans books_extendD(3) [OF st] books_extendD(3) [OF tu] by (rule om_extends_trans)
  show "om_extends same_account (accounts s) (accounts u)"
    using same_account_trans books_extendD(4) [OF st] books_extendD(4) [OF tu] by (rule om_extends_trans)
  show "om_extends (=) (categories s) (categories u)"
    using trans books_extendD(5) [OF st] books_extendD(5) [OF tu] by (rule om_extends_trans)
qed

lemma books_extend_tx:
  assumes "books_extend s s'" "om_get (ledgers s) (tx_ledger t) = Some l" "tx_ok s l t" "trail_ok s l t"
  shows "\<exists>l'. om_get (ledgers s') (tx_ledger t) = Some l' \<and> tx_ok s' l' t \<and> trail_ok s' l' t"
proof -
  note e = assms(1) [unfolded books_extend_def]
  obtain l' where l': "om_get (ledgers s') (tx_ledger t) = Some l'" "same_ledger l l'"
    by (rule om_extends_get [OF books_extendD(3) [OF assms(1)] assms(2)])
  obtain a where a: "om_get (accounts s) (tx_account t) = Some a" "fa_ledger a = tx_ledger t"
    "currency (opening_balance a) = currency (tx_amount t)"
    using assms(3) by (auto simp: tx_ok_def)
  obtain a' where a': "om_get (accounts s') (tx_account t) = Some a'" "same_account a a'"
    by (rule om_extends_get [OF books_extendD(4) [OF assms(1)] a(1)])
  obtain k c where c: "tx_category t = Some k" "om_get (categories s) k = Some c" "cat_ledger c = tx_ledger t"
    "direction_fits (tx_kind t) (cat_kind c)"
    using assms(3) by (auto simp: tx_ok_def)
  have "om_get (categories s') k = Some c"
    by (rule om_extends_get [OF books_extendD(5) [OF assms(1)] c(2)]) simp
  then have "tx_ok s' l' t"
    using assms(3) l' a a' c by (simp add: tx_ok_def fields_ok_def same_ledger_def same_account_def)
  moreover have "trail_ok s' l' t"
    using assms(4) l'(2) e by (simp add: trail_ok_def entries_for_def expected_trail_def same_ledger_def)
  ultimately show ?thesis using l'(1) by blast
qed

lemma books_extend_ok:
  assumes "books_ok s" "books_extend s s'" "maps_ok s'"
  shows "books_ok s'"
proof -
  have same: "transactions s' = transactions s" "audit_logs s' = audit_logs s"
    using assms(2) by (simp_all add: books_extend_def)
  have "\<exists>l'. om_get (ledgers s') (tx_ledger t) = Some l' \<and> tx_ok s' l' t \<and> trail_ok s' l' t"
    if "om_get (transactions s) k = Some t" for k t
    using books_tx [OF assms(1) that] books_extend_tx [OF assms(2)] by metis
  with assms(1,3) same show ?thesis by (auto simp: books_ok_def)
qed

definition setup_inv :: "app_state \<Rightarrow> bool" where
  "setup_inv \<sigma> \<longleftrightarrow> maps_ok (fst \<sigma>) \<and> fresh_ids (snd \<sigma>) (used_ids (fst \<sigma>))"

definition setup_step :: "app_state \<Rightarrow> app_state \<Rightarrow> bool" where
  "setup_step \<sigma> \<sigma>' \<longleftrightarrow> (setup_inv \<sigma> \<longrightarrow> setup_inv \<sigma>' \<and> books_extend (fst \<sigma>) (fst \<sigma>'))"

lemma setup_step_refl [simp]: "setup_step \<sigma> \<sigma>"
  by (simp add: setup_step_def)

lemma setup_step_trans: "setup_step \<sigma> \<tau> \<Longrightarrow> setup_step \<tau> \<upsilon> \<Longrightarrow> setup_step \<sigma> \<upsilon>"
  using books_extend_trans by (auto simp: setup_step_def)

lemma setup_step_inv: "setup_step \<sigma> \<sigma>' \<Longrightarrow> app_inv \<sigma> \<Longrightarrow> app_inv \<sigma>'"
  using books_extend_ok books_maps by (auto simp: app_inv_def setup_step_def setup_inv_def)

text \<open>A chain of calls makes a step if each call does.\<close>

lemma setup_step_perform:
  assumes "setup_step \<sigma> (snd x)" "\<And>a \<tau>. setup_step \<tau> (snd (k a \<tau>))"
  shows "setup_step \<sigma> (snd (perform x conv k))"
proof -
  obtain r \<tau> where "x = (r, \<tau>)" by (cases x)
  then show ?thesis
    using assms setup_step_trans [of \<sigma> \<tau>] by (cases r) auto
qed

lemma fresh_new_v4:
  "fresh_ids w S \<Longrightarrow> fst (new_v4 w) \<notin> S"
  "fresh_ids w S \<Longrightarrow> fresh_ids (snd (new_v4 w)) (insert (fst (new_v4 w)) S)"
  using fresh_ids_new_v4 [of w S "fst (new_v4 w)" "snd (new_v4 w)"] by simp_all

lemma fresh_now [simp]: "fresh_ids (snd (now_utc w)) S = fresh_ids w S"
  by (simp add: fresh_ids_def now_utc_def)

lemma setup_step_now [simp]: "setup_step (s, w) (s, snd (now_utc w))"
  by (simp add: setup_step_def setup_inv_def)

text \<open>Adding an object under a new identifier.\<close>

lemma setup_step_add_account:
  assumes "fa_id a = fst (new_v4 w)" "valid_currency (currency (opening_balance a))"
  shows "setup_step (s, w) (s\<lparr>accounts := om_insert (fa_id a) a (accounts s)\<rparr>, snd (new_v4 w))"
proof -
  have "setup_inv (s\<lparr>accounts := om_insert (fa_id a) a (accounts s)\<rparr>, snd (new_v4 w))
      \<and> om_get (accounts s) (fa_id a) = None" if "setup_inv (s, w)"
    using that assms fresh_new_v4 [of w "used_ids s"]
    by (auto simp: setup_inv_def maps_ok_def used_ids_def intro: om_get_notin_dom)
  then show ?thesis by (auto simp: setup_step_def books_extend_def om_extends_new)
qed

lemma setup_step_add_category:
  assumes "cat_id c = fst (new_v4 w)"
  shows "setup_step (s, w) (s\<lparr>categories := om_insert (cat_id c) c (categories s)\<rparr>, snd (new_v4 w))"
proof -
  have "setup_inv (s\<lparr>categories := om_insert (cat_id c) c (categories s)\<rparr>, snd (new_v4 w))
      \<and> om_get (categories s) (cat_id c) = None" if "setup_inv (s, w)"
    using that assms fresh_new_v4 [of w "used_ids s"]
    by (auto simp: setup_inv_def maps_ok_def used_ids_def intro: om_get_notin_dom)
  then show ?thesis by (auto simp: setup_step_def books_extend_def om_extends_new)
qed

lemma setup_step_add_ledger:
  assumes "lg_id l = fst (new_v4 w)" "ledger_shape l"
  shows "setup_step (s, w) (s\<lparr>ledgers := om_insert (lg_id l) l (ledgers s)\<rparr>, snd (new_v4 w))"
proof -
  have "setup_inv (s\<lparr>ledgers := om_insert (lg_id l) l (ledgers s)\<rparr>, snd (new_v4 w))
      \<and> om_get (ledgers s) (lg_id l) = None" if "setup_inv (s, w)"
    using that assms fresh_new_v4 [of w "used_ids s"]
    by (auto simp: setup_inv_def maps_ok_def used_ids_def intro: om_get_notin_dom)
  then show ?thesis by (auto simp: setup_step_def books_extend_def om_extends_new)
qed

lemma setup_step_add_organization:
  assumes "org_id g = fst (new_v4 w)"
  shows "setup_step (s, w) (s\<lparr>organizations := om_insert (org_id g) g (organizations s)\<rparr>, snd (new_v4 w))"
  using assms fresh_new_v4 [of w "used_ids s"]
  by (auto simp: setup_step_def setup_inv_def maps_ok_def used_ids_def books_extend_def)

lemma setup_step_add_membership:
  assumes "ms_id m = fst (new_v4 w)"
  shows "setup_step (s, w) (s\<lparr>memberships := memberships s @ [m]\<rparr>, snd (new_v4 w))"
  using assms fresh_new_v4 [of w "used_ids s"]
  by (auto simp: setup_step_def setup_inv_def maps_ok_def used_ids_def books_extend_def insert_commute)

text \<open>Changes of users and of the memberships draw nothing.\<close>

lemma setup_step_users:
  assumes "om_keyed usr_id (users s) \<Longrightarrow> om_keyed usr_id us" "world_le w w'"
  shows "setup_step (s, w) (s\<lparr>users := us\<rparr>, w')"
  using assms by (auto simp: setup_step_def setup_inv_def maps_ok_def used_ids_def books_extend_def world_le_def)

lemma setup_step_memberships:
  assumes "ms_id ` set ms \<subseteq> ms_id ` set (memberships s)"
  shows "setup_step (s, w) (s\<lparr>memberships := ms\<rparr>, w)"
proof -
  have "used_ids (s\<lparr>memberships := ms\<rparr>) \<subseteq> used_ids s"
    using assms by (auto simp: used_ids_def)
  then show ?thesis
    by (auto simp: setup_step_def setup_inv_def maps_ok_def books_extend_def intro: fresh_ids_mono)
qed

end
