(* ===== verification/AppMachine.thy ===== *)
theory AppMachine
  imports Books
begin

text \<open>
  Every command of the application ledger keeps the invariant of the books: the setup and the
  organization operations only extend them, the transaction operations make one event. The machine
  contract is interpreted on \<open>app_step\<close>, which gives the invariant for every history.
\<close>

section \<open>Setup and organization operations\<close>

lemma step_new_account:
  assumes "valid_currency (currency m)" "financial_account_new l name kind m w = (a, w')"
  shows "setup_step (s, w) (s\<lparr>accounts := om_insert (fa_id a) a (accounts s)\<rparr>, w')"
proof -
  have "fa_id a = fst (new_v4 w)" "opening_balance a = m" "w' = snd (now_utc (snd (new_v4 w)))"
    using assms(2) by (auto simp: financial_account_new_def split_beta)
  then show ?thesis
    using setup_step_trans [OF setup_step_add_account setup_step_now] assms(1) by metis
qed

lemma step_rename_account:
  assumes "om_get (accounts s) k = Some a"
  shows "setup_step (s, w) (s\<lparr>accounts := om_insert k (a\<lparr>fa_name := name\<rparr>) (accounts s)\<rparr>, w)"
proof -
  have "k \<in> om_dom (accounts s)" using assms by (rule om_get_in_dom)
  then have "used_ids (s\<lparr>accounts := om_insert k (a\<lparr>fa_name := name\<rparr>) (accounts s)\<rparr>) = used_ids s"
    by (auto simp: used_ids_def)
  moreover have "om_extends same_account (accounts s) (om_insert k (a\<lparr>fa_name := name\<rparr>) (accounts s))"
    using assms by (intro om_extends_replace) (auto simp: same_account_def)
  moreover have "maps_ok (s\<lparr>accounts := om_insert k (a\<lparr>fa_name := name\<rparr>) (accounts s)\<rparr>)" if m: "maps_ok s"
  proof -
    have "om_keyed fa_id (accounts s)" using m by (simp add: maps_ok_def)
    from om_keyedD [OF this assms] have "fa_id a = k" .
    then show ?thesis using m assms by (auto simp: maps_ok_def)
  qed
  ultimately show ?thesis
    by (simp add: setup_step_def setup_inv_def books_extend_def)
qed

lemma step_ensure_account: "setup_step \<sigma> (snd (ensure_account env l cur name kind \<sigma>))"
proof (cases "List.find (\<lambda>(k, a). fa_ledger a = l \<and> fa_kind a = kind \<and> fa_deleted_at a = None)
    (om_entries (accounts (fst \<sigma>)))")
  case None
  show ?thesis
  proof (cases "money_new (to_uppercase env) 0 cur")
    case (Ok m)
    then have "valid_currency (currency m)" using money_new_Ok by blast
    from step_new_account [OF this, where l = l and name = name and kind = kind and w = "snd \<sigma>"
        and s = "fst \<sigma>", OF prod.collapse [symmetric]] None Ok
    show ?thesis by (simp add: ensure_account_def split_beta)
  qed (use None in \<open>simp_all add: ensure_account_def split_beta\<close>)
next
  case (Some p)
  then have "om_get (accounts (fst \<sigma>)) (fst p) = Some (snd p)"
    using find_Some_in [OF Some] by (metis om_in_entries prod.collapse)
  with Some show ?thesis
    using step_rename_account [of "fst \<sigma>" "fst p" "snd p" "snd \<sigma>" name]
    by (simp add: ensure_account_def split_beta)
qed

lemma step_ensure_accounts: "setup_step \<sigma> (snd (ensure_accounts env l cur ps \<sigma>))"
  by (induction env l cur ps \<sigma> rule: ensure_accounts.induct)
    (auto intro!: setup_step_perform step_ensure_account)

lemma step_new_category:
  "setup_step (s, w) (s\<lparr>categories := om_insert (fst (new_v4 w))
     \<lparr>cat_id = fst (new_v4 w), cat_ledger = l, cat_name = name, cat_kind = kind\<rparr> (categories s)\<rparr>, snd (new_v4 w))"
  using setup_step_add_category [of "\<lparr>cat_id = fst (new_v4 w), cat_ledger = l, cat_name = name, cat_kind = kind\<rparr>" w s]
  by simp

lemma step_ensure_category: "setup_step \<sigma> (ensure_category l e \<sigma>)"
  using step_new_category [of "fst \<sigma>" "snd \<sigma>" l "fst e" "snd e"]
  by (auto simp: ensure_category_def split_beta)

lemma step_fold: "(\<And>x \<sigma>. setup_step \<sigma> (f x \<sigma>)) \<Longrightarrow> setup_step \<sigma> (fold f xs \<sigma>)"
proof (induction xs arbitrary: \<sigma>)
  case (Cons x xs)
  show ?case
    using setup_step_trans [OF Cons.prems Cons.IH [OF Cons.prems]] by simp
qed simp

lemma step_ensure_ledger_setup: "setup_step \<sigma> (snd (ensure_ledger_setup env l \<sigma>))"
  by (auto simp: ensure_ledger_setup_def ensure_standard_accounts_for_ledger_def
      ensure_default_categories_for_ledger_def
      intro!: setup_step_perform step_ensure_accounts step_fold step_ensure_category)

lemma step_new_ledger:
  assumes "lg_id l = fst (new_v4 w)" "ledger_shape l" "w' = snd (now_utc (snd (new_v4 w)))"
  shows "setup_step (s, w) (s\<lparr>ledgers := om_insert (lg_id l) l (ledgers s)\<rparr>, w')"
  using setup_step_trans [OF setup_step_add_ledger [OF assms(1,2)] setup_step_now] assms(3) by simp

lemma step_ensure_personal_ledger: "setup_step \<sigma> (snd (ensure_personal_ledger_for_user env u name \<sigma>))"
proof (cases "list_ex (\<lambda>l. lg_kind l = Personal \<and> owner_user_id l = Some u) (om_values (ledgers (fst \<sigma>)))")
  case True
  then show ?thesis by (simp add: ensure_personal_ledger_for_user_def split_beta)
next
  case False
  let ?l = "fst (ledger_personal u (name @ text_personal_suffix) (snd \<sigma>))"
  have "setup_step (fst \<sigma>, snd \<sigma>) ((fst \<sigma>)\<lparr>ledgers := om_insert (lg_id ?l) ?l (ledgers (fst \<sigma>))\<rparr>,
      snd (now_utc (snd (new_v4 (snd \<sigma>)))))"
    by (rule step_new_ledger) (auto simp: ledger_personal_def split_beta ledger_shape_def)
  with False show ?thesis
    using setup_step_trans [OF _ step_ensure_ledger_setup]
    by (simp add: ensure_personal_ledger_for_user_def split_beta ledger_personal_def)
qed

lemma ledger_shape_name [simp]: "ledger_shape (l\<lparr>lg_name := name\<rparr>) = ledger_shape l"
  by (cases "lg_kind l") (simp_all add: ledger_shape_def)

lemma step_rename_personal_ledger: "setup_step (s, w) (rename_personal_ledger_for_user u name s, w)"
proof -
  let ?f = "\<lambda>_ l. if lg_kind l = Personal \<and> owner_user_id l = Some u then l\<lparr>lg_name := name @ text_personal_suffix\<rparr> else l"
  have "om_extends same_ledger (ledgers s) (om_map ?f (ledgers s))"
    by (rule om_extends_map) (simp add: same_ledger_def)
  moreover have "om_keyed lg_id (ledgers s) \<Longrightarrow> om_keyed lg_id (om_map ?f (ledgers s))"
    by (rule om_keyed_map) auto
  ultimately show ?thesis
    by (auto simp: rename_personal_ledger_for_user_def setup_step_def setup_inv_def maps_ok_def books_extend_def
        used_ids_def)
qed

lemma update_user_id [simp]: "usr_id (update_user name mail tel u) = usr_id u"
  by (simp add: update_user_def)

lemma step_put_user:
  assumes "usr_id u = k" "world_le w w'"
  shows "setup_step (s, w) (s\<lparr>users := om_insert k u (users s)\<rparr>, w')"
  using assms by (intro setup_step_users) auto

lemma step_modify_user:
  "setup_step (s, w) (s\<lparr>users := om_modify k (update_user name mail tel) (users s)\<rparr>, w)"
  by (intro setup_step_users om_keyed_modify) auto

lemma step_ensure_identity:
  assumes "setup_inv \<sigma>"
  shows "setup_step \<sigma> (snd (ensure_user_identity env i \<sigma>))"
proof -
  obtain s w where \<sigma>: "\<sigma> = (s, w)" by (cases \<sigma>)
  let ?name = "trim (ei_display_name i)"
  let ?mail = "Option.bind (ei_email i) (normalize_optional_email env)"
  let ?tel = "Option.bind (ei_phone i) normalize_optional_phone"
  define u where "u = (case find_user_id_by_email_or_phone env s ?mail ?tel of Some u \<Rightarrow> u | None \<Rightarrow> ei_user i)"
  let ?tail = "\<lambda>s w. snd (perform (ensure_personal_ledger_for_user env u ?name
      (rename_personal_ledger_for_user u ?name s, w)) id (\<lambda>_ (s, w).
        (ok_or (map_option (user_dto_of env) (om_get (users s) u)) UserNotFound, s, w)))"
  have tail: "setup_step (s, w) (?tail s w)" for s w
    by (rule setup_step_trans [OF step_rename_personal_ledger])
      (auto intro!: setup_step_perform step_ensure_personal_ledger)
  show ?thesis
  proof (cases "om_get (users s) u")
    case None
    have "setup_step (s, w) (s\<lparr>users := om_insert u \<lparr>usr_id = u, display_name = ?name, email = ?mail, phone = ?tel,
        usr_created_at = fst (now_utc w)\<rparr> (users s)\<rparr>, snd (now_utc w))"
      by (rule step_put_user) simp_all
    from setup_step_trans [OF this tail] None show ?thesis
      by (simp add: ensure_user_identity_def Let_def split_beta \<sigma> flip: u_def)
  next
    case (Some x)
    then have "usr_id x = u"
      using assms by (auto simp: \<sigma> setup_inv_def maps_ok_def dest: om_keyedD)
    then have "setup_step (s, w) (s\<lparr>users := om_insert u (update_user ?name ?mail ?tel x) (users s)\<rparr>, w)"
      by (intro step_put_user) simp_all
    from setup_step_trans [OF this tail] Some show ?thesis
      by (simp add: ensure_user_identity_def Let_def split_beta \<sigma> flip: u_def)
  qed
qed

lemma step_current_user: "setup_step (s, w) (s\<lparr>current_user_id := u\<rparr>, w)"
  by (simp add: setup_step_def setup_inv_def maps_ok_def used_ids_def books_extend_def)

lemma step_new_organization:
  assumes "organization_new name u w = (g, w')"
  shows "setup_step (s, w) (s\<lparr>organizations := om_insert (org_id g) g (organizations s)\<rparr>, w')"
proof -
  have "org_id g = fst (new_v4 w)" "w' = snd (now_utc (snd (new_v4 w)))"
    using assms by (auto simp: organization_new_def split_beta)
  then show ?thesis using setup_step_trans [OF setup_step_add_organization setup_step_now] by metis
qed

lemma step_new_membership:
  assumes "membership_new org u role w = (m, w')"
  shows "setup_step (s, w) (s\<lparr>memberships := memberships s @ [m]\<rparr>, w')"
proof -
  have "ms_id m = fst (new_v4 w)" "w' = snd (now_utc (snd (new_v4 w)))"
    using assms by (auto simp: membership_new_def split_beta)
  then show ?thesis using setup_step_trans [OF setup_step_add_membership setup_step_now] by metis
qed

lemma step_new_public_ledger:
  assumes "ledger_organization_public org name w = (l, w')"
  shows "setup_step (s, w) (s\<lparr>ledgers := om_insert (lg_id l) l (ledgers s)\<rparr>, w')"
  using assms
  by (intro step_new_ledger) (auto simp: ledger_organization_public_def split_beta ledger_shape_def)

text \<open>
  The part of \<open>create_organization\<close> after its guards: it founds the organization \<open>g\<close> with the public
  ledger \<open>l\<close> and the owner's membership \<open>m\<close>, and sets the ledger up.
\<close>

definition founding :: "app_state \<Rightarrow> uuid \<Rightarrow> organization \<Rightarrow> ledger \<Rightarrow> membership \<Rightarrow> app_state \<Rightarrow> bool" where
  "founding \<sigma> u g l m \<sigma>' \<longleftrightarrow>
     setup_step \<sigma> \<sigma>' \<and> fresh_draw (snd \<sigma>) (org_id g) (snd \<sigma>') \<and> fresh_draw (snd \<sigma>) (ms_id m) (snd \<sigma>')
   \<and> organizations (fst \<sigma>') = om_insert (org_id g) g (organizations (fst \<sigma>))
   \<and> memberships (fst \<sigma>') = memberships (fst \<sigma>) @ [m] \<and> ms_organization m = org_id g \<and> ms_user m = u \<and> ms_role m = Owner
   \<and> om_get (ledgers (fst \<sigma>')) (lg_id l) = Some l \<and> lg_kind l = OrganizationPublic \<and> organization_id l = Some (org_id g)
   \<and> om_get (users (fst \<sigma>')) u \<noteq> None"

lemma create_organization_shape:
  assumes "trim (co_name i) \<noteq> []" "trim (co_admin_display_name i) \<noteq> []"
    "Option.bind (co_admin_email i) (normalize_optional_email env) \<noteq> None
     \<or> Option.bind (co_admin_phone i) normalize_optional_phone \<noteq> None"
  shows "\<exists>g l m \<tau> dto. founding \<sigma> (co_admin_user i) g l m \<tau>
    \<and> create_organization env i \<sigma> = perform (ensure_ledger_setup env (lg_id l) \<tau>) id (\<lambda>_ \<sigma>. (Ok dto, \<sigma>))"
proof -
  obtain s w where \<sigma>: "\<sigma> = (s, w)" by (cases \<sigma>)
  obtain now w1 where now: "now_utc w = (now, w1)" by (cases "now_utc w")
  define admin where "admin = \<lparr>usr_id = co_admin_user i, display_name = trim (co_admin_display_name i),
    email = Option.bind (co_admin_email i) (normalize_optional_email env),
    phone = Option.bind (co_admin_phone i) normalize_optional_phone, usr_created_at = now\<rparr>"
  obtain g w2 where g: "organization_new (trim (co_name i)) (co_admin_user i) w1 = (g, w2)"
    by (cases "organization_new (trim (co_name i)) (co_admin_user i) w1")
  obtain l w3 where l: "ledger_organization_public (org_id g) (org_name g @ text_public_suffix) w2 = (l, w3)"
    by (cases "ledger_organization_public (org_id g) (org_name g @ text_public_suffix) w2")
  obtain m w4 where m: "membership_new (org_id g) (co_admin_user i) Owner w3 = (m, w4)"
    by (cases "membership_new (org_id g) (co_admin_user i) Owner w3")
  define s0 where "s0 = (if current_user_id s = nil_uuid then s\<lparr>current_user_id := co_admin_user i\<rparr> else s)"
  define s1 where "s1 = s0\<lparr>users := om_insert (co_admin_user i) admin (users s0)\<rparr>"
  define s2 where "s2 = s1\<lparr>organizations := om_insert (org_id g) g (organizations s1)\<rparr>"
  define s3 where "s3 = s2\<lparr>ledgers := om_insert (lg_id l) l (ledgers s2)\<rparr>"
  define s4 where "s4 = s3\<lparr>memberships := memberships s3 @ [m]\<rparr>"
  have "setup_step (s, w) (s0, w)" using step_current_user by (simp add: s0_def)
  moreover have "setup_step (s0, w) (s1, w1)" unfolding s1_def
    by (rule step_put_user) (use now world_le_now [of w] in \<open>simp_all add: admin_def\<close>)
  moreover have "setup_step (s1, w1) (s2, w2)" unfolding s2_def by (rule step_new_organization [OF g])
  moreover have "setup_step (s2, w2) (s3, w3)" unfolding s3_def by (rule step_new_public_ledger [OF l])
  moreover have "setup_step (s3, w3) (s4, w4)" unfolding s4_def by (rule step_new_membership [OF m])
  ultimately have step: "setup_step (s, w) (s4, w4)" using setup_step_trans by blast
  have w1: "w1 = snd (now_utc w)" and w2: "w2 = snd (now_utc (snd (new_v4 w1)))"
    and w3: "w3 = snd (now_utc (snd (new_v4 w2)))" and w4: "w4 = snd (now_utc (snd (new_v4 w3)))"
    using now g l m by (auto simp: organization_new_def ledger_organization_public_def membership_new_def split_beta)
  have ids: "org_id g = fst (new_v4 w1)" "ms_id m = fst (new_v4 w3)"
    using g m by (auto simp: organization_new_def membership_new_def split_beta)
  have draws: "fresh_draw w (org_id g) w4" "fresh_draw w (ms_id m) w4"
    unfolding ids by (rule fresh_draw_new; simp add: w1 w2 w3 w4)+
  have at: "organizations s4 = om_insert (org_id g) g (organizations s)" "memberships s4 = memberships s @ [m]"
    "om_get (ledgers s4) (lg_id l) = Some l" "om_get (users s4) (co_admin_user i) \<noteq> None"
    by (simp_all add: s4_def s3_def s2_def s1_def s0_def)
  have "ms_organization m = org_id g" "ms_user m = co_admin_user i" "ms_role m = Owner"
    "lg_kind l = OrganizationPublic" "organization_id l = Some (org_id g)"
    using l m by (auto simp: membership_new_def ledger_organization_public_def split_beta)
  with step draws at have found: "founding \<sigma> (co_admin_user i) g l m (s4, w4)"
    by (simp add: founding_def \<sigma>)
  have "s4 = s0\<lparr>users := om_insert (co_admin_user i) admin (users s0),
      organizations := om_insert (org_id g) g (organizations s0), memberships := memberships s0 @ [m],
      ledgers := om_insert (lg_id l) l (ledgers s0)\<rparr>"
    by (simp add: s4_def s3_def s2_def s1_def)
  moreover have "usr_id admin = co_admin_user i" by (simp add: admin_def)
  ultimately show ?thesis
    using found now g l m assms unfolding \<sigma> create_organization_def
    by (intro exI [of _ g] exI [of _ l] exI [of _ m] exI [of _ "(s4, w4)"])
      (cases "current_user_id s = nil_uuid"; auto simp: Let_def s0_def simp flip: admin_def)
qed

lemma create_organization_refused:
  assumes "\<not> (trim (co_name i) \<noteq> [] \<and> trim (co_admin_display_name i) \<noteq> []
    \<and> (Option.bind (co_admin_email i) (normalize_optional_email env) \<noteq> None
     \<or> Option.bind (co_admin_phone i) normalize_optional_phone \<noteq> None))"
  shows "snd (create_organization env i \<sigma>) = \<sigma>"
  using assms by (cases \<sigma>) (auto simp: create_organization_def Let_def)

lemma step_create_organization: "setup_step \<sigma> (snd (create_organization env i \<sigma>))"
proof (cases "trim (co_name i) \<noteq> [] \<and> trim (co_admin_display_name i) \<noteq> []
    \<and> (Option.bind (co_admin_email i) (normalize_optional_email env) \<noteq> None
     \<or> Option.bind (co_admin_phone i) normalize_optional_phone \<noteq> None)")
  case True
  then obtain g l m \<tau> dto where "founding \<sigma> (co_admin_user i) g l m \<tau>"
    "create_organization env i \<sigma> = perform (ensure_ledger_setup env (lg_id l) \<tau>) id (\<lambda>_ \<sigma>. (Ok dto, \<sigma>))"
    using create_organization_shape by blast
  moreover have "setup_step \<tau> (snd (perform (ensure_ledger_setup env (lg_id l) \<tau>) id (\<lambda>_ \<sigma>. (Ok dto, \<sigma>))))"
    by (rule setup_step_perform [OF step_ensure_ledger_setup]) simp
  ultimately show ?thesis
    using setup_step_trans [of \<sigma> \<tau>] by (simp add: founding_def)
qed (simp add: create_organization_refused)

lemma step_find_or_create_user:
  assumes "find_or_create_user env name mail tel \<sigma> = (u, \<tau>)"
  shows "setup_step \<sigma> \<tau>"
proof -
  let ?u = "fst (user_new name mail tel (snd \<sigma>))"
  have "setup_step (fst \<sigma>, snd \<sigma>) ((fst \<sigma>)\<lparr>users := om_insert (usr_id ?u) ?u (users (fst \<sigma>))\<rparr>,
      snd (user_new name mail tel (snd \<sigma>)))"
    by (rule step_put_user) (simp_all add: user_new_def split_beta)
  then show ?thesis
    using assms by (auto simp: find_or_create_user_def split_beta split: option.splits)
qed

lemma step_set_role: "n < length (memberships s) \<Longrightarrow> setup_step (s, w) (set_role n role s, w)"
proof -
  assume n: "n < length (memberships s)"
  have "ms_id ` set ((memberships s)[n := (memberships s ! n)\<lparr>ms_role := role\<rparr>]) \<subseteq> ms_id ` set (memberships s)"
    using n set_update_subset_insert [of "memberships s" n] by fastforce
  then show ?thesis unfolding set_role_def by (rule setup_step_memberships)
qed

lemma step_add_member: "setup_step \<sigma> (snd (add_organization_member env i \<sigma>))"
proof -
  let ?name = "trim (am_display_name i)"
  let ?mail = "Option.bind (am_email i) (normalize_optional_email env)"
  let ?tel = "Option.bind (am_phone i) normalize_optional_phone"
  obtain u s w where u: "find_or_create_user env ?name ?mail ?tel \<sigma> = (u, s, w)"
    by (cases "find_or_create_user env ?name ?mail ?tel \<sigma>") auto
  let ?s = "s\<lparr>users := om_modify u (update_user ?name ?mail ?tel) (users s)\<rparr>"
  let ?k = "\<lambda>s w. case position (\<lambda>m. ms_organization m = am_organization i \<and> ms_user m = u) (memberships s) of
      Some n \<Rightarrow>
        if am_role i \<noteq> Owner \<and> last_owner s (am_organization i) n
        then (Err LastOwnerDenied, s, w)
        else let s = set_role n (am_role i) s in (Ok (membership_dto_of env s (memberships s ! n)), s, w)
    | None \<Rightarrow>
        let (m, w) = membership_new (am_organization i) u (am_role i) w;
            s = s\<lparr>memberships := memberships s @ [m]\<rparr>
        in (Ok (membership_dto_of env s m), s, w)"
  have k: "setup_step (s, w) (snd (?k s w))" for s w
    using step_new_membership [of "am_organization i" u "am_role i" w _ _ s]
    by (auto simp: Let_def split_beta intro!: step_set_role split: option.splits dest: position_Some)
  have "setup_step (?s, w) (snd (perform (ensure_personal_ledger_for_user env u ?name (?s, w)) id (\<lambda>_ (s, w). ?k s w)))"
  proof (rule setup_step_perform [OF step_ensure_personal_ledger])
    show "setup_step \<tau> (snd (case \<tau> of (s, w) \<Rightarrow> ?k s w))" for \<tau>
      using k [of "fst \<tau>" "snd \<tau>"] by (simp only: split_beta prod.collapse)
  qed
  from setup_step_trans [OF setup_step_trans [OF step_find_or_create_user [OF u] step_modify_user] this]
  show ?thesis
    using step_find_or_create_user [OF u]
    by (simp add: add_organization_member_def Let_def u)
qed

lemma step_update_role: "setup_step \<sigma> (snd (update_organization_member_role env i (fst \<sigma>)), snd \<sigma>)"
  by (cases \<sigma>) (auto simp: update_organization_member_role_def Let_def attempt_ok_or split: option.splits
      intro!: step_set_role dest: position_Some)

lemma step_remove_member: "setup_step \<sigma> (snd (remove_organization_member org m (fst \<sigma>)), snd \<sigma>)"
  by (cases \<sigma>) (auto simp: remove_organization_member_def Let_def attempt_ok_or split: option.splits
      intro!: setup_step_memberships dest: subsetD [OF set_remove_at])

lemma step_create_category: "setup_step \<sigma> (snd (create_category env i \<sigma>))"
  using step_new_category [of "fst \<sigma>" "snd \<sigma>" "cc_ledger i" "trim (cc_name i)" "cc_kind i"]
  by (simp add: create_category_def Let_def split_beta attempt_ok_or split: option.splits)

section \<open>The machine\<close>

lemma event_done_inv:
  assumes "event_done env u a k \<sigma> dto \<sigma>'" "app_inv \<sigma>"
  shows "app_inv \<sigma>'"
proof -
  obtain s w s' w' where \<sigma>: "\<sigma> = (s, w)" "\<sigma>' = (s', w')" by (cases \<sigma>; cases \<sigma>')
  obtain t l t' where e: "om_get (transactions s) k = Some t" "recorded s l u (act_name a) k t' s'" "world_le w w'"
    using assms(1) unfolding event_done_def \<sigma> fst_conv snd_conv by blast
  have "k \<in> om_dom (transactions s)" using e(1) by (rule om_get_in_dom)
  then have "used_ids s' = used_ids s"
    using recorded_frame [OF e(2)] by (auto simp: used_ids_def)
  then show ?thesis
    using event_done_books [OF assms(1) [unfolded \<sigma>]] assms(2) e(3) by (simp add: app_inv_def \<sigma> world_le_def)
qed

lemma created_inv:
  assumes "created env i \<sigma> dto \<sigma>'" "app_inv \<sigma>" "env_ok env"
  shows "app_inv \<sigma>'"
proof -
  obtain s w s' w' where \<sigma>: "\<sigma> = (s, w)" "\<sigma>' = (s', w')" by (cases \<sigma>; cases \<sigma>')
  obtain l t where c: "fresh_draw w (tx_id t) w'"
    "if lg_kind l = OrganizationPublic then recorded s l (ct_actor i) (creation_act t) (tx_id t) t s'
     else s' = s\<lparr>transactions := om_insert (tx_id t) t (transactions s)\<rparr>"
    using assms(1) unfolding created_def \<sigma> fst_conv snd_conv by blast
  have "used_ids s' = insert (tx_id t) (used_ids s)"
    using c(2) by (auto simp: used_ids_def recorded_frame split: if_splits)
  then show ?thesis
    using created_books [OF assms(1) [unfolded \<sigma>]] assms(2,3) c(1) by (simp add: app_inv_def \<sigma> fresh_draw_def)
qed

lemma app_inv_world: "app_inv (s, w) \<Longrightarrow> world_le w w' \<Longrightarrow> app_inv (s, w')"
  by (simp add: app_inv_def world_le_def)

text \<open>A call that either makes an event or leaves the state alone keeps the invariant.\<close>

lemma event_call_inv:
  assumes "\<And>dto \<sigma>'. x = (Ok dto, \<sigma>') \<Longrightarrow> event_done env u a k \<sigma> dto \<sigma>'"
    "\<And>e \<sigma>'. x = (Err e, \<sigma>') \<Longrightarrow> \<sigma>' = \<sigma>" "\<And>p. fst x \<noteq> Panic p" "app_inv \<sigma>"
  shows "app_inv (snd x)"
proof -
  obtain r \<tau> where x: "x = (r, \<tau>)" by (cases x)
  then show ?thesis
    using assms event_done_inv by (cases r) auto
qed

lemma create_transaction_inv:
  assumes "app_inv \<sigma>" "env_ok env"
  shows "app_inv (snd (create_transaction env i \<sigma>))"
proof -
  obtain r \<tau> where x: "create_transaction env i \<sigma> = (r, \<tau>)" by (cases "create_transaction env i \<sigma>")
  show ?thesis
  proof (cases r)
    case (Ok dto)
    then have "\<tau> = \<sigma> \<or> created env i \<sigma> dto \<tau>"
      using create_transaction_created [of env i \<sigma> dto \<tau>] x by blast
    then show ?thesis
      using x assms created_inv [of env i \<sigma> dto \<tau>] by (metis snd_conv)
  next
    case (Err e)
    then have "fst \<tau> = fst \<sigma>" "world_le (snd \<sigma>) (snd \<tau>)"
      using create_transaction_Err x by auto
    then show ?thesis using x app_inv_world [of "fst \<sigma>" "snd \<sigma>" "snd \<tau>"] assms(1) by (metis prod.collapse snd_conv)
  next
    case (Panic p)
    then show ?thesis using create_transaction_no_panic [of env i \<sigma> p] x by simp
  qed
qed

lemma app_step_inv:
  assumes "app_inv \<sigma>" "env_ok env"
  shows "app_inv (app_step env \<sigma> c)"
proof (cases c)
  case (EnsureIdentityCmd i)
  have "setup_inv \<sigma>" using assms(1) by (auto simp: app_inv_def setup_inv_def books_maps)
  then show ?thesis
    using EnsureIdentityCmd assms(1) setup_step_inv [OF step_ensure_identity] by simp
next
  case (CreateTransactionCmd i)
  then show ?thesis using assms create_transaction_inv by simp
next
  case (DecideApprovalCmd i)
  show ?thesis
    unfolding DecideApprovalCmd app_step.simps
    by (rule event_call_inv [OF decide_approval_event decide_approval_Err transaction_ops_no_panic(1) assms(1)])
next
  case (VoidTransactionCmd i)
  show ?thesis
    unfolding VoidTransactionCmd app_step.simps
    by (rule event_call_inv [OF void_transaction_event void_transaction_Err transaction_ops_no_panic(2) assms(1)])
next
  case (MarkPaidCmd i)
  show ?thesis
    unfolding MarkPaidCmd app_step.simps
    by (rule event_call_inv [OF mark_transaction_paid_event mark_transaction_paid_Err transaction_ops_no_panic(3) assms(1)])
next
  case (ConfirmReceiptCmd i)
  show ?thesis
    unfolding ConfirmReceiptCmd app_step.simps
    by (rule event_call_inv [OF confirm_transaction_receipt_event confirm_transaction_receipt_Err
        transaction_ops_no_panic(4) assms(1)])
qed (simp_all add: assms setup_step_inv [OF step_create_category] setup_step_inv [OF step_create_organization]
    setup_step_inv [OF step_add_member] setup_step_inv [OF step_update_role] setup_step_inv [OF step_remove_member])

lemma uninitialized_inv: "inj (ids w) \<Longrightarrow> app_inv (uninitialized, w)"
  by (auto simp: app_inv_def books_ok_def maps_ok_def uninitialized_def used_ids_def fresh_ids_def)

section \<open>What a history keeps\<close>

text \<open>A transaction keeps its identity and only moves forward through its phases.\<close>

definition tx_le :: "transaction \<Rightarrow> transaction \<Rightarrow> bool" where
  "tx_le t t' \<longleftrightarrow>
     tx_id t' = tx_id t \<and> tx_ledger t' = tx_ledger t \<and> tx_account t' = tx_account t
   \<and> tx_category t' = tx_category t \<and> tx_kind t' = tx_kind t \<and> tx_amount t' = tx_amount t
   \<and> tx_created_by t' = tx_created_by t \<and> client_mutation_id t' = client_mutation_id t
   \<and> occurred_at t' = occurred_at t \<and> phase_step\<^sup>*\<^sup>* (phase t) (phase t')"

definition app_le :: "app_state \<Rightarrow> app_state \<Rightarrow> bool" where
  "app_le \<sigma> \<sigma>' \<longleftrightarrow>
     (\<exists>new. audit_logs (fst \<sigma>') = audit_logs (fst \<sigma>) @ new)
   \<and> om_extends tx_le (transactions (fst \<sigma>)) (transactions (fst \<sigma>'))
   \<and> om_extends same_ledger (ledgers (fst \<sigma>)) (ledgers (fst \<sigma>'))"

lemma tx_le_refl [simp]: "tx_le t t"
  by (simp add: tx_le_def)

lemma tx_le_trans: "tx_le t u \<Longrightarrow> tx_le u v \<Longrightarrow> tx_le t v"
  by (auto simp: tx_le_def)

lemma app_le_refl [simp]: "app_le \<sigma> \<sigma>"
  by (simp add: app_le_def)

lemma app_le_trans: "app_le \<sigma> \<tau> \<Longrightarrow> app_le \<tau> \<upsilon> \<Longrightarrow> app_le \<sigma> \<upsilon>"
  using om_extends_trans [of tx_le, OF tx_le_trans] om_extends_trans [of same_ledger, OF same_ledger_trans]
  by (fastforce simp: app_le_def)

lemma tx_event_le: "tx_event l u a t t' \<Longrightarrow> tx_ok s l t \<Longrightarrow> tx_le t t'"
  using tx_event_fields(2) [of l u a t t'] tx_event_frame [of l u a t t']
  by (auto simp: tx_le_def tx_ok_def same_subject_def)

lemma event_done_le:
  assumes "event_done env u a k \<sigma> dto \<sigma>'" "app_inv \<sigma>"
  shows "app_le \<sigma> \<sigma>'"
proof -
  obtain t l t' where e: "om_get (transactions (fst \<sigma>)) k = Some t" "om_get (ledgers (fst \<sigma>)) (tx_ledger t) = Some l"
    "tx_event l u a t t'" "recorded (fst \<sigma>) l u (act_name a) k t' (fst \<sigma>')"
    using assms(1) unfolding event_done_def by blast
  have "books_ok (fst \<sigma>)" using assms(2) by (simp add: app_inv_def)
  from books_tx [OF this e(1)] have "tx_ok (fst \<sigma>) l t" using e(2) by auto
  from tx_event_le [OF e(3) this] have "tx_le t t'" .
  with e(1) recorded_frame [OF e(4)] show ?thesis
    by (auto simp: app_le_def intro: om_extends_replace)
qed

lemma created_le:
  assumes "created env i \<sigma> dto \<sigma>'" "app_inv \<sigma>"
  shows "app_le \<sigma> \<sigma>'"
proof -
  obtain l t where c: "fresh_draw (snd \<sigma>) (tx_id t) (snd \<sigma>')"
    "if lg_kind l = OrganizationPublic then recorded (fst \<sigma>) l (ct_actor i) (creation_act t) (tx_id t) t (fst \<sigma>')
     else fst \<sigma>' = (fst \<sigma>)\<lparr>transactions := om_insert (tx_id t) t (transactions (fst \<sigma>))\<rparr>"
    using assms(1) unfolding created_def by blast
  have "om_get (transactions (fst \<sigma>)) (tx_id t) = None"
    using c(1) assms(2) by (auto simp: app_inv_def fresh_draw_def used_ids_def intro: om_get_notin_dom)
  then have "om_extends tx_le (transactions (fst \<sigma>)) (om_insert (tx_id t) t (transactions (fst \<sigma>)))"
    by (intro om_extends_new) simp_all
  then show ?thesis
    using c(2) by (auto simp: app_le_def recorded_frame split: if_splits dest: recorded_frame(8))
qed

lemma setup_step_le: "setup_step \<sigma> \<sigma>' \<Longrightarrow> app_inv \<sigma> \<Longrightarrow> app_le \<sigma> \<sigma>'"
  by (auto simp: setup_step_def setup_inv_def app_inv_def books_maps app_le_def books_extend_def)

lemma event_call_le:
  assumes "\<And>dto \<sigma>'. x = (Ok dto, \<sigma>') \<Longrightarrow> event_done env u a k \<sigma> dto \<sigma>'"
    "\<And>e \<sigma>'. x = (Err e, \<sigma>') \<Longrightarrow> \<sigma>' = \<sigma>" "\<And>p. fst x \<noteq> Panic p" "app_inv \<sigma>"
  shows "app_le \<sigma> (snd x)"
proof -
  obtain r \<tau> where x: "x = (r, \<tau>)" by (cases x)
  then show ?thesis
    using assms event_done_le by (cases r) auto
qed

lemma create_transaction_le:
  assumes "app_inv \<sigma>"
  shows "app_le \<sigma> (snd (create_transaction env i \<sigma>))"
proof -
  obtain r \<tau> where x: "create_transaction env i \<sigma> = (r, \<tau>)" by (cases "create_transaction env i \<sigma>")
  show ?thesis
  proof (cases r)
    case (Ok dto)
    then have "\<tau> = \<sigma> \<or> created env i \<sigma> dto \<tau>"
      using create_transaction_created [of env i \<sigma> dto \<tau>] x by blast
    then show ?thesis
      using x assms created_le [of env i \<sigma> dto \<tau>] by (metis app_le_refl snd_conv)
  next
    case (Err e)
    then have "fst \<tau> = fst \<sigma>" using create_transaction_Err x by auto
    then show ?thesis using x by (simp add: app_le_def)
  next
    case (Panic p)
    then show ?thesis using create_transaction_no_panic [of env i \<sigma> p] x by simp
  qed
qed

lemma app_step_le:
  assumes "app_inv \<sigma>"
  shows "app_le \<sigma> (app_step env \<sigma> c)"
proof (cases c)
  case (EnsureIdentityCmd i)
  have "setup_inv \<sigma>" using assms(1) by (auto simp: app_inv_def setup_inv_def books_maps)
  then show ?thesis
    using EnsureIdentityCmd assms setup_step_le [OF step_ensure_identity] by simp
next
  case (CreateTransactionCmd i)
  then show ?thesis using assms create_transaction_le by simp
next
  case (DecideApprovalCmd i)
  show ?thesis
    unfolding DecideApprovalCmd app_step.simps
    by (rule event_call_le [OF decide_approval_event decide_approval_Err transaction_ops_no_panic(1) assms])
next
  case (VoidTransactionCmd i)
  show ?thesis
    unfolding VoidTransactionCmd app_step.simps
    by (rule event_call_le [OF void_transaction_event void_transaction_Err transaction_ops_no_panic(2) assms])
next
  case (MarkPaidCmd i)
  show ?thesis
    unfolding MarkPaidCmd app_step.simps
    by (rule event_call_le [OF mark_transaction_paid_event mark_transaction_paid_Err transaction_ops_no_panic(3) assms])
next
  case (ConfirmReceiptCmd i)
  show ?thesis
    unfolding ConfirmReceiptCmd app_step.simps
    by (rule event_call_le [OF confirm_transaction_receipt_event confirm_transaction_receipt_Err
        transaction_ops_no_panic(4) assms])
qed (simp_all add: assms setup_step_le [OF step_create_category] setup_step_le [OF step_create_organization]
    setup_step_le [OF step_add_member] setup_step_le [OF step_update_role] setup_step_le [OF step_remove_member])

interpretation app: forward_machine "app_step env" "\<lambda>\<sigma>. app_inv \<sigma> \<and> env_ok env" "\<lambda>_. True" app_le for env
  by unfold_locales (auto intro: app_step_inv app_step_le app_le_trans)

end
