(* ===== verification/Members.thy ===== *)
theory Members
  imports AppMachine
begin

text \<open>
  The memberships of the organizations: every organization keeps an owner, a user holds at most one
  role in it, and a membership belongs to an organization that exists. The machine contract is
  interpreted on this invariant too.
\<close>

section \<open>What leaves the memberships alone\<close>

definition staff :: "app_ledger_service \<Rightarrow> membership list \<times> (uuid, organization) ord_map" where
  "staff s = (memberships s, organizations s)"

lemma staff_eq: "staff s = staff s' \<longleftrightarrow> memberships s = memberships s' \<and> organizations s = organizations s'"
  by (simp add: staff_def)

lemma staff_fields [simp]:
  "staff (s\<lparr>users := us\<rparr>) = staff s" "staff (s\<lparr>ledgers := ls\<rparr>) = staff s" "staff (s\<lparr>accounts := as\<rparr>) = staff s"
  "staff (s\<lparr>categories := cs\<rparr>) = staff s" "staff (s\<lparr>transactions := ts\<rparr>) = staff s"
  "staff (s\<lparr>audit_logs := ls'\<rparr>) = staff s" "staff (s\<lparr>current_user_id := u\<rparr>) = staff s"
  by (simp_all add: staff_def)

lemma staff_perform:
  assumes "staff (fst (snd x)) = st" "\<And>a \<tau>. staff (fst \<tau>) = st \<Longrightarrow> staff (fst (snd (k a \<tau>))) = st"
  shows "staff (fst (snd (perform x conv k))) = st"
  using assms by (cases x; cases "fst x") auto

lemma staff_ensure_account [simp]: "staff (fst (snd (ensure_account env l cur name kind \<sigma>))) = staff (fst \<sigma>)"
  by (cases "money_new (to_uppercase env) 0 cur")
    (auto simp: ensure_account_def split_beta split: option.splits)

lemma staff_ensure_accounts [simp]: "staff (fst (snd (ensure_accounts env l cur ps \<sigma>))) = staff (fst \<sigma>)"
  by (induction env l cur ps \<sigma> rule: ensure_accounts.induct) (auto intro!: staff_perform)

lemma staff_ensure_category [simp]: "staff (fst (ensure_category l e \<sigma>)) = staff (fst \<sigma>)"
  by (auto simp: ensure_category_def split_beta)

lemma staff_fold: "(\<And>x \<sigma>. staff (fst (f x \<sigma>)) = staff (fst \<sigma>)) \<Longrightarrow> staff (fst (fold f xs \<sigma>)) = staff (fst \<sigma>)"
  by (induction xs arbitrary: \<sigma>) simp_all

lemma staff_ensure_categories [simp]:
  "staff (fst (ensure_default_categories_for_ledger l \<sigma>)) = staff (fst \<sigma>)"
  unfolding ensure_default_categories_for_ledger_def by (rule staff_fold) simp

lemma staff_ensure_ledger_setup [simp]: "staff (fst (snd (ensure_ledger_setup env l \<sigma>))) = staff (fst \<sigma>)"
  by (auto simp: ensure_ledger_setup_def ensure_standard_accounts_for_ledger_def intro!: staff_perform)

lemma staff_ensure_personal_ledger [simp]:
  "staff (fst (snd (ensure_personal_ledger_for_user env u name \<sigma>))) = staff (fst \<sigma>)"
  by (simp add: ensure_personal_ledger_for_user_def split_beta)

lemma staff_rename [simp]: "staff (rename_personal_ledger_for_user u name s) = staff s"
  by (simp add: rename_personal_ledger_for_user_def)

lemma staff_find_or_create_user [simp]: "staff (fst (snd (find_or_create_user env name mail tel \<sigma>))) = staff (fst \<sigma>)"
  by (auto simp: find_or_create_user_def split_beta split: option.splits)

lemma staff_ensure_identity [simp]: "staff (fst (snd (ensure_user_identity env i \<sigma>))) = staff (fst \<sigma>)"
  by (auto simp: ensure_user_identity_def Let_def split_beta intro!: staff_perform split: option.splits)

lemma staff_create_category [simp]: "staff (fst (snd (create_category env i \<sigma>))) = staff (fst \<sigma>)"
  by (auto simp: create_category_def Let_def split_beta attempt_ok_or split: option.splits)

lemma staff_event: "event_done env u a k \<sigma> dto \<sigma>' \<Longrightarrow> staff (fst \<sigma>') = staff (fst \<sigma>)"
  unfolding event_done_def staff_def by (auto simp: recorded_frame)

lemma staff_created: "created env i \<sigma> dto \<sigma>' \<Longrightarrow> staff (fst \<sigma>') = staff (fst \<sigma>)"
  unfolding created_def staff_def by (auto simp: recorded_frame split: if_splits)

section \<open>How the memberships change\<close>

definition owners_in :: "membership list \<Rightarrow> uuid \<Rightarrow> nat" where
  "owners_in ms org = length (filter (\<lambda>m. ms_organization m = org \<and> ms_role m = Owner) ms)"

lemma owner_count_in: "owner_count s org = owners_in (memberships s) org"
  by (simp add: owner_count_def owners_in_def)

text \<open>
  The only five things a command does to the staff: nothing, founding an organization with its owner,
  a new member, a new role, a departure. The last two never take the last owner.
\<close>

inductive staff_change ::
  "membership list \<times> (uuid, organization) ord_map \<Rightarrow> membership list \<times> (uuid, organization) ord_map \<Rightarrow> bool" where
  stay: "staff_change st st"
| found: "org_id g \<notin> om_dom os \<Longrightarrow> ms_id m \<notin> ms_id ` set ms \<Longrightarrow> ms_organization m = org_id g \<Longrightarrow> ms_role m = Owner \<Longrightarrow>
    staff_change (ms, os) (ms @ [m], om_insert (org_id g) g os)"
| join: "ms_organization m \<in> om_dom os \<Longrightarrow> ms_id m \<notin> ms_id ` set ms \<Longrightarrow>
    \<forall>x \<in> set ms. \<not> (ms_organization x = ms_organization m \<and> ms_user x = ms_user m) \<Longrightarrow>
    staff_change (ms, os) (ms @ [m], os)"
| appoint: "n < length ms \<Longrightarrow>
    role = Owner \<or> ms_role (ms ! n) \<noteq> Owner \<or> 1 < owners_in ms (ms_organization (ms ! n)) \<Longrightarrow>
    staff_change (ms, os) (ms[n := (ms ! n)\<lparr>ms_role := role\<rparr>], os)"
| leave: "n < length ms \<Longrightarrow> ms_role (ms ! n) \<noteq> Owner \<or> 1 < owners_in ms (ms_organization (ms ! n)) \<Longrightarrow>
    staff_change (ms, os) (remove_at n ms, os)"

definition staff_ok :: "membership list \<times> (uuid, organization) ord_map \<Rightarrow> bool" where
  "staff_ok st \<longleftrightarrow>
     distinct (map (\<lambda>m. (ms_organization m, ms_user m)) (fst st))
   \<and> distinct (map ms_id (fst st))
   \<and> (\<forall>m \<in> set (fst st). ms_organization m \<in> om_dom (snd st))
   \<and> (\<forall>org \<in> om_dom (snd st). 0 < owners_in (fst st) org)"

lemma owners_append [simp]:
  "owners_in (ms @ ns) org = owners_in ms org + owners_in ns org"
  by (simp add: owners_in_def)

lemma owners_Cons [simp]:
  "owners_in (m # ms) org = (if ms_organization m = org \<and> ms_role m = Owner then 1 else 0) + owners_in ms org"
  by (simp add: owners_in_def)

lemma owners_Nil [simp]: "owners_in [] org = 0"
  by (simp add: owners_in_def)

text \<open>A list split at an index, as the two index operations see it.\<close>

lemma owners_split: "n < length ms \<Longrightarrow> owners_in ms org =
    owners_in (take n ms) org + owners_in [ms ! n] org + owners_in (drop (Suc n) ms) org"
  by (subst remove_at_split [of n ms]) simp_all

lemma owners_update: "n < length ms \<Longrightarrow> owners_in (ms[n := x]) org + owners_in [ms ! n] org = owners_in ms org + owners_in [x] org"
  by (simp add: owners_split [of n ms org] owners_split [of n "ms[n := x]" org])

lemma owners_remove: "n < length ms \<Longrightarrow> owners_in (remove_at n ms) org + owners_in [ms ! n] org = owners_in ms org"
  by (simp add: owners_split [of n ms org] remove_at_def)

lemma map_update_same: "n < length ms \<Longrightarrow> f x = f (ms ! n) \<Longrightarrow> map f (ms[n := x]) = map f ms"
  by (simp add: list_eq_iff_nth_eq nth_list_update)

lemma distinct_remove_at: "distinct (map f xs) \<Longrightarrow> distinct (map f (remove_at n xs))"
  using distinct_take [of "map f xs" n] distinct_drop [of "map f xs" "Suc n"]
    set_take_disj_set_drop_if_distinct [of "map f xs" n "Suc n"]
  by (simp add: remove_at_def take_map drop_map)

lemma staff_change_ok:
  assumes "staff_change st st'" "staff_ok st"
  shows "staff_ok st'"
  using assms
proof cases
  case (found g os m ms)
  then show ?thesis using assms(2) by (fastforce simp: staff_ok_def)
next
  case (join m os ms)
  then show ?thesis using assms(2) by (fastforce simp: staff_ok_def)
next
  case (appoint n ms role os)
  let ?m = "(ms ! n)\<lparr>ms_role := role\<rparr>"
  have o: "0 < owners_in (ms[n := ?m]) org" if "0 < owners_in ms org" for org
  proof (cases "ms_organization (ms ! n) = org \<and> ms_role (ms ! n) = Owner")
    case True
    with owners_update [OF appoint(3), of ?m org] appoint(4) that show ?thesis by (auto split: if_splits)
  next
    case False
    with owners_update [OF appoint(3), of ?m org] that show ?thesis by simp
  qed
  have "set (ms[n := ?m]) \<subseteq> insert ?m (set ms)" by (rule set_update_subset_insert)
  moreover have "ms ! n \<in> set ms" using appoint(3) by simp
  ultimately have d: "\<forall>m \<in> set (ms[n := ?m]). ms_organization m \<in> om_dom os"
    using assms(2) appoint(1) unfolding staff_ok_def by fastforce
  show ?thesis
    using assms(2) appoint(1-3) o d by (simp add: staff_ok_def map_update_same)
next
  case (leave n ms os)
  have o: "0 < owners_in (remove_at n ms) org" if "0 < owners_in ms org" for org
    using owners_remove [OF leave(3), of org] leave(4) that
    by (cases "ms_organization (ms ! n) = org \<and> ms_role (ms ! n) = Owner") auto
  show ?thesis
    using assms(2) leave(1-2) o set_remove_at [of n ms] unfolding staff_ok_def by (auto intro: distinct_remove_at)
qed simp

section \<open>Every command makes such a change\<close>

lemma staff_change_refl: "staff s' = staff s \<Longrightarrow> staff_change (staff s) (staff s')"
  by (simp add: staff_change.stay)

lemma founding_staff:
  assumes "founding \<sigma> u g l m \<tau>" "app_inv \<sigma>"
  shows "staff_change (staff (fst \<sigma>)) (staff (fst \<tau>))" "om_get (organizations (fst \<sigma>)) (org_id g) = None"
    "ms_id m \<notin> ms_id ` set (memberships (fst \<sigma>))"
proof -
  have "org_id g \<notin> used_ids (fst \<sigma>)" "ms_id m \<notin> used_ids (fst \<sigma>)"
    using assms by (simp_all add: founding_def fresh_draw_def app_inv_def)
  then have f: "org_id g \<notin> om_dom (organizations (fst \<sigma>))" "ms_id m \<notin> ms_id ` set (memberships (fst \<sigma>))"
    by (simp_all add: used_ids_def)
  then show "om_get (organizations (fst \<sigma>)) (org_id g) = None" "ms_id m \<notin> ms_id ` set (memberships (fst \<sigma>))"
    by (simp_all add: om_get_notin_dom)
  show "staff_change (staff (fst \<sigma>)) (staff (fst \<tau>))"
    using staff_change.found [OF f] assms(1) by (simp add: founding_def staff_def)
qed

lemma create_organization_staff:
  assumes "app_inv \<sigma>"
  shows "staff_change (staff (fst \<sigma>)) (staff (fst (snd (create_organization env i \<sigma>))))"
proof (cases "trim (co_name i) \<noteq> [] \<and> trim (co_admin_display_name i) \<noteq> []
    \<and> (Option.bind (co_admin_email i) (normalize_optional_email env) \<noteq> None
     \<or> Option.bind (co_admin_phone i) normalize_optional_phone \<noteq> None)")
  case True
  then obtain g l m \<tau> dto where f: "founding \<sigma> (co_admin_user i) g l m \<tau>"
    "create_organization env i \<sigma> = perform (ensure_ledger_setup env (lg_id l) \<tau>) id (\<lambda>_ \<sigma>. (Ok dto, \<sigma>))"
    using create_organization_shape by blast
  have "staff (fst (snd (perform (ensure_ledger_setup env (lg_id l) \<tau>) id (\<lambda>_ \<sigma>. (Ok dto, \<sigma>))))) = staff (fst \<tau>)"
    by (rule staff_perform) simp_all
  then show ?thesis using founding_staff(1) [OF f(1) assms] f(2) by simp
qed (simp add: create_organization_refused staff_change.stay)

lemma set_role_staff:
  assumes "n < length (memberships s)"
    "ms_role (memberships s ! n) \<noteq> Owner \<or> role = Owner \<or> 1 < owner_count s (ms_organization (memberships s ! n))"
  shows "staff_change (staff s) (staff (set_role n role s))"
  using assms staff_change.appoint [of n "memberships s" role "organizations s"]
  by (auto simp: staff_def set_role_def owner_count_in)

lemma last_owner_iff: "\<not> last_owner s org n \<longleftrightarrow> ms_role (memberships s ! n) \<noteq> Owner \<or> 1 < owner_count s org"
  by (auto simp: last_owner_def)

lemma update_role_staff: "staff_change (staff s) (staff (snd (update_organization_member_role env i s)))"
proof (cases "position (\<lambda>m. ms_id m = ur_membership i \<and> ms_organization m = ur_organization i) (memberships s)")
  case (Some n)
  from position_Some [OF Some] set_role_staff [of n s "ur_role i"] show ?thesis
    by (auto simp: update_organization_member_role_def Let_def Some last_owner_iff staff_change.stay)
qed (simp add: update_organization_member_role_def staff_change.stay)

lemma remove_member_staff: "staff_change (staff s) (staff (snd (remove_organization_member org mid s)))"
proof (cases "position (\<lambda>m. ms_id m = mid \<and> ms_organization m = org) (memberships s)")
  case (Some n)
  from position_Some [OF Some] staff_change.leave [of n "memberships s" "organizations s"] show ?thesis
    by (auto simp: remove_organization_member_def Some last_owner_iff staff_change.stay staff_def owner_count_in)
qed (simp add: remove_organization_member_def staff_change.stay)

lemma add_member_staff:
  assumes "app_inv \<sigma>"
  shows "staff_change (staff (fst \<sigma>)) (staff (fst (snd (add_organization_member env i \<sigma>))))"
proof -
  let ?name = "trim (am_display_name i)"
  let ?mail = "Option.bind (am_email i) (normalize_optional_email env)"
  let ?tel = "Option.bind (am_phone i) normalize_optional_phone"
  obtain u s w where u: "find_or_create_user env ?name ?mail ?tel \<sigma> = (u, s, w)"
    by (cases "find_or_create_user env ?name ?mail ?tel \<sigma>") auto
  have st: "staff s = staff (fst \<sigma>)"
    using staff_find_or_create_user [of env ?name ?mail ?tel \<sigma>] by (simp add: u)
  let ?s = "s\<lparr>users := om_modify u (update_user ?name ?mail ?tel) (users s)\<rparr>"
  obtain r s1 w1 where p: "ensure_personal_ledger_for_user env u ?name (?s, w) = (r, s1, w1)"
    by (cases "ensure_personal_ledger_for_user env u ?name (?s, w)") auto
  have st1: "staff s1 = staff (fst \<sigma>)"
    using staff_ensure_personal_ledger [of env u ?name "(?s, w)"] st by (simp add: p)
  have "setup_step \<sigma> (s1, w1)"
    using setup_step_trans [OF setup_step_trans [OF step_find_or_create_user [OF u] step_modify_user]
        step_ensure_personal_ledger] p by (metis snd_conv)
  then have "app_inv (s1, w1)" using assms by (rule setup_step_inv)
  then have "fst (new_v4 w1) \<notin> used_ids s1" using fresh_new_v4(1) by (auto simp: app_inv_def)
  then have fresh: "ms_id (fst (membership_new (am_organization i) u (am_role i) w1)) \<notin> ms_id ` set (memberships s1)"
    by (simp add: membership_new_def split_beta used_ids_def)
  show ?thesis
  proof (cases "om_contains (organizations (fst \<sigma>)) (am_organization i)")
    case False
    then show ?thesis by (simp add: add_organization_member_def staff_change.stay)
  next
    case True
    then have org: "am_organization i \<in> om_dom (organizations s1)"
      using st1 by (simp add: staff_eq om_dom_def om_contains_def split: option.splits)
    let ?p = "\<lambda>m. ms_organization m = am_organization i \<and> ms_user m = u"
    have keep: "staff_change (staff (fst \<sigma>)) (staff x)" if "staff x = staff (fst \<sigma>)" for x
      using that by (simp add: staff_change.stay)
    show ?thesis
    proof (cases "position ?p (memberships s1)")
      case (Some n)
      from position_Some [OF Some] set_role_staff [of n s1 "am_role i"] show ?thesis
        using True keep st st1
        by (cases r) (auto simp: add_organization_member_def Let_def u p Some last_owner_iff)
    next
      case None
      from staff_change.join [OF _ fresh, of "organizations s1"] None org
      have "staff_change (staff s1) (staff (s1\<lparr>memberships := memberships s1
          @ [fst (membership_new (am_organization i) u (am_role i) w1)]\<rparr>))"
        by (simp add: staff_def position_None membership_new_def split_beta)
      then show ?thesis
        using True keep st st1
        by (cases r) (auto simp: add_organization_member_def Let_def u p None split_beta)
    qed
  qed
qed

section \<open>The machine\<close>

lemma event_call_staff:
  assumes "\<And>dto \<sigma>'. x = (Ok dto, \<sigma>') \<Longrightarrow> event_done env u a k \<sigma> dto \<sigma>'"
    "\<And>e \<sigma>'. x = (Err e, \<sigma>') \<Longrightarrow> \<sigma>' = \<sigma>" "\<And>p. fst x \<noteq> Panic p"
  shows "staff (fst (snd x)) = staff (fst \<sigma>)"
proof -
  obtain r \<tau> where x: "x = (r, \<tau>)" by (cases x)
  then show ?thesis
    using assms staff_event by (cases r) auto
qed

lemma staff_create_transaction: "staff (fst (snd (create_transaction env i \<sigma>))) = staff (fst \<sigma>)"
proof -
  obtain r \<tau> where x: "create_transaction env i \<sigma> = (r, \<tau>)" by (cases "create_transaction env i \<sigma>")
  show ?thesis
  proof (cases r)
    case (Ok dto)
    then show ?thesis using create_transaction_created [of env i \<sigma> dto \<tau>] x staff_created [of env i \<sigma> dto \<tau>] by auto
  next
    case (Err e)
    then show ?thesis using create_transaction_Err x by auto
  next
    case (Panic p)
    then show ?thesis using create_transaction_no_panic [of env i \<sigma> p] x by simp
  qed
qed

lemma app_step_staff:
  assumes "app_inv \<sigma>"
  shows "staff_change (staff (fst \<sigma>)) (staff (fst (app_step env \<sigma> c)))"
proof (cases c)
  case (DecideApprovalCmd i)
  show ?thesis unfolding DecideApprovalCmd app_step.simps
    by (rule staff_change_refl, rule event_call_staff [OF decide_approval_event decide_approval_Err transaction_ops_no_panic(1)])
next
  case (VoidTransactionCmd i)
  show ?thesis unfolding VoidTransactionCmd app_step.simps
    by (rule staff_change_refl, rule event_call_staff [OF void_transaction_event void_transaction_Err transaction_ops_no_panic(2)])
next
  case (MarkPaidCmd i)
  show ?thesis unfolding MarkPaidCmd app_step.simps
    by (rule staff_change_refl, rule event_call_staff [OF mark_transaction_paid_event mark_transaction_paid_Err transaction_ops_no_panic(3)])
next
  case (ConfirmReceiptCmd i)
  show ?thesis unfolding ConfirmReceiptCmd app_step.simps
    by (rule staff_change_refl, rule event_call_staff [OF confirm_transaction_receipt_event
        confirm_transaction_receipt_Err transaction_ops_no_panic(4)])
qed (simp_all add: staff_change_refl staff_create_transaction create_organization_staff [OF assms]
    add_member_staff [OF assms] update_role_staff remove_member_staff)

definition members_inv :: "env \<Rightarrow> app_state \<Rightarrow> bool" where
  "members_inv env \<sigma> \<longleftrightarrow> app_inv \<sigma> \<and> env_ok env \<and> staff_ok (staff (fst \<sigma>))"

interpretation members: invariant_machine "app_step env" "members_inv env" "\<lambda>_. True" for env
  by unfold_locales (auto simp: members_inv_def intro: app_step_inv staff_change_ok [OF app_step_staff])

end
