(* ===== verification/Balances.thy ===== *)
theory Balances
  imports AppMachine
begin

text \<open>
  The balance of an account (\<open>account_balance_minor\<close>) as a sum of contributions, what each operation
  does to it, and its exactness: the wrapping \<open>i64\<close> sum is the true sum whenever that one fits.
\<close>

definition contribution :: "financial_account \<Rightarrow> transaction \<Rightarrow> i64" where
  "contribution a t =
     (if tx_account t = fa_id a \<and> tx_deleted_at t = None \<and> transaction_affects_balance t
      then signed_amount t else 0)"

lemma balance_contributions:
  "account_balance_minor s a =
     amount_minor (opening_balance a) + sum_list (map (contribution a) (om_values (transactions s)))"
  by (simp add: account_balance_minor_def contribution_def [abs_def] sum_list_map_filter')

lemma balance_replace:
  assumes "om_get (transactions s) k = Some t" "transactions s' = om_insert k t' (transactions s)"
  shows "account_balance_minor s' a = account_balance_minor s a - contribution a t + contribution a t'"
  using om_sum_insert [of "contribution a" k t' "transactions s"] assms
  by (simp add: balance_contributions algebra_simps)

lemma balance_add:
  assumes "om_get (transactions s) k = None" "transactions s' = om_insert k t' (transactions s)"
  shows "account_balance_minor s' a = account_balance_minor s a + contribution a t'"
  using om_sum_insert [of "contribution a" k t' "transactions s"] assms
  by (simp add: balance_contributions algebra_simps)

text \<open>Money moves when an income is approved, when an expense is paid, and back when either is voided.\<close>

definition event_delta :: "tx_act \<Rightarrow> transaction \<Rightarrow> i64" where
  "event_delta act t =
     (case act of
        ActApprove \<Rightarrow> if tx_kind t = Income then amount_minor (tx_amount t) else 0
      | ActReject \<Rightarrow> 0
      | ActPay \<Rightarrow> - amount_minor (tx_amount t)
      | ActReceive \<Rightarrow> 0
      | ActVoid \<Rightarrow> if phase t = ToPay then 0 else - signed_amount t)"

lemma same_signed_amount: "same_subject t t' \<Longrightarrow> signed_amount t' = signed_amount t"
  by (cases "tx_kind t") (simp_all add: same_subject_def signed_amount_def)

lemma signed_amount_kind:
  "tx_kind t = Income \<Longrightarrow> signed_amount t = amount_minor (tx_amount t)"
  "tx_kind t = Expense \<Longrightarrow> signed_amount t = - amount_minor (tx_amount t)"
  by (simp_all add: signed_amount_def)

text \<open>The contribution in terms of the phase, for a transaction of a public ledger.\<close>

lemma contribution_phase:
  assumes "fields_ok l t" "lg_kind l = OrganizationPublic" "tx_kind t \<noteq> Transfer" "tx_deleted_at t = None"
  shows "contribution a t =
    (if tx_account t = fa_id a \<and> phase t \<in> {Settled, Paid, Closed} then signed_amount t else 0)"
  using assms
  by (cases "tx_kind t"; cases "approval_state t"; cases "payment_state t")
    (simp_all add: contribution_def phase_def transaction_affects_balance_def fields_ok_def)

lemma event_contribution:
  assumes "tx_event l u act t t'" "tx_ok s l t"
  shows "contribution a t' = contribution a t + (if fa_id a = tx_account t then event_delta act t else 0)"
proof -
  have ok: "fields_ok l t" "tx_kind t \<noteq> Transfer" "tx_deleted_at t = None"
    using assms(2) by (auto simp: tx_ok_def)
  have pub: "lg_kind l = OrganizationPublic" using tx_event_public [OF assms(1) ok(1)] .
  have ok': "fields_ok l t'" "tx_kind t' \<noteq> Transfer" "tx_deleted_at t' = None" "tx_account t' = tx_account t"
    using tx_event_fields(1) [OF assms(1) ok(1,2)] tx_event_frame [OF assms(1)] ok
    by (auto simp: same_subject_def)
  note c = contribution_phase [OF ok(1) pub ok(2,3)] contribution_phase [OF ok'(1) pub ok'(2,3)]
    same_signed_amount [OF tx_event_frame [OF assms(1)]]
  show ?thesis
    using assms(1)
  proof cases
    case approve
    then show ?thesis using ok pub
      by (cases "tx_kind t") (simp_all add: c ok' phase_def event_delta_def fields_ok_def signed_amount_kind)
  next
    case reject
    then show ?thesis by (simp add: c ok' phase_def event_delta_def)
  next
    case void
    then show ?thesis by (cases "payment_state t") (simp_all add: c ok' phase_def event_delta_def)
  next
    case pay
    then show ?thesis using ok pub
      by (cases "tx_kind t") (simp_all add: c ok' phase_def event_delta_def fields_ok_def signed_amount_kind)
  next
    case receive
    then show ?thesis by (simp add: c ok' phase_def event_delta_def)
  qed
qed

lemma event_done_balance:
  assumes "event_done env u act k \<sigma> dto \<sigma>'" "app_inv \<sigma>"
  shows "\<exists>t. om_get (transactions (fst \<sigma>)) k = Some t \<and>
    (\<forall>a. account_balance_minor (fst \<sigma>') a =
       account_balance_minor (fst \<sigma>) a + (if fa_id a = tx_account t then event_delta act t else 0))"
proof -
  obtain t l t' where e: "om_get (transactions (fst \<sigma>)) k = Some t" "om_get (ledgers (fst \<sigma>)) (tx_ledger t) = Some l"
    "tx_event l u act t t'" "recorded (fst \<sigma>) l u (act_name act) k t' (fst \<sigma>')"
    using assms(1) unfolding event_done_def by blast
  have "books_ok (fst \<sigma>)" using assms(2) by (simp add: app_inv_def)
  from books_tx [OF this e(1)] have ok: "tx_ok (fst \<sigma>) l t" using e(2) by auto
  show ?thesis
    using balance_replace [OF e(1) recorded_frame(7) [OF e(4)]] event_contribution [OF e(3) ok] e(1) by simp
qed

text \<open>The true amounts, in unbounded integers.\<close>

definition true_amount :: "transaction \<Rightarrow> int" where
  "true_amount t =
     (case tx_kind t of
        Income \<Rightarrow> sint (amount_minor (tx_amount t))
      | Expense \<Rightarrow> - sint (amount_minor (tx_amount t))
      | Transfer \<Rightarrow> 0)"

definition true_balance :: "app_ledger_service \<Rightarrow> financial_account \<Rightarrow> int" where
  "true_balance s a =
     sint (amount_minor (opening_balance a))
   + (\<Sum>t \<leftarrow> filter (\<lambda>t. tx_account t = fa_id a \<and> tx_deleted_at t = None \<and> transaction_affects_balance t)
        (om_values (transactions s)). true_amount t)"

lemma signed_amount_true: "signed_amount t = word_of_int (true_amount t)"
  by (cases "tx_kind t") (simp_all add: signed_amount_def true_amount_def)

lemma balance_true: "account_balance_minor s a = word_of_int (true_balance s a)"
proof -
  have "sum_list (map signed_amount ts) = word_of_int (sum_list (map true_amount ts))" for ts
    by (induction ts) (simp_all add: signed_amount_true)
  then show ?thesis
    by (simp add: account_balance_minor_def true_balance_def)
qed

end
