(* ===== verification/TransactionProperties.thy ===== *)
theory TransactionProperties
  imports Balances
begin

text \<open>
  The properties of the transactions of the application ledger, and the concrete company on which they
  are exercised: two business owners, an employee, a public ledger with one account, and an expense of
  the employee that waits for approval.
\<close>

section \<open>A company\<close>

definition demo_cny_money :: "nat \<Rightarrow> money" where
  "demo_cny_money n = \<lparr>amount_minor = of_nat n, currency = ''CNY''\<rparr>"

definition demo_user :: "uuid \<Rightarrow> user" where
  "demo_user u = \<lparr>usr_id = u, display_name = ''user'', email = None, phone = None, usr_created_at = 0\<rparr>"

definition demo_ms :: "uuid \<Rightarrow> uuid \<Rightarrow> membership_role \<Rightarrow> membership" where
  "demo_ms i u role = \<lparr>ms_id = i, ms_organization = 10, ms_user = u, ms_role = role, ms_created_at = 0\<rparr>"

definition demo_public :: ledger where
  "demo_public = \<lparr>lg_id = 30, lg_name = ''books'', lg_kind = OrganizationPublic, owner_user_id = None,
     organization_id = Some 10, lg_created_at = 0, lg_deleted_at = None\<rparr>"

definition demo_account :: financial_account where
  "demo_account = \<lparr>fa_id = 40, fa_ledger = 30, fa_name = ''bank'', fa_kind = Bank,
     opening_balance = demo_cny_money 1000, fa_created_at = 0, fa_deleted_at = None\<rparr>"

definition demo_category :: category where
  "demo_category = \<lparr>cat_id = 50, cat_ledger = 30, cat_name = ''travel'', cat_kind = ExpenseCategory\<rparr>"

text \<open>The employee's expense of 1.00 CNY.\<close>

definition demo_tx :: transaction where
  "demo_tx = \<lparr>tx_id = 60, client_mutation_id = Some 7, tx_ledger = 30, tx_account = 40, tx_category = Some 50,
     tx_kind = Expense, tx_amount = demo_cny_money 100, occurred_at = 0, tx_description = ''taxi'',
     approval_state = Submitted, payment_state = NotApplicable, tx_created_by = 2, submitted_by = Some 2,
     approved_by = None, approved_at = None, paid_by = None, paid_at = None, received_by = None,
     received_at = None, tx_version = 1, tx_created_at = 0, tx_updated_at = 0, tx_deleted_at = None\<rparr>"

definition demo_submitted_log :: audit_log where
  "demo_submitted_log = \<lparr>al_id = 70, al_organization = Some 10, al_ledger = 30, al_actor = 2,
     al_action = ''transaction.submitted'', al_resource_type = ''transaction'', al_resource = 60,
     al_summary = ''taxi'', al_created_at = 0\<rparr>"

definition demo_app :: app_ledger_service where
  "demo_app = \<lparr>schema_version = 3, current_user_id = 4,
     users = om_insert 4 (demo_user 4) (om_insert 2 (demo_user 2) (om_insert 3 (demo_user 3) om_empty)),
     organizations = om_insert 10 \<lparr>org_id = 10, org_name = ''ACME'', org_created_by = 4, org_created_at = 0\<rparr> om_empty,
     memberships = [demo_ms 21 4 BusinessOwner, demo_ms 22 2 Employee, demo_ms 23 3 BusinessOwner],
     ledgers = om_insert 30 demo_public om_empty,
     accounts = om_insert 40 demo_account om_empty,
     categories = om_insert 50 demo_category om_empty,
     transactions = om_insert 60 demo_tx om_empty,
     audit_logs = [demo_submitted_log]\<rparr>"

definition demo_state :: app_state where
  "demo_state = (demo_app, demo_world)"

lemmas demo_state_defs = demo_state_def demo_app_def demo_tx_def demo_account_def demo_category_def
  demo_public_def demo_user_def demo_ms_def demo_cny_money_def demo_submitted_log_def

lemma demo_fresh: "fresh_ids demo_world (used_ids demo_app)"
  by (rule demo_world_fresh) (auto simp: used_ids_def demo_state_defs)

lemma demo_maps: "maps_ok demo_app"
  by (auto simp: maps_ok_def om_keyed_def demo_state_defs ledger_shape_def valid_currency_def
      is_ascii_uppercase_def split: if_splits)

lemma demo_tx_ok: "tx_ok demo_app demo_public demo_tx"
  by (auto simp: tx_ok_def fields_ok_def direction_fits_def demo_state_defs)

lemma demo_trail: "trail_ok demo_app demo_public demo_tx"
  by (auto simp: trail_ok_def entries_for_def expected_trail_def signed_def demo_state_defs)

lemma demo_books: "books_ok demo_app"
  unfolding books_ok_def
proof (intro conjI allI impI ballI demo_maps)
  fix k t assume "om_get (transactions demo_app) k = Some t"
  then have "t = demo_tx" by (auto simp: demo_app_def split: if_splits)
  moreover have "om_get (ledgers demo_app) (tx_ledger demo_tx) = Some demo_public"
    by (simp add: demo_app_def demo_tx_def)
  ultimately show "\<exists>l. om_get (ledgers demo_app) (tx_ledger t) = Some l \<and> tx_ok demo_app l t \<and> trail_ok demo_app l t"
    using demo_tx_ok demo_trail by blast
qed (simp add: demo_state_defs)

lemma demo_inv: "app_inv demo_state"
  by (simp add: app_inv_def demo_state_def demo_books demo_fresh)

section \<open>The books over a history\<close>

text \<open>What the machine contract gives for the application: the invariant after any commands.\<close>

lemma run_app_inv: "app_inv \<sigma> \<Longrightarrow> env_ok env \<Longrightarrow> app_inv (run (app_step env) \<sigma> cmds)"
  using app.run_inv [of \<sigma> env cmds] by simp

lemma run_books:
  assumes "app_inv \<sigma>" "env_ok env" "run (app_step env) \<sigma> cmds = (s, w)"
  shows "books_ok s"
  using run_app_inv [OF assms(1,2), of cmds] assms(3) by (simp add: app_inv_def)

lemma run_app_tx:
  assumes "app_inv \<sigma>" "env_ok env" "run (app_step env) \<sigma> cmds = (s, w)" "om_get (transactions s) k = Some t"
  obtains l where "om_get (ledgers s) (tx_ledger t) = Some l" "tx_ok s l t" "trail_ok s l t" "tx_id t = k"
proof -
  note b = run_books [OF assms(1-3)]
  obtain l where l: "om_get (ledgers s) (tx_ledger t) = Some l" "tx_ok s l t" "trail_ok s l t"
    by (rule books_tx [OF b assms(4)])
  have "om_keyed tx_id (transactions s)" using books_maps [OF b] by (simp add: maps_ok_def)
  from om_keyedD [OF this assms(4)] have "tx_id t = k" .
  with l that show ?thesis by blast
qed

text \<open>
  C3: the books of an application that starts uninitialized satisfy their invariant after any sequence
  of commands by anyone: every transaction belongs to a ledger, to an account of that ledger in its
  currency and to a category of its direction, its approval and payment fields agree, and the audit log
  tells how it got there; the identifiers in use are never drawn again.
\<close>

theorem books_always_ok:
  assumes "inj (ids w)" and "env_ok env"
  shows "app_inv (run (app_step env) (uninitialized, w) cmds)"
  using run_app_inv [OF uninitialized_inv [OF assms(1)] assms(2)] .

definition demo_history :: "app_command list" where
  "demo_history =
     [CreateOrganizationCmd \<lparr>co_name = ''ACME'', co_admin_user = 1, co_admin_display_name = ''boss'',
        co_admin_email = Some ''a'', co_admin_phone = None\<rparr>,
      AddMemberCmd \<lparr>am_organization = 1000, am_display_name = ''eve'', am_email = Some ''e'',
        am_phone = None, am_role = Employee\<rparr>,
      CreateTransactionCmd \<lparr>ct_actor = 1016, ct_ledger = 1001, ct_account = 1003, ct_category = None,
        ct_kind = Expense, ct_amount_minor = 100, ct_currency = ''CNY'', ct_description = ''taxi'',
        ct_mutation_id = None\<rparr>]"

lemma books_always_ok_witness: "app_inv (run (app_step demo_env) (uninitialized, demo_world) demo_history)"
  by (rule books_always_ok [OF _ demo_env_ok]) (simp add: demo_world_def inj_on_def)

text \<open>The second owner approves the employee's expense and pays it; the employee confirms the receipt.\<close>

definition demo_approve :: app_command where
  "demo_approve = DecideApprovalCmd \<lparr>da_actor = 4, da_transaction = 60, da_decision = ApproveTx, da_note = None\<rparr>"

definition demo_pay :: app_command where
  "demo_pay = MarkPaidCmd \<lparr>mp_actor = 3, mp_transaction = 60\<rparr>"

definition demo_receive :: app_command where
  "demo_receive = ConfirmReceiptCmd \<lparr>cr_actor = 2, cr_transaction = 60\<rparr>"

definition demo_end :: app_state where
  "demo_end = run (app_step demo_env) demo_state [demo_approve, demo_pay, demo_receive]"

lemmas demo_op_defs = decide_approval_def void_transaction_def mark_transaction_paid_def
  confirm_transaction_receipt_def create_transaction_def admit_transaction_def resolve_category_def
  existing_mutation_def auto_approves_def membership_role_def business_owner_count_def
  authorized_def can_perform_def can_perform_organization_def put_transaction_def push_audit_def
  audit_log_new_def now_utc_def new_v4_def demo_world_def normalize_decision_note_def
  normalize_void_reason_def Let_def split_beta

lemma demo_end_tx:
  "om_get (transactions (fst demo_end)) 60 = Some (demo_tx\<lparr>approval_state := Approved, payment_state := Received,
     approved_by := Some 4, approved_at := Some 1, paid_by := Some 3, paid_at := Some 3, received_by := Some 2,
     received_at := Some 5, tx_updated_at := 5, tx_version := 4\<rparr>)"
  "om_get (ledgers (fst demo_end)) 30 = Some demo_public"
  by (simp_all add: demo_end_def demo_approve_def demo_pay_def demo_receive_def demo_op_defs demo_state_defs)

lemma demo_end_run: "run (app_step demo_env) demo_state [demo_approve, demo_pay, demo_receive] = (fst demo_end, snd demo_end)"
  by (simp add: demo_end_def)

text \<open>
  C2: after any sequence of commands, the audit log tells the whole story of every transaction: its
  entries, in order, are exactly the acts that the transaction's own fields imply (submission or
  automatic approval, decision, payment, receipt, voiding), and each of them is signed by the user that
  the transaction names for that act.
\<close>

theorem audit_trail_complete:
  assumes "app_inv \<sigma>" and "env_ok env" and "run (app_step env) \<sigma> cmds = (s, w)"
    and "om_get (transactions s) k = Some t" and "om_get (ledgers s) (tx_ledger t) = Some l"
  shows "map al_action (entries_for s k) = expected_trail l t \<and> (\<forall>a \<in> set (entries_for s k). signed t a)"
  by (rule run_app_tx [OF assms(1-4)]) (use assms(5) in \<open>auto simp: trail_ok_def\<close>)

lemma audit_trail_complete_witness:
  "map al_action (entries_for (fst demo_end) 60) =
     [''transaction.submitted'', ''transaction.approved'', ''transaction.paid'', ''transaction.received'']"
  using audit_trail_complete [OF demo_inv demo_env_ok demo_end_run demo_end_tx(1)] demo_end_tx(2)
  by (simp add: demo_tx_def expected_trail_def approval_trail_def demo_public_def)

text \<open>
  C1: four eyes on the application's books: after any sequence of commands, a transaction of a public
  ledger whose approval is recorded was approved by somebody who is neither its creator nor its
  submitter, and without a recorded approver the audit log holds its automatic approval; only the
  creator has confirmed a receipt, and only after somebody marked the payment.
\<close>

theorem four_eyes_on_public_books:
  assumes "app_inv \<sigma>" and "env_ok env" and "run (app_step env) \<sigma> cmds = (s, w)"
    and "om_get (transactions s) k = Some t" and "om_get (ledgers s) (tx_ledger t) = Some l"
    and "lg_kind l = OrganizationPublic" and "approval_state t = Approved"
  shows "(if approved_by t = None
          then \<exists>a \<in> set (audit_logs s). al_resource a = k \<and> al_action a = ''transaction.auto_approved'' \<and> al_actor a = tx_created_by t
          else approved_by t \<noteq> Some (tx_created_by t) \<and> approved_by t \<noteq> submitted_by t
             \<and> (\<exists>a \<in> set (audit_logs s). al_resource a = k \<and> al_action a = ''transaction.approved'' \<and> approved_by t = Some (al_actor a)))
       \<and> (if received_by t = None then payment_state t \<noteq> Received
          else received_by t = Some (tx_created_by t) \<and> paid_by t \<noteq> None)"
proof (rule run_app_tx [OF assms(1-4)])
  fix m assume m: "om_get (ledgers s) (tx_ledger t) = Some m" "tx_ok s m t" "trail_ok s m t" "tx_id t = k"
  then have l: "fields_ok l t" "trail_ok s l t" using assms(5) by (auto simp: tx_ok_def)
  have "hd (expected_trail l t) \<in> set (expected_trail l t)" "expected_trail l t = approval_trail t @ payment_trail (payment_state t)"
    using assms(6,7) by (auto simp: expected_trail_def approval_trail_def)
  then have "last (approval_trail t) \<in> al_action ` set (entries_for s k)"
    using l(2) m(4) by (auto simp: trail_ok_def approval_trail_def simp flip: set_map)
  then obtain a where a: "a \<in> set (entries_for s k)" "al_action a = last (approval_trail t)" by auto
  then have "signed t a" "a \<in> set (audit_logs s)" "al_resource a = k"
    using l(2) m(4) by (auto simp: trail_ok_def entries_for_def)
  with a l(1) assms(6,7) show ?thesis
    by (auto simp: fields_ok_def signed_def approval_trail_def split: if_splits)
qed

lemma four_eyes_on_public_books_witness: "\<exists>a \<in> set (audit_logs (fst demo_end)). al_resource a = 60 \<and> al_action a = ''transaction.approved'' \<and> al_actor a = 4"
  using four_eyes_on_public_books [OF demo_inv demo_env_ok demo_end_run demo_end_tx(1)] demo_end_tx(2)
  by (fastforce simp: demo_tx_def demo_public_def)

text \<open>
  History only grows: later commands keep every audit record in place and every transaction stored,
  with the same ledger, account, category, kind, amount and creator, moved only forward through its
  phases; so a rejected or voided transaction stays so for ever.
\<close>

theorem history_only_grows:
  assumes "app_inv \<sigma>" and "env_ok env" and "run (app_step env) \<sigma> cmds = (s', w')"
    and "om_get (transactions (fst \<sigma>)) k = Some t"
  shows "\<exists>new t'. audit_logs s' = audit_logs (fst \<sigma>) @ new \<and> om_get (transactions s') k = Some t' \<and> tx_le t t'
     \<and> (if phase t \<in> {Refused, Cancelled} then phase t' = phase t else phase_rank (phase t) \<le> phase_rank (phase t'))"
proof -
  have "app_le \<sigma> (s', w')"
    using app.run_le [of \<sigma> env cmds] assms(1-3) by simp
  then obtain new t' where n: "audit_logs s' = audit_logs (fst \<sigma>) @ new" "om_get (transactions s') k = Some t'" "tx_le t t'"
    using assms(4) unfolding app_le_def om_extends_def fst_conv by blast
  then have r: "phase_step\<^sup>*\<^sup>* (phase t) (phase t')" by (simp add: tx_le_def)
  have "phase_rank (phase t) \<le> phase_rank (phase t')"
    using r by (induction rule: rtranclp_induct) (auto dest: phase_step_rank)
  moreover have "phase t' = phase t" if "phase t \<in> {Refused, Cancelled}"
    using r that phase_final by (cases rule: converse_rtranclpE) auto
  ultimately show ?thesis using n by auto
qed

lemma history_only_grows_witness:
  "\<exists>new t'. audit_logs (fst demo_end) = audit_logs demo_app @ new \<and> om_get (transactions (fst demo_end)) 60 = Some t' \<and> tx_le demo_tx t'"
  using history_only_grows [OF demo_inv demo_env_ok demo_end_run, of 60 demo_tx]
  by (auto simp: demo_state_def demo_app_def split: if_splits)

section \<open>The effect of each operation\<close>

lemma event_done_permission:
  assumes "event_done env u a k \<sigma> dto \<sigma>'"
  shows "\<exists>t l. om_get (transactions (fst \<sigma>)) k = Some t \<and> om_get (ledgers (fst \<sigma>)) (tx_ledger t) = Some l
    \<and> authorized (fst \<sigma>) u l (act_permission a)"
  using assms unfolding event_done_def by blast

text \<open>The part of \<open>authorized\<close> that a public ledger leaves.\<close>

lemma authorized_public:
  "lg_kind l = OrganizationPublic \<Longrightarrow> authorized s u l a \<longleftrightarrow>
     (\<exists>org role. organization_id l = Some org \<and> membership_role s u org = Some role \<and> role_permits role a)"
  by (cases "organization_id l")
    (auto simp: authorized_def can_perform_organization_def membership_role_def split: option.splits)

definition acts_as :: "app_ledger_service \<Rightarrow> uuid \<Rightarrow> ledger \<Rightarrow> membership_role set \<Rightarrow> bool" where
  "acts_as s u l roles \<longleftrightarrow>
     lg_kind l = OrganizationPublic \<and> (\<exists>org role. organization_id l = Some org
        \<and> membership_role s u org = Some role \<and> role \<in> roles)"

lemma event_done_detail:
  assumes "event_done env u act k \<sigma> dto \<sigma>'" "app_inv \<sigma>"
  obtains t l t' where "om_get (transactions (fst \<sigma>)) k = Some t" "om_get (ledgers (fst \<sigma>)) (tx_ledger t) = Some l"
    "tx_event l u act t t'" "om_get (transactions (fst \<sigma>')) k = Some t'" "lg_kind l = OrganizationPublic"
    "tx_ok (fst \<sigma>) l t" "tx_ok (fst \<sigma>') l t'" "authorized (fst \<sigma>) u l (act_permission act)"
    "\<And>a. account_balance_minor (fst \<sigma>') a =
       account_balance_minor (fst \<sigma>) a + (if fa_id a = tx_account t then event_delta act t else 0)"
proof -
  obtain t l t' where e: "om_get (transactions (fst \<sigma>)) k = Some t" "om_get (ledgers (fst \<sigma>)) (tx_ledger t) = Some l"
    "authorized (fst \<sigma>) u l (act_permission act)" "tx_event l u act t t'"
    "recorded (fst \<sigma>) l u (act_name act) k t' (fst \<sigma>')"
    using assms(1) unfolding event_done_def by blast
  have "books_ok (fst \<sigma>)" using assms(2) by (simp add: app_inv_def)
  from books_tx [OF this e(1)] have ok: "tx_ok (fst \<sigma>) l t" using e(2) by auto
  have ok': "tx_ok (fst \<sigma>') l t'"
    using tx_event_ok [OF e(4) ok] tx_ok_frame [OF recorded_frame(2,3) [OF e(5)]] by simp
  have pub: "lg_kind l = OrganizationPublic" using tx_event_public [OF e(4)] ok by (simp add: tx_ok_def)
  have t': "om_get (transactions (fst \<sigma>')) k = Some t'" using recorded_frame(7) [OF e(5)] by simp
  show ?thesis
    using event_done_balance [OF assms] e(1) that [OF e(1,2,4) t' pub ok ok' e(3)] by auto
qed

text \<open>
  C4: marking a transaction paid takes exactly its amount from its own account and from no other, is
  done by a business owner or approver of the ledger's organization, on an approved expense that waits
  for payment, and names the payer.
\<close>

theorem payment_moves_the_amount:
  assumes "app_inv \<sigma>" and "mark_transaction_paid env i \<sigma> = (Ok dto, \<sigma>')"
  shows "\<exists>t l t'. om_get (transactions (fst \<sigma>)) (mp_transaction i) = Some t
     \<and> om_get (ledgers (fst \<sigma>)) (tx_ledger t) = Some l \<and> acts_as (fst \<sigma>) (mp_actor i) l {BusinessOwner, Approver}
     \<and> tx_kind t = Expense \<and> phase t = ToPay
     \<and> om_get (transactions (fst \<sigma>')) (mp_transaction i) = Some t' \<and> phase t' = Paid \<and> paid_by t' = Some (mp_actor i)
     \<and> (\<forall>a. account_balance_minor (fst \<sigma>') a =
          account_balance_minor (fst \<sigma>) a - (if fa_id a = tx_account t then amount_minor (tx_amount t) else 0))"
proof (rule event_done_detail [OF mark_transaction_paid_event [OF assms(2)] assms(1)])
  fix t l t' assume e: "om_get (transactions (fst \<sigma>)) (mp_transaction i) = Some t"
    "om_get (ledgers (fst \<sigma>)) (tx_ledger t) = Some l" "tx_event l (mp_actor i) ActPay t t'"
    "om_get (transactions (fst \<sigma>')) (mp_transaction i) = Some t'" "lg_kind l = OrganizationPublic"
    "tx_ok (fst \<sigma>) l t" "tx_ok (fst \<sigma>') l t'" "authorized (fst \<sigma>) (mp_actor i) l (act_permission ActPay)"
    "\<And>a. account_balance_minor (fst \<sigma>') a =
       account_balance_minor (fst \<sigma>) a + (if fa_id a = tx_account t then event_delta ActPay t else 0)"
  have "acts_as (fst \<sigma>) (mp_actor i) l {BusinessOwner, Approver}"
    using e(5,8) by (auto simp: authorized_public acts_as_def)
  moreover have "tx_kind t = Expense \<and> phase t = ToPay \<and> phase t' = Paid \<and> paid_by t' = Some (mp_actor i)"
    using e(3,5,6) by cases (cases "tx_kind t"; auto simp: phase_def tx_ok_def fields_ok_def)
  ultimately show ?thesis
    using e(1,2,4,9) by (intro exI [of _ t] exI [of _ l] exI [of _ t']) (auto simp: event_delta_def)
qed

text \<open>The stages of the demo expense, and that each command succeeds.\<close>

definition demo_approved :: app_state where
  "demo_approved = app_step demo_env demo_state demo_approve"

definition demo_paid :: app_state where
  "demo_paid = app_step demo_env demo_approved demo_pay"

lemmas demo_cmd_defs = demo_approve_def demo_pay_def demo_receive_def

lemma demo_stage_inv: "app_inv demo_approved" "app_inv demo_paid"
  by (simp_all add: demo_approved_def demo_paid_def app_step_inv demo_inv demo_env_ok)

lemma demo_approve_ok:
  "\<exists>dto. decide_approval demo_env \<lparr>da_actor = 4, da_transaction = 60, da_decision = ApproveTx, da_note = None\<rparr> demo_state
     = (Ok dto, demo_approved)"
  by (simp add: prod_eq_iff demo_approved_def demo_cmd_defs demo_op_defs demo_state_defs)

lemma demo_pay_ok:
  "\<exists>dto. mark_transaction_paid demo_env \<lparr>mp_actor = 3, mp_transaction = 60\<rparr> demo_approved = (Ok dto, demo_paid)"
  by (simp add: prod_eq_iff demo_paid_def demo_approved_def demo_cmd_defs demo_op_defs demo_state_defs)

lemma demo_receive_ok:
  "\<exists>dto. confirm_transaction_receipt demo_env \<lparr>cr_actor = 2, cr_transaction = 60\<rparr> demo_paid
     = (Ok dto, app_step demo_env demo_paid demo_receive)"
  by (simp add: prod_eq_iff demo_paid_def demo_approved_def demo_cmd_defs demo_op_defs demo_state_defs)

lemma demo_reason: "trim ''x'' = ''x''" "chars_count ''x'' = 1"
  by code_simp+

lemma demo_void_ok:
  "\<exists>dto. void_transaction demo_env \<lparr>vt_actor = 4, vt_transaction = 60, void_reason = ''x''\<rparr> demo_paid
     = (Ok dto, app_step demo_env demo_paid (VoidTransactionCmd \<lparr>vt_actor = 4, vt_transaction = 60, void_reason = ''x''\<rparr>))"
  by (simp add: prod_eq_iff demo_paid_def demo_approved_def demo_cmd_defs demo_op_defs demo_state_defs demo_reason)

lemma demo_txs:
  "om_get (transactions (fst demo_approved)) 60 = Some (demo_tx\<lparr>approval_state := Approved, payment_state := PendingPayment,
     approved_by := Some 4, approved_at := Some 1, tx_updated_at := 0, tx_version := 2\<rparr>)"
  "om_get (transactions (fst demo_paid)) 60 = Some (demo_tx\<lparr>approval_state := Approved, payment_state := PaidPendingReceipt,
     approved_by := Some 4, approved_at := Some 1, paid_by := Some 3, paid_at := Some 3, tx_updated_at := 3, tx_version := 3\<rparr>)"
  by (simp_all add: demo_paid_def demo_approved_def demo_cmd_defs demo_op_defs demo_state_defs)

lemma payment_moves_the_amount_witness:
  "account_balance_minor (fst demo_paid) demo_account = account_balance_minor (fst demo_approved) demo_account - 100"
proof -
  obtain dto where p: "mark_transaction_paid demo_env \<lparr>mp_actor = 3, mp_transaction = 60\<rparr> demo_approved = (Ok dto, demo_paid)"
    using demo_pay_ok ..
  from payment_moves_the_amount [OF demo_stage_inv(1) p] demo_txs(1) show ?thesis
    by (auto simp: demo_account_def demo_tx_def demo_cny_money_def)
qed

text \<open>
  A decision is made by a business owner or approver of the ledger's organization who neither made
  nor submitted the transaction, and only while it waits. Rejecting moves no money. Approving an income
  adds exactly its amount to its account; approving an expense moves no money either and leaves it to
  be paid.
\<close>

theorem decision_effect:
  assumes "app_inv \<sigma>" and "decide_approval env i \<sigma> = (Ok dto, \<sigma>')"
  shows "\<exists>t l t'. om_get (transactions (fst \<sigma>)) (da_transaction i) = Some t
     \<and> om_get (ledgers (fst \<sigma>)) (tx_ledger t) = Some l \<and> acts_as (fst \<sigma>) (da_actor i) l {BusinessOwner, Approver}
     \<and> da_actor i \<noteq> tx_created_by t \<and> submitted_by t \<noteq> Some (da_actor i) \<and> phase t = Waiting
     \<and> om_get (transactions (fst \<sigma>')) (da_transaction i) = Some t'
     \<and> phase t' = (if da_decision i = RejectTx then Refused else if tx_kind t = Income then Settled else ToPay)
     \<and> (\<forall>a. account_balance_minor (fst \<sigma>') a = account_balance_minor (fst \<sigma>) a
          + (if da_decision i = ApproveTx \<and> tx_kind t = Income \<and> fa_id a = tx_account t then amount_minor (tx_amount t) else 0))"
proof (rule event_done_detail [OF decide_approval_event [OF assms(2)] assms(1)])
  let ?act = "case da_decision i of ApproveTx \<Rightarrow> ActApprove | RejectTx \<Rightarrow> ActReject"
  fix t l t' assume e: "om_get (transactions (fst \<sigma>)) (da_transaction i) = Some t"
    "om_get (ledgers (fst \<sigma>)) (tx_ledger t) = Some l" "tx_event l (da_actor i) ?act t t'"
    "om_get (transactions (fst \<sigma>')) (da_transaction i) = Some t'" "lg_kind l = OrganizationPublic"
    "tx_ok (fst \<sigma>) l t" "tx_ok (fst \<sigma>') l t'" "authorized (fst \<sigma>) (da_actor i) l (act_permission ?act)"
    "\<And>a. account_balance_minor (fst \<sigma>') a =
       account_balance_minor (fst \<sigma>) a + (if fa_id a = tx_account t then event_delta ?act t else 0)"
  have "acts_as (fst \<sigma>) (da_actor i) l {BusinessOwner, Approver}"
    using e(5,8) by (cases "da_decision i") (auto simp: authorized_public acts_as_def)
  moreover have "da_actor i \<noteq> tx_created_by t \<and> submitted_by t \<noteq> Some (da_actor i) \<and> phase t = Waiting
    \<and> phase t' = (if da_decision i = RejectTx then Refused else if tx_kind t = Income then Settled else ToPay)"
    using e(3,5,6) by cases (cases "tx_kind t"; cases "da_decision i"; auto simp: phase_def tx_ok_def fields_ok_def)+
  ultimately show ?thesis
    using e(1,2,4,9) by (cases "da_decision i"; intro exI [of _ t] exI [of _ l] exI [of _ t']) (auto simp: event_delta_def)
qed

lemma decision_effect_witness:
  "account_balance_minor (fst demo_approved) demo_account = account_balance_minor (fst demo_state) demo_account"
proof -
  obtain dto where p: "decide_approval demo_env \<lparr>da_actor = 4, da_transaction = 60, da_decision = ApproveTx, da_note = None\<rparr>
      demo_state = (Ok dto, demo_approved)"
    using demo_approve_ok ..
  from decision_effect [OF demo_inv p] show ?thesis
    by (auto simp: demo_state_defs split: if_splits)
qed

text \<open>
  confirming a receipt is for the transaction's creator alone, only after the payment was marked;
  it closes the transaction and moves no money.
\<close>

theorem receipt_effect:
  assumes "app_inv \<sigma>" and "confirm_transaction_receipt env i \<sigma> = (Ok dto, \<sigma>')"
  shows "\<exists>t t'. om_get (transactions (fst \<sigma>)) (cr_transaction i) = Some t
     \<and> tx_created_by t = cr_actor i \<and> phase t = Paid \<and> paid_by t \<noteq> None
     \<and> om_get (transactions (fst \<sigma>')) (cr_transaction i) = Some t' \<and> phase t' = Closed \<and> received_by t' = Some (cr_actor i)
     \<and> (\<forall>a. account_balance_minor (fst \<sigma>') a = account_balance_minor (fst \<sigma>) a)"
proof (rule event_done_detail [OF confirm_transaction_receipt_event [OF assms(2)] assms(1)])
  fix t l t' assume e: "om_get (transactions (fst \<sigma>)) (cr_transaction i) = Some t"
    "tx_event l (cr_actor i) ActReceive t t'"
    "om_get (transactions (fst \<sigma>')) (cr_transaction i) = Some t'" "lg_kind l = OrganizationPublic"
    "tx_ok (fst \<sigma>) l t"
    "\<And>a. account_balance_minor (fst \<sigma>') a =
       account_balance_minor (fst \<sigma>) a + (if fa_id a = tx_account t then event_delta ActReceive t else 0)"
  have "tx_created_by t = cr_actor i \<and> phase t = Paid \<and> paid_by t \<noteq> None \<and> phase t' = Closed \<and> received_by t' = Some (cr_actor i)"
    using e(2,4,5) by cases (auto simp: phase_def tx_ok_def fields_ok_def)
  then show ?thesis using e(1,3,6) by (auto simp: event_delta_def)
qed

lemma receipt_effect_witness: "phase (the (om_get (transactions (fst (app_step demo_env demo_paid demo_receive))) 60)) = Closed"
proof -
  obtain dto where p: "confirm_transaction_receipt demo_env \<lparr>cr_actor = 2, cr_transaction = 60\<rparr> demo_paid
      = (Ok dto, app_step demo_env demo_paid demo_receive)"
    using demo_receive_ok ..
  from receipt_effect [OF demo_stage_inv(2) p] show ?thesis by auto
qed

text \<open>
  Voiding is for a business owner of the ledger's organization; it takes back exactly what the
  transaction had moved on its account, whatever stage it had reached, so that a voided transaction
  contributes nothing to any balance; no other account changes.
\<close>

theorem void_reverses:
  assumes "app_inv \<sigma>" and "void_transaction env i \<sigma> = (Ok dto, \<sigma>')"
  shows "\<exists>t l t'. om_get (transactions (fst \<sigma>)) (vt_transaction i) = Some t
     \<and> om_get (ledgers (fst \<sigma>)) (tx_ledger t) = Some l \<and> acts_as (fst \<sigma>) (vt_actor i) l {BusinessOwner}
     \<and> phase t \<in> {Settled, ToPay, Paid, Closed}
     \<and> om_get (transactions (fst \<sigma>')) (vt_transaction i) = Some t' \<and> phase t' = Cancelled
     \<and> (\<forall>a. account_balance_minor (fst \<sigma>') a = account_balance_minor (fst \<sigma>) a
          - (if fa_id a = tx_account t \<and> phase t \<noteq> ToPay then signed_amount t else 0))
     \<and> (\<forall>a. contribution a t' = 0)"
proof (rule event_done_detail [OF void_transaction_event [OF assms(2)] assms(1)])
  fix t l t' assume e: "om_get (transactions (fst \<sigma>)) (vt_transaction i) = Some t"
    "om_get (ledgers (fst \<sigma>)) (tx_ledger t) = Some l" "tx_event l (vt_actor i) ActVoid t t'"
    "om_get (transactions (fst \<sigma>')) (vt_transaction i) = Some t'" "lg_kind l = OrganizationPublic"
    "tx_ok (fst \<sigma>) l t" "tx_ok (fst \<sigma>') l t'" "authorized (fst \<sigma>) (vt_actor i) l (act_permission ActVoid)"
    "\<And>a. account_balance_minor (fst \<sigma>') a =
       account_balance_minor (fst \<sigma>) a + (if fa_id a = tx_account t then event_delta ActVoid t else 0)"
  have "acts_as (fst \<sigma>) (vt_actor i) l {BusinessOwner}"
    using e(5,8) by (auto simp: authorized_public acts_as_def)
  moreover have "phase t \<in> {Settled, ToPay, Paid, Closed} \<and> phase t' = Cancelled \<and> (\<forall>a. contribution a t' = 0)"
    using e(3) by cases (cases "payment_state t"; simp add: phase_def contribution_def transaction_affects_balance_def)
  ultimately show ?thesis
    using e(1,2,4,9) by (intro exI [of _ t] exI [of _ l] exI [of _ t']) (auto simp: event_delta_def)
qed

lemma void_reverses_witness:
  "account_balance_minor (fst (app_step demo_env demo_paid (VoidTransactionCmd \<lparr>vt_actor = 4, vt_transaction = 60, void_reason = ''x''\<rparr>))) demo_account
     = account_balance_minor (fst demo_paid) demo_account + 100"
proof -
  obtain dto where p: "void_transaction demo_env \<lparr>vt_actor = 4, vt_transaction = 60, void_reason = ''x''\<rparr> demo_paid
     = (Ok dto, app_step demo_env demo_paid (VoidTransactionCmd \<lparr>vt_actor = 4, vt_transaction = 60, void_reason = ''x''\<rparr>))"
    using demo_void_ok ..
  from void_reverses [OF demo_stage_inv(2) p] demo_txs(2) show ?thesis
    by (auto simp: phase_def demo_tx_def demo_account_def demo_cny_money_def signed_amount_def)
qed

text \<open>
  C5: creating a transaction needs the permission on its ledger; a repeated request with the same client
  mutation identifier by the same user on the same ledger changes nothing and answers with the earlier
  transaction. Otherwise one new transaction is stored under a fresh identifier, with the input's
  amount; it moves money at once only on a personal ledger, or as an income that a sole boss enters.
\<close>

theorem creation_effect:
  assumes "app_inv \<sigma>" and "env_ok env" and "create_transaction env i \<sigma> = (Ok dto, \<sigma>')"
  shows "\<exists>l. om_get (ledgers (fst \<sigma>)) (ct_ledger i) = Some l \<and> authorized (fst \<sigma>) (ct_actor i) l CreateTransaction
     \<and> (case existing_mutation (fst \<sigma>) i of
          Some t \<Rightarrow> \<sigma>' = \<sigma> \<and> dto = transaction_dto_of env (fst \<sigma>) t
        | None \<Rightarrow> \<exists>t. om_get (transactions (fst \<sigma>)) (tx_id t) = None
             \<and> transactions (fst \<sigma>') = om_insert (tx_id t) t (transactions (fst \<sigma>))
             \<and> tx_created_by t = ct_actor i \<and> amount_minor (tx_amount t) = ct_amount_minor i
             \<and> phase t = (if lg_kind l = Personal then Settled
                          else if auto_approves (fst \<sigma>) (ct_actor i) (the (organization_id l))
                            then (if ct_kind i = Income then Settled else ToPay)
                          else Waiting)
             \<and> (\<forall>a. account_balance_minor (fst \<sigma>') a = account_balance_minor (fst \<sigma>) a
                  + (if fa_id a = ct_account i \<and> phase t = Settled
                     then (if ct_kind i = Income then ct_amount_minor i else - ct_amount_minor i) else 0)))"
proof -
  obtain l where l: "om_get (ledgers (fst \<sigma>)) (ct_ledger i) = Some l" "authorized (fst \<sigma>) (ct_actor i) l CreateTransaction"
    using assms(3) by (cases \<sigma>) (auto simp: create_transaction_def inversion Let_def split: if_splits)
  show ?thesis
  proof (cases "existing_mutation (fst \<sigma>) i")
    case (Some t)
    then have "\<not> created env i \<sigma> dto \<sigma>'" by (auto simp: created_def)
    with create_transaction_created [OF assms(3)] Some l show ?thesis by auto
  next
    case None
    with create_transaction_created [OF assms(3)] have c: "created env i \<sigma> dto \<sigma>'" by auto
    then obtain t where t: "initial_transaction env (fst \<sigma>) i l t" "fresh_draw (snd \<sigma>) (tx_id t) (snd \<sigma>')"
      "transactions (fst \<sigma>') = om_insert (tx_id t) t (transactions (fst \<sigma>))" "ct_kind i \<noteq> Transfer"
      using l(1) unfolding created_def by (auto simp: recorded_frame split: if_splits)
    have fresh: "om_get (transactions (fst \<sigma>)) (tx_id t) = None"
      using t(2) assms(1) by (auto simp: app_inv_def fresh_draw_def used_ids_def intro: om_get_notin_dom)
    have amount: "amount_minor (tx_amount t) = ct_amount_minor i"
      using t(1) by (auto simp: initial_transaction_def money_new_Ok)
    have ph: "phase t = (if lg_kind l = Personal then Settled
        else if auto_approves (fst \<sigma>) (ct_actor i) (the (organization_id l))
          then (if ct_kind i = Income then Settled else ToPay) else Waiting)"
      using t(1,4) by (cases "ct_kind i") (auto simp: initial_transaction_def phase_def split: ledger_kind.splits if_splits)
    have con: "contribution a t = (if fa_id a = ct_account i \<and> phase t = Settled
        then (if ct_kind i = Income then ct_amount_minor i else - ct_amount_minor i) else 0)" for a
      using t(1,4) amount
      by (cases "ct_kind i") (auto simp: initial_transaction_def phase_def contribution_def signed_amount_def
          transaction_affects_balance_def split: ledger_kind.splits if_splits)
    have creator: "tx_created_by t = ct_actor i" using t(1) by (simp add: initial_transaction_def)
    show ?thesis
      unfolding None option.case
      by (rule exI [of _ l], rule conjI [OF l(1) conjI [OF l(2)]], rule exI [of _ t])
        (intro conjI fresh t(3) creator amount ph allI, simp only: balance_add [OF fresh t(3)] con)
  qed
qed

definition demo_request :: create_transaction_input where
  "demo_request = \<lparr>ct_actor = 2, ct_ledger = 30, ct_account = 40, ct_category = Some 50, ct_kind = Expense,
     ct_amount_minor = 250, ct_currency = ''CNY'', ct_description = ''hotel'', ct_mutation_id = Some 8\<rparr>"

lemma demo_currency: "money_new to_ascii_uppercase n ''CNY'' = Ok \<lparr>amount_minor = n, currency = ''CNY''\<rparr>"
proof -
  have "trim ''CNY'' = ''CNY''" "to_ascii_uppercase ''CNY'' = ''CNY''" by code_simp+
  then show ?thesis by (simp add: money_new_Ok valid_currency_def is_ascii_uppercase_def)
qed

lemma demo_values: "om_values (transactions demo_app) = [demo_tx]"
  by (simp add: demo_app_def om_values_def om_entries_insert)

lemma demo_create_ok:
  "\<exists>dto \<sigma>'. create_transaction demo_env demo_request demo_state = (Ok dto, \<sigma>')"
  by (simp add: demo_request_def demo_op_defs demo_state_defs transaction_draft_def demo_currency
      demo_env_def om_values_def om_entries_insert)

lemma demo_request_facts:
  "existing_mutation demo_app demo_request = None" "om_get (ledgers demo_app) (ct_ledger demo_request) = Some demo_public"
  "\<not> auto_approves demo_app (ct_actor demo_request) (the (organization_id demo_public))"
  by (simp_all add: existing_mutation_def demo_request_def demo_app_def demo_tx_def om_values_def om_entries_insert
      auto_approves_def membership_role_def demo_public_def demo_ms_def)

lemma creation_effect_witness:
  "\<exists>\<sigma>' k t. snd (create_transaction demo_env demo_request demo_state) = \<sigma>'
     \<and> om_get (transactions (fst \<sigma>')) k = Some t \<and> phase t = Waiting \<and> amount_minor (tx_amount t) = 250
     \<and> account_balance_minor (fst \<sigma>') demo_account = account_balance_minor (fst demo_state) demo_account"
proof -
  obtain dto \<sigma>' where p: "create_transaction demo_env demo_request demo_state = (Ok dto, \<sigma>')"
    using demo_create_ok by blast
  have f: "fst demo_state = demo_app" by (simp add: demo_state_def)
  have r: "lg_kind demo_public \<noteq> Personal" "ct_amount_minor demo_request = 250"
    by (simp_all add: demo_public_def demo_request_def)
  from creation_effect [OF demo_inv demo_env_ok p] obtain t where
    "transactions (fst \<sigma>') = om_insert (tx_id t) t (transactions demo_app)" "phase t = Waiting"
    "amount_minor (tx_amount t) = 250" "\<forall>a. account_balance_minor (fst \<sigma>') a = account_balance_minor (fst demo_state) a"
    by (auto simp: f demo_request_facts r)
  then show ?thesis by (auto simp: p)
qed



end
