(* ===== verification/OrganizationProperties.thy ===== *)
theory OrganizationProperties
  imports Members TransactionProperties
begin

text \<open>
  The properties of organizations, members, visibility, setup and snapshots of the application ledger.
\<close>

section \<open>Members\<close>

lemma setup_status_initialized:
  "setup_initialized (setup_status s) \<longleftrightarrow>
     om_size (organizations s) \<noteq> 0 \<and> (\<forall>org \<in> set (om_keys (organizations s)). owner_count s org \<noteq> 0)"
  by (auto simp: setup_status_def Let_def list_ex_iff)

lemma om_keys_dom: "set (om_keys m) = om_dom m"
  by (force simp: om_keys_def om_dom_def simp flip: om_in_entries)

text \<open>
  C36: whatever commands run, every organization keeps at least one owner, so that the application
  counts as set up as soon as an organization exists; nobody holds two roles in one organization, and
  every membership belongs to an organization that exists.
\<close>

theorem every_organization_keeps_an_owner:
  assumes "app_inv \<sigma>" and "env_ok env" and "staff_ok (staff (fst \<sigma>))"
    and "run (app_step env) \<sigma> cmds = (s, w)"
  shows "(\<forall>org \<in> om_dom (organizations s). 0 < owner_count s org)
     \<and> setup_initialized (setup_status s) = (om_size (organizations s) \<noteq> 0)
     \<and> distinct (map (\<lambda>m. (ms_organization m, ms_user m)) (memberships s))
     \<and> (\<forall>m \<in> set (memberships s). ms_organization m \<in> om_dom (organizations s))"
proof -
  have "members_inv env (run (app_step env) \<sigma> cmds)"
    using members.run_inv [of env \<sigma> cmds] assms(1-3) by (simp add: members_inv_def)
  then have "staff_ok (staff s)" by (simp add: members_inv_def assms(4))
  then show ?thesis
    by (auto simp: staff_ok_def staff_def owner_count_in setup_status_initialized om_keys_dom)
qed

text \<open>In the demo company a platform owner appoints, and tries to take the last owner away.\<close>

definition demo_staffed :: app_state where
  "demo_staffed = (demo_app\<lparr>memberships := memberships demo_app @ [demo_ms 24 5 Owner]\<rparr>, demo_world)"

lemma demo_staffed_inv: "app_inv demo_staffed"
proof -
  have "books_extend demo_app (fst demo_staffed)" "maps_ok (fst demo_staffed)"
    using demo_maps by (simp_all add: demo_staffed_def books_extend_def maps_ok_def)
  then have "books_ok (fst demo_staffed)" using books_extend_ok [OF demo_books] by blast
  moreover have "fresh_ids demo_world (used_ids (fst demo_staffed))"
    by (rule demo_world_fresh) (auto simp: demo_staffed_def used_ids_def demo_state_defs)
  ultimately show ?thesis by (simp add: app_inv_def demo_staffed_def)
qed

lemma demo_staffed_ok: "staff_ok (staff (fst demo_staffed))"
  by (simp add: staff_ok_def staff_def demo_staffed_def demo_state_defs)

lemma every_organization_keeps_an_owner_witness:
  "0 < owner_count (fst (run (app_step demo_env) demo_staffed [RemoveMemberCmd 10 24])) 10"
proof -
  have "10 \<in> om_dom (organizations (fst (run (app_step demo_env) demo_staffed [RemoveMemberCmd 10 24])))"
    by (simp add: demo_staffed_def demo_state_defs remove_organization_member_def last_owner_def owner_count_def)
  then show ?thesis
    using every_organization_keeps_an_owner [OF demo_staffed_inv demo_env_ok demo_staffed_ok prod.collapse [symmetric]]
    by blast
qed

section \<open>Who can act\<close>

text \<open>The user who acts on a transaction by a command.\<close>

fun transaction_actor :: "app_command \<Rightarrow> uuid option" where
  "transaction_actor (DecideApprovalCmd i) = Some (da_actor i)"
| "transaction_actor (VoidTransactionCmd i) = Some (vt_actor i)"
| "transaction_actor (MarkPaidCmd i) = Some (mp_actor i)"
| "transaction_actor (ConfirmReceiptCmd i) = Some (cr_actor i)"
| "transaction_actor _ = None"

lemma event_needs_role:
  assumes "event_done env u a k \<sigma> dto \<sigma>'" "app_inv \<sigma>"
  shows "\<exists>org role. membership_role (fst \<sigma>) u org = Some role \<and> role \<notin> {Owner, Admin, Viewer}"
proof (rule event_done_detail [OF assms])
  fix t l t' assume "lg_kind l = OrganizationPublic" "authorized (fst \<sigma>) u l (act_permission a)"
  then obtain org role where "membership_role (fst \<sigma>) u org = Some role" "role_permits role (act_permission a)"
    by (auto simp: authorized_public)
  then show ?thesis by (cases role; cases a) auto
qed

lemma event_call_blocked:
  assumes "\<And>dto \<sigma>'. x = (Ok dto, \<sigma>') \<Longrightarrow> event_done env u a k \<sigma> dto \<sigma>'"
    "\<And>e \<sigma>'. x = (Err e, \<sigma>') \<Longrightarrow> \<sigma>' = \<sigma>" "\<And>p. fst x \<noteq> Panic p" "app_inv \<sigma>"
    "\<forall>org. membership_role (fst \<sigma>) u org \<in> {None, Some Owner, Some Admin, Some Viewer}"
  shows "snd x = \<sigma>"
proof -
  obtain r \<tau> where x: "x = (r, \<tau>)" by (cases x)
  show ?thesis
  proof (cases r)
    case (Ok dto)
    then obtain org role where "membership_role (fst \<sigma>) u org = Some role" "role \<notin> {Owner, Admin, Viewer}"
      using event_needs_role [OF assms(1) assms(4)] x by blast
    then show ?thesis using assms(5) by (metis insert_iff option.distinct(1) option.inject singletonD)
  next
    case (Err e)
    then show ?thesis using assms(2) x by simp
  next
    case (Panic p)
    then show ?thesis using assms(3) [of p] x by simp
  qed
qed

text \<open>
  an outsider, a platform owner, an administrator and a viewer cannot touch a transaction: a
  decision, payment, receipt or voiding attempted by a user who holds no business role in any
  organization leaves the whole state as it is.
\<close>

theorem no_business_role_no_effect:
  assumes "app_inv \<sigma>" and "transaction_actor c = Some u"
    and "\<forall>org. membership_role (fst \<sigma>) u org \<in> {None, Some Owner, Some Admin, Some Viewer}"
  shows "app_step env \<sigma> c = \<sigma>"
proof (cases c)
  case (DecideApprovalCmd i)
  show ?thesis unfolding DecideApprovalCmd app_step.simps
    by (rule event_call_blocked [OF decide_approval_event decide_approval_Err transaction_ops_no_panic(1) assms(1)])
      (use assms(2,3) DecideApprovalCmd in auto)
next
  case (VoidTransactionCmd i)
  show ?thesis unfolding VoidTransactionCmd app_step.simps
    by (rule event_call_blocked [OF void_transaction_event void_transaction_Err transaction_ops_no_panic(2) assms(1)])
      (use assms(2,3) VoidTransactionCmd in auto)
next
  case (MarkPaidCmd i)
  show ?thesis unfolding MarkPaidCmd app_step.simps
    by (rule event_call_blocked [OF mark_transaction_paid_event mark_transaction_paid_Err transaction_ops_no_panic(3) assms(1)])
      (use assms(2,3) MarkPaidCmd in auto)
next
  case (ConfirmReceiptCmd i)
  show ?thesis unfolding ConfirmReceiptCmd app_step.simps
    by (rule event_call_blocked [OF confirm_transaction_receipt_event confirm_transaction_receipt_Err
          transaction_ops_no_panic(4) assms(1)])
      (use assms(2,3) ConfirmReceiptCmd in auto)
qed (use assms(2) in auto)

lemma no_business_role_no_effect_witness:
  "app_step demo_env demo_staffed (MarkPaidCmd \<lparr>mp_actor = 5, mp_transaction = 60\<rparr>) = demo_staffed"
  by (rule no_business_role_no_effect [OF demo_staffed_inv, where u = 5])
    (simp_all add: demo_staffed_def demo_state_defs membership_role_def)

section \<open>Who sees what\<close>

lemma can_view_balances_role:
  "lg_kind l = OrganizationPublic \<Longrightarrow> can_view_balances s u l \<longleftrightarrow> acts_as s u l {BusinessOwner, Approver}"
  by (auto simp: can_view_balances_def acts_as_def split: option.splits)

lemma can_view_authorized:
  "lg_kind l = OrganizationPublic \<Longrightarrow> can_view_balances s u l \<Longrightarrow> authorized s u l ViewLedger"
  by (auto simp: can_view_balances_role acts_as_def authorized_public)

text \<open>
  C38: in any history, a user who is shown an audit entry of a transaction may also see the transaction
  itself: the entry belongs to a public ledger of an organization in which the user has a role that may
  view it, and the user either manages that organization's money or made the transaction. In particular
  nothing about a personal ledger leaks through the audit log.
\<close>

theorem audit_log_leaks_nothing:
  assumes "app_inv \<sigma>" and "env_ok env" and "run (app_step env) \<sigma> cmds = (s, w)"
    and "a \<in> set (audit_logs s)" and "al_resource_type a = ''transaction''" and "audit_visible_to_actor s u a"
  shows "\<exists>t l. om_get (transactions s) (al_resource a) = Some t \<and> om_get (ledgers s) (tx_ledger t) = Some l
     \<and> lg_kind l = OrganizationPublic \<and> transaction_visible_to_actor s u t
     \<and> (acts_as s u l {BusinessOwner, Approver} \<or> tx_created_by t = u)"
proof -
  note b = run_books [OF assms(1-3)]
  obtain t where t: "om_get (transactions s) (al_resource a) = Some t"
    using b assms(4,5) by (auto simp: books_ok_def)
  show ?thesis
  proof (rule run_app_tx [OF assms(1-3) t])
    fix l assume l: "om_get (ledgers s) (tx_ledger t) = Some l" "tx_ok s l t" "trail_ok s l t" "tx_id t = al_resource a"
    have a: "a \<in> set (entries_for s (tx_id t))" using assms(4,5) l(4) by (simp add: entries_for_def)
    then have led: "al_ledger a = tx_ledger t" using l(3) by (auto simp: trail_ok_def signed_def)
    have "expected_trail l t \<noteq> []" using a l(3) unfolding trail_ok_def by force
    then have pub: "lg_kind l = OrganizationPublic" by (cases "lg_kind l") (simp_all add: expected_trail_def)
    have vis: "transaction_visible_to_actor s u t"
      using assms(5,6) led l(1) pub t can_view_authorized [OF pub]
      by (cases "can_view_balances s u l") (auto simp: audit_visible_to_actor_def transaction_visible_to_actor_def)
    then have "acts_as s u l {BusinessOwner, Approver} \<or> tx_created_by t = u"
      using l(1) pub by (auto simp: transaction_visible_to_actor_def can_view_balances_role split: if_splits)
    with t l(1) pub vis show ?thesis by blast
  qed
qed

lemma demo_end_log:
  "al_resource (hd (audit_logs (fst demo_end))) = 60" "al_resource_type (hd (audit_logs (fst demo_end))) = ''transaction''"
  "hd (audit_logs (fst demo_end)) \<in> set (audit_logs (fst demo_end))"
  "audit_visible_to_actor (fst demo_end) 2 (hd (audit_logs (fst demo_end)))"
  by (simp_all add: demo_end_def demo_cmd_defs demo_op_defs demo_state_defs audit_visible_to_actor_def
      transaction_visible_to_actor_def can_view_balances_def)

lemma audit_log_leaks_nothing_witness:
  "\<exists>t. om_get (transactions (fst demo_end)) 60 = Some t \<and> transaction_visible_to_actor (fst demo_end) 2 t"
  using audit_log_leaks_nothing [OF demo_inv demo_env_ok demo_end_run demo_end_log(3,2,4)] demo_end_log(1) by auto

text \<open>
  a transaction on a personal ledger is seen and made by the ledger's owner alone: nobody else may
  perform any action on that ledger, see its transactions or its balances.
\<close>

theorem personal_ledger_is_private:
  assumes "lg_kind l = Personal" and "owner_user_id l \<noteq> Some u"
    and "om_get (ledgers s) k = Some l"
  shows "\<not> authorized s u l a \<and> \<not> can_view_balances s u l
     \<and> (transaction_visible_to_actor s u t \<longrightarrow> tx_ledger t \<noteq> k)
     \<and> (ct_actor i = u \<and> ct_ledger i = k \<longrightarrow> create_transaction env i (s, w) = (Err Unauthorized, (s, w)))"
  using assms
  by (auto simp: authorized_def can_perform_personal_def can_view_balances_def transaction_visible_to_actor_def
      create_transaction_def)

definition demo_personal :: ledger where
  "demo_personal = \<lparr>lg_id = 31, lg_name = ''mine'', lg_kind = Personal, owner_user_id = Some 2,
     organization_id = None, lg_created_at = 0, lg_deleted_at = None\<rparr>"

lemma personal_ledger_is_private_witness:
  "\<not> authorized (demo_app\<lparr>ledgers := om_insert 31 demo_personal (ledgers demo_app)\<rparr>) 4 demo_personal ViewLedger"
  using personal_ledger_is_private [of demo_personal 4 "demo_app\<lparr>ledgers := om_insert 31 demo_personal (ledgers demo_app)\<rparr>" 31]
  by (simp add: demo_personal_def)

section \<open>Snapshots\<close>

lemma om_collect_keyed: "om_keyed f m \<Longrightarrow> om_collect (map (\<lambda>v. (f v, v)) (om_values m)) = m"
  by (rule om_collect_values) (rule om_keyedD)

text \<open>
  Saving and loading is exact: a state of the current schema version whose objects are stored under
  their own identifiers comes back from its snapshot unchanged, with no error and no identifier drawn.
\<close>

theorem snapshot_round_trip:
  assumes "maps_ok s" and "schema_version s = app_state_schema_version"
  shows "from_snapshot env (snapshot s) w = (Ok (), s, w)"
  using assms
  by (simp add: from_snapshot_def snapshot_def migrate_to_current_schema_def app_state_schema_version_def
      collect_by_def maps_ok_def om_collect_keyed)

lemma snapshot_round_trip_witness:
  "from_snapshot demo_env (snapshot demo_app) demo_world = (Ok (), demo_app, demo_world)"
  by (rule snapshot_round_trip [OF demo_maps]) (simp add: demo_app_def app_state_schema_version_def)

end
