(* ===== verification/SetupProperties.thy ===== *)
theory SetupProperties
  imports OrganizationProperties
begin

text \<open>
  The setup of a ledger (standard accounts, default categories): it never panics on the application's
  states, leaves every standard account and category in place, and keeps what was there; so every
  organization and every registered user starts with a complete ledger.
\<close>

section \<open>What the setup leaves in place\<close>

definition has_account :: "app_ledger_service \<Rightarrow> uuid \<Rightarrow> financial_account_kind \<Rightarrow> bool" where
  "has_account s l kind \<longleftrightarrow> (\<exists>k a. om_get (accounts s) k = Some a \<and> fa_ledger a = l \<and> fa_kind a = kind \<and> fa_deleted_at a = None)"

definition has_category :: "app_ledger_service \<Rightarrow> uuid \<Rightarrow> string \<times> category_kind \<Rightarrow> bool" where
  "has_category s l e \<longleftrightarrow> (\<exists>k c. om_get (categories s) k = Some c \<and> cat_ledger c = l \<and> cat_kind c = snd e \<and> cat_name c = fst e)"

definition ledger_ready :: "app_ledger_service \<Rightarrow> uuid \<Rightarrow> bool" where
  "ledger_ready s l \<longleftrightarrow> (\<forall>e \<in> set standard_accounts. has_account s l (snd e)) \<and> (\<forall>e \<in> set default_categories. has_category s l e)"

definition same_use :: "financial_account \<Rightarrow> financial_account \<Rightarrow> bool" where
  "same_use a a' \<longleftrightarrow> fa_ledger a' = fa_ledger a \<and> fa_kind a' = fa_kind a \<and> fa_deleted_at a' = fa_deleted_at a"

definition keeps :: "app_ledger_service \<Rightarrow> app_ledger_service \<Rightarrow> bool" where
  "keeps s s' \<longleftrightarrow> om_extends same_use (accounts s) (accounts s') \<and> om_extends (=) (categories s) (categories s')"

lemma same_use_refl [simp]: "same_use a a"
  by (simp add: same_use_def)

lemma keeps_refl [simp]: "keeps s s"
  by (simp add: keeps_def)

lemma keeps_trans: "keeps s t \<Longrightarrow> keeps t u \<Longrightarrow> keeps s u"
  using om_extends_trans [of same_use "accounts s" "accounts t" "accounts u"]
    om_extends_trans [of "(=)" "categories s" "categories t" "categories u"]
  by (simp add: keeps_def same_use_def)

lemma keeps_account: "keeps s s' \<Longrightarrow> has_account s l kind \<Longrightarrow> has_account s' l kind"
  unfolding keeps_def has_account_def om_extends_def same_use_def by metis

lemma keeps_category: "keeps s s' \<Longrightarrow> has_category s l e \<Longrightarrow> has_category s' l e"
  unfolding keeps_def has_category_def om_extends_def by metis

section \<open>One turn of each loop\<close>

text \<open>A call that succeeds, keeps the setup invariant and what was there, and brings about \<open>P\<close>.\<close>

definition brings :: "(app_ledger_service \<Rightarrow> bool) \<Rightarrow> app_state \<Rightarrow> (unit, app_error) result \<times> app_state \<Rightarrow> bool" where
  "brings P \<sigma> x \<longleftrightarrow> fst x = Ok () \<and> setup_inv (snd x) \<and> keeps (fst \<sigma>) (fst (snd x)) \<and> P (fst (snd x))"

lemma setup_step_invD: "setup_step \<sigma> \<tau> \<Longrightarrow> setup_inv \<sigma> \<Longrightarrow> setup_inv \<tau>"
  by (simp add: setup_step_def)

lemma fresh_account: "setup_inv (s, w) \<Longrightarrow> om_get (accounts s) (fst (new_v4 w)) = None"
  using fresh_new_v4(1) [of w "used_ids s"] by (auto simp: setup_inv_def used_ids_def intro: om_get_notin_dom)

lemma fresh_category: "setup_inv (s, w) \<Longrightarrow> om_get (categories s) (fst (new_v4 w)) = None"
  using fresh_new_v4(1) [of w "used_ids s"] by (auto simp: setup_inv_def used_ids_def intro: om_get_notin_dom)

lemma ensure_account_brings:
  assumes "setup_inv \<sigma>" "env_ok env" "valid_currency cur"
  shows "brings (\<lambda>s. has_account s l kind) \<sigma> (ensure_account env l cur name kind \<sigma>)"
proof -
  obtain s w where \<sigma>: "\<sigma> = (s, w)" by (cases \<sigma>)
  have inv: "setup_inv (snd (ensure_account env l cur name kind \<sigma>))"
    using setup_step_invD [OF step_ensure_account assms(1)] .
  show ?thesis
  proof (cases "List.find (\<lambda>(k, a). fa_ledger a = l \<and> fa_kind a = kind \<and> fa_deleted_at a = None) (om_entries (accounts s))")
    case None
    have "to_uppercase env (trim cur) = cur"
      using assms(2,3) by (simp add: env_ok_def valid_currency_trim)
    then have "money_new (to_uppercase env) 0 cur = Ok \<lparr>amount_minor = 0, currency = cur\<rparr>"
      using assms(3) by (simp add: money_new_Ok)
    with None inv fresh_account [of s w] assms(1) show ?thesis
      by (auto simp: brings_def ensure_account_def \<sigma> split_beta financial_account_new_def keeps_def has_account_def
          intro!: om_extends_new)
  next
    case (Some p)
    then obtain k a where p: "p = (k, a)" "om_get (accounts s) k = Some a" "fa_ledger a = l" "fa_kind a = kind"
      "fa_deleted_at a = None"
      using find_Some_in [OF Some] by (cases p) (auto simp: om_in_entries)
    with Some inv show ?thesis
      by (auto simp: brings_def ensure_account_def \<sigma> keeps_def has_account_def same_use_def
          intro!: om_extends_replace)
  qed
qed

lemma ensure_accounts_brings:
  assumes "setup_inv \<sigma>" "env_ok env" "valid_currency cur"
  shows "brings (\<lambda>s. \<forall>e \<in> set ps. has_account s l (snd e)) \<sigma> (ensure_accounts env l cur ps \<sigma>)"
  using assms(1)
proof (induction ps arbitrary: \<sigma>)
  case Nil
  then show ?case by (simp add: brings_def)
next
  case (Cons e ps)
  obtain name kind where e: "e = (name, kind)" by (cases e)
  from ensure_account_brings [OF Cons.prems assms(2,3), of l kind name]
  obtain \<tau> where \<tau>: "ensure_account env l cur name kind \<sigma> = (Ok (), \<tau>)" "setup_inv \<tau>" "keeps (fst \<sigma>) (fst \<tau>)"
    "has_account (fst \<tau>) l kind"
    by (cases "ensure_account env l cur name kind \<sigma>") (auto simp: brings_def)
  from Cons.IH [OF \<tau>(2)] \<tau> keeps_trans [OF \<tau>(3)] keeps_account show ?case
    by (auto simp: e brings_def)
qed

lemma ensure_category_brings:
  assumes "setup_inv \<sigma>"
  shows "setup_inv (ensure_category l e \<sigma>) \<and> keeps (fst \<sigma>) (fst (ensure_category l e \<sigma>))
    \<and> has_category (fst (ensure_category l e \<sigma>)) l e"
proof -
  obtain s w where \<sigma>: "\<sigma> = (s, w)" by (cases \<sigma>)
  have inv: "setup_inv (ensure_category l e \<sigma>)"
    using setup_step_invD [OF step_ensure_category assms] .
  show ?thesis
  proof (cases "list_ex (\<lambda>c. cat_ledger c = l \<and> cat_kind c = snd e \<and> cat_name c = fst e) (om_values (categories s))")
    case True
    with inv show ?thesis
      by (auto simp: ensure_category_def \<sigma> split_beta has_category_def list_ex_iff om_in_values) blast
  next
    case False
    with inv fresh_category [of s w] assms show ?thesis
      by (auto simp: ensure_category_def \<sigma> split_beta has_category_def keeps_def intro!: om_extends_new)
  qed
qed

lemma fold_category_brings:
  assumes "setup_inv \<sigma>"
  shows "setup_inv (fold (ensure_category l) es \<sigma>) \<and> keeps (fst \<sigma>) (fst (fold (ensure_category l) es \<sigma>))
    \<and> (\<forall>e \<in> set es. has_category (fst (fold (ensure_category l) es \<sigma>)) l e)"
  using assms
proof (induction es arbitrary: \<sigma>)
  case (Cons e es)
  let ?\<tau> = "ensure_category l e \<sigma>"
  note c = ensure_category_brings [OF Cons.prems, of l e]
  from Cons.IH [of ?\<tau>] c keeps_trans [of "fst \<sigma>" "fst ?\<tau>"] keeps_category [of "fst ?\<tau>"]
  show ?case by auto
qed simp

lemma ledger_currency_valid: "maps_ok s \<Longrightarrow> valid_currency (ledger_currency s l)"
proof -
  assume m: "maps_ok s"
  have "valid_currency ''CNY''" by (simp add: valid_currency_def is_ascii_uppercase_def)
  then show ?thesis
    using m by (auto simp: ledger_currency_def maps_ok_def om_in_values split: option.splits dest!: find_Some_in)
qed

text \<open>The whole setup of one ledger.\<close>

lemma ensure_ledger_setup_brings:
  assumes "setup_inv \<sigma>" "env_ok env"
  shows "brings (\<lambda>s. ledger_ready s l) \<sigma> (ensure_ledger_setup env l \<sigma>)"
proof -
  have "valid_currency (ledger_currency (fst \<sigma>) l)"
    using assms(1) ledger_currency_valid by (simp add: setup_inv_def)
  from ensure_accounts_brings [OF assms this, of standard_accounts l]
  obtain \<tau> where \<tau>: "ensure_standard_accounts_for_ledger env l \<sigma> = (Ok (), \<tau>)" "setup_inv \<tau>" "keeps (fst \<sigma>) (fst \<tau>)"
    "\<forall>e \<in> set standard_accounts. has_account (fst \<tau>) l (snd e)"
    by (cases "ensure_standard_accounts_for_ledger env l \<sigma>")
      (auto simp: brings_def ensure_standard_accounts_for_ledger_def)
  from fold_category_brings [OF \<tau>(2), of l default_categories] \<tau> keeps_trans [OF \<tau>(3)] keeps_account show ?thesis
    by (auto simp: brings_def ensure_ledger_setup_def ensure_default_categories_for_ledger_def ledger_ready_def)
qed

section \<open>New organizations\<close>

lemma find_append_new: "List.find P xs = None \<Longrightarrow> P x \<Longrightarrow> List.find P (xs @ [x]) = Some x"
  by (induction xs) (auto split: if_splits)

text \<open>
  creating an organization with a name and an administrator who can be reached always succeeds: the
  organization gets a new identifier, the administrator its one owner, and its public ledger every
  standard account and every default category; an existing organization's members are not touched.
\<close>

theorem organization_starts_complete:
  assumes "app_inv \<sigma>" and "env_ok env" and "staff_ok (staff (fst \<sigma>))"
    and "trim (co_name i) \<noteq> []" and "trim (co_admin_display_name i) \<noteq> []"
    and "Option.bind (co_admin_email i) (normalize_optional_email env) \<noteq> None"
  shows "\<exists>dto s' w' org l. create_organization env i \<sigma> = (Ok dto, s', w')
     \<and> om_get (organizations (fst \<sigma>)) org = None \<and> om_get (organizations s') org \<noteq> None
     \<and> om_get (ledgers s') (lg_id l) = Some l \<and> lg_kind l = OrganizationPublic \<and> organization_id l = Some org
     \<and> ledger_ready s' (lg_id l) \<and> AppState.membership_role s' (co_admin_user i) org = Some Owner
     \<and> owner_count s' org = 1 \<and> (\<exists>m. memberships s' = memberships (fst \<sigma>) @ [m] \<and> ms_organization m = org)"
proof -
  obtain g l m \<tau> dto where f: "founding \<sigma> (co_admin_user i) g l m \<tau>"
    "create_organization env i \<sigma> = perform (ensure_ledger_setup env (lg_id l) \<tau>) id (\<lambda>_ \<sigma>. (Ok dto, \<sigma>))"
    using create_organization_shape assms(4-6) by blast
  note fd = f(1) [unfolded founding_def]
  note new = founding_staff [OF f(1) assms(1)]
  have "setup_inv \<sigma>" using assms(1) by (simp add: app_inv_def setup_inv_def books_maps)
  then have "setup_inv \<tau>" using fd setup_step_invD by blast
  from ensure_ledger_setup_brings [OF this assms(2), of "lg_id l"]
  obtain s' w' where t: "ensure_ledger_setup env (lg_id l) \<tau> = (Ok (), s', w')" "ledger_ready s' (lg_id l)"
    by (cases "ensure_ledger_setup env (lg_id l) \<tau>") (auto simp: brings_def)
  have st: "staff s' = staff (fst \<tau>)" using staff_ensure_ledger_setup [of env "lg_id l" \<tau>] t(1) by simp
  then have ms: "memberships s' = memberships (fst \<sigma>) @ [m]" "organizations s' = om_insert (org_id g) g (organizations (fst \<sigma>))"
    using fd by (simp_all add: staff_eq)
  have "\<forall>x \<in> set (memberships (fst \<sigma>)). ms_organization x \<noteq> org_id g"
    using assms(3) new(2) by (auto simp: staff_ok_def staff_def om_dom_def)
  then have "AppState.membership_role s' (co_admin_user i) (org_id g) = Some Owner" "owner_count s' (org_id g) = 1"
    using fd by (simp_all add: AppState.membership_role_def owner_count_def ms find_append_new find_None filter_empty_conv)
  moreover obtain l' where "om_get (ledgers s') (lg_id l) = Some l'" "same_ledger l l'"
  proof -
    have "setup_step \<tau> (s', w')" using step_ensure_ledger_setup [of \<tau> env "lg_id l"] t(1) by simp
    then have "om_extends same_ledger (ledgers (fst \<tau>)) (ledgers s')"
      using \<open>setup_inv \<tau>\<close> by (simp add: setup_step_def books_extend_def)
    then show ?thesis using om_extends_get fd that by metis
  qed
  moreover then have "om_get (ledgers s') (lg_id l') = Some l'" "lg_kind l' = OrganizationPublic"
    "organization_id l' = Some (org_id g)" "ledger_ready s' (lg_id l')"
    using fd t(2) by (simp_all add: same_ledger_def)
  ultimately show ?thesis
    using f(2) t(1) fd new(2) ms by (intro exI [of _ dto] exI [of _ s'] exI [of _ w'] exI [of _ "org_id g"] exI [of _ l']) simp
qed

definition demo_founding :: create_organization_input where
  "demo_founding = \<lparr>co_name = ''Z'', co_admin_user = 6, co_admin_display_name = ''Y'', co_admin_email = Some ''x'',
     co_admin_phone = None\<rparr>"

lemma demo_founding_ok:
  "trim (co_name demo_founding) \<noteq> []" "trim (co_admin_display_name demo_founding) \<noteq> []"
  "Option.bind (co_admin_email demo_founding) (normalize_optional_email demo_env) \<noteq> None"
  by code_simp+

lemma organization_starts_complete_witness:
  "\<exists>dto s' w' org (l :: ledger). create_organization demo_env demo_founding demo_staffed = (Ok dto, s', w')
     \<and> organization_id l = Some org \<and> ledger_ready s' (lg_id l) \<and> owner_count s' org = 1"
  using organization_starts_complete [OF demo_staffed_inv demo_env_ok demo_staffed_ok demo_founding_ok] by blast

end
