(* ===== verification/AuthState.thy ===== *)
theory AuthState
  imports AppState
begin

text \<open>
  The accounts and sessions of the server (\<open>cloudledger-server/src/auth.rs\<close>): errors, inputs, the state
  of \<open>AuthService\<close>, and the free functions at the end of the file. What the module takes from other
  crates is the parameter \<open>auth_env\<close>: SHA-256 in hexadecimal, and Argon2 hashing and verification. Random
  tokens (32 random bytes in base64) and salts are drawn from \<open>auth_world\<close>, next to identifiers and clock.
\<close>

section \<open>The outside\<close>

record auth_env =
  ae_env :: env
  sha256_hex :: "string \<Rightarrow> string"
  argon2_hash :: "string \<Rightarrow> string \<Rightarrow> string option"
  argon2_verify :: "string \<Rightarrow> string \<Rightarrow> bool"

record auth_world =
  aw_world :: world
  aw_tokens :: "nat \<Rightarrow> string"
  aw_salts :: "nat \<Rightarrow> string"

definition auth_new_v4 :: "auth_world \<Rightarrow> uuid \<times> auth_world" where
  "auth_new_v4 w = (let (i, v) = new_v4 (aw_world w) in (i, w\<lparr>aw_world := v\<rparr>))"

definition auth_now :: "auth_world \<Rightarrow> instant \<times> auth_world" where
  "auth_now w = (let (t, v) = now_utc (aw_world w) in (t, w\<lparr>aw_world := v\<rparr>))"

definition random_token :: "auth_world \<Rightarrow> string \<times> auth_world" where
  "random_token w = (aw_tokens w 0, w\<lparr>aw_tokens := \<lambda>n. aw_tokens w (Suc n)\<rparr>)"

section \<open>Errors, constants, data\<close>

datatype auth_error =
    EmailAlreadyRegistered
  | PhoneAlreadyRegistered
  | LoginIdentifierRequired
  | DisplayNameRequired
  | PasswordRequired
  | PasswordPolicyViolation
  | InstallationIdRequired
  | InstallationAlreadyBound
  | InvalidCredentials
  | LoginRateLimited nat
  | TurnstileRequired
  | BusinessAppAccessDenied
  | AdminAccessDenied
  | AdminOrganizationRequired
  | SessionNotFound
  | RefreshReplayDetected
  | PasswordHashFailed
  | AuthStorage string

definition min_password_length :: nat where "min_password_length = 12"
definition max_password_length :: nat where "max_password_length = 128"

text \<open>Times are in nanoseconds: 15 minutes, 30 days, 8 hours.\<close>

definition seconds :: "int \<Rightarrow> int" where "seconds n = n * 1000000000"

definition app_access_token_ttl :: int where "app_access_token_ttl = seconds (15 * 60)"
definition app_refresh_token_ttl :: int where "app_refresh_token_ttl = seconds (30 * 24 * 60 * 60)"
definition admin_session_ttl :: int where "admin_session_ttl = seconds (8 * 60 * 60)"

datatype account_kind = Business | OrganizationAdmin

record auth_user_dto =
  au_id :: uuid
  au_display_name :: string
  au_email :: "string option"
  au_phone :: "string option"
  au_account_kind :: account_kind
  au_organization :: "uuid option"

record session =
  sn_user :: auth_user_dto
  sn_access_token :: string
  sn_refresh_token :: string
  sn_installation :: string

record authenticated_session =
  an_user :: auth_user_dto
  an_installation :: string

record admin_session =
  ad_user :: auth_user_dto
  ad_access_token :: string
  ad_organization :: uuid

record admin_authenticated_session =
  aa_user :: auth_user_dto
  aa_organization :: uuid

record register_input =
  ri_user :: "uuid option"
  ri_display_name :: string
  ri_email :: "string option"
  ri_phone :: "string option"
  ri_password :: string
  ri_installation :: string

record admin_create_user_input =
  ac_user :: uuid
  ac_display_name :: string
  ac_email :: "string option"
  ac_phone :: "string option"
  ac_password :: "string option"
  ac_account_kind :: account_kind
  ac_organization :: "uuid option"

record login_input =
  li_email :: "string option"
  li_phone :: "string option"
  li_password :: string
  li_installation :: string

record admin_login_input =
  ali_email :: "string option"
  ali_phone :: "string option"
  ali_password :: string

record refresh_input =
  fi_refresh_token :: string
  fi_installation :: string

record stored_user =
  su_id :: uuid
  su_display_name :: string
  su_email :: "string option"
  su_phone :: "string option"
  su_password_hash :: string
  su_account_kind :: account_kind
  su_organization :: "uuid option"
  su_created_at :: instant
  su_updated_at :: instant

datatype session_kind = Tauri | Web | AdminKind

record stored_session =
  ss_id :: uuid
  ss_family :: uuid
  ss_user :: uuid
  ss_installation :: string
  ss_access_token :: string
  ss_refresh_token :: string
  ss_kind :: session_kind
  ss_created_at :: instant
  ss_access_expires_at :: instant
  ss_refresh_expires_at :: "instant option"
  ss_rotated_at :: "instant option"
  ss_revoked_at :: "instant option"

record auth_service =
  users_by_id :: "(uuid, stored_user) ord_map"
  user_ids_by_email :: "(string, uuid) ord_map"
  user_ids_by_phone :: "(string, uuid) ord_map"
  installations_by_id :: "(string, uuid) ord_map"
  sessions_by_access_token :: "(string, stored_session) ord_map"
  access_tokens_by_refresh_token :: "(string, string) ord_map"

record auth_snapshot =
  asn_users :: "stored_user list"
  asn_installations :: "(string \<times> uuid) list"
  asn_sessions :: "stored_session list"

definition auth_default :: auth_service where
  "auth_default =
     \<lparr>users_by_id = om_empty, user_ids_by_email = om_empty, user_ids_by_phone = om_empty,
      installations_by_id = om_empty, sessions_by_access_token = om_empty,
      access_tokens_by_refresh_token = om_empty\<rparr>"

type_synonym auth_state = "auth_service \<times> auth_world"

section \<open>The functions at the end of the file\<close>

definition token_digest :: "auth_env \<Rightarrow> string \<Rightarrow> string" where
  "token_digest env token = sha256_hex env (trim token)"

definition hash_password ::
  "auth_env \<Rightarrow> string \<Rightarrow> auth_world \<Rightarrow> (string, auth_error) result \<times> auth_world" where
  "hash_password env password w =
     (case argon2_hash env password (aw_salts w 0) of
        Some h \<Rightarrow> Ok h | None \<Rightarrow> Err PasswordHashFailed,
      w\<lparr>aw_salts := \<lambda>n. aw_salts w (Suc n)\<rparr>)"

text \<open>An unreadable hash and a wrong password are the same error; \<open>argon2_verify\<close> is false in both cases.\<close>

definition verify_password :: "auth_env \<Rightarrow> string \<Rightarrow> string \<Rightarrow> (unit, auth_error) result" where
  "verify_password env password h = (if argon2_verify env password h then Ok () else Err InvalidCredentials)"

definition consume_unknown_user_password_work ::
  "auth_env \<Rightarrow> string \<Rightarrow> auth_world \<Rightarrow> (unit, auth_error) result \<times> auth_world" where
  "consume_unknown_user_password_work env password w =
     perform (hash_password env password w) id (\<lambda>_ w. (Ok (), w))"

definition auth_user_dto_of :: "stored_user \<Rightarrow> auth_user_dto" where
  "auth_user_dto_of u =
     \<lparr>au_id = su_id u, au_display_name = su_display_name u, au_email = su_email u, au_phone = su_phone u,
      au_account_kind = su_account_kind u, au_organization = su_organization u\<rparr>"

definition auth_display_name :: "string \<Rightarrow> (string, auth_error) result" where
  "auth_display_name value =
     (let value = trim value in if value = [] then Err DisplayNameRequired else Ok value)"

definition validate_new_password :: "string \<Rightarrow> (string, auth_error) result" where
  "validate_new_password value =
     (if trim value = [] then Err PasswordRequired
      else if \<not> (min_password_length \<le> chars_count value \<and> chars_count value \<le> max_password_length)
        then Err PasswordPolicyViolation
      else Ok value)"

definition auth_optional_email :: "auth_env \<Rightarrow> string \<Rightarrow> string option" where
  "auth_optional_email env s =
     (let normalized = to_lowercase (ae_env env) (trim s) in if normalized \<noteq> [] then Some normalized else None)"

definition auth_optional_phone :: "string \<Rightarrow> string option" where
  "auth_optional_phone s = (let normalized = trim s in if normalized \<noteq> [] then Some normalized else None)"

definition normalize_installation_id :: "string \<Rightarrow> (string, auth_error) result" where
  "normalize_installation_id value =
     (let value = trim value in if value = [] then Err InstallationIdRequired else Ok value)"

definition strip_prefix :: "string \<Rightarrow> string \<Rightarrow> string option" where
  "strip_prefix p s = (if take (length p) s = p then Some (drop (length p) s) else None)"

definition normalize_bearer_token :: "string \<Rightarrow> string" where
  "normalize_bearer_token value =
     (case strip_prefix ''Bearer '' (trim value) of Some token \<Rightarrow> token | None \<Rightarrow> trim value)"

definition require_login_identifier :: "string option \<Rightarrow> string option \<Rightarrow> (unit, auth_error) result" where
  "require_login_identifier mail tel =
     (if mail = None \<and> tel = None then Err LoginIdentifierRequired else Ok ())"

end
