(* ===== verification/LoginProtection.thy ===== *)
theory LoginProtection
  imports AuthState "HOL-Library.AList"
begin

text \<open>
  Rate limiting of logins and of suspicious requests (\<open>cloudledger-server/src/login_protection.rs\<close>): the
  in-memory tables of failures and the rows of the PostgreSQL backend, whose SQL statements are translated
  as functions on the row they touch. An \<open>Instant\<close> and an \<open>OffsetDateTime\<close> are both counted in nanoseconds, a
  \<open>Duration\<close> is a natural number of them. A \<open>HashMap\<close> is an association list whose order stands for the
  map's iteration order, which only the choice among equally old entries depends on.
\<close>

type_synonym duration = nat
type_synonym ip_addr = nat

record lp_env =
  lp_text :: env
  lp_instant_max :: instant

section \<open>Durations and instants\<close>

definition from_secs :: "nat \<Rightarrow> duration" where "from_secs n = n * 1000000000"
definition as_secs :: "duration \<Rightarrow> nat" where "as_secs d = d div 1000000000"
definition duration_max :: duration where "duration_max = from_secs (2 ^ 64 - 1) + 999999999"
definition u32_max :: nat where "u32_max = 2 ^ 32 - 1"

definition duration_saturating_add :: "duration \<Rightarrow> duration \<Rightarrow> duration" where
  "duration_saturating_add a b = min (a + b) duration_max"

definition saturating_duration_since :: "instant \<Rightarrow> instant \<Rightarrow> duration" where
  "saturating_duration_since a b = nat (a - b)"

definition instant_checked_add :: "lp_env \<Rightarrow> instant \<Rightarrow> duration \<Rightarrow> instant option" where
  "instant_checked_add env t d = (if t + int d \<le> lp_instant_max env then Some (t + int d) else None)"

section \<open>Configuration\<close>

datatype login_surface = BusinessSurface | OrganizationAdminSurface | PlatformSurface | AdminAuthorizationSurface

datatype security_rate_kind = RefreshRate | InvalidBearerRate | AnonymousProbeRate

definition max_tracked_keys :: nat where "max_tracked_keys = 10000"
definition invalid_bearer_limit :: nat where "invalid_bearer_limit = 60"

record login_security_config =
  ls_turnstile_after_failures :: nat
  ls_max_failures_per_login :: nat
  ls_max_failures_per_ip :: nat
  ls_window_seconds :: nat
  ls_lockout_seconds :: nat

definition login_security_default :: login_security_config where
  "login_security_default =
     \<lparr>ls_turnstile_after_failures = 3, ls_max_failures_per_login = 5, ls_max_failures_per_ip = 20,
      ls_window_seconds = 15 * 60, ls_lockout_seconds = 15 * 60\<rparr>"

text \<open>The checks of the login section when the configuration file is read; the error is its message's key.\<close>

datatype login_config_error = TurnstileNotBelowLimit | NoFailuresPerLogin | IpLimitBelowLoginLimit | ZeroWindowOrLockout

definition validate_login_security :: "login_security_config \<Rightarrow> (unit, login_config_error) result" where
  "validate_login_security c =
     (if ls_turnstile_after_failures c = 0 \<or> ls_turnstile_after_failures c \<ge> ls_max_failures_per_login c
        then Err TurnstileNotBelowLimit
      else if ls_max_failures_per_login c = 0 then Err NoFailuresPerLogin
      else if ls_max_failures_per_ip c < ls_max_failures_per_login c then Err IpLimitBelowLoginLimit
      else if ls_window_seconds c = 0 \<or> ls_lockout_seconds c = 0 then Err ZeroWindowOrLockout
      else Ok ())"

record login_protection_config =
  turnstile_after_failures :: nat
  max_failures_per_login :: nat
  max_failures_per_ip :: nat
  lp_window :: duration
  lp_lockout :: duration

definition from_settings :: "login_security_config \<Rightarrow> login_protection_config" where
  "from_settings c =
     \<lparr>turnstile_after_failures = ls_turnstile_after_failures c,
      max_failures_per_login = ls_max_failures_per_login c, max_failures_per_ip = ls_max_failures_per_ip c,
      lp_window = from_secs (ls_window_seconds c), lp_lockout = from_secs (ls_lockout_seconds c)\<rparr>"

section \<open>The state of one key\<close>

record login_key =
  lk_ip :: ip_addr
  lk_surface :: login_surface
  lk_identifier :: string

definition login_key_new :: "lp_env \<Rightarrow> ip_addr \<Rightarrow> login_surface \<Rightarrow> string \<Rightarrow> login_key" where
  "login_key_new env ip surface identifier =
     \<lparr>lk_ip = ip, lk_surface = surface, lk_identifier = to_lowercase (lp_text env) (trim identifier)\<rparr>"

record failure_state =
  fs_failures :: nat
  fs_window_started :: instant
  fs_blocked_until :: "instant option"
  fs_last_seen :: instant

definition failure_state_new :: "instant \<Rightarrow> failure_state" where
  "failure_state_new now =
     \<lparr>fs_failures = 0, fs_window_started = now, fs_blocked_until = None, fs_last_seen = now\<rparr>"

definition failure_state_reset :: "failure_state \<Rightarrow> instant \<Rightarrow> failure_state" where
  "failure_state_reset st now =
     st\<lparr>fs_failures := 0, fs_window_started := now, fs_blocked_until := None, fs_last_seen := now\<rparr>"

definition active_retry_after ::
  "failure_state \<Rightarrow> instant \<Rightarrow> duration \<Rightarrow> duration option \<times> failure_state" where
  "active_retry_after st now window =
     (let st = st\<lparr>fs_last_seen := now\<rparr> in
      case fs_blocked_until st of
        Some b \<Rightarrow>
          if b > now then (Some (saturating_duration_since b now), st) else (None, failure_state_reset st now)
      | None \<Rightarrow>
          if saturating_duration_since now (fs_window_started st) \<ge> window then (None, failure_state_reset st now)
          else (None, st))"

definition record_failure_state ::
  "lp_env \<Rightarrow> failure_state \<Rightarrow> instant \<Rightarrow> duration \<Rightarrow> duration \<Rightarrow> nat \<Rightarrow> duration option \<times> failure_state" where
  "record_failure_state env st now window lockout limit =
     (case active_retry_after st now window of
        (Some retry, st) \<Rightarrow> (Some retry, st)
      | (None, st) \<Rightarrow>
          let st = st\<lparr>fs_failures := min (fs_failures st + 1) u32_max, fs_last_seen := now\<rparr> in
          if fs_failures st \<ge> limit
          then (Some lockout, st\<lparr>fs_blocked_until := instant_checked_add env now lockout\<rparr>)
          else (None, st))"

fun max_duration :: "duration option \<Rightarrow> duration option \<Rightarrow> duration option" where
  "max_duration (Some a) (Some b) = Some (max a b)"
| "max_duration (Some a) None = Some a"
| "max_duration None (Some b) = Some b"
| "max_duration None None = None"

definition rate_limit_error :: "duration \<Rightarrow> auth_error" where
  "rate_limit_error retry = LoginRateLimited (max (as_secs retry) 1)"

section \<open>The tables\<close>

type_synonym 'k failure_table = "('k \<times> failure_state) list"

text \<open>\<open>iter().min_by_key(last_seen)\<close>: the first of the oldest.\<close>

fun oldest_key :: "'k failure_table \<Rightarrow> ('k \<times> instant) option" where
  "oldest_key [] = None"
| "oldest_key ((k, st) # m) =
     (case oldest_key m of
        None \<Rightarrow> Some (k, fs_last_seen st)
      | Some (k', t) \<Rightarrow> if fs_last_seen st \<le> t then Some (k, fs_last_seen st) else Some (k', t))"

definition make_room :: "'k failure_table \<Rightarrow> 'k failure_table" where
  "make_room m =
     (if length m < max_tracked_keys then m
      else case oldest_key m of None \<Rightarrow> m | Some (k, _) \<Rightarrow> AList.delete k m)"

text \<open>\<open>entry(k).or_insert_with(new)\<close> passed to \<open>record_failure_state\<close>; \<open>get_mut(k)\<close> passed to \<open>active_retry_after\<close>.\<close>

definition record_entry ::
  "lp_env \<Rightarrow> duration \<Rightarrow> duration \<Rightarrow> nat \<Rightarrow> instant \<Rightarrow> 'k \<Rightarrow> 'k failure_table \<Rightarrow> duration option \<times> 'k failure_table" where
  "record_entry env window lockout limit now k m =
     (let st = (case map_of m k of Some st \<Rightarrow> st | None \<Rightarrow> failure_state_new now);
          (retry, st) = record_failure_state env st now window lockout limit
      in (retry, AList.update k st m))"

definition touch_entry ::
  "duration \<Rightarrow> instant \<Rightarrow> 'k \<Rightarrow> 'k failure_table \<Rightarrow> duration option \<times> 'k failure_table" where
  "touch_entry window now k m =
     (case map_of m k of
        None \<Rightarrow> (None, m)
      | Some st \<Rightarrow> let (retry, st) = active_retry_after st now window in (retry, AList.update k st m))"

definition retained :: "duration \<Rightarrow> instant \<Rightarrow> failure_state \<Rightarrow> bool" where
  "retained retention now st \<longleftrightarrow>
     (case fs_blocked_until st of None \<Rightarrow> False | Some b \<Rightarrow> b > now)
     \<or> saturating_duration_since now (fs_last_seen st) \<le> retention"

record login_protection =
  lp_config :: login_protection_config
  failures_by_login :: "login_key failure_table"
  failures_by_ip :: "ip_addr failure_table"

definition login_protection_new :: "login_protection_config \<Rightarrow> login_protection" where
  "login_protection_new c = \<lparr>lp_config = c, failures_by_login = [], failures_by_ip = []\<rparr>"

definition lp_prune :: "instant \<Rightarrow> login_protection \<Rightarrow> login_protection" where
  "lp_prune now p =
     (let retention = duration_saturating_add (lp_window (lp_config p)) (lp_lockout (lp_config p)) in
      p\<lparr>failures_by_login := filter (\<lambda>(_, st). retained retention now st) (failures_by_login p),
        failures_by_ip := filter (\<lambda>(_, st). retained retention now st) (failures_by_ip p)\<rparr>)"

definition check_at ::
  "lp_env \<Rightarrow> ip_addr \<Rightarrow> login_surface \<Rightarrow> string \<Rightarrow> instant \<Rightarrow> login_protection
     \<Rightarrow> (unit, auth_error) result \<times> login_protection" where
  "check_at env ip surface identifier now p =
     (let p = lp_prune now p;
          window = lp_window (lp_config p);
          (login_retry, logins) = touch_entry window now (login_key_new env ip surface identifier) (failures_by_login p);
          (ip_retry, ips) = touch_entry window now ip (failures_by_ip p)
      in (case max_duration login_retry ip_retry of
            Some retry \<Rightarrow> Err (rate_limit_error retry)
          | None \<Rightarrow> Ok (),
          p\<lparr>failures_by_login := logins, failures_by_ip := ips\<rparr>))"

definition record_failure_at ::
  "lp_env \<Rightarrow> ip_addr \<Rightarrow> login_surface \<Rightarrow> string \<Rightarrow> instant \<Rightarrow> login_protection
     \<Rightarrow> duration option \<times> login_protection" where
  "record_failure_at env ip surface identifier now p =
     (let p = lp_prune now p; c = lp_config p;
          (login_retry, logins) = record_entry env (lp_window c) (lp_lockout c) (max_failures_per_login c) now
             (login_key_new env ip surface identifier) (make_room (failures_by_login p));
          (ip_retry, ips) = record_entry env (lp_window c) (lp_lockout c) (max_failures_per_ip c) now
             ip (make_room (failures_by_ip p))
      in (max_duration login_retry ip_retry, p\<lparr>failures_by_login := logins, failures_by_ip := ips\<rparr>))"

definition record_failure ::
  "lp_env \<Rightarrow> ip_addr \<Rightarrow> login_surface \<Rightarrow> string \<Rightarrow> instant \<Rightarrow> login_protection
     \<Rightarrow> auth_error option \<times> login_protection" where
  "record_failure env ip surface identifier now p =
     (let (retry, p) = record_failure_at env ip surface identifier now p in (map_option rate_limit_error retry, p))"

definition record_success :: "lp_env \<Rightarrow> ip_addr \<Rightarrow> login_surface \<Rightarrow> string \<Rightarrow> login_protection \<Rightarrow> login_protection" where
  "record_success env ip surface identifier p =
     p\<lparr>failures_by_login := AList.delete (login_key_new env ip surface identifier) (failures_by_login p)\<rparr>"

definition challenge_required ::
  "lp_env \<Rightarrow> ip_addr \<Rightarrow> login_surface \<Rightarrow> string \<Rightarrow> instant \<Rightarrow> login_protection \<Rightarrow> bool \<times> login_protection" where
  "challenge_required env ip surface identifier now p =
     (let p = lp_prune now p in
      (case map_of (failures_by_login p) (login_key_new env ip surface identifier) of
         None \<Rightarrow> False
       | Some st \<Rightarrow> fs_failures st \<ge> turnstile_after_failures (lp_config p), p))"

section \<open>Suspicious requests\<close>

fun security_rate_policy :: "security_rate_kind \<Rightarrow> nat \<times> duration \<times> duration" where
  "security_rate_policy RefreshRate = (30, from_secs 60, from_secs (5 * 60))"
| "security_rate_policy InvalidBearerRate = (invalid_bearer_limit, from_secs 60, from_secs (10 * 60))"
| "security_rate_policy AnonymousProbeRate = (120, from_secs 60, from_secs (10 * 60))"

text \<open>The memory branch of \<open>check_security_request\<close>.\<close>

definition check_security_memory ::
  "lp_env \<Rightarrow> security_rate_kind \<Rightarrow> ip_addr \<Rightarrow> instant \<Rightarrow> (security_rate_kind \<times> ip_addr) failure_table
     \<Rightarrow> (unit, auth_error) result \<times> (security_rate_kind \<times> ip_addr) failure_table" where
  "check_security_memory env kind ip now m =
     (let (limit, window, lockout) = security_rate_policy kind;
          (retry, m) = record_entry env window lockout limit now (kind, ip) (make_room m)
      in (case retry of Some retry \<Rightarrow> Err (rate_limit_error retry) | None \<Rightarrow> Ok (), m))"

end
