(* ===== verification/LoginBuckets.thy ===== *)
theory LoginBuckets
  imports LoginProtection
begin

text \<open>
  The PostgreSQL backend of the login protection, and what both backends compute for one bucket. The
  statements of \<open>login_protection.rs\<close> are translated as functions on the row of their conflict key; a
  comparison with NULL is unknown in SQL and does not select its branch. Both backends refine one small
  specification: a bucket is idle, counting, or blocked.
\<close>

section \<open>Rows\<close>

record bucket_row =
  br_count :: nat
  br_window_started :: instant
  br_blocked_until :: "instant option"
  br_last_seen :: instant

definition later_than :: "instant option \<Rightarrow> instant \<Rightarrow> bool" where
  "later_than b t = (case b of None \<Rightarrow> False | Some u \<Rightarrow> t < u)"

definition i64_max_nat :: nat where "i64_max_nat = 2 ^ 63 - 1"

definition duration_to_time :: "duration \<Rightarrow> int" where
  "duration_to_time d = int (min (as_secs d) i64_max_nat) * 1000000000"

text \<open>\<open>whole_seconds\<close> truncates towards zero; the function is only called with \<open>until\<close> after \<open>now\<close>.\<close>

definition retry_after_error :: "instant \<Rightarrow> instant \<Rightarrow> auth_error" where
  "retry_after_error until now =
     LoginRateLimited (nat (max (sgn (until - now) * (\<bar>until - now\<bar> div 1000000000)) 1))"

fun max_timestamp :: "instant option \<Rightarrow> instant option \<Rightarrow> instant option" where
  "max_timestamp (Some a) (Some b) = Some (max a b)"
| "max_timestamp (Some a) None = Some a"
| "max_timestamp None (Some b) = Some b"
| "max_timestamp None None = None"

definition only_after :: "instant \<Rightarrow> instant option \<Rightarrow> instant option" where
  "only_after now r = (if later_than r now then r else None)"

text \<open>\<open>INSERT INTO login_failure_buckets ... ON CONFLICT ... DO UPDATE SET ... RETURNING blocked_until\<close>\<close>

definition upsert_failure_bucket ::
  "login_protection_config \<Rightarrow> nat \<Rightarrow> instant \<Rightarrow> bucket_row option \<Rightarrow> instant option \<times> bucket_row" where
  "upsert_failure_bucket c limit now row =
     (let window_cutoff = now - duration_to_time (lp_window c);
          blocked_until = now + duration_to_time (lp_lockout c);
          row = (case row of
            None \<Rightarrow> \<lparr>br_count = 1, br_window_started = now,
              br_blocked_until = (if 1 \<ge> limit then Some blocked_until else None), br_last_seen = now\<rparr>
          | Some r \<Rightarrow>
             \<lparr>br_count =
                (if later_than (br_blocked_until r) now then br_count r
                 else if br_window_started r \<le> window_cutoff then 1
                 else br_count r + 1),
              br_window_started =
                (if \<not> later_than (br_blocked_until r) now
                 then (if br_window_started r \<le> window_cutoff then now else br_window_started r)
                 else br_window_started r),
              br_blocked_until =
                (if later_than (br_blocked_until r) now then br_blocked_until r
                 else if br_window_started r \<le> window_cutoff
                   then (if 1 \<ge> limit then Some blocked_until else None)
                 else if br_count r + 1 \<ge> limit then Some blocked_until
                 else None),
              br_last_seen = now\<rparr>)
      in (only_after now (br_blocked_until row), row))"

text \<open>\<open>DELETE FROM ... WHERE last_seen_at < $1 AND (blocked_until IS NULL OR blocked_until < $2)\<close>, for one row.\<close>

definition cleanup_expired :: "login_protection_config \<Rightarrow> instant \<Rightarrow> bucket_row option \<Rightarrow> bucket_row option" where
  "cleanup_expired c now row =
     (case row of None \<Rightarrow> None
      | Some r \<Rightarrow>
          if br_last_seen r < now - duration_to_time (lp_window c + lp_lockout c)
            \<and> (case br_blocked_until r of None \<Rightarrow> True | Some b \<Rightarrow> b < now)
          then None else Some r)"

text \<open>The statement of the PostgreSQL branch of \<open>check_security_request\<close>.\<close>

definition upsert_security_limit ::
  "security_rate_kind \<Rightarrow> instant \<Rightarrow> bucket_row option \<Rightarrow> instant option \<times> bucket_row" where
  "upsert_security_limit kind now row =
     (let (limit, window, lockout) = security_rate_policy kind;
          cutoff = now - duration_to_time window;
          blocked_until = now + duration_to_time lockout;
          row = (case row of
            None \<Rightarrow> \<lparr>br_count = 1, br_window_started = now, br_blocked_until = None, br_last_seen = now\<rparr>
          | Some r \<Rightarrow>
             \<lparr>br_count =
                (if later_than (br_blocked_until r) now then br_count r
                 else if br_window_started r \<le> cutoff then 1
                 else br_count r + 1),
              br_window_started =
                (if br_window_started r \<le> cutoff \<and> \<not> later_than (br_blocked_until r) now then now
                 else br_window_started r),
              br_blocked_until =
                (if later_than (br_blocked_until r) now then br_blocked_until r
                 else if br_window_started r \<le> cutoff then None
                 else if br_count r + 1 > limit then Some blocked_until
                 else None),
              br_last_seen = now\<rparr>)
      in (br_blocked_until row, row))"

definition check_security_postgres ::
  "security_rate_kind \<Rightarrow> instant \<Rightarrow> bucket_row option \<Rightarrow> (unit, auth_error) result \<times> bucket_row" where
  "check_security_postgres kind now row =
     (let (result, row) = upsert_security_limit kind now row
      in (case only_after now result of Some until \<Rightarrow> Err (retry_after_error until now) | None \<Rightarrow> Ok (), row))"

section \<open>One bucket of each backend\<close>

text \<open>What \<open>record_failure_at\<close> and \<open>check_at\<close> do to one key's entry of the tables in memory.\<close>

definition prune_entry :: "login_protection_config \<Rightarrow> instant \<Rightarrow> failure_state option \<Rightarrow> failure_state option" where
  "prune_entry c now m =
     (case m of None \<Rightarrow> None
      | Some st \<Rightarrow> if retained (duration_saturating_add (lp_window c) (lp_lockout c)) now st then Some st else None)"

definition memory_failure ::
  "lp_env \<Rightarrow> login_protection_config \<Rightarrow> nat \<Rightarrow> instant \<Rightarrow> failure_state option \<Rightarrow> auth_error option \<times> failure_state option" where
  "memory_failure env c limit now m =
     (let st = (case prune_entry c now m of Some st \<Rightarrow> st | None \<Rightarrow> failure_state_new now);
          (retry, st) = record_failure_state env st now (lp_window c) (lp_lockout c) limit
      in (map_option rate_limit_error retry, Some st))"

definition memory_check :: "login_protection_config \<Rightarrow> instant \<Rightarrow> failure_state option \<Rightarrow> auth_error option" where
  "memory_check c now m =
     (case prune_entry c now m of None \<Rightarrow> None
      | Some st \<Rightarrow> map_option rate_limit_error (fst (active_retry_after st now (lp_window c))))"

definition postgres_failure ::
  "login_protection_config \<Rightarrow> nat \<Rightarrow> instant \<Rightarrow> bucket_row option \<Rightarrow> auth_error option \<times> bucket_row option" where
  "postgres_failure c limit now row =
     (let (blocked, row) = upsert_failure_bucket c limit now row
      in (map_option (\<lambda>until. retry_after_error until now) blocked, cleanup_expired c now (Some row)))"

definition postgres_check :: "instant \<Rightarrow> bucket_row option \<Rightarrow> auth_error option" where
  "postgres_check now row =
     (case row of None \<Rightarrow> None
      | Some r \<Rightarrow> map_option (\<lambda>until. retry_after_error until now) (only_after now (br_blocked_until r)))"

fun failures_run :: "(instant \<Rightarrow> 's \<Rightarrow> 'a \<times> 's) \<Rightarrow> instant list \<Rightarrow> 's \<Rightarrow> 'a list \<times> 's" where
  "failures_run f [] s = ([], s)"
| "failures_run f (t # ts) s = (let (a, s) = f t s; (as, s) = failures_run f ts s in (a # as, s))"

section \<open>The specification of a bucket\<close>

datatype bucket = Idle | Counting nat instant | Blocked instant

definition settle :: "login_protection_config \<Rightarrow> instant \<Rightarrow> bucket \<Rightarrow> bucket" where
  "settle c now b =
     (case b of Idle \<Rightarrow> Idle
      | Counting f w \<Rightarrow> if int (lp_window c) \<le> now - w then Idle else b
      | Blocked t \<Rightarrow> if t \<le> now then Idle else b)"

definition count_failure ::
  "login_protection_config \<Rightarrow> nat \<Rightarrow> instant \<Rightarrow> nat \<Rightarrow> instant \<Rightarrow> duration option \<times> bucket" where
  "count_failure c limit now f w =
     (if limit \<le> f then (Some (lp_lockout c), Blocked (now + int (lp_lockout c))) else (None, Counting f w))"

definition spec_failure ::
  "login_protection_config \<Rightarrow> nat \<Rightarrow> instant \<Rightarrow> bucket \<Rightarrow> duration option \<times> bucket" where
  "spec_failure c limit now b =
     (case settle c now b of
        Blocked t \<Rightarrow> (Some (nat (t - now)), Blocked t)
      | Counting f w \<Rightarrow> count_failure c limit now (f + 1) w
      | Idle \<Rightarrow> count_failure c limit now 1 now)"

definition spec_check :: "login_protection_config \<Rightarrow> instant \<Rightarrow> bucket \<Rightarrow> duration option" where
  "spec_check c now b = (case settle c now b of Blocked t \<Rightarrow> Some (nat (t - now)) | _ \<Rightarrow> None)"

section \<open>Refinement\<close>

definition abs_entry :: "failure_state option \<Rightarrow> bucket" where
  "abs_entry m =
     (case m of None \<Rightarrow> Idle
      | Some st \<Rightarrow> (case fs_blocked_until st of Some t \<Rightarrow> Blocked t
          | None \<Rightarrow> Counting (fs_failures st) (fs_window_started st)))"

definition abs_row :: "bucket_row option \<Rightarrow> bucket" where
  "abs_row m =
     (case m of None \<Rightarrow> Idle
      | Some r \<Rightarrow> (case br_blocked_until r of Some t \<Rightarrow> Blocked t
          | None \<Rightarrow> Counting (br_count r) (br_window_started r)))"

text \<open>
  A configuration as the server reads it: whole seconds, and a lockout at least as long as the window; the
  limit is at least one and fits its type.
\<close>

definition regular_config :: "login_protection_config \<Rightarrow> nat \<Rightarrow> bool" where
  "regular_config c limit \<longleftrightarrow>
     0 < lp_window c \<and> lp_window c \<le> lp_lockout c \<and> lp_window c + lp_lockout c \<le> duration_max
     \<and> lp_window c mod 1000000000 = 0 \<and> lp_lockout c mod 1000000000 = 0
     \<and> as_secs (lp_window c + lp_lockout c) \<le> i64_max_nat \<and> 1 \<le> limit \<and> limit \<le> u32_max"

definition entry_inv :: "login_protection_config \<Rightarrow> nat \<Rightarrow> instant \<Rightarrow> failure_state option \<Rightarrow> bool" where
  "entry_inv c limit now m \<longleftrightarrow>
     (case m of None \<Rightarrow> True
      | Some st \<Rightarrow> fs_window_started st \<le> fs_last_seen st \<and> fs_last_seen st \<le> now
          \<and> (fs_blocked_until st = None \<longrightarrow> fs_failures st < limit))"

definition row_inv :: "login_protection_config \<Rightarrow> nat \<Rightarrow> instant \<Rightarrow> bucket_row option \<Rightarrow> bool" where
  "row_inv c limit now m \<longleftrightarrow>
     (case m of None \<Rightarrow> True
      | Some r \<Rightarrow> br_window_started r \<le> br_last_seen r \<and> br_last_seen r \<le> now
          \<and> (case br_blocked_until r of None \<Rightarrow> True | Some t \<Rightarrow> br_window_started r + int (lp_lockout c) \<le> t))"

lemma settle_settle: "now \<le> now' \<Longrightarrow> settle c now' (settle c now b) = settle c now' b"
  by (auto simp: settle_def split: bucket.splits)

lemma spec_failure_settle: "spec_failure c limit now (settle c now b) = spec_failure c limit now b"
  by (simp add: spec_failure_def settle_settle)

lemma spec_check_settle: "spec_check c now (settle c now b) = spec_check c now b"
  by (simp add: spec_check_def settle_settle)

lemma prune_entry_abs:
  assumes "regular_config c limit" "entry_inv c limit now' m" "now' \<le> now"
  shows "settle c now (abs_entry (prune_entry c now m)) = settle c now (abs_entry m)"
  using assms
  by (auto simp: prune_entry_def abs_entry_def settle_def retained_def saturating_duration_since_def
    duration_saturating_add_def regular_config_def entry_inv_def split: option.splits if_splits)

lemma prune_entry_inv: "entry_inv c limit now m \<Longrightarrow> entry_inv c limit now (prune_entry c now' m)"
  by (auto simp: prune_entry_def entry_inv_def split: option.splits)

lemma inv_later: "entry_inv c limit now m \<Longrightarrow> now \<le> now' \<Longrightarrow> entry_inv c limit now' m"
  and row_inv_later: "row_inv c limit now r \<Longrightarrow> now \<le> now' \<Longrightarrow> row_inv c limit now' r"
  by (auto simp: entry_inv_def row_inv_def split: option.splits)

lemma record_failure_state_refines:
  assumes "regular_config c limit" "entry_inv c limit now (Some st)" "now + int (lp_lockout c) \<le> lp_instant_max env"
    and "record_failure_state env st now (lp_window c) (lp_lockout c) limit = (d, st')"
  shows "spec_failure c limit now (abs_entry (Some st)) = (d, abs_entry (Some st'))"
    and "entry_inv c limit now (Some st')"
proof -
  have cfg: "0 < lp_window c" "1 \<le> limit" "limit \<le> u32_max" using assms(1) by (simp_all add: regular_config_def)
  have "spec_failure c limit now (abs_entry (Some st)) = (d, abs_entry (Some st')) \<and> entry_inv c limit now (Some st')"
  proof (cases "fs_blocked_until st")
    case (Some t)
    then show ?thesis
      using assms(2-4) cfg
      by (auto simp: record_failure_state_def active_retry_after_def failure_state_reset_def spec_failure_def settle_def
        abs_entry_def count_failure_def entry_inv_def instant_checked_add_def saturating_duration_since_def u32_max_def
        Let_def split: if_splits)
  next
    case None
    then show ?thesis
      using assms(2-4) cfg
      by (auto simp: record_failure_state_def active_retry_after_def failure_state_reset_def spec_failure_def settle_def
        abs_entry_def count_failure_def entry_inv_def instant_checked_add_def saturating_duration_since_def u32_max_def
        Let_def nat_le_iff split: if_splits)
  qed
  then show "spec_failure c limit now (abs_entry (Some st)) = (d, abs_entry (Some st'))"
    and "entry_inv c limit now (Some st')" by simp_all
qed

lemma memory_failure_refines:
  assumes reg: "regular_config c limit" and inv: "entry_inv c limit now' m" "now' \<le> now"
    and max: "now + int (lp_lockout c) \<le> lp_instant_max env"
    and same: "settle c now (abs_entry m) = settle c now b"
    and step: "memory_failure env c limit now m = (r, m')" and spec: "spec_failure c limit now b = (d, b')"
  shows "r = map_option rate_limit_error d" and "abs_entry m' = b'" and "entry_inv c limit now m'"
proof -
  let ?st = "case prune_entry c now m of Some st \<Rightarrow> st | None \<Rightarrow> failure_state_new now"
  obtain d' st' where rec: "record_failure_state env ?st now (lp_window c) (lp_lockout c) limit = (d', st')" by fastforce
  have r: "r = map_option rate_limit_error d'" "m' = Some st'"
    using step by (simp_all add: memory_failure_def rec)
  have i: "entry_inv c limit now (Some ?st)"
    using prune_entry_inv [OF inv_later [OF inv], of now] reg
    by (auto simp: entry_inv_def failure_state_new_def regular_config_def split: option.splits)
  have "spec_failure c limit now (abs_entry (Some ?st)) = spec_failure c limit now (abs_entry (prune_entry c now m))"
    using reg by (auto simp: spec_failure_def settle_def abs_entry_def failure_state_new_def regular_config_def
      split: option.splits)
  also have "\<dots> = spec_failure c limit now b"
    using prune_entry_abs [OF reg inv] same spec_failure_settle by metis
  finally have "(d', abs_entry (Some st')) = (d, b')"
    using record_failure_state_refines(1) [OF reg i max rec] spec by simp
  then show "r = map_option rate_limit_error d" "abs_entry m' = b'" "entry_inv c limit now m'"
    using r record_failure_state_refines(2) [OF reg i max rec] by simp_all
qed

lemma duration_to_time_exact:
  assumes "d mod 1000000000 = 0" "as_secs d \<le> i64_max_nat"
  shows "duration_to_time d = int d"
proof -
  have "d = as_secs d * 1000000000" using div_mult_mod_eq [of d 1000000000] assms(1) by (simp add: as_secs_def)
  then have "int d = int (as_secs d) * 1000000000" by (metis of_nat_mult of_nat_numeral)
  with assms(2) show ?thesis by (simp add: duration_to_time_def)
qed

lemma regular_times:
  assumes "regular_config c limit"
  shows "duration_to_time (lp_window c) = int (lp_window c)" "duration_to_time (lp_lockout c) = int (lp_lockout c)"
    "duration_to_time (lp_window c + lp_lockout c) = int (lp_window c) + int (lp_lockout c)"
proof -
  have m: "lp_window c mod 1000000000 = 0" "lp_lockout c mod 1000000000 = 0" "(lp_window c + lp_lockout c) mod 1000000000 = 0"
    using assms by (auto simp: regular_config_def mod_add_eq [symmetric])
  have s: "as_secs (lp_window c + lp_lockout c) \<le> i64_max_nat" using assms by (simp add: regular_config_def)
  have "as_secs (lp_window c) \<le> as_secs (lp_window c + lp_lockout c)" "as_secs (lp_lockout c) \<le> as_secs (lp_window c + lp_lockout c)"
    by (simp_all add: as_secs_def div_le_mono)
  with s m show "duration_to_time (lp_window c) = int (lp_window c)" "duration_to_time (lp_lockout c) = int (lp_lockout c)"
    "duration_to_time (lp_window c + lp_lockout c) = int (lp_window c) + int (lp_lockout c)"
    by (simp_all add: duration_to_time_exact)
qed

lemma retry_errors_agree: "now < until \<Longrightarrow> retry_after_error until now = rate_limit_error (nat (until - now))"
proof -
  assume "now < until"
  then have "sgn (until - now) * (\<bar>until - now\<bar> div 1000000000) = int (as_secs (nat (until - now)))"
    by (simp add: as_secs_def zdiv_int)
  moreover have "nat (max (int a) 1) = max a 1" for a by (cases a) auto
  ultimately show ?thesis by (simp add: retry_after_error_def rate_limit_error_def)
qed

lemma postgres_failure_refines:
  assumes reg: "regular_config c limit" and inv: "row_inv c limit now' m" "now' \<le> now"
    and same: "settle c now (abs_row m) = settle c now b"
    and step: "postgres_failure c limit now m = (r, m')" and spec: "spec_failure c limit now b = (d, b')"
  shows "r = map_option rate_limit_error d" and "abs_row m' = b'" and "row_inv c limit now m'"
proof -
  have cfg: "0 < lp_window c" "lp_window c \<le> lp_lockout c" "1 \<le> limit" using reg by (simp_all add: regular_config_def)
  have spec': "spec_failure c limit now (abs_row m) = (d, b')"
    using same spec spec_failure_settle by metis
  have "r = map_option rate_limit_error d \<and> abs_row m' = b' \<and> row_inv c limit now m'"
  proof (cases m)
    case None
    then show ?thesis
      using step spec' cfg
      by (auto simp: postgres_failure_def upsert_failure_bucket_def regular_times [OF reg] cleanup_expired_def
        abs_row_def row_inv_def spec_failure_def settle_def count_failure_def only_after_def later_than_def
        retry_errors_agree Let_def split: if_splits)
  next
    case (Some row)
    then show ?thesis
      using step spec' cfg inv
      by (cases "br_blocked_until row")
        (auto simp: postgres_failure_def upsert_failure_bucket_def regular_times [OF reg] cleanup_expired_def
        abs_row_def row_inv_def spec_failure_def settle_def count_failure_def only_after_def later_than_def
        retry_errors_agree Let_def split: if_splits)
  qed
  then show "r = map_option rate_limit_error d" "abs_row m' = b'" "row_inv c limit now m'" by simp_all
qed

end
