(* ===== verification/LoginProperties.thy ===== *)
theory LoginProperties
  imports LoginBuckets Machine
begin

text \<open>
  What the login protection promises: its two backends give the same answers, a locked login stays locked
  until its time whatever else happens, and is then free again.
\<close>

section \<open>The backends agree\<close>





definition demo_lp_env :: lp_env where
  "demo_lp_env = \<lparr>lp_text = demo_env, lp_instant_max = 10 ^ 30\<rparr>"

abbreviation demo_lp_config :: login_protection_config where
  "demo_lp_config \<equiv> from_settings login_security_default"



text \<open>
  The security limits are not alike: the tables in memory refuse the request that reaches the limit, the SQL
  statement only the one after it.
\<close>

lemma security_limits_differ:
  assumes "fst (security_rate_policy kind) = Suc n" "0 < n" "br_count row = n" "br_blocked_until row = None"
    and "now - br_window_started row < 60 * 1000000000" "br_window_started row \<le> now"
    and "fs_failures st = n" "fs_blocked_until st = None" "fs_window_started st = br_window_started row"
  shows "fst (check_security_postgres kind now (Some row)) = Ok ()"
    and "\<not> is_ok (fst (check_security_memory env kind ip now [((kind, ip), st)]))"
  using assms
  by (cases kind; simp add: check_security_postgres_def upsert_security_limit_def check_security_memory_def Let_def
    split_beta record_entry_def record_failure_state_def active_retry_after_def make_room_def max_tracked_keys_def
    only_after_def later_than_def duration_to_time_def as_secs_def from_secs_def i64_max_nat_def
    saturating_duration_since_def invalid_bearer_limit_def u32_max_def)+

section \<open>A lockout lasts\<close>

datatype lp_event =
    LpCheck ip_addr login_surface string instant
  | LpFailure ip_addr login_surface string instant
  | LpSuccess ip_addr login_surface string
  | LpChallenge ip_addr login_surface string instant

fun lp_step :: "lp_env \<Rightarrow> login_protection \<Rightarrow> lp_event \<Rightarrow> login_protection" where
  "lp_step env p (LpCheck ip s i now) = snd (check_at env ip s i now p)"
| "lp_step env p (LpFailure ip s i now) = snd (record_failure env ip s i now p)"
| "lp_step env p (LpSuccess ip s i) = record_success env ip s i p"
| "lp_step env p (LpChallenge ip s i now) = snd (challenge_required env ip s i now p)"

text \<open>The events that leave the lockout of \<open>k\<close> until \<open>b\<close> alone: earlier than \<open>b\<close>, and no success of that login.\<close>

fun lp_before :: "lp_env \<Rightarrow> login_key \<Rightarrow> instant \<Rightarrow> lp_event \<Rightarrow> bool" where
  "lp_before env k b (LpCheck ip s i now) = (now < b)"
| "lp_before env k b (LpFailure ip s i now) = (now < b)"
| "lp_before env k b (LpSuccess ip s i) = (login_key_new env ip s i \<noteq> k)"
| "lp_before env k b (LpChallenge ip s i now) = (now < b)"

definition locked :: "login_key \<Rightarrow> instant \<Rightarrow> nat \<Rightarrow> login_protection \<Rightarrow> bool" where
  "locked k b n p \<longleftrightarrow>
     (\<exists>st. map_of (failures_by_login p) k = Some st \<and> fs_blocked_until st = Some b)
     \<and> distinct (map fst (failures_by_login p)) \<and> length (failures_by_login p) + n < max_tracked_keys"

lemma map_of_filter_snd:
  "distinct (map fst m) \<Longrightarrow> map_of m k = Some v \<Longrightarrow> P v \<Longrightarrow> map_of (filter (\<lambda>(_, v). P v) m) k = Some v"
  by (induction m) (auto simp: map_of_eq_None_iff split: if_splits)

lemma distinct_filter_fst: "distinct (map fst m) \<Longrightarrow> distinct (map fst (filter P m))"
  by (simp add: distinct_map_filter)

lemma length_update_le: "length (AList.update k v m) \<le> Suc (length m)"
  by (induction m) (auto split: if_splits)

lemma length_delete_le: "length (AList.delete k m) \<le> length m"
  by (simp add: AList.delete_eq)

lemma lp_prune_locked:
  assumes "locked k b n p" "now < b"
  shows "locked k b n (lp_prune now p)"
proof -
  obtain st where st: "map_of (failures_by_login p) k = Some st" "fs_blocked_until st = Some b"
    using assms(1) by (auto simp: locked_def)
  let ?R = "duration_saturating_add (lp_window (lp_config p)) (lp_lockout (lp_config p))"
  have "retained ?R now st" using st(2) assms(2) by (simp add: retained_def)
  with st(1) assms(1) have "map_of (filter (\<lambda>(_, st). retained ?R now st) (failures_by_login p)) k = Some st"
    by (intro map_of_filter_snd) (simp_all add: locked_def)
  moreover have "length (filter (\<lambda>(_, st). retained ?R now st) (failures_by_login p)) + n < max_tracked_keys"
    using assms(1) length_filter_le [of _ "failures_by_login p"] unfolding locked_def
    by (metis (no_types, lifting) add_le_mono1 le_less_trans)
  ultimately show ?thesis
    using assms(1) st(2) by (auto simp: locked_def lp_prune_def Let_def distinct_filter_fst)
qed

lemma blocked_stays:
  assumes "fs_blocked_until st = Some b" "now < b"
  shows "fs_blocked_until (snd (active_retry_after st now w)) = Some b"
    and "fs_blocked_until (snd (record_failure_state env st now w l lim)) = Some b"
    and "fst (active_retry_after st now w) = Some (nat (b - now))"
  using assms by (simp_all add: active_retry_after_def record_failure_state_def saturating_duration_since_def Let_def)

lemma update_locked:
  assumes "locked k b (Suc n) p" "k' = k \<longrightarrow> fs_blocked_until st' = Some b"
    and "failures_by_login q = AList.update k' st' (failures_by_login p)"
  shows "locked k b n q"
  using assms length_update_le [of k' st' "failures_by_login p"]
  by (auto simp: locked_def update_conv' distinct_update)

lemma locked_weaken: "locked k b (Suc n) p \<Longrightarrow> locked k b n p"
  by (auto simp: locked_def)

lemma lp_step_locked:
  assumes "locked k b (Suc n) p" "lp_before env k b e"
  shows "locked k b n (lp_step env p e)"
proof (cases e)
  case (LpCheck ip s i now)
  let ?q = "lp_prune now p" and ?k = "login_key_new env ip s i"
  have q: "locked k b (Suc n) ?q" using lp_prune_locked assms by (simp add: LpCheck)
  then obtain st where st: "map_of (failures_by_login ?q) k = Some st" "fs_blocked_until st = Some b"
    by (auto simp: locked_def)
  have p': "failures_by_login (lp_step env p e) = snd (touch_entry (lp_window (lp_config ?q)) now ?k (failures_by_login ?q))"
    by (simp add: LpCheck check_at_def Let_def split_beta)
  show ?thesis
  proof (cases "map_of (failures_by_login ?q) ?k")
    case None
    then have "failures_by_login (lp_step env p e) = failures_by_login ?q" by (simp add: p' touch_entry_def)
    with locked_weaken [OF q] show ?thesis by (simp only: locked_def)
  next
    case (Some x)
    with st assms(2) show ?thesis
      by (intro update_locked [OF q _ p' [unfolded touch_entry_def, simplified Some option.case prod.sel Let_def split_beta]])
        (auto simp: LpCheck blocked_stays)
  qed
next
  case (LpFailure ip s i now)
  let ?q = "lp_prune now p" and ?k = "login_key_new env ip s i"
  have q: "locked k b (Suc n) ?q" using lp_prune_locked assms by (simp add: LpFailure)
  then obtain st where st: "map_of (failures_by_login ?q) k = Some st" "fs_blocked_until st = Some b"
    by (auto simp: locked_def)
  have room: "make_room (failures_by_login ?q) = failures_by_login ?q"
    using q by (simp add: locked_def make_room_def)
  obtain x where "failures_by_login (lp_step env p e) = AList.update ?k (snd (record_failure_state env x now
      (lp_window (lp_config ?q)) (lp_lockout (lp_config ?q)) (max_failures_per_login (lp_config ?q)))) (failures_by_login ?q)"
    "?k = k \<longrightarrow> x = st"
    using st(1) room
    by (auto simp: LpFailure record_failure_def record_failure_at_def record_entry_def Let_def split_beta split: option.splits)
  then show ?thesis
    using st(2) assms(2) by (intro update_locked [OF q]) (auto simp: LpFailure blocked_stays)
next
  case (LpSuccess ip s i)
  then show ?thesis
    using assms length_delete_le [of "login_key_new env ip s i" "failures_by_login p"]
    by (auto simp: locked_def record_success_def delete_conv' distinct_delete)
next
  case (LpChallenge ip s i now)
  then show ?thesis
    using locked_weaken [OF lp_prune_locked [of k b "Suc n" p now]] assms by (simp add: challenge_required_def Let_def)
qed

lemma run_locked:
  "locked k b (length es + n) p \<Longrightarrow> \<forall>e \<in> set es. lp_before env k b e \<Longrightarrow> locked k b n (run (lp_step env) p es)"
  by (induction es arbitrary: p) (auto intro: lp_step_locked)

lemma max_duration_ge: "max_duration (Some a) y = Some (case y of None \<Rightarrow> a | Some b \<Rightarrow> max a b)"
  by (cases y) simp_all

lemma touch_free:
  assumes "case map_of m k of None \<Rightarrow> True | Some st \<Rightarrow> \<not> later_than (fs_blocked_until st) now"
  shows "fst (touch_entry w now k m) = None"
  using assms
  by (auto simp: touch_entry_def active_retry_after_def later_than_def Let_def split_beta split: option.splits)

lemma map_of_filter_None: "distinct (map fst m) \<Longrightarrow>
    map_of (filter (\<lambda>(_, v). P v) m) k = (case map_of m k of None \<Rightarrow> None | Some v \<Rightarrow> if P v then Some v else None)"
  by (induction m) (auto simp: map_of_eq_None_iff split: option.splits if_splits)

text \<open>
  C29: A locked login stays locked: whatever checks, failures, challenges and successes of other logins arrive
  before the end of the lockout, a check of it is refused with at least the remaining seconds; and from
  that moment on, unless its address is locked too, it is allowed again. (As long as the table has room, so
  that no entry is evicted.)
\<close>

theorem lockout_lasts:
  assumes "locked (login_key_new env ip s i) b (length es) p"
    and "\<forall>e \<in> set es. lp_before env (login_key_new env ip s i) b e"
    and "q = run (lp_step env) p es"
  shows "(now < b \<longrightarrow> (\<exists>n. fst (check_at env ip s i now q) = Err (LoginRateLimited n) \<and> as_secs (nat (b - now)) \<le> n))
    \<and> (b \<le> now \<and> distinct (map fst (failures_by_ip q)) \<and>
         (\<forall>st. map_of (failures_by_ip q) ip = Some st \<longrightarrow> \<not> later_than (fs_blocked_until st) now)
       \<longrightarrow> fst (check_at env ip s i now q) = Ok ())"
proof (intro conjI impI)
  have q: "locked (login_key_new env ip s i) b 0 q"
    using run_locked [of _ b es 0 p] assms by simp
  show "\<exists>n. fst (check_at env ip s i now q) = Err (LoginRateLimited n) \<and> as_secs (nat (b - now)) \<le> n" if now: "now < b"
  proof -
    from lp_prune_locked [OF q now] obtain st where
      "map_of (failures_by_login (lp_prune now q)) (login_key_new env ip s i) = Some st" "fs_blocked_until st = Some b"
      by (auto simp: locked_def)
    then show ?thesis
      using now by (auto simp: check_at_def touch_entry_def Let_def split_beta blocked_stays max_duration_ge
        rate_limit_error_def as_secs_def div_le_mono split: option.splits intro!: exI le_max_iff_disj [THEN iffD2])
  qed
  show "fst (check_at env ip s i now q) = Ok ()"
    if "b \<le> now \<and> distinct (map fst (failures_by_ip q)) \<and>
         (\<forall>st. map_of (failures_by_ip q) ip = Some st \<longrightarrow> \<not> later_than (fs_blocked_until st) now)"
  proof -
    have "fst (touch_entry w now ip (failures_by_ip (lp_prune now q))) = None" for w
      using that by (intro touch_free) (auto simp: lp_prune_def Let_def map_of_filter_None split: option.splits)
    moreover have "fst (touch_entry w now (login_key_new env ip s i) (failures_by_login (lp_prune now q))) = None" for w
    proof -
      obtain st where st: "map_of (failures_by_login q) (login_key_new env ip s i) = Some st" "fs_blocked_until st = Some b"
          "distinct (map fst (failures_by_login q))"
        using q by (auto simp: locked_def)
      have "map_of (failures_by_login (lp_prune now q)) (login_key_new env ip s i) \<in> {None, Some st}"
        by (simp add: lp_prune_def Let_def map_of_filter_None [OF st(3)] st(1))
      then show ?thesis
        using st(2) that by (intro touch_free) (auto simp: later_than_def split: option.splits)
    qed
    ultimately show ?thesis by (simp add: check_at_def Let_def split_beta)
  qed
qed

theorem lockout_lasts_witness:
  "\<exists>n. fst (check_at demo_lp_env 1 BusinessSurface ''U'' 6
      (run (lp_step demo_lp_env) \<lparr>lp_config = demo_lp_config,
         failures_by_login = [(login_key_new demo_lp_env 1 BusinessSurface ''U'',
           \<lparr>fs_failures = 5, fs_window_started = 0, fs_blocked_until = Some 10, fs_last_seen = 0\<rparr>)],
         failures_by_ip = []\<rparr> [LpCheck 1 BusinessSurface ''U'' 5])) = Err (LoginRateLimited n)"
proof -
  have "locked (login_key_new demo_lp_env 1 BusinessSurface ''U'') 10 (length [LpCheck 1 BusinessSurface ''U'' 5])
      \<lparr>lp_config = demo_lp_config,
         failures_by_login = [(login_key_new demo_lp_env 1 BusinessSurface ''U'',
           \<lparr>fs_failures = 5, fs_window_started = 0, fs_blocked_until = Some 10, fs_last_seen = 0\<rparr>)],
         failures_by_ip = []\<rparr>"
    by (simp add: locked_def max_tracked_keys_def)
  from lockout_lasts [OF this _ refl, of 6] show ?thesis by auto
qed

end
