(* ===== verification/AuthService.thy ===== *)
theory AuthService
  imports AuthState
begin

text \<open>
  The operations of \<open>AuthService\<close> (\<open>cloudledger-server/src/auth.rs\<close>), one definition per method. Each
  takes the state of the service and the outside world and returns its result with the state as it is when
  the method returns, also when it returns an error. A method that only reads still advances the clock.
\<close>

section \<open>Lookups and bindings\<close>

definition find_user_id :: "auth_service \<Rightarrow> string option \<Rightarrow> string option \<Rightarrow> uuid option" where
  "find_user_id s mail tel =
     (case Option.bind mail (om_get (user_ids_by_email s)) of
        Some u \<Rightarrow> Some u
      | None \<Rightarrow> Option.bind tel (om_get (user_ids_by_phone s)))"

definition taken_by_other :: "(string, uuid) ord_map \<Rightarrow> uuid \<Rightarrow> string option \<Rightarrow> bool" where
  "taken_by_other m uid k = (case Option.bind k (om_get m) of None \<Rightarrow> False | Some u \<Rightarrow> u \<noteq> uid)"

definition ensure_identifier_available ::
  "auth_service \<Rightarrow> uuid \<Rightarrow> string option \<Rightarrow> string option \<Rightarrow> (unit, auth_error) result" where
  "ensure_identifier_available s uid mail tel =
     (if taken_by_other (user_ids_by_email s) uid mail then Err EmailAlreadyRegistered
      else if taken_by_other (user_ids_by_phone s) uid tel then Err PhoneAlreadyRegistered
      else Ok ())"

definition bind_installation ::
  "string \<Rightarrow> uuid \<Rightarrow> auth_service \<Rightarrow> (unit, auth_error) result \<times> auth_service" where
  "bind_installation inst uid s =
     (case om_get (installations_by_id s) inst of
        Some u \<Rightarrow> if u \<noteq> uid then (Err InstallationAlreadyBound, s) else (Ok (), s)
      | None \<Rightarrow> (Ok (), s\<lparr>installations_by_id := om_insert inst uid (installations_by_id s)\<rparr>))"

text \<open>\<open>if let Some(key) = key { index.insert(key, user_id) }\<close> and its counterpart that removes.\<close>

definition index_insert :: "string option \<Rightarrow> uuid \<Rightarrow> (string, uuid) ord_map \<Rightarrow> (string, uuid) ord_map" where
  "index_insert k uid m = (case k of None \<Rightarrow> m | Some k \<Rightarrow> om_insert k uid m)"

definition index_remove :: "string option \<Rightarrow> uuid \<Rightarrow> (string, uuid) ord_map \<Rightarrow> (string, uuid) ord_map" where
  "index_remove k uid m =
     (case k of None \<Rightarrow> m | Some k \<Rightarrow> if om_get m k = Some uid then om_remove k m else m)"

text \<open>The three statements that store an account with its login identifiers.\<close>

definition store_user :: "stored_user \<Rightarrow> auth_service \<Rightarrow> auth_service" where
  "store_user u s =
     s\<lparr>users_by_id := om_insert (su_id u) u (users_by_id s),
       user_ids_by_email := index_insert (su_email u) (su_id u) (user_ids_by_email s),
       user_ids_by_phone := index_insert (su_phone u) (su_id u) (user_ids_by_phone s)\<rparr>"

section \<open>Sessions\<close>

definition session_end :: "stored_session \<Rightarrow> instant" where
  "session_end x = (case ss_refresh_expires_at x of Some t \<Rightarrow> t | None \<Rightarrow> ss_access_expires_at x)"

text \<open>The clock is read once for every session that is looked at.\<close>

fun expired_access_tokens ::
  "(string \<times> stored_session) list \<Rightarrow> auth_world \<Rightarrow> string list \<times> auth_world" where
  "expired_access_tokens [] w = ([], w)"
| "expired_access_tokens ((k, x) # es) w =
     (let (now, w) = auth_now w;
          (ks, w) = expired_access_tokens es w
      in (if session_end x \<le> now then k # ks else ks, w))"

definition drop_session :: "string \<Rightarrow> auth_service \<Rightarrow> auth_service" where
  "drop_session k s =
     (case om_get (sessions_by_access_token s) k of
        None \<Rightarrow> s
      | Some x \<Rightarrow> s\<lparr>sessions_by_access_token := om_remove k (sessions_by_access_token s),
          access_tokens_by_refresh_token := om_remove (ss_refresh_token x) (access_tokens_by_refresh_token s)\<rparr>)"

definition prune_expired_sessions :: "auth_state \<Rightarrow> auth_state" where
  "prune_expired_sessions \<sigma> =
     (let (s, w) = \<sigma>;
          (ks, w) = expired_access_tokens (om_entries (sessions_by_access_token s)) w
      in (fold drop_session ks s, w))"

text \<open>The loop \<open>for session in values_mut()\<close> that stamps \<open>revoked_at\<close> on the chosen sessions.\<close>

definition revoke_where :: "(stored_session \<Rightarrow> bool) \<Rightarrow> instant \<Rightarrow> auth_service \<Rightarrow> auth_service" where
  "revoke_where p now s =
     s\<lparr>sessions_by_access_token :=
         om_map (\<lambda>_ x. if p x then x\<lparr>ss_revoked_at := Some now\<rparr> else x) (sessions_by_access_token s)\<rparr>"

definition revoke_user_sessions :: "uuid \<Rightarrow> auth_state \<Rightarrow> auth_state" where
  "revoke_user_sessions uid \<sigma> =
     (let (s, w) = \<sigma>; (now, w) = auth_now w; s = revoke_where (\<lambda>x. ss_user x = uid) now s
      in (s\<lparr>installations_by_id := om_retain (\<lambda>_ u. u \<noteq> uid) (installations_by_id s)\<rparr>, w))"

definition revoke_installation_sessions :: "stored_session \<Rightarrow> auth_state \<Rightarrow> auth_state" where
  "revoke_installation_sessions session \<sigma> =
     (let (s, w) = \<sigma>; (now, w) = auth_now w;
          s = revoke_where (\<lambda>x. ss_user x = ss_user session \<and> ss_installation x = ss_installation session
                \<and> ss_kind x = ss_kind session) now s
      in (s\<lparr>installations_by_id := om_remove (ss_installation session) (installations_by_id s)\<rparr>, w))"

definition revoke_family :: "uuid \<Rightarrow> auth_state \<Rightarrow> auth_state" where
  "revoke_family fam \<sigma> =
     (let (s, w) = \<sigma>; (now, w) = auth_now w in (revoke_where (\<lambda>x. ss_family x = fam) now s, w))"

definition issue_session ::
  "auth_env \<Rightarrow> uuid \<Rightarrow> string \<Rightarrow> uuid \<Rightarrow> session_kind \<Rightarrow> auth_state \<Rightarrow> (session, auth_error) result \<times> auth_state" where
  "issue_session env uid inst fam kind \<sigma> =
     (let (s, w) = prune_expired_sessions \<sigma> in
      attempt (ok_or (om_get (users_by_id s) uid) InvalidCredentials) id (s, w) (\<lambda>user.
      let (now, w) = auth_now w;
          (access, w) = random_token w;
          (refresh, w) = random_token w;
          access_hash = token_digest env access;
          refresh_hash = token_digest env refresh;
          (sid, w) = auth_new_v4 w;
          stored = \<lparr>ss_id = sid, ss_family = fam, ss_user = uid, ss_installation = inst,
            ss_access_token = access_hash, ss_refresh_token = refresh_hash, ss_kind = kind,
            ss_created_at = now, ss_access_expires_at = now + app_access_token_ttl,
            ss_refresh_expires_at = Some (now + app_refresh_token_ttl),
            ss_rotated_at = None, ss_revoked_at = None\<rparr>
      in (Ok \<lparr>sn_user = auth_user_dto_of user, sn_access_token = access, sn_refresh_token = refresh,
                sn_installation = inst\<rparr>,
          s\<lparr>access_tokens_by_refresh_token := om_insert refresh_hash access_hash (access_tokens_by_refresh_token s),
            sessions_by_access_token := om_insert access_hash stored (sessions_by_access_token s)\<rparr>, w)))"

definition issue_admin_session ::
  "auth_env \<Rightarrow> uuid \<Rightarrow> auth_state \<Rightarrow> (admin_session, auth_error) result \<times> auth_state" where
  "issue_admin_session env uid \<sigma> =
     (let (s, w) = prune_expired_sessions \<sigma> in
      attempt (ok_or (om_get (users_by_id s) uid) InvalidCredentials) id (s, w) (\<lambda>user.
      attempt (ok_or (su_organization user) AdminOrganizationRequired) id (s, w) (\<lambda>org.
      let (now, w) = auth_now w;
          (access, w) = random_token w;
          access_hash = token_digest env access;
          (sid, w) = auth_new_v4 w;
          (fam, w) = auth_new_v4 w;
          stored = \<lparr>ss_id = sid, ss_family = fam, ss_user = uid, ss_installation = [],
            ss_access_token = access_hash, ss_refresh_token = [], ss_kind = AdminKind,
            ss_created_at = now, ss_access_expires_at = now + admin_session_ttl,
            ss_refresh_expires_at = None, ss_rotated_at = None, ss_revoked_at = None\<rparr>
      in (Ok \<lparr>ad_user = auth_user_dto_of user, ad_access_token = access, ad_organization = org\<rparr>,
          s\<lparr>sessions_by_access_token := om_insert access_hash stored (sessions_by_access_token s)\<rparr>, w))))"

section \<open>Accounts\<close>

definition register ::
  "auth_env \<Rightarrow> register_input \<Rightarrow> auth_state \<Rightarrow> (session, auth_error) result \<times> auth_state" where
  "register env i \<sigma> =
     (let (s, w) = \<sigma> in
      attempt (auth_display_name (ri_display_name i)) id \<sigma> (\<lambda>display_name.
      let mail = Option.bind (ri_email i) (auth_optional_email env);
          tel = Option.bind (ri_phone i) auth_optional_phone in
      attempt (validate_new_password (ri_password i)) id \<sigma> (\<lambda>password.
      attempt (require_login_identifier mail tel) id \<sigma> (\<lambda>_.
      attempt (normalize_installation_id (ri_installation i)) id \<sigma> (\<lambda>inst.
      if (case mail of None \<Rightarrow> False | Some e \<Rightarrow> om_contains (user_ids_by_email s) e)
        then (Err EmailAlreadyRegistered, \<sigma>)
      else if (case tel of None \<Rightarrow> False | Some p \<Rightarrow> om_contains (user_ids_by_phone s) p)
        then (Err PhoneAlreadyRegistered, \<sigma>)
      else let (now, w) = auth_now w;
               (uid, w) = (case ri_user i of Some u \<Rightarrow> (u, w) | None \<Rightarrow> auth_new_v4 w);
               (hashed, w) = hash_password env password w in
      attempt hashed id (s, w) (\<lambda>h.
      let user = \<lparr>su_id = uid, su_display_name = display_name, su_email = mail, su_phone = tel,
            su_password_hash = h, su_account_kind = Business, su_organization = None,
            su_created_at = now, su_updated_at = now\<rparr>;
          (bound, s) = bind_installation inst uid s in
      attempt bound id (s, w) (\<lambda>_.
      let s = store_user user s;
          (fam, w) = auth_new_v4 w
      in issue_session env uid inst fam Tauri (s, w))))))))"

definition admin_password_hash ::
  "auth_env \<Rightarrow> stored_user option \<Rightarrow> string option \<Rightarrow> auth_world \<Rightarrow> (string, auth_error) result \<times> auth_world" where
  "admin_password_hash env existing password w =
     (case password of
        Some p \<Rightarrow> hash_password env p w
      | None \<Rightarrow> (case existing of Some u \<Rightarrow> (Ok (su_password_hash u), w) | None \<Rightarrow> (Err PasswordRequired, w)))"

definition validate_optional_password :: "string option \<Rightarrow> (string option, auth_error) result" where
  "validate_optional_password p =
     (case p of None \<Rightarrow> Ok None | Some p \<Rightarrow> attempt_pure (validate_new_password p) id (\<lambda>p. Ok (Some p)))"

definition create_or_update_admin_user ::
  "auth_env \<Rightarrow> admin_create_user_input \<Rightarrow> auth_state \<Rightarrow> (auth_user_dto, auth_error) result \<times> auth_state" where
  "create_or_update_admin_user env i \<sigma> =
     (let (s, w) = \<sigma>; uid = ac_user i in
      attempt (auth_display_name (ac_display_name i)) id \<sigma> (\<lambda>display_name.
      let mail = Option.bind (ac_email i) (auth_optional_email env);
          tel = Option.bind (ac_phone i) auth_optional_phone in
      attempt (validate_optional_password (ac_password i)) id \<sigma> (\<lambda>password.
      attempt (require_login_identifier mail tel) id \<sigma> (\<lambda>_.
      attempt (ensure_identifier_available s uid mail tel) id \<sigma> (\<lambda>_.
      let existing = om_get (users_by_id s) uid;
          (hashed, w) = admin_password_hash env existing password w in
      attempt hashed id (s, w) (\<lambda>h.
      let (created, w) = (case existing of Some u \<Rightarrow> (su_created_at u, w) | None \<Rightarrow> auth_now w);
          s = (case existing of None \<Rightarrow> s | Some u \<Rightarrow>
                s\<lparr>user_ids_by_email := index_remove (su_email u) uid (user_ids_by_email s),
                  user_ids_by_phone := index_remove (su_phone u) uid (user_ids_by_phone s)\<rparr>);
          (updated, w) = auth_now w;
          user = \<lparr>su_id = uid, su_display_name = display_name, su_email = mail, su_phone = tel,
            su_password_hash = h, su_account_kind = ac_account_kind i, su_organization = ac_organization i,
            su_created_at = created, su_updated_at = updated\<rparr>;
          s = store_user user s;
          changed = (password \<noteq> None \<or> (case existing of None \<Rightarrow> False | Some u \<Rightarrow>
            su_account_kind u \<noteq> ac_account_kind i \<or> su_organization u \<noteq> ac_organization i));
          (s, w) = (if changed then revoke_user_sessions uid (s, w) else (s, w))
      in (ok_or (map_option auth_user_dto_of (om_get (users_by_id s) uid)) InvalidCredentials, s, w)))))))"

definition login_for_client ::
  "auth_env \<Rightarrow> login_input \<Rightarrow> session_kind \<Rightarrow> auth_state \<Rightarrow> (session, auth_error) result \<times> auth_state" where
  "login_for_client env i client_kind \<sigma> =
     (let (s, w) = \<sigma>;
          mail = Option.bind (li_email i) (auth_optional_email env);
          tel = Option.bind (li_phone i) auth_optional_phone in
      attempt (require_login_identifier mail tel) id \<sigma> (\<lambda>_.
      attempt (normalize_installation_id (li_installation i)) id \<sigma> (\<lambda>inst.
      case find_user_id s mail tel of
        None \<Rightarrow>
          let (worked, w) = consume_unknown_user_password_work env (li_password i) w in
          attempt worked id (s, w) (\<lambda>_. (Err InvalidCredentials, s, w))
      | Some uid \<Rightarrow>
          attempt (ok_or (om_get (users_by_id s) uid) InvalidCredentials) id \<sigma> (\<lambda>user.
          attempt (verify_password env (li_password i) (su_password_hash user)) id \<sigma> (\<lambda>_.
          if su_account_kind user \<noteq> Business then (Err BusinessAppAccessDenied, \<sigma>)
          else let (bound, s) = bind_installation inst uid s in
          attempt bound id (s, w) (\<lambda>_.
          let (fam, w) = auth_new_v4 w in issue_session env uid inst fam client_kind (s, w)))))))"

definition login ::
  "auth_env \<Rightarrow> login_input \<Rightarrow> auth_state \<Rightarrow> (session, auth_error) result \<times> auth_state" where
  "login env i \<sigma> = login_for_client env i Tauri \<sigma>"

definition admin_login ::
  "auth_env \<Rightarrow> admin_login_input \<Rightarrow> auth_state \<Rightarrow> (admin_session, auth_error) result \<times> auth_state" where
  "admin_login env i \<sigma> =
     (let (s, w) = \<sigma>;
          mail = Option.bind (ali_email i) (auth_optional_email env);
          tel = Option.bind (ali_phone i) auth_optional_phone in
      attempt (require_login_identifier mail tel) id \<sigma> (\<lambda>_.
      case find_user_id s mail tel of
        None \<Rightarrow>
          let (worked, w) = consume_unknown_user_password_work env (ali_password i) w in
          attempt worked id (s, w) (\<lambda>_. (Err InvalidCredentials, s, w))
      | Some uid \<Rightarrow>
          attempt (ok_or (om_get (users_by_id s) uid) InvalidCredentials) id \<sigma> (\<lambda>user.
          attempt (verify_password env (ali_password i) (su_password_hash user)) id \<sigma> (\<lambda>_.
          if su_account_kind user \<noteq> OrganizationAdmin then (Err AdminAccessDenied, \<sigma>)
          else issue_admin_session env uid \<sigma>))))"

section \<open>Passwords and roles\<close>

text \<open>The statements that store a new password hash and revoke the sessions of the account.\<close>

definition replace_password ::
  "uuid \<Rightarrow> string \<Rightarrow> auth_state \<Rightarrow> (stored_user, auth_error) result \<times> auth_state" where
  "replace_password uid h \<sigma> =
     (let (s, w) = \<sigma> in
      attempt (ok_or (om_get (users_by_id s) uid) InvalidCredentials) id \<sigma> (\<lambda>u.
      let (now, w) = auth_now w;
          s = s\<lparr>users_by_id := om_insert uid (u\<lparr>su_password_hash := h, su_updated_at := now\<rparr>) (users_by_id s)\<rparr>;
          (s, w) = revoke_user_sessions uid (s, w)
      in (ok_or (om_get (users_by_id s) uid) InvalidCredentials, s, w)))"

definition change_admin_password ::
  "auth_env \<Rightarrow> string \<Rightarrow> string \<Rightarrow> string \<Rightarrow> auth_state
     \<Rightarrow> (admin_authenticated_session, auth_error) result \<times> auth_state" where
  "change_admin_password env access_token current_password new_password \<sigma> =
     (let (s, w) = \<sigma>;
          k = token_digest env (normalize_bearer_token access_token) in
      attempt (ok_or (om_get (sessions_by_access_token s) k) InvalidCredentials) id \<sigma> (\<lambda>session.
      if ss_kind session \<noteq> AdminKind \<or> ss_revoked_at session \<noteq> None then (Err InvalidCredentials, \<sigma>)
      else let (now, w) = auth_now w in
      if ss_access_expires_at session \<le> now then (Err InvalidCredentials, s, w)
      else attempt (ok_or (om_get (users_by_id s) (ss_user session)) InvalidCredentials) id (s, w) (\<lambda>user.
      if su_account_kind user \<noteq> OrganizationAdmin then (Err AdminAccessDenied, s, w)
      else attempt (ok_or (su_organization user) AdminOrganizationRequired) id (s, w) (\<lambda>org.
      attempt (verify_password env current_password (su_password_hash user)) id (s, w) (\<lambda>_.
      attempt (validate_new_password new_password) id (s, w) (\<lambda>password.
      let (hashed, w) = hash_password env password w in
      attempt hashed id (s, w) (\<lambda>h.
      perform (replace_password (su_id user) h (s, w)) id (\<lambda>u \<sigma>.
        (Ok \<lparr>aa_user = auth_user_dto_of u, aa_organization = org\<rparr>, \<sigma>)))))))))"

definition reset_organization_admin_password ::
  "auth_env \<Rightarrow> uuid \<Rightarrow> string \<Rightarrow> auth_state \<Rightarrow> (auth_user_dto, auth_error) result \<times> auth_state" where
  "reset_organization_admin_password env uid new_password \<sigma> =
     (let (s, w) = \<sigma> in
      attempt (validate_new_password new_password) id \<sigma> (\<lambda>password.
      attempt (ok_or (om_get (users_by_id s) uid) InvalidCredentials) id \<sigma> (\<lambda>user.
      if su_account_kind user \<noteq> OrganizationAdmin then (Err AdminAccessDenied, \<sigma>)
      else if su_organization user = None then (Err AdminOrganizationRequired, \<sigma>)
      else let (hashed, w) = hash_password env password w in
      attempt hashed id (s, w) (\<lambda>h.
      perform (replace_password uid h (s, w)) id (\<lambda>u \<sigma>. (Ok (auth_user_dto_of u), \<sigma>))))))"

definition mark_organization_admin :: "uuid \<Rightarrow> uuid \<Rightarrow> auth_state \<Rightarrow> bool \<times> auth_state" where
  "mark_organization_admin uid org \<sigma> =
     (let (s, w) = \<sigma> in
      case om_get (users_by_id s) uid of
        None \<Rightarrow> (False, \<sigma>)
      | Some u \<Rightarrow>
          if su_account_kind u = OrganizationAdmin \<and> su_organization u = Some org then (False, \<sigma>)
          else let (now, w) = auth_now w;
                   u = u\<lparr>su_account_kind := OrganizationAdmin, su_organization := Some org, su_updated_at := now\<rparr>
               in (True, revoke_user_sessions uid (s\<lparr>users_by_id := om_insert uid u (users_by_id s)\<rparr>, w)))"

definition account_kind_of :: "auth_service \<Rightarrow> uuid \<Rightarrow> account_kind option" where
  "account_kind_of s uid = map_option su_account_kind (om_get (users_by_id s) uid)"

definition organization_id_of :: "auth_service \<Rightarrow> uuid \<Rightarrow> uuid option" where
  "organization_id_of s uid = Option.bind (om_get (users_by_id s) uid) su_organization"

section \<open>Use of sessions\<close>

definition refresh_for_client ::
  "auth_env \<Rightarrow> refresh_input \<Rightarrow> session_kind \<Rightarrow> auth_state \<Rightarrow> (session, auth_error) result \<times> auth_state" where
  "refresh_for_client env i client_kind \<sigma> =
     (let (s, w) = \<sigma> in
      attempt (normalize_installation_id (fi_installation i)) id \<sigma> (\<lambda>inst.
      let refresh_hash = token_digest env (trim (fi_refresh_token i)) in
      attempt (ok_or (om_get (access_tokens_by_refresh_token s) refresh_hash) SessionNotFound) id \<sigma> (\<lambda>k.
      attempt (ok_or (om_get (sessions_by_access_token s) k) SessionNotFound) id \<sigma> (\<lambda>session.
      if ss_kind session \<noteq> client_kind then (Err SessionNotFound, \<sigma>)
      else if ss_rotated_at session \<noteq> None \<or> ss_revoked_at session \<noteq> None then
        (Err RefreshReplayDetected, revoke_family (ss_family session) \<sigma>)
      else case ss_refresh_expires_at session of None \<Rightarrow> (Err SessionNotFound, \<sigma>) | Some expires_at \<Rightarrow>
      let (now, w) = auth_now w in
      if expires_at \<le> now then (Err SessionNotFound, s, w)
      else if ss_installation session \<noteq> inst then (Err InstallationAlreadyBound, s, w)
      else let (now, w) = auth_now w;
               s = s\<lparr>sessions_by_access_token :=
                   om_modify k (\<lambda>x. x\<lparr>ss_rotated_at := Some now\<rparr>) (sessions_by_access_token s)\<rparr>
      in issue_session env (ss_user session) inst (ss_family session) client_kind (s, w)))))"

definition refresh ::
  "auth_env \<Rightarrow> refresh_input \<Rightarrow> auth_state \<Rightarrow> (session, auth_error) result \<times> auth_state" where
  "refresh env i \<sigma> = refresh_for_client env i Tauri \<sigma>"

definition logout :: "auth_env \<Rightarrow> string \<Rightarrow> auth_state \<Rightarrow> (unit, auth_error) result \<times> auth_state" where
  "logout env access_token \<sigma> =
     (let k = token_digest env (normalize_bearer_token access_token) in
      attempt (ok_or (om_get (sessions_by_access_token (fst \<sigma>)) k) SessionNotFound) id \<sigma> (\<lambda>session.
        (Ok (), revoke_installation_sessions session \<sigma>)))"

definition logout_refresh :: "auth_env \<Rightarrow> string \<Rightarrow> auth_state \<Rightarrow> (uuid, auth_error) result \<times> auth_state" where
  "logout_refresh env refresh_token \<sigma> =
     (let h = token_digest env refresh_token in
      attempt (ok_or (om_get (access_tokens_by_refresh_token (fst \<sigma>)) h) SessionNotFound) id \<sigma> (\<lambda>k.
      attempt (ok_or (om_get (sessions_by_access_token (fst \<sigma>)) k) SessionNotFound) id \<sigma> (\<lambda>session.
        (Ok (ss_user session), revoke_installation_sessions session \<sigma>))))"

definition authenticate_access_token ::
  "auth_env \<Rightarrow> string \<Rightarrow> auth_state \<Rightarrow> (authenticated_session, auth_error) result \<times> auth_state" where
  "authenticate_access_token env access_token \<sigma> =
     (let (s, w) = \<sigma>; k = token_digest env (normalize_bearer_token access_token) in
      attempt (ok_or (om_get (sessions_by_access_token s) k) InvalidCredentials) id \<sigma> (\<lambda>session.
      if ss_kind session \<notin> {Tauri, Web} \<or> ss_rotated_at session \<noteq> None \<or> ss_revoked_at session \<noteq> None
        then (Err InvalidCredentials, \<sigma>)
      else let (now, w) = auth_now w in
      if ss_access_expires_at session \<le> now then (Err InvalidCredentials, s, w)
      else attempt (ok_or (om_get (users_by_id s) (ss_user session)) InvalidCredentials) id (s, w) (\<lambda>user.
      if su_account_kind user \<noteq> Business then (Err BusinessAppAccessDenied, s, w)
      else (Ok \<lparr>an_user = auth_user_dto_of user, an_installation = ss_installation session\<rparr>, s, w))))"

definition authenticate_admin_access_token ::
  "auth_env \<Rightarrow> string \<Rightarrow> auth_state \<Rightarrow> (admin_authenticated_session, auth_error) result \<times> auth_state" where
  "authenticate_admin_access_token env access_token \<sigma> =
     (let (s, w) = \<sigma>; k = token_digest env (normalize_bearer_token access_token) in
      attempt (ok_or (om_get (sessions_by_access_token s) k) InvalidCredentials) id \<sigma> (\<lambda>session.
      if ss_kind session \<noteq> AdminKind \<or> ss_revoked_at session \<noteq> None then (Err InvalidCredentials, \<sigma>)
      else let (now, w) = auth_now w in
      if ss_access_expires_at session \<le> now then (Err InvalidCredentials, s, w)
      else attempt (ok_or (om_get (users_by_id s) (ss_user session)) InvalidCredentials) id (s, w) (\<lambda>user.
      if su_account_kind user \<noteq> OrganizationAdmin then (Err AdminAccessDenied, s, w)
      else attempt (ok_or (su_organization user) AdminOrganizationRequired) id (s, w) (\<lambda>org.
      (Ok \<lparr>aa_user = auth_user_dto_of user, aa_organization = org\<rparr>, s, w)))))"

definition update_profile ::
  "auth_env \<Rightarrow> string \<Rightarrow> string \<Rightarrow> auth_state \<Rightarrow> (authenticated_session, auth_error) result \<times> auth_state" where
  "update_profile env access_token new_name \<sigma> =
     (let (s, w) = \<sigma>; k = token_digest env (normalize_bearer_token access_token) in
      attempt (ok_or (om_get (sessions_by_access_token s) k) InvalidCredentials) id \<sigma> (\<lambda>session.
      if ss_kind session \<notin> {Tauri, Web} \<or> ss_rotated_at session \<noteq> None \<or> ss_revoked_at session \<noteq> None
        then (Err InvalidCredentials, \<sigma>)
      else let (now, w) = auth_now w in
      if ss_access_expires_at session \<le> now then (Err InvalidCredentials, s, w)
      else attempt (auth_display_name new_name) id (s, w) (\<lambda>display_name.
      attempt (ok_or (om_get (users_by_id s) (ss_user session)) InvalidCredentials) id (s, w) (\<lambda>user.
      if su_account_kind user \<noteq> Business then (Err BusinessAppAccessDenied, s, w)
      else let (now, w) = auth_now w;
               u = user\<lparr>su_display_name := display_name, su_updated_at := now\<rparr>
           in (Ok \<lparr>an_user = auth_user_dto_of u, an_installation = ss_installation session\<rparr>,
               s\<lparr>users_by_id := om_insert (ss_user session) u (users_by_id s)\<rparr>, w)))))"

section \<open>Snapshots\<close>

definition auth_snapshot_of :: "auth_service \<Rightarrow> auth_snapshot" where
  "auth_snapshot_of s =
     \<lparr>asn_users = om_values (users_by_id s), asn_installations = om_entries (installations_by_id s),
      asn_sessions = om_values (sessions_by_access_token s)\<rparr>"

definition index_users :: "(stored_user \<Rightarrow> string option) \<Rightarrow> stored_user list \<Rightarrow> (string, uuid) ord_map" where
  "index_users f us = om_collect (List.map_filter (\<lambda>u. map_option (\<lambda>k. (k, su_id u)) (f u)) us)"

definition auth_from_snapshot :: "auth_snapshot \<Rightarrow> auth_world \<Rightarrow> auth_state" where
  "auth_from_snapshot sn w =
     (let users = om_collect (map (\<lambda>u. (su_id u, u)) (asn_users sn));
          sessions = om_collect (map (\<lambda>x. (ss_access_token x, x)) (asn_sessions sn))
      in prune_expired_sessions
           (\<lparr>users_by_id = users,
             user_ids_by_email = index_users su_email (om_values users),
             user_ids_by_phone = index_users su_phone (om_values users),
             installations_by_id = om_collect (asn_installations sn),
             sessions_by_access_token = sessions,
             access_tokens_by_refresh_token =
               om_collect (map (\<lambda>x. (ss_refresh_token x, ss_access_token x))
                 (filter (\<lambda>x. ss_refresh_token x \<noteq> []) (om_values sessions)))\<rparr>, w))"

end
