(* ===== verification/Calendar.thy ===== *)
theory Calendar
  imports AppState
begin

text \<open>
  The calendar functions of \<open>app.rs\<close>: months and days in Beijing's time zone. The calendar itself is the
  \<open>time\<close> crate's and a parameter: the date of an instant at the offset +08:00, and the instant at which a
  date starts there, if the date exists. What is documented of it, and what the theorems need, is
  \<open>calendar_ok\<close>: the years of a date are -9999 to 9999, a month starts with its first day, and an instant
  lies in a month or later exactly when the month has started.
\<close>

section \<open>The calendar\<close>

record calendar =
  local_date :: "instant \<Rightarrow> int \<times> nat \<times> nat"
  date_start :: "int \<Rightarrow> nat \<Rightarrow> nat \<Rightarrow> instant option"

definition local_year :: "calendar \<Rightarrow> instant \<Rightarrow> int" where "local_year cal t = fst (local_date cal t)"
definition local_month :: "calendar \<Rightarrow> instant \<Rightarrow> nat" where "local_month cal t = fst (snd (local_date cal t))"
definition local_day :: "calendar \<Rightarrow> instant \<Rightarrow> nat" where "local_day cal t = snd (snd (local_date cal t))"

text \<open>The months counted through the years.\<close>

definition absolute_month :: "calendar \<Rightarrow> instant \<Rightarrow> int" where
  "absolute_month cal t = local_year cal t * 12 + int (local_month cal t) - 1"

definition calendar_ok :: "calendar \<Rightarrow> bool" where
  "calendar_ok cal \<longleftrightarrow>
     (\<forall>t. 1 \<le> local_month cal t \<and> local_month cal t \<le> 12)
     \<and> (\<forall>y m. date_start cal y m 1 \<noteq> None \<longleftrightarrow> 1 \<le> m \<and> m \<le> 12 \<and> -9999 \<le> y \<and> y \<le> 9999)
     \<and> (\<forall>y m b. date_start cal y m 1 = Some b \<longrightarrow> local_date cal b = (y, m, 1)
         \<and> (\<forall>t. b \<le> t \<longleftrightarrow> y * 12 + int m - 1 \<le> absolute_month cal t))"

section \<open>Months and days\<close>

definition calendar_month_start :: "calendar \<Rightarrow> int \<Rightarrow> nat \<Rightarrow> (instant, 'e) result" where
  "calendar_month_start cal year month =
     (case date_start cal year month 1 of Some t \<Rightarrow> Ok t
      | None \<Rightarrow> Panic ''a validated calendar month always has a valid start'')"

definition month_start :: "calendar \<Rightarrow> instant \<Rightarrow> (instant, 'e) result" where
  "month_start cal t = calendar_month_start cal (local_year cal t) (local_month cal t)"

definition month_text :: "int \<Rightarrow> nat \<Rightarrow> string" where
  "month_text year month = zero_padded 4 year @ ''-'' @ zero_padded 2 (int month)"

definition month_key :: "calendar \<Rightarrow> instant \<Rightarrow> string" where
  "month_key cal t = month_text (local_year cal t) (local_month cal t)"

definition day_key :: "calendar \<Rightarrow> instant \<Rightarrow> string" where
  "day_key cal t = month_key cal t @ ''-'' @ zero_padded 2 (int (local_day cal t))"

definition parse_i32 :: "string \<Rightarrow> int option" where
  "parse_i32 s = parse_integer (- (2 ^ 31)) (2 ^ 31 - 1) s"

text \<open>\<open>parse::<u8>\<close>, and \<open>Month::try_from\<close> on it.\<close>

definition parse_u8 :: "string \<Rightarrow> nat option" where
  "parse_u8 s = map_option nat (parse_integer 0 255 s)"

definition month_of_u8 :: "nat \<Rightarrow> nat option" where
  "month_of_u8 n = (if 1 \<le> n \<and> n \<le> 12 then Some n else None)"

definition parse_day_key :: "calendar \<Rightarrow> string \<Rightarrow> (int \<times> nat \<times> nat) option" where
  "parse_day_key cal s =
     (case split_on (CHR ''-'') s of
        y # m # d # rest \<Rightarrow>
          Option.bind (parse_i32 y) (\<lambda>y.
          Option.bind (Option.bind (parse_u8 m) month_of_u8) (\<lambda>m.
          Option.bind (parse_u8 d) (\<lambda>d.
          if rest \<noteq> [] \<or> length s \<noteq> 10 then None
          else map_option (\<lambda>_. (y, m, d)) (date_start cal y m d))))
      | _ \<Rightarrow> None)"

definition parse_month_key :: "calendar \<Rightarrow> string \<Rightarrow> (int \<times> nat) option" where
  "parse_month_key cal s =
     Option.bind (split_once (CHR ''-'') s) (\<lambda>(year, month).
     if length year \<noteq> 4 \<or> length month \<noteq> 2 then None
     else Option.bind (parse_i32 year) (\<lambda>y.
       Option.bind (Option.bind (parse_u8 month) month_of_u8) (\<lambda>m.
       map_option (\<lambda>_. (y, m)) (date_start cal y m 1))))"

definition shift_month_start :: "calendar \<Rightarrow> instant \<Rightarrow> int \<Rightarrow> (instant, 'e) result" where
  "shift_month_start cal t offset =
     (let n = local_year cal t * 12 + int (local_month cal t) - 1 + offset
      in calendar_month_start cal (n div 12) (nat (n mod 12 + 1)))"

definition month_distance :: "calendar \<Rightarrow> instant \<Rightarrow> instant \<Rightarrow> int" where
  "month_distance cal a b =
     (local_year cal b - local_year cal a) * 12 + int (local_month cal b) - int (local_month cal a)"

section \<open>Laws\<close>

lemma calendar_month: "calendar_ok cal \<Longrightarrow> 1 \<le> local_month cal t \<and> local_month cal t \<le> 12"
  by (simp add: calendar_ok_def)

lemma calendar_month_start_Ok:
  assumes "calendar_ok cal" "calendar_month_start cal y m = Ok b"
  shows "local_year cal b = y" "local_month cal b = m" "absolute_month cal b = y * 12 + int m - 1"
    and "b \<le> t \<longleftrightarrow> y * 12 + int m - 1 \<le> absolute_month cal t"
    and "1 \<le> m" "m \<le> 12" "-9999 \<le> y" "y \<le> 9999"
proof -
  have b: "date_start cal y m 1 = Some b"
    using assms(2) by (auto simp: calendar_month_start_def split: option.splits)
  with assms(1) have "local_date cal b = (y, m, 1)" and t: "\<forall>t. b \<le> t \<longleftrightarrow> y * 12 + int m - 1 \<le> absolute_month cal t"
    and r: "1 \<le> m \<and> m \<le> 12 \<and> -9999 \<le> y \<and> y \<le> 9999"
    unfolding calendar_ok_def by blast+
  then show y: "local_year cal b = y" and m: "local_month cal b = m" by (simp_all add: local_year_def local_month_def)
  show "absolute_month cal b = y * 12 + int m - 1" by (simp add: absolute_month_def y m)
  show "b \<le> t \<longleftrightarrow> y * 12 + int m - 1 \<le> absolute_month cal t" "1 \<le> m" "m \<le> 12" "-9999 \<le> y" "y \<le> 9999"
    using t r by blast+
qed

lemma month_start_Ok:
  assumes "calendar_ok cal" "month_start cal t = Ok b"
  shows "absolute_month cal b = absolute_month cal t" and "b \<le> u \<longleftrightarrow> absolute_month cal t \<le> absolute_month cal u"
  using calendar_month_start_Ok [OF assms(1) assms(2) [unfolded month_start_def]] by (simp_all add: absolute_month_def)

lemma shift_month_start_Ok:
  assumes "calendar_ok cal" "shift_month_start cal t k = (Ok b :: (instant, 'e) result)"
  shows "absolute_month cal b = absolute_month cal t + k"
    and "b \<le> u \<longleftrightarrow> absolute_month cal t + k \<le> absolute_month cal u"
proof -
  let ?n = "local_year cal t * 12 + int (local_month cal t) - 1 + k"
  have start: "calendar_month_start cal (?n div 12) (nat (?n mod 12 + 1)) = (Ok b :: (instant, 'e) result)"
    using assms(2) by (simp add: shift_month_start_def Let_def)
  have n: "?n div 12 * 12 + int (nat (?n mod 12 + 1)) - 1 = absolute_month cal t + k"
    by (simp add: absolute_month_def)
  from calendar_month_start_Ok(3,4) [OF assms(1) start, unfolded n] show "absolute_month cal b = absolute_month cal t + k"
    and "b \<le> u \<longleftrightarrow> absolute_month cal t + k \<le> absolute_month cal u" by blast+
qed

lemma month_distance_absolute: "month_distance cal a b = absolute_month cal b - absolute_month cal a"
  by (simp add: month_distance_def absolute_month_def)

lemma absolute_month_mono:
  assumes "calendar_ok cal" "t \<le> u" "month_start cal t = Ok (b :: instant)"
  shows "absolute_month cal t \<le> absolute_month cal u"
  using month_start_Ok(2) [OF assms(1,3), of t] month_start_Ok(2) [OF assms(1,3), of u] assms(2) by simp

text \<open>The month after the last one of the calendar has no start.\<close>

lemma last_month_has_no_successor:
  assumes "calendar_ok cal" "calendar_month_start cal 9999 12 = Ok b"
  shows "panics (shift_month_start cal b 1)"
proof -
  have "local_year cal b = 9999" "local_month cal b = 12"
    using calendar_month_start_Ok(1,2) [OF assms] by simp_all
  moreover have "date_start cal y m 1 \<noteq> None \<longleftrightarrow> 1 \<le> m \<and> m \<le> 12 \<and> -9999 \<le> y \<and> y \<le> 9999" for y m
    using assms(1) unfolding calendar_ok_def by blast
  from this [of 10000 1] have "date_start cal 10000 1 1 = None" by simp
  ultimately show ?thesis by (simp add: shift_month_start_def calendar_month_start_def)
qed

section \<open>A concrete calendar\<close>

text \<open>Years of twelve months of thirty days, for the examples.\<close>

definition demo_month_length :: int where "demo_month_length = 30 * 24 * 3600 * 1000000000"

definition demo_calendar :: calendar where
  "demo_calendar =
     \<lparr>local_date = (\<lambda>t. let n = t div demo_month_length in (n div 12, nat (n mod 12) + 1,
        nat (t mod demo_month_length div (24 * 3600 * 1000000000)) + 1)),
      date_start = (\<lambda>y m d. if 1 \<le> m \<and> m \<le> 12 \<and> 1 \<le> d \<and> d \<le> 30 \<and> -9999 \<le> y \<and> y \<le> 9999
        then Some ((y * 12 + int m - 1) * demo_month_length + (int d - 1) * (24 * 3600 * 1000000000)) else None)\<rparr>"

lemma mult_le_iff_le_div:
  fixes a c t :: int
  assumes "0 < c"
  shows "a * c \<le> t \<longleftrightarrow> a \<le> t div c"
proof
  assume "a * c \<le> t"
  then have "a * c div c \<le> t div c" using assms by (rule zdiv_mono1)
  then show "a \<le> t div c" using assms by simp
next
  assume "a \<le> t div c"
  then have "a * c \<le> t div c * c" using assms by (simp add: mult_right_mono)
  also have "t div c * c \<le> t" using assms by (metis div_mult_mod_eq le_add_same_cancel1 pos_mod_sign)
  finally show "a * c \<le> t" .
qed

lemma demo_calendar_ok: "calendar_ok demo_calendar"
proof -
  have "absolute_month demo_calendar t = t div demo_month_length" for t
    by (simp add: absolute_month_def local_year_def local_month_def demo_calendar_def Let_def)
  moreover have "(y * 12 + int m - 1) * demo_month_length \<le> t \<longleftrightarrow> y * 12 + int m - 1 \<le> t div demo_month_length" for y m t
    by (rule mult_le_iff_le_div) (simp add: demo_month_length_def)
  moreover have "local_date demo_calendar ((y * 12 + int m - 1) * demo_month_length) = (y, m, 1)"
    if "1 \<le> m" "m \<le> 12" for y m
  proof -
    have "12 * y + int m - 1 = (int m - 1) + y * 12" by simp
    with that have "(12 * y + int m - 1) div 12 = y \<and> (12 * y + int m - 1) mod 12 = int m - 1"
      by (simp only: div_mult_self1 mod_mult_self1) simp
    with that show ?thesis by (simp add: demo_calendar_def demo_month_length_def Let_def)
  qed
  moreover have "1 \<le> local_month demo_calendar t \<and> local_month demo_calendar t \<le> 12" for t
    by (simp add: local_month_def demo_calendar_def Let_def) 
  ultimately show ?thesis
    unfolding calendar_ok_def by (auto simp: demo_calendar_def split: if_splits)
qed

end
