(* ===== verification/AuditChain.thy ===== *)
theory AuditChain
  imports AuthState "HOL-Library.List_Lexorder" "HOL-Library.Product_Lexorder"
begin

text \<open>
  The audit chain (\<open>audit.rs\<close>): one chain of signed events for the platform and one for each organization, kept
  in the table \<open>audit_events\<close> of PostgreSQL. The table is the list of its rows in the order of insertion; a
  statement of the program is a function on it. HMAC-SHA256, the JSON and hexadecimal texts and the rounding of a time by
  the column \<open>occurred_at\<close> belong to other crates and the database and are the parameter \<open>audit_env\<close>. A sequence
  number is an \<open>int\<close>: the \<open>i64\<close> of the code would overflow only after \<open>2 ^ 63\<close> events.
\<close>

section \<open>Data\<close>

text \<open>\<open>serde_json::Value\<close>, with the numbers this program stores.\<close>

datatype json =
    JNull
  | JBool bool
  | JNumber int
  | JString string
  | JArray "json list"
  | JObject "(string \<times> json) list"

fun json_get :: "string \<Rightarrow> json \<Rightarrow> json option" where
  "json_get k (JObject ps) = map_of ps k"
| "json_get k _ = None"

fun json_as_str :: "json \<Rightarrow> string option" where
  "json_as_str (JString s) = Some s"
| "json_as_str _ = None"

type_synonym bytes = "8 word list"

record audit_signer =
  as_key_id :: string
  as_key :: bytes

record audit_append =
  ax_scope_key :: string
  ax_actor_type :: string
  ax_actor_id :: "uuid option"
  ax_action :: string
  ax_resource_type :: string
  ax_resource_id :: "uuid option"
  ax_metadata :: json
  ax_occurred_at :: instant
  ax_id :: uuid

record security_audit_event =
  sv_scope_key :: string
  sv_actor_type :: string
  sv_actor_id :: "uuid option"
  sv_action :: string
  sv_resource_type :: string
  sv_resource_id :: "uuid option"
  sv_metadata :: json

definition into_append :: "security_audit_event \<Rightarrow> world \<Rightarrow> audit_append \<times> world" where
  "into_append e w =
     (let (now, w) = now_utc w; (i, w) = new_v4 w
      in (\<lparr>ax_scope_key = sv_scope_key e, ax_actor_type = sv_actor_type e, ax_actor_id = sv_actor_id e,
           ax_action = sv_action e, ax_resource_type = sv_resource_type e, ax_resource_id = sv_resource_id e,
           ax_metadata = sv_metadata e, ax_occurred_at = now, ax_id = i\<rparr>, w))"

record audit_report =
  rep_chains :: nat
  rep_events :: nat

record canonical_event =
  ce_scope_key :: string
  ce_sequence :: int
  ce_previous_hash :: string
  ce_key_id :: string
  ce_actor_type :: string
  ce_actor_id :: "string option"
  ce_action :: string
  ce_resource_type :: string
  ce_resource_id :: "string option"
  ce_metadata :: json
  ce_occurred_at_unix_micros :: string
  ce_id :: string

record audit_row =
  row_event :: audit_append
  row_sequence :: int
  row_previous_hash :: bytes
  row_event_hash :: bytes
  row_key_id :: string

text \<open>\<open>ad_accepts\<close>: nothing else keeps the database from taking the row (its connection, a text it cannot hold).\<close>

record audit_env =
  ad_env :: env
  ad_hex :: "bytes \<Rightarrow> string"
  ad_json :: "canonical_event \<Rightarrow> bytes"
  ad_hmac :: "bytes \<Rightarrow> bytes \<Rightarrow> bytes"
  ad_time_column :: "instant \<Rightarrow> instant"
  ad_accepts :: "audit_row \<Rightarrow> bool"

section \<open>Signing\<close>

text \<open>Integer division of Rust rounds towards zero.\<close>

definition unix_micros :: "instant \<Rightarrow> int" where
  "unix_micros t = (if t < 0 then - (- t div 1000) else t div 1000)"

definition int_to_string :: "int \<Rightarrow> string" where
  "int_to_string n = (if n < 0 then CHR ''-'' # decimal (nat (- n)) else decimal (nat n))"

definition canonical :: "audit_env \<Rightarrow> audit_signer \<Rightarrow> int \<Rightarrow> bytes \<Rightarrow> audit_append \<Rightarrow> canonical_event" where
  "canonical ae signer sequence previous event =
     \<lparr>ce_scope_key = ax_scope_key event, ce_sequence = sequence, ce_previous_hash = ad_hex ae previous,
      ce_key_id = as_key_id signer, ce_actor_type = ax_actor_type event,
      ce_actor_id = map_option (uuid_to_string (ad_env ae)) (ax_actor_id event), ce_action = ax_action event,
      ce_resource_type = ax_resource_type event,
      ce_resource_id = map_option (uuid_to_string (ad_env ae)) (ax_resource_id event), ce_metadata = ax_metadata event,
      ce_occurred_at_unix_micros = int_to_string (unix_micros (ax_occurred_at event)),
      ce_id = uuid_to_string (ad_env ae) (ax_id event)\<rparr>"

definition sign :: "audit_env \<Rightarrow> audit_signer \<Rightarrow> int \<Rightarrow> bytes \<Rightarrow> audit_append \<Rightarrow> bytes" where
  "sign ae signer sequence previous event =
     ad_hmac ae (as_key signer) (ad_json ae (canonical ae signer sequence previous event))"

definition scope_key :: "env \<Rightarrow> uuid option \<Rightarrow> string" where
  "scope_key env organization =
     (case organization of Some i \<Rightarrow> ''organization:'' @ uuid_to_string env i | None \<Rightarrow> ''platform'')"

section \<open>The table\<close>

abbreviation row_scope :: "audit_row \<Rightarrow> string" where
  "row_scope r \<equiv> ax_scope_key (row_event r)"

abbreviation row_id :: "audit_row \<Rightarrow> uuid" where
  "row_id r \<equiv> ax_id (row_event r)"

datatype audit_error =
    AuditInsert
  | LinkageFailed string int
  | UnknownKeyId string string int
  | HashFailed string int
  | MissingLedgerId
  | MissingActorId
  | AuditColumn

text \<open>The checks of the table (\<open>migrations/0004_security_hardening.sql\<close>) and its unique columns.\<close>

definition scope_pattern :: "string \<Rightarrow> bool" where
  "scope_pattern s \<longleftrightarrow> s = ''platform'' \<or>
     take 13 s = ''organization:'' \<and> length s = 49
     \<and> list_all (\<lambda>c. c \<in> set ''0123456789abcdef-'') (drop 13 s)"

definition row_checks :: "audit_row \<Rightarrow> bool" where
  "row_checks r \<longleftrightarrow> scope_pattern (row_scope r) \<and> 0 < row_sequence r
     \<and> length (row_previous_hash r) \<in> {0, 32} \<and> length (row_event_hash r) = 32
     \<and> ax_actor_type (row_event r) \<in> {''platform_admin'', ''organization_admin'', ''business_user'', ''system''}
     \<and> (case ax_metadata (row_event r) of JObject _ \<Rightarrow> True | _ \<Rightarrow> False)"

definition chain :: "string \<Rightarrow> audit_row list \<Rightarrow> audit_row list" where
  "chain scope rows = sort_key row_sequence (filter (\<lambda>r. row_scope r = scope) rows)"

text \<open>\<open>ORDER BY sequence DESC LIMIT 1\<close>\<close>

definition chain_head :: "string \<Rightarrow> audit_row list \<Rightarrow> audit_row option" where
  "chain_head scope rows = (case chain scope rows of [] \<Rightarrow> None | rs \<Rightarrow> Some (last rs))"

definition insert_row :: "audit_env \<Rightarrow> audit_row \<Rightarrow> audit_row list \<Rightarrow> (unit, audit_error) result \<times> audit_row list" where
  "insert_row ae r rows =
     (if ad_accepts ae r \<and> row_checks r \<and> (\<forall>q \<in> set rows. row_id q \<noteq> row_id r \<and> row_event_hash q \<noteq> row_event_hash r
          \<and> (row_scope q, row_sequence q) \<noteq> (row_scope r, row_sequence r))
      then (Ok (), rows @ [r]) else (Err AuditInsert, rows))"

section \<open>Appending\<close>

definition append_event ::
  "audit_env \<Rightarrow> audit_signer \<Rightarrow> audit_append \<Rightarrow> audit_row list
     \<Rightarrow> (int \<times> bytes, audit_error) result \<times> audit_row list" where
  "append_event ae signer event rows =
     (let (sequence, previous) =
        (case chain_head (ax_scope_key event) rows of
           Some r \<Rightarrow> (row_sequence r + 1, row_event_hash r) | None \<Rightarrow> (1, []));
          hash = sign ae signer sequence previous event
      in perform (insert_row ae
           \<lparr>row_event = event\<lparr>ax_occurred_at := ad_time_column ae (ax_occurred_at event)\<rparr>, row_sequence = sequence,
            row_previous_hash = previous, row_event_hash = hash, row_key_id = as_key_id signer\<rparr> rows) id
         (\<lambda>_ rows. (Ok (sequence, hash), rows)))"

definition domain_event :: "env \<Rightarrow> audit_log \<Rightarrow> audit_append" where
  "domain_event env a =
     \<lparr>ax_scope_key = scope_key env (al_organization a), ax_actor_type = ''business_user'',
      ax_actor_id = Some (al_actor a), ax_action = al_action a, ax_resource_type = al_resource_type a,
      ax_resource_id = Some (al_resource a),
      ax_metadata = JObject [(''ledger_id'', JString (uuid_to_string env (al_ledger a))), (''summary'', JString (al_summary a))],
      ax_occurred_at = al_created_at a, ax_id = al_id a\<rparr>"

fun append_domain_logs ::
  "audit_env \<Rightarrow> audit_signer \<Rightarrow> audit_log list \<Rightarrow> audit_row list \<Rightarrow> (unit, audit_error) result \<times> audit_row list" where
  "append_domain_logs ae signer [] rows = (Ok (), rows)"
| "append_domain_logs ae signer (a # audits) rows =
     (if al_id a \<in> row_id ` set rows then append_domain_logs ae signer audits rows
      else perform (append_event ae signer (domain_event (ad_env ae) a) rows) id
        (\<lambda>_. append_domain_logs ae signer audits))"

text \<open>A transaction that is not committed is rolled back.\<close>

definition in_transaction :: "('s \<Rightarrow> ('a, 'e) result \<times> 's) \<Rightarrow> 's \<Rightarrow> ('a, 'e) result \<times> 's" where
  "in_transaction body s = (case body s of (Ok a, t) \<Rightarrow> (Ok a, t) | (r, _) \<Rightarrow> (r, s))"

definition append_security_event ::
  "audit_env \<Rightarrow> audit_signer \<Rightarrow> security_audit_event \<Rightarrow> audit_row list \<times> world
     \<Rightarrow> (unit, audit_error) result \<times> audit_row list \<times> world" where
  "append_security_event ae signer e \<sigma> =
     (let (rows, w) = \<sigma>; (event, w) = into_append e w;
          (r, rows) = in_transaction (append_event ae signer event) rows
      in attempt r id (rows, w) (\<lambda>_. (Ok (), rows, w)))"

section \<open>The change from the old table\<close>

text \<open>A row of \<open>audit_logs_legacy\<close> has the columns of an audit record of the application.\<close>

definition legacy_event :: "env \<Rightarrow> audit_log \<Rightarrow> audit_append" where
  "legacy_event env a =
     \<lparr>ax_scope_key = scope_key env (al_organization a), ax_actor_type = ''business_user'',
      ax_actor_id = Some (al_actor a), ax_action = al_action a, ax_resource_type = al_resource_type a,
      ax_resource_id = Some (al_resource a),
      ax_metadata = JObject [(''ledger_id'', JString (uuid_to_string env (al_ledger a))),
        (''source'', JString ''legacy_audit_logs''), (''summary'', JString (al_summary a))],
      ax_occurred_at = al_created_at a, ax_id = al_id a\<rparr>"

definition cutover_event :: "string \<Rightarrow> security_audit_event" where
  "cutover_event scope =
     \<lparr>sv_scope_key = scope, sv_actor_type = ''system'', sv_actor_id = None, sv_action = ''legacy_cutover'',
      sv_resource_type = ''audit_chain'', sv_resource_id = None,
      sv_metadata = JObject [(''schema_version'', JNumber 4)]\<rparr>"

fun append_all ::
  "audit_env \<Rightarrow> audit_signer \<Rightarrow> audit_append list \<Rightarrow> audit_row list \<Rightarrow> (unit, audit_error) result \<times> audit_row list" where
  "append_all ae signer [] rows = (Ok (), rows)"
| "append_all ae signer (e # es) rows =
     perform (append_event ae signer e rows) id (\<lambda>_. append_all ae signer es)"

fun append_cutovers ::
  "audit_env \<Rightarrow> audit_signer \<Rightarrow> string list \<Rightarrow> audit_row list \<times> world
     \<Rightarrow> (unit, audit_error) result \<times> audit_row list \<times> world" where
  "append_cutovers ae signer [] \<sigma> = (Ok (), \<sigma>)"
| "append_cutovers ae signer (s # scopes) (rows, w) =
     (let (event, w) = into_append (cutover_event s) w; (r, rows) = append_event ae signer event rows
      in attempt r id (rows, w) (\<lambda>_. append_cutovers ae signer scopes (rows, w)))"

definition initialize_legacy ::
  "audit_env \<Rightarrow> audit_signer \<Rightarrow> audit_log list \<Rightarrow> audit_row list \<times> world
     \<Rightarrow> (unit, audit_error) result \<times> audit_row list \<times> world" where
  "initialize_legacy ae signer legacy \<sigma> =
     (let (rows, w) = \<sigma> in
      if rows \<noteq> [] then (Ok (), \<sigma>)
      else
        let legacy = sort_key (\<lambda>a. (al_created_at a, al_id a)) legacy;
            events = map (legacy_event (ad_env ae)) legacy;
            scopes = (case sort (remdups (map ax_scope_key events)) of [] \<Rightarrow> [''platform''] | ss \<Rightarrow> ss);
            (r, rows') = append_all ae signer events rows;
            (r', rows', w) = attempt r id (rows', w) (\<lambda>_. append_cutovers ae signer scopes (rows', w))
        in if is_ok r' then (r', rows', w) else (r', rows, w))"

section \<open>Verifying and reading back\<close>

type_synonym audit_heads = "(string, int \<times> bytes) ord_map"

definition verify_row ::
  "audit_env \<Rightarrow> audit_signer \<Rightarrow> audit_row \<Rightarrow> audit_heads \<Rightarrow> (audit_heads, audit_error) result" where
  "verify_row ae signer r heads =
     (let scope = row_scope r; sequence = row_sequence r;
          (n, h) = (case om_get heads scope of Some x \<Rightarrow> x | None \<Rightarrow> (0, []))
      in if sequence \<noteq> n + 1 \<or> row_previous_hash r \<noteq> h then Err (LinkageFailed scope sequence)
      else if row_key_id r \<noteq> as_key_id signer then Err (UnknownKeyId (row_key_id r) scope sequence)
      else if sign ae signer sequence (row_previous_hash r) (row_event r) \<noteq> row_event_hash r
        then Err (HashFailed scope sequence)
      else Ok (om_insert scope (sequence, row_event_hash r) heads))"

definition verify :: "audit_env \<Rightarrow> audit_signer \<Rightarrow> audit_row list \<Rightarrow> (audit_report, audit_error) result" where
  "verify ae signer rows =
     attempt_pure (fold_result (verify_row ae signer)
       (sort_key (\<lambda>r. (row_scope r, row_sequence r)) rows) om_empty) id (\<lambda>heads.
     Ok \<lparr>rep_chains = om_size heads, rep_events = length rows\<rparr>)"

text \<open>How the audit log of the application is read back (\<open>storage/postgres.rs\<close>).\<close>

definition log_of_event :: "env \<Rightarrow> audit_append \<Rightarrow> (audit_log, audit_error) result" where
  "log_of_event env e =
     attempt_pure (ok_or (Option.bind (json_get ''ledger_id'' (ax_metadata e)) json_as_str) MissingLedgerId) id (\<lambda>ledger.
     attempt_pure (ok_or (parse_uuid env ledger) AuditColumn) id (\<lambda>ledger.
     attempt_pure (case strip_prefix ''organization:'' (ax_scope_key e) of None \<Rightarrow> Ok None
        | Some text \<Rightarrow> attempt_pure (ok_or (parse_uuid env text) AuditColumn) id (\<lambda>i. Ok (Some i))) id (\<lambda>organization.
     attempt_pure (ok_or (ax_actor_id e) MissingActorId) id (\<lambda>actor.
     attempt_pure (ok_or (ax_resource_id e) AuditColumn) id (\<lambda>resource.
     Ok \<lparr>al_id = ax_id e, al_organization = organization, al_ledger = ledger, al_actor = actor,
          al_action = ax_action e, al_resource_type = ax_resource_type e, al_resource = resource,
          al_summary = (case Option.bind (json_get ''summary'' (ax_metadata e)) json_as_str of Some s \<Rightarrow> s | None \<Rightarrow> []),
          al_created_at = ax_occurred_at e\<rparr>)))))"

definition load_audit_logs :: "env \<Rightarrow> audit_row list \<Rightarrow> (audit_log list, audit_error) result" where
  "load_audit_logs env rows =
     map_result (\<lambda>r. log_of_event env (row_event r))
       (sort_key (\<lambda>r. (ax_occurred_at (row_event r), row_id r))
         (filter (\<lambda>r. json_get ''ledger_id'' (ax_metadata (row_event r)) \<noteq> None) rows))"

end
