(* ===== verification/ServerState.thy ===== *)
theory ServerState
  imports LoginProtection AuthService AppOrganizations Calendar AuditChain
begin

text \<open>
  The state the HTTP handlers share (\<open>state.rs\<close>), the errors they answer with (\<open>ApiError\<close> in
  \<open>auth_routes.rs\<close>), the challenge of \<open>turnstile.rs\<close>, the client address of \<open>request_security.rs\<close> and the
  sessions of the platform operator (\<open>platform_auth.rs\<close>). The write gate serialises the handlers that
  change the services; a handler is one step here. A lock that another thread's panic has poisoned is a flag.
  The storage backend and the challenge's web service are the parameters of \<open>route_env\<close>.
\<close>

section \<open>Errors of the interface\<close>

datatype api_message = AuthMessage auth_error | ServiceMessage app_error | TextMessage string | StorageMessage string

record api_error =
  api_status :: nat
  api_message :: api_message
  api_retry_after :: "nat option"

definition plain_error :: "nat \<Rightarrow> string \<Rightarrow> api_error" where
  "plain_error status msg = \<lparr>api_status = status, api_message = TextMessage msg, api_retry_after = None\<rparr>"

definition forbidden :: "string \<Rightarrow> api_error" where "forbidden msg = plain_error 403 msg"
definition unauthorized :: "string \<Rightarrow> api_error" where "unauthorized msg = plain_error 401 msg"
definition not_found :: "string \<Rightarrow> api_error" where "not_found msg = plain_error 404 msg"
definition bad_request :: "string \<Rightarrow> api_error" where "bad_request msg = plain_error 400 msg"
definition internal_error :: "string \<Rightarrow> api_error" where "internal_error msg = plain_error 500 msg"

fun auth_status :: "auth_error \<Rightarrow> nat" where
  "auth_status InvalidCredentials = 401"
| "auth_status SessionNotFound = 401"
| "auth_status RefreshReplayDetected = 401"
| "auth_status (LoginRateLimited _) = 429"
| "auth_status TurnstileRequired = 428"
| "auth_status BusinessAppAccessDenied = 403"
| "auth_status AdminAccessDenied = 403"
| "auth_status EmailAlreadyRegistered = 409"
| "auth_status PhoneAlreadyRegistered = 409"
| "auth_status InstallationAlreadyBound = 409"
| "auth_status (AuthStorage _) = 500"
| "auth_status PasswordHashFailed = 500"
| "auth_status AdminOrganizationRequired = 500"
| "auth_status LoginIdentifierRequired = 400"
| "auth_status DisplayNameRequired = 400"
| "auth_status PasswordRequired = 400"
| "auth_status PasswordPolicyViolation = 400"
| "auth_status InstallationIdRequired = 400"

definition from_auth :: "auth_error \<Rightarrow> api_error" where
  "from_auth e = \<lparr>api_status = auth_status e, api_message = AuthMessage e,
     api_retry_after = (case e of LoginRateLimited n \<Rightarrow> Some n | _ \<Rightarrow> None)\<rparr>"

definition from_service :: "app_error \<Rightarrow> api_error" where
  "from_service e = \<lparr>api_status =
       (if e \<in> {UserNotFound, LedgerNotFound, AccountNotFound, CategoryNotFound, TransactionNotFound} then 404
        else if e = Unauthorized then 403
        else (case e of Storage _ \<Rightarrow> 500 | _ \<Rightarrow> 400)),
     api_message = ServiceMessage e, api_retry_after = None\<rparr>"

definition from_storage :: "string \<Rightarrow> api_error" where
  "from_storage e = \<lparr>api_status = 500, api_message = StorageMessage e, api_retry_after = None\<rparr>"

datatype turnstile_error = TokenRequired | Rejected | Unavailable

fun from_turnstile :: "turnstile_error \<Rightarrow> api_error" where
  "from_turnstile TokenRequired = from_auth TurnstileRequired"
| "from_turnstile Rejected = unauthorized ''turnstile verification rejected''"
| "from_turnstile Unavailable = plain_error 503 ''turnstile verification unavailable''"

section \<open>The state\<close>

text \<open>What the storage holds.\<close>

record stored =
  st_ledger :: app_ledger_snapshot
  st_auth :: auth_snapshot
  st_events :: "security_audit_event list"

record server =
  srv_ledger :: app_ledger_service
  srv_auth :: auth_service
  srv_world :: auth_world
  srv_protection :: login_protection
  srv_rate_limits :: "(security_rate_kind \<times> ip_addr) failure_table"
  srv_stored :: stored
  srv_instants :: "nat \<Rightarrow> instant"
  srv_auth_poisoned :: bool
  srv_ledger_poisoned :: bool
  srv_web_login_enabled :: bool

text \<open>The answer of the challenge's web service: its status, and the body when it can be read.\<close>

record turnstile_reply =
  tr_status_ok :: bool
  tr_body :: "(bool \<times> string option) option"

record route_env =
  rt_auth :: auth_env
  rt_lp :: lp_env
  rt_calendar :: calendar
  rt_secret_key :: "string option"
  rt_turnstile_post :: "string \<Rightarrow> string \<Rightarrow> ip_addr \<Rightarrow> turnstile_reply option"
  rt_save_ledger :: "app_ledger_snapshot \<Rightarrow> stored \<Rightarrow> string option \<times> stored"
  rt_save_auth :: "auth_snapshot \<Rightarrow> stored \<Rightarrow> string option \<times> stored"
  rt_save_all :: "app_ledger_snapshot \<Rightarrow> auth_snapshot \<Rightarrow> stored \<Rightarrow> string option \<times> stored"
  rt_append_event :: "security_audit_event \<Rightarrow> stored \<Rightarrow> string option \<times> stored"

abbreviation rt_env :: "route_env \<Rightarrow> env" where
  "rt_env re \<equiv> ae_env (rt_auth re)"

definition server_instant :: "server \<Rightarrow> instant \<times> server" where
  "server_instant \<sigma> = (srv_instants \<sigma> 0, \<sigma>\<lparr>srv_instants := \<lambda>n. srv_instants \<sigma> (Suc n)\<rparr>)"

text \<open>\<open>lock().map_err(...)\<close>\<close>

definition lock_auth :: "server \<Rightarrow> (auth_service, api_error) result" where
  "lock_auth \<sigma> = (if srv_auth_poisoned \<sigma> then Err (internal_error ''auth service lock poisoned'') else Ok (srv_auth \<sigma>))"

definition lock_ledger :: "server \<Rightarrow> (app_ledger_service, api_error) result" where
  "lock_ledger \<sigma> =
     (if srv_ledger_poisoned \<sigma> then Err (internal_error ''ledger service lock poisoned'') else Ok (srv_ledger \<sigma>))"

text \<open>A panic while the ledger's lock is held poisons it.\<close>

definition poison_ledger :: "('a, 'e) result \<Rightarrow> server \<Rightarrow> server" where
  "poison_ledger r \<sigma> = (if panics r then \<sigma>\<lparr>srv_ledger_poisoned := True\<rparr> else \<sigma>)"

lemma poison_ledger_simps [simp]:
  "poison_ledger (Ok a) \<sigma> = \<sigma>" "poison_ledger (Err e) \<sigma> = \<sigma>"
  "poison_ledger (Panic p) \<sigma> = \<sigma>\<lparr>srv_ledger_poisoned := True\<rparr>"
  by (simp_all add: poison_ledger_def)

lemma poison_ledger_frame [simp]:
  "srv_ledger (poison_ledger r \<sigma>) = srv_ledger \<sigma>" "srv_auth (poison_ledger r \<sigma>) = srv_auth \<sigma>"
  "srv_stored (poison_ledger r \<sigma>) = srv_stored \<sigma>" "srv_auth_poisoned (poison_ledger r \<sigma>) = srv_auth_poisoned \<sigma>"
  by (simp_all add: poison_ledger_def)

text \<open>A storage call: its failure is an internal error.\<close>

definition store_call :: "(stored \<Rightarrow> string option \<times> stored) \<Rightarrow> server \<Rightarrow> (unit, api_error) result \<times> server" where
  "store_call f \<sigma> =
     (let (failure, st) = f (srv_stored \<sigma>)
      in (case failure of None \<Rightarrow> Ok () | Some e \<Rightarrow> Err (from_storage e), \<sigma>\<lparr>srv_stored := st\<rparr>))"

section \<open>The challenge\<close>

definition verify_for_action ::
  "route_env \<Rightarrow> string \<Rightarrow> ip_addr \<Rightarrow> string \<Rightarrow> (unit, turnstile_error) result" where
  "verify_for_action re token ip expected =
     (case rt_secret_key re of None \<Rightarrow> Ok ()
      | Some secret \<Rightarrow>
          let token = trim token in
          if token = [] then Err TokenRequired
          else case rt_turnstile_post re secret token ip of None \<Rightarrow> Err Unavailable
            | Some reply \<Rightarrow>
                if \<not> tr_status_ok reply then Err Unavailable
                else case tr_body reply of None \<Rightarrow> Err Unavailable
                  | Some (success, act) \<Rightarrow> if success \<and> act = Some expected then Ok () else Err Rejected)"

section \<open>The client of a request\<close>

record request_context =
  ctx_client_ip :: ip_addr
  ctx_forwarded_https :: bool

text \<open>Headers that are present and text; \<open>parse_ip\<close> and the membership of a network are \<open>std::net\<close> and \<open>ipnet\<close>.\<close>

record http_headers =
  hd_authorization :: "string option"
  hd_cookie :: "string option"
  hd_forwarded_for :: "string option"
  hd_forwarded_proto :: "string option"

definition resolve_context ::
  "(ip_addr \<Rightarrow> bool) \<Rightarrow> (string \<Rightarrow> ip_addr option) \<Rightarrow> ip_addr \<Rightarrow> http_headers \<Rightarrow> request_context" where
  "resolve_context trusted parse_ip peer headers =
     \<lparr>ctx_client_ip =
        (if trusted peer then
           case Option.bind (hd_forwarded_for headers) (\<lambda>v. parse_ip (trim (hd (split_on (CHR '','') v)))) of
             Some ip \<Rightarrow> ip | None \<Rightarrow> peer
         else peer),
      ctx_forwarded_https = (trusted peer \<and>
        (case hd_forwarded_proto headers of None \<Rightarrow> False | Some v \<Rightarrow> to_ascii_lowercase v = ''https''))\<rparr>"

section \<open>The platform operator\<close>

type_synonym platform_sessions = "(string, instant) ord_map"

definition platform_session_ttl :: int where "platform_session_ttl = seconds (8 * 60 * 60)"

definition platform_prune :: "platform_sessions \<times> auth_world \<Rightarrow> platform_sessions \<times> auth_world" where
  "platform_prune \<sigma> = (let (m, w) = \<sigma>; (now, w) = auth_now w in (om_retain (\<lambda>_ t. t > now) m, w))"

definition platform_issue :: "platform_sessions \<times> auth_world \<Rightarrow> string \<times> (platform_sessions \<times> auth_world)" where
  "platform_issue \<sigma> =
     (let (m, w) = platform_prune \<sigma>; (token, w) = random_token w; (now, w) = auth_now w
      in (token, om_insert token (now + platform_session_ttl) m, w))"

definition platform_authenticate ::
  "string \<Rightarrow> platform_sessions \<times> auth_world \<Rightarrow> bool \<times> (platform_sessions \<times> auth_world)" where
  "platform_authenticate token \<sigma> = (let (m, w) = platform_prune \<sigma> in (om_contains m (trim token), m, w))"

definition platform_revoke :: "string \<Rightarrow> platform_sessions \<Rightarrow> platform_sessions" where
  "platform_revoke token m = om_remove (trim token) m"

text \<open>The comparison in constant time has the value of equality.\<close>

definition platform_token_matches :: "string \<Rightarrow> string \<Rightarrow> bool" where
  "platform_token_matches expected candidate \<longleftrightarrow> trim expected = trim candidate"

section \<open>Start-up\<close>

definition migrate_organization_admin_accounts :: "app_ledger_service \<Rightarrow> auth_state \<Rightarrow> bool \<times> auth_state" where
  "migrate_organization_admin_accounts ledger \<sigma> =
     fold (\<lambda>(u, org) (changed, \<sigma>). let (c, \<sigma>) = mark_organization_admin u org \<sigma> in (c \<or> changed, \<sigma>))
       (organization_admin_accounts ledger) (False, \<sigma>)"

end
