(* ===== verification/AuthRoutes.thy ===== *)
theory AuthRoutes
  imports ServerState
begin

text \<open>
  The handlers of \<open>auth_routes.rs\<close>: login and refresh of both kinds of client, the profile, logging out. A
  handler works on a clone of the accounts, saves it, and only then replaces the shared state; what the
  clone drew from the clock and the random source stays drawn.
\<close>

section \<open>Requests and responses\<close>

record login_request =
  lr_email :: "string option"
  lr_phone :: "string option"
  lr_password :: string
  lr_installation :: string
  lr_turnstile :: string

record refresh_request =
  rr_refresh_token :: string
  rr_installation :: string

record me_response =
  me_user :: auth_user_dto
  me_installation :: string

text \<open>A web session answers with the access token in the body and the refresh token in a cookie.\<close>

record web_response =
  wr_user :: auth_user_dto
  wr_access_token :: string
  wr_installation :: string
  wr_set_cookie :: string

definition web_refresh_cookie :: string where "web_refresh_cookie = ''__Host-cloudledger_refresh''"

definition cleared_cookie :: string where
  "cleared_cookie = ''__Host-cloudledger_refresh=; Path=/; Max-Age=0; Secure; HttpOnly; SameSite=Strict''"

text \<open>\<open>HeaderValue::from_str\<close> accepts visible characters, spaces, tabs and bytes above 127.\<close>

definition valid_header_value :: "string \<Rightarrow> bool" where
  "valid_header_value v \<longleftrightarrow> (\<forall>c \<in> set v. (32 \<le> byte c \<and> byte c \<noteq> 127) \<or> byte c = 9)"

definition web_session_response :: "session \<Rightarrow> (web_response, api_error) result" where
  "web_session_response z =
     (let cookie = web_refresh_cookie @ ''='' @ sn_refresh_token z
            @ ''; Path=/; Max-Age=2592000; Secure; HttpOnly; SameSite=Strict''
      in if valid_header_value cookie
         then Ok \<lparr>wr_user = sn_user z, wr_access_token = sn_access_token z, wr_installation = sn_installation z,
                  wr_set_cookie = cookie\<rparr>
         else Panic ''valid refresh cookie'')"

section \<open>Headers\<close>

definition nonblank :: "string option \<Rightarrow> string option" where
  "nonblank v = (case v of Some s \<Rightarrow> if trim s \<noteq> [] then Some s else None | None \<Rightarrow> None)"

definition bearer_token :: "http_headers \<Rightarrow> (string, api_error) result" where
  "bearer_token headers =
     ok_or (nonblank (Option.bind (hd_authorization headers) (strip_prefix ''Bearer '')))
       (unauthorized ''access token required'')"

fun find_cookie :: "string \<Rightarrow> string list \<Rightarrow> string option" where
  "find_cookie name [] = None"
| "find_cookie name (p # ps) =
     (case split_once (CHR ''='') (trim p) of
        Some (k, v) \<Rightarrow> if k = name then Some v else find_cookie name ps
      | None \<Rightarrow> find_cookie name ps)"

definition cookie_value :: "http_headers \<Rightarrow> string \<Rightarrow> string option" where
  "cookie_value headers name =
     nonblank (Option.bind (hd_cookie headers) (\<lambda>v. find_cookie name (split_on (CHR '';'') v)))"

definition login_identifier :: "env \<Rightarrow> string option \<Rightarrow> string option \<Rightarrow> string" where
  "login_identifier env mail tel =
     (case (case mail of Some m \<Rightarrow> Some m | None \<Rightarrow> tel) of
        Some v \<Rightarrow> to_lowercase env (trim v) | None \<Rightarrow> [])"

definition business_audit_scope :: "env \<Rightarrow> uuid option \<Rightarrow> string" where
  "business_audit_scope env org =
     (case org of Some o' \<Rightarrow> ''organization:'' @ uuid_to_string env o' | None \<Rightarrow> ''platform'')"

definition require_web_login :: "server \<Rightarrow> request_context \<Rightarrow> (unit, api_error) result" where
  "require_web_login \<sigma> ctx =
     (if \<not> srv_web_login_enabled \<sigma> then Err (not_found ''web login is disabled'')
      else if \<not> ctx_forwarded_https ctx then Err (bad_request ''web login requires HTTPS'')
      else Ok ())"

section \<open>Login protection in memory\<close>

definition check_login_attempt ::
  "route_env \<Rightarrow> ip_addr \<Rightarrow> login_surface \<Rightarrow> string \<Rightarrow> server \<Rightarrow> (unit, api_error) result \<times> server" where
  "check_login_attempt re ip surface identifier \<sigma> =
     (let (now, \<sigma>) = server_instant \<sigma>;
          (r, p) = check_at (rt_lp re) ip surface identifier now (srv_protection \<sigma>);
          \<sigma> = \<sigma>\<lparr>srv_protection := p\<rparr>
      in attempt r from_auth \<sigma> (\<lambda>_. (Ok (), \<sigma>)))"

definition route_challenge_required ::
  "route_env \<Rightarrow> ip_addr \<Rightarrow> login_surface \<Rightarrow> string \<Rightarrow> server \<Rightarrow> bool \<times> server" where
  "route_challenge_required re ip surface identifier \<sigma> =
     (let (now, \<sigma>) = server_instant \<sigma>;
          (c, p) = challenge_required (rt_lp re) ip surface identifier now (srv_protection \<sigma>)
      in (c, \<sigma>\<lparr>srv_protection := p\<rparr>))"

definition record_login_failure ::
  "route_env \<Rightarrow> ip_addr \<Rightarrow> login_surface \<Rightarrow> string \<Rightarrow> server \<Rightarrow> auth_error option \<times> server" where
  "record_login_failure re ip surface identifier \<sigma> =
     (let (now, \<sigma>) = server_instant \<sigma>;
          (limit, p) = record_failure (rt_lp re) ip surface identifier now (srv_protection \<sigma>);
          \<sigma> = \<sigma>\<lparr>srv_protection := p\<rparr>
      in if limit \<noteq> None then (limit, \<sigma>)
         else let (c, \<sigma>) = route_challenge_required re ip surface identifier \<sigma>
              in (if c then Some TurnstileRequired else None, \<sigma>))"

definition record_login_success ::
  "route_env \<Rightarrow> ip_addr \<Rightarrow> login_surface \<Rightarrow> string \<Rightarrow> server \<Rightarrow> server" where
  "record_login_success re ip surface identifier \<sigma> =
     \<sigma>\<lparr>srv_protection := record_success (rt_lp re) ip surface identifier (srv_protection \<sigma>)\<rparr>"

definition check_refresh_rate :: "route_env \<Rightarrow> ip_addr \<Rightarrow> server \<Rightarrow> (unit, api_error) result \<times> server" where
  "check_refresh_rate re ip \<sigma> =
     (let (now, \<sigma>) = server_instant \<sigma>;
          (r, m) = check_security_memory (rt_lp re) RefreshRate ip now (srv_rate_limits \<sigma>);
          \<sigma> = \<sigma>\<lparr>srv_rate_limits := m\<rparr>
      in attempt r from_auth \<sigma> (\<lambda>_. (Ok (), \<sigma>)))"

section \<open>Saving\<close>

definition persist_auth_and_ledger_identity ::
  "route_env \<Rightarrow> auth_service \<Rightarrow> authenticated_session \<Rightarrow> server \<Rightarrow> (unit, api_error) result \<times> server" where
  "persist_auth_and_ledger_identity re staged session \<sigma> =
     attempt (lock_ledger \<sigma>) id \<sigma> (\<lambda>ledger.
     let u = an_user session;
         (r, ledger, w) = ensure_user_identity (rt_env re)
           \<lparr>ei_user = au_id u, ei_display_name = au_display_name u, ei_email = au_email u, ei_phone = au_phone u\<rparr>
           (ledger, aw_world (srv_world \<sigma>));
         \<sigma> = \<sigma>\<lparr>srv_world := (srv_world \<sigma>)\<lparr>aw_world := w\<rparr>\<rparr>
     in attempt r from_service \<sigma> (\<lambda>_.
        perform (store_call (rt_save_all re (snapshot ledger) (auth_snapshot_of staged)) \<sigma>) id (\<lambda>_ \<sigma>.
        attempt (lock_auth \<sigma>) id \<sigma> (\<lambda>_.
        attempt (lock_ledger \<sigma>) id \<sigma> (\<lambda>_.
        (Ok (), \<sigma>\<lparr>srv_auth := staged, srv_ledger := ledger\<rparr>))))))"

definition session_event :: "env \<Rightarrow> uuid option \<Rightarrow> uuid \<Rightarrow> string \<Rightarrow> session_kind \<Rightarrow> security_audit_event" where
  "session_event env org actor act kind =
     \<lparr>sv_scope_key = business_audit_scope env org, sv_actor_type = ''business_user'', sv_actor_id = Some actor,
      sv_action = act, sv_resource_type = ''session'', sv_resource_id = None,
      sv_metadata = JObject [(''client_kind'', JString (case kind of Tauri \<Rightarrow> ''tauri'' | Web \<Rightarrow> ''web'' | AdminKind \<Rightarrow> ''admin''))]\<rparr>"

definition append_session_audit ::
  "route_env \<Rightarrow> session \<Rightarrow> string \<Rightarrow> session_kind \<Rightarrow> server \<Rightarrow> (unit, api_error) result \<times> server" where
  "append_session_audit re z act kind \<sigma> =
     store_call (rt_append_event re
       (session_event (rt_env re) (au_organization (sn_user z)) (au_id (sn_user z)) act kind)) \<sigma>"

definition session_identity :: "session \<Rightarrow> authenticated_session" where
  "session_identity z = \<lparr>an_user = sn_user z, an_installation = sn_installation z\<rparr>"

section \<open>Login and refresh\<close>

definition login_challenge ::
  "route_env \<Rightarrow> ip_addr \<Rightarrow> string \<Rightarrow> string \<Rightarrow> server \<Rightarrow> (unit, api_error) result \<times> server" where
  "login_challenge re ip identifier token \<sigma> =
     (let (needed, \<sigma>) = route_challenge_required re ip BusinessSurface identifier \<sigma> in
      if \<not> needed then (Ok (), \<sigma>)
      else if trim token = [] then (Err (from_auth TurnstileRequired), \<sigma>)
      else attempt (verify_for_action re token ip ''business-login'') from_turnstile \<sigma> (\<lambda>_. (Ok (), \<sigma>)))"

definition login_route ::
  "route_env \<Rightarrow> ip_addr \<Rightarrow> login_request \<Rightarrow> session_kind \<Rightarrow> server \<Rightarrow> (session, api_error) result \<times> server" where
  "login_route re ip request kind \<sigma> =
     (let identifier = login_identifier (rt_env re) (lr_email request) (lr_phone request) in
      perform (check_login_attempt re ip BusinessSurface identifier \<sigma>) id (\<lambda>_ \<sigma>.
      perform (login_challenge re ip identifier (lr_turnstile request) \<sigma>) id (\<lambda>_ \<sigma>.
      attempt (lock_auth \<sigma>) id \<sigma> (\<lambda>auth.
      let (result, staged, w) = login_for_client (rt_auth re)
            \<lparr>li_email = lr_email request, li_phone = lr_phone request, li_password = lr_password request,
             li_installation = lr_installation request\<rparr> kind (auth, srv_world \<sigma>);
          \<sigma> = \<sigma>\<lparr>srv_world := w\<rparr>
      in case result of
           Ok z \<Rightarrow>
             let \<sigma> = record_login_success re ip BusinessSurface identifier \<sigma> in
             perform (persist_auth_and_ledger_identity re staged (session_identity z) \<sigma>) id (\<lambda>_ \<sigma>.
             perform (append_session_audit re z ''session_issued'' kind \<sigma>) id (\<lambda>_ \<sigma>. (Ok z, \<sigma>)))
         | Err e \<Rightarrow>
             if e = InvalidCredentials then
               let (limit, \<sigma>) = record_login_failure re ip BusinessSurface identifier \<sigma>
               in (Err (from_auth (case limit of Some e' \<Rightarrow> e' | None \<Rightarrow> InvalidCredentials)), \<sigma>)
             else (Err (from_auth e), record_login_success re ip BusinessSurface identifier \<sigma>)
         | Panic p \<Rightarrow> (Panic p, \<sigma>)))))"

definition refresh_route ::
  "route_env \<Rightarrow> ip_addr \<Rightarrow> refresh_request \<Rightarrow> session_kind \<Rightarrow> server \<Rightarrow> (session, api_error) result \<times> server" where
  "refresh_route re ip request kind \<sigma> =
     perform (check_refresh_rate re ip \<sigma>) id (\<lambda>_ \<sigma>.
     attempt (lock_auth \<sigma>) id \<sigma> (\<lambda>auth.
     let (result, staged, w) = refresh_for_client (rt_auth re)
           \<lparr>fi_refresh_token = rr_refresh_token request, fi_installation = rr_installation request\<rparr> kind
           (auth, srv_world \<sigma>);
         \<sigma> = \<sigma>\<lparr>srv_world := w\<rparr>
     in attempt result from_auth \<sigma> (\<lambda>z.
        perform (persist_auth_and_ledger_identity re staged (session_identity z) \<sigma>) id (\<lambda>_ \<sigma>.
        perform (append_session_audit re z ''session_rotated'' kind \<sigma>) id (\<lambda>_ \<sigma>. (Ok z, \<sigma>))))))"

definition tauri_login ::
  "route_env \<Rightarrow> request_context \<Rightarrow> login_request \<Rightarrow> server \<Rightarrow> (session, api_error) result \<times> server" where
  "tauri_login re ctx request \<sigma> = login_route re (ctx_client_ip ctx) request Tauri \<sigma>"

definition tauri_refresh ::
  "route_env \<Rightarrow> request_context \<Rightarrow> refresh_request \<Rightarrow> server \<Rightarrow> (session, api_error) result \<times> server" where
  "tauri_refresh re ctx request \<sigma> = refresh_route re (ctx_client_ip ctx) request Tauri \<sigma>"

definition web_login ::
  "route_env \<Rightarrow> request_context \<Rightarrow> login_request \<Rightarrow> server \<Rightarrow> (web_response, api_error) result \<times> server" where
  "web_login re ctx request \<sigma> =
     attempt (require_web_login \<sigma> ctx) id \<sigma> (\<lambda>_.
     perform (login_route re (ctx_client_ip ctx) request Web \<sigma>) id (\<lambda>z \<sigma>. (web_session_response z, \<sigma>)))"

definition web_refresh ::
  "route_env \<Rightarrow> request_context \<Rightarrow> http_headers \<Rightarrow> string \<Rightarrow> server \<Rightarrow> (web_response, api_error) result \<times> server" where
  "web_refresh re ctx headers installation \<sigma> =
     attempt (require_web_login \<sigma> ctx) id \<sigma> (\<lambda>_.
     attempt (ok_or (cookie_value headers web_refresh_cookie) (unauthorized ''refresh cookie required'')) id \<sigma> (\<lambda>token.
     perform (refresh_route re (ctx_client_ip ctx) \<lparr>rr_refresh_token = token, rr_installation = installation\<rparr> Web \<sigma>)
       id (\<lambda>z \<sigma>. (web_session_response z, \<sigma>))))"

section \<open>The profile\<close>

definition authenticate ::
  "route_env \<Rightarrow> http_headers \<Rightarrow> server \<Rightarrow> (authenticated_session, api_error) result \<times> server" where
  "authenticate re headers \<sigma> =
     attempt (bearer_token headers) id \<sigma> (\<lambda>token.
     attempt (lock_auth \<sigma>) id \<sigma> (\<lambda>auth.
     let (r, _, w) = authenticate_access_token (rt_auth re) token (auth, srv_world \<sigma>);
         \<sigma> = \<sigma>\<lparr>srv_world := w\<rparr>
     in attempt r from_auth \<sigma> (\<lambda>a. (Ok a, \<sigma>))))"

definition me_response_of :: "authenticated_session \<Rightarrow> me_response" where
  "me_response_of a = \<lparr>me_user = an_user a, me_installation = an_installation a\<rparr>"

definition me :: "route_env \<Rightarrow> http_headers \<Rightarrow> server \<Rightarrow> (me_response, api_error) result \<times> server" where
  "me re headers \<sigma> = perform (authenticate re headers \<sigma>) id (\<lambda>a \<sigma>. (Ok (me_response_of a), \<sigma>))"

definition update_me ::
  "route_env \<Rightarrow> http_headers \<Rightarrow> string \<Rightarrow> server \<Rightarrow> (me_response, api_error) result \<times> server" where
  "update_me re headers new_name \<sigma> =
     attempt (bearer_token headers) id \<sigma> (\<lambda>token.
     attempt (lock_auth \<sigma>) id \<sigma> (\<lambda>auth.
     let (r, staged, w) = update_profile (rt_auth re) token new_name (auth, srv_world \<sigma>);
         \<sigma> = \<sigma>\<lparr>srv_world := w\<rparr>
     in attempt r from_auth \<sigma> (\<lambda>a.
        perform (persist_auth_and_ledger_identity re staged a \<sigma>) id (\<lambda>_ \<sigma>. (Ok (me_response_of a), \<sigma>)))))"

section \<open>Logging out\<close>

definition replace_auth :: "route_env \<Rightarrow> auth_service \<Rightarrow> server \<Rightarrow> (unit, api_error) result \<times> server" where
  "replace_auth re staged \<sigma> =
     perform (store_call (rt_save_auth re (auth_snapshot_of staged)) \<sigma>) id (\<lambda>_ \<sigma>.
     attempt (lock_auth \<sigma>) id \<sigma> (\<lambda>_. (Ok (), \<sigma>\<lparr>srv_auth := staged\<rparr>)))"

definition tauri_logout :: "route_env \<Rightarrow> http_headers \<Rightarrow> server \<Rightarrow> (unit, api_error) result \<times> server" where
  "tauri_logout re headers \<sigma> =
     attempt (bearer_token headers) id \<sigma> (\<lambda>token.
     perform (authenticate re headers \<sigma>) id (\<lambda>a \<sigma>.
     attempt (lock_auth \<sigma>) id \<sigma> (\<lambda>auth.
     let (r, staged, w) = logout (rt_auth re) token (auth, srv_world \<sigma>);
         \<sigma> = \<sigma>\<lparr>srv_world := w\<rparr>
     in attempt r from_auth \<sigma> (\<lambda>_.
        perform (replace_auth re staged \<sigma>) id (\<lambda>_ \<sigma>.
        store_call (rt_append_event re
          (session_event (rt_env re) (au_organization (an_user a)) (au_id (an_user a)) ''session_revoked'' Tauri)) \<sigma>)))))"

definition web_logout ::
  "route_env \<Rightarrow> request_context \<Rightarrow> http_headers \<Rightarrow> server \<Rightarrow> (string, api_error) result \<times> server" where
  "web_logout re ctx headers \<sigma> =
     attempt (require_web_login \<sigma> ctx) id \<sigma> (\<lambda>_.
     case cookie_value headers web_refresh_cookie of
       None \<Rightarrow> (Ok cleared_cookie, \<sigma>)
     | Some token \<Rightarrow>
         attempt (lock_auth \<sigma>) id \<sigma> (\<lambda>auth.
         let (r, staged, w) = logout_refresh (rt_auth re) token (auth, srv_world \<sigma>);
             \<sigma> = \<sigma>\<lparr>srv_world := w\<rparr>
         in attempt r from_auth \<sigma> (\<lambda>uid.
            perform (replace_auth re staged \<sigma>) id (\<lambda>_ \<sigma>.
            perform (store_call (rt_append_event re
              (session_event (rt_env re) (organization_id_of staged uid) uid ''session_revoked'' Web)) \<sigma>) id
              (\<lambda>_ \<sigma>. (Ok cleared_cookie, \<sigma>))))))"

end
