(* ===== verification/Reports.thy ===== *)
theory Reports
  imports Calendar AppSetup
begin

text \<open>
  What the application shows a user (\<open>app.rs\<close>): the overview, the transactions of a month or a day, and
  the life of transactions by audit period. The reports read the state; the clock is drawn from the world.
\<close>

section \<open>The overview\<close>

record ledger_overview =
  ov_current_user :: user_dto
  ov_ledgers :: "ledger_dto list"
  ov_accounts :: "account_dto list"
  ov_categories :: "category_dto list"
  ov_transactions :: "transaction_dto list"
  ov_audit_logs :: "audit_log_dto list"
  ov_monthly_income_minor :: i64
  ov_monthly_expense_minor :: i64
  ov_pending_approval_count :: nat
  ov_pending_payment_count :: nat
  ov_pending_receipt_count :: nat

definition ledger_sort_rank :: "uuid \<Rightarrow> ledger \<Rightarrow> nat" where
  "ledger_sort_rank actor l =
     (case lg_kind l of
        Personal \<Rightarrow> if owner_user_id l = Some actor then 0 else 1
      | OrganizationPublic \<Rightarrow> 2)"

definition visible_ledgers :: "app_ledger_service \<Rightarrow> uuid \<Rightarrow> ledger list" where
  "visible_ledgers s actor =
     sort_key (\<lambda>l. (ledger_sort_rank actor l, lg_name l, lg_id l))
       (filter (\<lambda>l. authorized s actor l ViewLedger) (om_values (ledgers s)))"

text \<open>The identifiers are read back from their text.\<close>

definition visible_ledger_ids :: "env \<Rightarrow> app_ledger_service \<Rightarrow> uuid \<Rightarrow> uuid list" where
  "visible_ledger_ids env s actor =
     List.map_filter (\<lambda>l. parse_uuid env (ld_id l)) (map (ledger_dto_of env s actor) (visible_ledgers s actor))"

definition in_overview :: "calendar \<Rightarrow> env \<Rightarrow> app_ledger_service \<Rightarrow> uuid \<Rightarrow> string \<Rightarrow> transaction \<Rightarrow> bool" where
  "in_overview cal env s actor current_month t \<longleftrightarrow>
     tx_ledger t \<in> set (visible_ledger_ids env s actor)
     \<and> transaction_visible_to_actor s actor t
     \<and> (month_key cal (occurred_at t) = current_month
        \<or> approval_state t = Submitted
        \<or> payment_state t \<in> {PendingPayment, PaidPendingReceipt})"

definition audit_in_overview :: "env \<Rightarrow> app_ledger_service \<Rightarrow> uuid \<Rightarrow> audit_log \<Rightarrow> bool" where
  "audit_in_overview env s actor a \<longleftrightarrow>
     al_ledger a \<in> set (visible_ledger_ids env s actor)
     \<and> (case om_get (ledgers s) (al_ledger a) of None \<Rightarrow> False | Some l \<Rightarrow> authorized s actor l ViewAuditLog)
     \<and> audit_visible_to_actor s actor a"

definition overview ::
  "calendar \<Rightarrow> env \<Rightarrow> uuid \<Rightarrow> app_ledger_service \<Rightarrow> world \<Rightarrow> ledger_overview \<times> world" where
  "overview cal env actor s w =
     (let visible_ids = visible_ledger_ids env s actor;
          (now, w) = now_utc w;
          current_month = month_key cal now;
          ts = map (transaction_dto_of env s) (filter (in_overview cal env s actor current_month) (om_values (transactions s)))
      in (\<lparr>ov_current_user = (case om_get (users s) actor of
              Some u \<Rightarrow> user_dto_of env u
            | None \<Rightarrow> \<lparr>ud_id = uuid_to_string env actor, ud_display_name = ''Unknown''\<rparr>),
           ov_ledgers = map (ledger_dto_of env s actor) (visible_ledgers s actor),
           ov_accounts = map (account_dto_of env s actor)
             (filter (\<lambda>a. fa_ledger a \<in> set visible_ids) (om_values (accounts s))),
           ov_categories = map (category_dto_of env)
             (filter (\<lambda>c. cat_ledger c \<in> set visible_ids) (om_values (categories s))),
           ov_transactions = ts,
           ov_audit_logs = map (audit_dto_of env s) (filter (audit_in_overview env s actor) (audit_logs s)),
           ov_monthly_income_minor = sum_list (map td_amount_minor
             (filter (\<lambda>d. td_approval_state d = ''approved'' \<and> td_kind d = ''income'') ts)),
           ov_monthly_expense_minor = sum_list (map td_amount_minor
             (filter (\<lambda>d. td_approval_state d = ''approved'' \<and> td_payment_state d \<noteq> ''pending_payment''
                \<and> td_kind d = ''expense'') ts)),
           ov_pending_approval_count = length (filter (\<lambda>d. td_approval_state d = ''submitted'') ts),
           ov_pending_payment_count = length (filter (\<lambda>d. td_approval_state d = ''approved''
             \<and> td_payment_state d = ''pending_payment'') ts),
           ov_pending_receipt_count = length (filter (\<lambda>d. td_approval_state d = ''approved''
             \<and> td_payment_state d = ''paid_pending_receipt'') ts)\<rparr>, w))"

definition switch_user ::
  "calendar \<Rightarrow> env \<Rightarrow> uuid \<Rightarrow> app_state \<Rightarrow> (ledger_overview, app_error) result \<times> app_state" where
  "switch_user cal env u \<sigma> =
     (let (s, w) = \<sigma> in
      if \<not> om_contains (users s) u then (Err UserNotFound, \<sigma>)
      else let s = s\<lparr>current_user_id := u\<rparr>; (r, w) = overview cal env u s w in (Ok r, s, w))"

section \<open>The transactions of a period\<close>

record transaction_month_dto =
  tm_ledger_id :: string
  tm_month :: string
  tm_day :: "string option"
  tm_available_months :: "string list"
  tm_available_days :: "string list"
  tm_transactions :: "transaction_dto list"

text \<open>A \<open>BTreeSet\<close> of texts, read backwards.\<close>

definition descending_set :: "string list \<Rightarrow> string list" where
  "descending_set xs = rev (sort (remdups xs))"

definition newest_first :: "transaction_dto list \<Rightarrow> transaction_dto list" where
  "newest_first = sort_by (\<lambda>a b. td_occurred_at b < td_occurred_at a
     \<or> (td_occurred_at a = td_occurred_at b \<and> td_id b \<le> td_id a))"

text \<open>The transactions of the ledger that the actor may see.\<close>

definition shown_transactions :: "app_ledger_service \<Rightarrow> uuid \<Rightarrow> uuid \<Rightarrow> transaction list" where
  "shown_transactions s actor ledger =
     filter (\<lambda>t. tx_ledger t = ledger \<and> tx_deleted_at t = None \<and> transaction_visible_to_actor s actor t)
       (om_values (transactions s))"

definition select_day :: "calendar \<Rightarrow> string option \<Rightarrow> (string option, app_error) result" where
  "select_day cal requested =
     (case requested of None \<Rightarrow> Ok None
      | Some day \<Rightarrow> if parse_day_key cal day = None then Err InvalidTransactionDay else Ok (Some day))"

definition selected_month :: "string \<Rightarrow> string option \<Rightarrow> string option \<Rightarrow> string" where
  "selected_month current requested day =
     (case requested of Some m \<Rightarrow> m | None \<Rightarrow> (case day of Some d \<Rightarrow> take 7 d | None \<Rightarrow> current))"

definition transactions_for_period ::
  "calendar \<Rightarrow> env \<Rightarrow> uuid \<Rightarrow> uuid \<Rightarrow> string option \<Rightarrow> string option \<Rightarrow> app_ledger_service \<Rightarrow> world
     \<Rightarrow> (transaction_month_dto, app_error) result \<times> world" where
  "transactions_for_period cal env actor ledger requested_month requested_day s w =
     attempt (ok_or (om_get (ledgers s) ledger) LedgerNotFound) id w (\<lambda>l.
     if \<not> authorized s actor l ViewLedger then (Err Unauthorized, w)
     else attempt (select_day cal requested_day) id w (\<lambda>day.
     let (now, w) = now_utc w;
         month = selected_month (month_key cal now) requested_month day
     in if parse_month_key cal month = None then (Err InvalidTransactionMonth, w)
     else if (case day of None \<Rightarrow> False | Some d \<Rightarrow> take (length month + 1) d \<noteq> month @ ''-'')
       then (Err InvalidTransactionDay, w)
     else let shown = shown_transactions s actor ledger;
              in_month = filter (\<lambda>t. month_key cal (occurred_at t) = month) shown
       in (Ok \<lparr>tm_ledger_id = uuid_to_string env ledger, tm_month = month, tm_day = day,
             tm_available_months = descending_set (map (\<lambda>t. month_key cal (occurred_at t)) shown),
             tm_available_days = descending_set (map (\<lambda>t. day_key cal (occurred_at t)) in_month),
             tm_transactions = newest_first (map (transaction_dto_of env s)
               (filter (\<lambda>t. case day of None \<Rightarrow> True | Some d \<Rightarrow> day_key cal (occurred_at t) = d) in_month))\<rparr>, w)))"

definition transactions_for_month ::
  "calendar \<Rightarrow> env \<Rightarrow> uuid \<Rightarrow> uuid \<Rightarrow> string option \<Rightarrow> app_ledger_service \<Rightarrow> world
     \<Rightarrow> (transaction_month_dto, app_error) result \<times> world" where
  "transactions_for_month cal env actor ledger requested_month s w =
     transactions_for_period cal env actor ledger requested_month None s w"

definition transactions_for_day ::
  "calendar \<Rightarrow> env \<Rightarrow> uuid \<Rightarrow> uuid \<Rightarrow> string option \<Rightarrow> string \<Rightarrow> app_ledger_service \<Rightarrow> world
     \<Rightarrow> (transaction_month_dto, app_error) result \<times> world" where
  "transactions_for_day cal env actor ledger requested_month requested_day s w =
     transactions_for_period cal env actor ledger requested_month (Some requested_day) s w"

section \<open>The audit log by period\<close>

datatype audit_granularity = ByDay | ByMonth

record transaction_lifecycle_dto =
  lc_transaction_id :: string
  lc_description :: string
  lc_kind :: string
  lc_amount_minor :: i64
  lc_currency :: string
  lc_occurred_at :: string
  lc_approval_state :: string
  lc_payment_state :: string
  lc_latest_at :: string
  lc_steps :: "audit_log_dto list"

record audit_period_dto =
  ap_ledger_id :: string
  ap_granularity :: audit_granularity
  ap_period :: string
  ap_available_months :: "string list"
  ap_available_days :: "string list"
  ap_lifecycles :: "transaction_lifecycle_dto list"

text \<open>The audit records of each transaction, in the order of the transactions' identifiers.\<close>

definition grouped_audits :: "app_ledger_service \<Rightarrow> uuid \<Rightarrow> uuid \<Rightarrow> (uuid, audit_log list) ord_map" where
  "grouped_audits s actor ledger =
     fold (\<lambda>a m. om_insert (al_resource a) ((case om_get m (al_resource a) of Some as \<Rightarrow> as | None \<Rightarrow> []) @ [a]) m)
       (filter (\<lambda>a. al_ledger a = ledger \<and> al_resource_type a = ''transaction'' \<and> audit_visible_to_actor s actor a)
         (audit_logs s)) om_empty"

definition steps_in_order :: "audit_log list \<Rightarrow> audit_log list" where
  "steps_in_order = sort_key (\<lambda>a. (al_created_at a, al_id a))"

definition lifecycle_of :: "env \<Rightarrow> app_ledger_service \<Rightarrow> transaction \<Rightarrow> audit_log list \<Rightarrow> transaction_lifecycle_dto" where
  "lifecycle_of env s t steps =
     \<lparr>lc_transaction_id = uuid_to_string env (tx_id t),
      lc_description = tx_description t,
      lc_kind = transaction_kind_name (tx_kind t),
      lc_amount_minor = amount_minor (tx_amount t),
      lc_currency = currency (tx_amount t),
      lc_occurred_at = format_time env (occurred_at t),
      lc_approval_state = approval_state_name (approval_state t),
      lc_payment_state = payment_state_name (payment_state t),
      lc_latest_at = format_time env (al_created_at (last steps)),
      lc_steps = map (audit_dto_of env s) steps\<rparr>"

definition period_matches :: "calendar \<Rightarrow> audit_granularity \<Rightarrow> string \<Rightarrow> instant \<Rightarrow> bool" where
  "period_matches cal g period t =
     (case g of ByDay \<Rightarrow> day_key cal t = period | ByMonth \<Rightarrow> month_key cal t = period)"

definition audit_period ::
  "calendar \<Rightarrow> env \<Rightarrow> uuid \<Rightarrow> uuid \<Rightarrow> audit_granularity \<Rightarrow> string \<Rightarrow> app_ledger_service
     \<Rightarrow> (audit_period_dto, app_error) result" where
  "audit_period cal env actor ledger g period s =
     attempt_pure (ok_or (om_get (ledgers s) ledger) LedgerNotFound) id (\<lambda>l.
     if \<not> authorized s actor l ViewAuditLog then Err Unauthorized
     else if (case g of ByDay \<Rightarrow> parse_day_key cal period = None | ByMonth \<Rightarrow> parse_month_key cal period = None)
       then Err InvalidAuditPeriod
     else let groups = filter (\<lambda>(_, steps). steps \<noteq> [])
                (map (map_prod id steps_in_order) (om_entries (grouped_audits s actor ledger)));
              latest = map (\<lambda>(_, steps). al_created_at (last steps)) groups
       in Ok \<lparr>ap_ledger_id = uuid_to_string env ledger, ap_granularity = g, ap_period = period,
             ap_available_months = descending_set (map (month_key cal) latest),
             ap_available_days = descending_set (map (day_key cal) latest),
             ap_lifecycles = sort_by (\<lambda>a b. lc_latest_at b < lc_latest_at a
                 \<or> (lc_latest_at a = lc_latest_at b \<and> lc_transaction_id b \<le> lc_transaction_id a))
               (List.map_filter (\<lambda>(tid, steps).
                  if period_matches cal g period (al_created_at (last steps))
                  then map_option (\<lambda>t. lifecycle_of env s t steps) (om_get (transactions s) tid)
                  else None) groups)\<rparr>)"

end
