(* ===== verification/Analytics.thy ===== *)
theory Analytics
  imports Reports
begin

text \<open>
  The financial reports of \<open>app.rs\<close>: the analysis of the last months of a ledger, the detail of a month and
  of a member. An amount counts at the moment its cash moved (\<open>transaction_cash_effective_at\<close>).
\<close>

section \<open>What the reports contain\<close>

record exposure_dto =
  ex_count :: nat
  ex_amount_minor :: i64

record trend_point =
  tp_key :: string
  tp_label :: string
  tp_income_minor :: i64
  tp_expense_minor :: i64
  tp_net_minor :: i64

record analysis_account_dto =
  aa_id :: string
  aa_name :: string
  aa_kind :: string
  aa_balance_minor :: i64

record member_expense_dto =
  me_user_id :: string
  me_display_name :: string
  me_expense_minor :: i64
  me_transaction_count :: nat

record analysis_expense_dto =
  ae_transaction_id :: string
  ae_description :: string
  ae_submitted_by :: string
  ae_amount_minor :: i64
  ae_paid_at :: string

record financial_analysis_dto =
  fn_ledger_id :: string
  fn_currency :: string
  fn_months :: nat
  fn_period_start :: string
  fn_period_end :: string
  fn_current_balance_minor :: i64
  fn_income_minor :: i64
  fn_expense_minor :: i64
  fn_net_minor :: i64
  fn_previous_income_minor :: i64
  fn_previous_expense_minor :: i64
  fn_previous_net_minor :: i64
  fn_transaction_count :: nat
  fn_pending_approval :: exposure_dto
  fn_pending_payment :: exposure_dto
  fn_paid_pending_receipt :: exposure_dto
  fn_trend :: "trend_point list"
  fn_accounts :: "analysis_account_dto list"
  fn_member_expenses :: "member_expense_dto list"
  fn_largest_expenses :: "analysis_expense_dto list"
  fn_generated_at :: string

record analysis_category_dto =
  ac_category_id :: "string option"
  ac_category_name :: string
  ac_kind :: string
  ac_amount_minor :: i64
  ac_transaction_count :: nat

record analysis_transaction_dto =
  at_transaction_id :: string
  at_description :: string
  at_kind :: string
  at_category_id :: "string option"
  at_category_name :: string
  at_account_id :: string
  at_account_name :: string
  at_submitted_by_user_id :: string
  at_submitted_by :: string
  at_amount_minor :: i64
  at_effective_at :: string
  at_payment_state :: string

record month_detail_dto =
  mo_ledger_id :: string
  mo_month :: string
  mo_currency :: string
  mo_income_minor :: i64
  mo_expense_minor :: i64
  mo_net_minor :: i64
  mo_transaction_count :: nat
  mo_categories :: "analysis_category_dto list"
  mo_member_expenses :: "member_expense_dto list"
  mo_transactions :: "analysis_transaction_dto list"

record member_detail_dto =
  mb_ledger_id :: string
  mb_currency :: string
  mb_months :: nat
  mb_period_start :: string
  mb_period_end :: string
  mb_member_id :: string
  mb_display_name :: string
  mb_expense_minor :: i64
  mb_transaction_count :: nat
  mb_transactions :: "analysis_transaction_dto list"

section \<open>Helpers\<close>

definition analytics_ledger :: "app_ledger_service \<Rightarrow> uuid \<Rightarrow> uuid \<Rightarrow> (ledger, app_error) result" where
  "analytics_ledger s actor ledger =
     attempt_pure (ok_or (om_get (ledgers s) ledger) LedgerNotFound) id (\<lambda>l.
     if \<not> authorized s actor l ViewFinancialAnalytics then Err Unauthorized else Ok l)"

type_synonym member_totals = "(uuid, i64 \<times> nat) ord_map"

definition business_members_for_ledger :: "app_ledger_service \<Rightarrow> ledger \<Rightarrow> member_totals" where
  "business_members_for_ledger s l =
     (case organization_id l of None \<Rightarrow> om_empty
      | Some org \<Rightarrow> om_collect (map (\<lambda>m. (ms_user m, (0, 0)))
          (filter (\<lambda>m. ms_organization m = org \<and> is_business_member_role (ms_role m)) (memberships s))))"

definition user_name :: "env \<Rightarrow> app_ledger_service \<Rightarrow> uuid \<Rightarrow> string" where
  "user_name env s u = (case om_get (users s) u of Some x \<Rightarrow> display_name x | None \<Rightarrow> uuid_to_string env u)"

text \<open>\<open>entry(u).or_default()\<close> with the amount and one transaction added.\<close>

definition add_member_expense :: "uuid \<Rightarrow> i64 \<Rightarrow> member_totals \<Rightarrow> member_totals" where
  "add_member_expense u amount m =
     (let (total, n) = (case om_get m u of Some x \<Rightarrow> x | None \<Rightarrow> (0, 0)) in om_insert u (total + amount, n + 1) m)"

definition member_expense_dtos :: "env \<Rightarrow> app_ledger_service \<Rightarrow> member_totals \<Rightarrow> member_expense_dto list" where
  "member_expense_dtos env s m =
     sort_by (\<lambda>a b. sint (me_expense_minor b) < sint (me_expense_minor a)
         \<or> (me_expense_minor a = me_expense_minor b \<and> me_display_name a \<le> me_display_name b))
       (map (\<lambda>(u, total, n). \<lparr>me_user_id = uuid_to_string env u, me_display_name = user_name env s u,
           me_expense_minor = total, me_transaction_count = n\<rparr>) (om_entries m))"

definition add_exposure :: "transaction \<Rightarrow> exposure_dto \<Rightarrow> exposure_dto" where
  "add_exposure t e = \<lparr>ex_count = ex_count e + 1, ex_amount_minor = ex_amount_minor e + amount_minor (tx_amount t)\<rparr>"

text \<open>The label of transactions without a category, in the program's Chinese.\<close>

definition text_uncategorized :: string where
  "text_uncategorized = text_of [0xE6, 0x9C, 0xAA, 0xE5, 0x88, 0x86, 0xE7, 0xB1, 0xBB]"

definition text_month :: string where "text_month = text_of [0xE6, 0x9C, 0x88]"

definition category_of :: "app_ledger_service \<Rightarrow> transaction \<Rightarrow> category option" where
  "category_of s t = Option.bind (tx_category t) (om_get (categories s))"

definition analysis_transaction_dto_of ::
  "env \<Rightarrow> app_ledger_service \<Rightarrow> transaction \<Rightarrow> instant \<Rightarrow> analysis_transaction_dto" where
  "analysis_transaction_dto_of env s t effective_at =
     \<lparr>at_transaction_id = uuid_to_string env (tx_id t),
      at_description = tx_description t,
      at_kind = transaction_kind_name (tx_kind t),
      at_category_id = map_option (\<lambda>c. uuid_to_string env (cat_id c)) (category_of s t),
      at_category_name = (case category_of s t of Some c \<Rightarrow> cat_name c | None \<Rightarrow> text_uncategorized),
      at_account_id = uuid_to_string env (tx_account t),
      at_account_name = (case om_get (accounts s) (tx_account t) of
         Some a \<Rightarrow> fa_name a | None \<Rightarrow> uuid_to_string env (tx_account t)),
      at_submitted_by_user_id = uuid_to_string env (tx_created_by t),
      at_submitted_by = user_name env s (tx_created_by t),
      at_amount_minor = amount_minor (tx_amount t),
      at_effective_at = format_time env effective_at,
      at_payment_state = payment_state_name (payment_state t)\<rparr>"

definition latest_first :: "analysis_transaction_dto list \<Rightarrow> analysis_transaction_dto list" where
  "latest_first = sort_by (\<lambda>a b. at_effective_at b < at_effective_at a
     \<or> (at_effective_at a = at_effective_at b \<and> at_transaction_id b \<le> at_transaction_id a))"

text \<open>The transactions of a ledger that are not deleted.\<close>

definition ledger_transactions :: "app_ledger_service \<Rightarrow> uuid \<Rightarrow> transaction list" where
  "ledger_transactions s ledger =
     filter (\<lambda>t. tx_ledger t = ledger \<and> tx_deleted_at t = None) (om_values (transactions s))"

section \<open>The analysis of the last months\<close>

definition income_part :: "transaction \<Rightarrow> i64" where
  "income_part t = (case tx_kind t of Income \<Rightarrow> amount_minor (tx_amount t) | _ \<Rightarrow> 0)"

definition expense_part :: "transaction \<Rightarrow> i64" where
  "expense_part t = (case tx_kind t of Expense \<Rightarrow> amount_minor (tx_amount t) | _ \<Rightarrow> 0)"

text \<open>The variables of the loop over the transactions.\<close>

record analysis_totals =
  tot_income :: i64
  tot_expense :: i64
  tot_previous_income :: i64
  tot_previous_expense :: i64
  tot_count :: nat
  tot_pending_approval :: exposure_dto
  tot_pending_payment :: exposure_dto
  tot_paid_pending_receipt :: exposure_dto
  tot_trend :: "trend_point list"
  tot_members :: member_totals
  tot_largest :: "analysis_expense_dto list"

definition count_exposure :: "transaction \<Rightarrow> analysis_totals \<Rightarrow> analysis_totals" where
  "count_exposure t v =
     (if tx_kind t \<noteq> Expense then v
      else case approval_state t of
        Submitted \<Rightarrow> v\<lparr>tot_pending_approval := add_exposure t (tot_pending_approval v)\<rparr>
      | Approved \<Rightarrow>
          (case payment_state t of
             PendingPayment \<Rightarrow> v\<lparr>tot_pending_payment := add_exposure t (tot_pending_payment v)\<rparr>
           | PaidPendingReceipt \<Rightarrow> v\<lparr>tot_paid_pending_receipt := add_exposure t (tot_paid_pending_receipt v)\<rparr>
           | _ \<Rightarrow> v)
      | _ \<Rightarrow> v)"

text \<open>\<open>trend.get_mut(index)\<close>: an index outside of the list is skipped.\<close>

definition add_to_trend :: "int \<Rightarrow> i64 \<Rightarrow> i64 \<Rightarrow> trend_point list \<Rightarrow> trend_point list" where
  "add_to_trend index inc out trend =
     (if 0 \<le> index \<and> index < int (length trend)
      then trend[nat index := (trend ! nat index)
        \<lparr>tp_income_minor := tp_income_minor (trend ! nat index) + inc,
         tp_expense_minor := tp_expense_minor (trend ! nat index) + out\<rparr>]
      else trend)"

definition count_spender ::
  "env \<Rightarrow> app_ledger_service \<Rightarrow> transaction \<Rightarrow> instant \<Rightarrow> analysis_totals \<Rightarrow> analysis_totals" where
  "count_spender env s t effective_at v =
     (if 0 < sint (expense_part t) then
        v\<lparr>tot_members := add_member_expense (tx_created_by t) (expense_part t) (tot_members v),
          tot_largest := tot_largest v @
            [\<lparr>ae_transaction_id = uuid_to_string env (tx_id t), ae_description = tx_description t,
              ae_submitted_by = user_name env s (tx_created_by t), ae_amount_minor = expense_part t,
              ae_paid_at = format_time env effective_at\<rparr>]\<rparr>
      else v)"

definition count_previous :: "instant \<Rightarrow> instant \<Rightarrow> transaction \<Rightarrow> instant \<Rightarrow> analysis_totals \<Rightarrow> analysis_totals" where
  "count_previous previous_start period_start t effective_at v =
     (if previous_start \<le> effective_at \<and> effective_at < period_start
      then v\<lparr>tot_previous_income := tot_previous_income v + income_part t,
             tot_previous_expense := tot_previous_expense v + expense_part t\<rparr>
      else v)"

definition count_cash :: "transaction \<Rightarrow> analysis_totals \<Rightarrow> analysis_totals" where
  "count_cash t v =
     v\<lparr>tot_income := tot_income v + income_part t, tot_expense := tot_expense v + expense_part t,
       tot_count := tot_count v + 1\<rparr>"

definition analysis_step ::
  "calendar \<Rightarrow> env \<Rightarrow> app_ledger_service \<Rightarrow> instant \<Rightarrow> instant \<Rightarrow> instant \<Rightarrow> transaction \<Rightarrow> analysis_totals
     \<Rightarrow> (analysis_totals, app_error) result" where
  "analysis_step cal env s previous_start period_start now t v =
     (let v = count_exposure t v in
      case transaction_cash_effective_at t of None \<Rightarrow> Ok v
      | Some effective_at \<Rightarrow>
          let v = count_previous previous_start period_start t effective_at v in
          if effective_at < period_start \<or> now < effective_at then Ok v
          else let v = count_cash t v in
               attempt_pure (month_start cal effective_at) id (\<lambda>m.
               let v = v\<lparr>tot_trend := add_to_trend (month_distance cal period_start m) (income_part t) (expense_part t)
                     (tot_trend v)\<rparr>
               in Ok (count_spender env s t effective_at v)))"

definition empty_trend_point :: "calendar \<Rightarrow> instant \<Rightarrow> trend_point" where
  "empty_trend_point cal start =
     \<lparr>tp_key = month_text (local_year cal start) (local_month cal start),
      tp_label = decimal (local_month cal start) @ text_month,
      tp_income_minor = 0, tp_expense_minor = 0, tp_net_minor = 0\<rparr>"

definition empty_trend :: "calendar \<Rightarrow> instant \<Rightarrow> nat \<Rightarrow> (trend_point list, app_error) result" where
  "empty_trend cal period_start months =
     map_result (\<lambda>offset. attempt_pure (shift_month_start cal period_start (int offset)) id
       (\<lambda>start. Ok (empty_trend_point cal start))) [0..<months]"

definition analysis_accounts :: "env \<Rightarrow> app_ledger_service \<Rightarrow> uuid \<Rightarrow> analysis_account_dto list" where
  "analysis_accounts env s ledger =
     sort_by (\<lambda>a b. sint (aa_balance_minor b) < sint (aa_balance_minor a)
         \<or> (aa_balance_minor a = aa_balance_minor b \<and> aa_name a \<le> aa_name b))
       (map (\<lambda>a. \<lparr>aa_id = uuid_to_string env (fa_id a), aa_name = fa_name a,
            aa_kind = to_lowercase env (account_kind_debug (fa_kind a)), aa_balance_minor = account_balance_minor s a\<rparr>)
         (filter (\<lambda>a. fa_ledger a = ledger \<and> fa_deleted_at a = None) (om_values (accounts s))))"

definition close_trend :: "trend_point list \<Rightarrow> trend_point list" where
  "close_trend trend = map (\<lambda>p. p\<lparr>tp_net_minor := tp_income_minor p - tp_expense_minor p\<rparr>) trend"

definition largest_first :: "analysis_expense_dto list \<Rightarrow> analysis_expense_dto list" where
  "largest_first = sort_by (\<lambda>a b. sint (ae_amount_minor b) < sint (ae_amount_minor a)
     \<or> (ae_amount_minor a = ae_amount_minor b \<and> ae_paid_at b \<le> ae_paid_at a))"

definition financial_analysis ::
  "calendar \<Rightarrow> env \<Rightarrow> uuid \<Rightarrow> uuid \<Rightarrow> nat \<Rightarrow> app_ledger_service \<Rightarrow> world
     \<Rightarrow> (financial_analysis_dto, app_error) result \<times> world" where
  "financial_analysis cal env actor ledger months s w =
     (if months \<notin> {3, 6, 12} then (Err InvalidAnalysisRange, w)
      else attempt (analytics_ledger s actor ledger) id w (\<lambda>l.
      let (now, w) = now_utc w in
      attempt (month_start cal now) id w (\<lambda>current_month.
      attempt (shift_month_start cal current_month (- (int months - 1))) id w (\<lambda>period_start.
      let previous_start = period_start - (now - period_start);
          shown_accounts = analysis_accounts env s ledger;
          none = \<lparr>ex_count = 0, ex_amount_minor = 0\<rparr>
      in attempt (empty_trend cal period_start months) id w (\<lambda>trend.
      attempt (fold_result (analysis_step cal env s previous_start period_start now) (ledger_transactions s ledger)
        \<lparr>tot_income = 0, tot_expense = 0, tot_previous_income = 0, tot_previous_expense = 0, tot_count = 0,
         tot_pending_approval = none, tot_pending_payment = none, tot_paid_pending_receipt = none,
         tot_trend = trend, tot_members = business_members_for_ledger s l, tot_largest = []\<rparr>) id w (\<lambda>v.
      (Ok \<lparr>fn_ledger_id = uuid_to_string env ledger, fn_currency = ledger_currency s ledger, fn_months = months,
           fn_period_start = format_time env period_start, fn_period_end = format_time env now,
           fn_current_balance_minor = sum_list (map aa_balance_minor shown_accounts),
           fn_income_minor = tot_income v, fn_expense_minor = tot_expense v,
           fn_net_minor = tot_income v - tot_expense v,
           fn_previous_income_minor = tot_previous_income v, fn_previous_expense_minor = tot_previous_expense v,
           fn_previous_net_minor = tot_previous_income v - tot_previous_expense v,
           fn_transaction_count = tot_count v, fn_pending_approval = tot_pending_approval v,
           fn_pending_payment = tot_pending_payment v, fn_paid_pending_receipt = tot_paid_pending_receipt v,
           fn_trend = close_trend (tot_trend v), fn_accounts = shown_accounts,
           fn_member_expenses = member_expense_dtos env s (tot_members v),
           fn_largest_expenses = take 5 (largest_first (tot_largest v)), fn_generated_at = format_time env now\<rparr>, w)))))))"

section \<open>The detail of a month\<close>

type_synonym category_totals = "(string \<times> string \<times> string, string option \<times> i64 \<times> nat) ord_map"

record month_totals =
  mt_income :: i64
  mt_expense :: i64
  mt_categories :: category_totals
  mt_members :: member_totals
  mt_transactions :: "analysis_transaction_dto list"

definition add_category_total :: "env \<Rightarrow> app_ledger_service \<Rightarrow> transaction \<Rightarrow> category_totals \<Rightarrow> category_totals" where
  "add_category_total env s t m =
     (let cid = map_option (\<lambda>c. uuid_to_string env (cat_id c)) (category_of s t);
          name = (case category_of s t of Some c \<Rightarrow> cat_name c | None \<Rightarrow> text_uncategorized);
          k = (case cid of Some i \<Rightarrow> i | None \<Rightarrow> [], name, transaction_kind_name (tx_kind t));
          (first, total, n) = (case om_get m k of Some x \<Rightarrow> x | None \<Rightarrow> (cid, 0, 0))
      in om_insert k (first, total + amount_minor (tx_amount t), n + 1) m)"

definition month_step ::
  "env \<Rightarrow> app_ledger_service \<Rightarrow> instant \<Rightarrow> instant \<Rightarrow> transaction \<Rightarrow> month_totals \<Rightarrow> month_totals" where
  "month_step env s period_start period_end t v =
     (case transaction_cash_effective_at t of None \<Rightarrow> v
      | Some effective_at \<Rightarrow>
          if effective_at < period_start \<or> period_end \<le> effective_at \<or> tx_kind t = Transfer then v
          else v\<lparr>mt_income := mt_income v + income_part t, mt_expense := mt_expense v + expense_part t,
                 mt_members := (if tx_kind t = Expense
                    then add_member_expense (tx_created_by t) (amount_minor (tx_amount t)) (mt_members v)
                    else mt_members v),
                 mt_categories := add_category_total env s t (mt_categories v),
                 mt_transactions := mt_transactions v @ [analysis_transaction_dto_of env s t effective_at]\<rparr>)"

definition category_dtos :: "category_totals \<Rightarrow> analysis_category_dto list" where
  "category_dtos m =
     sort_by (\<lambda>a b. sint (ac_amount_minor b) < sint (ac_amount_minor a)
         \<or> (ac_amount_minor a = ac_amount_minor b \<and> ac_category_name a \<le> ac_category_name b))
       (map (\<lambda>((_, name, kind), first, total, n). \<lparr>ac_category_id = first, ac_category_name = name, ac_kind = kind,
           ac_amount_minor = total, ac_transaction_count = n\<rparr>) (om_entries m))"

definition financial_month_detail ::
  "calendar \<Rightarrow> env \<Rightarrow> uuid \<Rightarrow> uuid \<Rightarrow> string \<Rightarrow> app_ledger_service \<Rightarrow> (month_detail_dto, app_error) result" where
  "financial_month_detail cal env actor ledger month s =
     attempt_pure (analytics_ledger s actor ledger) id (\<lambda>l.
     attempt_pure (ok_or (parse_month_key cal month) InvalidTransactionMonth) id (\<lambda>(year, calendar_month).
     attempt_pure (calendar_month_start cal year calendar_month) id (\<lambda>period_start.
     attempt_pure (shift_month_start cal period_start 1) id (\<lambda>period_end.
     let v = fold (month_step env s period_start period_end) (ledger_transactions s ledger)
           \<lparr>mt_income = 0, mt_expense = 0, mt_categories = om_empty, mt_members = business_members_for_ledger s l,
            mt_transactions = []\<rparr>
     in Ok \<lparr>mo_ledger_id = uuid_to_string env ledger, mo_month = month, mo_currency = ledger_currency s ledger,
           mo_income_minor = mt_income v, mo_expense_minor = mt_expense v,
           mo_net_minor = mt_income v - mt_expense v, mo_transaction_count = length (mt_transactions v),
           mo_categories = category_dtos (mt_categories v),
           mo_member_expenses = member_expense_dtos env s (mt_members v),
           mo_transactions = latest_first (mt_transactions v)\<rparr>))))"

section \<open>The detail of a member\<close>

definition member_transaction ::
  "env \<Rightarrow> app_ledger_service \<Rightarrow> instant \<Rightarrow> instant \<Rightarrow> transaction \<Rightarrow> analysis_transaction_dto option" where
  "member_transaction env s period_start now t =
     (case transaction_cash_effective_at t of None \<Rightarrow> None
      | Some effective_at \<Rightarrow>
          if period_start \<le> effective_at \<and> effective_at \<le> now
          then Some (analysis_transaction_dto_of env s t effective_at) else None)"

definition financial_member_detail ::
  "calendar \<Rightarrow> env \<Rightarrow> uuid \<Rightarrow> uuid \<Rightarrow> nat \<Rightarrow> uuid \<Rightarrow> app_ledger_service \<Rightarrow> world
     \<Rightarrow> (member_detail_dto, app_error) result \<times> world" where
  "financial_member_detail cal env actor ledger months member s w =
     (if months \<notin> {3, 6, 12} then (Err InvalidAnalysisRange, w)
      else attempt (analytics_ledger s actor ledger) id w (\<lambda>l.
      attempt (ok_or (organization_id l) OrganizationNotFound) id w (\<lambda>org.
      attempt (ok_or (List.find (\<lambda>m. ms_organization m = org \<and> ms_user m = member
          \<and> is_business_member_role (ms_role m)) (memberships s)) MembershipNotFound) id w (\<lambda>m.
      let (now, w) = now_utc w in
      attempt (month_start cal now) id w (\<lambda>current_month.
      attempt (shift_month_start cal current_month (- (int months - 1))) id w (\<lambda>period_start.
      let ts = latest_first (List.map_filter (member_transaction env s period_start now)
            (filter (\<lambda>t. tx_created_by t = member \<and> tx_kind t = Expense) (ledger_transactions s ledger)))
      in (Ok \<lparr>mb_ledger_id = uuid_to_string env ledger, mb_currency = ledger_currency s ledger, mb_months = months,
           mb_period_start = format_time env period_start, mb_period_end = format_time env now,
           mb_member_id = uuid_to_string env member, mb_display_name = user_name env s (ms_user m),
           mb_expense_minor = sum_list (map at_amount_minor ts), mb_transaction_count = length ts,
           mb_transactions = ts\<rparr>, w)))))))"

end
