(* ===== verification/AppApi.thy ===== *)
theory AppApi
  imports AuthRoutes AppTransactions Analytics
begin

text \<open>
  The handlers of \<open>app_api.rs\<close>. Those that change the application ledger authenticate the bearer token,
  overwrite the actor of the request with the authenticated user, run the operation on a clone of the
  ledger, save it and then replace the shared ledger; those that read it run a report under its lock. The
  operation or report runs while the lock is held, so its panic poisons the lock.
\<close>

section \<open>Changes\<close>

text \<open>The body the six handlers share; \<open>operation\<close> is the ledger operation as that actor.\<close>

definition api_mutation ::
  "route_env \<Rightarrow> http_headers \<Rightarrow> (uuid \<Rightarrow> app_state \<Rightarrow> ('a, app_error) result \<times> app_state) \<Rightarrow> server
     \<Rightarrow> ('a, api_error) result \<times> server" where
  "api_mutation re headers operation \<sigma> =
     perform (authenticate re headers \<sigma>) id (\<lambda>session \<sigma>.
     attempt (lock_ledger \<sigma>) id \<sigma> (\<lambda>ledger.
     let (r, staged, w) = operation (au_id (an_user session)) (ledger, aw_world (srv_world \<sigma>));
         \<sigma> = poison_ledger r (\<sigma>\<lparr>srv_world := (srv_world \<sigma>)\<lparr>aw_world := w\<rparr>\<rparr>)
     in attempt r from_service \<sigma> (\<lambda>x.
        perform (store_call (rt_save_ledger re (snapshot staged)) \<sigma>) id (\<lambda>_ \<sigma>.
        attempt (lock_ledger \<sigma>) id \<sigma> (\<lambda>_. (Ok x, \<sigma>\<lparr>srv_ledger := staged\<rparr>))))))"

definition api_create_category ::
  "route_env \<Rightarrow> http_headers \<Rightarrow> create_category_input \<Rightarrow> server \<Rightarrow> (category_dto, api_error) result \<times> server" where
  "api_create_category re headers i =
     api_mutation re headers (\<lambda>actor. create_category (rt_env re) (i\<lparr>cc_actor := actor\<rparr>))"

definition api_create_transaction ::
  "route_env \<Rightarrow> http_headers \<Rightarrow> create_transaction_input \<Rightarrow> server \<Rightarrow> (transaction_dto, api_error) result \<times> server" where
  "api_create_transaction re headers i =
     api_mutation re headers (\<lambda>actor. create_transaction (rt_env re) (i\<lparr>ct_actor := actor\<rparr>))"

definition api_decide_approval ::
  "route_env \<Rightarrow> http_headers \<Rightarrow> decide_approval_input \<Rightarrow> server \<Rightarrow> (transaction_dto, api_error) result \<times> server" where
  "api_decide_approval re headers i =
     api_mutation re headers (\<lambda>actor. decide_approval (rt_env re) (i\<lparr>da_actor := actor\<rparr>))"

definition api_mark_transaction_paid ::
  "route_env \<Rightarrow> http_headers \<Rightarrow> mark_paid_input \<Rightarrow> server \<Rightarrow> (transaction_dto, api_error) result \<times> server" where
  "api_mark_transaction_paid re headers i =
     api_mutation re headers (\<lambda>actor. mark_transaction_paid (rt_env re) (i\<lparr>mp_actor := actor\<rparr>))"

definition api_void_transaction ::
  "route_env \<Rightarrow> http_headers \<Rightarrow> void_transaction_input \<Rightarrow> server \<Rightarrow> (transaction_dto, api_error) result \<times> server" where
  "api_void_transaction re headers i =
     api_mutation re headers (\<lambda>actor. void_transaction (rt_env re) (i\<lparr>vt_actor := actor\<rparr>))"

definition api_confirm_transaction_receipt ::
  "route_env \<Rightarrow> http_headers \<Rightarrow> confirm_receipt_input \<Rightarrow> server \<Rightarrow> (transaction_dto, api_error) result \<times> server" where
  "api_confirm_transaction_receipt re headers i =
     api_mutation re headers (\<lambda>actor. confirm_transaction_receipt (rt_env re) (i\<lparr>cr_actor := actor\<rparr>))"

section \<open>Reports\<close>

definition with_ledger ::
  "(app_ledger_service \<Rightarrow> world \<Rightarrow> ('a, app_error) result \<times> world) \<Rightarrow> server \<Rightarrow> ('a, api_error) result \<times> server" where
  "with_ledger report \<sigma> =
     attempt (lock_ledger \<sigma>) id \<sigma> (\<lambda>ledger.
     let (r, w) = report ledger (aw_world (srv_world \<sigma>));
         \<sigma> = poison_ledger r (\<sigma>\<lparr>srv_world := (srv_world \<sigma>)\<lparr>aw_world := w\<rparr>\<rparr>)
     in attempt r from_service \<sigma> (\<lambda>x. (Ok x, \<sigma>)))"

definition api_overview :: "route_env \<Rightarrow> http_headers \<Rightarrow> server \<Rightarrow> (ledger_overview, api_error) result \<times> server" where
  "api_overview re headers \<sigma> =
     perform (authenticate re headers \<sigma>) id (\<lambda>session.
     with_ledger (\<lambda>s w. map_prod Ok id (overview (rt_calendar re) (rt_env re) (au_id (an_user session)) s w)))"

definition api_financial_analysis ::
  "route_env \<Rightarrow> http_headers \<Rightarrow> uuid \<Rightarrow> nat \<Rightarrow> server \<Rightarrow> (financial_analysis_dto, api_error) result \<times> server" where
  "api_financial_analysis re headers ledger months \<sigma> =
     perform (authenticate re headers \<sigma>) id (\<lambda>session.
     with_ledger (financial_analysis (rt_calendar re) (rt_env re) (au_id (an_user session)) ledger months))"

definition api_financial_month_detail ::
  "route_env \<Rightarrow> http_headers \<Rightarrow> uuid \<Rightarrow> string \<Rightarrow> server \<Rightarrow> (month_detail_dto, api_error) result \<times> server" where
  "api_financial_month_detail re headers ledger month \<sigma> =
     perform (authenticate re headers \<sigma>) id (\<lambda>session.
     with_ledger (\<lambda>s w. (financial_month_detail (rt_calendar re) (rt_env re) (au_id (an_user session)) ledger month s, w)))"

definition api_financial_member_detail ::
  "route_env \<Rightarrow> http_headers \<Rightarrow> uuid \<Rightarrow> nat \<Rightarrow> uuid \<Rightarrow> server \<Rightarrow> (member_detail_dto, api_error) result \<times> server" where
  "api_financial_member_detail re headers ledger months member \<sigma> =
     perform (authenticate re headers \<sigma>) id (\<lambda>session.
     with_ledger (financial_member_detail (rt_calendar re) (rt_env re) (au_id (an_user session)) ledger months member))"

definition api_transactions_for_month ::
  "route_env \<Rightarrow> http_headers \<Rightarrow> uuid \<Rightarrow> string option \<Rightarrow> string option \<Rightarrow> server
     \<Rightarrow> (transaction_month_dto, api_error) result \<times> server" where
  "api_transactions_for_month re headers ledger month day \<sigma> =
     perform (authenticate re headers \<sigma>) id (\<lambda>session.
     with_ledger (case day of
       Some day \<Rightarrow> transactions_for_day (rt_calendar re) (rt_env re) (au_id (an_user session)) ledger month day
     | None \<Rightarrow> transactions_for_month (rt_calendar re) (rt_env re) (au_id (an_user session)) ledger month))"

definition granularity_of :: "string \<Rightarrow> (audit_granularity, app_error) result" where
  "granularity_of g = (if g = ''day'' then Ok ByDay else if g = ''month'' then Ok ByMonth else Err InvalidAuditGranularity)"

definition api_audit_period ::
  "route_env \<Rightarrow> http_headers \<Rightarrow> uuid \<Rightarrow> string \<Rightarrow> string \<Rightarrow> server \<Rightarrow> (audit_period_dto, api_error) result \<times> server" where
  "api_audit_period re headers ledger granularity period \<sigma> =
     perform (authenticate re headers \<sigma>) id (\<lambda>session \<sigma>.
     attempt (granularity_of granularity) from_service \<sigma> (\<lambda>g.
     with_ledger (\<lambda>s w. (audit_period (rt_calendar re) (rt_env re) (au_id (an_user session)) ledger g period s, w)) \<sigma>))"

end
