(* ===== verification/Reach.thy ===== *)
theory Reach
  imports Machine
begin

text \<open>
  Components whose commands are constrained by the state they meet (an identifier that must be new, a
  clock that must not run backwards): the states reachable by legal commands, the invariant and the
  forward order proved once for all of them, and the rules that carry a predicate through the
  early-return chains of an operation.
\<close>

section \<open>Reachable states\<close>

inductive reaches :: "('s \<Rightarrow> 'i \<Rightarrow> 's) \<Rightarrow> ('s \<Rightarrow> 'i \<Rightarrow> bool) \<Rightarrow> 's \<Rightarrow> 's \<Rightarrow> bool"
  for step :: "'s \<Rightarrow> 'i \<Rightarrow> 's" and legal :: "'s \<Rightarrow> 'i \<Rightarrow> bool" and s :: 's
where
  reaches_refl: "reaches step legal s s"
| reaches_step: "reaches step legal s t \<Longrightarrow> legal t i \<Longrightarrow> reaches step legal s (step t i)"

lemma reaches_trans:
  "reaches step legal t u \<Longrightarrow> reaches step legal s t \<Longrightarrow> reaches step legal s u"
  by (induction rule: reaches.induct) (auto intro: reaches.intros)

locale guarded_machine =
  fixes step :: "'s \<Rightarrow> 'i \<Rightarrow> 's"
    and inv :: "'s \<Rightarrow> bool"
    and legal :: "'s \<Rightarrow> 'i \<Rightarrow> bool"
  assumes step_inv: "inv s \<Longrightarrow> legal s i \<Longrightarrow> inv (step s i)"
begin

lemma reaches_inv: "reaches step legal s t \<Longrightarrow> inv s \<Longrightarrow> inv t"
  by (induction rule: reaches.induct) (auto intro: step_inv)

end

locale guarded_forward = guarded_machine +
  fixes le :: "'a \<Rightarrow> 'a \<Rightarrow> bool"
  assumes le_refl: "le s s"
    and le_trans: "le s t \<Longrightarrow> le t u \<Longrightarrow> le s u"
    and step_le: "inv s \<Longrightarrow> legal s i \<Longrightarrow> le s (step s i)"
begin

lemma reaches_le: "reaches step legal s t \<Longrightarrow> inv s \<Longrightarrow> le s t"
proof (induction rule: reaches.induct)
  case (reaches_step t i)
  then show ?case
    using step_le [OF reaches_inv [OF reaches_step(1)]] le_trans by blast
qed (rule le_refl)

end

section \<open>Predicates on outcomes\<close>

text \<open>
  \<open>P\<close> is a predicate on the outcome of an operation, its result together with its state. An early
  return keeps the state it is made in.
\<close>

named_theorems outcome \<open>a predicate carried through one statement of an operation\<close>

lemma attempt_outcome [outcome]:
  assumes "\<And>e. r = Err e \<Longrightarrow> P (Err (conv e), s)" "\<And>p. r = Panic p \<Longrightarrow> P (Panic p, s)"
    and "\<And>a. r = Ok a \<Longrightarrow> P (k a)"
  shows "P (attempt r conv s k)"
  using assms by (cases r) auto

lemma perform_outcome [outcome]:
  assumes "\<And>e. fst x = Err e \<Longrightarrow> P (Err (conv e), snd x)" "\<And>p. fst x = Panic p \<Longrightarrow> P (Panic p, snd x)"
    and "\<And>a. fst x = Ok a \<Longrightarrow> P (k a (snd x))"
  shows "P (perform x conv k)"
  using assms by (cases x; cases "fst x") auto

lemma if_outcome [outcome]: "(c \<Longrightarrow> P x) \<Longrightarrow> (\<not> c \<Longrightarrow> P y) \<Longrightarrow> P (if c then x else y)"
  by simp

lemma option_outcome [outcome]:
  "(x = None \<Longrightarrow> P a) \<Longrightarrow> (\<And>y. x = Some y \<Longrightarrow> P (b y)) \<Longrightarrow> P (case x of None \<Rightarrow> a | Some y \<Rightarrow> b y)"
  by (cases x) auto

end
