(* ===== verification/AuthMoves.thy ===== *)
theory AuthMoves
  imports AuthService Reach
begin

text \<open>
  The invariant of the accounts and sessions, and what a statement of the service may do to them. The
  digests of the tokens still to be drawn are the \<open>token_supply\<close>; the invariant has them pairwise different
  and unused, which is all that is assumed of random tokens and of the digest. A \<open>move\<close> keeps the
  invariant, takes sessions only from those there were, marks them rotated or revoked but never the other
  way, and adds only sessions that \<open>G\<close> allows, under digests of the supply.
\<close>

section \<open>The invariant\<close>

definition token_supply :: "auth_env \<Rightarrow> auth_world \<Rightarrow> string set" where
  "token_supply env w = range (\<lambda>n. token_digest env (aw_tokens w n))"

definition index_exact ::
  "(stored_user \<Rightarrow> string option) \<Rightarrow> (uuid, stored_user) ord_map \<Rightarrow> (string, uuid) ord_map \<Rightarrow> bool" where
  "index_exact f us m \<longleftrightarrow>
     (\<forall>k u. om_get m k = Some u \<longleftrightarrow> (\<exists>x. om_get us u = Some x \<and> f x = Some k))"

definition session_ok :: "auth_service \<Rightarrow> string \<Rightarrow> stored_session \<Rightarrow> bool" where
  "session_ok s k x \<longleftrightarrow>
     ss_access_token x = k \<and> om_get (users_by_id s) (ss_user x) \<noteq> None \<and>
     (if ss_kind x = AdminKind
      then ss_refresh_token x = [] \<and> ss_refresh_expires_at x = None
        \<and> ss_access_expires_at x = ss_created_at x + admin_session_ttl
      else ss_refresh_expires_at x = Some (ss_created_at x + app_refresh_token_ttl)
        \<and> ss_access_expires_at x = ss_created_at x + app_access_token_ttl
        \<and> om_get (access_tokens_by_refresh_token s) (ss_refresh_token x) = Some k)"

definition refresh_index_ok :: "auth_service \<Rightarrow> bool" where
  "refresh_index_ok s \<longleftrightarrow>
     (\<forall>h k. om_get (access_tokens_by_refresh_token s) h = Some k \<longrightarrow> h \<noteq> [] \<and>
        (\<exists>x. om_get (sessions_by_access_token s) k = Some x \<and> ss_refresh_token x = h \<and> ss_kind x \<noteq> AdminKind))"

definition sessions_ok :: "auth_service \<Rightarrow> bool" where
  "sessions_ok s \<longleftrightarrow> (\<forall>k x. om_get (sessions_by_access_token s) k = Some x \<longrightarrow> session_ok s k x)"

definition accounts_ok :: "auth_service \<Rightarrow> bool" where
  "accounts_ok s \<longleftrightarrow>
     om_keyed su_id (users_by_id s) \<and> index_exact su_email (users_by_id s) (user_ids_by_email s)
     \<and> index_exact su_phone (users_by_id s) (user_ids_by_phone s)"

definition supply_ok :: "auth_env \<Rightarrow> auth_state \<Rightarrow> bool" where
  "supply_ok env \<sigma> \<longleftrightarrow>
     inj (\<lambda>n. token_digest env (aw_tokens (snd \<sigma>) n)) \<and>
     (\<forall>d \<in> token_supply env (snd \<sigma>). d \<noteq> [] \<and> om_get (sessions_by_access_token (fst \<sigma>)) d = None
        \<and> om_get (access_tokens_by_refresh_token (fst \<sigma>)) d = None)"

definition auth_ok :: "auth_env \<Rightarrow> auth_state \<Rightarrow> bool" where
  "auth_ok env \<sigma> \<longleftrightarrow>
     accounts_ok (fst \<sigma>) \<and> sessions_ok (fst \<sigma>) \<and> refresh_index_ok (fst \<sigma>) \<and> supply_ok env \<sigma>"

section \<open>Moves\<close>

definition same_session :: "stored_session \<Rightarrow> stored_session \<Rightarrow> bool" where
  "same_session x y \<longleftrightarrow>
     y = x\<lparr>ss_rotated_at := ss_rotated_at y, ss_revoked_at := ss_revoked_at y\<rparr>
     \<and> (ss_rotated_at x \<noteq> None \<longrightarrow> ss_rotated_at y \<noteq> None)
     \<and> (ss_revoked_at x \<noteq> None \<longrightarrow> ss_revoked_at y \<noteq> None)"

definition auth_le :: "auth_env \<Rightarrow> (string \<Rightarrow> stored_session \<Rightarrow> bool) \<Rightarrow> auth_state \<Rightarrow> auth_state \<Rightarrow> bool" where
  "auth_le env G \<sigma> \<tau> \<longleftrightarrow>
     token_supply env (snd \<tau>) \<subseteq> token_supply env (snd \<sigma>)
     \<and> om_dom (users_by_id (fst \<sigma>)) \<subseteq> om_dom (users_by_id (fst \<tau>))
     \<and> (\<forall>k y. om_get (sessions_by_access_token (fst \<tau>)) k = Some y \<longrightarrow>
          (\<exists>x. om_get (sessions_by_access_token (fst \<sigma>)) k = Some x \<and> same_session x y)
          \<or> k \<in> token_supply env (snd \<sigma>) \<and> G k y)
     \<and> (\<forall>h k. om_get (access_tokens_by_refresh_token (fst \<tau>)) h = Some k \<longrightarrow>
          om_get (access_tokens_by_refresh_token (fst \<sigma>)) h = Some k
          \<or> h \<in> token_supply env (snd \<sigma>) \<and> k \<in> token_supply env (snd \<sigma>))"

definition auth_move :: "auth_env \<Rightarrow> (string \<Rightarrow> stored_session \<Rightarrow> bool) \<Rightarrow> auth_state \<Rightarrow> auth_state \<Rightarrow> bool" where
  "auth_move env G \<sigma> \<tau> \<longleftrightarrow> (auth_ok env \<sigma> \<longrightarrow> auth_ok env \<tau> \<and> auth_le env G \<sigma> \<tau>)"

abbreviation nothing_new :: "string \<Rightarrow> stored_session \<Rightarrow> bool" where
  "nothing_new \<equiv> \<lambda>_ _. False"

lemma same_session_refl [simp]: "same_session x x"
  by (simp add: same_session_def)

lemma same_session_fields:
  assumes "same_session x y"
  shows "ss_access_token y = ss_access_token x" "ss_refresh_token y = ss_refresh_token x"
    "ss_user y = ss_user x" "ss_installation y = ss_installation x" "ss_kind y = ss_kind x"
    "ss_family y = ss_family x" "ss_created_at y = ss_created_at x"
    "ss_access_expires_at y = ss_access_expires_at x" "ss_refresh_expires_at y = ss_refresh_expires_at x"
  using assms by (cases x; cases y; simp add: same_session_def)+

lemma same_session_flags:
  assumes "same_session x y"
  shows "ss_rotated_at x \<noteq> None \<Longrightarrow> ss_rotated_at y \<noteq> None"
    and "ss_revoked_at x \<noteq> None \<Longrightarrow> ss_revoked_at y \<noteq> None"
  using assms by (auto simp: same_session_def)

lemma same_sessionI:
  "(ss_rotated_at x \<noteq> None \<Longrightarrow> a \<noteq> None) \<Longrightarrow> (ss_revoked_at x \<noteq> None \<Longrightarrow> b \<noteq> None) \<Longrightarrow>
    same_session x (x\<lparr>ss_rotated_at := a, ss_revoked_at := b\<rparr>)"
  by (simp add: same_session_def)

lemma same_session_trans: "same_session x y \<Longrightarrow> same_session y z \<Longrightarrow> same_session x z"
proof -
  assume xy: "same_session x y" and yz: "same_session y z"
  obtain a b where y: "y = x\<lparr>ss_rotated_at := a, ss_revoked_at := b\<rparr>"
    using xy unfolding same_session_def by blast
  moreover obtain c d where "z = y\<lparr>ss_rotated_at := c, ss_revoked_at := d\<rparr>"
    using yz unfolding same_session_def by blast
  ultimately have "z = x\<lparr>ss_rotated_at := c, ss_revoked_at := d\<rparr>" by simp
  with xy yz show ?thesis by (simp add: same_session_def)
qed

lemma same_session_revoke [simp]: "same_session x (x\<lparr>ss_revoked_at := Some t\<rparr>)"
  and same_session_rotate [simp]: "same_session x (x\<lparr>ss_rotated_at := Some t\<rparr>)"
  by (simp_all add: same_session_def)

lemma session_ok_same:
  "session_ok s k x \<Longrightarrow> same_session x y \<Longrightarrow> session_ok s k y"
  by (simp add: session_ok_def same_session_fields)

lemma auth_le_refl [simp]: "auth_le env G \<sigma> \<sigma>"
  by (auto simp: auth_le_def)

lemma auth_le_mono: "auth_le env G \<sigma> \<tau> \<Longrightarrow> (\<And>k x. G k x \<Longrightarrow> H k x) \<Longrightarrow> auth_le env H \<sigma> \<tau>"
  unfolding auth_le_def by blast

lemma auth_le_trans:
  assumes "auth_le env F \<rho> \<sigma>" "auth_le env G \<sigma> \<tau>"
    and "\<And>k x. G k x \<Longrightarrow> H k x" "\<And>k x y. F k x \<Longrightarrow> same_session x y \<Longrightarrow> H k y"
  shows "auth_le env H \<rho> \<tau>"
proof -
  have "(\<exists>x. om_get (sessions_by_access_token (fst \<rho>)) k = Some x \<and> same_session x z)
      \<or> k \<in> token_supply env (snd \<rho>) \<and> H k z"
    if "om_get (sessions_by_access_token (fst \<tau>)) k = Some z" for k z
  proof -
    consider y where "om_get (sessions_by_access_token (fst \<sigma>)) k = Some y" "same_session y z"
      | "k \<in> token_supply env (snd \<sigma>)" "G k z"
      using assms(2) \<open>om_get (sessions_by_access_token (fst \<tau>)) k = Some z\<close> unfolding auth_le_def by blast
    then show ?thesis
    proof cases
      case 1
      then consider x where "om_get (sessions_by_access_token (fst \<rho>)) k = Some x" "same_session x y"
        | "k \<in> token_supply env (snd \<rho>)" "F k y"
        using assms(1) unfolding auth_le_def by blast
      then show ?thesis
        by cases (use 1 assms(4) same_session_trans in blast)+
    next
      case 2
      then show ?thesis using assms(1,3) unfolding auth_le_def by blast
    qed
  qed
  moreover have "om_get (access_tokens_by_refresh_token (fst \<rho>)) h = Some k
      \<or> h \<in> token_supply env (snd \<rho>) \<and> k \<in> token_supply env (snd \<rho>)"
    if "om_get (access_tokens_by_refresh_token (fst \<tau>)) h = Some k" for h k
    using assms(1,2) that unfolding auth_le_def by (meson subsetD)
  ultimately show ?thesis
    using assms(1,2) unfolding auth_le_def by blast
qed

lemma auth_move_refl [simp]: "auth_move env G \<sigma> \<sigma>"
  by (simp add: auth_move_def)

lemma auth_move_trans:
  "auth_move env nothing_new \<rho> \<sigma> \<Longrightarrow> auth_move env G \<sigma> \<tau> \<Longrightarrow> auth_move env G \<rho> \<tau>"
  unfolding auth_move_def by (blast intro: auth_le_trans)

lemma auth_move_weaken: "auth_move env nothing_new \<sigma> \<tau> \<Longrightarrow> auth_move env G \<sigma> \<tau>"
  unfolding auth_move_def by (blast intro: auth_le_mono)

section \<open>The statements are moves\<close>

lemma aw_tokens_draws [simp]:
  "aw_tokens (snd (auth_now w)) = aw_tokens w"
  "aw_tokens (snd (auth_new_v4 w)) = aw_tokens w"
  "aw_tokens (snd (hash_password env p w)) = aw_tokens w"
  by (simp_all add: auth_now_def auth_new_v4_def hash_password_def split_beta)

lemma aw_tokens_expired [simp]: "aw_tokens (snd (expired_access_tokens es w)) = aw_tokens w"
  by (induction es arbitrary: w) (auto simp: split_beta Let_def)

lemma token_supply_cong: "aw_tokens w' = aw_tokens w \<Longrightarrow> token_supply env w' = token_supply env w"
  by (simp add: token_supply_def)

lemma move_accounts:
  assumes "sessions_by_access_token s' = sessions_by_access_token s"
    and "access_tokens_by_refresh_token s' = access_tokens_by_refresh_token s"
    and "aw_tokens w' = aw_tokens w"
    and dom: "om_dom (users_by_id s) \<subseteq> om_dom (users_by_id s')"
    and acc: "accounts_ok s \<Longrightarrow> accounts_ok s'"
  shows "auth_move env G (s, w) (s', w')"
proof -
  have "session_ok s' k x" if "session_ok s k x" for k x
    using that assms(2) dom by (auto simp: session_ok_def om_dom_def split: if_splits)
  then have "sessions_ok s \<Longrightarrow> sessions_ok s'" and "refresh_index_ok s \<Longrightarrow> refresh_index_ok s'"
    using assms(1,2) by (auto simp: sessions_ok_def refresh_index_ok_def)
  moreover have "supply_ok env (s, w) \<Longrightarrow> supply_ok env (s', w')"
    using assms(1-3) by (simp add: supply_ok_def token_supply_def)
  ultimately show ?thesis
    using assms by (simp add: auth_move_def auth_ok_def auth_le_def token_supply_def)
qed

lemma move_world: "aw_tokens w' = aw_tokens w \<Longrightarrow> auth_move env G (s, w) (s, w')"
  by (rule move_accounts) auto

lemma move_installations:
  "aw_tokens w' = aw_tokens w \<Longrightarrow> auth_move env G (s, w) (s\<lparr>installations_by_id := m\<rparr>, w')"
  by (rule move_accounts) (auto simp: accounts_ok_def)

lemma move_bind: "auth_move env G (s, w) (snd (bind_installation i u s), w)"
  by (auto simp: bind_installation_def split: option.splits intro: move_installations)

text \<open>Flags set on sessions in place.\<close>

lemma move_map_sessions:
  assumes "\<And>k x. same_session x (f k x)" and "aw_tokens w' = aw_tokens w"
  shows "auth_move env G (s, w)
    (s\<lparr>sessions_by_access_token := om_map f (sessions_by_access_token s)\<rparr>, w')"
proof -
  let ?s = "s\<lparr>sessions_by_access_token := om_map f (sessions_by_access_token s)\<rparr>"
  have "session_ok ?s k x = session_ok s k x" for k x by (simp add: session_ok_def)
  then have "sessions_ok s \<Longrightarrow> sessions_ok ?s"
    using session_ok_same [OF _ assms(1)] by (auto simp: sessions_ok_def)
  moreover have "\<exists>x. om_get (sessions_by_access_token ?s) k = Some x \<and> ss_refresh_token x = h \<and> ss_kind x \<noteq> AdminKind"
    if "om_get (sessions_by_access_token s) k = Some x" "ss_refresh_token x = h" "ss_kind x \<noteq> AdminKind" for h k x
    using that same_session_fields(2,5) [OF assms(1)] by simp
  then have "refresh_index_ok s \<Longrightarrow> refresh_index_ok ?s"
    unfolding refresh_index_ok_def by fastforce
  moreover have "supply_ok env (s, w) \<Longrightarrow> supply_ok env (?s, w')"
    using assms(2) by (simp add: supply_ok_def token_supply_def)
  moreover have "auth_le env G (s, w) (?s, w')"
    using assms by (auto simp: auth_le_def token_supply_def)
  ultimately show ?thesis by (simp add: auth_move_def auth_ok_def accounts_ok_def)
qed

lemma om_modify_as_map: "om_modify k f m = om_map (\<lambda>k' x. if k' = k then f x else x) m"
proof (rule om_eqI)
  fix k'
  show "om_get (om_modify k f m) k' = om_get (om_map (\<lambda>k' x. if k' = k then f x else x) m) k'"
    by (cases "om_get m k'") auto
qed

lemma move_rotate:
  "aw_tokens w' = aw_tokens w \<Longrightarrow> auth_move env G (s, w)
    (s\<lparr>sessions_by_access_token := om_modify k (\<lambda>x. x\<lparr>ss_rotated_at := Some t\<rparr>) (sessions_by_access_token s)\<rparr>, w')"
  unfolding om_modify_as_map by (rule move_map_sessions) auto

lemma move_revoke: "aw_tokens w' = aw_tokens w \<Longrightarrow> auth_move env G (s, w) (revoke_where p t s, w')"
  unfolding revoke_where_def by (rule move_map_sessions) auto

lemma move_revoke_user: "auth_move env G \<sigma> (revoke_user_sessions u \<sigma>)"
  by (cases \<sigma>) (auto simp: revoke_user_sessions_def split_beta Let_def
    intro: auth_move_trans [OF move_revoke move_installations])

lemma move_revoke_installation: "auth_move env G \<sigma> (revoke_installation_sessions x \<sigma>)"
  by (cases \<sigma>) (auto simp: revoke_installation_sessions_def split_beta Let_def
    intro: auth_move_trans [OF move_revoke move_installations])

lemma move_revoke_family: "auth_move env G \<sigma> (revoke_family f \<sigma>)"
  by (cases \<sigma>) (auto simp: revoke_family_def split_beta Let_def intro: move_revoke)

text \<open>Pruning takes a session out of both maps.\<close>

lemma move_drop: "auth_move env G (s, w) (drop_session d s, w)"
proof (cases "om_get (sessions_by_access_token s) d")
  case None
  then show ?thesis by (simp add: drop_session_def)
next
  case (Some y)
  let ?s = "drop_session d s"
  have s: "?s = s\<lparr>sessions_by_access_token := om_remove d (sessions_by_access_token s),
      access_tokens_by_refresh_token := om_remove (ss_refresh_token y) (access_tokens_by_refresh_token s)\<rparr>"
    using Some by (simp add: drop_session_def)
  have "auth_ok env (?s, w)" if ok: "auth_ok env (s, w)"
  proof -
    have ri: "refresh_index_ok s" and so: "sessions_ok s" using ok by (simp_all add: auth_ok_def)
    have apart: "ss_refresh_token x \<noteq> ss_refresh_token y"
      if x: "om_get (sessions_by_access_token s) k = Some x" "k \<noteq> d" "ss_kind x \<noteq> AdminKind" for k x
    proof
      assume eq: "ss_refresh_token x = ss_refresh_token y"
      have k: "om_get (access_tokens_by_refresh_token s) (ss_refresh_token x) = Some k"
        using so x by (auto simp: sessions_ok_def session_ok_def)
      have y: "session_ok s d y" using so Some by (simp add: sessions_ok_def)
      show False
      proof (cases "ss_kind y = AdminKind")
        case True
        then have "ss_refresh_token y = []" using y by (simp add: session_ok_def)
        with k eq ri show False by (auto simp: refresh_index_ok_def)
      next
        case False
        with y k eq x(2) show False by (simp add: session_ok_def)
      qed
    qed
    have "session_ok ?s k x" if x: "om_get (sessions_by_access_token ?s) k = Some x" for k x
    proof -
      have old: "om_get (sessions_by_access_token s) k = Some x" "k \<noteq> d"
        using x unfolding s by (auto split: if_splits)
      then have "session_ok s k x" using so by (simp add: sessions_ok_def)
      with apart [OF old] show ?thesis unfolding s by (auto simp: session_ok_def)
    qed
    then have "sessions_ok ?s" by (simp add: sessions_ok_def)
    moreover have "refresh_index_ok ?s"
      unfolding refresh_index_ok_def
    proof (intro allI impI)
      fix h k
      assume "om_get (access_tokens_by_refresh_token ?s) h = Some k"
      then have h: "om_get (access_tokens_by_refresh_token s) h = Some k" "h \<noteq> ss_refresh_token y"
        unfolding s by (auto split: if_splits)
      then obtain x where x: "om_get (sessions_by_access_token s) k = Some x" "ss_refresh_token x = h"
        "ss_kind x \<noteq> AdminKind" "h \<noteq> []"
        using ri unfolding refresh_index_ok_def by blast
      with h(2) Some have "k \<noteq> d" by auto
      with x show "h \<noteq> [] \<and> (\<exists>x. om_get (sessions_by_access_token ?s) k = Some x
          \<and> ss_refresh_token x = h \<and> ss_kind x \<noteq> AdminKind)"
        unfolding s by simp
    qed
    ultimately show ?thesis
      using ok unfolding s by (simp add: auth_ok_def accounts_ok_def supply_ok_def)
  qed
  moreover have "auth_le env G (s, w) (?s, w)"
    unfolding s by (auto simp: auth_le_def split: if_splits)
  ultimately show ?thesis by (simp add: auth_move_def)
qed

lemma move_fold_drop: "auth_move env G (s, w) (fold drop_session ks s, w)"
proof (induction ks arbitrary: s)
  case (Cons k ks)
  show ?case using auth_move_trans [OF move_drop Cons.IH] by simp
qed simp

lemma move_prune: "auth_move env G \<sigma> (prune_expired_sessions \<sigma>)"
  by (cases \<sigma>) (auto simp: prune_expired_sessions_def split_beta
    intro: auth_move_trans [OF move_fold_drop move_world])

end
