(* ===== verification/AuthOperations.thy ===== *)
theory AuthOperations
  imports AuthMoves
begin

text \<open>
  Every operation of the accounts and sessions is a move: it keeps the invariant, and the sessions it adds
  are exactly those whose tokens it returns.
\<close>

section \<open>New sessions\<close>

fun session_grant :: "auth_env \<Rightarrow> (session, auth_error) result \<Rightarrow> string \<Rightarrow> stored_session \<Rightarrow> bool" where
  "session_grant env (Ok z) k x \<longleftrightarrow>
     k = token_digest env (sn_access_token z) \<and> ss_refresh_token x = token_digest env (sn_refresh_token z)
     \<and> ss_user x = au_id (sn_user z) \<and> ss_installation x = sn_installation z \<and> ss_kind x \<in> {Tauri, Web}"
| "session_grant env _ k x \<longleftrightarrow> False"

fun admin_grant :: "auth_env \<Rightarrow> (admin_session, auth_error) result \<Rightarrow> string \<Rightarrow> stored_session \<Rightarrow> bool" where
  "admin_grant env (Ok z) k x \<longleftrightarrow>
     k = token_digest env (ad_access_token z) \<and> ss_user x = au_id (ad_user z) \<and> ss_kind x = AdminKind"
| "admin_grant env _ k x \<longleftrightarrow> False"

lemma token_supply_shift:
  assumes "\<And>n. aw_tokens w' n = aw_tokens w (n + m)"
  shows "token_supply env w' \<subseteq> token_supply env w"
  using assms by (auto simp: token_supply_def)

lemma shift_inj:
  assumes "inj (\<lambda>n. token_digest env (aw_tokens w n))" "\<And>n. aw_tokens w' n = aw_tokens w (n + m)"
  shows "inj (\<lambda>n. token_digest env (aw_tokens w' n))"
    and "i < m \<Longrightarrow> token_digest env (aw_tokens w i) \<notin> token_supply env w'"
proof -
  show "inj (\<lambda>n. token_digest env (aw_tokens w' n))"
    using assms by (simp add: inj_def) (metis add_right_cancel)
  show "token_digest env (aw_tokens w i) \<notin> token_supply env w'" if "i < m"
    using that assms by (auto simp: token_supply_def inj_def)
qed

lemma move_add_session:
  assumes tok: "\<And>n. aw_tokens w' n = aw_tokens w (n + 2)"
    and x: "ss_access_token x = token_digest env (aw_tokens w 0)"
      "ss_refresh_token x = token_digest env (aw_tokens w 1)" "ss_kind x \<noteq> AdminKind"
      "om_get (users_by_id s) (ss_user x) \<noteq> None"
      "ss_refresh_expires_at x = Some (ss_created_at x + app_refresh_token_ttl)"
      "ss_access_expires_at x = ss_created_at x + app_access_token_ttl"
    and G: "auth_ok env (s, w) \<Longrightarrow> G (ss_access_token x) x"
  shows "auth_move env G (s, w)
    (s\<lparr>access_tokens_by_refresh_token :=
         om_insert (ss_refresh_token x) (ss_access_token x) (access_tokens_by_refresh_token s),
       sessions_by_access_token := om_insert (ss_access_token x) x (sessions_by_access_token s)\<rparr>, w')"
    (is "auth_move env G _ (?s, w')")
  unfolding auth_move_def
proof
  assume ok: "auth_ok env (s, w)"
  then have sup: "supply_ok env (s, w)" and so: "sessions_ok s" and ri: "refresh_index_ok s"
    by (simp_all add: auth_ok_def)
  have injd: "inj (\<lambda>n. token_digest env (aw_tokens w n))" using sup by (simp add: supply_ok_def)
  have in_sup: "ss_access_token x \<in> token_supply env w" "ss_refresh_token x \<in> token_supply env w"
    using x(1,2) by (auto simp: token_supply_def)
  then have new: "om_get (sessions_by_access_token s) (ss_access_token x) = None"
    "om_get (access_tokens_by_refresh_token s) (ss_refresh_token x) = None" "ss_refresh_token x \<noteq> []"
    using sup by (auto simp: supply_ok_def)
  have sub: "token_supply env w' \<subseteq> token_supply env w" by (rule token_supply_shift [OF tok])
  have gone: "ss_access_token x \<notin> token_supply env w'" "ss_refresh_token x \<notin> token_supply env w'"
    using shift_inj(2) [OF injd tok] x(1,2) by auto
  have "supply_ok env (?s, w')"
    using sup sub gone shift_inj(1) [OF injd tok] by (auto simp: supply_ok_def)
  moreover have "session_ok ?s k y" if "om_get (sessions_by_access_token ?s) k = Some y" for k y
  proof (cases "k = ss_access_token x")
    case True
    with that x(3-6) show ?thesis by (simp add: session_ok_def)
  next
    case False
    then have "session_ok s k y" using so that by (simp add: sessions_ok_def)
    with new(2) show ?thesis by (auto simp: session_ok_def)
  qed
  then have "sessions_ok ?s" by (simp add: sessions_ok_def)
  moreover have "refresh_index_ok ?s"
    using ri new x(3) by (fastforce simp: refresh_index_ok_def)
  moreover have "auth_le env G (s, w) (?s, w')"
    using sub in_sup G [OF ok] by (auto simp: auth_le_def split: if_splits)
  ultimately show "auth_ok env (?s, w') \<and> auth_le env G (s, w) (?s, w')"
    using ok by (simp add: auth_ok_def accounts_ok_def)
qed

lemma move_add_admin_session:
  assumes tok: "\<And>n. aw_tokens w' n = aw_tokens w (n + 1)"
    and x: "ss_access_token x = token_digest env (aw_tokens w 0)"
      "ss_refresh_token x = []" "ss_kind x = AdminKind"
      "om_get (users_by_id s) (ss_user x) \<noteq> None" "ss_refresh_expires_at x = None"
      "ss_access_expires_at x = ss_created_at x + admin_session_ttl"
    and G: "auth_ok env (s, w) \<Longrightarrow> G (ss_access_token x) x"
  shows "auth_move env G (s, w)
    (s\<lparr>sessions_by_access_token := om_insert (ss_access_token x) x (sessions_by_access_token s)\<rparr>, w')"
    (is "auth_move env G _ (?s, w')")
  unfolding auth_move_def
proof
  assume ok: "auth_ok env (s, w)"
  then have sup: "supply_ok env (s, w)" and so: "sessions_ok s" and ri: "refresh_index_ok s"
    by (simp_all add: auth_ok_def)
  have injd: "inj (\<lambda>n. token_digest env (aw_tokens w n))" using sup by (simp add: supply_ok_def)
  have in_sup: "ss_access_token x \<in> token_supply env w"
    using x(1) by (auto simp: token_supply_def)
  then have new: "om_get (sessions_by_access_token s) (ss_access_token x) = None"
    using sup by (auto simp: supply_ok_def)
  have sub: "token_supply env w' \<subseteq> token_supply env w" by (rule token_supply_shift [OF tok])
  have gone: "ss_access_token x \<notin> token_supply env w'"
    using shift_inj(2) [OF injd tok] x(1) by auto
  have "supply_ok env (?s, w')"
    using sup sub gone shift_inj(1) [OF injd tok] by (auto simp: supply_ok_def)
  moreover have "session_ok ?s k y" if "om_get (sessions_by_access_token ?s) k = Some y" for k y
    using so x(2-6) that by (auto simp: sessions_ok_def session_ok_def split: if_splits)
  then have "sessions_ok ?s" by (simp add: sessions_ok_def)
  moreover have "refresh_index_ok ?s"
    using ri new by (fastforce simp: refresh_index_ok_def)
  moreover have "auth_le env G (s, w) (?s, w')"
    using sub in_sup G [OF ok] by (auto simp: auth_le_def split: if_splits)
  ultimately show "auth_ok env (?s, w') \<and> auth_le env G (s, w) (?s, w')"
    using ok by (simp add: auth_ok_def accounts_ok_def)
qed

text \<open>The outcome of an operation that started in \<open>\<sigma>\<close>.\<close>

definition yields ::
  "auth_env \<Rightarrow> ('r \<Rightarrow> string \<Rightarrow> stored_session \<Rightarrow> bool) \<Rightarrow> auth_state \<Rightarrow> 'r \<times> auth_state \<Rightarrow> bool" where
  "yields env grant \<sigma> out \<longleftrightarrow> auth_move env (grant (fst out)) \<sigma> (snd out)"

lemma yields_pair [simp]: "yields env grant \<sigma> (r, \<tau>) \<longleftrightarrow> auth_move env (grant r) \<sigma> \<tau>"
  by (simp add: yields_def)

lemma yields_after: "auth_move env nothing_new \<rho> \<sigma> \<Longrightarrow> yields env grant \<sigma> out \<Longrightarrow> yields env grant \<rho> out"
  unfolding yields_def by (rule auth_move_trans)

lemma user_key: "auth_ok env (s, w) \<Longrightarrow> om_get (users_by_id s) u = Some x \<Longrightarrow> su_id x = u"
  by (auto simp: auth_ok_def accounts_ok_def om_keyed_def)

lemma move_issue_session:
  assumes "kind \<in> {Tauri, Web}"
  shows "yields env (session_grant env) \<sigma> (issue_session env uid inst fam kind \<sigma>)"
proof -
  obtain s w where p: "prune_expired_sessions \<sigma> = (s, w)" by fastforce
  have "yields env (session_grant env) (s, w) (issue_session env uid inst fam kind \<sigma>)"
  proof (cases "om_get (users_by_id s) uid")
    case None
    then show ?thesis by (simp add: issue_session_def p)
  next
    case (Some user)
    let ?w = "snd (auth_now w)"
    let ?x = "\<lparr>ss_id = fst (auth_new_v4 (snd (random_token (snd (random_token ?w))))),
      ss_family = fam, ss_user = uid, ss_installation = inst,
      ss_access_token = token_digest env (aw_tokens w 0), ss_refresh_token = token_digest env (aw_tokens w 1),
      ss_kind = kind, ss_created_at = fst (auth_now w),
      ss_access_expires_at = fst (auth_now w) + app_access_token_ttl,
      ss_refresh_expires_at = Some (fst (auth_now w) + app_refresh_token_ttl),
      ss_rotated_at = None, ss_revoked_at = None\<rparr>"
    let ?w' = "snd (auth_new_v4 (snd (random_token (snd (random_token ?w)))))"
    have "auth_move env (session_grant env (Ok \<lparr>sn_user = auth_user_dto_of user, sn_access_token = aw_tokens w 0,
        sn_refresh_token = aw_tokens w 1, sn_installation = inst\<rparr>)) (s, w)
      (s\<lparr>access_tokens_by_refresh_token :=
         om_insert (ss_refresh_token ?x) (ss_access_token ?x) (access_tokens_by_refresh_token s),
       sessions_by_access_token := om_insert (ss_access_token ?x) ?x (sessions_by_access_token s)\<rparr>, ?w')"
      using assms Some
      by (intro move_add_session)
        (auto simp: random_token_def auth_user_dto_of_def dest: user_key)
    then show ?thesis
      using Some by (simp add: issue_session_def p Let_def split_beta random_token_def)
  qed
  then show ?thesis using yields_after [OF move_prune [of env nothing_new \<sigma>]] p by simp
qed

lemma move_issue_admin_session:
  "yields env (admin_grant env) \<sigma> (issue_admin_session env uid \<sigma>)"
proof -
  obtain s w where p: "prune_expired_sessions \<sigma> = (s, w)" by fastforce
  have "yields env (admin_grant env) (s, w) (issue_admin_session env uid \<sigma>)"
  proof (cases "om_get (users_by_id s) uid")
    case None
    then show ?thesis by (simp add: issue_admin_session_def p)
  next
    case (Some user)
    show ?thesis
    proof (cases "su_organization user")
      case None
      then show ?thesis using Some by (simp add: issue_admin_session_def p)
    next
      case org: (Some org)
      let ?v = "snd (random_token (snd (auth_now w)))"
      let ?x = "\<lparr>ss_id = fst (auth_new_v4 ?v), ss_family = fst (auth_new_v4 (snd (auth_new_v4 ?v))), ss_user = uid,
        ss_installation = [], ss_access_token = token_digest env (aw_tokens w 0), ss_refresh_token = [],
        ss_kind = AdminKind, ss_created_at = fst (auth_now w),
        ss_access_expires_at = fst (auth_now w) + admin_session_ttl, ss_refresh_expires_at = None,
        ss_rotated_at = None, ss_revoked_at = None\<rparr>"
      let ?w' = "snd (auth_new_v4 (snd (auth_new_v4 ?v)))"
      have "auth_move env (admin_grant env (Ok \<lparr>ad_user = auth_user_dto_of user, ad_access_token = aw_tokens w 0,
          ad_organization = org\<rparr>)) (s, w)
        (s\<lparr>sessions_by_access_token := om_insert (ss_access_token ?x) ?x (sessions_by_access_token s)\<rparr>, ?w')"
        using Some
        by (intro move_add_admin_session)
          (auto simp: random_token_def auth_user_dto_of_def dest: user_key)
      then show ?thesis
        using Some org by (simp add: issue_admin_session_def p Let_def split_beta random_token_def)
    qed
  qed
  then show ?thesis using yields_after [OF move_prune [of env nothing_new \<sigma>]] p by simp
qed

section \<open>Accounts\<close>

lemma om_get_index_insert:
  "om_get (index_insert k u m) k' = (if k = Some k' then Some u else om_get m k')"
  by (auto simp: index_insert_def split: option.splits)

lemma om_get_index_remove:
  "om_get (index_remove k u m) k' = (if k = Some k' \<and> om_get m k' = Some u then None else om_get m k')"
  by (auto simp: index_remove_def split: option.splits)

text \<open>Storing an account keeps an index exact when its key is free or its own, and the old key is taken out.\<close>

lemma index_exact_store:
  assumes m: "index_exact f us m" and key: "om_keyed su_id us" "su_id u = uid"
    and free: "\<And>k. f u = Some k \<Longrightarrow> om_get m k = None \<or> om_get m k = Some uid"
  shows "index_exact f (om_insert uid u us)
    (index_insert (f u) uid (index_remove (Option.bind (om_get us uid) f) uid m))"
  unfolding index_exact_def
proof (intro allI)
  fix k v
  have old: "om_get m k = Some v \<longleftrightarrow> (\<exists>x. om_get us v = Some x \<and> f x = Some k)"
    using m by (simp add: index_exact_def)
  have mine: "om_get m k = Some uid \<longleftrightarrow> Option.bind (om_get us uid) f = Some k"
    using m by (auto simp: index_exact_def bind_eq_Some_conv)
  show "om_get (index_insert (f u) uid (index_remove (Option.bind (om_get us uid) f) uid m)) k = Some v \<longleftrightarrow>
      (\<exists>x. om_get (om_insert uid u us) v = Some x \<and> f x = Some k)"
    using old mine free [of k] by (auto simp: om_get_index_insert om_get_index_remove)
qed

lemma accounts_ok_store:
  assumes "accounts_ok s" "su_id u = uid"
    and "\<And>k. su_email u = Some k \<Longrightarrow> om_get (user_ids_by_email s) k = None \<or> om_get (user_ids_by_email s) k = Some uid"
    and "\<And>k. su_phone u = Some k \<Longrightarrow> om_get (user_ids_by_phone s) k = None \<or> om_get (user_ids_by_phone s) k = Some uid"
  shows "accounts_ok (store_user u (s\<lparr>
      user_ids_by_email := index_remove (Option.bind (om_get (users_by_id s) uid) su_email) uid (user_ids_by_email s),
      user_ids_by_phone := index_remove (Option.bind (om_get (users_by_id s) uid) su_phone) uid (user_ids_by_phone s)\<rparr>))"
  using assms by (auto simp: accounts_ok_def store_user_def intro: index_exact_store)

lemma move_new_user:
  assumes new: "om_get (users_by_id s) (su_id u) = None"
    and "\<And>k. su_email u = Some k \<Longrightarrow> om_get (user_ids_by_email s) k = None"
    and "\<And>k. su_phone u = Some k \<Longrightarrow> om_get (user_ids_by_phone s) k = None"
    and "aw_tokens w' = aw_tokens w"
  shows "auth_move env G (s, w) (store_user u s, w')"
proof (rule move_accounts)
  assume "accounts_ok s"
  then have "accounts_ok (store_user u (s\<lparr>
      user_ids_by_email := index_remove (Option.bind (om_get (users_by_id s) (su_id u)) su_email) (su_id u) (user_ids_by_email s),
      user_ids_by_phone := index_remove (Option.bind (om_get (users_by_id s) (su_id u)) su_phone) (su_id u) (user_ids_by_phone s)\<rparr>))"
    by (rule accounts_ok_store) (use assms in auto)
  with new show "accounts_ok (store_user u s)" by (simp add: index_remove_def)
qed (use assms in \<open>auto simp: store_user_def\<close>)

lemma move_update_user:
  assumes "om_get (users_by_id s) uid = Some x" and "su_id u = su_id x" "su_email u = su_email x" "su_phone u = su_phone x"
    and "aw_tokens w' = aw_tokens w"
  shows "auth_move env G (s, w) (s\<lparr>users_by_id := om_insert uid u (users_by_id s)\<rparr>, w')"
proof (rule move_accounts)
  assume ok: "accounts_ok s"
  have "index_exact f (om_insert uid u (users_by_id s)) m" if "index_exact f (users_by_id s) m" "f u = f x" for f m
    using that assms(1) by (auto simp: index_exact_def)
  moreover have "su_id x = uid" using ok assms(1) by (auto simp: accounts_ok_def om_keyed_def)
  ultimately show "accounts_ok (s\<lparr>users_by_id := om_insert uid u (users_by_id s)\<rparr>)"
    using ok assms by (simp add: accounts_ok_def)
qed (use assms in auto)

section \<open>The operations\<close>

lemmas yields_attempt = attempt_outcome [where P = "yields env grant \<sigma>" for env grant \<sigma>]
lemmas yields_perform = perform_outcome [where P = "yields env grant \<sigma>" for env grant \<sigma>]
lemmas yields_if = if_outcome [where P = "yields env grant \<sigma>" for env grant \<sigma>]
lemmas yields_option = option_outcome [where P = "yields env grant \<sigma>" for env grant \<sigma>]
lemmas yields_intros = yields_attempt yields_perform yields_if yields_option

lemma aw_tokens_choice [simp]:
  "aw_tokens (snd (case x of None \<Rightarrow> auth_new_v4 w | Some u \<Rightarrow> (u, w))) = aw_tokens w"
  "aw_tokens (snd (case y of None \<Rightarrow> auth_now w | Some v \<Rightarrow> (f v, w))) = aw_tokens w"
  by (simp_all split: option.splits)

text \<open>The identifier a registration will use must be new; every other command is legal in every state.\<close>

definition new_account_id :: "register_input \<Rightarrow> auth_state \<Rightarrow> uuid" where
  "new_account_id i \<sigma> = (case ri_user i of Some u \<Rightarrow> u | None \<Rightarrow> fst (auth_new_v4 (snd (auth_now (snd \<sigma>)))))"

lemma bind_installation_frame [simp]:
  "users_by_id (snd (bind_installation i u s)) = users_by_id s"
  "user_ids_by_email (snd (bind_installation i u s)) = user_ids_by_email s"
  "user_ids_by_phone (snd (bind_installation i u s)) = user_ids_by_phone s"
  by (simp_all add: bind_installation_def split: option.splits)

lemma move_bind_world:
  "aw_tokens w' = aw_tokens w \<Longrightarrow> auth_move env G (s, w) (snd (bind_installation i u s), w')"
  by (rule auth_move_trans [OF move_bind move_world])

lemma revoked_world [simp]:
  "aw_tokens (snd (revoke_user_sessions u \<sigma>)) = aw_tokens (snd \<sigma>)"
  "users_by_id (fst (revoke_user_sessions u \<sigma>)) = users_by_id (fst \<sigma>)"
  by (simp_all add: revoke_user_sessions_def revoke_where_def split_beta Let_def)

lemma yields_register:
  assumes "om_get (users_by_id (fst \<sigma>)) (new_account_id i \<sigma>) = None"
  shows "yields env (session_grant env) \<sigma> (register env i \<sigma>)"
proof -
  obtain s w where \<sigma>: "\<sigma> = (s, w)" by fastforce
  let ?p = "case ri_user i of None \<Rightarrow> auth_new_v4 (snd (auth_now w)) | Some u \<Rightarrow> (u, snd (auth_now w))"
  have "fst ?p = new_account_id i \<sigma>"
    by (simp add: new_account_id_def \<sigma> split: option.splits)
  with assms have "om_get (users_by_id s) (fst ?p) = None" by (simp add: \<sigma>)
  then show ?thesis
    unfolding \<sigma> register_def Let_def split_beta fst_conv snd_conv
    by (intro yields_intros)
      (auto intro!: move_world move_bind_world
         yields_after [OF auth_move_trans [OF move_bind_world move_new_user] move_issue_session]
       split: option.splits)
qed

lemma yields_login_for_client:
  assumes "kind \<in> {Tauri, Web}"
  shows "yields env (session_grant env) \<sigma> (login_for_client env i kind \<sigma>)"
proof -
  obtain s w where \<sigma>: "\<sigma> = (s, w)" by fastforce
  show ?thesis
    using assms
    unfolding \<sigma> login_for_client_def consume_unknown_user_password_work_def Let_def split_beta fst_conv snd_conv
    by (intro yields_intros)
      (auto simp: perform_def attempt_def split_beta split: result.splits intro!: move_world move_bind_world
         yields_after [OF move_bind_world move_issue_session])
qed

lemma yields_admin_login: "yields env (admin_grant env) \<sigma> (admin_login env i \<sigma>)"
proof -
  obtain s w where \<sigma>: "\<sigma> = (s, w)" by fastforce
  show ?thesis
    unfolding \<sigma> admin_login_def consume_unknown_user_password_work_def Let_def split_beta fst_conv snd_conv
    by (intro yields_intros)
      (auto simp: perform_def attempt_def split_beta split: result.splits intro!: move_world move_issue_admin_session)
qed

text \<open>The operations that give out no session.\<close>

abbreviation no_grant :: "'r \<Rightarrow> string \<Rightarrow> stored_session \<Rightarrow> bool" where
  "no_grant \<equiv> \<lambda>_ _ _. False"

lemma aw_tokens_admin_password [simp]: "aw_tokens (snd (admin_password_hash env x p w)) = aw_tokens w"
  by (simp add: admin_password_hash_def split: option.splits)

lemma move_admin_store:
  assumes "su_id u = uid" "aw_tokens w' = aw_tokens w"
    and "ensure_identifier_available s uid (su_email u) (su_phone u) = Ok ()"
  shows "auth_move env G (s, w)
    (store_user u (case om_get (users_by_id s) uid of None \<Rightarrow> s | Some x \<Rightarrow>
       s\<lparr>user_ids_by_email := index_remove (su_email x) uid (user_ids_by_email s),
         user_ids_by_phone := index_remove (su_phone x) uid (user_ids_by_phone s)\<rparr>), w')"
    (is "auth_move env G _ (store_user u ?s, w')")
proof (rule move_accounts)
  have s: "?s = s\<lparr>
      user_ids_by_email := index_remove (Option.bind (om_get (users_by_id s) uid) su_email) uid (user_ids_by_email s),
      user_ids_by_phone := index_remove (Option.bind (om_get (users_by_id s) uid) su_phone) uid (user_ids_by_phone s)\<rparr>"
    by (simp add: index_remove_def split: option.splits)
  have "om_get m k = None \<or> om_get m k = Some uid" if "\<not> taken_by_other m uid f" "f = Some k" for m f k
    using that by (auto simp: taken_by_other_def split: option.splits)
  moreover have "\<not> taken_by_other (user_ids_by_email s) uid (su_email u)"
    "\<not> taken_by_other (user_ids_by_phone s) uid (su_phone u)"
    using assms(3) by (auto simp: ensure_identifier_available_def split: if_splits)
  ultimately show "accounts_ok (store_user u ?s)" if "accounts_ok s"
    unfolding s using accounts_ok_store [OF that assms(1)] by blast
qed (use assms in \<open>auto simp: store_user_def split: option.splits\<close>)

lemma yields_admin_user: "yields env no_grant \<sigma> (create_or_update_admin_user env i \<sigma>)"
proof -
  obtain s w where \<sigma>: "\<sigma> = (s, w)" by fastforce
  show ?thesis
    unfolding \<sigma> create_or_update_admin_user_def Let_def split_beta fst_conv snd_conv
    by (intro yields_intros) (auto intro!: move_world move_admin_store
        auth_move_trans [OF move_admin_store move_revoke_user])
qed

lemma yields_replace_password:
  "auth_move env nothing_new \<rho> \<sigma> \<Longrightarrow> auth_move env G \<rho> (snd (replace_password uid h \<sigma>))"
proof -
  assume before: "auth_move env nothing_new \<rho> \<sigma>"
  obtain s w where \<sigma>: "\<sigma> = (s, w)" by fastforce
  have "auth_move env G (s, w) (snd (replace_password uid h (s, w)))"
    by (auto simp: replace_password_def attempt_ok_or split_beta Let_def split: option.splits
      intro!: auth_move_trans [OF move_update_user move_revoke_user])
  then show ?thesis using auth_move_trans [OF before] by (simp add: \<sigma>)
qed

lemma yields_change_admin_password: "yields env no_grant \<sigma> (change_admin_password env t p q \<sigma>)"
proof -
  obtain s w where \<sigma>: "\<sigma> = (s, w)" by fastforce
  show ?thesis
    unfolding \<sigma> change_admin_password_def Let_def split_beta fst_conv snd_conv
    by (intro yields_intros) (auto intro!: move_world yields_replace_password)
qed

lemma yields_reset_password: "yields env no_grant \<sigma> (reset_organization_admin_password env uid q \<sigma>)"
proof -
  obtain s w where \<sigma>: "\<sigma> = (s, w)" by fastforce
  show ?thesis
    unfolding \<sigma> reset_organization_admin_password_def Let_def split_beta fst_conv snd_conv
    by (intro yields_intros) (auto intro!: move_world yields_replace_password)
qed

lemma yields_mark_organization_admin: "yields env no_grant \<sigma> (mark_organization_admin uid org \<sigma>)"
  by (cases \<sigma>) (auto simp: mark_organization_admin_def split_beta Let_def split: option.splits
    intro!: auth_move_trans [OF move_update_user move_revoke_user])

lemma yields_refresh_for_client:
  assumes "kind \<in> {Tauri, Web}"
  shows "yields env (session_grant env) \<sigma> (refresh_for_client env i kind \<sigma>)"
proof -
  obtain s w where \<sigma>: "\<sigma> = (s, w)" by fastforce
  show ?thesis
    using assms
    unfolding \<sigma> refresh_for_client_def Let_def split_beta fst_conv snd_conv
    by (intro yields_intros)
      (auto intro!: move_world move_revoke_family yields_after [OF move_rotate move_issue_session])
qed

lemma yields_logout: "yields env no_grant \<sigma> (logout env t \<sigma>)"
  unfolding logout_def Let_def by (intro yields_intros) (auto intro!: move_revoke_installation)

lemma yields_logout_refresh: "yields env no_grant \<sigma> (logout_refresh env t \<sigma>)"
  unfolding logout_refresh_def Let_def by (intro yields_intros) (auto intro!: move_revoke_installation)

lemma yields_authenticate: "yields env no_grant \<sigma> (authenticate_access_token env t \<sigma>)"
  unfolding authenticate_access_token_def Let_def split_beta
  by (cases \<sigma>, simp only: fst_conv snd_conv, intro yields_intros) (auto intro!: move_world)

lemma yields_authenticate_admin: "yields env no_grant \<sigma> (authenticate_admin_access_token env t \<sigma>)"
  unfolding authenticate_admin_access_token_def Let_def split_beta
  by (cases \<sigma>, simp only: fst_conv snd_conv, intro yields_intros) (auto intro!: move_world)

lemma yields_update_profile: "yields env no_grant \<sigma> (update_profile env t name \<sigma>)"
  unfolding update_profile_def Let_def split_beta
  by (cases \<sigma>, simp only: fst_conv snd_conv, intro yields_intros)
    (auto intro!: move_world move_update_user)

end
