(* ===== verification/AuthMachine.thy ===== *)
theory AuthMachine
  imports AuthOperations
begin

text \<open>
  The authentication service as a machine: one command per public method, the log of the answers given,
  and the machine contract interpreted on them. From it: where a session comes from, and that a token
  that is dead stays dead whatever is done afterwards.
\<close>

section \<open>Commands and answers\<close>

datatype auth_command =
    DoRegister register_input
  | DoAdminUser admin_create_user_input
  | DoLogin login_input session_kind
  | DoAdminLogin admin_login_input
  | DoChangePassword string string string
  | DoResetPassword uuid string
  | DoRefresh refresh_input session_kind
  | DoLogout string
  | DoLogoutRefresh string
  | DoMarkAdmin uuid uuid
  | DoUpdateProfile string string
  | DoAuthenticate string
  | DoAuthenticateAdmin string

datatype auth_output =
    OutSession "(session, auth_error) result"
  | OutAdminSession "(admin_session, auth_error) result"
  | OutUser "(auth_user_dto, auth_error) result"
  | OutAdmin "(admin_authenticated_session, auth_error) result"
  | OutUnit "(unit, auth_error) result"
  | OutUuid "(uuid, auth_error) result"
  | OutBool bool
  | OutAuthenticated "(authenticated_session, auth_error) result"

fun auth_exec :: "auth_env \<Rightarrow> auth_command \<Rightarrow> auth_state \<Rightarrow> auth_output \<times> auth_state" where
  "auth_exec env (DoRegister i) \<sigma> = map_prod OutSession id (register env i \<sigma>)"
| "auth_exec env (DoAdminUser i) \<sigma> = map_prod OutUser id (create_or_update_admin_user env i \<sigma>)"
| "auth_exec env (DoLogin i kind) \<sigma> = map_prod OutSession id (login_for_client env i kind \<sigma>)"
| "auth_exec env (DoAdminLogin i) \<sigma> = map_prod OutAdminSession id (admin_login env i \<sigma>)"
| "auth_exec env (DoChangePassword t p q) \<sigma> = map_prod OutAdmin id (change_admin_password env t p q \<sigma>)"
| "auth_exec env (DoResetPassword u q) \<sigma> = map_prod OutUser id (reset_organization_admin_password env u q \<sigma>)"
| "auth_exec env (DoRefresh i kind) \<sigma> = map_prod OutSession id (refresh_for_client env i kind \<sigma>)"
| "auth_exec env (DoLogout t) \<sigma> = map_prod OutUnit id (logout env t \<sigma>)"
| "auth_exec env (DoLogoutRefresh t) \<sigma> = map_prod OutUuid id (logout_refresh env t \<sigma>)"
| "auth_exec env (DoMarkAdmin u org) \<sigma> = map_prod OutBool id (mark_organization_admin u org \<sigma>)"
| "auth_exec env (DoUpdateProfile t name) \<sigma> = map_prod OutAuthenticated id (update_profile env t name \<sigma>)"
| "auth_exec env (DoAuthenticate t) \<sigma> = map_prod OutAuthenticated id (authenticate_access_token env t \<sigma>)"
| "auth_exec env (DoAuthenticateAdmin t) \<sigma> = map_prod OutAdmin id (authenticate_admin_access_token env t \<sigma>)"

text \<open>The session an answer hands out.\<close>

fun output_grant :: "auth_env \<Rightarrow> auth_output \<Rightarrow> string \<Rightarrow> stored_session \<Rightarrow> bool" where
  "output_grant env (OutSession r) = session_grant env r"
| "output_grant env (OutAdminSession r) = admin_grant env r"
| "output_grant env _ = nothing_new"

type_synonym auth_log = "(auth_command \<times> auth_output) list"

definition auth_step :: "auth_env \<Rightarrow> auth_state \<times> auth_log \<Rightarrow> auth_command \<Rightarrow> auth_state \<times> auth_log" where
  "auth_step env \<sigma> c =
     (snd (auth_exec env c (fst \<sigma>)), snd \<sigma> @ [(c, fst (auth_exec env c (fst \<sigma>)))])"

text \<open>
  A registration uses an identifier that is new (the identifiers drawn at random do not collide); sessions
  of the applications are of kind Tauri or Web, as in both callers of the methods.
\<close>

definition auth_legal :: "auth_state \<times> auth_log \<Rightarrow> auth_command \<Rightarrow> bool" where
  "auth_legal \<sigma> c =
     (case c of
        DoRegister i \<Rightarrow> om_get (users_by_id (fst (fst \<sigma>))) (new_account_id i (fst \<sigma>)) = None
      | DoLogin i kind \<Rightarrow> kind \<in> {Tauri, Web}
      | DoRefresh i kind \<Rightarrow> kind \<in> {Tauri, Web}
      | _ \<Rightarrow> True)"

abbreviation auth_reaches :: "auth_env \<Rightarrow> auth_state \<times> auth_log \<Rightarrow> auth_state \<times> auth_log \<Rightarrow> bool" where
  "auth_reaches env \<equiv> reaches (auth_step env) auth_legal"

lemma yields_map_prod:
  "yields env g \<sigma> out \<Longrightarrow> (\<And>r. G (C r) = g r) \<Longrightarrow> yields env G \<sigma> (map_prod C id out)"
  by (simp add: yields_def)

lemma yields_exec:
  assumes "auth_legal (\<sigma>, log) c"
  shows "yields env (output_grant env) \<sigma> (auth_exec env c \<sigma>)"
  using assms
  by (cases c) (auto simp: auth_legal_def intro!: yields_map_prod yields_register yields_login_for_client
    yields_admin_login yields_admin_user yields_change_admin_password yields_reset_password
    yields_refresh_for_client yields_logout yields_logout_refresh yields_mark_organization_admin
    yields_update_profile yields_authenticate yields_authenticate_admin)

section \<open>The machine\<close>

lemma grant_same: "output_grant env out k x \<Longrightarrow> same_session x y \<Longrightarrow> output_grant env out k y"
  by (cases "(env, out)" rule: output_grant.cases)
    (auto simp: same_session_fields elim: session_grant.elims admin_grant.elims)

text \<open>Every session in use was there at the start or has been handed out by a logged answer.\<close>

definition sessions_logged :: "auth_env \<Rightarrow> auth_state \<Rightarrow> auth_state \<times> auth_log \<Rightarrow> bool" where
  "sessions_logged env \<sigma>0 \<sigma> \<longleftrightarrow>
     (\<forall>k y. om_get (sessions_by_access_token (fst (fst \<sigma>))) k = Some y \<longrightarrow>
        (\<exists>x. om_get (sessions_by_access_token (fst \<sigma>0)) k = Some x \<and> same_session x y)
        \<or> (\<exists>c out. (c, out) \<in> set (snd \<sigma>) \<and> output_grant env out k y))"

definition auth_inv :: "auth_env \<Rightarrow> auth_state \<Rightarrow> auth_state \<times> auth_log \<Rightarrow> bool" where
  "auth_inv env \<sigma>0 \<sigma> \<longleftrightarrow> auth_ok env (fst \<sigma>) \<and> sessions_logged env \<sigma>0 \<sigma>"

definition auth_forward :: "auth_env \<Rightarrow> auth_state \<times> auth_log \<Rightarrow> auth_state \<times> auth_log \<Rightarrow> bool" where
  "auth_forward env \<sigma> \<tau> \<longleftrightarrow> auth_le env (\<lambda>_ _. True) (fst \<sigma>) (fst \<tau>)"

lemma auth_step_inv:
  assumes inv: "auth_inv env \<sigma>0 \<sigma>" and legal: "auth_legal \<sigma> c"
  shows "auth_inv env \<sigma>0 (auth_step env \<sigma> c)" and "auth_forward env \<sigma> (auth_step env \<sigma> c)"
proof -
  obtain s log where \<sigma>: "\<sigma> = (s, log)" by fastforce
  obtain out s' where e: "auth_exec env c s = (out, s')" by (meson surj_pair)
  have "auth_move env (output_grant env out) s s'"
    using yields_exec [OF legal [unfolded \<sigma>], of env] by (simp add: e yields_def)
  then have ok: "auth_ok env s'" and le: "auth_le env (output_grant env out) s s'"
    using inv by (simp_all add: auth_move_def auth_inv_def \<sigma>)
  have "(\<exists>x. om_get (sessions_by_access_token (fst \<sigma>0)) k = Some x \<and> same_session x y)
      \<or> (\<exists>c' o'. (c', o') \<in> set (log @ [(c, out)]) \<and> output_grant env o' k y)"
    if get: "om_get (sessions_by_access_token (fst s')) k = Some y" for k y
  proof -
    consider x where "om_get (sessions_by_access_token (fst s)) k = Some x" "same_session x y"
      | "output_grant env out k y"
      using le get unfolding auth_le_def by blast
    then show ?thesis
    proof cases
      case 1
      then show ?thesis
        using inv grant_same same_session_trans unfolding auth_inv_def sessions_logged_def \<sigma>
        by (metis (no_types, lifting) Un_iff fst_conv set_append snd_conv)
    qed auto
  qed
  then show "auth_inv env \<sigma>0 (auth_step env \<sigma> c)"
    using ok by (simp add: auth_inv_def sessions_logged_def auth_step_def \<sigma> e)
  show "auth_forward env \<sigma> (auth_step env \<sigma> c)"
    using auth_le_mono [OF le] by (simp add: auth_forward_def auth_step_def \<sigma> e)
qed

interpretation auth: guarded_forward "auth_step env" "auth_inv env \<sigma>0" auth_legal "auth_forward env" for env \<sigma>0
proof unfold_locales
  show "auth_inv env \<sigma>0 (auth_step env s i)" if "auth_inv env \<sigma>0 s" "auth_legal s i" for s i
    using that by (rule auth_step_inv)
  show "auth_forward env s (auth_step env s i)" if "auth_inv env \<sigma>0 s" "auth_legal s i" for s i
    using that by (rule auth_step_inv)
  show "auth_forward env s s" for s by (simp add: auth_forward_def)
  show "auth_forward env s u" if "auth_forward env s t" "auth_forward env t u" for s t u
    using auth_le_trans [OF that [unfolded auth_forward_def]] by (simp add: auth_forward_def)
qed

lemma auth_inv_start: "auth_ok env \<sigma> \<Longrightarrow> auth_inv env \<sigma> (\<sigma>, log)"
  by (auto simp: auth_inv_def sessions_logged_def)

lemma reaches_ok: "auth_reaches env (\<sigma>, log) (\<tau>, log') \<Longrightarrow> auth_ok env \<sigma> \<Longrightarrow> auth_ok env \<tau>"
  using auth.reaches_inv [OF _ auth_inv_start, of env \<sigma> log "(\<tau>, log')"] by (simp add: auth_inv_def)

lemma auth_reaches_le:
  "auth_reaches env (\<sigma>, log) (\<tau>, log') \<Longrightarrow> auth_ok env \<sigma> \<Longrightarrow> auth_le env (\<lambda>_ _. True) \<sigma> \<tau>"
  using auth.reaches_le [OF _ auth_inv_start, of env \<sigma> log "(\<tau>, log')"] by (simp add: auth_forward_def)

section \<open>Dead tokens\<close>

text \<open>
  A digest is dead when it will not be drawn again and its session, if it is still there, is rotated or
  revoked; dead for refresh when the session its entry points to is.
\<close>

definition dead :: "auth_env \<Rightarrow> string \<Rightarrow> auth_state \<Rightarrow> bool" where
  "dead env k \<sigma> \<longleftrightarrow> k \<notin> token_supply env (snd \<sigma>) \<and>
     (\<forall>x. om_get (sessions_by_access_token (fst \<sigma>)) k = Some x \<longrightarrow> ss_rotated_at x \<noteq> None \<or> ss_revoked_at x \<noteq> None)"

definition revoked :: "auth_env \<Rightarrow> string \<Rightarrow> auth_state \<Rightarrow> bool" where
  "revoked env k \<sigma> \<longleftrightarrow> k \<notin> token_supply env (snd \<sigma>) \<and>
     (\<forall>x. om_get (sessions_by_access_token (fst \<sigma>)) k = Some x \<longrightarrow> ss_revoked_at x \<noteq> None)"

definition refresh_dead :: "auth_env \<Rightarrow> string \<Rightarrow> auth_state \<Rightarrow> bool" where
  "refresh_dead env h \<sigma> \<longleftrightarrow> h \<notin> token_supply env (snd \<sigma>) \<and>
     (\<forall>k. om_get (access_tokens_by_refresh_token (fst \<sigma>)) h = Some k \<longrightarrow> dead env k \<sigma>)"

lemma auth_le_old_session:
  assumes "auth_le env G \<sigma> \<tau>" "k \<notin> token_supply env (snd \<sigma>)"
    and "om_get (sessions_by_access_token (fst \<tau>)) k = Some y"
  obtains x where "om_get (sessions_by_access_token (fst \<sigma>)) k = Some x" "same_session x y"
  using assms unfolding auth_le_def by blast

lemma auth_le_supply: "auth_le env G \<sigma> \<tau> \<Longrightarrow> k \<notin> token_supply env (snd \<sigma>) \<Longrightarrow> k \<notin> token_supply env (snd \<tau>)"
  by (auto simp: auth_le_def)

lemma dead_le: "auth_le env G \<sigma> \<tau> \<Longrightarrow> dead env k \<sigma> \<Longrightarrow> dead env k \<tau>"
  unfolding dead_def by (meson auth_le_old_session auth_le_supply same_session_flags)

lemma revoked_le: "auth_le env G \<sigma> \<tau> \<Longrightarrow> revoked env k \<sigma> \<Longrightarrow> revoked env k \<tau>"
  unfolding revoked_def by (meson auth_le_old_session auth_le_supply same_session_flags)

lemma revoked_dead: "revoked env k \<sigma> \<Longrightarrow> dead env k \<sigma>"
  by (auto simp: revoked_def dead_def)

lemma refresh_dead_le: "auth_le env G \<sigma> \<tau> \<Longrightarrow> refresh_dead env h \<sigma> \<Longrightarrow> refresh_dead env h \<tau>"
  unfolding refresh_dead_def by (meson auth_le_def auth_le_supply dead_le)

section \<open>What the use of a token needs\<close>

lemma authenticate_Ok:
  assumes "authenticate_access_token env t (s, w) = (Ok a, \<tau>)"
  obtains x u where "om_get (sessions_by_access_token s) (token_digest env (normalize_bearer_token t)) = Some x"
    "ss_kind x \<in> {Tauri, Web}" "ss_rotated_at x = None" "ss_revoked_at x = None"
    "fst (auth_now w) < ss_access_expires_at x"
    "om_get (users_by_id s) (ss_user x) = Some u" "su_account_kind u = Business"
    "a = \<lparr>an_user = auth_user_dto_of u, an_installation = ss_installation x\<rparr>"
  using assms unfolding authenticate_access_token_def
  by (auto simp: Let_def split_beta inversion not_le split: if_splits)

lemma authenticate_admin_Ok:
  assumes "authenticate_admin_access_token env t (s, w) = (Ok a, \<tau>)"
  obtains x u org where "om_get (sessions_by_access_token s) (token_digest env (normalize_bearer_token t)) = Some x"
    "ss_kind x = AdminKind" "ss_revoked_at x = None" "fst (auth_now w) < ss_access_expires_at x"
    "om_get (users_by_id s) (ss_user x) = Some u" "su_account_kind u = OrganizationAdmin"
    "su_organization u = Some org" "a = \<lparr>aa_user = auth_user_dto_of u, aa_organization = org\<rparr>"
  using assms unfolding authenticate_admin_access_token_def
  by (auto simp: Let_def split_beta inversion not_le split: if_splits)

lemma refresh_Ok:
  assumes "refresh_for_client env i kind (s, w) = (Ok z, \<tau>)"
  obtains inst k x t where "normalize_installation_id (fi_installation i) = Ok inst"
    "om_get (access_tokens_by_refresh_token s) (token_digest env (trim (fi_refresh_token i))) = Some k"
    "om_get (sessions_by_access_token s) k = Some x" "ss_kind x = kind"
    "ss_rotated_at x = None" "ss_revoked_at x = None" "ss_refresh_expires_at x = Some t"
    "fst (auth_now w) < t" "ss_installation x = inst"
    "issue_session env (ss_user x) inst (ss_family x) kind
       (s\<lparr>sessions_by_access_token := om_modify k (\<lambda>x. x\<lparr>ss_rotated_at := Some (fst (auth_now (snd (auth_now w))))\<rparr>)
          (sessions_by_access_token s)\<rparr>, snd (auth_now (snd (auth_now w)))) = (Ok z, \<tau>)"
  using assms unfolding refresh_for_client_def
  by (auto simp: Let_def split_beta inversion not_le split: if_splits option.splits)

lemma dead_no_authentication:
  "dead env (token_digest env (normalize_bearer_token t)) \<sigma> \<Longrightarrow>
    \<not> is_ok (fst (authenticate_access_token env t \<sigma>))"
proof
  obtain s w where \<sigma>: "\<sigma> = (s, w)" by fastforce
  assume dead: "dead env (token_digest env (normalize_bearer_token t)) \<sigma>"
    and "is_ok (fst (authenticate_access_token env t \<sigma>))"
  then obtain a \<tau> where "authenticate_access_token env t (s, w) = (Ok a, \<tau>)"
    unfolding \<sigma> is_ok_iff by (metis prod.collapse)
  then show False
    by (rule authenticate_Ok) (use dead in \<open>auto simp: dead_def \<sigma>\<close>)
qed

end
