(* ===== verification/AuthProperties.thy ===== *)
theory AuthProperties
  imports AuthMachine
begin

text \<open>
  What the accounts and sessions of the server promise: who can authenticate, with what, and until when.
\<close>

section \<open>A concrete service\<close>

text \<open>
  Used to show that the hypotheses of the theorems can hold: a digest and a hash that only mark their
  argument, tokens of growing length, and the service after one registration.
\<close>

definition demo_auth_env :: auth_env where
  "demo_auth_env = \<lparr>ae_env = demo_env, sha256_hex = (\<lambda>s. CHR ''h'' # s),
     argon2_hash = (\<lambda>p _. Some (CHR ''$'' # p)), argon2_verify = (\<lambda>p h. h = CHR ''$'' # p)\<rparr>"

definition demo_auth_world :: auth_world where
  "demo_auth_world = \<lparr>aw_world = demo_world, aw_tokens = (\<lambda>n. replicate (Suc n) (CHR ''T'')), aw_salts = (\<lambda>_. ''S'')\<rparr>"

definition demo_register :: register_input where
  "demo_register = \<lparr>ri_user = Some 7, ri_display_name = ''U'', ri_email = Some ''U'', ri_phone = None,
     ri_password = ''ABCDEFGHIJKL'', ri_installation = ''I''\<rparr>"

definition demo_auth :: auth_state where
  "demo_auth = snd (register demo_auth_env demo_register (auth_default, demo_auth_world))"

definition demo_user :: stored_user where
  "demo_user = \<lparr>su_id = 7, su_display_name = ''U'', su_email = Some ''u'', su_phone = None,
     su_password_hash = ''$ABCDEFGHIJKL'', su_account_kind = Business, su_organization = None,
     su_created_at = 0, su_updated_at = 0\<rparr>"

definition demo_session :: stored_session where
  "demo_session = \<lparr>ss_id = 1001, ss_family = 1000, ss_user = 7, ss_installation = ''I'', ss_access_token = ''hT'',
     ss_refresh_token = ''hTT'', ss_kind = Tauri, ss_created_at = 1, ss_access_expires_at = 1 + app_access_token_ttl,
     ss_refresh_expires_at = Some (1 + app_refresh_token_ttl), ss_rotated_at = None, ss_revoked_at = None\<rparr>"

lemma trim_T [simp]: "trim (CHR ''T'' # replicate n (CHR ''T'')) = CHR ''T'' # replicate n (CHR ''T'')"
  by (rule trim_upper) (auto simp: is_ascii_uppercase_def)

lemma demo_supply: "supply_ok demo_auth_env (auth_default, demo_auth_world)"
  by (auto simp: supply_ok_def token_supply_def demo_auth_env_def demo_auth_world_def auth_default_def
    token_digest_def inj_def)

lemma auth_ok_default: "supply_ok env (auth_default, w) \<Longrightarrow> auth_ok env (auth_default, w)"
  by (simp add: auth_ok_def accounts_ok_def sessions_ok_def refresh_index_ok_def index_exact_def auth_default_def)

lemma trim_demo:
  "trim ''U'' = ''U''" "trim ''I'' = ''I''" "trim ''ABCDEFGHIJKL'' = ''ABCDEFGHIJKL''" "trim ''T'' = ''T''"
  "trim ''TT'' = ''TT''" "trim ''TTT'' = ''TTT''" "trim ''TTTT'' = ''TTTT''"
  by (rule trim_upper; simp add: is_ascii_uppercase_def)+

lemma char_u: "(char_of (117::nat) :: char) = CHR ''u''"
  by code_simp

lemmas demo_auth_defs = char_u demo_auth_env_def demo_auth_world_def demo_env_def demo_world_def auth_default_def
  auth_new_v4_def auth_now_def random_token_def hash_password_def new_v4_def now_utc_def token_digest_def
  auth_display_name_def auth_optional_email_def auth_optional_phone_def validate_new_password_def
  min_password_length_def max_password_length_def normalize_installation_id_def require_login_identifier_def
  to_ascii_lowercase_def is_ascii_uppercase_def chars_count_def continuation_def trim_demo

lemma demo_register_result:
  "register demo_auth_env demo_register (auth_default, demo_auth_world) =
    (Ok \<lparr>sn_user = auth_user_dto_of demo_user, sn_access_token = ''T'', sn_refresh_token = ''TT'', sn_installation = ''I''\<rparr>,
     \<lparr>users_by_id = om_insert 7 demo_user om_empty, user_ids_by_email = om_insert ''u'' 7 om_empty,
       user_ids_by_phone = om_empty, installations_by_id = om_insert ''I'' 7 om_empty,
       sessions_by_access_token = om_insert ''hT'' demo_session om_empty,
       access_tokens_by_refresh_token = om_insert ''hTT'' ''hT'' om_empty\<rparr>,
     snd demo_auth)"
  unfolding demo_auth_def
  by (simp add: register_def demo_register_def Let_def split_beta bind_installation_def store_user_def
    index_insert_def issue_session_def prune_expired_sessions_def demo_user_def demo_session_def demo_auth_defs)

lemma demo_auth_fst:
  "fst demo_auth = \<lparr>users_by_id = om_insert 7 demo_user om_empty, user_ids_by_email = om_insert ''u'' 7 om_empty,
       user_ids_by_phone = om_empty, installations_by_id = om_insert ''I'' 7 om_empty,
       sessions_by_access_token = om_insert ''hT'' demo_session om_empty,
       access_tokens_by_refresh_token = om_insert ''hTT'' ''hT'' om_empty\<rparr>"
  by (subst demo_auth_def, subst demo_register_result) simp

lemma demo_clock: "fst (auth_now (snd demo_auth)) = 2" "fst (auth_now (snd (auth_now (snd demo_auth)))) = 3"
  "aw_tokens (snd demo_auth) n = replicate (Suc (Suc (Suc n))) (CHR ''T'')"
  unfolding demo_auth_def
  by (simp_all add: register_def demo_register_def Let_def split_beta bind_installation_def store_user_def
    index_insert_def issue_session_def prune_expired_sessions_def demo_auth_defs)

lemma demo_legal: "auth_legal ((auth_default, demo_auth_world), []) (DoRegister demo_register)"
  by (simp add: auth_legal_def new_account_id_def demo_register_def auth_default_def)

abbreviation demo_grant :: session where
  "demo_grant \<equiv> \<lparr>sn_user = auth_user_dto_of demo_user, sn_access_token = ''T'', sn_refresh_token = ''TT'',
     sn_installation = ''I''\<rparr>"

lemma demo_reaches:
  "auth_reaches demo_auth_env ((auth_default, demo_auth_world), [])
     (demo_auth, [(DoRegister demo_register, OutSession (Ok demo_grant))])"
proof -
  have "auth_step demo_auth_env ((auth_default, demo_auth_world), []) (DoRegister demo_register) =
      (demo_auth, [(DoRegister demo_register, OutSession (Ok demo_grant))])"
    by (simp add: auth_step_def demo_auth_def) (subst demo_register_result, simp)
  then show ?thesis
    using reaches_step [where step = "auth_step demo_auth_env", where legal = auth_legal, OF reaches_refl demo_legal] by metis
qed

lemma demo_auth_ok: "auth_ok demo_auth_env demo_auth"
  using reaches_ok [OF demo_reaches] auth_ok_default [OF demo_supply] by simp

lemma demo_authenticate:
  "fst (authenticate_access_token demo_auth_env ''T'' demo_auth) =
     Ok \<lparr>an_user = auth_user_dto_of demo_user, an_installation = ''I''\<rparr>"
  using demo_clock(1)
  by (simp add: authenticate_access_token_def Let_def split_beta demo_auth_fst demo_session_def demo_user_def
    normalize_bearer_token_def strip_prefix_def app_access_token_ttl_def seconds_def token_digest_def
    demo_auth_env_def trim_demo)

section \<open>Where an authenticated user comes from\<close>

text \<open>Every entry of the log is the answer given in a state reached before it.\<close>

lemma log_answered:
  assumes "auth_reaches env \<sigma>0 \<sigma>" "(c, out) \<in> set (snd \<sigma>)" "snd \<sigma>0 = []"
  shows "\<exists>\<rho>. auth_reaches env \<sigma>0 \<rho> \<and> auth_legal \<rho> c \<and> out = fst (auth_exec env c (fst \<rho>))"
  using assms
proof (induction rule: reaches.induct)
  case (reaches_step \<tau> d)
  show ?case
  proof (cases "(c, out) \<in> set (snd \<tau>)")
    case True
    with reaches_step show ?thesis by blast
  next
    case False
    then have "c = d" "out = fst (auth_exec env d (fst \<tau>))"
      using reaches_step(4) by (auto simp: auth_step_def)
    with reaches_step(1,2) show ?thesis by blast
  qed
qed simp

text \<open>
  C25: Whoever authenticates as a user of the business app presents a token that the service itself gave out,
  in the answer to a registration, a login or a refresh, to that very user and installation. The session is
  neither rotated nor revoked, its 15 minutes are not over, and the account is a business account now.
\<close>

theorem authentication_sound:
  assumes "supply_ok env (auth_default, w)"
    and "auth_reaches env ((auth_default, w), []) (\<sigma>, log)"
    and "authenticate_access_token env t \<sigma> = (Ok a, \<tau>)"
  shows "\<exists>z x u c \<rho> log'.
    token_digest env (sn_access_token z) = token_digest env (normalize_bearer_token t)
    \<and> au_id (sn_user z) = au_id (an_user a) \<and> sn_installation z = an_installation a
    \<and> auth_reaches env ((auth_default, w), []) (\<rho>, log') \<and> fst (auth_exec env c \<rho>) = OutSession (Ok z)
    \<and> (c, OutSession (Ok z)) \<in> set log
    \<and> om_get (sessions_by_access_token (fst \<sigma>)) (token_digest env (normalize_bearer_token t)) = Some x
    \<and> ss_rotated_at x = None \<and> ss_revoked_at x = None
    \<and> fst (auth_now (snd \<sigma>)) < ss_created_at x + app_access_token_ttl
    \<and> om_get (users_by_id (fst \<sigma>)) (au_id (an_user a)) = Some u \<and> su_account_kind u = Business
    \<and> an_user a = auth_user_dto_of u"
proof -
  let ?k = "token_digest env (normalize_bearer_token t)"
  obtain s v where \<sigma>: "\<sigma> = (s, v)" by fastforce
  note ok0 = auth_ok_default [OF assms(1)]
  have inv: "auth_inv env (auth_default, w) (\<sigma>, log)"
    using auth.reaches_inv [OF assms(2) auth_inv_start [OF ok0]] .
  from assms(3) [unfolded \<sigma>] obtain x u where
    x: "om_get (sessions_by_access_token s) ?k = Some x" "ss_kind x \<in> {Tauri, Web}"
      "ss_rotated_at x = None" "ss_revoked_at x = None" "fst (auth_now v) < ss_access_expires_at x"
    and u: "om_get (users_by_id s) (ss_user x) = Some u" "su_account_kind u = Business"
    and a: "a = \<lparr>an_user = auth_user_dto_of u, an_installation = ss_installation x\<rparr>"
    by (rule authenticate_Ok)
  have uid: "su_id u = ss_user x" using user_key [of env s v, OF _ u(1)] inv by (simp add: auth_inv_def \<sigma>)
  have "session_ok s ?k x" using inv x(1) by (simp add: auth_inv_def auth_ok_def sessions_ok_def \<sigma>)
  then have expires: "ss_access_expires_at x = ss_created_at x + app_access_token_ttl"
    using x(2) by (auto simp: session_ok_def)
  obtain c out where log: "(c, out) \<in> set log" and grant: "output_grant env out ?k x"
    using inv x(1) unfolding auth_inv_def sessions_logged_def
    by (simp add: \<sigma> auth_default_def) blast
  from grant x(2) obtain z where z: "out = OutSession (Ok z)" "?k = token_digest env (sn_access_token z)"
      "ss_user x = au_id (sn_user z)" "ss_installation x = sn_installation z"
    by (cases "(env, out)" rule: output_grant.cases) (auto elim!: session_grant.elims admin_grant.elims)
  obtain \<rho> log' where "auth_reaches env ((auth_default, w), []) (\<rho>, log')" "out = fst (auth_exec env c \<rho>)"
    using log_answered [OF assms(2), of c out] log by auto
  with z x u a uid expires log show ?thesis
    by (intro exI [of _ z] exI [of _ x] exI [of _ u] exI [of _ c] exI [of _ \<rho>] exI [of _ log'])
      (auto simp: \<sigma> auth_user_dto_of_def)
qed

theorem authentication_sound_witness:
  "\<exists>z c. token_digest demo_auth_env (sn_access_token z) = token_digest demo_auth_env (normalize_bearer_token ''T'')
    \<and> au_id (sn_user z) = 7 \<and> (c, OutSession (Ok z)) \<in> {(DoRegister demo_register, OutSession (Ok demo_grant))}"
proof -
  obtain \<tau> where "authenticate_access_token demo_auth_env ''T'' demo_auth =
      (Ok \<lparr>an_user = auth_user_dto_of demo_user, an_installation = ''I''\<rparr>, \<tau>)"
    using demo_authenticate by (metis prod.collapse)
  from authentication_sound [OF demo_supply demo_reaches this] show ?thesis
    by (auto simp: auth_user_dto_of_def demo_user_def)
qed

section \<open>Logging in\<close>

lemma prune_frame:
  "users_by_id (fst (prune_expired_sessions \<sigma>)) = users_by_id (fst \<sigma>)"
  "installations_by_id (fst (prune_expired_sessions \<sigma>)) = installations_by_id (fst \<sigma>)"
proof -
  have "users_by_id (fold drop_session ks s) = users_by_id s \<and>
      installations_by_id (fold drop_session ks s) = installations_by_id s" for ks s
    by (induction ks arbitrary: s) (simp_all add: drop_session_def split: option.splits)
  then show "users_by_id (fst (prune_expired_sessions \<sigma>)) = users_by_id (fst \<sigma>)"
    "installations_by_id (fst (prune_expired_sessions \<sigma>)) = installations_by_id (fst \<sigma>)"
    by (simp_all add: prune_expired_sessions_def split_beta)
qed

lemma issue_session_Ok:
  assumes "issue_session env uid inst fam kind \<sigma> = (Ok z, \<tau>)"
  obtains u where "om_get (users_by_id (fst \<sigma>)) uid = Some u" "sn_user z = auth_user_dto_of u" "sn_installation z = inst"
    "users_by_id (fst \<tau>) = users_by_id (fst \<sigma>)" "installations_by_id (fst \<tau>) = installations_by_id (fst \<sigma>)"
    "\<exists>x. om_get (sessions_by_access_token (fst \<tau>)) (token_digest env (sn_access_token z)) = Some x
       \<and> ss_user x = uid \<and> ss_installation x = inst \<and> ss_kind x = kind \<and> ss_family x = fam
       \<and> ss_refresh_token x = token_digest env (sn_refresh_token z) \<and> ss_rotated_at x = None \<and> ss_revoked_at x = None
       \<and> ss_access_expires_at x = ss_created_at x + app_access_token_ttl"
    "om_get (access_tokens_by_refresh_token (fst \<tau>)) (token_digest env (sn_refresh_token z))
       = Some (token_digest env (sn_access_token z))"
  using assms that
  by (auto simp: issue_session_def Let_def split_beta inversion prune_frame attempt_ok_or split: option.splits)

text \<open>
  A login gives out a session only for an account found by the email or the phone, with the password
  that the stored hash verifies, of kind business, and on an installation that is not another account's;
  the installation is bound to the account from then on, and the new session carries the account, the
  installation and the kind of client that was asked for.
\<close>

theorem login_needs_password:
  assumes "login_for_client env i kind \<sigma> = (Ok z, \<tau>)"
  shows "\<exists>uid u inst x. find_user_id (fst \<sigma>) (Option.bind (li_email i) (auth_optional_email env))
      (Option.bind (li_phone i) auth_optional_phone) = Some uid
    \<and> om_get (users_by_id (fst \<sigma>)) uid = Some u \<and> su_account_kind u = Business
    \<and> argon2_verify env (li_password i) (su_password_hash u)
    \<and> normalize_installation_id (li_installation i) = Ok inst
    \<and> om_get (installations_by_id (fst \<sigma>)) inst \<in> {None, Some uid}
    \<and> om_get (installations_by_id (fst \<tau>)) inst = Some uid
    \<and> sn_user z = auth_user_dto_of u \<and> sn_installation z = inst
    \<and> om_get (sessions_by_access_token (fst \<tau>)) (token_digest env (sn_access_token z)) = Some x
    \<and> ss_user x = uid \<and> ss_installation x = inst \<and> ss_kind x = kind"
proof -
  obtain s w where \<sigma>: "\<sigma> = (s, w)" by fastforce
  from assms obtain uid u inst where u: "find_user_id s (Option.bind (li_email i) (auth_optional_email env))
      (Option.bind (li_phone i) auth_optional_phone) = Some uid"
      "om_get (users_by_id s) uid = Some u" "su_account_kind u = Business"
      "argon2_verify env (li_password i) (su_password_hash u)"
      "normalize_installation_id (li_installation i) = Ok inst"
    and b: "fst (bind_installation inst uid s) = Ok ()"
    and z: "issue_session env uid inst (fst (auth_new_v4 w)) kind
      (snd (bind_installation inst uid s), snd (auth_new_v4 w)) = (Ok z, \<tau>)"
    unfolding \<sigma> login_for_client_def Let_def split_beta fst_conv snd_conv
    by (auto simp: inversion verify_password_def split: option.splits if_splits)
  have "om_get (installations_by_id s) inst \<in> {None, Some uid}"
    "om_get (installations_by_id (snd (bind_installation inst uid s))) inst = Some uid"
    using b by (auto simp: bind_installation_def split: option.splits if_splits)
  moreover obtain u' x where "om_get (users_by_id s) uid = Some u'" "sn_user z = auth_user_dto_of u'"
      "sn_installation z = inst" "installations_by_id (fst \<tau>) = installations_by_id (snd (bind_installation inst uid s))"
      "om_get (sessions_by_access_token (fst \<tau>)) (token_digest env (sn_access_token z)) = Some x"
      "ss_user x = uid" "ss_installation x = inst" "ss_kind x = kind"
    using issue_session_Ok [OF z] by (metis bind_installation_frame(1) fst_conv)
  ultimately show ?thesis
    using u by (intro exI [of _ uid] exI [of _ u] exI [of _ inst] exI [of _ x]) (simp add: \<sigma>)
qed

definition demo_login :: login_input where
  "demo_login = \<lparr>li_email = Some ''U'', li_phone = None, li_password = ''ABCDEFGHIJKL'', li_installation = ''I''\<rparr>"

lemma demo_login_Ok: "is_ok (fst (login_for_client demo_auth_env demo_login Tauri demo_auth))"
proof -
  obtain s w where d: "demo_auth = (s, w)" by fastforce
  note s = demo_auth_fst [unfolded d fst_conv]
  have "om_get (users_by_id (fst (prune_expired_sessions (s, v)))) 7 = Some demo_user" for v
    by (simp add: prune_frame s)
  then show ?thesis
    by (simp add: login_for_client_def demo_login_def d s Let_def split_beta find_user_id_def
      bind_installation_def issue_session_def demo_user_def verify_password_def demo_auth_env_def demo_env_def
      auth_optional_email_def require_login_identifier_def normalize_installation_id_def
      to_ascii_lowercase_def is_ascii_uppercase_def trim_demo char_u)
qed

theorem login_needs_password_witness:
  "\<exists>uid. find_user_id (fst demo_auth) (Some ''u'') None = Some uid \<and>
     om_get (installations_by_id (fst demo_auth)) ''I'' \<in> {None, Some uid}"
proof -
  obtain z \<tau> where "login_for_client demo_auth_env demo_login Tauri demo_auth = (Ok z, \<tau>)"
    using demo_login_Ok unfolding is_ok_iff by (metis prod.collapse)
  from login_needs_password [OF this] show ?thesis
    by (auto simp: demo_login_def demo_auth_env_def demo_env_def auth_optional_email_def to_ascii_lowercase_def
      is_ascii_uppercase_def trim_demo char_u normalize_installation_id_def)
qed

end
