(* ===== verification/SessionProperties.thy ===== *)
theory SessionProperties
  imports AuthProperties
begin

text \<open>
  The end of sessions: refresh tokens are used once, a replay takes the whole family down, logging out and
  changing credentials end sessions for good, whatever is done afterwards; and a session that was not ended
  works until it expires.
\<close>

section \<open>Tokens in use\<close>

lemma in_use_not_supply:
  assumes "auth_ok env \<sigma>"
  shows "om_get (sessions_by_access_token (fst \<sigma>)) k = Some x \<Longrightarrow> k \<notin> token_supply env (snd \<sigma>)"
    and "om_get (access_tokens_by_refresh_token (fst \<sigma>)) h = Some k \<Longrightarrow> h \<notin> token_supply env (snd \<sigma>)"
  using assms by (auto simp: auth_ok_def supply_ok_def)

lemma indexed_session:
  assumes "auth_ok env \<sigma>" "om_get (access_tokens_by_refresh_token (fst \<sigma>)) h = Some k"
  obtains x where "om_get (sessions_by_access_token (fst \<sigma>)) k = Some x" "ss_refresh_token x = h"
  using assms unfolding auth_ok_def refresh_index_ok_def by blast

lemma dead_never_authenticates:
  assumes "dead env (token_digest env (normalize_bearer_token t)) \<sigma>" "auth_ok env \<sigma>"
    and "auth_reaches env (\<sigma>, log) (\<tau>, log')"
  shows "\<not> is_ok (fst (authenticate_access_token env t \<tau>))"
  using dead_no_authentication [OF dead_le [OF auth_reaches_le [OF assms(3,2)] assms(1)]] .

lemma refresh_dead_no_refresh:
  assumes "refresh_dead env (token_digest env (trim (fi_refresh_token i))) \<sigma>"
  shows "\<not> is_ok (fst (refresh_for_client env i kind \<sigma>))"
proof
  obtain s w where \<sigma>: "\<sigma> = (s, w)" by fastforce
  assume "is_ok (fst (refresh_for_client env i kind \<sigma>))"
  then obtain z \<tau> where "refresh_for_client env i kind (s, w) = (Ok z, \<tau>)"
    unfolding \<sigma> is_ok_iff by (metis prod.collapse)
  then show False
    by (rule refresh_Ok) (use assms in \<open>auto simp: refresh_dead_def dead_def \<sigma>\<close>)
qed

lemma refresh_dead_never:
  assumes "refresh_dead env (token_digest env (trim (fi_refresh_token i))) \<sigma>" "auth_ok env \<sigma>"
    and "auth_reaches env (\<sigma>, log) (\<tau>, log')"
  shows "\<not> is_ok (fst (refresh_for_client env i kind \<tau>))"
  using refresh_dead_no_refresh [OF refresh_dead_le [OF auth_reaches_le [OF assms(3,2)] assms(1)]] .

section \<open>Refreshing\<close>

text \<open>
  C26: A refresh token works once: after a successful refresh neither that refresh token, in whatever spelling
  and from whatever client, nor the access token of the session it belonged to is accepted again, whatever
  commands the service executes in between.
\<close>

theorem refresh_single_use:
  assumes ok: "auth_ok env \<sigma>" and kind: "kind \<in> {Tauri, Web}"
    and used: "refresh_for_client env i kind \<sigma> = (Ok z, \<sigma>')"
    and later: "auth_reaches env (\<sigma>', log) (\<tau>, log')"
    and same: "token_digest env (trim (fi_refresh_token j)) = token_digest env (trim (fi_refresh_token i))"
    and old: "om_get (access_tokens_by_refresh_token (fst \<sigma>)) (token_digest env (trim (fi_refresh_token i)))
      = Some (token_digest env (normalize_bearer_token t))"
  shows "\<not> is_ok (fst (refresh_for_client env j kind' \<tau>)) \<and> \<not> is_ok (fst (authenticate_access_token env t \<tau>))"
proof -
  let ?h = "token_digest env (trim (fi_refresh_token i))"
  let ?k = "token_digest env (normalize_bearer_token t)"
  obtain s w where \<sigma>: "\<sigma> = (s, w)" by fastforce
  let ?now = "auth_now (snd (auth_now w))"
  let ?s = "s\<lparr>sessions_by_access_token :=
      om_modify ?k (\<lambda>x. x\<lparr>ss_rotated_at := Some (fst ?now)\<rparr>) (sessions_by_access_token s)\<rparr>"
  obtain inst and x :: stored_session where
    issue: "issue_session env (ss_user x) inst (ss_family x) kind (?s, snd ?now) = (Ok z, \<sigma>')"
  proof (rule refresh_Ok [OF used [unfolded \<sigma>]])
    fix inst k and x :: stored_session
    assume "om_get (access_tokens_by_refresh_token s) ?h = Some k"
      "issue_session env (ss_user x) inst (ss_family x) kind
       (s\<lparr>sessions_by_access_token := om_modify k (\<lambda>x. x\<lparr>ss_rotated_at := Some (fst ?now)\<rparr>)
          (sessions_by_access_token s)\<rparr>, snd ?now) = (Ok z, \<sigma>')"
    with old show thesis by (intro that) (simp add: \<sigma>)
  qed
  have move: "auth_move env nothing_new \<sigma> (?s, snd ?now)"
    unfolding \<sigma> by (rule move_rotate) simp
  have ok': "auth_ok env (?s, snd ?now)" using move ok by (simp add: auth_move_def)
  have "?k \<notin> token_supply env w" "?h \<notin> token_supply env w"
    using in_use_not_supply(2) [OF ok old] indexed_session [OF ok old] in_use_not_supply(1) [OF ok]
    by (auto simp: \<sigma>)
  then have "?k \<notin> token_supply env (snd ?now)" "?h \<notin> token_supply env (snd ?now)"
    by (simp_all add: token_supply_def)
  then have dead: "dead env ?k (?s, snd ?now)" and rdead: "refresh_dead env ?h (?s, snd ?now)"
    using old by (auto simp: dead_def refresh_dead_def \<sigma>)
  have "yields env (session_grant env) (?s, snd ?now) (Ok z, \<sigma>')"
    using move_issue_session [OF kind] issue by metis
  then have le: "auth_le env (session_grant env (Ok z)) (?s, snd ?now) \<sigma>'" and ok'': "auth_ok env \<sigma>'"
    using ok' by (simp_all add: auth_move_def)
  show ?thesis
    using refresh_dead_never [OF _ ok'' later, of j] dead_never_authenticates [OF _ ok'' later]
      dead_le [OF le dead] refresh_dead_le [OF le rdead] same by simp
qed

definition demo_refresh :: refresh_input where
  "demo_refresh = \<lparr>fi_refresh_token = ''TT'', fi_installation = ''I''\<rparr>"

lemma demo_refresh_Ok: "is_ok (fst (refresh_for_client demo_auth_env demo_refresh Tauri demo_auth))"
proof -
  obtain s w where d: "demo_auth = (s, w)" by fastforce
  note s = demo_auth_fst [unfolded d fst_conv] and c = demo_clock [unfolded d snd_conv]
  have 1: "token_digest demo_auth_env ''TT'' = ''hTT''"
    by (simp add: token_digest_def demo_auth_env_def trim_demo)
  let ?s = "s\<lparr>sessions_by_access_token := om_modify ''hT'' (\<lambda>x. x\<lparr>ss_rotated_at := Some 3\<rparr>) (sessions_by_access_token s)\<rparr>"
  have "is_ok (fst (issue_session demo_auth_env 7 ''I'' 1000 Tauri (?s, v)))" for v
    by (simp add: issue_session_def prune_frame s split_beta Let_def)
  then show ?thesis
    using c
    by (simp add: refresh_for_client_def demo_refresh_def d s Let_def split_beta 1 demo_session_def
      normalize_installation_id_def trim_demo app_refresh_token_ttl_def seconds_def)
qed

theorem refresh_single_use_witness:
  "\<exists>z \<sigma>'. refresh_for_client demo_auth_env demo_refresh Tauri demo_auth = (Ok z, \<sigma>')
    \<and> \<not> is_ok (fst (refresh_for_client demo_auth_env demo_refresh Tauri \<sigma>'))"
proof -
  obtain z \<sigma>' where r: "refresh_for_client demo_auth_env demo_refresh Tauri demo_auth = (Ok z, \<sigma>')"
    using demo_refresh_Ok unfolding is_ok_iff by (metis prod.collapse)
  have "om_get (access_tokens_by_refresh_token (fst demo_auth)) (token_digest demo_auth_env (trim (fi_refresh_token demo_refresh)))
      = Some (token_digest demo_auth_env (normalize_bearer_token ''T''))"
    by (simp add: demo_auth_fst demo_refresh_def token_digest_def demo_auth_env_def trim_demo
      normalize_bearer_token_def strip_prefix_def)
  from refresh_single_use [OF demo_auth_ok _ r reaches_refl refl this] r show ?thesis by auto
qed

section \<open>Revocation is for ever\<close>

text \<open>A revoked session is of no use any more, in any later state and by any of its tokens.\<close>

lemma revoked_session_forever:
  assumes ok: "auth_ok env \<sigma>" and y: "om_get (sessions_by_access_token (fst \<sigma>)) k = Some y" "ss_revoked_at y \<noteq> None"
    and later: "auth_reaches env (\<sigma>, log) (\<tau>, log')"
  shows "token_digest env (normalize_bearer_token t) = k \<Longrightarrow> \<not> is_ok (fst (authenticate_access_token env t \<tau>))"
    and "token_digest env (normalize_bearer_token t) = k \<Longrightarrow> \<not> is_ok (fst (authenticate_admin_access_token env t \<tau>))"
    and "token_digest env (trim (fi_refresh_token j)) = ss_refresh_token y \<Longrightarrow>
      \<not> is_ok (fst (refresh_for_client env j kind \<tau>))"
proof -
  have rev: "revoked env k \<sigma>"
    using in_use_not_supply(1) [OF ok y(1)] y by (auto simp: revoked_def)
  show "\<not> is_ok (fst (authenticate_access_token env t \<tau>))" if "token_digest env (normalize_bearer_token t) = k"
    using dead_never_authenticates [OF _ ok later] revoked_dead [OF rev] that by simp
  show "\<not> is_ok (fst (authenticate_admin_access_token env t \<tau>))" if "token_digest env (normalize_bearer_token t) = k"
  proof
    obtain s w where \<tau>: "\<tau> = (s, w)" by fastforce
    assume "is_ok (fst (authenticate_admin_access_token env t \<tau>))"
    then obtain a \<upsilon> where "authenticate_admin_access_token env t (s, w) = (Ok a, \<upsilon>)"
      unfolding \<tau> is_ok_iff by (metis prod.collapse)
    then show False
      by (rule authenticate_admin_Ok)
        (use revoked_le [OF auth_reaches_le [OF later ok] rev] that in \<open>auto simp: revoked_def \<tau>\<close>)
  qed
  have "session_ok (fst \<sigma>) k y" using ok y(1) by (simp add: auth_ok_def sessions_ok_def)
  then have "om_get (access_tokens_by_refresh_token (fst \<sigma>)) (ss_refresh_token y) = Some k \<or> ss_refresh_token y = []"
    by (auto simp: session_ok_def split: if_splits)
  moreover have "om_get (access_tokens_by_refresh_token (fst \<sigma>)) [] = None"
    using ok unfolding auth_ok_def refresh_index_ok_def by (metis not_None_eq)
  moreover have "[] \<notin> token_supply env (snd \<sigma>)"
    using ok unfolding auth_ok_def supply_ok_def by blast
  ultimately have "refresh_dead env (ss_refresh_token y) \<sigma>"
    using in_use_not_supply(2) [OF ok] revoked_dead [OF rev] by (auto simp: refresh_dead_def)
  then show "\<not> is_ok (fst (refresh_for_client env j kind \<tau>))"
    if "token_digest env (trim (fi_refresh_token j)) = ss_refresh_token y"
    using refresh_dead_never [OF _ ok later] that by simp
qed

lemma get_revoke_where:
  "om_get (sessions_by_access_token (revoke_where p t s)) k =
     map_option (\<lambda>x. if p x then x\<lparr>ss_revoked_at := Some t\<rparr> else x) (om_get (sessions_by_access_token s) k)"
  by (simp add: revoke_where_def)

text \<open>
  Presenting a refresh token whose session is already rotated or revoked is answered as a replay and
  revokes its whole family: no access token and no refresh token of any session of the family is accepted
  afterwards, whatever the service executes.
\<close>

theorem replay_revokes_family:
  assumes ok: "auth_ok env \<sigma>" and inst: "normalize_installation_id (fi_installation i) = Ok inst"
    and k: "om_get (access_tokens_by_refresh_token (fst \<sigma>)) (token_digest env (trim (fi_refresh_token i))) = Some k"
    and x: "om_get (sessions_by_access_token (fst \<sigma>)) k = Some x" "ss_kind x = kind"
    and used: "ss_rotated_at x \<noteq> None \<or> ss_revoked_at x \<noteq> None"
    and result: "refresh_for_client env i kind \<sigma> = (r, \<sigma>')"
    and y: "om_get (sessions_by_access_token (fst \<sigma>)) (token_digest env (normalize_bearer_token t)) = Some y"
      "ss_family y = ss_family x" "token_digest env (trim (fi_refresh_token j)) = ss_refresh_token y"
    and later: "auth_reaches env (\<sigma>', log) (\<tau>, log')"
  shows "r = Err RefreshReplayDetected \<and> \<not> is_ok (fst (authenticate_access_token env t \<tau>))
    \<and> \<not> is_ok (fst (refresh_for_client env j kind' \<tau>))"
proof -
  obtain s w where \<sigma>: "\<sigma> = (s, w)" by fastforce
  have r: "r = Err RefreshReplayDetected" and \<sigma>': "\<sigma>' = revoke_family (ss_family x) \<sigma>"
    using result inst k x used by (simp_all add: refresh_for_client_def \<sigma> Let_def)
  have ok': "auth_ok env \<sigma>'"
    using move_revoke_family [of env nothing_new \<sigma>] ok by (simp add: auth_move_def \<sigma>')
  have "om_get (sessions_by_access_token (fst \<sigma>')) (token_digest env (normalize_bearer_token t))
      = Some (y\<lparr>ss_revoked_at := Some (fst (auth_now w))\<rparr>)"
    using y by (simp add: \<sigma>' \<sigma> revoke_family_def Let_def split_beta get_revoke_where)
  from revoked_session_forever(1,3) [OF ok' this _ later] y(3) r show ?thesis by simp
qed

theorem replay_revokes_family_witness:
  "\<exists>r \<sigma>'. refresh_for_client demo_auth_env demo_refresh Tauri (revoke_family 1000 demo_auth) = (r, \<sigma>')
    \<and> r = Err RefreshReplayDetected \<and> \<not> is_ok (fst (authenticate_access_token demo_auth_env ''T'' \<sigma>'))"
proof -
  let ?\<sigma> = "revoke_family 1000 demo_auth"
  obtain r \<sigma>' where r: "refresh_for_client demo_auth_env demo_refresh Tauri ?\<sigma> = (r, \<sigma>')" by (meson surj_pair)
  have ok: "auth_ok demo_auth_env ?\<sigma>"
    using move_revoke_family [of demo_auth_env nothing_new demo_auth] demo_auth_ok by (simp add: auth_move_def)
  obtain s w where d: "demo_auth = (s, w)" by fastforce
  note s = demo_auth_fst [unfolded d fst_conv]
  have dig: "token_digest demo_auth_env (trim (fi_refresh_token demo_refresh)) = ''hTT''"
    "token_digest demo_auth_env (normalize_bearer_token ''T'') = ''hT''"
    by (simp_all add: demo_refresh_def token_digest_def demo_auth_env_def trim_demo normalize_bearer_token_def strip_prefix_def)
  have x: "om_get (sessions_by_access_token (fst ?\<sigma>)) ''hT'' =
      Some (demo_session\<lparr>ss_revoked_at := Some (fst (auth_now w))\<rparr>)"
    by (simp add: d revoke_family_def Let_def split_beta get_revoke_where s demo_session_def)
  have k: "om_get (access_tokens_by_refresh_token (fst ?\<sigma>)) ''hTT'' = Some ''hT''"
    by (simp add: d revoke_family_def Let_def split_beta revoke_where_def s)
  have "normalize_installation_id (fi_installation demo_refresh) = Ok ''I''"
    by (simp add: demo_refresh_def normalize_installation_id_def trim_demo)
  from replay_revokes_family [OF ok this k [folded dig(1)] x _ _ r x [folded dig(2)] refl _ reaches_refl,
      of demo_refresh] r show ?thesis
    by (simp add: dig demo_session_def)
qed

section \<open>Logging out\<close>

text \<open>
  Logging out ends every session of that account, installation and kind of client, for good and for all
  of their tokens, and frees the installation for another account.
\<close>

theorem logout_ends_sessions:
  assumes ok: "auth_ok env \<sigma>" and out: "logout env t \<sigma> = (Ok (), \<sigma>')"
    and x: "om_get (sessions_by_access_token (fst \<sigma>)) (token_digest env (normalize_bearer_token t)) = Some x"
    and y: "om_get (sessions_by_access_token (fst \<sigma>)) (token_digest env (normalize_bearer_token t')) = Some y"
      "ss_user y = ss_user x" "ss_installation y = ss_installation x" "ss_kind y = ss_kind x"
      "token_digest env (trim (fi_refresh_token j)) = ss_refresh_token y"
    and later: "auth_reaches env (\<sigma>', log) (\<tau>, log')"
  shows "\<not> is_ok (fst (authenticate_access_token env t' \<tau>)) \<and> \<not> is_ok (fst (refresh_for_client env j kind \<tau>))
    \<and> om_get (installations_by_id (fst \<sigma>')) (ss_installation x) = None"
proof -
  obtain s w where \<sigma>: "\<sigma> = (s, w)" by fastforce
  have \<sigma>': "\<sigma>' = revoke_installation_sessions x \<sigma>"
    using out x by (simp add: logout_def Let_def)
  have ok': "auth_ok env \<sigma>'"
    using move_revoke_installation [of env nothing_new \<sigma>] ok by (simp add: auth_move_def \<sigma>')
  have "om_get (sessions_by_access_token (fst \<sigma>')) (token_digest env (normalize_bearer_token t'))
      = Some (y\<lparr>ss_revoked_at := Some (fst (auth_now w))\<rparr>)"
    using y by (simp add: \<sigma>' \<sigma> revoke_installation_sessions_def Let_def split_beta get_revoke_where)
  moreover have "om_get (installations_by_id (fst \<sigma>')) (ss_installation x) = None"
    by (simp add: \<sigma>' \<sigma> revoke_installation_sessions_def Let_def split_beta)
  ultimately show ?thesis
    using revoked_session_forever(1,3) [OF ok' _ _ later] y(5) by simp
qed

theorem logout_ends_sessions_witness:
  "\<not> is_ok (fst (authenticate_access_token demo_auth_env ''T'' (snd (logout demo_auth_env ''T'' demo_auth))))"
proof -
  have dig: "token_digest demo_auth_env (normalize_bearer_token ''T'') = ''hT''"
    by (simp add: token_digest_def demo_auth_env_def trim_demo normalize_bearer_token_def strip_prefix_def)
  have dig2: "token_digest demo_auth_env (trim (fi_refresh_token demo_refresh)) = ''hTT''"
    by (simp add: demo_refresh_def token_digest_def demo_auth_env_def trim_demo)
  have x: "om_get (sessions_by_access_token (fst demo_auth)) (token_digest demo_auth_env (normalize_bearer_token ''T''))
      = Some demo_session"
    by (simp add: demo_auth_fst dig)
  have "logout demo_auth_env ''T'' demo_auth = (Ok (), snd (logout demo_auth_env ''T'' demo_auth))"
    by (simp add: logout_def Let_def x)
  from logout_ends_sessions [OF demo_auth_ok this x x refl refl refl _ reaches_refl, of demo_refresh]
  show ?thesis by (simp add: dig2 demo_session_def)
qed

end
