(* ===== verification/AccountProperties.thy ===== *)
theory AccountProperties
  imports SessionProperties
begin

text \<open>
  Accounts: what a change of credentials ends, what every reachable state satisfies, what a restored
  snapshot contains, and that a session just given out works.
\<close>

section \<open>Changing credentials\<close>

definition locked_out :: "uuid \<Rightarrow> auth_state \<Rightarrow> bool" where
  "locked_out uid \<sigma> \<longleftrightarrow>
     (\<forall>k x. om_get (sessions_by_access_token (fst \<sigma>)) k = Some x \<and> ss_user x = uid \<longrightarrow> ss_revoked_at x \<noteq> None)"

lemma locked_out_revoke: "locked_out uid (revoke_user_sessions uid \<sigma>)"
  unfolding locked_out_def
proof (intro allI impI, elim conjE)
  fix k y
  assume "om_get (sessions_by_access_token (fst (revoke_user_sessions uid \<sigma>))) k = Some y" "ss_user y = uid"
  then have "map_option (\<lambda>x. if ss_user x = uid then x\<lparr>ss_revoked_at := Some (fst (auth_now (snd \<sigma>)))\<rparr> else x)
      (om_get (sessions_by_access_token (fst \<sigma>)) k) = Some y"
    by (simp add: revoke_user_sessions_def Let_def split_beta get_revoke_where)
  then obtain x where "(if ss_user x = uid then x\<lparr>ss_revoked_at := Some (fst (auth_now (snd \<sigma>)))\<rparr> else x) = y"
    unfolding map_option_eq_Some by blast
  with \<open>ss_user y = uid\<close> show "ss_revoked_at y \<noteq> None" by (auto split: if_splits)
qed

lemma outcome_pair: "fst x = a \<Longrightarrow> x = (a, snd x)"
  by (cases x) auto

lemma locked_out_replace:
  assumes "replace_password uid h \<sigma> = (Ok u, \<tau>)"
  shows "locked_out uid \<tau>" and "om_get (users_by_id (fst \<tau>)) uid = Some u"
    and "\<exists>x. om_get (users_by_id (fst \<sigma>)) uid = Some x \<and> su_id u = su_id x"
  using assms
  by (auto simp: replace_password_def Let_def split_beta attempt_ok_or split: option.splits intro: locked_out_revoke)

text \<open>The four ways an account's credentials change.\<close>

definition credentials_changed :: "auth_env \<Rightarrow> uuid \<Rightarrow> auth_state \<Rightarrow> auth_state \<Rightarrow> bool" where
  "credentials_changed env uid \<sigma> \<sigma>' \<longleftrightarrow>
     (\<exists>q r. reset_organization_admin_password env uid q \<sigma> = (Ok r, \<sigma>'))
     \<or> (\<exists>t p q a. change_admin_password env t p q \<sigma> = (Ok a, \<sigma>') \<and> au_id (aa_user a) = uid)
     \<or> (\<exists>i r. create_or_update_admin_user env i \<sigma> = (Ok r, \<sigma>') \<and> ac_user i = uid \<and> ac_password i \<noteq> None)
     \<or> (\<exists>org. mark_organization_admin uid org \<sigma> = (True, \<sigma>'))"

lemma credentials_changed_ok:
  assumes "credentials_changed env uid \<sigma> \<sigma>'" "auth_ok env \<sigma>"
  shows "auth_ok env \<sigma>'"
proof -
  have "auth_move env nothing_new \<sigma> \<sigma>'"
    using assms(1) yields_reset_password [of env \<sigma>] yields_change_admin_password [of env \<sigma>] yields_admin_user [of env \<sigma>]
      yields_mark_organization_admin [of env \<sigma>]
    unfolding credentials_changed_def yields_def by (metis snd_conv)
  with assms(2) show ?thesis by (simp add: auth_move_def)
qed

lemma credentials_changed_locks:
  assumes "credentials_changed env uid \<sigma> \<sigma>'" "auth_ok env \<sigma>"
  shows "locked_out uid \<sigma>'"
proof -
  obtain s w where \<sigma>: "\<sigma> = (s, w)" by fastforce
  consider (reset) q r where "reset_organization_admin_password env uid q (s, w) = (Ok r, \<sigma>')"
    | (change) t p q a where "change_admin_password env t p q (s, w) = (Ok a, \<sigma>')" "au_id (aa_user a) = uid"
    | (admin) i r where "create_or_update_admin_user env i (s, w) = (Ok r, \<sigma>')" "ac_user i = uid" "ac_password i \<noteq> None"
    | (mark) org where "mark_organization_admin uid org (s, w) = (True, \<sigma>')"
    using assms(1) unfolding credentials_changed_def \<sigma> by blast
  then show ?thesis
  proof cases
    case reset
    then show ?thesis
      by (auto simp: reset_organization_admin_password_def Let_def split_beta inversion dest: locked_out_replace(1))
  next
    case change
    then obtain user :: stored_user and u h v where u: "replace_password (su_id user) h (s, v) = (Ok u, \<sigma>')" "au_id (auth_user_dto_of u) = uid"
      unfolding change_admin_password_def Let_def split_beta by (auto simp: inversion split: if_splits)
    then have "su_id u = su_id user"
      using locked_out_replace(3) [OF u(1)] assms(2) user_key [of env s w] by (auto simp: \<sigma>)
    then show ?thesis
      using locked_out_replace(1) [OF u(1)] u(2) by (simp add: auth_user_dto_of_def)
  next
    case admin
    then show ?thesis
      unfolding create_or_update_admin_user_def Let_def split_beta
      by (auto simp: inversion validate_optional_password_def split: option.splits intro: locked_out_revoke)
  next
    case mark
    then show ?thesis
      by (auto simp: mark_organization_admin_def Let_def split_beta split: option.splits if_splits intro: locked_out_revoke)
  qed
qed

text \<open>The session behind an answer of the service, and whose it is.\<close>

lemma authenticated_session_of:
  assumes ok: "auth_ok env \<sigma>" and a: "fst (authenticate_access_token env t \<sigma>) = Ok a"
  shows "\<exists>x. om_get (sessions_by_access_token (fst \<sigma>)) (token_digest env (normalize_bearer_token t)) = Some x
    \<and> ss_revoked_at x = None \<and> ss_user x = au_id (an_user a)"
proof -
  obtain s w where \<sigma>: "\<sigma> = (s, w)" by fastforce
  have "authenticate_access_token env t (s, w) = (Ok a, snd (authenticate_access_token env t (s, w)))"
    using a by (intro outcome_pair) (simp add: \<sigma>)
  then show ?thesis
    by (rule authenticate_Ok) (auto simp: \<sigma> auth_user_dto_of_def dest: user_key [OF ok [unfolded \<sigma>]])
qed

lemma authenticated_admin_session_of:
  assumes ok: "auth_ok env \<sigma>" and a: "fst (authenticate_admin_access_token env t \<sigma>) = Ok a"
  shows "\<exists>x. om_get (sessions_by_access_token (fst \<sigma>)) (token_digest env (normalize_bearer_token t)) = Some x
    \<and> ss_revoked_at x = None \<and> ss_user x = au_id (aa_user a)"
proof -
  obtain s w where \<sigma>: "\<sigma> = (s, w)" by fastforce
  have "authenticate_admin_access_token env t (s, w) = (Ok a, snd (authenticate_admin_access_token env t (s, w)))"
    using a by (intro outcome_pair) (simp add: \<sigma>)
  then show ?thesis
    by (rule authenticate_admin_Ok) (auto simp: \<sigma> auth_user_dto_of_def dest: user_key [OF ok [unfolded \<sigma>]])
qed

lemma refreshed_session_of:
  assumes ok: "auth_ok env \<sigma>" and z: "fst (refresh_for_client env i kind \<sigma>) = Ok z"
  shows "\<exists>k x. om_get (access_tokens_by_refresh_token (fst \<sigma>)) (token_digest env (trim (fi_refresh_token i))) = Some k
    \<and> om_get (sessions_by_access_token (fst \<sigma>)) k = Some x \<and> ss_revoked_at x = None \<and> ss_user x = au_id (sn_user z)"
proof -
  obtain s w where \<sigma>: "\<sigma> = (s, w)" by fastforce
  note key = user_key [OF ok [unfolded \<sigma>]]
  have "refresh_for_client env i kind (s, w) = (Ok z, snd (refresh_for_client env i kind (s, w)))"
    using z by (intro outcome_pair) (simp add: \<sigma>)
  then show ?thesis
  proof (rule refresh_Ok)
    fix inst k and x :: stored_session and now
    assume k: "om_get (access_tokens_by_refresh_token s) (token_digest env (trim (fi_refresh_token i))) = Some k"
      and x: "om_get (sessions_by_access_token s) k = Some x" "ss_revoked_at x = None"
      and issue: "issue_session env (ss_user x) inst (ss_family x) kind
         (s\<lparr>sessions_by_access_token := om_modify k (\<lambda>x. x\<lparr>ss_rotated_at := Some (fst (auth_now (snd (auth_now w))))\<rparr>)
            (sessions_by_access_token s)\<rparr>, snd (auth_now (snd (auth_now w)))) = (Ok z, snd (refresh_for_client env i kind (s, w)))"
    have "ss_user x = au_id (sn_user z)"
      by (rule issue_session_Ok [OF issue]) (use key [of "ss_user x"] in \<open>auto simp: auth_user_dto_of_def\<close>)
    with k x show ?thesis by (auto simp: \<sigma>)
  qed
qed

text \<open>An account that is locked out uses only sessions whose token is drawn later.\<close>

lemma locked_out_later:
  assumes locked: "locked_out (ss_user x) \<sigma>" and le: "auth_le env (\<lambda>_ _. True) \<sigma> \<tau>"
    and x: "om_get (sessions_by_access_token (fst \<tau>)) k = Some x" "ss_revoked_at x = None"
  shows "k \<in> token_supply env (snd \<sigma>)"
proof (rule ccontr)
  assume "k \<notin> token_supply env (snd \<sigma>)"
  then obtain x0 where x0: "om_get (sessions_by_access_token (fst \<sigma>)) k = Some x0" "same_session x0 x"
    using auth_le_old_session [OF le] x(1) by auto
  then have "ss_revoked_at x0 \<noteq> None"
    using same_session_fields(3) [OF x0(2)] locked unfolding locked_out_def by metis
  with same_session_flags(2) [OF x0(2)] x(2) show False by simp
qed

text \<open>
  C27: After a password reset, a password change, an update with a new password or a change of role, no token
  given out before works for that account any more: whatever happens later, a token that authenticates the
  account (as a user or as an administrator) or refreshes a session of it was drawn after the change.
\<close>

theorem credential_change_ends_sessions:
  assumes ok: "auth_ok env \<sigma>" and changed: "credentials_changed env uid \<sigma> \<sigma>'"
    and later: "auth_reaches env (\<sigma>', log) (\<tau>, log')"
  shows "(\<forall>t a. fst (authenticate_access_token env t \<tau>) = Ok a \<and> au_id (an_user a) = uid \<longrightarrow>
        token_digest env (normalize_bearer_token t) \<in> token_supply env (snd \<sigma>'))
    \<and> (\<forall>t a. fst (authenticate_admin_access_token env t \<tau>) = Ok a \<and> au_id (aa_user a) = uid \<longrightarrow>
        token_digest env (normalize_bearer_token t) \<in> token_supply env (snd \<sigma>'))
    \<and> (\<forall>i kind z. fst (refresh_for_client env i kind \<tau>) = Ok z \<and> au_id (sn_user z) = uid \<longrightarrow>
        token_digest env (trim (fi_refresh_token i)) \<in> token_supply env (snd \<sigma>'))"
proof -
  note ok' = credentials_changed_ok [OF changed ok] and locked = credentials_changed_locks [OF changed ok]
  note le = auth_reaches_le [OF later ok'] and ok\<tau> = reaches_ok [OF later ok']
  have new: "k \<in> token_supply env (snd \<sigma>')"
    if "om_get (sessions_by_access_token (fst \<tau>)) k = Some x" "ss_revoked_at x = None" "ss_user x = uid" for k x
    using locked_out_later [OF _ le that(1,2)] locked that(3) by simp
  have "token_digest env (trim (fi_refresh_token i)) \<in> token_supply env (snd \<sigma>')"
    if z: "fst (refresh_for_client env i kind \<tau>) = Ok z" "au_id (sn_user z) = uid" for i kind z
  proof -
    obtain k x where k: "om_get (access_tokens_by_refresh_token (fst \<tau>)) (token_digest env (trim (fi_refresh_token i))) = Some k"
      and "om_get (sessions_by_access_token (fst \<tau>)) k = Some x" "ss_revoked_at x = None" "ss_user x = uid"
      using refreshed_session_of [OF ok\<tau> z(1)] z(2) by blast
    then have "k \<in> token_supply env (snd \<sigma>')" by (intro new)
    then have "om_get (access_tokens_by_refresh_token (fst \<sigma>')) h \<noteq> Some k" for h
      using indexed_session [OF ok'] in_use_not_supply(1) [OF ok'] by metis
    with k show ?thesis using le unfolding auth_le_def by blast
  qed
  then show ?thesis
    using authenticated_session_of [OF ok\<tau>] authenticated_admin_session_of [OF ok\<tau>] new by metis
qed

theorem credential_change_ends_sessions_witness:
  "\<not> (\<exists>a. fst (authenticate_access_token demo_auth_env ''T'' (snd (mark_organization_admin 7 5 demo_auth))) = Ok a
    \<and> au_id (an_user a) = 7)"
proof -
  obtain s w where d: "demo_auth = (s, w)" by fastforce
  note s = demo_auth_fst [unfolded d fst_conv] and c = demo_clock(3) [unfolded d snd_conv]
  have m: "mark_organization_admin 7 5 demo_auth = (True, snd (mark_organization_admin 7 5 demo_auth))"
    by (simp add: mark_organization_admin_def d s demo_user_def Let_def split_beta)
  then have changed: "credentials_changed demo_auth_env 7 demo_auth (snd (mark_organization_admin 7 5 demo_auth))"
    unfolding credentials_changed_def by blast
  have "aw_tokens (snd (snd (mark_organization_admin 7 5 demo_auth))) = aw_tokens w"
    by (simp add: mark_organization_admin_def d s demo_user_def Let_def split_beta)
  then have "token_digest demo_auth_env (normalize_bearer_token ''T'')
      \<notin> token_supply demo_auth_env (snd (snd (mark_organization_admin 7 5 demo_auth)))"
    using c by (auto simp: token_supply_def token_digest_def demo_auth_env_def normalize_bearer_token_def
      strip_prefix_def trim_demo trim_upper is_ascii_uppercase_def)
  then show ?thesis
    using credential_change_ends_sessions [OF demo_auth_ok changed reaches_refl] by blast
qed

section \<open>Reachable accounts\<close>

lemma auth_ok_unique:
  assumes "auth_ok env \<sigma>" "om_get (users_by_id (fst \<sigma>)) u = Some x" "om_get (users_by_id (fst \<sigma>)) v = Some y"
  shows "su_email x = Some e \<Longrightarrow> su_email y = Some e \<Longrightarrow> u = v"
    and "su_phone x = Some e \<Longrightarrow> su_phone y = Some e \<Longrightarrow> u = v"
proof -
  have ex: "index_exact su_email (users_by_id (fst \<sigma>)) (user_ids_by_email (fst \<sigma>))"
    "index_exact su_phone (users_by_id (fst \<sigma>)) (user_ids_by_phone (fst \<sigma>))"
    using assms(1) by (simp_all add: auth_ok_def accounts_ok_def)
  show "u = v" if "su_email x = Some e" "su_email y = Some e"
  proof -
    have "om_get (user_ids_by_email (fst \<sigma>)) e = Some u" "om_get (user_ids_by_email (fst \<sigma>)) e = Some v"
      using ex(1) assms(2,3) that unfolding index_exact_def by blast+
    then show ?thesis by simp
  qed
  show "u = v" if "su_phone x = Some e" "su_phone y = Some e"
  proof -
    have "om_get (user_ids_by_phone (fst \<sigma>)) e = Some u" "om_get (user_ids_by_phone (fst \<sigma>)) e = Some v"
      using ex(2) assms(2,3) that unfolding index_exact_def by blast+
    then show ?thesis by simp
  qed
qed

lemma find_user_id_single:
  "find_user_id s (Some e) None = om_get (user_ids_by_email s) e"
  "find_user_id s None (Some e) = om_get (user_ids_by_phone s) e"
  by (simp_all add: find_user_id_def split: option.splits)

text \<open>
  In every state the service reaches, an email and a phone belong to at most one account and a login with
  it finds that account and no other; every session belongs to an existing account, is stored under its own
  digest and lives for its kind's time: 15 minutes of access and 30 days of refresh for an application, 8 hours
  and no refresh for an administrator.
\<close>

theorem reachable_accounts:
  assumes "supply_ok env (auth_default, w)" "auth_reaches env ((auth_default, w), []) ((s, w'), log)"
  shows "(\<forall>u v x y e. om_get (users_by_id s) u = Some x \<and> om_get (users_by_id s) v = Some y
      \<and> (su_email x = Some e \<and> su_email y = Some e \<or> su_phone x = Some e \<and> su_phone y = Some e) \<longrightarrow> u = v)
    \<and> (\<forall>u e. find_user_id s (Some e) None = Some u \<longleftrightarrow> (\<exists>x. om_get (users_by_id s) u = Some x \<and> su_email x = Some e))
    \<and> (\<forall>u p. find_user_id s None (Some p) = Some u \<longleftrightarrow> (\<exists>x. om_get (users_by_id s) u = Some x \<and> su_phone x = Some p))
    \<and> (\<forall>k x. om_get (sessions_by_access_token s) k = Some x \<longrightarrow>
        ss_access_token x = k \<and> account_kind_of s (ss_user x) \<noteq> None
        \<and> ss_access_expires_at x = ss_created_at x + (if ss_kind x = AdminKind then admin_session_ttl else app_access_token_ttl)
        \<and> ss_refresh_expires_at x =
            (if ss_kind x = AdminKind then None else Some (ss_created_at x + app_refresh_token_ttl)))"
proof -
  have ok: "auth_ok env (s, w')" using reaches_ok [OF assms(2) auth_ok_default [OF assms(1)]] .
  then have acc: "accounts_ok s" and so: "sessions_ok s" by (simp_all add: auth_ok_def)
  have "u = v" if "om_get (users_by_id s) u = Some x" "om_get (users_by_id s) v = Some y"
    "su_email x = Some e \<and> su_email y = Some e \<or> su_phone x = Some e \<and> su_phone y = Some e" for u v x y e
    using auth_ok_unique [OF ok, of u x v y e] that by auto
  moreover have "find_user_id s (Some e) None = Some u \<longleftrightarrow> (\<exists>x. om_get (users_by_id s) u = Some x \<and> su_email x = Some e)"
    "find_user_id s None (Some e) = Some u \<longleftrightarrow> (\<exists>x. om_get (users_by_id s) u = Some x \<and> su_phone x = Some e)" for u e
    using acc by (simp_all add: find_user_id_single accounts_ok_def index_exact_def)
  moreover have "ss_access_token x = k \<and> account_kind_of s (ss_user x) \<noteq> None
        \<and> ss_access_expires_at x = ss_created_at x + (if ss_kind x = AdminKind then admin_session_ttl else app_access_token_ttl)
        \<and> ss_refresh_expires_at x =
            (if ss_kind x = AdminKind then None else Some (ss_created_at x + app_refresh_token_ttl))"
    if "om_get (sessions_by_access_token s) k = Some x" for k x
  proof -
    have "session_ok s k x" using so that by (simp add: sessions_ok_def)
    then show ?thesis by (simp add: session_ok_def account_kind_of_def split: if_splits)
  qed
  ultimately show ?thesis by blast
qed

theorem reachable_accounts_witness:
  "find_user_id (fst demo_auth) (Some ''u'') None = Some 7 \<and> account_kind_of (fst demo_auth) (ss_user demo_session) \<noteq> None"
proof -
  obtain s w where d: "demo_auth = (s, w)" by fastforce
  note s = demo_auth_fst [unfolded d fst_conv]
  have get: "om_get (users_by_id s) 7 = Some demo_user" "om_get (sessions_by_access_token s) ''hT'' = Some demo_session"
    "su_email demo_user = Some ''u''" by (simp_all add: s demo_user_def)
  note t = reachable_accounts [OF demo_supply demo_reaches [unfolded d]]
  have "find_user_id s (Some ''u'') None = Some 7" using t get(1,3) by blast
  moreover have "account_kind_of s (ss_user demo_session) \<noteq> None" using t get(2) by blast
  ultimately show ?thesis by (simp add: d)
qed

section \<open>Snapshots\<close>

lemma om_get_collect:
  assumes "\<And>k v v'. (k, v) \<in> set ps \<Longrightarrow> (k, v') \<in> set ps \<Longrightarrow> v = v'"
  shows "om_get (om_collect ps) k = Some v \<longleftrightarrow> (k, v) \<in> set ps"
  using assms
proof (induction ps rule: rev_induct)
  case Nil
  then show ?case by (simp add: om_collect_def)
next
  case (snoc p ps)
  obtain a b where p: "p = (a, b)" by fastforce
  have IH: "om_get (om_collect ps) k = Some v \<longleftrightarrow> (k, v) \<in> set ps"
  proof (rule snoc.IH)
    fix k v v' assume "(k, v) \<in> set ps" "(k, v') \<in> set ps"
    then show "v = v'" using snoc.prems [of k v v'] by simp
  qed
  have "om_collect (ps @ [p]) = om_insert a b (om_collect ps)" by (simp add: om_collect_def p)
  moreover have "(a, v) \<in> set ps \<Longrightarrow> v = b" using snoc.prems [of a v b] by (simp add: p)
  ultimately show ?case using IH by (auto simp: p)
qed

lemma om_eq_collect:
  assumes "\<And>k v. (k, v) \<in> set ps \<longleftrightarrow> om_get m k = Some v"
  shows "om_collect ps = m"
proof (rule om_eqI)
  fix k
  have "om_get (om_collect ps) k = Some v \<longleftrightarrow> om_get m k = Some v" for v
    by (subst om_get_collect) (auto simp: assms)
  then show "om_get (om_collect ps) k = om_get m k" by (metis not_None_eq)
qed

lemma in_map_filter: "y \<in> set (List.map_filter g xs) \<longleftrightarrow> (\<exists>x \<in> set xs. g x = Some y)"
  by (induction xs) (auto simp: List.map_filter_simps split: option.splits)

lemma index_users_exact:
  assumes "index_exact f us m" "om_keyed su_id us"
  shows "index_users f (om_values us) = m"
  unfolding index_users_def
proof (rule om_eq_collect)
  fix k u
  have "(\<exists>x \<in> set (om_values us). map_option (\<lambda>k. (k, su_id x)) (f x) = Some (k, u)) \<longleftrightarrow>
      (\<exists>x. om_get us (su_id x) = Some x \<and> f x = Some k \<and> su_id x = u)"
    by (simp add: om_keyed_values [OF assms(2)] Bex_def)
  also have "\<dots> \<longleftrightarrow> (\<exists>x. om_get us u = Some x \<and> f x = Some k)"
    using om_keyedD [OF assms(2)] by blast
  also have "\<dots> \<longleftrightarrow> om_get m k = Some u"
    using assms(1) by (simp add: index_exact_def)
  finally show "(k, u) \<in> set (List.map_filter (\<lambda>x. map_option (\<lambda>k. (k, su_id x)) (f x)) (om_values us)) \<longleftrightarrow> om_get m k = Some u"
    by (simp only: in_map_filter)
qed

text \<open>
  Restoring the snapshot of any state the service reaches gives that state back, with its expired sessions
  pruned: the login identifiers and the index of refresh tokens, which a snapshot does not contain, are rebuilt
  exactly.
\<close>

theorem auth_snapshot_round_trip:
  assumes "auth_ok env (s, w)"
  shows "auth_from_snapshot (auth_snapshot_of s) w = prune_expired_sessions (s, w)"
proof -
  have acc: "accounts_ok s" and so: "sessions_ok s" and ri: "refresh_index_ok s"
    using assms by (simp_all add: auth_ok_def)
  have us: "om_collect (map (\<lambda>u. (su_id u, u)) (om_values (users_by_id s))) = users_by_id s"
    using acc by (intro om_collect_values) (auto simp: accounts_ok_def om_keyed_def)
  have ses: "om_collect (map (\<lambda>x. (ss_access_token x, x)) (om_values (sessions_by_access_token s))) = sessions_by_access_token s"
    using so by (intro om_collect_values) (auto simp: sessions_ok_def session_ok_def)
  have inst: "om_collect (om_entries (installations_by_id s)) = installations_by_id s"
    by (rule om_eq_collect) (rule om_in_entries)
  have mails: "index_users su_email (om_values (users_by_id s)) = user_ids_by_email s"
    "index_users su_phone (om_values (users_by_id s)) = user_ids_by_phone s"
    using acc by (auto simp: accounts_ok_def intro!: index_users_exact)
  have "(h, k) \<in> set (map (\<lambda>x. (ss_refresh_token x, ss_access_token x))
      (filter (\<lambda>x. ss_refresh_token x \<noteq> []) (om_values (sessions_by_access_token s)))) \<longleftrightarrow>
      om_get (access_tokens_by_refresh_token s) h = Some k" for h k
  proof
    assume "om_get (access_tokens_by_refresh_token s) h = Some k"
    then obtain x where x: "om_get (sessions_by_access_token s) k = Some x" "ss_refresh_token x = h" "h \<noteq> []"
      using ri unfolding refresh_index_ok_def by blast
    moreover have "ss_access_token x = k" using so x(1) by (auto simp: sessions_ok_def session_ok_def)
    ultimately show "(h, k) \<in> set (map (\<lambda>x. (ss_refresh_token x, ss_access_token x))
      (filter (\<lambda>x. ss_refresh_token x \<noteq> []) (om_values (sessions_by_access_token s))))"
      by (force simp: om_in_values)
  next
    assume "(h, k) \<in> set (map (\<lambda>x. (ss_refresh_token x, ss_access_token x))
      (filter (\<lambda>x. ss_refresh_token x \<noteq> []) (om_values (sessions_by_access_token s))))"
    then obtain x k' where x: "om_get (sessions_by_access_token s) k' = Some x" "ss_refresh_token x = h"
        "ss_access_token x = k" "h \<noteq> []" by (auto simp: om_in_values)
    then have "session_ok s k' x" using so by (simp add: sessions_ok_def)
    with x show "om_get (access_tokens_by_refresh_token s) h = Some k"
      by (auto simp: session_ok_def split: if_splits)
  qed
  then have refr: "om_collect (map (\<lambda>x. (ss_refresh_token x, ss_access_token x))
      (filter (\<lambda>x. ss_refresh_token x \<noteq> []) (om_values (sessions_by_access_token s)))) = access_tokens_by_refresh_token s"
    by (rule om_eq_collect)
  show ?thesis
    using us ses inst mails refr
    by (cases s) (simp add: auth_from_snapshot_def auth_snapshot_of_def)
qed

theorem auth_snapshot_round_trip_witness:
  "auth_from_snapshot (auth_snapshot_of (fst demo_auth)) (snd demo_auth) = prune_expired_sessions demo_auth"
  using auth_snapshot_round_trip [of demo_auth_env "fst demo_auth" "snd demo_auth"] demo_auth_ok by simp

section \<open>A session given out works\<close>

text \<open>
  C39: The tokens a login hands out work at once: as long as the clock is before the 15 minutes the access token
  authenticates the account on its installation, and as long as it is before the 30 days the refresh token is
  exchanged for a new session. (A token is base64 text: it is not empty, has no white space around it and does
  not start with the word Bearer.)
\<close>

theorem login_session_works:
  assumes ok: "auth_ok env \<sigma>" and kind: "kind \<in> {Tauri, Web}"
    and login: "login_for_client env i kind \<sigma> = (Ok z, (s', w'))"
    and token: "normalize_bearer_token (sn_access_token z) = sn_access_token z"
      "trim (sn_refresh_token z) = sn_refresh_token z"
  shows "\<exists>x. om_get (sessions_by_access_token s') (token_digest env (sn_access_token z)) = Some x
    \<and> (\<forall>v. fst (auth_now v) < ss_created_at x + app_access_token_ttl \<longrightarrow>
         fst (authenticate_access_token env (sn_access_token z) (s', v)) =
           Ok \<lparr>an_user = sn_user z, an_installation = sn_installation z\<rparr>)
    \<and> (\<forall>v. fst (auth_now v) < ss_created_at x + app_refresh_token_ttl \<longrightarrow>
         is_ok (fst (refresh_for_client env
           \<lparr>fi_refresh_token = sn_refresh_token z, fi_installation = li_installation i\<rparr> kind (s', v))))"
proof -
  obtain s w where \<sigma>: "\<sigma> = (s, w)" by fastforce
  from login obtain uid u inst where u: "om_get (users_by_id s) uid = Some u" "su_account_kind u = Business"
      "normalize_installation_id (li_installation i) = Ok inst"
    and z: "issue_session env uid inst (fst (auth_new_v4 w)) kind
      (snd (bind_installation inst uid s), snd (auth_new_v4 w)) = (Ok z, (s', w'))"
    unfolding \<sigma> login_for_client_def Let_def split_beta fst_conv snd_conv
    by (auto simp: inversion verify_password_def split: option.splits if_splits)
  have "yields env (session_grant env) \<sigma> (Ok z, (s', w'))"
    using yields_login_for_client [OF kind, of env \<sigma> i] login by simp
  then have ok': "auth_ok env (s', w')" using ok by (simp add: auth_move_def)
  obtain u' x where x: "om_get (users_by_id s) uid = Some u'" "sn_user z = auth_user_dto_of u'"
      "sn_installation z = inst" "users_by_id s' = users_by_id s"
      "om_get (sessions_by_access_token s') (token_digest env (sn_access_token z)) = Some x"
      "ss_user x = uid" "ss_installation x = inst" "ss_kind x = kind" "ss_rotated_at x = None" "ss_revoked_at x = None"
      "om_get (access_tokens_by_refresh_token s') (token_digest env (sn_refresh_token z))
         = Some (token_digest env (sn_access_token z))"
    using issue_session_Ok [OF z] by (metis bind_installation_frame(1) fst_conv)
  have "session_ok s' (token_digest env (sn_access_token z)) x"
    using ok' x(5) by (simp add: auth_ok_def sessions_ok_def)
  then have ttl: "ss_access_expires_at x = ss_created_at x + app_access_token_ttl"
    "ss_refresh_expires_at x = Some (ss_created_at x + app_refresh_token_ttl)"
    using kind x(8) by (auto simp: session_ok_def)
  have issue: "is_ok (fst (issue_session env uid inst fam kind (s'\<lparr>sessions_by_access_token := m\<rparr>, v)))" for fam m v
    using x(1,4) by (simp add: issue_session_def prune_frame split_beta Let_def)
  show ?thesis
    using u x ttl token kind issue
    by (intro exI [of _ x])
      (auto simp: authenticate_access_token_def refresh_for_client_def Let_def split_beta token_digest_def)
qed

theorem login_session_works_witness:
  "\<exists>z s' w'. login_for_client demo_auth_env demo_login Tauri demo_auth = (Ok z, (s', w')) \<and> sn_access_token z = ''TTT''
    \<and> om_get (sessions_by_access_token s') (token_digest demo_auth_env ''TTT'') \<noteq> None"
proof -
  obtain z s' w' where l: "login_for_client demo_auth_env demo_login Tauri demo_auth = (Ok z, (s', w'))"
    using demo_login_Ok unfolding is_ok_iff by (metis prod.collapse)
  obtain s w where d: "demo_auth = (s, w)" by fastforce
  note s = demo_auth_fst [unfolded d fst_conv] and c = demo_clock(3) [unfolded d snd_conv]
  have "aw_tokens (snd (prune_expired_sessions (r, v))) = aw_tokens v" for r v
    by (simp add: prune_expired_sessions_def split_beta)
  then have t: "sn_access_token z = ''TTT''" "sn_refresh_token z = ''TTTT''"
    using l c
    by (auto simp: login_for_client_def demo_login_def d s Let_def split_beta find_user_id_def
      bind_installation_def issue_session_def demo_user_def verify_password_def demo_auth_env_def demo_env_def
      auth_optional_email_def require_login_identifier_def normalize_installation_id_def random_token_def
      to_ascii_lowercase_def is_ascii_uppercase_def trim_demo char_u prune_frame)
  have "normalize_bearer_token ''TTT'' = ''TTT''" by (simp add: normalize_bearer_token_def strip_prefix_def trim_demo)
  then show ?thesis
    using login_session_works [OF demo_auth_ok _ l] t l by (auto simp: trim_demo)
qed

end
