(* ===== verification/ApiProperties.thy ===== *)
theory ApiProperties
  imports AppApi AccountProperties TransactionProperties
begin

text \<open>
  The handlers as one machine: the shared state and the storage agree after every request, a change of the
  ledger is made by the authenticated user, and what the refresh handler does with a replayed token.
\<close>

section \<open>Storage that works in transactions\<close>

text \<open>
  What PostgreSQL guarantees of the three saving transactions: the new snapshot is stored, or an error is
  reported and nothing is changed. An appended event changes neither snapshot.
\<close>

definition transactional :: "route_env \<Rightarrow> bool" where
  "transactional re \<longleftrightarrow>
     (\<forall>l st. rt_save_ledger re l st = (None, st\<lparr>st_ledger := l\<rparr>) \<or> (\<exists>e. rt_save_ledger re l st = (Some e, st)))
     \<and> (\<forall>a st. rt_save_auth re a st = (None, st\<lparr>st_auth := a\<rparr>) \<or> (\<exists>e. rt_save_auth re a st = (Some e, st)))
     \<and> (\<forall>l a st. rt_save_all re l a st = (None, st\<lparr>st_ledger := l, st_auth := a\<rparr>) \<or> (\<exists>e. rt_save_all re l a st = (Some e, st)))
     \<and> (\<forall>ev st. st_ledger (snd (rt_append_event re ev st)) = st_ledger st \<and> st_auth (snd (rt_append_event re ev st)) = st_auth st)"

definition memory_is_stored :: "server \<Rightarrow> bool" where
  "memory_is_stored \<sigma> \<longleftrightarrow>
     st_ledger (srv_stored \<sigma>) = snapshot (srv_ledger \<sigma>) \<and> st_auth (srv_stored \<sigma>) = auth_snapshot_of (srv_auth \<sigma>)"

text \<open>Outcomes after which memory and storage agree; only a panic poisons a lock, and only the ledger's.\<close>

definition coherent :: "server \<Rightarrow> ('a, 'e) result \<times> server \<Rightarrow> bool" where
  "coherent \<sigma> out \<longleftrightarrow> memory_is_stored (snd out) \<and> srv_auth_poisoned (snd out) = srv_auth_poisoned \<sigma>
     \<and> (\<not> panics (fst out) \<longrightarrow> srv_ledger_poisoned (snd out) = srv_ledger_poisoned \<sigma>)"

lemma coherent_pair [simp]:
  "coherent \<sigma> (r, \<tau>) \<longleftrightarrow> memory_is_stored \<tau> \<and> srv_auth_poisoned \<tau> = srv_auth_poisoned \<sigma>
     \<and> (\<not> panics r \<longrightarrow> srv_ledger_poisoned \<tau> = srv_ledger_poisoned \<sigma>)"
  by (simp add: coherent_def)

lemma coherent_attempt:
  assumes "memory_is_stored s" "srv_auth_poisoned s = srv_auth_poisoned \<sigma>" "srv_ledger_poisoned s = srv_ledger_poisoned \<sigma>"
    and "\<And>a. r = Ok a \<Longrightarrow> coherent \<sigma> (k a)"
  shows "coherent \<sigma> (attempt r conv s k)"
  using assms by (cases r) auto

lemma coherent_perform:
  assumes "coherent \<sigma> x" and "\<And>a s. x = (Ok a, s) \<Longrightarrow> coherent \<sigma> (k a s)"
  shows "coherent \<sigma> (perform x conv k)"
  using assms by (cases x; cases "fst x") auto

lemma memory_is_stored_frame [simp]:
  "memory_is_stored (\<sigma>\<lparr>srv_world := w\<rparr>) = memory_is_stored \<sigma>"
  "memory_is_stored (\<sigma>\<lparr>srv_protection := p\<rparr>) = memory_is_stored \<sigma>"
  "memory_is_stored (\<sigma>\<lparr>srv_rate_limits := m\<rparr>) = memory_is_stored \<sigma>"
  "memory_is_stored (\<sigma>\<lparr>srv_instants := f\<rparr>) = memory_is_stored \<sigma>"
  by (simp_all add: memory_is_stored_def)

lemma lock_auth_Ok [simp]: "lock_auth \<sigma> = Ok a \<longleftrightarrow> \<not> srv_auth_poisoned \<sigma> \<and> a = srv_auth \<sigma>"
  and lock_ledger_Ok [simp]: "lock_ledger \<sigma> = Ok l \<longleftrightarrow> \<not> srv_ledger_poisoned \<sigma> \<and> l = srv_ledger \<sigma>"
  by (auto simp: lock_auth_def lock_ledger_def)

section \<open>Every handler keeps memory and storage together\<close>

lemma coherent_checks:
  assumes "memory_is_stored \<sigma>"
  shows "coherent \<sigma> (check_login_attempt re ip surface identifier \<sigma>)"
    and "coherent \<sigma> (login_challenge re ip identifier token \<sigma>)"
    and "coherent \<sigma> (check_refresh_rate re ip \<sigma>)"
    and "coherent \<sigma> (Ok (), snd (record_login_failure re ip surface identifier \<sigma>))"
    and "coherent \<sigma> (Ok (), record_login_success re ip surface identifier \<sigma>)"
    and "coherent \<sigma> (authenticate re headers \<sigma>)"
  using assms
  by (auto simp: check_login_attempt_def login_challenge_def check_refresh_rate_def record_login_failure_def
    record_login_success_def authenticate_def route_challenge_required_def server_instant_def Let_def split_beta
    attempt_def split: result.splits)

lemma coherent_append:
  assumes "transactional re" "memory_is_stored \<sigma>"
  shows "coherent \<sigma> (store_call (rt_append_event re ev) \<sigma>)"
  using assms by (simp add: store_call_def Let_def split_beta transactional_def memory_is_stored_def)

lemma coherent_replace_auth:
  assumes "transactional re" "memory_is_stored \<sigma>" "\<not> srv_auth_poisoned \<sigma>"
  shows "coherent \<sigma> (replace_auth re staged \<sigma>)"
proof -
  consider "rt_save_auth re (auth_snapshot_of staged) (srv_stored \<sigma>) = (None, (srv_stored \<sigma>)\<lparr>st_auth := auth_snapshot_of staged\<rparr>)"
    | e where "rt_save_auth re (auth_snapshot_of staged) (srv_stored \<sigma>) = (Some e, srv_stored \<sigma>)"
    using assms(1) unfolding transactional_def by blast
  then show ?thesis
    using assms(2,3)
    by cases (auto simp: replace_auth_def store_call_def lock_auth_def memory_is_stored_def)
qed

lemma coherent_persist:
  assumes "transactional re" "memory_is_stored \<sigma>" "\<not> srv_auth_poisoned \<sigma>"
  shows "coherent \<sigma> (persist_auth_and_ledger_identity re staged session \<sigma>)"
proof (cases "srv_ledger_poisoned \<sigma>")
  case True
  with assms(2) show ?thesis by (simp add: persist_auth_and_ledger_identity_def lock_ledger_def)
next
  case False
  obtain r ledger w where id: "ensure_user_identity (rt_env re)
      \<lparr>ei_user = au_id (an_user session), ei_display_name = au_display_name (an_user session),
       ei_email = au_email (an_user session), ei_phone = au_phone (an_user session)\<rparr>
      (srv_ledger \<sigma>, aw_world (srv_world \<sigma>)) = (r, ledger, w)" by (metis prod.collapse)
  consider "rt_save_all re (snapshot ledger) (auth_snapshot_of staged) (srv_stored \<sigma>)
      = (None, (srv_stored \<sigma>)\<lparr>st_ledger := snapshot ledger, st_auth := auth_snapshot_of staged\<rparr>)"
    | e where "rt_save_all re (snapshot ledger) (auth_snapshot_of staged) (srv_stored \<sigma>) = (Some e, srv_stored \<sigma>)"
    using assms(1) unfolding transactional_def by blast
  then show ?thesis
    using assms(2,3) False id
    by cases (cases r; simp add: persist_auth_and_ledger_identity_def lock_ledger_def lock_auth_def Let_def store_call_def
      memory_is_stored_def)+
qed

lemma coherent_api_mutation:
  assumes re: "transactional re" and mem: "memory_is_stored \<sigma>"
  shows "coherent \<sigma> (api_mutation re headers operation \<sigma>)"
  unfolding api_mutation_def
proof (rule coherent_perform [OF coherent_checks(6) [OF mem]])
  fix session \<tau>
  assume "authenticate re headers \<sigma> = (Ok session, \<tau>)"
  then have \<tau>: "coherent \<sigma> (Ok session, \<tau>)" using coherent_checks(6) [OF mem, of re headers] by simp
  obtain r staged w where op: "operation (au_id (an_user session)) (srv_ledger \<tau>, aw_world (srv_world \<tau>)) = (r, staged, w)"
    by (metis prod.collapse)
  consider "rt_save_ledger re (snapshot staged) (srv_stored \<tau>) = (None, (srv_stored \<tau>)\<lparr>st_ledger := snapshot staged\<rparr>)"
    | e where "rt_save_ledger re (snapshot staged) (srv_stored \<tau>) = (Some e, srv_stored \<tau>)"
    using re unfolding transactional_def by blast
  then show "coherent \<sigma> (attempt (lock_ledger \<tau>) id \<tau> (\<lambda>ledger.
     let (r, staged, w) = operation (au_id (an_user session)) (ledger, aw_world (srv_world \<tau>));
         \<tau> = poison_ledger r (\<tau>\<lparr>srv_world := (srv_world \<tau>)\<lparr>aw_world := w\<rparr>\<rparr>)
     in attempt r from_service \<tau> (\<lambda>x.
        perform (store_call (rt_save_ledger re (snapshot staged)) \<tau>) id (\<lambda>_ \<sigma>.
        attempt (lock_ledger \<sigma>) id \<sigma> (\<lambda>_. (Ok x, \<sigma>\<lparr>srv_ledger := staged\<rparr>))))))"
    using \<tau> op
    by cases (cases r; auto intro!: coherent_attempt simp: Let_def store_call_def memory_is_stored_def lock_ledger_def)+
qed

text \<open>The same rules with the state reached so far as the reference.\<close>

lemma coherent_then:
  assumes "coherent \<sigma> x" and "\<And>a \<tau>. memory_is_stored \<tau> \<Longrightarrow> srv_auth_poisoned \<tau> = srv_auth_poisoned \<sigma> \<Longrightarrow> coherent \<tau> (k a \<tau>)"
  shows "coherent \<sigma> (perform x conv k)"
  using assms by (cases x; cases "fst x") (auto simp: coherent_def)

lemma coherent_guard:
  assumes "memory_is_stored \<sigma>" and "\<And>a. r = Ok a \<Longrightarrow> coherent \<sigma> (k a)"
  shows "coherent \<sigma> (attempt r conv \<sigma> k)"
  using assms by (intro coherent_attempt) auto

lemma coherent_world: "coherent (\<sigma>\<lparr>srv_world := w\<rparr>) out \<longleftrightarrow> coherent \<sigma> out"
  by (simp add: coherent_def)

lemma coherent_success: "coherent (record_login_success re ip sf i \<sigma>) out \<longleftrightarrow> coherent \<sigma> out"
  by (simp add: coherent_def record_login_success_def)

lemma coherent_commit:
  assumes re: "transactional re" and mem: "memory_is_stored \<sigma>" "\<not> srv_auth_poisoned \<sigma>"
  shows "coherent \<sigma> (perform (persist_auth_and_ledger_identity re staged session \<sigma>) id (\<lambda>_ \<sigma>.
      perform (append_session_audit re z act kind \<sigma>) id (\<lambda>_ \<sigma>. (Ok z, \<sigma>))))"
proof (rule coherent_then [OF coherent_persist [OF assms]])
  fix \<tau> :: server assume "memory_is_stored \<tau>"
  from coherent_append [OF re this] show "coherent \<tau> (perform (append_session_audit re z act kind \<tau>) id (\<lambda>_ \<sigma>. (Ok z, \<sigma>)))"
    unfolding append_session_audit_def by (rule coherent_then) simp
qed

lemma coherent_login_route:
  assumes re: "transactional re" and mem: "memory_is_stored \<sigma>"
  shows "coherent \<sigma> (login_route re ip request kind \<sigma>)"
proof -
  let ?i = "login_identifier (rt_env re) (lr_email request) (lr_phone request)"
  show ?thesis
    unfolding login_route_def Let_def [of ?i]
  proof (rule coherent_then [OF coherent_checks(1) [OF mem]], rule coherent_then [OF coherent_checks(2)],
      assumption, rule coherent_guard, assumption)
    fix \<tau> auth
    assume mem': "memory_is_stored \<tau>" and "lock_auth \<tau> = Ok auth"
    then have lock: "\<not> srv_auth_poisoned \<tau>" by simp
    obtain result staged w where l: "login_for_client (rt_auth re)
            \<lparr>li_email = lr_email request, li_phone = lr_phone request, li_password = lr_password request,
             li_installation = lr_installation request\<rparr> kind (auth, srv_world \<tau>) = (result, staged, w)"
      by (metis prod.collapse)
    let ?\<tau> = "\<tau>\<lparr>srv_world := w\<rparr>"
    have "coherent ?\<tau> (case result of
           Ok z \<Rightarrow>
             let \<sigma> = record_login_success re ip BusinessSurface ?i ?\<tau> in
             perform (persist_auth_and_ledger_identity re staged (session_identity z) \<sigma>) id (\<lambda>_ \<sigma>.
             perform (append_session_audit re z ''session_issued'' kind \<sigma>) id (\<lambda>_ \<sigma>. (Ok z, \<sigma>)))
         | Err e \<Rightarrow>
             if e = InvalidCredentials then
               let (limit, \<sigma>) = record_login_failure re ip BusinessSurface ?i ?\<tau>
               in (Err (from_auth (case limit of Some e' \<Rightarrow> e' | None \<Rightarrow> InvalidCredentials)), \<sigma>)
             else (Err (from_auth e), record_login_success re ip BusinessSurface ?i ?\<tau>)
         | Panic p \<Rightarrow> (Panic p, ?\<tau>))"
    proof (cases result)
      case (Ok z)
      let ?s = "record_login_success re ip BusinessSurface ?i ?\<tau>"
      have "coherent ?s (perform (persist_auth_and_ledger_identity re staged (session_identity z) ?s) id (\<lambda>_ \<sigma>.
             perform (append_session_audit re z ''session_issued'' kind \<sigma>) id (\<lambda>_ \<sigma>. (Ok z, \<sigma>))))"
        using mem' lock by (intro coherent_commit [OF re]) (simp_all add: record_login_success_def)
      then show ?thesis by (simp add: Ok Let_def coherent_success)
    next
      case (Err e)
      then show ?thesis
        using coherent_checks(4,5) [of ?\<tau>] mem' by (auto simp: Let_def split_beta coherent_def)
    next
      case (Panic p)
      then show ?thesis using mem' by simp
    qed
    then show "coherent \<tau> (let (result, staged, w) = login_for_client (rt_auth re)
            \<lparr>li_email = lr_email request, li_phone = lr_phone request, li_password = lr_password request,
             li_installation = lr_installation request\<rparr> kind (auth, srv_world \<tau>);
          \<sigma> = \<tau>\<lparr>srv_world := w\<rparr>
      in case result of
           Ok z \<Rightarrow>
             let \<sigma> = record_login_success re ip BusinessSurface ?i \<sigma> in
             perform (persist_auth_and_ledger_identity re staged (session_identity z) \<sigma>) id (\<lambda>_ \<sigma>.
             perform (append_session_audit re z ''session_issued'' kind \<sigma>) id (\<lambda>_ \<sigma>. (Ok z, \<sigma>)))
         | Err e \<Rightarrow>
             if e = InvalidCredentials then
               let (limit, \<sigma>) = record_login_failure re ip BusinessSurface ?i \<sigma>
               in (Err (from_auth (case limit of Some e' \<Rightarrow> e' | None \<Rightarrow> InvalidCredentials)), \<sigma>)
             else (Err (from_auth e), record_login_success re ip BusinessSurface ?i \<sigma>)
         | Panic p \<Rightarrow> (Panic p, \<sigma>))"
      by (simp add: l Let_def [of ?\<tau>] coherent_world)
  qed
qed

lemma coherent_refresh_route:
  assumes re: "transactional re" and mem: "memory_is_stored \<sigma>"
  shows "coherent \<sigma> (refresh_route re ip request kind \<sigma>)"
  unfolding refresh_route_def
proof (rule coherent_then [OF coherent_checks(3) [OF mem]], rule coherent_guard, assumption)
  fix \<tau> auth
  assume mem': "memory_is_stored \<tau>" and "lock_auth \<tau> = Ok auth"
  then have "coherent (\<tau>\<lparr>srv_world := w\<rparr>) (attempt r from_auth (\<tau>\<lparr>srv_world := w\<rparr>) (\<lambda>z.
        perform (persist_auth_and_ledger_identity re staged (session_identity z) (\<tau>\<lparr>srv_world := w\<rparr>)) id (\<lambda>_ \<sigma>.
        perform (append_session_audit re z ''session_rotated'' kind \<sigma>) id (\<lambda>_ \<sigma>. (Ok z, \<sigma>)))))" for r staged w
    by (intro coherent_guard coherent_commit [OF re]) simp_all
  then show "coherent \<tau> (let (result, staged, w) = refresh_for_client (rt_auth re)
           \<lparr>fi_refresh_token = rr_refresh_token request, fi_installation = rr_installation request\<rparr> kind
           (auth, srv_world \<tau>); \<sigma> = \<tau>\<lparr>srv_world := w\<rparr>
     in attempt result from_auth \<sigma> (\<lambda>z.
        perform (persist_auth_and_ledger_identity re staged (session_identity z) \<sigma>) id (\<lambda>_ \<sigma>.
        perform (append_session_audit re z ''session_rotated'' kind \<sigma>) id (\<lambda>_ \<sigma>. (Ok z, \<sigma>)))))"
    by (simp add: Let_def split_beta coherent_world)
qed

lemma coherent_web:
  assumes "transactional re" "memory_is_stored \<sigma>"
  shows "coherent \<sigma> (web_login re ctx request \<sigma>)" and "coherent \<sigma> (web_refresh re ctx headers inst \<sigma>)"
  unfolding web_login_def web_refresh_def
  by (intro coherent_guard coherent_then [OF coherent_login_route] coherent_then [OF coherent_refresh_route] assms; simp)+

lemma coherent_me: "memory_is_stored \<sigma> \<Longrightarrow> coherent \<sigma> (me re headers \<sigma>)"
  unfolding me_def by (rule coherent_then [OF coherent_checks(6)]) simp_all

lemma coherent_update_me:
  assumes re: "transactional re" and mem: "memory_is_stored \<sigma>"
  shows "coherent \<sigma> (update_me re headers name \<sigma>)"
  unfolding update_me_def
proof (rule coherent_guard [OF mem], rule coherent_guard [OF mem])
  fix token auth
  assume "lock_auth \<sigma> = Ok auth"
  then have "coherent (\<sigma>\<lparr>srv_world := w\<rparr>) (attempt r from_auth (\<sigma>\<lparr>srv_world := w\<rparr>) (\<lambda>a.
      perform (persist_auth_and_ledger_identity re staged a (\<sigma>\<lparr>srv_world := w\<rparr>)) id (\<lambda>_ \<sigma>. (Ok (me_response_of a), \<sigma>))))"
    for r staged w
    using mem by (intro coherent_guard coherent_then [OF coherent_persist [OF re]]) simp_all
  then show "coherent \<sigma> (let (r, staged, w) = update_profile (rt_auth re) token name (auth, srv_world \<sigma>);
         \<sigma> = \<sigma>\<lparr>srv_world := w\<rparr>
     in attempt r from_auth \<sigma> (\<lambda>a.
        perform (persist_auth_and_ledger_identity re staged a \<sigma>) id (\<lambda>_ \<sigma>. (Ok (me_response_of a), \<sigma>))))"
    by (simp add: Let_def split_beta coherent_world)
qed

lemma coherent_revoke:
  assumes re: "transactional re" and mem: "memory_is_stored \<sigma>" and lock: "\<not> srv_auth_poisoned \<sigma>"
  shows "coherent \<sigma> (perform (replace_auth re staged \<sigma>) id (\<lambda>_ \<sigma>. store_call (rt_append_event re ev) \<sigma>))"
  by (rule coherent_then [OF coherent_replace_auth [OF assms]]) (rule coherent_append [OF re])

lemma coherent_tauri_logout:
  assumes re: "transactional re" and mem: "memory_is_stored \<sigma>"
  shows "coherent \<sigma> (tauri_logout re headers \<sigma>)"
  unfolding tauri_logout_def
proof (rule coherent_guard [OF mem], rule coherent_then [OF coherent_checks(6) [OF mem]], rule coherent_guard, assumption)
  fix token a \<tau> auth
  assume mem': "memory_is_stored \<tau>" and "lock_auth \<tau> = Ok auth"
  then have "coherent (\<tau>\<lparr>srv_world := w\<rparr>) (attempt r from_auth (\<tau>\<lparr>srv_world := w\<rparr>) (\<lambda>_ :: unit.
      perform (replace_auth re staged (\<tau>\<lparr>srv_world := w\<rparr>)) id (\<lambda>_ \<sigma>. store_call (rt_append_event re ev) \<sigma>)))" for r staged w ev
    by (intro coherent_guard coherent_revoke [OF re]) simp_all
  then show "coherent \<tau> (let (r, staged, w) = logout (rt_auth re) token (auth, srv_world \<tau>);
         \<sigma> = \<tau>\<lparr>srv_world := w\<rparr>
     in attempt r from_auth \<sigma> (\<lambda>_.
        perform (replace_auth re staged \<sigma>) id (\<lambda>_ \<sigma>.
        store_call (rt_append_event re
          (session_event (rt_env re) (au_organization (an_user a)) (au_id (an_user a)) ''session_revoked'' Tauri)) \<sigma>)))"
    by (simp add: Let_def split_beta coherent_world)
qed

lemma coherent_web_logout:
  assumes re: "transactional re" and mem: "memory_is_stored \<sigma>"
  shows "coherent \<sigma> (web_logout re ctx headers \<sigma>)"
proof (cases "cookie_value headers web_refresh_cookie")
  case None
  with mem show ?thesis by (auto simp: web_logout_def intro!: coherent_guard)
next
  case (Some token)
  show ?thesis
    unfolding web_logout_def Some option.case
  proof (rule coherent_guard [OF mem], rule coherent_guard [OF mem])
    fix auth
    assume "lock_auth \<sigma> = Ok auth"
    then have "coherent (\<sigma>\<lparr>srv_world := w\<rparr>) (attempt r from_auth (\<sigma>\<lparr>srv_world := w\<rparr>) (\<lambda>uid.
      perform (replace_auth re staged (\<sigma>\<lparr>srv_world := w\<rparr>)) id (\<lambda>_ \<sigma>.
      perform (store_call (rt_append_event re (ev staged uid)) \<sigma>) id (\<lambda>_ \<sigma>. (Ok cleared_cookie, \<sigma>)))))" for r staged w ev
      using mem by (intro coherent_guard coherent_then [OF coherent_replace_auth [OF re]] coherent_then [OF coherent_append [OF re]]) simp_all
    then show "coherent \<sigma> (let (r, staged, w) = logout_refresh (rt_auth re) token (auth, srv_world \<sigma>);
             \<sigma> = \<sigma>\<lparr>srv_world := w\<rparr>
         in attempt r from_auth \<sigma> (\<lambda>uid.
            perform (replace_auth re staged \<sigma>) id (\<lambda>_ \<sigma>.
            perform (store_call (rt_append_event re
              (session_event (rt_env re) (organization_id_of staged uid) uid ''session_revoked'' Web)) \<sigma>) id
              (\<lambda>_ \<sigma>. (Ok cleared_cookie, \<sigma>)))))"
      by (simp add: Let_def split_beta coherent_world)
  qed
qed

lemma coherent_with_ledger:
  assumes "memory_is_stored \<sigma>"
  shows "coherent \<sigma> (with_ledger report \<sigma>)"
  unfolding with_ledger_def
proof (rule coherent_guard [OF assms])
  fix ledger
  obtain r w where r: "report ledger (aw_world (srv_world \<sigma>)) = (r, w)" by fastforce
  then show "coherent \<sigma> (let (r, w) = report ledger (aw_world (srv_world \<sigma>));
      \<sigma> = poison_ledger r (\<sigma>\<lparr>srv_world := (srv_world \<sigma>)\<lparr>aw_world := w\<rparr>\<rparr>)
    in attempt r from_service \<sigma> (\<lambda>x. (Ok x, \<sigma>)))"
    using assms by (cases r) (simp_all add: Let_def memory_is_stored_def)
qed

lemma coherent_reports:
  assumes "memory_is_stored \<sigma>"
  shows "coherent \<sigma> (api_overview re h \<sigma>)" and "coherent \<sigma> (api_financial_analysis re h l n \<sigma>)"
    and "coherent \<sigma> (api_financial_month_detail re h l m \<sigma>)" and "coherent \<sigma> (api_financial_member_detail re h l n u \<sigma>)"
    and "coherent \<sigma> (api_transactions_for_month re h l mo d \<sigma>)" and "coherent \<sigma> (api_audit_period re h l g p \<sigma>)"
  unfolding api_overview_def api_financial_analysis_def api_financial_month_detail_def api_financial_member_detail_def
    api_transactions_for_month_def api_audit_period_def
  by (rule coherent_then [OF coherent_checks(6) [OF assms]], (rule coherent_with_ledger | rule coherent_guard), assumption?;
    assumption?; (rule coherent_with_ledger)?; assumption)+

section \<open>The server as a machine\<close>

datatype server_request =
    TauriLogin request_context login_request
  | TauriRefresh request_context refresh_request
  | WebLogin request_context login_request
  | WebRefresh request_context http_headers string
  | Me http_headers
  | UpdateMe http_headers string
  | TauriLogout http_headers
  | WebLogout request_context http_headers
  | CreateCategory http_headers create_category_input
  | CreateTransaction http_headers create_transaction_input
  | DecideApproval http_headers decide_approval_input
  | MarkPaid http_headers mark_paid_input
  | VoidTransaction http_headers void_transaction_input
  | ConfirmReceipt http_headers confirm_receipt_input
  | OverviewOf http_headers
  | AnalysisOf http_headers uuid nat
  | MonthDetailOf http_headers uuid string
  | MemberDetailOf http_headers uuid nat uuid
  | TransactionsOf http_headers uuid "string option" "string option"
  | AuditOf http_headers uuid string string

fun server_step :: "route_env \<Rightarrow> server \<Rightarrow> server_request \<Rightarrow> server" where
  "server_step re \<sigma> (TauriLogin ctx q) = snd (tauri_login re ctx q \<sigma>)"
| "server_step re \<sigma> (TauriRefresh ctx q) = snd (tauri_refresh re ctx q \<sigma>)"
| "server_step re \<sigma> (WebLogin ctx q) = snd (web_login re ctx q \<sigma>)"
| "server_step re \<sigma> (WebRefresh ctx h i) = snd (web_refresh re ctx h i \<sigma>)"
| "server_step re \<sigma> (Me h) = snd (me re h \<sigma>)"
| "server_step re \<sigma> (UpdateMe h name) = snd (update_me re h name \<sigma>)"
| "server_step re \<sigma> (TauriLogout h) = snd (tauri_logout re h \<sigma>)"
| "server_step re \<sigma> (WebLogout ctx h) = snd (web_logout re ctx h \<sigma>)"
| "server_step re \<sigma> (CreateCategory h i) = snd (api_create_category re h i \<sigma>)"
| "server_step re \<sigma> (CreateTransaction h i) = snd (api_create_transaction re h i \<sigma>)"
| "server_step re \<sigma> (DecideApproval h i) = snd (api_decide_approval re h i \<sigma>)"
| "server_step re \<sigma> (MarkPaid h i) = snd (api_mark_transaction_paid re h i \<sigma>)"
| "server_step re \<sigma> (VoidTransaction h i) = snd (api_void_transaction re h i \<sigma>)"
| "server_step re \<sigma> (ConfirmReceipt h i) = snd (api_confirm_transaction_receipt re h i \<sigma>)"
| "server_step re \<sigma> (OverviewOf h) = snd (api_overview re h \<sigma>)"
| "server_step re \<sigma> (AnalysisOf h l n) = snd (api_financial_analysis re h l n \<sigma>)"
| "server_step re \<sigma> (MonthDetailOf h l m) = snd (api_financial_month_detail re h l m \<sigma>)"
| "server_step re \<sigma> (MemberDetailOf h l n u) = snd (api_financial_member_detail re h l n u \<sigma>)"
| "server_step re \<sigma> (TransactionsOf h l m d) = snd (api_transactions_for_month re h l m d \<sigma>)"
| "server_step re \<sigma> (AuditOf h l g p) = snd (api_audit_period re h l g p \<sigma>)"

lemma coherent_stored: "coherent \<sigma> out \<Longrightarrow> memory_is_stored (snd out)"
  by (simp add: coherent_def)

lemma server_step_coherent:
  assumes "memory_is_stored \<sigma>" "transactional re"
  shows "memory_is_stored (server_step re \<sigma> q)"
  by (cases q) (simp_all add: tauri_login_def tauri_refresh_def api_create_category_def
    api_create_transaction_def api_decide_approval_def api_mark_transaction_paid_def api_void_transaction_def
    api_confirm_transaction_receipt_def coherent_stored [OF coherent_login_route [OF assms(2,1)]]
    coherent_stored [OF coherent_refresh_route [OF assms(2,1)]] coherent_stored [OF coherent_web(1) [OF assms(2,1)]]
    coherent_stored [OF coherent_web(2) [OF assms(2,1)]] coherent_stored [OF coherent_me [OF assms(1)]]
    coherent_stored [OF coherent_update_me [OF assms(2,1)]] coherent_stored [OF coherent_tauri_logout [OF assms(2,1)]]
    coherent_stored [OF coherent_web_logout [OF assms(2,1)]] coherent_stored [OF coherent_api_mutation [OF assms(2,1)]]
    coherent_reports [THEN coherent_stored, OF assms(1)])

interpretation server: invariant_machine "server_step re" memory_is_stored "\<lambda>_. transactional re" for re
  by unfold_locales (rule server_step_coherent)

text \<open>
  Whatever requests the server handles, successful, refused or failed half-way, the accounts and the ledger in
  memory are exactly those of the last save: no handler makes a change visible that is not stored, and none
  stores a change it does not make visible. (With storage that saves in transactions.)
\<close>

theorem memory_always_stored:
  assumes "memory_is_stored \<sigma>" "transactional re"
  shows "st_ledger (srv_stored (run (server_step re) \<sigma> qs)) = snapshot (srv_ledger (run (server_step re) \<sigma> qs))
    \<and> st_auth (srv_stored (run (server_step re) \<sigma> qs)) = auth_snapshot_of (srv_auth (run (server_step re) \<sigma> qs))"
  using server.run_inv [OF assms(1), of qs re] assms(2) by (simp add: memory_is_stored_def)

definition demo_route_env :: route_env where
  "demo_route_env = \<lparr>rt_auth = demo_auth_env, rt_lp = \<lparr>lp_text = demo_env, lp_instant_max = 10 ^ 30\<rparr>, rt_calendar = demo_calendar, rt_secret_key = None,
     rt_turnstile_post = (\<lambda>_ _ _. None), rt_save_ledger = (\<lambda>l st. (None, st\<lparr>st_ledger := l\<rparr>)),
     rt_save_auth = (\<lambda>a st. (None, st\<lparr>st_auth := a\<rparr>)),
     rt_save_all = (\<lambda>l a st. (None, st\<lparr>st_ledger := l, st_auth := a\<rparr>)),
     rt_append_event = (\<lambda>ev st. (None, st\<lparr>st_events := st_events st @ [ev]\<rparr>))\<rparr>"

definition demo_server :: "app_ledger_service \<Rightarrow> auth_state \<Rightarrow> server" where
  "demo_server ledger \<sigma> = \<lparr>srv_ledger = ledger, srv_auth = fst \<sigma>, srv_world = snd \<sigma>,
     srv_protection = login_protection_new (from_settings login_security_default), srv_rate_limits = [],
     srv_stored = \<lparr>st_ledger = snapshot ledger, st_auth = auth_snapshot_of (fst \<sigma>), st_events = []\<rparr>,
     srv_instants = int, srv_auth_poisoned = False, srv_ledger_poisoned = False, srv_web_login_enabled = True\<rparr>"

lemma demo_transactional: "transactional demo_route_env"
  by (simp add: transactional_def demo_route_env_def)

definition demo_headers :: "string \<Rightarrow> http_headers" where
  "demo_headers token = \<lparr>hd_authorization = Some (''Bearer '' @ token), hd_cookie = None, hd_forwarded_for = None,
     hd_forwarded_proto = None\<rparr>"

theorem memory_always_stored_witness:
  "st_auth (srv_stored (run (server_step demo_route_env) (demo_server uninitialized demo_auth)
       [Me (demo_headers ''T''), UpdateMe (demo_headers ''T'') ''N'']))
     = auth_snapshot_of (srv_auth (run (server_step demo_route_env) (demo_server uninitialized demo_auth)
         [Me (demo_headers ''T''), UpdateMe (demo_headers ''T'') ''N'']))"
  using memory_always_stored [OF _ demo_transactional, of "demo_server uninitialized demo_auth"
      "[Me (demo_headers ''T''), UpdateMe (demo_headers ''T'') ''N'']"]
  by (simp add: memory_is_stored_def demo_server_def)

section \<open>Who acts\<close>

lemma authenticate_route_Ok:
  assumes "authenticate re headers \<sigma> = (Ok a, \<tau>)"
  obtains token where "bearer_token headers = Ok token" "\<not> srv_auth_poisoned \<sigma>"
    "fst (authenticate_access_token (rt_auth re) token (srv_auth \<sigma>, srv_world \<sigma>)) = Ok a"
    "srv_ledger \<tau> = srv_ledger \<sigma>" "srv_auth \<tau> = srv_auth \<sigma>"
  using assms by (auto simp: authenticate_def inversion Let_def split_beta)

text \<open>The commands of the ledger that a request stands for, with the actor who is entered.\<close>

fun command_as :: "uuid \<Rightarrow> server_request \<Rightarrow> (http_headers \<times> app_command) option" where
  "command_as u (CreateCategory h i) = Some (h, CreateCategoryCmd (i\<lparr>cc_actor := u\<rparr>))"
| "command_as u (CreateTransaction h i) = Some (h, CreateTransactionCmd (i\<lparr>ct_actor := u\<rparr>))"
| "command_as u (DecideApproval h i) = Some (h, DecideApprovalCmd (i\<lparr>da_actor := u\<rparr>))"
| "command_as u (MarkPaid h i) = Some (h, MarkPaidCmd (i\<lparr>mp_actor := u\<rparr>))"
| "command_as u (VoidTransaction h i) = Some (h, VoidTransactionCmd (i\<lparr>vt_actor := u\<rparr>))"
| "command_as u (ConfirmReceipt h i) = Some (h, ConfirmReceiptCmd (i\<lparr>cr_actor := u\<rparr>))"
| "command_as u q = None"

text \<open>What an outcome may have done to the ledger: nothing, or the operation as the authenticated user.\<close>

definition acted_as ::
  "route_env \<Rightarrow> http_headers \<Rightarrow> (uuid \<Rightarrow> app_state \<Rightarrow> app_ledger_service) \<Rightarrow> server \<Rightarrow> server \<Rightarrow> bool" where
  "acted_as re headers operation \<sigma> \<tau> \<longleftrightarrow>
     (\<exists>token a w. bearer_token headers = Ok token
        \<and> fst (authenticate_access_token (rt_auth re) token (srv_auth \<sigma>, srv_world \<sigma>)) = Ok a
        \<and> srv_ledger \<tau> = operation (au_id (an_user a)) (srv_ledger \<sigma>, w))"

lemma api_mutation_acts:
  assumes "srv_ledger (snd (api_mutation re headers operation \<sigma>)) \<noteq> srv_ledger \<sigma>"
  shows "acted_as re headers (\<lambda>u s. fst (snd (operation u s))) \<sigma> (snd (api_mutation re headers operation \<sigma>))"
proof -
  have same: "srv_ledger (snd (authenticate re headers \<sigma>)) = srv_ledger \<sigma>"
    by (simp add: authenticate_def attempt_def Let_def split_beta split: result.split)
  then obtain a \<tau> where a: "authenticate re headers \<sigma> = (Ok a, \<tau>)" "srv_ledger \<tau> = srv_ledger \<sigma>"
    using assms
    by (cases "authenticate re headers \<sigma>"; cases "fst (authenticate re headers \<sigma>)") (auto simp: api_mutation_def)
  from authenticate_route_Ok [OF a(1)] obtain token where token: "bearer_token headers = Ok token"
    "fst (authenticate_access_token (rt_auth re) token (srv_auth \<sigma>, srv_world \<sigma>)) = Ok a" by blast
  obtain r staged w where op: "operation (au_id (an_user a)) (srv_ledger \<sigma>, aw_world (srv_world \<tau>)) = (r, staged, w)"
    by (metis prod.collapse)
  have "srv_ledger (snd (api_mutation re headers operation \<sigma>)) \<in> {srv_ledger \<sigma>, staged}"
    using a op by (auto simp: api_mutation_def store_call_def lock_ledger_def attempt_def Let_def split_beta
      split: result.split option.split)
  with assms have "srv_ledger (snd (api_mutation re headers operation \<sigma>))
      = fst (snd (operation (au_id (an_user a)) (srv_ledger \<sigma>, aw_world (srv_world \<tau>))))" by (simp add: op)
  with token show ?thesis unfolding acted_as_def by blast
qed

text \<open>
  C30: A request of the interface that changes the ledger by one of its six operations carries the access token
  of a session in use, not expired, of a business account, and changes the ledger exactly as the operation
  does for that account's user: whatever actor the body of the request names is overwritten.
\<close>

theorem api_acts_as_authenticated_user:
  assumes "command_as u q = Some (headers, cmd)" and "srv_ledger (server_step re \<sigma> q) \<noteq> srv_ledger \<sigma>"
  shows "\<exists>token a w cmd'. bearer_token headers = Ok token
    \<and> fst (authenticate_access_token (rt_auth re) token (srv_auth \<sigma>, srv_world \<sigma>)) = Ok a
    \<and> command_as (au_id (an_user a)) q = Some (headers, cmd')
    \<and> srv_ledger (server_step re \<sigma> q) = fst (app_step (rt_env re) (srv_ledger \<sigma>, w) cmd')"
proof -
  have "acted_as re headers (\<lambda>u s. case command_as u q of Some (_, c) \<Rightarrow> fst (app_step (rt_env re) s c)) \<sigma> (server_step re \<sigma> q)"
    using assms(1,2)
    by (cases q) (auto dest!: api_mutation_acts simp: api_create_category_def api_create_transaction_def
      api_decide_approval_def api_mark_transaction_paid_def api_void_transaction_def api_confirm_transaction_receipt_def)
  moreover have "\<exists>c. command_as v q = Some (headers, c)" for v using assms(1) by (cases q) auto
  ultimately show ?thesis unfolding acted_as_def by (metis case_prod_conv option.simps(5))
qed

text \<open>The company of the ledger's examples with the registered account as its owner, who asks for a new category.\<close>

definition demo_api_ledger :: app_ledger_service where
  "demo_api_ledger = demo_app\<lparr>users := om_insert 7 (TransactionProperties.demo_user 7) om_empty,
     memberships := [demo_ms 23 7 BusinessOwner]\<rparr>"

definition demo_api_request :: server_request where
  "demo_api_request = CreateCategory (demo_headers ''T'')
     \<lparr>cc_actor = 4, cc_ledger = 30, cc_name = ''T'', cc_kind = ExpenseCategory\<rparr>"

lemma demo_ae_env: "ae_env demo_auth_env = demo_env"
  by (simp add: demo_auth_env_def)

lemma demo_bearer: "bearer_token (demo_headers ''T'') = Ok ''T''"
  by (simp add: bearer_token_def demo_headers_def nonblank_def strip_prefix_def trim_demo ok_or_def)

lemma demo_api_authenticate:
  "authenticate demo_route_env (demo_headers ''T'') (demo_server l demo_auth) =
     (Ok \<lparr>an_user = auth_user_dto_of AuthProperties.demo_user, an_installation = ''I''\<rparr>,
      demo_server l demo_auth\<lparr>srv_world := snd (snd (authenticate_access_token demo_auth_env ''T'' demo_auth))\<rparr>)"
  using demo_authenticate
  by (simp add: authenticate_def demo_bearer lock_auth_def demo_server_def demo_route_env_def Let_def split_beta)

lemma demo_category_created:
  "\<exists>c r w'. create_category demo_env \<lparr>cc_actor = 7, cc_ledger = 30, cc_name = ''T'', cc_kind = ExpenseCategory\<rparr>
     (demo_api_ledger, w) = (Ok r, demo_api_ledger\<lparr>categories := om_insert (cat_id c) c (categories demo_api_ledger)\<rparr>, w')
     \<and> om_get (categories demo_api_ledger) (cat_id c) \<noteq> Some c"
proof -
  let ?k = "fst (new_v4 w)"
  let ?c = "\<lparr>cat_id = ?k, cat_ledger = 30, cat_name = ''T'', cat_kind = ExpenseCategory\<rparr> :: category"
  have "om_get (ledgers demo_api_ledger) 30 = Some demo_public" by (simp add: demo_api_ledger_def demo_app_def)
  moreover have "authorized demo_api_ledger 7 demo_public action.CreateTransaction"
    by (simp add: authorized_def can_perform_def can_perform_organization_def demo_api_ledger_def demo_public_def demo_ms_def)
  moreover have "om_values (categories demo_api_ledger) = [demo_category]"
    by (simp add: demo_api_ledger_def demo_app_def om_values_def om_entries_insert om_entries_empty)
  moreover have "to_lowercase demo_env ''travel'' \<noteq> to_lowercase demo_env ''T''"
    by (simp add: demo_env_def to_ascii_lowercase_def)
  moreover have "om_get (categories demo_api_ledger) ?k \<noteq> Some ?c"
    by (simp add: demo_api_ledger_def demo_app_def demo_category_def)
  ultimately show ?thesis
    by (intro exI [of _ ?c]) (simp add: create_category_def trim_demo chars_count_def demo_category_def ok_or_def Let_def split_beta)
qed

theorem api_acts_as_authenticated_user_witness:
  "\<exists>w cmd. command_as 7 demo_api_request = Some (demo_headers ''T'', cmd)
    \<and> srv_ledger (server_step demo_route_env (demo_server demo_api_ledger demo_auth) demo_api_request)
      = fst (app_step demo_env (demo_api_ledger, w) cmd)"
proof -
  let ?\<sigma> = "demo_server demo_api_ledger demo_auth"
  let ?w = "aw_world (snd (snd (authenticate_access_token demo_auth_env ''T'' demo_auth)))"
  obtain c r w' where c: "create_category demo_env \<lparr>cc_actor = 7, cc_ledger = 30, cc_name = ''T'', cc_kind = ExpenseCategory\<rparr>
      (demo_api_ledger, ?w) = (Ok r, demo_api_ledger\<lparr>categories := om_insert (cat_id c) c (categories demo_api_ledger)\<rparr>, w')"
    "om_get (categories demo_api_ledger) (cat_id c) \<noteq> Some c"
    using demo_category_created by blast
  then have "srv_ledger (server_step demo_route_env ?\<sigma> demo_api_request) =
      demo_api_ledger\<lparr>categories := om_insert (cat_id c) c (categories demo_api_ledger)\<rparr>"
    by (simp add: demo_api_request_def api_create_category_def api_mutation_def demo_api_authenticate
      auth_user_dto_of_def AuthProperties.demo_user_def)
      (simp add: demo_server_def demo_route_env_def demo_auth_env_def lock_ledger_def store_call_def)
  then have "srv_ledger (server_step demo_route_env ?\<sigma> demo_api_request) \<noteq> srv_ledger ?\<sigma>"
    using c(2) by (auto dest: arg_cong [where f = "\<lambda>s. om_get (categories s) (cat_id c)"] simp: demo_server_def)
  from api_acts_as_authenticated_user [OF _ this, of 4 "demo_headers ''T''"] show ?thesis
    using demo_authenticate
    by (auto simp: demo_api_request_def demo_bearer demo_route_env_def demo_server_def auth_user_dto_of_def
      AuthProperties.demo_user_def demo_ae_env)
qed

section \<open>What the handlers do with a refused login or refresh\<close>

lemma check_refresh_rate_frame [simp]:
  "srv_auth (snd (check_refresh_rate re ip \<sigma>)) = srv_auth \<sigma>"
  "srv_ledger (snd (check_refresh_rate re ip \<sigma>)) = srv_ledger \<sigma>"
  "srv_stored (snd (check_refresh_rate re ip \<sigma>)) = srv_stored \<sigma>"
  "srv_auth_poisoned (snd (check_refresh_rate re ip \<sigma>)) = srv_auth_poisoned \<sigma>"
  by (simp_all add: check_refresh_rate_def server_instant_def attempt_def Let_def split_beta split: result.split)

text \<open>A refresh that the accounts refuse is answered with their error and changes nothing that lasts.\<close>

lemma refused_refresh:
  assumes "check_refresh_rate re ip \<sigma> = (Ok (), \<tau>)" "\<not> srv_auth_poisoned \<sigma>"
    and "fst (refresh_for_client (rt_auth re)
           \<lparr>fi_refresh_token = rr_refresh_token q, fi_installation = rr_installation q\<rparr> kind
           (srv_auth \<sigma>, srv_world \<tau>)) = Err e"
  shows "fst (refresh_route re ip q kind \<sigma>) = Err (from_auth e)
    \<and> srv_auth (snd (refresh_route re ip q kind \<sigma>)) = srv_auth \<sigma>
    \<and> srv_stored (snd (refresh_route re ip q kind \<sigma>)) = srv_stored \<sigma>"
  using assms check_refresh_rate_frame [of re ip \<sigma>]
  by (simp add: refresh_route_def lock_auth_def Let_def split_beta)

text \<open>
  C40: The handler answers a replayed refresh token with 401, but what the accounts decide on a replay, to revoke
  the token's whole family, happens on the clone that is thrown away: the accounts in memory and in storage
  are those before the request, so every other session of the family goes on.
\<close>

theorem replay_revocation_lost:
  assumes rate: "check_refresh_rate re ip \<sigma> = (Ok (), \<tau>)" and lock: "\<not> srv_auth_poisoned \<sigma>"
    and inst: "normalize_installation_id (rr_installation q) = Ok inst"
    and k: "om_get (access_tokens_by_refresh_token (srv_auth \<sigma>)) (token_digest (rt_auth re) (trim (rr_refresh_token q))) = Some k"
    and x: "om_get (sessions_by_access_token (srv_auth \<sigma>)) k = Some x" "ss_kind x = kind"
    and used: "ss_rotated_at x \<noteq> None \<or> ss_revoked_at x \<noteq> None"
  shows "fst (refresh_route re ip q kind \<sigma>) = Err (from_auth RefreshReplayDetected)
    \<and> srv_auth (snd (refresh_route re ip q kind \<sigma>)) = srv_auth \<sigma>
    \<and> srv_stored (snd (refresh_route re ip q kind \<sigma>)) = srv_stored \<sigma>"
  using inst k x used
  by (intro refused_refresh [OF rate lock]) (simp add: refresh_for_client_def Let_def)

definition demo_replay :: refresh_request where
  "demo_replay = \<lparr>rr_refresh_token = ''TT'', rr_installation = ''I''\<rparr>"

theorem replay_revocation_lost_witness:
  "srv_auth (snd (refresh_route demo_route_env 9 demo_replay Tauri (demo_server uninitialized (revoke_family 1000 demo_auth))))
     = fst (revoke_family 1000 demo_auth)
   \<and> fst (refresh_route demo_route_env 9 demo_replay Tauri (demo_server uninitialized (revoke_family 1000 demo_auth)))
     = Err (from_auth RefreshReplayDetected)"
proof -
  let ?\<sigma> = "demo_server uninitialized (revoke_family 1000 demo_auth)"
  obtain s w where d: "demo_auth = (s, w)" by fastforce
  note s = demo_auth_fst [unfolded d fst_conv]
  have "fst (check_security_memory env RefreshRate 9 0 []) = Ok ()" for env
    by (simp add: check_security_memory_def record_entry_def make_room_def max_tracked_keys_def record_failure_state_def
      failure_state_new_def active_retry_after_def failure_state_reset_def saturating_duration_since_def from_secs_def
      u32_max_def Let_def split_beta)
  then have rate: "check_refresh_rate demo_route_env 9 ?\<sigma> = (Ok (), snd (check_refresh_rate demo_route_env 9 ?\<sigma>))"
    by (simp add: check_refresh_rate_def server_instant_def demo_server_def Let_def split_beta)
  have dig: "token_digest (rt_auth demo_route_env) (trim (rr_refresh_token demo_replay)) = ''hTT''"
    by (simp add: demo_route_env_def demo_replay_def token_digest_def demo_auth_env_def trim_demo)
  have x: "om_get (sessions_by_access_token (srv_auth ?\<sigma>)) ''hT'' = Some (demo_session\<lparr>ss_revoked_at := Some (fst (auth_now w))\<rparr>)"
    by (simp add: demo_server_def d revoke_family_def Let_def split_beta get_revoke_where s demo_session_def)
  have k: "om_get (access_tokens_by_refresh_token (srv_auth ?\<sigma>)) ''hTT'' = Some ''hT''"
    by (simp add: demo_server_def d revoke_family_def Let_def split_beta revoke_where_def s)
  have "normalize_installation_id (rr_installation demo_replay) = Ok ''I''"
    by (simp add: demo_replay_def normalize_installation_id_def trim_demo)
  from replay_revocation_lost [OF rate _ this k [folded dig] x] show ?thesis
    by (simp add: demo_session_def demo_server_def)
qed

text \<open>The failures of a login are forgotten when the request is refused before the password is looked at.\<close>

lemma blank_installation_clears_failures:
  fixes re :: route_env and \<sigma> :: server
  defines "i \<equiv> login_identifier (rt_env re)"
  assumes "check_login_attempt re ip BusinessSurface (i (lr_email q) (lr_phone q)) \<sigma> = (Ok (), \<tau>)"
    and "login_challenge re ip (i (lr_email q) (lr_phone q)) (lr_turnstile q) \<tau> = (Ok (), \<tau>')" "\<not> srv_auth_poisoned \<tau>'"
    and "normalize_installation_id (lr_installation q) = Err e" "e \<noteq> InvalidCredentials"
    and "require_login_identifier (Option.bind (lr_email q) (auth_optional_email (rt_auth re)))
           (Option.bind (lr_phone q) auth_optional_phone) = Ok ()"
  shows "fst (login_route re ip q kind \<sigma>) = Err (from_auth e)
    \<and> map_of (failures_by_login (srv_protection (snd (login_route re ip q kind \<sigma>))))
        (login_key_new (rt_lp re) ip BusinessSurface (i (lr_email q) (lr_phone q))) = None"
  using assms
  by (simp add: login_route_def login_for_client_def lock_auth_def record_login_success_def record_success_def
    Let_def split_beta delete_conv)

end
