(* ===== verification/ReportProperties.thy ===== *)
theory ReportProperties
  imports Analytics TransactionProperties
begin

text \<open>
  What the reports promise: the analysis adds up, a period lists exactly the transactions that may be seen,
  and the overview shows nothing else.
\<close>

section \<open>The loop of the analysis\<close>

text \<open>The cash of a transaction moved in the last months, counted in whole months up to now.\<close>

definition cash_in_last :: "calendar \<Rightarrow> nat \<Rightarrow> instant \<Rightarrow> transaction \<Rightarrow> bool" where
  "cash_in_last cal months now t \<longleftrightarrow>
     (case transaction_cash_effective_at t of None \<Rightarrow> False
      | Some e \<Rightarrow> e \<le> now \<and> absolute_month cal now - int months < absolute_month cal e)"

definition spent :: "transaction \<Rightarrow> i64" where
  "spent t = (if 0 < sint (expense_part t) then expense_part t else 0)"

definition members_total :: "member_totals \<Rightarrow> i64" where
  "members_total m = sum_list (map fst (om_values m))"

lemma members_total_add: "members_total (add_member_expense u x m) = members_total m + x"
  by (cases "om_get m u") (auto simp: add_member_expense_def members_total_def om_sum_insert Let_def split_beta)

text \<open>What a run of the loop over transactions adds to the variables.\<close>

definition adds :: "(transaction \<Rightarrow> bool) \<Rightarrow> transaction list \<Rightarrow> analysis_totals \<Rightarrow> analysis_totals \<Rightarrow> bool" where
  "adds P ts v v' \<longleftrightarrow>
     tot_income v' = tot_income v + sum_list (map income_part (filter P ts))
     \<and> tot_expense v' = tot_expense v + sum_list (map expense_part (filter P ts))
     \<and> tot_count v' = tot_count v + length (filter P ts)
     \<and> length (tot_trend v') = length (tot_trend v)
     \<and> sum_list (map tp_income_minor (tot_trend v')) =
         sum_list (map tp_income_minor (tot_trend v)) + sum_list (map income_part (filter P ts))
     \<and> sum_list (map tp_expense_minor (tot_trend v')) =
         sum_list (map tp_expense_minor (tot_trend v)) + sum_list (map expense_part (filter P ts))
     \<and> members_total (tot_members v') = members_total (tot_members v) + sum_list (map spent (filter P ts))"

lemma sum_list_update_add:
  fixes x :: "'a::comm_monoid_add"
  assumes "n < length xs" "f y = f (xs ! n) + x"
  shows "sum_list (map f (xs[n := y])) = sum_list (map f xs) + x"
  using assms
proof (induction xs arbitrary: n)
  case (Cons a xs)
  then show ?case by (cases n) (auto simp: ac_simps)
qed simp

lemma add_to_trend_sums:
  assumes "0 \<le> i" "i < int (length trend)"
  shows "length (add_to_trend i a b trend) = length trend"
    and "sum_list (map tp_income_minor (add_to_trend i a b trend)) = sum_list (map tp_income_minor trend) + a"
    and "sum_list (map tp_expense_minor (add_to_trend i a b trend)) = sum_list (map tp_expense_minor trend) + b"
  using assms by (auto simp: add_to_trend_def intro!: sum_list_update_add)

lemma count_exposure_frame [simp]:
  "tot_income (count_exposure t v) = tot_income v" "tot_expense (count_exposure t v) = tot_expense v"
  "tot_count (count_exposure t v) = tot_count v" "tot_trend (count_exposure t v) = tot_trend v"
  "tot_members (count_exposure t v) = tot_members v"
  by (simp_all add: count_exposure_def split: approval_state.split payment_state.split)

lemma count_spender_frame [simp]:
  "tot_income (count_spender env s t e v) = tot_income v" "tot_expense (count_spender env s t e v) = tot_expense v"
  "tot_count (count_spender env s t e v) = tot_count v" "tot_trend (count_spender env s t e v) = tot_trend v"
  "members_total (tot_members (count_spender env s t e v)) = members_total (tot_members v) + spent t"
  by (simp_all add: count_spender_def spent_def members_total_add)

lemma count_previous_frame [simp]:
  "tot_income (count_previous p q t e v) = tot_income v" "tot_expense (count_previous p q t e v) = tot_expense v"
  "tot_count (count_previous p q t e v) = tot_count v" "tot_trend (count_previous p q t e v) = tot_trend v"
  "tot_members (count_previous p q t e v) = tot_members v"
  by (simp_all add: count_previous_def)

lemma count_cash_frame [simp]:
  "tot_income (count_cash t v) = tot_income v + income_part t" "tot_expense (count_cash t v) = tot_expense v + expense_part t"
  "tot_count (count_cash t v) = tot_count v + 1" "tot_trend (count_cash t v) = tot_trend v"
  "tot_members (count_cash t v) = tot_members v"
  by (simp_all add: count_cash_def)

text \<open>The period of an analysis.\<close>

definition analysis_period :: "calendar \<Rightarrow> nat \<Rightarrow> instant \<Rightarrow> instant \<Rightarrow> bool" where
  "analysis_period cal months now start \<longleftrightarrow>
     absolute_month cal start = absolute_month cal now - (int months - 1)
     \<and> (\<forall>t. start \<le> t \<longleftrightarrow> absolute_month cal now - (int months - 1) \<le> absolute_month cal t)"

lemma analysis_step_adds:
  assumes cal: "calendar_ok cal" and period: "analysis_period cal months now start"
    and len: "length (tot_trend v) = months"
    and step: "analysis_step cal env s previous start now t v = Ok v'"
  shows "adds (cash_in_last cal months now) [t] v v'"
proof (cases "transaction_cash_effective_at t")
  case None
  then have "v' = count_exposure t v" using step by (simp add: analysis_step_def)
  with None show ?thesis by (simp add: adds_def cash_in_last_def)
next
  case (Some e)
  have P: "cash_in_last cal months now t \<longleftrightarrow> e \<le> now \<and> start \<le> e"
  proof -
    have "start \<le> e \<longleftrightarrow> absolute_month cal now - (int months - 1) \<le> absolute_month cal e"
      using period unfolding analysis_period_def by blast
    then show ?thesis by (auto simp: cash_in_last_def Some)
  qed
  show ?thesis
  proof (cases "e < start \<or> now < e")
    case True
    then have "v' = count_previous previous start t e (count_exposure t v)"
      using step by (simp add: analysis_step_def Some Let_def)
    with True P show ?thesis by (auto simp: adds_def)
  next
    case False
    then have w: "start \<le> e" "e \<le> now" by auto
    define u where "u = count_cash t (count_previous previous start t e (count_exposure t v))"
    obtain m where m: "month_start cal e = (Ok m :: (instant, app_error) result)"
      and v': "v' = count_spender env s t e (u\<lparr>tot_trend := add_to_trend (month_distance cal start m)
        (income_part t) (expense_part t) (tot_trend u)\<rparr>)"
      using step False by (auto simp: analysis_step_def Some Let_def u_def attempt_pure_Ok)
    have "absolute_month cal start \<le> absolute_month cal e" "absolute_month cal e \<le> absolute_month cal now"
      using w period absolute_month_mono [OF cal w(2) m] by (auto simp: analysis_period_def)
    then have i: "0 \<le> month_distance cal start m" "month_distance cal start m < int (length (tot_trend u))"
      using month_start_Ok(1) [OF cal m] period len by (auto simp: month_distance_absolute analysis_period_def u_def)
    have "P t" if "P = cash_in_last cal months now" for P using P w that by simp
    then show ?thesis
      unfolding adds_def v' using add_to_trend_sums [OF i] by (simp add: u_def)
  qed
qed

lemma analysis_loop_adds:
  assumes cal: "calendar_ok cal" and period: "analysis_period cal months now start"
  shows "length (tot_trend v) = months \<Longrightarrow> fold_result (analysis_step cal env s previous start now) ts v = Ok v'
    \<Longrightarrow> adds (cash_in_last cal months now) ts v v'"
proof (induction ts arbitrary: v)
  case Nil
  then show ?case by (simp add: adds_def)
next
  case (Cons t ts)
  then obtain u where u: "analysis_step cal env s previous start now t v = Ok u"
    "fold_result (analysis_step cal env s previous start now) ts u = Ok v'" by (auto simp: inversion)
  have 1: "adds (cash_in_last cal months now) [t] v u"
    by (rule analysis_step_adds [OF cal period Cons.prems(1) u(1)])
  then have "adds (cash_in_last cal months now) ts u v'"
    using Cons.prems(1) by (intro Cons.IH u(2)) (simp add: adds_def)
  with 1 show ?case by (auto simp: adds_def ac_simps)
qed

lemma empty_trend_sums:
  assumes "empty_trend cal start months = Ok trend"
  shows "length trend = months" "sum_list (map tp_income_minor trend) = 0" "sum_list (map tp_expense_minor trend) = 0"
proof -
  let ?f = "\<lambda>offset. attempt_pure (shift_month_start cal start (int offset)) id
      (\<lambda>start. Ok (empty_trend_point cal start) :: (trend_point, app_error) result)"
  from assms have eq: "map ?f [0..<months] = map Ok trend"
    by (simp add: empty_trend_def map_result_Ok)
  from arg_cong [OF this, of length] show "length trend = months" by simp
  have zero: "tp_income_minor p = 0 \<and> tp_expense_minor p = 0" if "p \<in> set trend" for p
  proof -
    from that have "Ok p \<in> set (map ?f [0..<months])" unfolding eq by simp
    then obtain offset where "?f offset = Ok p" by (metis (no_types, lifting) imageE set_map)
    then show ?thesis by (auto simp: attempt_pure_Ok empty_trend_point_def)
  qed
  then have "map tp_income_minor trend = map (\<lambda>_. 0) trend" "map tp_expense_minor trend = map (\<lambda>_. 0) trend"
    by simp_all
  then show "sum_list (map tp_income_minor trend) = 0" "sum_list (map tp_expense_minor trend) = 0"
    by (simp_all only: sum_list_0)
qed

lemma members_start: "members_total (business_members_for_ledger s l) = 0"
proof -
  have "\<forall>v \<in> set (om_values (fold (\<lambda>(k, v). om_insert k v) (map (\<lambda>m. (ms_user m, (0, 0))) ms) m)). fst v = (0 :: i64)"
    if "\<forall>v \<in> set (om_values m). fst v = 0" for m :: member_totals and ms
    using that
  proof (induction ms arbitrary: m)
    case (Cons a ms)
    then have "\<forall>v \<in> set (om_values (om_insert (ms_user a) (0, 0) m)). fst v = (0 :: i64)"
      by (auto simp: om_in_values split: if_splits)
    from Cons.IH [OF this] show ?case by simp
  qed simp
  from this [of om_empty] have "\<forall>v \<in> set (om_values (business_members_for_ledger s l)). fst v = 0"
    by (auto simp: business_members_for_ledger_def om_collect_def split: option.split)
  then have "map fst (om_values (business_members_for_ledger s l)) = map (\<lambda>_. 0) (om_values (business_members_for_ledger s l))"
    by simp
  then show ?thesis by (simp only: members_total_def sum_list_0)
qed

lemma member_expense_sum: "sum_list (map me_expense_minor (member_expense_dtos env s m)) = members_total m"
  by (simp add: member_expense_dtos_def members_total_def om_values_def comp_def split_beta)

lemma close_trend_sums:
  "length (close_trend trend) = length trend"
  "sum_list (map tp_income_minor (close_trend trend)) = sum_list (map tp_income_minor trend)"
  "sum_list (map tp_expense_minor (close_trend trend)) = sum_list (map tp_expense_minor trend)"
  "sum_list (map tp_net_minor (close_trend trend)) =
     sum_list (map tp_income_minor trend) - sum_list (map tp_expense_minor trend)"
  by (simp_all add: close_trend_def comp_def sum_list_subtractf)

text \<open>
  C24: The financial analysis adds up: it is given only to who may see the analytics, has one point for each
  month asked for, and its income, expense, net and count are those of exactly the transactions of the ledger
  whose cash moved in these months up to now; the points of the trend sum to the totals (no transaction falls
  between the months), the members' expenses sum to the positive expenses, and the current balance is the sum
  of the balances of the accounts.
\<close>

theorem analysis_adds_up:
  assumes cal: "calendar_ok cal" and result: "financial_analysis cal env actor ledger months s w = (Ok r, w')"
    and ts: "ts = filter (cash_in_last cal months (fst (now_utc w))) (ledger_transactions s ledger)"
  shows "(\<exists>l. om_get (ledgers s) ledger = Some l \<and> authorized s actor l ViewFinancialAnalytics)
    \<and> length (fn_trend r) = months
    \<and> fn_income_minor r = sum_list (map income_part ts) \<and> fn_expense_minor r = sum_list (map expense_part ts)
    \<and> fn_net_minor r = fn_income_minor r - fn_expense_minor r \<and> fn_transaction_count r = length ts
    \<and> sum_list (map tp_income_minor (fn_trend r)) = fn_income_minor r
    \<and> sum_list (map tp_expense_minor (fn_trend r)) = fn_expense_minor r
    \<and> sum_list (map tp_net_minor (fn_trend r)) = fn_net_minor r
    \<and> sum_list (map me_expense_minor (fn_member_expenses r)) = sum_list (map spent ts)
    \<and> fn_current_balance_minor r = sum_list (map (account_balance_minor s)
        (filter (\<lambda>a. fa_ledger a = ledger \<and> fa_deleted_at a = None) (om_values (accounts s))))"
proof -
  let ?now = "fst (now_utc w)" and ?none = "\<lparr>ex_count = 0, ex_amount_minor = 0\<rparr>"
  obtain l c start trend v where l: "analytics_ledger s actor ledger = Ok l"
    and c: "month_start cal ?now = (Ok c :: (instant, app_error) result)"
    and start: "shift_month_start cal c (- (int months - 1)) = (Ok start :: (instant, app_error) result)"
    and trend: "empty_trend cal start months = Ok trend"
    and loop: "fold_result (analysis_step cal env s (start - (?now - start)) start ?now) (ledger_transactions s ledger)
        \<lparr>tot_income = 0, tot_expense = 0, tot_previous_income = 0, tot_previous_expense = 0, tot_count = 0,
         tot_pending_approval = ?none, tot_pending_payment = ?none, tot_paid_pending_receipt = ?none,
         tot_trend = trend, tot_members = business_members_for_ledger s l, tot_largest = []\<rparr> = Ok v"
    and r: "fn_trend r = close_trend (tot_trend v)" "fn_income_minor r = tot_income v" "fn_expense_minor r = tot_expense v"
      "fn_net_minor r = tot_income v - tot_expense v" "fn_transaction_count r = tot_count v"
      "fn_member_expenses r = member_expense_dtos env s (tot_members v)"
      "fn_current_balance_minor r = sum_list (map aa_balance_minor (analysis_accounts env s ledger))"
    using result unfolding financial_analysis_def Let_def split_beta by (auto simp: inversion split: if_splits)
  have eq: "absolute_month cal c + - (int months - 1) = absolute_month cal ?now - (int months - 1)"
    using month_start_Ok(1) [OF cal c] by simp
  from shift_month_start_Ok [OF cal start, unfolded eq] have "analysis_period cal months ?now start"
    unfolding analysis_period_def by blast
  from analysis_loop_adds [OF cal this _ loop] empty_trend_sums [OF trend]
  have "adds (cash_in_last cal months ?now) (ledger_transactions s ledger)
     \<lparr>tot_income = 0, tot_expense = 0, tot_previous_income = 0, tot_previous_expense = 0, tot_count = 0,
         tot_pending_approval = ?none, tot_pending_payment = ?none, tot_paid_pending_receipt = ?none,
         tot_trend = trend, tot_members = business_members_for_ledger s l, tot_largest = []\<rparr> v" by simp
  then have v: "tot_income v = sum_list (map income_part ts)" "tot_expense v = sum_list (map expense_part ts)"
    "tot_count v = length ts" "length (tot_trend v) = months"
    "sum_list (map tp_income_minor (tot_trend v)) = sum_list (map income_part ts)"
    "sum_list (map tp_expense_minor (tot_trend v)) = sum_list (map expense_part ts)"
    "members_total (tot_members v) = sum_list (map spent ts)"
    using empty_trend_sums [OF trend] by (simp_all add: adds_def ts members_start)
  have "sum_list (map aa_balance_minor (analysis_accounts env s ledger)) = sum_list (map (account_balance_minor s)
        (filter (\<lambda>a. fa_ledger a = ledger \<and> fa_deleted_at a = None) (om_values (accounts s))))"
    by (simp add: analysis_accounts_def comp_def)
  moreover have "\<exists>l. om_get (ledgers s) ledger = Some l \<and> authorized s actor l ViewFinancialAnalytics"
    using l by (auto simp: analytics_ledger_def inversion split: if_splits)
  ultimately show ?thesis by (simp add: r v close_trend_sums member_expense_sum)
qed

text \<open>The company after its expense is paid and received, looked at some nanoseconds later by its owner.\<close>

definition demo_later :: world where
  "demo_later = demo_world\<lparr>clock := \<lambda>_. 10\<rparr>"

lemma demo_end_state:
  "om_values (transactions (fst demo_end)) = [demo_tx\<lparr>approval_state := Approved, payment_state := Received,
     approved_by := Some 4, approved_at := Some 1, paid_by := Some 3, paid_at := Some 3, received_by := Some 2,
     received_at := Some 5, tx_updated_at := 5, tx_version := 4\<rparr>]"
  "memberships (fst demo_end) = memberships demo_app" "users (fst demo_end) = users demo_app"
  by (simp_all add: demo_end_def demo_approve_def demo_pay_def demo_receive_def demo_op_defs demo_state_defs
    om_values_def om_entries_insert om_entries_empty)

lemma demo_analytics_ledger: "analytics_ledger (fst demo_end) 4 30 = Ok demo_public"
  by (simp add: analytics_ledger_def demo_end_tx(2) authorized_def can_perform_def can_perform_organization_def
    demo_end_state(2) demo_app_def demo_public_def demo_ms_def)

lemma demo_dates:
  "month_start demo_calendar 10 = Ok 0" "month_start demo_calendar 3 = Ok 0"
  "shift_month_start demo_calendar 0 (- 2) = Ok (- 2 * demo_month_length)"
  "shift_month_start demo_calendar (- 2 * demo_month_length) 0 = Ok (- 2 * demo_month_length)"
  "shift_month_start demo_calendar (- 2 * demo_month_length) 1 = Ok (- demo_month_length)"
  "shift_month_start demo_calendar (- 2 * demo_month_length) 2 = Ok 0"
  by (simp_all add: month_start_def shift_month_start_def calendar_month_start_def demo_calendar_def local_year_def
    local_month_def demo_month_length_def)

lemma demo_analysis_Ok:
  "\<exists>r w'. financial_analysis demo_calendar demo_env 4 30 3 (fst demo_end) demo_later = (Ok r, w')"
proof -
  have now: "now_utc demo_later = (10, demo_later)" by (simp add: now_utc_def demo_later_def)
  have upt: "[0..<3] = [0, 1, 2::nat]" by (simp add: upt_rec)
  have trend: "empty_trend demo_calendar (- 2 * demo_month_length) 3 = Ok (map (empty_trend_point demo_calendar)
      [- 2 * demo_month_length, - demo_month_length, 0])"
    by (simp add: empty_trend_def upt demo_dates [simplified])
  have loop: "\<exists>v'. fold_result (analysis_step demo_calendar demo_env (fst demo_end) p (- (2 * demo_month_length)) 10)
      (ledger_transactions (fst demo_end) 30) v = Ok v'" for p v
    by (simp add: demo_dates(2) ledger_transactions_def demo_end_state analysis_step_def transaction_cash_effective_at_def demo_tx_def
      Let_def demo_month_length_def)
  have finish: "\<exists>a w'. attempt x id demo_later (\<lambda>v. (Ok (g v), demo_later)) = (Ok a, w')" if "\<exists>v. x = Ok v"
    for x :: "(analysis_totals, app_error) result" and g :: "analysis_totals \<Rightarrow> financial_analysis_dto"
    using that by auto
  show ?thesis
    by (simp add: financial_analysis_def demo_analytics_ledger now demo_dates trend [simplified] Let_def)
      (rule finish, rule loop)
qed

theorem analysis_adds_up_witness:
  "\<exists>r w'. financial_analysis demo_calendar demo_env 4 30 3 (fst demo_end) demo_later = (Ok r, w')
    \<and> length (fn_trend r) = 3 \<and> fn_net_minor r = - 100 \<and> sum_list (map tp_net_minor (fn_trend r)) = - 100"
proof -
  obtain r w' where r: "financial_analysis demo_calendar demo_env 4 30 3 (fst demo_end) demo_later = (Ok r, w')"
    using demo_analysis_Ok by blast
  have "absolute_month demo_calendar 10 = absolute_month demo_calendar 3"
    by (simp add: absolute_month_def local_year_def local_month_def demo_calendar_def demo_month_length_def)
  then have "map expense_part (filter (cash_in_last demo_calendar 3 (fst (now_utc demo_later)))
      (ledger_transactions (fst demo_end) 30)) = [100]"
    "map income_part (filter (cash_in_last demo_calendar 3 (fst (now_utc demo_later)))
      (ledger_transactions (fst demo_end) 30)) = [0]"
    by (simp_all add: ledger_transactions_def demo_end_state cash_in_last_def transaction_cash_effective_at_def
      demo_tx_def demo_cny_money_def now_utc_def demo_later_def expense_part_def income_part_def)
  with analysis_adds_up [OF demo_calendar_ok r refl] r show ?thesis by simp
qed

section \<open>A period\<close>

definition newer :: "transaction_dto \<Rightarrow> transaction_dto \<Rightarrow> bool" where
  "newer a b \<longleftrightarrow> td_occurred_at b < td_occurred_at a \<or> (td_occurred_at a = td_occurred_at b \<and> td_id b \<le> td_id a)"

lemma sorted_newest_first: "sorted_wrt newer (newest_first ds)"
  unfolding newest_first_def newer_def [abs_def]
  by (rule sorted_sort_by) (auto simp: transp_def)

text \<open>
  The transactions of a month or a day are exactly those of the ledger that are not deleted, that the actor
  may see and that happened in the month (on the day), newest first; they are given only to who may view the
  ledger, for a month of the calendar, and a month that has any is among the months offered.
\<close>

theorem period_lists_exactly:
  assumes result: "transactions_for_period cal env actor ledger requested_month requested_day s w = (Ok r, w')"
  shows "(\<exists>l. om_get (ledgers s) ledger = Some l \<and> authorized s actor l ViewLedger)
    \<and> mset (tm_transactions r) = image_mset (transaction_dto_of env s)
        (filter_mset (\<lambda>t. tx_ledger t = ledger \<and> tx_deleted_at t = None \<and> transaction_visible_to_actor s actor t
           \<and> month_key cal (occurred_at t) = tm_month r
           \<and> (tm_day r = None \<or> tm_day r = Some (day_key cal (occurred_at t)))) (mset (om_values (transactions s))))
    \<and> sorted_wrt newer (tm_transactions r)
    \<and> tm_day r = requested_day \<and> (requested_month = None \<or> requested_month = Some (tm_month r))
    \<and> parse_month_key cal (tm_month r) \<noteq> None
    \<and> (tm_transactions r \<noteq> [] \<longrightarrow> tm_month r \<in> set (tm_available_months r))"
proof -
  let ?shown = "shown_transactions s actor ledger"
  obtain l where l: "om_get (ledgers s) ledger = Some l" "authorized s actor l ViewLedger"
    and day: "select_day cal requested_day = Ok (tm_day r)"
    and month: "tm_month r = selected_month (month_key cal (fst (now_utc w))) requested_month (tm_day r)"
      "parse_month_key cal (tm_month r) \<noteq> None"
    and ts: "tm_transactions r = newest_first (map (transaction_dto_of env s)
        (filter (\<lambda>t. case tm_day r of None \<Rightarrow> True | Some d \<Rightarrow> day_key cal (occurred_at t) = d)
          (filter (\<lambda>t. month_key cal (occurred_at t) = tm_month r) ?shown)))"
    and months: "tm_available_months r = descending_set (map (\<lambda>t. month_key cal (occurred_at t)) ?shown)"
    using result unfolding transactions_for_period_def Let_def split_beta
    by (auto simp: inversion split: if_splits)
  have "tm_day r = requested_day" using day by (auto simp: select_day_def split: option.splits if_splits)
  moreover have "requested_month = None \<or> requested_month = Some (tm_month r)"
    using month(1) by (auto simp: selected_month_def split: option.splits)
  moreover have "mset (tm_transactions r) = image_mset (transaction_dto_of env s)
        (filter_mset (\<lambda>t. tx_ledger t = ledger \<and> tx_deleted_at t = None \<and> transaction_visible_to_actor s actor t
           \<and> month_key cal (occurred_at t) = tm_month r
           \<and> (tm_day r = None \<or> tm_day r = Some (day_key cal (occurred_at t)))) (mset (om_values (transactions s))))"
    unfolding ts newest_first_def mset_sort_by mset_map mset_filter shown_transactions_def filter_filter_mset
    by (rule arg_cong [where f = "image_mset _"], rule filter_mset_cong) (auto split: option.splits)
  moreover have "tm_month r \<in> set (tm_available_months r)" if "tm_transactions r \<noteq> []"
  proof -
    from that have "set (tm_transactions r) \<noteq> {}" by simp
    then obtain t where "t \<in> set ?shown" "month_key cal (occurred_at t) = tm_month r"
      unfolding ts newest_first_def set_sort_by set_map set_filter by blast
    then show ?thesis by (force simp: months descending_set_def)
  qed
  moreover have "sorted_wrt newer (tm_transactions r)" unfolding ts by (rule sorted_newest_first)
  ultimately show ?thesis using l month(2) by blast
qed

text \<open>The employee looks at the month of the taxi ride.\<close>

lemma demo_month:
  "month_key demo_calendar 0 = ''0000-01''" "parse_month_key demo_calendar ''0000-01'' = Some (0, 1)"
  by code_simp+

theorem period_lists_exactly_witness:
  "\<exists>r w'. transactions_for_period demo_calendar demo_env 2 30 (Some ''0000-01'') None demo_app demo_later = (Ok r, w')
    \<and> tm_transactions r = [transaction_dto_of demo_env demo_app demo_tx]"
proof -
  have l: "om_get (ledgers demo_app) 30 = Some demo_public" by (simp add: demo_app_def)
  have visible: "authorized demo_app 2 demo_public ViewLedger"
    by (simp add: authorized_def can_perform_def can_perform_organization_def demo_app_def demo_public_def demo_ms_def)
  then obtain r w' where r: "transactions_for_period demo_calendar demo_env 2 30 (Some ''0000-01'') None demo_app demo_later = (Ok r, w')"
    "tm_month r = ''0000-01''" "tm_day r = None"
    by (auto simp: transactions_for_period_def l select_day_def selected_month_def demo_month Let_def split_beta)
  have "transaction_visible_to_actor demo_app 2 demo_tx"
    using visible l by (simp add: transaction_visible_to_actor_def demo_tx_def demo_public_def)
  then have "mset (tm_transactions r) = {#transaction_dto_of demo_env demo_app demo_tx#}"
    using period_lists_exactly [OF r(1)] demo_month(1) by (simp add: r(2,3) demo_values) (simp add: demo_tx_def)
  with r(1) show ?thesis by simp
qed

section \<open>The overview\<close>

lemma visible_ledger_ids_iff:
  assumes keyed: "om_keyed lg_id (ledgers s)" and parse: "\<And>u. parse_uuid env (uuid_to_string env u) = Some u"
  shows "k \<in> set (visible_ledger_ids env s actor) \<longleftrightarrow> (\<exists>l. om_get (ledgers s) k = Some l \<and> authorized s actor l ViewLedger)"
proof -
  have "set (visible_ledger_ids env s actor) = lg_id ` {l \<in> set (om_values (ledgers s)). authorized s actor l ViewLedger}"
    by (auto simp: visible_ledger_ids_def visible_ledgers_def map_filter_map_filter [symmetric] map_filter_def
      ledger_dto_of_def parse Let_def)
  then show ?thesis using om_keyedD [OF keyed] by (auto simp: om_in_values image_iff) 
qed

lemma approval_state_name_submitted: "approval_state_name x = ''submitted'' \<longleftrightarrow> x = Submitted"
  by (cases x) auto

text \<open>
  C33: The overview shows a user only what the user may see: ledgers the user may view, accounts and categories
  of such ledgers (a balance only where the user may view balances), transactions visible to the user, and
  audit records of ledgers whose log the user may view; and it misses none of the visible transactions that
  wait for approval.
\<close>

theorem overview_shows_only_visible:
  assumes maps: "maps_ok s" and parse: "\<And>u. parse_uuid env (uuid_to_string env u) = Some u"
    and view: "overview cal env actor s w = (v, w')"
  shows "(\<forall>d \<in> set (ov_ledgers v). \<exists>l. om_get (ledgers s) (lg_id l) = Some l \<and> authorized s actor l ViewLedger
        \<and> d = ledger_dto_of env s actor l)
    \<and> (\<forall>d \<in> set (ov_accounts v). \<exists>a l. om_get (ledgers s) (fa_ledger a) = Some l \<and> authorized s actor l ViewLedger
        \<and> d = account_dto_of env s actor a \<and> (acd_balance_minor d \<noteq> None \<longrightarrow> can_view_balances s actor l))
    \<and> (\<forall>d \<in> set (ov_categories v). \<exists>c l. om_get (ledgers s) (cat_ledger c) = Some l \<and> authorized s actor l ViewLedger
        \<and> d = category_dto_of env c)
    \<and> (\<forall>d \<in> set (ov_transactions v). \<exists>t \<in> set (om_values (transactions s)). transaction_visible_to_actor s actor t
        \<and> d = transaction_dto_of env s t)
    \<and> (\<forall>d \<in> set (ov_audit_logs v). \<exists>a \<in> set (audit_logs s). \<exists>l. om_get (ledgers s) (al_ledger a) = Some l
        \<and> authorized s actor l ViewAuditLog \<and> audit_visible_to_actor s actor a \<and> d = audit_dto_of env s a)
    \<and> ov_pending_approval_count v = length (filter (\<lambda>t. transaction_visible_to_actor s actor t \<and> approval_state t = Submitted)
        (om_values (transactions s)))"
proof -
  have keyed: "om_keyed lg_id (ledgers s)" using maps by (simp add: maps_ok_def)
  note ids = visible_ledger_ids_iff [OF keyed parse]
  have v: "v = fst (overview cal env actor s w)" by (simp add: view)
  have ledgers: "\<forall>d \<in> set (ov_ledgers v). \<exists>l. om_get (ledgers s) (lg_id l) = Some l \<and> authorized s actor l ViewLedger
        \<and> d = ledger_dto_of env s actor l"
    using om_keyedD [OF keyed] by (fastforce simp: v overview_def Let_def split_beta visible_ledgers_def om_in_values)
  have accounts: "\<forall>d \<in> set (ov_accounts v). \<exists>a l. om_get (ledgers s) (fa_ledger a) = Some l \<and> authorized s actor l ViewLedger
        \<and> d = account_dto_of env s actor a \<and> (acd_balance_minor d \<noteq> None \<longrightarrow> can_view_balances s actor l)"
  proof
    fix d assume "d \<in> set (ov_accounts v)"
    then obtain a l where "om_get (ledgers s) (fa_ledger a) = Some l" "authorized s actor l ViewLedger"
      "d = account_dto_of env s actor a" by (auto simp: v overview_def Let_def split_beta ids)
    then show "\<exists>a l. om_get (ledgers s) (fa_ledger a) = Some l \<and> authorized s actor l ViewLedger
        \<and> d = account_dto_of env s actor a \<and> (acd_balance_minor d \<noteq> None \<longrightarrow> can_view_balances s actor l)"
      by (intro exI [of _ a] exI [of _ l]) (auto simp: account_dto_of_def Let_def split: if_splits)
  qed
  have audits: "\<forall>d \<in> set (ov_audit_logs v). \<exists>a \<in> set (audit_logs s). \<exists>l. om_get (ledgers s) (al_ledger a) = Some l
        \<and> authorized s actor l ViewAuditLog \<and> audit_visible_to_actor s actor a \<and> d = audit_dto_of env s a"
    by (auto simp: v overview_def Let_def split_beta audit_in_overview_def split: option.splits)
  have "transaction_visible_to_actor s actor t \<Longrightarrow> tx_ledger t \<in> set (visible_ledger_ids env s actor)" for t
    by (auto simp: ids transaction_visible_to_actor_def split: option.splits if_splits)
  then have "ov_pending_approval_count v = length (filter (\<lambda>t. transaction_visible_to_actor s actor t \<and> approval_state t = Submitted)
        (om_values (transactions s)))"
    by (auto simp: v overview_def Let_def split_beta filter_map comp_def transaction_dto_of_def approval_state_name_submitted
      in_overview_def intro!: arg_cong [where f = length] filter_cong)
  moreover have "\<forall>d \<in> set (ov_categories v). \<exists>c l. om_get (ledgers s) (cat_ledger c) = Some l \<and> authorized s actor l ViewLedger
        \<and> d = category_dto_of env c"
    by (auto simp: v overview_def Let_def split_beta ids)
  moreover have "\<forall>d \<in> set (ov_transactions v). \<exists>t \<in> set (om_values (transactions s)). transaction_visible_to_actor s actor t
        \<and> d = transaction_dto_of env s t"
    by (auto simp: v overview_def Let_def split_beta in_overview_def)
  ultimately show ?thesis using ledgers accounts audits by blast
qed

text \<open>Identifiers in unary, which can be read back.\<close>

definition demo_report_env :: env where
  "demo_report_env = demo_env\<lparr>uuid_to_string := \<lambda>u. replicate u (CHR ''1''), parse_uuid := \<lambda>t. Some (length t)\<rparr>"

theorem overview_shows_only_visible_witness:
  "\<exists>v w'. overview demo_calendar demo_report_env 2 demo_app demo_later = (v, w') \<and> ov_pending_approval_count v = 1"
proof -
  obtain v w' where v: "overview demo_calendar demo_report_env 2 demo_app demo_later = (v, w')" by fastforce
  have "transaction_visible_to_actor demo_app 2 demo_tx"
    by (simp add: transaction_visible_to_actor_def demo_app_def demo_tx_def demo_public_def demo_ms_def authorized_def
      can_perform_def can_perform_organization_def)
  moreover have "parse_uuid demo_report_env (uuid_to_string demo_report_env u) = Some u" for u
    by (simp add: demo_report_env_def)
  ultimately have "ov_pending_approval_count v = 1"
    using overview_shows_only_visible [OF demo_maps _ v] by (simp add: demo_values demo_tx_def)
  with v show ?thesis by blast
qed

end
