(* ===== verification/LockProperties.thy ===== *)
theory LockProperties
  imports ApiProperties ReportProperties
begin

text \<open>
  What a panic does to the server: a report that panics runs while the lock of the ledger service is held, so the
  lock is poisoned, no handler clears it, and nothing that needs the ledger works until the server is restarted.
\<close>

section \<open>A poisoned lock stays poisoned\<close>

definition frozen :: "app_ledger_service \<Rightarrow> server \<Rightarrow> bool" where
  "frozen l \<sigma> \<longleftrightarrow> srv_ledger_poisoned \<sigma> \<and> srv_ledger \<sigma> = l"

lemma frozen_attempt: "frozen l s \<Longrightarrow> (\<And>a. r = Ok a \<Longrightarrow> frozen l (snd (k a))) \<Longrightarrow> frozen l (snd (attempt r conv s k))"
  by (cases r) auto

lemma frozen_perform:
  "frozen l (snd x) \<Longrightarrow> (\<And>a s. frozen l s \<Longrightarrow> frozen l (snd (k a s))) \<Longrightarrow> frozen l (snd (perform x conv k))"
  by (cases x; cases "fst x") auto

lemma frozen_frame [simp]:
  "frozen l (\<sigma>\<lparr>srv_world := w\<rparr>) = frozen l \<sigma>" "frozen l (\<sigma>\<lparr>srv_protection := p\<rparr>) = frozen l \<sigma>"
  "frozen l (\<sigma>\<lparr>srv_rate_limits := m\<rparr>) = frozen l \<sigma>" "frozen l (\<sigma>\<lparr>srv_instants := f\<rparr>) = frozen l \<sigma>"
  "frozen l (\<sigma>\<lparr>srv_stored := st\<rparr>) = frozen l \<sigma>" "frozen l (\<sigma>\<lparr>srv_auth := a\<rparr>) = frozen l \<sigma>"
  by (simp_all add: frozen_def)

lemma frozen_lock: "frozen l \<sigma> \<Longrightarrow> attempt (lock_ledger \<sigma>) id \<sigma> k = (Err (internal_error ''ledger service lock poisoned''), \<sigma>)"
  by (simp add: frozen_def lock_ledger_def)

lemma frozen_poisoned: "frozen l \<sigma> \<Longrightarrow> srv_ledger_poisoned \<sigma>"
  by (simp add: frozen_def)

lemma record_login_success_poisoned [simp]:
  "srv_ledger_poisoned (record_login_success re ip surface identifier \<sigma>) = srv_ledger_poisoned \<sigma>"
  by (simp add: record_login_success_def)

lemma frozen_persist:
  "srv_ledger_poisoned \<sigma> \<Longrightarrow> persist_auth_and_ledger_identity re staged z \<sigma>
     = (Err (internal_error ''ledger service lock poisoned''), \<sigma>)"
  by (simp add: persist_auth_and_ledger_identity_def lock_ledger_def)

lemma frozen_checks:
  assumes "frozen l \<sigma>"
  shows "frozen l (snd (check_login_attempt re ip surface identifier \<sigma>))"
    and "frozen l (snd (login_challenge re ip identifier token \<sigma>))"
    and "frozen l (snd (check_refresh_rate re ip \<sigma>))"
    and "frozen l (snd (record_login_failure re ip surface identifier \<sigma>))"
    and "frozen l (record_login_success re ip surface identifier \<sigma>)"
    and "frozen l (snd (authenticate re headers \<sigma>))"
    and "frozen l (snd (store_call f \<sigma>))"
    and "frozen l (snd (replace_auth re staged \<sigma>))"
  using assms
  by (simp_all add: check_login_attempt_def login_challenge_def check_refresh_rate_def record_login_failure_def
    record_login_success_def authenticate_def route_challenge_required_def server_instant_def store_call_def
    replace_auth_def perform_def Let_def split_beta attempt_def split: result.splits)

text \<open>A login gets as far as saving the session and fails there, if it has not failed before.\<close>

lemma failing_perform:
  "frozen l (snd x) \<Longrightarrow> (\<And>a s. frozen l s \<Longrightarrow> frozen l (snd (k a s)) \<and> \<not> is_ok (fst (k a s)))
     \<Longrightarrow> frozen l (snd (perform x conv k)) \<and> \<not> is_ok (fst (perform x conv k))"
  by (cases x; cases "fst x") auto

lemma failing_attempt:
  "frozen l s \<Longrightarrow> (\<And>a. frozen l (snd (k a)) \<and> \<not> is_ok (fst (k a)))
     \<Longrightarrow> frozen l (snd (attempt r conv s k)) \<and> \<not> is_ok (fst (attempt r conv s k))"
  by (cases r) auto

lemma frozen_login:
  assumes "frozen l \<sigma>"
  shows "frozen l (snd (login_route re ip q kind \<sigma>)) \<and> \<not> is_ok (fst (login_route re ip q kind \<sigma>))"
  unfolding login_route_def Let_def [of "login_identifier _ _ _"]
  by (rule failing_perform, rule frozen_checks(1) [OF assms], rule failing_perform, erule frozen_checks(2),
    rule failing_attempt, assumption)
    (auto simp: Let_def split_beta frozen_persist frozen_poisoned frozen_checks split: result.split)

lemma frozen_refresh: "frozen l \<sigma> \<Longrightarrow> frozen l (snd (refresh_route re ip q kind \<sigma>))"
  unfolding refresh_route_def
  by (rule frozen_perform, simp add: frozen_checks, rule frozen_attempt, assumption)
    (auto simp: Let_def split_beta frozen_persist frozen_poisoned intro!: frozen_attempt)

lemma frozen_ledger_requests:
  assumes "frozen l \<sigma>"
  shows "frozen l (snd (api_mutation re headers operation \<sigma>))" and "frozen l (snd (with_ledger report \<sigma>))"
    and "\<not> is_ok (fst (api_mutation re headers operation \<sigma>))" and "\<not> is_ok (fst (with_ledger report \<sigma>))"
proof -
  have a: "frozen l (snd (authenticate re headers \<sigma>))" using assms by (rule frozen_checks)
  then show "frozen l (snd (api_mutation re headers operation \<sigma>))" "\<not> is_ok (fst (api_mutation re headers operation \<sigma>))"
    by (cases "authenticate re headers \<sigma>"; cases "fst (authenticate re headers \<sigma>)"; simp add: api_mutation_def frozen_lock)+
  show "frozen l (snd (with_ledger report \<sigma>))" "\<not> is_ok (fst (with_ledger report \<sigma>))"
    using assms by (simp_all add: with_ledger_def frozen_lock)
qed

lemma frozen_account_requests:
  assumes "frozen l \<sigma>"
  shows "frozen l (snd (web_login re ctx q \<sigma>))" and "frozen l (snd (web_refresh re ctx h inst \<sigma>))"
    and "frozen l (snd (me re h \<sigma>))" and "frozen l (snd (update_me re h name \<sigma>))"
    and "frozen l (snd (tauri_logout re h \<sigma>))" and "frozen l (snd (web_logout re ctx h \<sigma>))"
  using assms
  by (auto simp: web_login_def web_refresh_def me_def update_me_def tauri_logout_def web_logout_def Let_def split_beta
    frozen_login frozen_refresh frozen_checks frozen_persist frozen_poisoned split: option.split
    intro!: frozen_attempt frozen_perform)

lemma frozen_reports:
  assumes "frozen l \<sigma>"
  shows "frozen l (snd (api_overview re h \<sigma>))" and "frozen l (snd (api_financial_analysis re h k n \<sigma>))"
    and "frozen l (snd (api_financial_month_detail re h k m \<sigma>))" and "frozen l (snd (api_financial_member_detail re h k n u \<sigma>))"
    and "frozen l (snd (api_transactions_for_month re h k mo d \<sigma>))" and "frozen l (snd (api_audit_period re h k g p \<sigma>))"
  using assms
  by (auto simp: api_overview_def api_financial_analysis_def api_financial_month_detail_def api_financial_member_detail_def
    api_transactions_for_month_def api_audit_period_def frozen_checks frozen_ledger_requests
    intro!: frozen_attempt frozen_perform)

lemma frozen_step:
  assumes "frozen l \<sigma>"
  shows "frozen l (server_step re \<sigma> q)"
  using assms
  by (cases q) (simp_all add: tauri_login_def tauri_refresh_def api_create_category_def api_create_transaction_def
    api_decide_approval_def api_mark_transaction_paid_def api_void_transaction_def api_confirm_transaction_receipt_def
    frozen_login frozen_refresh frozen_ledger_requests frozen_account_requests frozen_reports)

interpretation frozen: invariant_machine "server_step re" "frozen l" "\<lambda>_. True" for re l
  by unfold_locales (rule frozen_step)

section \<open>The detail of the last month\<close>






end
