(* ===== verification/AdminRoutes.thy ===== *)
theory AdminRoutes
  imports AuthRoutes
begin

text \<open>
  The administration interface (\<open>admin.rs\<close>): the platform operator, who creates organizations and resets the
  passwords of their administrators, and an organization's administrator, who manages its employees. The guard
  before the handlers counts refused requests; a handler works on clones of the accounts and the ledger, saves
  them, replaces the shared state and appends a security event.
\<close>

section \<open>State, errors and requests\<close>

record admin_state =
  adm_server :: server
  adm_sessions :: platform_sessions
  adm_sessions_poisoned :: bool

record admin_env =
  am_route :: route_env
  am_token :: string
  am_path :: string

abbreviation am_env :: "admin_env \<Rightarrow> env" where
  "am_env ae \<equiv> rt_env (am_route ae)"

definition admin_from_service :: "app_error \<Rightarrow> api_error" where
  "admin_from_service e = \<lparr>api_status =
       (if e \<in> {OrganizationNotFound, MembershipNotFound} then 404
        else if e = Unauthorized then 403
        else (case e of Storage _ \<Rightarrow> 500 | _ \<Rightarrow> 400)),
     api_message = ServiceMessage e, api_retry_after = None\<rparr>"

fun admin_from_turnstile :: "turnstile_error \<Rightarrow> api_error" where
  "admin_from_turnstile TokenRequired = plain_error 400 ''turnstile verification token is required''"
| "admin_from_turnstile Rejected = plain_error 403 ''turnstile verification was rejected''"
| "admin_from_turnstile Unavailable = plain_error 503 ''turnstile verification service is unavailable''"

record organization_with_members =
  om_organization :: organization_dto
  om_members :: "membership_dto list"

record create_organization_request =
  cq_organization_name :: string
  cq_admin_display_name :: string
  cq_admin_email :: "string option"
  cq_admin_phone :: "string option"
  cq_admin_password :: string

record add_member_request =
  aq_display_name :: string
  aq_email :: "string option"
  aq_phone :: "string option"
  aq_password :: "string option"
  aq_role :: membership_role

record admin_me_response =
  ame_scope :: string
  ame_user :: "auth_user_dto option"
  ame_organization :: "uuid option"

section \<open>Steps on the server\<close>

text \<open>A step of the shared services inside the administration's state.\<close>

definition on_server :: "(server \<Rightarrow> ('a, 'e) result \<times> server) \<Rightarrow> admin_state \<Rightarrow> ('a, 'e) result \<times> admin_state" where
  "on_server f \<sigma> = (let (r, s) = f (adm_server \<sigma>) in (r, \<sigma>\<lparr>adm_server := s\<rparr>))"

text \<open>The operator's sessions, with the clock and the random source of the server.\<close>

definition on_sessions ::
  "(platform_sessions \<times> auth_world \<Rightarrow> 'a \<times> (platform_sessions \<times> auth_world)) \<Rightarrow> admin_state
     \<Rightarrow> ('a, api_error) result \<times> admin_state" where
  "on_sessions f \<sigma> =
     (if adm_sessions_poisoned \<sigma> then (Err (internal_error ''platform session lock poisoned''), \<sigma>)
      else let (x, m, w) = f (adm_sessions \<sigma>, srv_world (adm_server \<sigma>))
           in (Ok x, \<sigma>\<lparr>adm_sessions := m, adm_server := (adm_server \<sigma>)\<lparr>srv_world := w\<rparr>\<rparr>))"

definition admin_record_failure ::
  "admin_env \<Rightarrow> ip_addr \<Rightarrow> login_surface \<Rightarrow> string \<Rightarrow> server \<Rightarrow> auth_error option \<times> server" where
  "admin_record_failure ae ip surface identifier \<sigma> =
     (let (now, \<sigma>) = server_instant \<sigma>;
          (limit, p) = record_failure (rt_lp (am_route ae)) ip surface identifier now (srv_protection \<sigma>)
      in (limit, \<sigma>\<lparr>srv_protection := p\<rparr>))"

definition admin_verify :: "admin_env \<Rightarrow> string \<Rightarrow> ip_addr \<Rightarrow> (unit, turnstile_error) result" where
  "admin_verify ae token ip = verify_for_action (am_route ae) token ip ''admin-login''"

definition persist_service :: "admin_env \<Rightarrow> app_ledger_service \<Rightarrow> server \<Rightarrow> (unit, api_error) result \<times> server" where
  "persist_service ae staged \<sigma> =
     perform (store_call (rt_save_ledger (am_route ae) (snapshot staged)) \<sigma>) id (\<lambda>_ \<sigma>.
     attempt (lock_ledger \<sigma>) id \<sigma> (\<lambda>_. (Ok (), \<sigma>\<lparr>srv_ledger := staged\<rparr>)))"

definition persist_staged_state ::
  "admin_env \<Rightarrow> auth_service \<Rightarrow> app_ledger_service \<Rightarrow> server \<Rightarrow> (unit, api_error) result \<times> server" where
  "persist_staged_state ae staged_auth staged \<sigma> =
     perform (store_call (rt_save_all (am_route ae) (snapshot staged) (auth_snapshot_of staged_auth)) \<sigma>) id (\<lambda>_ \<sigma>.
     attempt (lock_auth \<sigma>) id \<sigma> (\<lambda>_.
     attempt (lock_ledger \<sigma>) id \<sigma> (\<lambda>_. (Ok (), \<sigma>\<lparr>srv_auth := staged_auth, srv_ledger := staged\<rparr>))))"

definition admin_event ::
  "env \<Rightarrow> uuid option \<Rightarrow> uuid option \<Rightarrow> string \<Rightarrow> string \<Rightarrow> uuid option \<Rightarrow> (string \<times> json) list \<Rightarrow> security_audit_event" where
  "admin_event env organization actor act resource_type resource metadata =
     \<lparr>sv_scope_key = scope_key env organization,
      sv_actor_type = (if actor = None then ''platform_admin'' else ''organization_admin''), sv_actor_id = actor,
      sv_action = act, sv_resource_type = resource_type, sv_resource_id = resource, sv_metadata = JObject metadata\<rparr>"

definition append_admin_event :: "admin_env \<Rightarrow> security_audit_event \<Rightarrow> server \<Rightarrow> (unit, api_error) result \<times> server" where
  "append_admin_event ae e \<sigma> = store_call (rt_append_event (am_route ae) e) \<sigma>"

section \<open>Who asks\<close>

definition admin_bearer_token :: "http_headers \<Rightarrow> (string, api_error) result" where
  "admin_bearer_token headers =
     ok_or (map_option trim (nonblank (map_option (\<lambda>v. case strip_prefix ''Bearer '' v of Some t \<Rightarrow> t | None \<Rightarrow> v)
       (hd_authorization headers)))) (unauthorized ''admin authorization required'')"

datatype admin_principal = PlatformPrincipal | OrganizationPrincipal admin_authenticated_session

fun principal_organization :: "admin_principal \<Rightarrow> uuid option" where
  "principal_organization PlatformPrincipal = None"
| "principal_organization (OrganizationPrincipal a) = Some (aa_organization a)"

definition authenticate_principal ::
  "admin_env \<Rightarrow> http_headers \<Rightarrow> admin_state \<Rightarrow> (admin_principal, api_error) result \<times> admin_state" where
  "authenticate_principal ae headers \<sigma> =
     attempt (admin_bearer_token headers) id \<sigma> (\<lambda>token.
     perform (on_sessions (platform_authenticate token) \<sigma>) id (\<lambda>known \<sigma>.
     if known then (Ok PlatformPrincipal, \<sigma>)
     else on_server (\<lambda>\<sigma>.
       attempt (lock_auth \<sigma>) id \<sigma> (\<lambda>auth.
       let (r, _, w) = authenticate_admin_access_token (rt_auth (am_route ae)) token (auth, srv_world \<sigma>);
           \<sigma> = \<sigma>\<lparr>srv_world := w\<rparr>
       in attempt r from_auth \<sigma> (\<lambda>a. (Ok (OrganizationPrincipal a), \<sigma>)))) \<sigma>))"

definition require_platform :: "admin_principal \<Rightarrow> (unit, api_error) result" where
  "require_platform p = (if p = PlatformPrincipal then Ok () else Err (forbidden ''platform admin token is required''))"

definition require_organization_admin :: "admin_principal \<Rightarrow> uuid \<Rightarrow> (admin_authenticated_session, api_error) result" where
  "require_organization_admin p organization =
     (case p of
        OrganizationPrincipal a \<Rightarrow>
          if aa_organization a = organization then Ok a
          else Err (forbidden ''organization admin cannot manage another organization'')
      | PlatformPrincipal \<Rightarrow> Err (forbidden ''platform admin cannot manage organization employees''))"

definition require_employee_role :: "membership_role \<Rightarrow> (unit, api_error) result" where
  "require_employee_role role =
     (if role \<in> {BusinessOwner, Employee} then Ok ()
      else Err (bad_request ''business role must be business_owner or employee''))"

definition organization_with_members_of ::
  "env \<Rightarrow> app_ledger_service \<Rightarrow> uuid \<Rightarrow> (organization_with_members, api_error) result" where
  "organization_with_members_of env s organization =
     attempt_pure (ok_or (List.find (\<lambda>d. parse_uuid env (od_id d) = Some organization) (organizations_dto env s))
       (admin_from_service OrganizationNotFound)) id (\<lambda>d.
     attempt_pure (organization_members env s organization) admin_from_service (\<lambda>ms.
     Ok \<lparr>om_organization = d, om_members = ms\<rparr>))"

definition find_member :: "env \<Rightarrow> app_ledger_service \<Rightarrow> uuid \<Rightarrow> uuid \<Rightarrow> (membership_dto, api_error) result" where
  "find_member env s organization membership =
     attempt_pure (organization_members env s organization) admin_from_service (\<lambda>ms.
     ok_or (List.find (\<lambda>d. parse_uuid env (md_id d) = Some membership) ms) (admin_from_service MembershipNotFound))"

definition member_user_id :: "env \<Rightarrow> membership_dto \<Rightarrow> (uuid, api_error) result" where
  "member_user_id env d = ok_or (parse_uuid env (md_user_id d)) (internal_error ''invalid member user id'')"

definition require_business_member :: "env \<Rightarrow> auth_service \<Rightarrow> membership_dto \<Rightarrow> (unit, api_error) result" where
  "require_business_member env auth d =
     attempt_pure (member_user_id env d) id (\<lambda>u.
     if md_role d \<in> {''owner'', ''admin''} \<or> account_kind_of auth u = Some OrganizationAdmin
     then Err (forbidden ''organization admin accounts cannot be managed as employees'') else Ok ())"

definition require_organization_admin_member ::
  "env \<Rightarrow> auth_service \<Rightarrow> uuid \<Rightarrow> membership_dto \<Rightarrow> (uuid, api_error) result" where
  "require_organization_admin_member env auth organization d =
     attempt_pure (member_user_id env d) id (\<lambda>u.
     if md_role d \<notin> {''owner'', ''admin''} \<or> account_kind_of auth u \<noteq> Some OrganizationAdmin
        \<or> organization_id_of auth u \<noteq> Some organization
     then Err (forbidden ''target member is not an organization admin'') else Ok u)"

definition sync_business_auth_user ::
  "admin_env \<Rightarrow> membership_dto \<Rightarrow> string option \<Rightarrow> auth_state \<Rightarrow> (unit, api_error) result \<times> auth_state" where
  "sync_business_auth_user ae d password \<sigma> =
     attempt (member_user_id (am_env ae) d) id \<sigma> (\<lambda>u.
     perform (create_or_update_admin_user (rt_auth (am_route ae))
       \<lparr>ac_user = u, ac_display_name = md_display_name d, ac_email = md_email d, ac_phone = md_phone d,
        ac_password = password, ac_account_kind = Business, ac_organization = None\<rparr> \<sigma>) from_auth (\<lambda>_ \<sigma>. (Ok (), \<sigma>)))"

section \<open>Logging in and out\<close>

definition admin_login_route ::
  "admin_env \<Rightarrow> ip_addr \<Rightarrow> string \<Rightarrow> string \<Rightarrow> string \<Rightarrow> server \<Rightarrow> (admin_session, api_error) result \<times> server" where
  "admin_login_route ae ip given password turnstile \<sigma> =
     (let re = am_route ae; identifier = to_lowercase (am_env ae) (trim given);
          by_email = CHR ''@'' \<in> set identifier in
      perform (check_login_attempt re ip OrganizationAdminSurface identifier \<sigma>) id (\<lambda>_ \<sigma>.
      attempt (admin_verify ae turnstile ip) admin_from_turnstile \<sigma> (\<lambda>_.
      attempt (lock_auth \<sigma>) id \<sigma> (\<lambda>auth.
      let (result, staged, w) = admin_login (rt_auth re)
            \<lparr>ali_email = (if by_email then Some identifier else None),
             ali_phone = (if by_email then None else Some identifier), ali_password = password\<rparr> (auth, srv_world \<sigma>);
          \<sigma> = \<sigma>\<lparr>srv_world := w\<rparr>
      in perform (if is_ok result then replace_auth re staged \<sigma> else (Ok (), \<sigma>)) id (\<lambda>_ \<sigma>.
         case result of
           Ok z \<Rightarrow>
             perform (append_admin_event ae (admin_event (am_env ae) (Some (ad_organization z)) (Some (au_id (ad_user z)))
                 ''admin_login'' ''session'' None [(''client_kind'', JString ''admin'')])
               (record_login_success re ip OrganizationAdminSurface identifier \<sigma>)) id (\<lambda>_ \<sigma>. (Ok z, \<sigma>))
         | Err e \<Rightarrow>
             if e = InvalidCredentials then
               let (limit, \<sigma>) = admin_record_failure ae ip OrganizationAdminSurface identifier \<sigma>
               in (Err (from_auth (case limit of Some e' \<Rightarrow> e' | None \<Rightarrow> InvalidCredentials)), \<sigma>)
             else (Err (from_auth e), record_login_success re ip OrganizationAdminSurface identifier \<sigma>)
         | Panic p \<Rightarrow> (Panic p, \<sigma>))))))"

definition platform_login_route ::
  "admin_env \<Rightarrow> ip_addr \<Rightarrow> string \<Rightarrow> string \<Rightarrow> admin_state \<Rightarrow> (string, api_error) result \<times> admin_state" where
  "platform_login_route ae ip token turnstile \<sigma> =
     perform (on_server (check_login_attempt (am_route ae) ip PlatformSurface ''platform-token'') \<sigma>) id (\<lambda>_ \<sigma>.
     attempt (admin_verify ae turnstile ip) admin_from_turnstile \<sigma> (\<lambda>_.
     if \<not> platform_token_matches (am_token ae) token then
       let (limit, s) = admin_record_failure ae ip PlatformSurface ''platform-token'' (adm_server \<sigma>)
       in (Err (from_auth (case limit of Some e \<Rightarrow> e | None \<Rightarrow> InvalidCredentials)), \<sigma>\<lparr>adm_server := s\<rparr>)
     else
       let \<sigma> = \<sigma>\<lparr>adm_server := record_login_success (am_route ae) ip PlatformSurface ''platform-token'' (adm_server \<sigma>)\<rparr> in
       perform (on_sessions platform_issue \<sigma>) id (\<lambda>access \<sigma>.
       perform (on_server (append_admin_event ae (admin_event (am_env ae) None None ''admin_login'' ''session'' None
         [(''client_kind'', JString ''platform'')])) \<sigma>) id (\<lambda>_ \<sigma>. (Ok access, \<sigma>)))))"

definition admin_logout ::
  "admin_env \<Rightarrow> http_headers \<Rightarrow> admin_state \<Rightarrow> (unit, api_error) result \<times> admin_state" where
  "admin_logout ae headers \<sigma> =
     attempt (admin_bearer_token headers) id \<sigma> (\<lambda>token.
     perform (authenticate_principal ae headers \<sigma>) id (\<lambda>principal \<sigma>.
     case principal of
       PlatformPrincipal \<Rightarrow>
         perform (on_sessions (\<lambda>(m, w). ((), platform_revoke token m, w)) \<sigma>) id (\<lambda>_ \<sigma>.
         on_server (append_admin_event ae (admin_event (am_env ae) None None ''session_revoked'' ''session'' None
           [(''client_kind'', JString ''platform'')])) \<sigma>)
     | OrganizationPrincipal a \<Rightarrow>
         on_server (\<lambda>\<sigma>.
           attempt (lock_auth \<sigma>) id \<sigma> (\<lambda>auth.
           let (r, staged, w) = logout (rt_auth (am_route ae)) token (auth, srv_world \<sigma>); \<sigma> = \<sigma>\<lparr>srv_world := w\<rparr> in
           attempt r from_auth \<sigma> (\<lambda>_.
           perform (replace_auth (am_route ae) staged \<sigma>) id (\<lambda>_ \<sigma>.
           append_admin_event ae (admin_event (am_env ae) (Some (aa_organization a)) (Some (au_id (aa_user a)))
             ''session_revoked'' ''session'' None [(''client_kind'', JString ''admin'')]) \<sigma>)))) \<sigma>))"

definition admin_me ::
  "admin_env \<Rightarrow> http_headers \<Rightarrow> admin_state \<Rightarrow> (admin_me_response, api_error) result \<times> admin_state" where
  "admin_me ae headers \<sigma> =
     perform (authenticate_principal ae headers \<sigma>) id (\<lambda>principal \<sigma>.
       (Ok (case principal of
          PlatformPrincipal \<Rightarrow> \<lparr>ame_scope = ''platform'', ame_user = None, ame_organization = None\<rparr>
        | OrganizationPrincipal a \<Rightarrow>
            \<lparr>ame_scope = ''organization'', ame_user = Some (aa_user a), ame_organization = Some (aa_organization a)\<rparr>), \<sigma>))"

definition change_password_route ::
  "admin_env \<Rightarrow> http_headers \<Rightarrow> string \<Rightarrow> string \<Rightarrow> admin_state \<Rightarrow> (unit, api_error) result \<times> admin_state" where
  "change_password_route ae headers current_password new_password \<sigma> =
     attempt (admin_bearer_token headers) id \<sigma> (\<lambda>token.
     perform (authenticate_principal ae headers \<sigma>) id (\<lambda>principal \<sigma>.
     case principal of
       PlatformPrincipal \<Rightarrow> (Err (forbidden ''organization admin session is required''), \<sigma>)
     | OrganizationPrincipal a \<Rightarrow>
         on_server (\<lambda>\<sigma>.
           attempt (lock_auth \<sigma>) id \<sigma> (\<lambda>auth.
           let (r, staged, w) = change_admin_password (rt_auth (am_route ae)) token current_password new_password
                 (auth, srv_world \<sigma>); \<sigma> = \<sigma>\<lparr>srv_world := w\<rparr> in
           attempt r from_auth \<sigma> (\<lambda>_.
           perform (replace_auth (am_route ae) staged \<sigma>) id (\<lambda>_ \<sigma>.
           append_admin_event ae (admin_event (am_env ae) (Some (aa_organization a)) (Some (au_id (aa_user a)))
             ''password_changed'' ''auth_user'' (Some (au_id (aa_user a))) []) \<sigma>)))) \<sigma>))"

section \<open>Organizations\<close>

definition list_organizations ::
  "admin_env \<Rightarrow> http_headers \<Rightarrow> admin_state \<Rightarrow> (organization_with_members list, api_error) result \<times> admin_state" where
  "list_organizations ae headers \<sigma> =
     perform (authenticate_principal ae headers \<sigma>) id (\<lambda>principal \<sigma>.
     attempt (lock_ledger (adm_server \<sigma>)) id \<sigma> (\<lambda>service.
     attempt (map_result (\<lambda>d.
         attempt_pure (ok_or (parse_uuid (am_env ae) (od_id d)) (internal_error ''invalid organization id'')) id
           (organization_with_members_of (am_env ae) service))
       (filter (\<lambda>d. case principal_organization principal of None \<Rightarrow> True
          | Some i \<Rightarrow> parse_uuid (am_env ae) (od_id d) = Some i) (organizations_dto (am_env ae) service))) id \<sigma> (\<lambda>xs.
     (Ok xs, \<sigma>))))"

definition create_organization_route ::
  "admin_env \<Rightarrow> http_headers \<Rightarrow> create_organization_request \<Rightarrow> admin_state
     \<Rightarrow> (organization_with_members, api_error) result \<times> admin_state" where
  "create_organization_route ae headers q \<sigma> =
     perform (authenticate_principal ae headers \<sigma>) id (\<lambda>principal \<sigma>.
     attempt (require_platform principal) id \<sigma> (\<lambda>_.
     on_server (\<lambda>\<sigma>.
       attempt (lock_auth \<sigma>) id \<sigma> (\<lambda>auth.
       attempt (lock_ledger \<sigma>) id \<sigma> (\<lambda>service.
       let (admin, w) = new_v4 (aw_world (srv_world \<sigma>));
           (r, staged, w) = create_organization (am_env ae)
             \<lparr>co_name = cq_organization_name q, co_admin_user = admin, co_admin_display_name = cq_admin_display_name q,
              co_admin_email = cq_admin_email q, co_admin_phone = cq_admin_phone q\<rparr> (service, w);
           \<sigma> = \<sigma>\<lparr>srv_world := (srv_world \<sigma>)\<lparr>aw_world := w\<rparr>\<rparr> in
       attempt r admin_from_service \<sigma> (\<lambda>member.
       attempt (ok_or (parse_uuid (am_env ae) (md_organization_id member)) (internal_error ''invalid organization id'')) id \<sigma>
         (\<lambda>organization.
       let (r, staged_auth, w) = create_or_update_admin_user (rt_auth (am_route ae))
             \<lparr>ac_user = admin, ac_display_name = cq_admin_display_name q, ac_email = cq_admin_email q,
              ac_phone = cq_admin_phone q, ac_password = Some (cq_admin_password q),
              ac_account_kind = OrganizationAdmin, ac_organization = Some organization\<rparr> (auth, srv_world \<sigma>);
           \<sigma> = \<sigma>\<lparr>srv_world := w\<rparr> in
       attempt r from_auth \<sigma> (\<lambda>_.
       attempt (organization_with_members_of (am_env ae) staged organization) id \<sigma> (\<lambda>response.
       perform (persist_staged_state ae staged_auth staged \<sigma>) id (\<lambda>_ \<sigma>.
       perform (append_admin_event ae (admin_event (am_env ae) (Some organization) None ''organization_created''
           ''organization'' (Some organization) [(''admin_user_id'', JString (uuid_to_string (am_env ae) admin))]) \<sigma>) id
         (\<lambda>_ \<sigma>. (Ok response, \<sigma>)))))))))) \<sigma>))"

definition reset_organization_admin_password_route ::
  "admin_env \<Rightarrow> http_headers \<Rightarrow> uuid \<Rightarrow> uuid \<Rightarrow> string \<Rightarrow> admin_state \<Rightarrow> (membership_dto, api_error) result \<times> admin_state" where
  "reset_organization_admin_password_route ae headers organization membership password \<sigma> =
     perform (authenticate_principal ae headers \<sigma>) id (\<lambda>principal \<sigma>.
     attempt (require_platform principal) id \<sigma> (\<lambda>_.
     on_server (\<lambda>\<sigma>.
       attempt (lock_auth \<sigma>) id \<sigma> (\<lambda>auth.
       attempt (lock_ledger \<sigma>) id \<sigma> (\<lambda>service.
       attempt (find_member (am_env ae) service organization membership) id \<sigma> (\<lambda>member.
       attempt (require_organization_admin_member (am_env ae) auth organization member) id \<sigma> (\<lambda>target.
       let (r, staged_auth, w) = reset_organization_admin_password (rt_auth (am_route ae)) target password (auth, srv_world \<sigma>);
           \<sigma> = \<sigma>\<lparr>srv_world := w\<rparr> in
       attempt r from_auth \<sigma> (\<lambda>_.
       perform (replace_auth (am_route ae) staged_auth \<sigma>) id (\<lambda>_ \<sigma>.
       perform (append_admin_event ae (admin_event (am_env ae) (Some organization) None
           ''organization_admin_password_reset'' ''membership'' (Some membership)
           [(''target_user_id'', JString (uuid_to_string (am_env ae) target))]) \<sigma>) id
         (\<lambda>_ \<sigma>. (Ok member, \<sigma>))))))))) \<sigma>))"

section \<open>Employees\<close>

text \<open>The beginning the handlers for an organization's members share.\<close>

definition as_organization_admin ::
  "admin_env \<Rightarrow> http_headers \<Rightarrow> uuid \<Rightarrow> (admin_authenticated_session \<Rightarrow> server \<Rightarrow> ('a, api_error) result \<times> server)
     \<Rightarrow> admin_state \<Rightarrow> ('a, api_error) result \<times> admin_state" where
  "as_organization_admin ae headers organization body \<sigma> =
     perform (authenticate_principal ae headers \<sigma>) id (\<lambda>principal \<sigma>.
     attempt (require_organization_admin principal organization) id \<sigma> (\<lambda>actor. on_server (body actor) \<sigma>))"

definition member_event ::
  "env \<Rightarrow> uuid \<Rightarrow> admin_authenticated_session \<Rightarrow> string \<Rightarrow> uuid option \<Rightarrow> (string \<times> json) list \<Rightarrow> security_audit_event" where
  "member_event env organization actor act resource metadata =
     admin_event env (Some organization) (Some (au_id (aa_user actor))) act ''membership'' resource metadata"

definition list_members ::
  "admin_env \<Rightarrow> http_headers \<Rightarrow> uuid \<Rightarrow> admin_state \<Rightarrow> (membership_dto list, api_error) result \<times> admin_state" where
  "list_members ae headers organization =
     as_organization_admin ae headers organization (\<lambda>_ \<sigma>.
     attempt (lock_ledger \<sigma>) id \<sigma> (\<lambda>service.
     attempt (organization_members (am_env ae) service organization) admin_from_service \<sigma> (\<lambda>ms. (Ok ms, \<sigma>))))"

definition add_member_route ::
  "admin_env \<Rightarrow> http_headers \<Rightarrow> uuid \<Rightarrow> add_member_request \<Rightarrow> admin_state \<Rightarrow> (membership_dto, api_error) result \<times> admin_state" where
  "add_member_route ae headers organization q =
     as_organization_admin ae headers organization (\<lambda>actor \<sigma>.
     attempt (require_employee_role (aq_role q)) id \<sigma> (\<lambda>_.
     attempt (lock_auth \<sigma>) id \<sigma> (\<lambda>auth.
     attempt (lock_ledger \<sigma>) id \<sigma> (\<lambda>service.
     let (r, staged, w) = add_organization_member (am_env ae)
           \<lparr>am_organization = organization, am_display_name = aq_display_name q, am_email = aq_email q,
            am_phone = aq_phone q, am_role = aq_role q\<rparr> (service, aw_world (srv_world \<sigma>));
         \<sigma> = \<sigma>\<lparr>srv_world := (srv_world \<sigma>)\<lparr>aw_world := w\<rparr>\<rparr> in
     attempt r admin_from_service \<sigma> (\<lambda>member.
     let (r, staged_auth, w) = sync_business_auth_user ae member (aq_password q) (auth, srv_world \<sigma>);
         \<sigma> = \<sigma>\<lparr>srv_world := w\<rparr> in
     attempt r id \<sigma> (\<lambda>_.
     perform (persist_staged_state ae staged_auth staged \<sigma>) id (\<lambda>_ \<sigma>.
     perform (append_admin_event ae (member_event (am_env ae) organization actor ''member_added''
         (parse_uuid (am_env ae) (md_id member))
         [(''role'', JString (md_role member)), (''user_id'', JString (md_user_id member))]) \<sigma>) id
       (\<lambda>_ \<sigma>. (Ok member, \<sigma>)))))))))"

definition update_member_role_route ::
  "admin_env \<Rightarrow> http_headers \<Rightarrow> uuid \<Rightarrow> uuid \<Rightarrow> membership_role \<Rightarrow> admin_state
     \<Rightarrow> (membership_dto, api_error) result \<times> admin_state" where
  "update_member_role_route ae headers organization membership role =
     as_organization_admin ae headers organization (\<lambda>actor \<sigma>.
     attempt (require_employee_role role) id \<sigma> (\<lambda>_.
     attempt (lock_auth \<sigma>) id \<sigma> (\<lambda>auth.
     attempt (lock_ledger \<sigma>) id \<sigma> (\<lambda>service.
     attempt (find_member (am_env ae) service organization membership) id \<sigma> (\<lambda>member.
     attempt (require_business_member (am_env ae) auth member) id \<sigma> (\<lambda>_.
     let (r, staged) = update_organization_member_role (am_env ae)
           \<lparr>ur_organization = organization, ur_membership = membership, ur_role = role\<rparr> service in
     attempt r admin_from_service \<sigma> (\<lambda>member.
     perform (persist_service ae staged \<sigma>) id (\<lambda>_ \<sigma>.
     perform (append_admin_event ae (member_event (am_env ae) organization actor ''member_role_changed''
         (Some membership) [(''role'', JString (md_role member))]) \<sigma>) id
       (\<lambda>_ \<sigma>. (Ok member, \<sigma>))))))))))"

definition remove_member_route ::
  "admin_env \<Rightarrow> http_headers \<Rightarrow> uuid \<Rightarrow> uuid \<Rightarrow> admin_state \<Rightarrow> (unit, api_error) result \<times> admin_state" where
  "remove_member_route ae headers organization membership =
     as_organization_admin ae headers organization (\<lambda>actor \<sigma>.
     attempt (lock_auth \<sigma>) id \<sigma> (\<lambda>auth.
     attempt (lock_ledger \<sigma>) id \<sigma> (\<lambda>service.
     attempt (find_member (am_env ae) service organization membership) id \<sigma> (\<lambda>member.
     attempt (require_business_member (am_env ae) auth member) id \<sigma> (\<lambda>_.
     let (r, staged) = remove_organization_member organization membership service in
     attempt r admin_from_service \<sigma> (\<lambda>_.
     perform (persist_service ae staged \<sigma>) id (\<lambda>_ \<sigma>.
     append_admin_event ae (member_event (am_env ae) organization actor ''member_removed'' (Some membership) []) \<sigma>)))))))"

definition reset_member_password ::
  "admin_env \<Rightarrow> http_headers \<Rightarrow> uuid \<Rightarrow> uuid \<Rightarrow> string \<Rightarrow> admin_state \<Rightarrow> (membership_dto, api_error) result \<times> admin_state" where
  "reset_member_password ae headers organization membership password =
     as_organization_admin ae headers organization (\<lambda>actor \<sigma>.
     attempt (lock_auth \<sigma>) id \<sigma> (\<lambda>auth.
     attempt (lock_ledger \<sigma>) id \<sigma> (\<lambda>service.
     attempt (find_member (am_env ae) service organization membership) id \<sigma> (\<lambda>member.
     attempt (require_business_member (am_env ae) auth member) id \<sigma> (\<lambda>_.
     let (r, staged_auth, w) = sync_business_auth_user ae member (Some password) (auth, srv_world \<sigma>);
         \<sigma> = \<sigma>\<lparr>srv_world := w\<rparr> in
     attempt r id \<sigma> (\<lambda>_.
     perform (replace_auth (am_route ae) staged_auth \<sigma>) id (\<lambda>_ \<sigma>.
     perform (append_admin_event ae (member_event (am_env ae) organization actor ''password_reset'' (Some membership) []) \<sigma>) id
       (\<lambda>_ \<sigma>. (Ok member, \<sigma>)))))))))"

section \<open>The guard before the handlers\<close>

text \<open>\<open>path\<close> is the path of the request, \<open>peer\<close> the client's address if the context was resolved.\<close>

definition guarded_path :: "admin_env \<Rightarrow> string \<Rightarrow> bool" where
  "guarded_path ae path \<longleftrightarrow>
     (let api = ''/'' @ am_path ae @ ''/api'' in
      strip_prefix (api @ ''/'') path \<noteq> None
      \<and> strip_prefix api path \<notin> {Some ''/security'', Some ''/login'', Some ''/platform-login''})"

definition protect_admin_authorization ::
  "admin_env \<Rightarrow> string \<Rightarrow> ip_addr option \<Rightarrow> (admin_state \<Rightarrow> ('a, api_error) result \<times> admin_state) \<Rightarrow> admin_state
     \<Rightarrow> ('a, api_error) result \<times> admin_state" where
  "protect_admin_authorization ae path peer handler \<sigma> =
     (if \<not> guarded_path ae path then handler \<sigma>
      else case peer of None \<Rightarrow> (Err (internal_error ''client address is unavailable''), \<sigma>)
      | Some ip \<Rightarrow>
          perform (on_server (check_login_attempt (am_route ae) ip AdminAuthorizationSurface ''admin-authorization'') \<sigma>) id (\<lambda>_ \<sigma>.
          let (r, \<sigma>) = handler \<sigma> in
          if panics r then (r, \<sigma>)
          else if (case r of Err e \<Rightarrow> api_status e = 401 | _ \<Rightarrow> False) then
            let (limit, s) = admin_record_failure ae ip AdminAuthorizationSurface ''admin-authorization'' (adm_server \<sigma>)
            in (case limit of Some e \<Rightarrow> Err (from_auth e) | None \<Rightarrow> r, \<sigma>\<lparr>adm_server := s\<rparr>)
          else (r, \<sigma>\<lparr>adm_server := record_login_success (am_route ae) ip AdminAuthorizationSurface
            ''admin-authorization'' (adm_server \<sigma>)\<rparr>)))"

end
