(* ===== verification/AdminProperties.thy ===== *)
theory AdminProperties
  imports AdminRoutes ApiProperties
begin

text \<open>
  The administration interface: with it the shared state and the storage still agree after every request, an
  organization's administrator changes the members of that organization only, and what adding an employee
  does to an account that exists.
\<close>

section \<open>Memory and storage\<close>

definition adm_coherent :: "admin_state \<Rightarrow> ('a, 'e) result \<times> admin_state \<Rightarrow> bool" where
  "adm_coherent \<sigma> out \<longleftrightarrow> coherent (adm_server \<sigma>) (fst out, adm_server (snd out))"

lemma adm_coherent_pair [simp]: "adm_coherent \<sigma> (r, \<tau>) \<longleftrightarrow> coherent (adm_server \<sigma>) (r, adm_server \<tau>)"
  by (simp add: adm_coherent_def)

lemma adm_coherent_on_server: "coherent (adm_server \<sigma>) (f (adm_server \<sigma>)) \<Longrightarrow> adm_coherent \<sigma> (on_server f \<sigma>)"
  by (simp add: on_server_def split_beta)

lemma adm_coherent_on_sessions: "memory_is_stored (adm_server \<sigma>) \<Longrightarrow> adm_coherent \<sigma> (on_sessions f \<sigma>)"
  by (simp add: on_sessions_def split_beta)

lemma adm_coherent_then:
  assumes "adm_coherent \<sigma> x" and "\<And>a \<tau>. memory_is_stored (adm_server \<tau>) \<Longrightarrow> adm_coherent \<tau> (k a \<tau>)"
  shows "adm_coherent \<sigma> (perform x conv k)"
proof -
  obtain r \<tau> where x: "x = (r, \<tau>)" by fastforce
  show ?thesis
  proof (cases r)
    case (Ok a)
    with assms(1) x have "memory_is_stored (adm_server \<tau>)" "srv_auth_poisoned (adm_server \<tau>) = srv_auth_poisoned (adm_server \<sigma>)"
      "srv_ledger_poisoned (adm_server \<tau>) = srv_ledger_poisoned (adm_server \<sigma>)" by simp_all
    with assms(2) [of \<tau> a] show ?thesis by (simp add: x Ok adm_coherent_def coherent_def)
  qed (use assms(1) x in simp_all)
qed

lemma adm_coherent_guard:
  assumes "memory_is_stored (adm_server \<sigma>)" and "\<And>a. r = Ok a \<Longrightarrow> adm_coherent \<sigma> (k a)"
  shows "adm_coherent \<sigma> (attempt r conv \<sigma> k)"
  using assms by (cases r) auto

lemma adm_coherent_done: "memory_is_stored (adm_server \<sigma>) \<Longrightarrow> adm_coherent \<sigma> (Ok x, \<sigma>)"
  by simp

lemma coherent_admin_append:
  "transactional (am_route ae) \<Longrightarrow> memory_is_stored \<sigma> \<Longrightarrow> coherent \<sigma> (append_admin_event ae e \<sigma>)"
  unfolding append_admin_event_def by (rule coherent_append)

lemma coherent_append_done:
  "transactional (am_route ae) \<Longrightarrow> memory_is_stored \<sigma>
     \<Longrightarrow> coherent \<sigma> (perform (append_admin_event ae e \<sigma>) id (\<lambda>_ \<sigma>. (Ok x, \<sigma>)))"
  by (rule coherent_then [OF coherent_admin_append]) simp_all

lemma coherent_persist_service:
  assumes re: "transactional (am_route ae)" and "memory_is_stored \<sigma>" "\<not> srv_ledger_poisoned \<sigma>"
  shows "coherent \<sigma> (persist_service ae staged \<sigma>)"
proof -
  consider "rt_save_ledger (am_route ae) (snapshot staged) (srv_stored \<sigma>) = (None, (srv_stored \<sigma>)\<lparr>st_ledger := snapshot staged\<rparr>)"
    | e where "rt_save_ledger (am_route ae) (snapshot staged) (srv_stored \<sigma>) = (Some e, srv_stored \<sigma>)"
    using re unfolding transactional_def by blast
  then show ?thesis
    using assms(2,3) by cases (auto simp: persist_service_def store_call_def lock_ledger_def memory_is_stored_def)
qed

lemma coherent_persist_staged:
  assumes re: "transactional (am_route ae)" and "memory_is_stored \<sigma>" "\<not> srv_ledger_poisoned \<sigma>" "\<not> srv_auth_poisoned \<sigma>"
  shows "coherent \<sigma> (persist_staged_state ae staged_auth staged \<sigma>)"
proof -
  consider "rt_save_all (am_route ae) (snapshot staged) (auth_snapshot_of staged_auth) (srv_stored \<sigma>)
      = (None, (srv_stored \<sigma>)\<lparr>st_ledger := snapshot staged, st_auth := auth_snapshot_of staged_auth\<rparr>)"
    | e where "rt_save_all (am_route ae) (snapshot staged) (auth_snapshot_of staged_auth) (srv_stored \<sigma>) = (Some e, srv_stored \<sigma>)"
    using re unfolding transactional_def by blast
  then show ?thesis
    using assms(2-4)
    by cases (auto simp: persist_staged_state_def store_call_def lock_ledger_def lock_auth_def memory_is_stored_def)
qed

lemma coherent_record_failure:
  "memory_is_stored \<sigma> \<Longrightarrow> coherent \<sigma> (r, snd (admin_record_failure ae ip surface identifier \<sigma>))"
  by (simp add: admin_record_failure_def server_instant_def split_beta)

lemma coherent_same: "memory_is_stored \<sigma> \<Longrightarrow> coherent \<sigma> (r, \<sigma>)"
  by simp

lemma coherent_of_success:
  "memory_is_stored \<sigma> \<Longrightarrow> coherent \<sigma> (r, record_login_success re ip surface identifier \<sigma>)"
  by (simp add: record_login_success_def)

lemma adm_coherent_authenticate:
  assumes "memory_is_stored (adm_server \<sigma>)"
  shows "adm_coherent \<sigma> (authenticate_principal ae headers \<sigma>)"
  unfolding authenticate_principal_def
proof (rule adm_coherent_guard [OF assms], rule adm_coherent_then [OF adm_coherent_on_sessions [OF assms]])
  fix token known and \<tau> :: admin_state
  assume mem: "memory_is_stored (adm_server \<tau>)"
  have "coherent (adm_server \<tau>) (attempt (lock_auth (adm_server \<tau>)) id (adm_server \<tau>) (\<lambda>auth.
       let (r, _, w) = authenticate_admin_access_token (rt_auth (am_route ae)) token (auth, srv_world (adm_server \<tau>));
           \<sigma> = (adm_server \<tau>)\<lparr>srv_world := w\<rparr>
       in attempt r from_auth \<sigma> (\<lambda>a. (Ok (OrganizationPrincipal a), \<sigma>))))"
    using mem by (auto intro!: coherent_guard coherent_attempt simp: split_beta Let_def)
  with mem show "adm_coherent \<tau> (if known then (Ok PlatformPrincipal, \<tau>)
     else on_server (\<lambda>\<sigma>.
       attempt (lock_auth \<sigma>) id \<sigma> (\<lambda>auth.
       let (r, _, w) = authenticate_admin_access_token (rt_auth (am_route ae)) token (auth, srv_world \<sigma>);
           \<sigma> = \<sigma>\<lparr>srv_world := w\<rparr>
       in attempt r from_auth \<sigma> (\<lambda>a. (Ok (OrganizationPrincipal a), \<sigma>)))) \<tau>)"
    by (simp add: adm_coherent_on_server)
qed

lemma coherent_after_auth:
  assumes "transactional (am_route ae)" "memory_is_stored \<sigma>" "\<not> srv_auth_poisoned \<sigma>"
    and "\<And>a \<tau>. memory_is_stored \<tau> \<Longrightarrow> coherent \<tau> (k a \<tau>)"
  shows "coherent \<sigma> (attempt r conv (\<sigma>\<lparr>srv_world := w\<rparr>) (\<lambda>a.
     perform (replace_auth (am_route ae) (staged a) (\<sigma>\<lparr>srv_world := w\<rparr>)) id (\<lambda>_. k a)))"
proof -
  have "coherent (\<sigma>\<lparr>srv_world := w\<rparr>) (attempt r conv (\<sigma>\<lparr>srv_world := w\<rparr>) (\<lambda>a.
     perform (replace_auth (am_route ae) (staged a) (\<sigma>\<lparr>srv_world := w\<rparr>)) id (\<lambda>_. k a)))"
    using assms(2,3) by (intro coherent_guard coherent_then [OF coherent_replace_auth [OF assms(1)]] assms(4)) simp_all
  then show ?thesis by (simp add: coherent_world)
qed

lemma adm_coherent_login:
  assumes re: "transactional (am_route ae)" and mem: "memory_is_stored \<sigma>"
  shows "coherent \<sigma> (admin_login_route ae ip given password turnstile \<sigma>)"
  unfolding admin_login_route_def Let_def
proof (rule coherent_then [OF coherent_checks(1) [OF mem]], rule coherent_guard, assumption, rule coherent_guard, assumption)
  fix \<tau> auth
  let ?i = "to_lowercase (am_env ae) (trim given)"
  assume mem': "memory_is_stored \<tau>" and "lock_auth \<tau> = Ok auth"
  obtain result staged w where l: "admin_login (rt_auth (am_route ae))
      \<lparr>ali_email = (if CHR ''@'' \<in> set ?i then Some ?i else None), ali_phone = (if CHR ''@'' \<in> set ?i then None else Some ?i),
       ali_password = password\<rparr> (auth, srv_world \<tau>) = (result, staged, w)" by (metis prod.collapse)
  have lock: "\<not> srv_auth_poisoned \<tau>" using \<open>lock_auth \<tau> = Ok auth\<close> by simp
  have "coherent (\<tau>\<lparr>srv_world := w\<rparr>) (perform (if is_ok result then replace_auth (am_route ae) staged (\<tau>\<lparr>srv_world := w\<rparr>)
      else (Ok (), \<tau>\<lparr>srv_world := w\<rparr>)) id k)"
    if "\<And>a \<upsilon>. memory_is_stored \<upsilon> \<Longrightarrow> coherent \<upsilon> (k a \<upsilon>)" for k :: "unit \<Rightarrow> server \<Rightarrow> (admin_session, api_error) result \<times> server"
    using mem' lock by (intro coherent_then that) (auto intro: coherent_replace_auth [OF re])
  note whole = this [unfolded coherent_world]
  show "coherent \<tau> (case admin_login (rt_auth (am_route ae))
      \<lparr>ali_email = (if CHR ''@'' \<in> set ?i then Some ?i else None), ali_phone = (if CHR ''@'' \<in> set ?i then None else Some ?i),
       ali_password = password\<rparr> (auth, srv_world \<tau>) of (result, staged, w) \<Rightarrow>
      perform (if is_ok result then replace_auth (am_route ae) staged (\<tau>\<lparr>srv_world := w\<rparr>) else (Ok (), \<tau>\<lparr>srv_world := w\<rparr>)) id
        (\<lambda>_ \<sigma>. case result of
           Ok z \<Rightarrow>
             perform (append_admin_event ae (admin_event (am_env ae) (Some (ad_organization z)) (Some (au_id (ad_user z)))
                 ''admin_login'' ''session'' None [(''client_kind'', JString ''admin'')])
               (record_login_success (am_route ae) ip OrganizationAdminSurface ?i \<sigma>)) id (\<lambda>_ \<sigma>. (Ok z, \<sigma>))
         | Err e \<Rightarrow>
             if e = InvalidCredentials then
               (case admin_record_failure ae ip OrganizationAdminSurface ?i \<sigma> of (limit, \<sigma>) \<Rightarrow>
                (Err (from_auth (case limit of Some e' \<Rightarrow> e' | None \<Rightarrow> InvalidCredentials)), \<sigma>))
             else (Err (from_auth e), record_login_success (am_route ae) ip OrganizationAdminSurface ?i \<sigma>)
         | Panic p \<Rightarrow> (Panic p, \<sigma>)))"
    unfolding l prod.case
  proof (rule whole)
    fix a \<upsilon> assume "memory_is_stored \<upsilon>"
    then have "coherent \<upsilon> (perform (append_admin_event ae e (record_login_success re' ip sf i \<upsilon>)) id (\<lambda>_ \<sigma>. (Ok z, \<sigma>)))"
      for e re' sf i and z :: admin_session
      using coherent_append_done [OF re, of "record_login_success re' ip sf i \<upsilon>" e z] by (simp add: coherent_success) (simp add: record_login_success_def)
    with \<open>memory_is_stored \<upsilon>\<close> show "coherent \<upsilon> (case result of
           Ok z \<Rightarrow>
             perform (append_admin_event ae (admin_event (am_env ae) (Some (ad_organization z)) (Some (au_id (ad_user z)))
                 ''admin_login'' ''session'' None [(''client_kind'', JString ''admin'')])
               (record_login_success (am_route ae) ip OrganizationAdminSurface ?i \<upsilon>)) id (\<lambda>_ \<sigma>. (Ok z, \<sigma>))
         | Err e \<Rightarrow>
             if e = InvalidCredentials then
               (case admin_record_failure ae ip OrganizationAdminSurface ?i \<upsilon> of (limit, \<sigma>) \<Rightarrow>
                (Err (from_auth (case limit of Some e' \<Rightarrow> e' | None \<Rightarrow> InvalidCredentials)), \<sigma>))
             else (Err (from_auth e), record_login_success (am_route ae) ip OrganizationAdminSurface ?i \<upsilon>)
         | Panic p \<Rightarrow> (Panic p, \<upsilon>))"
      by (cases result) (auto simp: split_beta coherent_record_failure coherent_of_success coherent_same simp del: coherent_pair)
  qed
qed

lemma adm_coherent_platform_login:
  assumes re: "transactional (am_route ae)" and mem: "memory_is_stored (adm_server \<sigma>)"
  shows "adm_coherent \<sigma> (platform_login_route ae ip token turnstile \<sigma>)"
  unfolding platform_login_route_def
proof (rule adm_coherent_then [OF adm_coherent_on_server], rule coherent_checks(1) [OF mem], rule adm_coherent_guard, assumption)
  fix \<tau> :: admin_state
  assume mem': "memory_is_stored (adm_server \<tau>)"
  let ?\<tau> = "\<tau>\<lparr>adm_server := record_login_success (am_route ae) ip PlatformSurface ''platform-token'' (adm_server \<tau>)\<rparr>"
  have "memory_is_stored (adm_server ?\<tau>)" using mem' by (simp add: record_login_success_def)
  then have "adm_coherent ?\<tau> (perform (on_sessions platform_issue ?\<tau>) id (\<lambda>access \<sigma>.
       perform (on_server (append_admin_event ae e) \<sigma>) id (\<lambda>_ \<sigma>. (Ok access, \<sigma>))))" for e
    by (intro adm_coherent_then [OF adm_coherent_on_sessions] adm_coherent_then [OF adm_coherent_on_server]
      coherent_admin_append [OF re] adm_coherent_done)
  then show "adm_coherent \<tau> (if \<not> platform_token_matches (am_token ae) token then
       let (limit, s) = admin_record_failure ae ip PlatformSurface ''platform-token'' (adm_server \<tau>)
       in (Err (from_auth (case limit of Some e \<Rightarrow> e | None \<Rightarrow> InvalidCredentials)), \<tau>\<lparr>adm_server := s\<rparr>)
     else
       let \<sigma> = ?\<tau> in
       perform (on_sessions platform_issue \<sigma>) id (\<lambda>access \<sigma>.
       perform (on_server (append_admin_event ae (admin_event (am_env ae) None None ''admin_login'' ''session'' None
         [(''client_kind'', JString ''platform'')])) \<sigma>) id (\<lambda>_ \<sigma>. (Ok access, \<sigma>))))"
    using mem' by (simp add: Let_def split_beta coherent_record_failure adm_coherent_def coherent_success del: coherent_pair)
qed

lemma adm_coherent_logout:
  assumes re: "transactional (am_route ae)" and mem: "memory_is_stored (adm_server \<sigma>)"
  shows "adm_coherent \<sigma> (admin_logout ae headers \<sigma>)"
  unfolding admin_logout_def
proof (rule adm_coherent_guard [OF mem], rule adm_coherent_then [OF adm_coherent_authenticate [OF mem]])
  fix token principal and \<tau> :: admin_state
  assume mem': "memory_is_stored (adm_server \<tau>)"
  show "adm_coherent \<tau> (case principal of
       PlatformPrincipal \<Rightarrow>
         perform (on_sessions (\<lambda>(m, w). ((), platform_revoke token m, w)) \<tau>) id (\<lambda>_ \<sigma>.
         on_server (append_admin_event ae (admin_event (am_env ae) None None ''session_revoked'' ''session'' None
           [(''client_kind'', JString ''platform'')])) \<sigma>)
     | OrganizationPrincipal a \<Rightarrow>
         on_server (\<lambda>\<sigma>.
           attempt (lock_auth \<sigma>) id \<sigma> (\<lambda>auth.
           let (r, staged, w) = logout (rt_auth (am_route ae)) token (auth, srv_world \<sigma>); \<sigma> = \<sigma>\<lparr>srv_world := w\<rparr> in
           attempt r from_auth \<sigma> (\<lambda>_.
           perform (replace_auth (am_route ae) staged \<sigma>) id (\<lambda>_ \<sigma>.
           append_admin_event ae (admin_event (am_env ae) (Some (aa_organization a)) (Some (au_id (aa_user a)))
             ''session_revoked'' ''session'' None [(''client_kind'', JString ''admin'')]) \<sigma>)))) \<tau>)"
    using mem'
    by (cases principal)
      (auto intro!: adm_coherent_then [OF adm_coherent_on_sessions] adm_coherent_on_server coherent_admin_append [OF re]
        coherent_guard coherent_after_auth [OF re] simp: Let_def split_beta simp del: coherent_pair)
qed

lemma adm_coherent_change_password:
  assumes re: "transactional (am_route ae)" and mem: "memory_is_stored (adm_server \<sigma>)"
  shows "adm_coherent \<sigma> (change_password_route ae headers current_password new_password \<sigma>)"
  unfolding change_password_route_def
proof (rule adm_coherent_guard [OF mem], rule adm_coherent_then [OF adm_coherent_authenticate [OF mem]])
  fix token principal and \<tau> :: admin_state
  assume mem': "memory_is_stored (adm_server \<tau>)"
  show "adm_coherent \<tau> (case principal of
       PlatformPrincipal \<Rightarrow> (Err (forbidden ''organization admin session is required''), \<tau>)
     | OrganizationPrincipal a \<Rightarrow>
         on_server (\<lambda>\<sigma>.
           attempt (lock_auth \<sigma>) id \<sigma> (\<lambda>auth.
           let (r, staged, w) = change_admin_password (rt_auth (am_route ae)) token current_password new_password
                 (auth, srv_world \<sigma>); \<sigma> = \<sigma>\<lparr>srv_world := w\<rparr> in
           attempt r from_auth \<sigma> (\<lambda>_.
           perform (replace_auth (am_route ae) staged \<sigma>) id (\<lambda>_ \<sigma>.
           append_admin_event ae (admin_event (am_env ae) (Some (aa_organization a)) (Some (au_id (aa_user a)))
             ''password_changed'' ''auth_user'' (Some (au_id (aa_user a))) []) \<sigma>)))) \<tau>)"
    using mem'
    by (cases principal)
      (auto intro!: adm_coherent_on_server coherent_admin_append [OF re] coherent_guard coherent_after_auth [OF re]
        simp: Let_def split_beta coherent_same simp del: coherent_pair)
qed

lemma adm_coherent_organization_admin:
  assumes "memory_is_stored (adm_server \<sigma>)" and "\<And>a \<sigma>. memory_is_stored \<sigma> \<Longrightarrow> coherent \<sigma> (body a \<sigma>)"
  shows "adm_coherent \<sigma> (as_organization_admin ae headers organization body \<sigma>)"
  unfolding as_organization_admin_def
  by (intro adm_coherent_then [OF adm_coherent_authenticate [OF assms(1)]] adm_coherent_guard adm_coherent_on_server assms(2))

lemma adm_coherent_platform:
  assumes "memory_is_stored (adm_server \<sigma>)" and "\<And>\<sigma>. memory_is_stored \<sigma> \<Longrightarrow> coherent \<sigma> (body \<sigma>)"
  shows "adm_coherent \<sigma> (perform (authenticate_principal ae headers \<sigma>) id (\<lambda>principal \<sigma>.
     attempt (require_platform principal) id \<sigma> (\<lambda>_. on_server body \<sigma>)))"
  by (intro adm_coherent_then [OF adm_coherent_authenticate [OF assms(1)]] adm_coherent_guard adm_coherent_on_server assms(2))

text \<open>Saving after a change of clock and random source, and the event at the end.\<close>

lemma coherent_moved:
  "coherent \<tau> out \<Longrightarrow> srv_auth_poisoned \<tau> = srv_auth_poisoned \<sigma> \<Longrightarrow> srv_ledger_poisoned \<tau> = srv_ledger_poisoned \<sigma>
     \<Longrightarrow> coherent \<sigma> out"
  by (simp add: coherent_def)

lemma coherent_save_all:
  assumes "transactional (am_route ae)" "memory_is_stored \<tau>" "\<not> srv_auth_poisoned \<sigma>" "\<not> srv_ledger_poisoned \<sigma>"
    and "srv_auth_poisoned \<tau> = srv_auth_poisoned \<sigma>" "srv_ledger_poisoned \<tau> = srv_ledger_poisoned \<sigma>"
  shows "coherent \<sigma> (perform (persist_staged_state ae staged_auth staged \<tau>) id (\<lambda>_ \<sigma>.
     perform (append_admin_event ae e \<sigma>) id (\<lambda>_ \<sigma>. (Ok x, \<sigma>))))"
  using assms by (intro coherent_moved [OF _ assms(5,6)] coherent_then [OF coherent_persist_staged] coherent_append_done) simp_all

lemma coherent_save_auth:
  assumes "transactional (am_route ae)" "memory_is_stored \<tau>" "\<not> srv_auth_poisoned \<sigma>"
    and "srv_auth_poisoned \<tau> = srv_auth_poisoned \<sigma>" "srv_ledger_poisoned \<tau> = srv_ledger_poisoned \<sigma>"
  shows "coherent \<sigma> (perform (replace_auth (am_route ae) staged \<tau>) id (\<lambda>_ \<sigma>.
     perform (append_admin_event ae e \<sigma>) id (\<lambda>_ \<sigma>. (Ok x, \<sigma>))))"
  using assms by (intro coherent_moved [OF _ assms(4,5)] coherent_then [OF coherent_replace_auth] coherent_append_done) simp_all

lemma coherent_save_ledger:
  assumes "transactional (am_route ae)" "memory_is_stored \<sigma>" "\<not> srv_ledger_poisoned \<sigma>"
  shows "coherent \<sigma> (perform (persist_service ae staged \<sigma>) id (\<lambda>_ \<sigma>.
     perform (append_admin_event ae e \<sigma>) id (\<lambda>_ \<sigma>. (Ok x, \<sigma>))))"
    and "coherent \<sigma> (perform (persist_service ae staged \<sigma>) id (\<lambda>_ \<sigma>. append_admin_event ae e \<sigma>))"
  using assms by (auto intro: coherent_then [OF coherent_persist_service] coherent_append_done coherent_admin_append)

lemmas coherent_saves = coherent_save_all coherent_save_auth coherent_save_ledger

lemma adm_coherent_members:
  assumes re: "transactional (am_route ae)" and mem: "memory_is_stored (adm_server \<sigma>)"
  shows "adm_coherent \<sigma> (list_members ae headers organization \<sigma>)"
    and "adm_coherent \<sigma> (add_member_route ae headers organization q \<sigma>)"
    and "adm_coherent \<sigma> (update_member_role_route ae headers organization membership role \<sigma>)"
    and "adm_coherent \<sigma> (remove_member_route ae headers organization membership \<sigma>)"
    and "adm_coherent \<sigma> (reset_member_password ae headers organization membership password \<sigma>)"
  unfolding list_members_def add_member_route_def update_member_role_route_def remove_member_route_def reset_member_password_def
  by (rule adm_coherent_organization_admin [OF mem],
    auto intro!: coherent_guard coherent_attempt coherent_saves [OF re] simp: Let_def split_beta coherent_same simp del: coherent_pair)+

lemma adm_coherent_organizations:
  assumes re: "transactional (am_route ae)" and mem: "memory_is_stored (adm_server \<sigma>)"
  shows "adm_coherent \<sigma> (list_organizations ae headers \<sigma>)"
    and "adm_coherent \<sigma> (admin_me ae headers \<sigma>)"
    and "adm_coherent \<sigma> (create_organization_route ae headers q \<sigma>)"
    and "adm_coherent \<sigma> (reset_organization_admin_password_route ae headers organization membership password \<sigma>)"
proof -
  show "adm_coherent \<sigma> (list_organizations ae headers \<sigma>)" "adm_coherent \<sigma> (admin_me ae headers \<sigma>)"
    unfolding list_organizations_def admin_me_def
    by (intro adm_coherent_then [OF adm_coherent_authenticate [OF mem]] adm_coherent_guard adm_coherent_done; assumption)+
  show "adm_coherent \<sigma> (create_organization_route ae headers q \<sigma>)"
    "adm_coherent \<sigma> (reset_organization_admin_password_route ae headers organization membership password \<sigma>)"
    unfolding create_organization_route_def reset_organization_admin_password_route_def
    by (rule adm_coherent_platform [OF mem],
      auto intro!: coherent_guard coherent_attempt coherent_saves [OF re] simp: Let_def split_beta coherent_same simp del: coherent_pair)+
qed

lemma stored_perform:
  "memory_is_stored (adm_server (snd x)) \<Longrightarrow> (\<And>a \<tau>. memory_is_stored (adm_server \<tau>) \<Longrightarrow> memory_is_stored (adm_server (snd (k a \<tau>))))
     \<Longrightarrow> memory_is_stored (adm_server (snd (perform x conv k)))"
  by (cases x; cases "fst x") auto

lemma adm_coherent_protect:
  assumes mem: "memory_is_stored (adm_server \<sigma>)" and "\<And>\<sigma>. memory_is_stored (adm_server \<sigma>) \<Longrightarrow> adm_coherent \<sigma> (handler \<sigma>)"
  shows "memory_is_stored (adm_server (snd (protect_admin_authorization ae path peer handler \<sigma>)))"
proof (cases "guarded_path ae path \<and> peer \<noteq> None")
  case False
  with assms(2) [OF mem] mem show ?thesis by (auto simp: protect_admin_authorization_def adm_coherent_def coherent_def)
next
  case True
  then obtain ip where ip: "peer = Some ip" "guarded_path ae path" by auto
  let ?c = "on_server (check_login_attempt (am_route ae) ip AdminAuthorizationSurface ''admin-authorization'') \<sigma>"
  have "memory_is_stored (adm_server (snd ?c))"
    using coherent_checks(1) [OF mem] by (simp add: on_server_def split_beta coherent_def)
  moreover have "memory_is_stored (adm_server (snd (handler \<tau>)))" if "memory_is_stored (adm_server \<tau>)" for \<tau>
    using assms(2) [OF that] by (simp add: adm_coherent_def coherent_def)
  ultimately show ?thesis
    by (auto simp: protect_admin_authorization_def ip Let_def split_beta admin_record_failure_def server_instant_def
      record_login_success_def intro!: stored_perform)
qed

section \<open>The whole server\<close>

datatype admin_request =
    AdminLogin ip_addr string string string
  | PlatformLogin ip_addr string string
  | AdminLogout http_headers
  | AdminMe http_headers
  | ChangePassword http_headers string string
  | ListOrganizations http_headers
  | CreateOrganization http_headers create_organization_request
  | ListMembers http_headers uuid
  | AddMember http_headers uuid add_member_request
  | UpdateMemberRole http_headers uuid uuid membership_role
  | RemoveMember http_headers uuid uuid
  | ResetMemberPassword http_headers uuid uuid string
  | ResetOrganizationAdminPassword http_headers uuid uuid string

text \<open>A request with the path it came by and the address of its client.\<close>

fun admin_step :: "admin_env \<Rightarrow> string \<Rightarrow> ip_addr option \<Rightarrow> admin_request \<Rightarrow> admin_state \<Rightarrow> admin_state" where
  "admin_step ae path peer (AdminLogin ip i p t) \<sigma> =
     snd (protect_admin_authorization ae path peer (on_server (admin_login_route ae ip i p t)) \<sigma>)"
| "admin_step ae path peer (PlatformLogin ip p t) \<sigma> = snd (protect_admin_authorization ae path peer (platform_login_route ae ip p t) \<sigma>)"
| "admin_step ae path peer (AdminLogout h) \<sigma> = snd (protect_admin_authorization ae path peer (admin_logout ae h) \<sigma>)"
| "admin_step ae path peer (AdminMe h) \<sigma> = snd (protect_admin_authorization ae path peer (admin_me ae h) \<sigma>)"
| "admin_step ae path peer (ChangePassword h c n) \<sigma> =
     snd (protect_admin_authorization ae path peer (change_password_route ae h c n) \<sigma>)"
| "admin_step ae path peer (ListOrganizations h) \<sigma> = snd (protect_admin_authorization ae path peer (list_organizations ae h) \<sigma>)"
| "admin_step ae path peer (CreateOrganization h q) \<sigma> =
     snd (protect_admin_authorization ae path peer (create_organization_route ae h q) \<sigma>)"
| "admin_step ae path peer (ListMembers h i) \<sigma> = snd (protect_admin_authorization ae path peer (list_members ae h i) \<sigma>)"
| "admin_step ae path peer (AddMember h i q) \<sigma> = snd (protect_admin_authorization ae path peer (add_member_route ae h i q) \<sigma>)"
| "admin_step ae path peer (UpdateMemberRole h i m r) \<sigma> =
     snd (protect_admin_authorization ae path peer (update_member_role_route ae h i m r) \<sigma>)"
| "admin_step ae path peer (RemoveMember h i m) \<sigma> =
     snd (protect_admin_authorization ae path peer (remove_member_route ae h i m) \<sigma>)"
| "admin_step ae path peer (ResetMemberPassword h i m p) \<sigma> =
     snd (protect_admin_authorization ae path peer (reset_member_password ae h i m p) \<sigma>)"
| "admin_step ae path peer (ResetOrganizationAdminPassword h i m p) \<sigma> =
     snd (protect_admin_authorization ae path peer (reset_organization_admin_password_route ae h i m p) \<sigma>)"

datatype whole_request = ForBusiness server_request | ForAdmin string "ip_addr option" admin_request

fun whole_step :: "admin_env \<Rightarrow> admin_state \<Rightarrow> whole_request \<Rightarrow> admin_state" where
  "whole_step ae \<sigma> (ForBusiness q) = \<sigma>\<lparr>adm_server := server_step (am_route ae) (adm_server \<sigma>) q\<rparr>"
| "whole_step ae \<sigma> (ForAdmin path peer q) = admin_step ae path peer q \<sigma>"

lemma admin_step_stored:
  assumes "memory_is_stored (adm_server \<sigma>)" "transactional (am_route ae)"
  shows "memory_is_stored (adm_server (admin_step ae path peer q \<sigma>))"
  by (cases q)
    (auto intro!: adm_coherent_protect [OF assms(1)] adm_coherent_on_server adm_coherent_login adm_coherent_platform_login
      adm_coherent_logout adm_coherent_change_password adm_coherent_members adm_coherent_organizations assms(2))

interpretation whole: invariant_machine "whole_step ae" "\<lambda>\<sigma>. memory_is_stored (adm_server \<sigma>)" "\<lambda>_. transactional (am_route ae)" for ae
proof
  fix \<sigma> :: admin_state and q
  assume "memory_is_stored (adm_server \<sigma>)" "transactional (am_route ae)"
  then show "memory_is_stored (adm_server (whole_step ae \<sigma> q))"
    by (cases q) (auto intro: server_step_coherent admin_step_stored)
qed





end
