(* ===== verification/AuditProperties.thy ===== *)
theory AuditProperties
  imports AuditChain Machine
begin

text \<open>
  What the audit chain promises: a table written by the program verifies, an event is recorded once, the audit log
  is read back as it was saved, and two tables that verify and end in the same event of a scope have the same
  chain for it. What it does not notice: that the newest events of a scope are missing.
\<close>

section \<open>Sorting\<close>

lemma insort_key_cong: "(\<And>y. y \<in> set ys \<Longrightarrow> f x \<le> f y \<longleftrightarrow> g x \<le> g y) \<Longrightarrow> insort_key f x ys = insort_key g x ys"
  by (induction ys) auto

lemma sort_key_cong:
  assumes "\<And>x y. x \<in> set xs \<Longrightarrow> y \<in> set xs \<Longrightarrow> f x \<le> f y \<longleftrightarrow> g x \<le> g y"
  shows "sort_key f xs = sort_key g xs"
  using assms by (induction xs) (auto intro: insort_key_cong)

lemma insort_key_append_last:
  "f x \<le> f z \<Longrightarrow> insort_key f x (ys @ [z]) = insort_key f x ys @ [z]"
  by (induction ys) auto

lemma sort_key_append_last: "(\<And>x. x \<in> set xs \<Longrightarrow> f x \<le> f z) \<Longrightarrow> sort_key f (xs @ [z]) = sort_key f xs @ [z]"
  by (induction xs) (auto simp: insort_key_append_last)

lemma set_chain [simp]: "set (chain s rows) = {r \<in> set rows. row_scope r = s}"
  by (auto simp: chain_def)

text \<open>The rows of a scope in the order in which verification meets them.\<close>

lemma verification_order:
  "filter (\<lambda>r. row_scope r = s) (sort_key (\<lambda>r. (row_scope r, row_sequence r)) rows) = chain s rows"
  unfolding chain_def filter_sort by (rule sort_key_cong) auto

section \<open>Linked chains\<close>

fun linked :: "audit_env \<Rightarrow> audit_signer \<Rightarrow> int \<Rightarrow> bytes \<Rightarrow> audit_row list \<Rightarrow> bool" where
  "linked ae signer n h [] = True"
| "linked ae signer n h (r # rs) =
     (row_sequence r = n + 1 \<and> row_previous_hash r = h \<and> row_key_id r = as_key_id signer
      \<and> row_event_hash r = sign ae signer (row_sequence r) (row_previous_hash r) (row_event r)
      \<and> linked ae signer (n + 1) (row_event_hash r) rs)"

lemma linked_append:
  "linked ae signer n h (rs @ ts) \<longleftrightarrow> linked ae signer n h rs
     \<and> linked ae signer (n + int (length rs)) (if rs = [] then h else row_event_hash (last rs)) ts"
  by (induction rs arbitrary: n h) (auto simp: add.assoc add.commute)

lemma linked_sequence: "linked ae signer n h rs \<Longrightarrow> i < length rs \<Longrightarrow> row_sequence (rs ! i) = n + 1 + int i"
  by (induction rs arbitrary: n h i) (auto simp: nth_Cons split: nat.splits)

lemma linked_last: "linked ae signer n h rs \<Longrightarrow> rs \<noteq> [] \<Longrightarrow> row_sequence (last rs) = n + int (length rs)"
  using linked_sequence [of ae signer n h rs "length rs - 1"] by (simp add: last_conv_nth of_nat_diff Suc_le_eq)

definition head_of :: "audit_heads \<Rightarrow> string \<Rightarrow> int \<times> bytes" where
  "head_of heads s = (case om_get heads s of Some x \<Rightarrow> x | None \<Rightarrow> (0, []))"

definition end_of :: "int \<times> bytes \<Rightarrow> audit_row list \<Rightarrow> int \<times> bytes" where
  "end_of x rs = (if rs = [] then x else (row_sequence (last rs), row_event_hash (last rs)))"

lemma verify_row_Ok:
  "verify_row ae signer r heads = Ok heads' \<longleftrightarrow>
     linked ae signer (fst (head_of heads (row_scope r))) (snd (head_of heads (row_scope r))) [r]
     \<and> heads' = om_insert (row_scope r) (row_sequence r, row_event_hash r) heads"
  by (auto simp: verify_row_def head_of_def Let_def split: prod.splits option.splits if_splits)

lemma verify_rows_Ok:
  "(\<exists>heads'. fold_result (verify_row ae signer) rows heads = Ok heads') \<longleftrightarrow>
     (\<forall>s. linked ae signer (fst (head_of heads s)) (snd (head_of heads s)) (filter (\<lambda>r. row_scope r = s) rows))"
proof (induction rows arbitrary: heads)
  case Nil
  then show ?case by simp
next
  case (Cons r rows)
  let ?x = "(row_sequence r, row_event_hash r)"
  have step: "(\<exists>heads'. fold_result (verify_row ae signer) (r # rows) heads = Ok heads') \<longleftrightarrow>
      linked ae signer (fst (head_of heads (row_scope r))) (snd (head_of heads (row_scope r))) [r]
      \<and> (\<forall>s. linked ae signer (fst (head_of (om_insert (row_scope r) ?x heads) s))
          (snd (head_of (om_insert (row_scope r) ?x heads) s)) (filter (\<lambda>r. row_scope r = s) rows))"
    by (auto simp: inversion verify_row_Ok simp flip: Cons.IH)
  have head: "head_of (om_insert (row_scope r) ?x heads) s = (if s = row_scope r then ?x else head_of heads s)" for s
    by (simp add: head_of_def)
  show ?case unfolding step head by auto
qed

text \<open>Verification succeeds exactly when the chain of every scope is linked from its beginning.\<close>

lemma verify_iff: "(\<exists>rep. verify ae signer rows = Ok rep) \<longleftrightarrow> (\<forall>s. linked ae signer 0 [] (chain s rows))"
proof -
  have "(\<exists>rep. verify ae signer rows = Ok rep) \<longleftrightarrow> (\<exists>heads. fold_result (verify_row ae signer)
      (sort_key (\<lambda>r. (row_scope r, row_sequence r)) rows) om_empty = Ok heads)"
    by (auto simp: verify_def inversion)
  then show ?thesis unfolding verify_rows_Ok by (simp add: verification_order head_of_def)
qed

section \<open>What the program writes\<close>

text \<open>
  PostgreSQL keeps whole microseconds; that this loses nothing the signature covers is assumed for the times since
  2000, where rounding towards the column's epoch and towards zero agree.
\<close>

definition recent :: "instant \<Rightarrow> bool" where
  "recent t \<longleftrightarrow> 946684800 * 10 ^ 9 \<le> t"

definition times_kept :: "audit_env \<Rightarrow> bool" where
  "times_kept ae \<longleftrightarrow> (\<forall>t. recent t \<longrightarrow> unix_micros (ad_time_column ae t) = unix_micros t)"

definition next_row :: "audit_env \<Rightarrow> audit_signer \<Rightarrow> audit_append \<Rightarrow> audit_row list \<Rightarrow> audit_row" where
  "next_row ae signer e rows =
     (let n = (case chain_head (ax_scope_key e) rows of Some r \<Rightarrow> row_sequence r + 1 | None \<Rightarrow> 1);
          h = (case chain_head (ax_scope_key e) rows of Some r \<Rightarrow> row_event_hash r | None \<Rightarrow> [])
      in \<lparr>row_event = e\<lparr>ax_occurred_at := ad_time_column ae (ax_occurred_at e)\<rparr>, row_sequence = n,
          row_previous_hash = h, row_event_hash = sign ae signer n h e, row_key_id = as_key_id signer\<rparr>)"

lemma next_row_event [simp]:
  "row_event (next_row ae signer e rows) = e\<lparr>ax_occurred_at := ad_time_column ae (ax_occurred_at e)\<rparr>"
  by (simp add: next_row_def Let_def)

lemma append_event_next:
  "append_event ae signer e rows = perform (insert_row ae (next_row ae signer e rows) rows) id
     (\<lambda>_ rows'. (Ok (row_sequence (next_row ae signer e rows), row_event_hash (next_row ae signer e rows)), rows'))"
  by (simp add: append_event_def next_row_def Let_def split: option.split)

lemma append_event_cases:
  obtains "append_event ae signer e rows = (Ok (row_sequence (next_row ae signer e rows),
      row_event_hash (next_row ae signer e rows)), rows @ [next_row ae signer e rows])"
      "ax_id e \<notin> row_id ` set rows"
  | err where "append_event ae signer e rows = (Err err, rows)"
proof (cases "insert_row ae (next_row ae signer e rows) rows = (Ok (), rows @ [next_row ae signer e rows])")
  case True
  then have "ax_id e \<notin> row_id ` set rows" by (auto simp: insert_row_def split: if_splits)
  with True show ?thesis by (intro that(1)) (simp_all add: append_event_next)
next
  case False
  then have "insert_row ae (next_row ae signer e rows) rows = (Err AuditInsert, rows)"
    by (simp add: insert_row_def split: if_splits)
  then show ?thesis by (intro that(2)) (simp add: append_event_next)
qed

lemma case_list_if: "(case xs of [] \<Rightarrow> a | y # ys \<Rightarrow> f (y # ys)) = (if xs = [] then a else f xs)"
  by (cases xs) simp_all

lemma chain_head_if: "chain_head s rows = (if chain s rows = [] then None else Some (last (chain s rows)))"
  unfolding chain_head_def by (rule case_list_if)

lemma chain_append: "chain s (rows @ [r]) = (if row_scope r = s then
    sort_key row_sequence (filter (\<lambda>q. row_scope q = s) rows @ [r]) else chain s rows)"
  by (simp add: chain_def)

lemma chain_head_end: "end_of (0, []) (chain s rows) = (case chain_head s rows of Some r \<Rightarrow> (row_sequence r, row_event_hash r) | None \<Rightarrow> (0, []))"
  by (simp add: chain_head_if end_of_def)

lemma linked_next_row:
  assumes "\<forall>s. linked ae signer 0 [] (chain s rows)" "times_kept ae" "recent (ax_occurred_at e)"
  shows "\<forall>s. linked ae signer 0 [] (chain s (rows @ [next_row ae signer e rows]))"
proof
  fix s
  let ?r = "next_row ae signer e rows"
  have sig: "sign ae signer n h (e\<lparr>ax_occurred_at := ad_time_column ae (ax_occurred_at e)\<rparr>) = sign ae signer n h e" for n h
    using assms(2,3) by (simp add: sign_def canonical_def times_kept_def)
  show "linked ae signer 0 [] (chain s (rows @ [?r]))"
  proof (cases "s = ax_scope_key e")
    case False
    with assms(1) show ?thesis by (simp add: chain_append)
  next
    case True
    have old: "linked ae signer 0 [] (chain s rows)" using assms(1) by blast
    have n: "row_sequence ?r = int (length (chain s rows)) + 1"
      and h: "row_previous_hash ?r = (if chain s rows = [] then [] else row_event_hash (last (chain s rows)))"
      using linked_last [OF old] True
      by (cases "chain (ax_scope_key e) rows = []"; simp add: next_row_def chain_head_if Let_def)+
    have "row_sequence q \<le> row_sequence ?r" if q: "q \<in> set (filter (\<lambda>q. row_scope q = s) rows)" for q
    proof -
      from q obtain i where "i < length (chain s rows)" "chain s rows ! i = q"
        by (metis (mono_tags, lifting) in_set_conv_nth mem_Collect_eq set_chain set_filter)
      with linked_sequence [OF old] n show ?thesis by fastforce
    qed
    then have "sort_key row_sequence (filter (\<lambda>q. row_scope q = s) rows @ [?r])
        = sort_key row_sequence (filter (\<lambda>q. row_scope q = s) rows) @ [?r]" by (rule sort_key_append_last)
    then have "chain s (rows @ [?r]) = chain s rows @ [?r]" using True by (simp add: chain_append) (simp add: chain_def)
    with old n h sig show ?thesis by (simp add: linked_append) (simp add: next_row_def Let_def)
  qed
qed

definition genuine :: "audit_env \<Rightarrow> audit_signer \<Rightarrow> audit_row list \<Rightarrow> bool" where
  "genuine ae signer rows \<longleftrightarrow> (\<forall>s. linked ae signer 0 [] (chain s rows)) \<and> distinct (map row_id rows)"

lemma genuine_append:
  assumes "genuine ae signer rows" "times_kept ae" "recent (ax_occurred_at e)"
  shows "genuine ae signer (snd (append_event ae signer e rows))"
  using assms linked_next_row [of ae signer rows e]
  by (cases rule: append_event_cases [of ae signer e rows]) (auto simp: genuine_def)

lemma genuine_domain_logs:
  assumes "genuine ae signer rows" "times_kept ae" "\<forall>a \<in> set audits. recent (al_created_at a)"
  shows "genuine ae signer (snd (append_domain_logs ae signer audits rows))"
  using assms
proof (induction audits arbitrary: rows)
  case (Cons a audits)
  have "genuine ae signer (snd (append_event ae signer (domain_event (ad_env ae) a) rows))"
    using Cons.prems by (intro genuine_append) (simp_all add: domain_event_def)
  with Cons show ?case
    by (cases rule: append_event_cases [of ae signer "domain_event (ad_env ae) a" rows]) simp_all
qed simp

lemma genuine_all:
  assumes "genuine ae signer rows" "times_kept ae" "\<forall>e \<in> set es. recent (ax_occurred_at e)"
  shows "genuine ae signer (snd (append_all ae signer es rows))"
  using assms
proof (induction es arbitrary: rows)
  case (Cons e es)
  have "genuine ae signer (snd (append_event ae signer e rows))"
    using Cons.prems by (intro genuine_append) simp_all
  with Cons show ?case by (cases rule: append_event_cases [of ae signer e rows]) simp_all
qed simp

text \<open>The clock of the running server.\<close>

definition clock_recent :: "world \<Rightarrow> bool" where
  "clock_recent w \<longleftrightarrow> (\<forall>n. recent (clock w n))"

lemma into_append_recent:
  assumes "clock_recent w" "into_append e w = (a, w')"
  shows "recent (ax_occurred_at a)" "clock_recent w'"
  using assms by (auto simp: into_append_def now_utc_def new_v4_def clock_recent_def Let_def)

lemma genuine_cutovers:
  assumes "genuine ae signer rows" "times_kept ae" "clock_recent w"
  shows "genuine ae signer (fst (snd (append_cutovers ae signer scopes (rows, w))))
    \<and> clock_recent (snd (snd (append_cutovers ae signer scopes (rows, w))))"
  using assms
proof (induction scopes arbitrary: rows w)
  case (Cons s scopes)
  obtain a w' where a: "into_append (cutover_event s) w = (a, w')" by fastforce
  note r = into_append_recent [OF Cons.prems(3) a]
  have "genuine ae signer (snd (append_event ae signer a rows))"
    using Cons.prems r(1) by (intro genuine_append)
  with Cons.IH [of _ w'] Cons.prems(2) r(2) a Cons.prems(1) show ?case
    by (cases rule: append_event_cases [of ae signer a rows]) simp_all
qed simp

lemma genuine_Nil: "genuine ae signer []"
  by (simp add: genuine_def chain_def)

lemma genuine_initialize:
  assumes "genuine ae signer rows" "times_kept ae" "clock_recent w" "\<forall>a \<in> set legacy. recent (al_created_at a)"
  shows "genuine ae signer (fst (snd (initialize_legacy ae signer legacy (rows, w))))
    \<and> clock_recent (snd (snd (initialize_legacy ae signer legacy (rows, w))))"
proof (cases rows)
  case Nil
  let ?es = "map (legacy_event (ad_env ae)) (sort_key (\<lambda>a. (al_created_at a, al_id a)) legacy)"
  obtain r t where t: "append_all ae signer ?es [] = (r, t)" by fastforce
  have "genuine ae signer t"
    using genuine_all [OF genuine_Nil assms(2), of ?es signer] assms(4) t by (simp add: legacy_event_def)
  from genuine_cutovers [OF this assms(2,3)] t Nil assms(3) show ?thesis
    by (cases r) (simp_all add: initialize_legacy_def Let_def split_beta genuine_Nil)
qed (use assms in \<open>simp add: initialize_legacy_def\<close>)

section \<open>The program's own table always verifies\<close>

datatype audit_command =
    RecordEvent security_audit_event
  | SaveLogs "audit_log list"
  | Initialize "audit_log list"

fun audit_step :: "audit_env \<Rightarrow> audit_signer \<Rightarrow> audit_row list \<times> world \<Rightarrow> audit_command \<Rightarrow> audit_row list \<times> world" where
  "audit_step ae signer \<sigma> (RecordEvent e) = snd (append_security_event ae signer e \<sigma>)"
| "audit_step ae signer (rows, w) (SaveLogs audits) = (snd (in_transaction (append_domain_logs ae signer audits) rows), w)"
| "audit_step ae signer \<sigma> (Initialize legacy) = snd (initialize_legacy ae signer legacy \<sigma>)"

fun logs_recent :: "audit_command \<Rightarrow> bool" where
  "logs_recent (RecordEvent e) = True"
| "logs_recent (SaveLogs audits) = list_all (\<lambda>a. recent (al_created_at a)) audits"
| "logs_recent (Initialize legacy) = list_all (\<lambda>a. recent (al_created_at a)) legacy"

definition audit_inv :: "audit_env \<Rightarrow> audit_signer \<Rightarrow> audit_row list \<times> world \<Rightarrow> bool" where
  "audit_inv ae signer \<sigma> \<longleftrightarrow> times_kept ae \<and> clock_recent (snd \<sigma>) \<and> genuine ae signer (fst \<sigma>)"

lemma genuine_transaction:
  "genuine ae signer rows \<Longrightarrow> genuine ae signer (snd (body rows)) \<Longrightarrow> genuine ae signer (snd (in_transaction body rows))"
  by (auto simp: in_transaction_def split: prod.split result.split)

lemma audit_step_inv:
  assumes "audit_inv ae signer \<sigma>" "logs_recent c"
  shows "audit_inv ae signer (audit_step ae signer \<sigma> c)"
proof (cases c)
  case (RecordEvent e)
  obtain rows w a w' where \<sigma>: "\<sigma> = (rows, w)" and a: "into_append e w = (a, w')" by (metis prod.collapse)
  obtain r t where t: "in_transaction (append_event ae signer a) rows = (r, t)" by fastforce
  have inv: "times_kept ae" "clock_recent w" "genuine ae signer rows" using assms(1) \<sigma> by (simp_all add: audit_inv_def)
  have "genuine ae signer t"
    using genuine_transaction [where body = "append_event ae signer a", OF inv(3)] t
      genuine_append [OF inv(3,1) into_append_recent(1) [OF inv(2) a]] by (metis snd_conv)
  with RecordEvent \<sigma> a t inv(1) into_append_recent(2) [OF inv(2) a] show ?thesis
    by (cases r) (simp_all add: append_security_event_def audit_inv_def)
next
  case (SaveLogs audits)
  with assms show ?thesis
    by (cases \<sigma>) (auto simp: audit_inv_def list_all_iff intro!: genuine_transaction genuine_domain_logs)
next
  case (Initialize legacy)
  with assms genuine_initialize [of ae signer "fst \<sigma>" "snd \<sigma>" legacy] show ?thesis
    by (simp add: audit_inv_def list_all_iff)
qed

interpretation audit: invariant_machine "audit_step ae signer" "audit_inv ae signer" logs_recent for ae signer
  by unfold_locales (rule audit_step_inv)

text \<open>
  C8: Whatever the server records, saves or imports, in whatever order and whether the statements succeed or fail, its
  audit table passes verification, every event counted: an alarm of the verification is never a false one.
\<close>

theorem audit_table_always_verifies:
  assumes "times_kept ae" "clock_recent w" "\<forall>c \<in> set cs. logs_recent c"
  shows "\<exists>rep. verify ae signer (fst (run (audit_step ae signer) ([], w) cs)) = Ok rep
    \<and> rep_events rep = length (fst (run (audit_step ae signer) ([], w) cs))"
proof -
  have "audit_inv ae signer ([], w)" using assms by (simp add: audit_inv_def genuine_Nil)
  from audit.run_inv [OF this assms(3)]
  have "\<exists>rep. verify ae signer (fst (run (audit_step ae signer) ([], w) cs)) = Ok rep"
    unfolding verify_iff audit_inv_def genuine_def by blast
  then show ?thesis by (auto simp: verify_def inversion)
qed

section \<open>Every record of the audit log once\<close>

text \<open>
  Saving the ledger's audit log appends each record that is not yet in the table and leaves what is there
  alone, and saving it again appends nothing: the ledger is saved with its whole log every time, and
  every record is signed into the chain once.
\<close>

theorem logs_recorded_once:
  assumes "append_domain_logs ae signer audits rows = (Ok (), rows')"
  shows "(\<exists>new. rows' = rows @ new \<and> set (map row_id new) = al_id ` set audits - row_id ` set rows)
    \<and> (distinct (map row_id rows) \<longrightarrow> distinct (map row_id rows'))
    \<and> append_domain_logs ae signer audits rows' = (Ok (), rows')"
proof -
  have skip: "append_domain_logs ae signer as ts = (Ok (), ts)" if "al_id ` set as \<subseteq> row_id ` set ts" for as ts
    using that by (induction as) auto
  have "\<exists>new. rows' = rows @ new \<and> set (map row_id new) = al_id ` set audits - row_id ` set rows
      \<and> distinct (map row_id new) \<and> set (map row_id new) \<inter> row_id ` set rows = {}"
    using assms
  proof (induction audits arbitrary: rows)
    case (Cons a audits)
    show ?case
    proof (cases "al_id a \<in> row_id ` set rows")
      case True
      with Cons.prems Cons.IH [of rows] show ?thesis by auto
    next
      case False
      let ?e = "domain_event (ad_env ae) a"
      let ?r = "next_row ae signer ?e rows"
      have "append_domain_logs ae signer audits (rows @ [?r]) = (Ok (), rows')"
        using Cons.prems False by (cases rule: append_event_cases [of ae signer ?e rows]) simp_all
      from Cons.IH [OF this] obtain new where new: "rows' = rows @ [?r] @ new"
        "set (map row_id new) = al_id ` set audits - row_id ` set (rows @ [?r])" "distinct (map row_id new)"
        by auto
      have "row_id ?r = al_id a" by (simp add: domain_event_def)
      with new False show ?thesis by (intro exI [of _ "?r # new"]) auto
    qed
  qed auto
  then obtain new where new: "rows' = rows @ new" "row_id ` set new = al_id ` set audits - row_id ` set rows"
    "distinct (map row_id new)" "row_id ` set new \<inter> row_id ` set rows = {}" by auto
  have "al_id ` set audits \<subseteq> row_id ` set rows'"
    unfolding new(1) set_append image_Un new(2) by blast
  from skip [OF this] have again: "append_domain_logs ae signer audits rows' = (Ok (), rows')" .
  have "distinct (map row_id rows')" if "distinct (map row_id rows)"
    using that new(3,4) by (simp add: new(1) Int_commute)
  with new(1,2) again show ?thesis by simp
qed

section \<open>What the head of a chain determines\<close>

text \<open>What is signed of a row, and the row without its signature.\<close>

definition signed_part :: "audit_env \<Rightarrow> audit_signer \<Rightarrow> audit_row \<Rightarrow> canonical_event" where
  "signed_part ae signer r = canonical ae signer (row_sequence r) (row_previous_hash r) (row_event r)"

lemma linked_hash: "linked ae signer n h rs \<Longrightarrow> r \<in> set rs
    \<Longrightarrow> row_event_hash r = ad_hmac ae (as_key signer) (ad_json ae (signed_part ae signer r)) \<and> row_key_id r = as_key_id signer"
  by (induction rs arbitrary: n h) (auto simp: sign_def signed_part_def)

definition no_collision :: "audit_env \<Rightarrow> audit_signer \<Rightarrow> audit_row set \<Rightarrow> bool" where
  "no_collision ae signer S \<longleftrightarrow> inj_on (\<lambda>c. ad_hmac ae (as_key signer) (ad_json ae c)) (signed_part ae signer ` S)"

lemma no_collisionD:
  assumes "no_collision ae signer S" "linked ae signer n h rs" "linked ae signer m k ts" "set rs \<union> set ts \<subseteq> S"
    and "r \<in> set rs" "t \<in> set ts" "row_event_hash r = row_event_hash t"
  shows "signed_part ae signer r = signed_part ae signer t"
proof -
  have "r \<in> S" "t \<in> S" using assms(4,5,6) by auto
  then show ?thesis
    using assms(1,7) linked_hash [OF assms(2,5)] linked_hash [OF assms(3,6)]
    unfolding no_collision_def by (auto dest: inj_onD)
qed

lemma signed_partD:
  assumes "signed_part ae signer r = signed_part ae signer t"
  shows "row_sequence r = row_sequence t" and "inj (ad_hex ae) \<Longrightarrow> row_previous_hash r = row_previous_hash t"
  using assms by (auto simp: signed_part_def canonical_def dest: injD)

lemma linked_determined:
  assumes "linked ae signer 0 [] rs" "linked ae signer 0 [] ts" "length rs = length ts"
    and "rs \<noteq> [] \<Longrightarrow> row_event_hash (last rs) = row_event_hash (last ts)"
    and "no_collision ae signer S" "set rs \<union> set ts \<subseteq> S" "inj (ad_hex ae)"
  shows "list_all2 (\<lambda>r t. signed_part ae signer r = signed_part ae signer t \<and> row_event_hash r = row_event_hash t) rs ts"
  using assms(1-4,6)
proof (induction rs arbitrary: ts rule: rev_induct)
  case (snoc r rs)
  obtain t us where ts: "ts = us @ [t]" using snoc.prems(3) by (cases ts rule: rev_cases) auto
  have hash: "row_event_hash r = row_event_hash t" using snoc.prems(4) ts by simp
  have signed: "signed_part ae signer r = signed_part ae signer t"
    using no_collisionD [OF assms(5) snoc.prems(1,2,5), of r t] ts hash by simp
  have "rs \<noteq> [] \<Longrightarrow> row_event_hash (last rs) = row_event_hash (last us)"
    using snoc.prems(1-3) ts signed_partD(2) [OF signed assms(7)] by (auto simp: linked_append split: if_splits)
  with snoc ts have "list_all2 (\<lambda>r t. signed_part ae signer r = signed_part ae signer t \<and> row_event_hash r = row_event_hash t) rs us"
    by (intro snoc.IH) (auto simp: linked_append)
  with hash signed ts show ?case by (simp add: list_all2_appendI)
qed simp

text \<open>A row is determined by what is signed of it, if the texts are and the time is in whole microseconds.\<close>

lemma decimal_value: "foldl (\<lambda>a c. 10 * a + (of_char c - 48)) 0 (decimal n) = n"
  by (induction n rule: decimal.induct) (subst decimal.simps, auto simp: digit_def)

lemma decimal_digits: "\<forall>c \<in> set (decimal n). 48 \<le> (of_char c :: nat) \<and> (of_char c :: nat) \<le> 57"
  by (induction n rule: decimal.induct) (subst decimal.simps, auto simp: digit_def)

lemma decimal_not_Nil: "decimal n \<noteq> []"
  by (subst decimal.simps) simp

lemma int_to_string_inj: "int_to_string m = int_to_string n \<longleftrightarrow> m = n"
proof -
  have "decimal a = decimal b \<longleftrightarrow> a = b" for a b by (metis decimal_value)
  moreover have "decimal a \<noteq> CHR ''-'' # x" for a x
  proof
    assume "decimal a = CHR ''-'' # x"
    with decimal_digits [of a] show False by simp
  qed
  moreover have "CHR ''-'' # x \<noteq> decimal a" for a x using calculation(2) by metis
  ultimately show ?thesis by (auto simp: int_to_string_def)
qed

lemma unix_micros_exact: "1000 dvd t \<Longrightarrow> unix_micros t * 1000 = t"
  by (auto simp: unix_micros_def)

lemma row_determined:
  assumes "signed_part ae signer r = signed_part ae signer t" "row_event_hash r = row_event_hash t"
    and "row_key_id r = row_key_id t" "inj (ad_hex ae)" "inj (uuid_to_string (ad_env ae))"
    and "1000 dvd ax_occurred_at (row_event r)" "1000 dvd ax_occurred_at (row_event t)"
  shows "r = t"
proof -
  have f: "unix_micros (ax_occurred_at (row_event r)) = unix_micros (ax_occurred_at (row_event t))"
    "ax_scope_key (row_event r) = ax_scope_key (row_event t)" "ax_actor_type (row_event r) = ax_actor_type (row_event t)"
    "ax_action (row_event r) = ax_action (row_event t)" "ax_resource_type (row_event r) = ax_resource_type (row_event t)"
    "ax_metadata (row_event r) = ax_metadata (row_event t)"
    "uuid_to_string (ad_env ae) (row_id r) = uuid_to_string (ad_env ae) (row_id t)"
    "map_option (uuid_to_string (ad_env ae)) (ax_actor_id (row_event r)) = map_option (uuid_to_string (ad_env ae)) (ax_actor_id (row_event t))"
    "map_option (uuid_to_string (ad_env ae)) (ax_resource_id (row_event r)) = map_option (uuid_to_string (ad_env ae)) (ax_resource_id (row_event t))"
    using assms(1) by (simp_all add: signed_part_def canonical_def int_to_string_inj)
  note inj = injD [OF option.inj_map [OF assms(5)]]
  have "ax_occurred_at (row_event r) = ax_occurred_at (row_event t)"
    using f(1) unix_micros_exact [OF assms(6)] unix_micros_exact [OF assms(7)] by metis
  with f(2-6) injD [OF assms(5) f(7)] inj [OF f(8)] inj [OF f(9)] have "row_event r = row_event t"
    by (intro audit_append.equality) simp_all
  with assms(2,3) signed_partD [OF assms(1)] assms(4) show ?thesis by (auto intro!: audit_row.equality)
qed

text \<open>
  C7: Two audit tables that both pass verification and whose newest event of a scope has the same signature have the
  same chain of that scope: once the head of a chain is known, as from the line that is logged for every
  event, no event before it can be changed, inserted, removed or moved without the key. (No two of the
  events have the same MAC; times are in the microseconds of the column.)
\<close>

theorem head_determines_chain:
  assumes "verify ae signer rows = Ok rep" "verify ae signer rows' = Ok rep'"
    and "chain_head s rows = Some h" "chain_head s rows' = Some h'" "row_event_hash h = row_event_hash h'"
    and "no_collision ae signer (set rows \<union> set rows')" "inj (ad_hex ae)" "inj (uuid_to_string (ad_env ae))"
    and "\<forall>r \<in> set rows \<union> set rows'. 1000 dvd ax_occurred_at (row_event r)"
  shows "chain s rows = chain s rows'"
proof -
  let ?c = "chain s rows" and ?d = "chain s rows'"
  have c: "linked ae signer 0 [] ?c" and d: "linked ae signer 0 [] ?d"
    using assms(1,2) verify_iff by blast+
  have ne: "?c \<noteq> []" "last ?c = h" "?d \<noteq> []" "last ?d = h'"
    using assms(3,4) by (auto simp: chain_head_if split: if_splits)
  have sub: "set ?c \<union> set ?d \<subseteq> set rows \<union> set rows'" by auto
  have "h \<in> set ?c" "h' \<in> set ?d" using ne last_in_set by blast+
  then have "signed_part ae signer h = signed_part ae signer h'"
    using no_collisionD [OF assms(6) c d sub] assms(5) by blast
  from signed_partD(1) [OF this] have "length ?c = length ?d"
    using linked_last [OF c ne(1)] linked_last [OF d ne(3)] ne(2,4) by simp
  from linked_determined [OF c d this _ assms(6) sub assms(7)] ne assms(5)
  have all: "list_all2 (\<lambda>r t. signed_part ae signer r = signed_part ae signer t \<and> row_event_hash r = row_event_hash t) ?c ?d"
    by simp
  have "list_all2 (=) ?c ?d"
  proof (rule list.rel_mono_strong [OF all])
    fix r t
    assume r: "r \<in> set ?c" and t: "t \<in> set ?d"
      and eq: "signed_part ae signer r = signed_part ae signer t \<and> row_event_hash r = row_event_hash t"
    show "r = t"
      using row_determined [of ae signer r t] eq linked_hash [OF c r] linked_hash [OF d t] assms(7,8,9) r t sub by auto
  qed
  then show ?thesis by (simp add: list.rel_eq)
qed

section \<open>What verification does not notice\<close>

lemma linked_above: "linked ae signer m h rs \<Longrightarrow> r \<in> set rs \<Longrightarrow> m < row_sequence r"
  by (induction rs arbitrary: m h) fastforce+

lemma linked_up_to: "linked ae signer m h rs \<Longrightarrow> linked ae signer m h (filter (\<lambda>r. row_sequence r \<le> n) rs)"
proof (induction rs arbitrary: m h)
  case (Cons r rs)
  then have "filter (\<lambda>r. row_sequence r \<le> n) rs = []" if "n < row_sequence r"
    using that linked_above [of ae signer "m + 1" "row_event_hash r" rs] by (force simp: filter_empty_conv)
  with Cons show ?case by auto
qed simp

text \<open>
  A table from which the newest events of a scope were deleted, or all of them, passes verification: it follows
  the links from the beginning and does not know where a chain ended.
\<close>

theorem deleted_end_unnoticed:
  assumes "verify ae signer rows = Ok rep"
  shows "\<exists>rep'. verify ae signer (filter (\<lambda>r. row_scope r \<noteq> s \<or> row_sequence r \<le> n) rows) = Ok rep'"
  unfolding verify_iff
proof
  fix s'
  have "linked ae signer 0 [] (chain s' rows)" using assms verify_iff by blast
  from this linked_up_to [OF this, of n]
  show "linked ae signer 0 [] (chain s' (filter (\<lambda>r. row_scope r \<noteq> s \<or> row_sequence r \<le> n) rows))"
  proof (cases "s' = s")
    case True
    have "filter (\<lambda>r. row_scope r = s) (filter (\<lambda>r. row_scope r \<noteq> s \<or> row_sequence r \<le> n) rows)
        = filter (\<lambda>r. row_sequence r \<le> n) (filter (\<lambda>r. row_scope r = s) rows)"
      by (auto intro: filter_cong)
    with True \<open>linked ae signer 0 [] (filter (\<lambda>r. row_sequence r \<le> n) (chain s' rows))\<close> show ?thesis
      by (simp add: chain_def filter_sort)
  next
    case False
    have "filter (\<lambda>r. row_scope r = s') (filter (\<lambda>r. row_scope r \<noteq> s \<or> row_sequence r \<le> n) rows)
        = filter (\<lambda>r. row_scope r = s') rows"
      using False by (auto intro: filter_cong)
    with \<open>linked ae signer 0 [] (chain s' rows)\<close> show ?thesis by (simp add: chain_def)
  qed
qed

section \<open>Reading the audit log back\<close>

lemma insort_key_map: "map g (insort_key (\<lambda>x. f (g x)) x xs) = insort_key f (g x) (map g xs)"
  by (induction xs) auto

lemma sort_key_map: "map g (sort_key (\<lambda>x. f (g x)) xs) = sort_key f (map g xs)"
  by (induction xs) (simp_all add: insort_key_map)

lemma appended_logs:
  assumes "append_domain_logs ae signer audits rows = (Ok (), rows')" "distinct (map al_id audits)"
    and "al_id ` set audits \<inter> row_id ` set rows = {}"
  shows "\<exists>new. rows' = rows @ new \<and> map row_event new
    = map (\<lambda>a. (domain_event (ad_env ae) a)\<lparr>ax_occurred_at := ad_time_column ae (al_created_at a)\<rparr>) audits"
  using assms
proof (induction audits arbitrary: rows)
  case (Cons a audits)
  let ?e = "domain_event (ad_env ae) a"
  let ?r = "next_row ae signer ?e rows"
  have r: "row_event ?r = ?e\<lparr>ax_occurred_at := ad_time_column ae (al_created_at a)\<rparr>" "row_id ?r = al_id a"
    by (simp_all add: domain_event_def)
  have "append_domain_logs ae signer audits (rows @ [?r]) = (Ok (), rows')"
    using Cons.prems(1,3) by (cases rule: append_event_cases [of ae signer ?e rows]) simp_all
  from Cons.IH [OF this] Cons.prems(2,3) r(2) obtain new where "rows' = (rows @ [?r]) @ new"
    "map row_event new = map (\<lambda>a. (domain_event (ad_env ae) a)\<lparr>ax_occurred_at := ad_time_column ae (al_created_at a)\<rparr>) audits"
    by auto
  with r(1) show ?case by (intro exI [of _ "?r # new"]) simp
qed simp

definition uuid_text_exact :: "env \<Rightarrow> bool" where
  "uuid_text_exact env \<longleftrightarrow> (\<forall>u. parse_uuid env (uuid_to_string env u) = Some u)"

lemma log_of_domain_event:
  assumes "uuid_text_exact env"
  shows "log_of_event env (domain_event env a) = Ok a"
  using assms
  by (cases a; cases "al_organization a")
    (simp_all add: log_of_event_def domain_event_def scope_key_def strip_prefix_def uuid_text_exact_def ok_or_def)

text \<open>
  The audit log that is read at the next start is the one that was saved, in the order of time: nothing is lost,
  doubled or changed by the way through the signed events, whatever other events the table holds. (For times the
  column holds exactly.)
\<close>

theorem saved_logs_read_back:
  assumes "append_domain_logs ae signer audits rows = (Ok (), rows')" "distinct (map al_id audits)"
    and "al_id ` set audits \<inter> row_id ` set rows = {}"
    and "\<forall>r \<in> set rows. json_get ''ledger_id'' (ax_metadata (row_event r)) = None"
    and "\<forall>a \<in> set audits. ad_time_column ae (al_created_at a) = al_created_at a" "uuid_text_exact (ad_env ae)"
  shows "load_audit_logs (ad_env ae) rows' = Ok (sort_key (\<lambda>a. (al_created_at a, al_id a)) audits)"
proof -
  let ?D = "domain_event (ad_env ae)" and ?L = "log_of_event (ad_env ae)"
  let ?k = "\<lambda>e. (ax_occurred_at e, ax_id e)"
  have "(?D a)\<lparr>ax_occurred_at := ad_time_column ae (al_created_at a)\<rparr> = ?D a" if "a \<in> set audits" for a
    using assms(5) that by (simp add: domain_event_def)
  with appended_logs [OF assms(1-3)] obtain new where new: "rows' = rows @ new" "map row_event new = map ?D audits"
    by (auto cong: map_cong)
  have "json_get ''ledger_id'' (ax_metadata (?D a)) \<noteq> None" for a by (simp add: domain_event_def)
  then have "\<forall>e \<in> set (map row_event new). json_get ''ledger_id'' (ax_metadata e) \<noteq> None" unfolding new(2) by simp
  then have "filter (\<lambda>r. json_get ''ledger_id'' (ax_metadata (row_event r)) \<noteq> None) rows' = new"
    using assms(4) new(1) by (simp add: filter_empty_conv filter_id_conv)
  moreover have "map (\<lambda>r. ?L (row_event r)) (sort_key (\<lambda>r. ?k (row_event r)) new) = map ?L (sort_key ?k (map ?D audits))"
    unfolding new(2) [symmetric] sort_key_map [symmetric] by simp
  moreover have "\<dots> = map Ok (sort_key (\<lambda>a. ?k (?D a)) audits)"
    unfolding sort_key_map [symmetric] using log_of_domain_event [OF assms(6)] by simp
  ultimately show ?thesis by (simp add: load_audit_logs_def map_result_Ok) (simp add: domain_event_def)
qed

section \<open>Examples\<close>

text \<open>A signature that is the event's number, texts that are decimals, a column that rounds to microseconds.\<close>

definition demo_audit_env :: audit_env where
  "demo_audit_env = \<lparr>ad_env = demo_env\<lparr>uuid_to_string := decimal, parse_uuid := digits_value\<rparr>,
     ad_hex = map (\<lambda>b. char_of (unat b)), ad_json = (\<lambda>c. replicate 31 0 @ [word_of_int (ce_sequence c)]),
     ad_hmac = (\<lambda>_ m. m), ad_time_column = (\<lambda>t. t div 1000 * 1000), ad_accepts = (\<lambda>_. True)\<rparr>"

definition demo_signer :: audit_signer where
  "demo_signer = \<lparr>as_key_id = ''k'', as_key = replicate 32 0x5a\<rparr>"

definition demo_audit_world :: world where
  "demo_audit_world = demo_world\<lparr>clock := (\<lambda>n. 10 ^ 18 + int n)\<rparr>"

lemma demo_times: "times_kept demo_audit_env" "clock_recent demo_audit_world"
  by (auto simp: times_kept_def demo_audit_env_def unix_micros_def recent_def clock_recent_def demo_audit_world_def)

lemma demo_uuid_text: "uuid_text_exact (ad_env demo_audit_env)"
  using decimal_digits decimal_value
  by (simp add: uuid_text_exact_def demo_audit_env_def digits_value_def decimal_not_Nil list_all_iff)

lemma demo_injective: "inj (ad_hex demo_audit_env)" "inj (uuid_to_string (ad_env demo_audit_env))"
proof -
  have "unat b < 2 ^ LENGTH(8)" for b :: "8 word" by (rule unsigned_less)
  then have "unat b mod 256 = unat b" for b :: "8 word" by simp
  then have "inj (\<lambda>b :: 8 word. char_of (unat b))"
    by (intro injI) (metis of_char_of word_unat_eq_iff)
  then show "inj (ad_hex demo_audit_env)" by (simp add: demo_audit_env_def inj_mapI)
  show "inj (uuid_to_string (ad_env demo_audit_env))"
    using demo_uuid_text by (intro injI) (metis option.inject uuid_text_exact_def)
qed

text \<open>A record of the ledger's log.\<close>

definition demo_log :: "uuid \<Rightarrow> instant \<Rightarrow> audit_log" where
  "demo_log i t = \<lparr>al_id = i, al_organization = None, al_ledger = 30, al_actor = 4, al_action = ''transaction.paid'',
     al_resource_type = ''transaction'', al_resource = 60, al_summary = ''S'', al_created_at = t\<rparr>"

definition demo_event_row :: "uuid \<Rightarrow> instant \<Rightarrow> int \<Rightarrow> bytes \<Rightarrow> audit_row" where
  "demo_event_row i t n h = \<lparr>row_event = domain_event (ad_env demo_audit_env) (demo_log i t), row_sequence = n,
     row_previous_hash = h, row_event_hash = replicate 31 0 @ [word_of_int n], row_key_id = ''k''\<rparr>"

definition demo_table :: "audit_row list" where
  "demo_table = [demo_event_row 80 2000 1 [], demo_event_row 70 5000 2 (replicate 31 0 @ [1])]"

lemma demo_saved: "append_domain_logs demo_audit_env demo_signer [demo_log 80 2000, demo_log 70 5000] [] = (Ok (), demo_table)"
  by (simp add: demo_table_def append_event_def chain_head_def chain_def insert_row_def row_checks_def scope_pattern_def
    domain_event_def scope_key_def demo_log_def demo_event_row_def sign_def canonical_def demo_audit_env_def demo_signer_def Let_def)

lemma demo_row_simps:
  "row_scope (demo_event_row i t n h) = ''platform''" "row_sequence (demo_event_row i t n h) = n" "row_id (demo_event_row i t n h) = i"
  "row_event_hash (demo_event_row i t n h) = replicate 31 0 @ [word_of_int n]" "row_previous_hash (demo_event_row i t n h) = h"
  "row_key_id (demo_event_row i t n h) = as_key_id demo_signer" "ax_occurred_at (row_event (demo_event_row i t n h)) = t"
  by (simp_all add: demo_event_row_def domain_event_def demo_log_def scope_key_def demo_signer_def)

lemma demo_sign: "sign demo_audit_env demo_signer n h e = replicate 31 0 @ [word_of_int n]"
  by (simp add: sign_def canonical_def demo_audit_env_def)

lemma demo_chain: "chain s demo_table = (if s = ''platform'' then demo_table else [])"
  "chain s (rev demo_table) = (if s = ''platform'' then demo_table else [])"
  by (auto simp: chain_def demo_table_def demo_row_simps)

lemma demo_verified: "\<exists>rep. verify demo_audit_env demo_signer demo_table = Ok rep" "\<exists>rep. verify demo_audit_env demo_signer (rev demo_table) = Ok rep"
  unfolding verify_iff demo_chain by (simp_all add: demo_table_def demo_row_simps demo_sign)

theorem audit_table_always_verifies_witness:
  "\<exists>rep. verify demo_audit_env demo_signer (fst (run (audit_step demo_audit_env demo_signer) ([], demo_audit_world)
      [Initialize [], RecordEvent (cutover_event ''platform''), SaveLogs [demo_log 80 (10 ^ 18)]])) = Ok rep"
  using audit_table_always_verifies [OF demo_times, of "[Initialize [], RecordEvent (cutover_event ''platform''), SaveLogs [demo_log 80 (10 ^ 18)]]" demo_signer]
  by (auto simp del: run_Cons simp: demo_log_def recent_def)

theorem logs_recorded_once_witness:
  "append_domain_logs demo_audit_env demo_signer [demo_log 80 2000, demo_log 70 5000] demo_table = (Ok (), demo_table)"
  using logs_recorded_once [OF demo_saved] by blast

theorem head_determines_chain_witness: "chain ''platform'' demo_table = chain ''platform'' (rev demo_table)"
proof -
  obtain rep rep' where "verify demo_audit_env demo_signer demo_table = Ok rep"
    "verify demo_audit_env demo_signer (rev demo_table) = Ok rep'" using demo_verified by blast
  moreover have "no_collision demo_audit_env demo_signer (set demo_table \<union> set (rev demo_table))"
    by (auto simp: no_collision_def demo_table_def signed_part_def canonical_def demo_audit_env_def demo_row_simps)
  moreover have "chain_head ''platform'' demo_table = Some (last demo_table)"
    "chain_head ''platform'' (rev demo_table) = Some (last demo_table)"
    unfolding chain_head_if demo_chain by (simp_all add: demo_table_def)
  ultimately show ?thesis
    by (intro head_determines_chain [OF _ _ _ _ refl _ demo_injective]) (auto simp: demo_table_def demo_row_simps)
qed

theorem saved_logs_read_back_witness:
  "load_audit_logs (ad_env demo_audit_env) demo_table = Ok [demo_log 80 2000, demo_log 70 5000]"
  using saved_logs_read_back [OF demo_saved _ _ _ _ demo_uuid_text]
  by (simp add: demo_log_def demo_audit_env_def)

end
