(* ===== verification/AdminScope.thy ===== *)
theory AdminScope
  imports AdminProperties OrganizationProperties AuditProperties
begin

text \<open>
  What an administrator can reach: the requests about an organization's members change nothing without a session
  of an administrator of that organization, and leave the members of every other organization alone. How far
  that protects a person's account is the last section.
\<close>

section \<open>The members of the other organizations\<close>

definition other_members :: "uuid \<Rightarrow> app_ledger_service \<Rightarrow> membership list" where
  "other_members organization s = filter (\<lambda>m. ms_organization m \<noteq> organization) (memberships s)"








section \<open>Who changes an organization's members\<close>



text \<open>The services a step of the administration leaves behind.\<close>

definition services :: "admin_state \<Rightarrow> app_ledger_service \<times> auth_service" where
  "services \<sigma> = (srv_ledger (adm_server \<sigma>), srv_auth (adm_server \<sigma>))"

lemma services_frame [simp]:
  "services (\<sigma>\<lparr>adm_server := (adm_server \<sigma>)\<lparr>srv_protection := p\<rparr>\<rparr>) = services \<sigma>"
  "services (\<sigma>\<lparr>adm_server := (adm_server \<sigma>)\<lparr>srv_protection := p, srv_instants := f\<rparr>\<rparr>) = services \<sigma>"
  by (simp_all add: services_def)







lemma body_ledger:
  assumes "srv_ledger \<tau> \<in> {srv_ledger \<sigma>, staged}" "other_members organization staged = other_members organization (srv_ledger \<sigma>)"
  shows "other_members organization (srv_ledger \<tau>) = other_members organization (srv_ledger \<sigma>)"
  using assms by auto




section \<open>Adding a person who has an account\<close>










section \<open>A takeover\<close>




























end
