(* ===== verification/Files.thy ===== *)
theory Files
  imports Environment
begin

text \<open>
  The part of \<open>std::fs\<close> that the state files need: a disk is a map from paths to contents, and every system
  call may fail, with the error the system gives, or be the last one before the process ends. How far a
  failing or interrupted call has come is part of the fault, so a theorem about every list of faults is a
  theorem about every way in which the calls can go wrong. A path names a file in some directory;
  directories themselves are not modelled, only the failures of creating and synchronizing them.
\<close>

datatype fault = Fails nat string | Crashes nat

record disk =
  dk_files :: "string \<Rightarrow> string option"
  dk_faults :: "nat \<Rightarrow> fault option"

definition system_call ::
  "(fault option \<Rightarrow> (string \<Rightarrow> string option) \<Rightarrow> string \<Rightarrow> string option) \<Rightarrow> disk \<Rightarrow> (unit, string) result \<times> disk" where
  "system_call effect d =
     (let x = dk_faults d 0
      in (case x of None \<Rightarrow> Ok () | Some (Fails _ e) \<Rightarrow> Err e | Some (Crashes _) \<Rightarrow> Panic [],
          d\<lparr>dk_files := effect x (dk_files d), dk_faults := \<lambda>n. dk_faults d (Suc n)\<rparr>))"

text \<open>\<open>fs::create_dir_all\<close>, \<open>sync_all\<close>: no content changes.\<close>

definition touch_nothing :: "disk \<Rightarrow> (unit, string) result \<times> disk" where
  "touch_nothing = system_call (\<lambda>_ m. m)"

text \<open>\<open>File::create\<close> empties the file or makes an empty one; if it fails it has done neither.\<close>

definition create_file :: "string \<Rightarrow> disk \<Rightarrow> (unit, string) result \<times> disk" where
  "create_file p = system_call (\<lambda>x m. case x of
     None \<Rightarrow> m(p \<mapsto> []) | Some (Crashes (Suc _)) \<Rightarrow> m(p \<mapsto> []) | _ \<Rightarrow> m)"

text \<open>\<open>write_all\<close> may have written any number of bytes before it fails.\<close>

definition write_all :: "string \<Rightarrow> string \<Rightarrow> disk \<Rightarrow> (unit, string) result \<times> disk" where
  "write_all p bytes = system_call (\<lambda>x m. m(p \<mapsto> (case m p of None \<Rightarrow> [] | Some c \<Rightarrow> c) @ (case x of
     None \<Rightarrow> bytes | Some (Fails n _) \<Rightarrow> take n bytes | Some (Crashes n) \<Rightarrow> take n bytes)))"

text \<open>\<open>fs::rename\<close> is atomic: it happens or it does not.\<close>

definition rename_file :: "string \<Rightarrow> string \<Rightarrow> disk \<Rightarrow> (unit, string) result \<times> disk" where
  "rename_file p q d =
     (if dk_files d p = None then (Err ''No such file or directory'', d)
      else system_call (\<lambda>x m. case x of
        None \<Rightarrow> m(q := m p, p := None) | Some (Crashes (Suc _)) \<Rightarrow> m(q := m p, p := None) | _ \<Rightarrow> m) d)"

text \<open>\<open>fs::copy\<close> empties the target and writes it; a failure may leave it as it was or cut short.\<close>

definition copy_file :: "string \<Rightarrow> string \<Rightarrow> disk \<Rightarrow> (unit, string) result \<times> disk" where
  "copy_file p q d =
     (case dk_files d p of None \<Rightarrow> (Err ''No such file or directory'', d)
      | Some c \<Rightarrow> system_call (\<lambda>x m. case x of
          None \<Rightarrow> m(q \<mapsto> c) | Some (Fails (Suc n) _) \<Rightarrow> m(q \<mapsto> take n c)
        | Some (Crashes (Suc n)) \<Rightarrow> m(q \<mapsto> take n c) | _ \<Rightarrow> m) d)"

text \<open>UTF-8 as \<open>std::str::from_utf8\<close> checks it.\<close>

definition between :: "nat \<Rightarrow> nat \<Rightarrow> char \<Rightarrow> bool" where
  "between lo hi c \<longleftrightarrow> lo \<le> byte c \<and> byte c \<le> hi"

abbreviation tail_byte :: "char \<Rightarrow> bool" where
  "tail_byte \<equiv> between 128 191"

fun valid_utf8 :: "string \<Rightarrow> bool" where
  "valid_utf8 [] = True"
| "valid_utf8 (a # cs) =
     (if byte a \<le> 127 then valid_utf8 cs
      else case cs of
        b # cs \<Rightarrow>
          if between 194 223 a \<and> tail_byte b then valid_utf8 cs
          else (case cs of
            c # cs \<Rightarrow>
              if tail_byte c \<and> (a = CHR 0xE0 \<and> between 160 191 b \<or> (between 225 236 a \<or> between 238 239 a) \<and> tail_byte b
                \<or> a = CHR 0xED \<and> between 128 159 b) then valid_utf8 cs
              else (case cs of
                d # cs \<Rightarrow> tail_byte c \<and> tail_byte d
                  \<and> (a = CHR 0xF0 \<and> between 144 191 b \<or> between 241 243 a \<and> tail_byte b \<or> a = CHR 0xF4 \<and> between 128 143 b)
                  \<and> valid_utf8 cs
              | [] \<Rightarrow> False)
          | [] \<Rightarrow> False)
      | [] \<Rightarrow> False)"

definition read_to_string :: "string \<Rightarrow> disk \<Rightarrow> (string, string) result \<times> disk" where
  "read_to_string p d =
     perform (touch_nothing d) id (\<lambda>_ d.
       (case dk_files d p of None \<Rightarrow> Err ''No such file or directory''
        | Some c \<Rightarrow> if valid_utf8 c then Ok c else Err ''stream did not contain valid UTF-8'', d))"

text \<open>\<open>Path::exists\<close> answers no also when the system cannot tell.\<close>

definition path_exists :: "string \<Rightarrow> disk \<Rightarrow> (bool, string) result \<times> disk" where
  "path_exists p d =
     (let (r, d) = touch_nothing d
      in (case r of Ok _ \<Rightarrow> Ok (dk_files d p \<noteq> None) | Err _ \<Rightarrow> Ok False | Panic m \<Rightarrow> Panic m, d))"

section \<open>What a call leaves alone\<close>

text \<open>No call changes a file but the one it names.\<close>

lemma system_call_files: "dk_files (snd (system_call effect d)) = effect (dk_faults d 0) (dk_files d)"
  by (simp add: system_call_def Let_def)

lemma touch_nothing_files [simp]: "dk_files (snd (touch_nothing d)) = dk_files d"
  by (simp add: touch_nothing_def system_call_files)

lemma other_files:
  assumes "q \<noteq> p"
  shows "dk_files (snd (create_file p d)) q = dk_files d q"
    and "dk_files (snd (write_all p bytes d)) q = dk_files d q"
    and "dk_files (snd (copy_file r p d)) q = dk_files d q"
  using assms by (auto simp: create_file_def write_all_def copy_file_def system_call_files split: option.split fault.split nat.split)

lemma created_file: "create_file p d = (Ok (), d') \<Longrightarrow> dk_files d' p = Some []"
  by (auto simp: create_file_def system_call_def Let_def split: option.splits fault.splits)

lemma written_file: "write_all p bytes d = (Ok (), d') \<Longrightarrow> dk_files d p = Some c \<Longrightarrow> dk_files d' p = Some (c @ bytes)"
  by (auto simp: write_all_def system_call_def Let_def split: option.splits fault.splits)

lemma renamed_file:
  assumes "rename_file p q d = (r, d')" "p \<noteq> q"
  shows "dk_files d' q = dk_files d q \<or> dk_files d' q = dk_files d p \<and> dk_files d p \<noteq> None"
    and "r = Ok u \<Longrightarrow> dk_files d' q = dk_files d p \<and> dk_files d p \<noteq> None"
    and "x \<notin> {p, q} \<Longrightarrow> dk_files d' x = dk_files d x"
  using assms by (auto simp: rename_file_def system_call_def Let_def split: if_splits option.splits fault.splits nat.splits)

lemma read_file: "dk_files (snd (read_to_string p d)) = dk_files d" "dk_files (snd (path_exists p d)) = dk_files d"
proof -
  obtain r d' where "touch_nothing d = (r, d')" by fastforce
  with touch_nothing_files [of d] show "dk_files (snd (read_to_string p d)) = dk_files d"
    "dk_files (snd (path_exists p d)) = dk_files d"
    by (cases r; simp add: read_to_string_def path_exists_def split: option.split)+
qed

text \<open>A disk on which every call succeeds.\<close>

definition sound_disk :: "disk \<Rightarrow> disk" where
  "sound_disk d = d\<lparr>dk_faults := \<lambda>_. None\<rparr>"

lemma sound_reads [simp]:
  "read_to_string p (sound_disk d) =
     (case dk_files d p of None \<Rightarrow> Err ''No such file or directory''
      | Some c \<Rightarrow> if valid_utf8 c then Ok c else Err ''stream did not contain valid UTF-8'', sound_disk d)"
  "path_exists p (sound_disk d) = (Ok (dk_files d p \<noteq> None), sound_disk d)"
  by (simp_all add: read_to_string_def path_exists_def touch_nothing_def system_call_def sound_disk_def split: option.split)

end
