(* ===== verification/StateFiles.thy ===== *)
theory StateFiles
  imports Files AppSetup AuthService
begin

text \<open>
  The state files: \<open>save_to_path\<close>, \<open>load_from_path\<close> and \<open>load_or_seed\<close> of \<open>app.rs\<close>, \<open>save_to_path\<close> and
  \<open>load_or_default\<close> of \<open>auth.rs\<close>, and the store of JSON files in \<open>storage/persistence.rs\<close>. The text of a state
  is \<open>serde_json\<close>'s and a parameter; what is documented of it is \<open>json_exact\<close>: what is written is text and is
  read back as the value it was written for.
\<close>

record json_env =
  js_write_ledger :: "app_ledger_service \<Rightarrow> (string, string) result"
  js_read_ledger :: "string \<Rightarrow> (app_ledger_service, string) result"
  js_write_auth :: "auth_service \<Rightarrow> (string, string) result"
  js_read_auth :: "string \<Rightarrow> (auth_service, string) result"

definition json_exact :: "json_env \<Rightarrow> bool" where
  "json_exact je \<longleftrightarrow>
     (\<forall>s d. js_write_ledger je s = Ok d \<longrightarrow> valid_utf8 d \<and> js_read_ledger je d = Ok s)
   \<and> (\<forall>s d. js_write_auth je s = Ok d \<longrightarrow> valid_utf8 d \<and> js_read_auth je d = Ok s)"

section \<open>Writing\<close>

definition sidecar_path :: "string \<Rightarrow> string \<Rightarrow> string" where
  "sidecar_path path suffix = path @ suffix"

definition parent_path :: "string \<Rightarrow> string" where
  "parent_path path = rev (drop 1 (dropWhile (\<lambda>c. c \<noteq> CHR ''/'') (rev path)))"

text \<open>What both services do with the text of their state: the file is written beside the old one, which it then replaces.\<close>

definition replace_file :: "string \<Rightarrow> string \<Rightarrow> disk \<Rightarrow> (unit, string) result \<times> disk" where
  "replace_file path document d =
     (let temporary = sidecar_path path ''.tmp'' in
      perform (create_file temporary d) (\<lambda>e. ''create '' @ temporary @ '': '' @ e) (\<lambda>_ d.
      perform (write_all temporary document d) (\<lambda>e. ''write '' @ temporary @ '': '' @ e) (\<lambda>_ d.
      perform (touch_nothing d) (\<lambda>e. ''sync '' @ temporary @ '': '' @ e) (\<lambda>_ d.
      perform (rename_file temporary path d) (\<lambda>e. ''replace '' @ path @ '' with '' @ temporary @ '': '' @ e)
        (\<lambda>_ d. (Ok (), d))))))"

text \<open>\<open>let _ = file.sync_all()\<close>: a failure is ignored, the end of the process is not.\<close>

definition sync_ignoring_errors :: "disk \<Rightarrow> (unit, string) result \<times> disk" where
  "sync_ignoring_errors d = (let (r, d) = touch_nothing d in (case r of Err _ \<Rightarrow> Ok () | r \<Rightarrow> r, d))"

definition save_to_path :: "json_env \<Rightarrow> string \<Rightarrow> app_ledger_service \<Rightarrow> disk \<Rightarrow> (unit, app_error) result \<times> disk" where
  "save_to_path je path s d =
     perform (touch_nothing d) (\<lambda>e. Storage (''create '' @ parent_path path @ '': '' @ e)) (\<lambda>_ d.
     attempt (js_write_ledger je s) (\<lambda>e. Storage (''serialize app ledger state: '' @ e)) d (\<lambda>document.
     perform (replace_file path document d) Storage (\<lambda>_ d.
     perform (sync_ignoring_errors d) Storage (\<lambda>_ d.
     let backup = sidecar_path path ''.bak'' in
     perform (copy_file path backup d) (\<lambda>e. Storage (''backup '' @ backup @ '': '' @ e)) (\<lambda>_ d. (Ok (), d))))))"

definition auth_save_to_path :: "json_env \<Rightarrow> string \<Rightarrow> auth_service \<Rightarrow> disk \<Rightarrow> (unit, auth_error) result \<times> disk" where
  "auth_save_to_path je path s d =
     perform (touch_nothing d) (\<lambda>e. AuthStorage (''create '' @ parent_path path @ '': '' @ e)) (\<lambda>_ d.
     attempt (js_write_auth je s) (\<lambda>e. AuthStorage (''serialize auth state: '' @ e)) d (\<lambda>document.
     perform (replace_file path document d) AuthStorage (\<lambda>_ d. (Ok (), d))))"

section \<open>Reading\<close>

text \<open>The document of the file, or that of its backup when the file does not parse.\<close>

definition read_state_document ::
  "json_env \<Rightarrow> string \<Rightarrow> disk \<Rightarrow> (app_ledger_service, app_error) result \<times> disk" where
  "read_state_document je path d =
     perform (read_to_string path d) (\<lambda>e. Storage (''read '' @ path @ '': '' @ e)) (\<lambda>document d.
     case js_read_ledger je document of
       Ok s \<Rightarrow> (Ok s, d)
     | Panic m \<Rightarrow> (Panic m, d)
     | Err e \<Rightarrow>
         let backup = sidecar_path path ''.bak'' in
         perform (path_exists backup d) Storage (\<lambda>found d.
         if \<not> found then (Err (Storage (''parse '' @ path @ '': '' @ e)), d)
         else perform (read_to_string backup d) (\<lambda>e. Storage (''read '' @ backup @ '': '' @ e)) (\<lambda>document d.
         attempt (js_read_ledger je document)
           (\<lambda>e'. Storage (''parse '' @ path @ '': '' @ e @ ''; parse backup '' @ backup @ '': '' @ e')) d (\<lambda>s. (Ok s, d)))))"

type_synonym start_state = "disk \<times> world"

definition load_from_path ::
  "json_env \<Rightarrow> env \<Rightarrow> string \<Rightarrow> start_state \<Rightarrow> (app_ledger_service, app_error) result \<times> start_state" where
  "load_from_path je env path \<sigma> =
     (let (d, w) = \<sigma>; (r, d) = read_state_document je path d in
      attempt r id (d, w) (\<lambda>s.
      let (r, s, w) = migrate_to_current_schema env (s, w) in attempt r id (d, w) (\<lambda>_. (Ok s, d, w))))"

definition load_or_seed ::
  "json_env \<Rightarrow> env \<Rightarrow> string \<Rightarrow> start_state \<Rightarrow> (app_ledger_service, app_error) result \<times> start_state" where
  "load_or_seed je env path \<sigma> =
     (let (d, w) = \<sigma>; (r, d) = path_exists path d in
      attempt r Storage (d, w) (\<lambda>found.
      perform (if found then load_from_path je env path (d, w) else (Ok uninitialized, d, w)) id (\<lambda>s (d, w).
      let (r, d) = save_to_path je path s d in attempt r id (d, w) (\<lambda>_. (Ok s, d, w)))))"

definition load_or_default ::
  "json_env \<Rightarrow> string \<Rightarrow> disk \<times> auth_world \<Rightarrow> (auth_service, auth_error) result \<times> (disk \<times> auth_world)" where
  "load_or_default je path \<sigma> =
     (let (d, w) = \<sigma>; (r, d) = path_exists path d in
      attempt r AuthStorage (d, w) (\<lambda>found.
      if \<not> found then (Ok auth_default, d, w)
      else let (r, d) = read_to_string path d in
      attempt r (\<lambda>e. AuthStorage (''read '' @ path @ '': '' @ e)) (d, w) (\<lambda>document.
      attempt (js_read_auth je document) (\<lambda>e. AuthStorage (''parse '' @ path @ '': '' @ e)) (d, w) (\<lambda>s.
      let (s, w) = prune_expired_sessions (s, w) in (Ok s, d, w)))))"

section \<open>The store of JSON files\<close>

record json_store =
  jt_ledger_path :: string
  jt_auth_path :: string

datatype store_error = LedgerFile app_error | AuthFile auth_error

definition json_save_ledger ::
  "json_env \<Rightarrow> env \<Rightarrow> json_store \<Rightarrow> app_ledger_snapshot \<Rightarrow> disk \<times> auth_world
     \<Rightarrow> (unit, store_error) result \<times> (disk \<times> auth_world)" where
  "json_save_ledger je env js n \<sigma> =
     (let (d, v) = \<sigma>; (r, s, w) = from_snapshot env n (aw_world v); v = v\<lparr>aw_world := w\<rparr> in
      attempt r LedgerFile (d, v) (\<lambda>_.
      let (r, d) = save_to_path je (jt_ledger_path js) s d in attempt r LedgerFile (d, v) (\<lambda>_. (Ok (), d, v))))"

definition json_save_auth ::
  "json_env \<Rightarrow> json_store \<Rightarrow> auth_snapshot \<Rightarrow> disk \<times> auth_world \<Rightarrow> (unit, store_error) result \<times> (disk \<times> auth_world)" where
  "json_save_auth je js n \<sigma> =
     (let (d, v) = \<sigma>; (s, v) = auth_from_snapshot n v; (r, d) = auth_save_to_path je (jt_auth_path js) s d
      in attempt r AuthFile (d, v) (\<lambda>_. (Ok (), d, v)))"

definition json_save_all ::
  "json_env \<Rightarrow> env \<Rightarrow> json_store \<Rightarrow> app_ledger_snapshot \<Rightarrow> auth_snapshot \<Rightarrow> disk \<times> auth_world
     \<Rightarrow> (unit, store_error) result \<times> (disk \<times> auth_world)" where
  "json_save_all je env js n m \<sigma> =
     perform (json_save_ledger je env js n \<sigma>) id (\<lambda>_ \<sigma>. json_save_auth je js m \<sigma>)"

end
