(* ===== verification/OfflineCache.thy ===== *)
theory OfflineCache
  imports Files
begin

text \<open>
  The cache of the client (\<open>offline_store.rs\<close>): one document per user in SQLite, and which user's is shown. The two
  tables are maps from their primary keys. A statement may fail, with the error SQLite gives; the transaction
  it belongs to is then rolled back. The text of a document is \<open>serde_json\<close>'s and a parameter.
\<close>

record offline_tables =
  ot_cache :: "string \<Rightarrow> (string \<times> int) option"
  ot_metadata :: "string \<Rightarrow> string option"

record offline_store =
  os_tables :: offline_tables
  os_faults :: "nat \<Rightarrow> string option"
  os_unix_epoch :: "nat \<Rightarrow> int"
  os_poisoned :: bool

record 'v document_format =
  df_write :: "'v \<Rightarrow> (string, string) result"
  df_read :: "string \<Rightarrow> ('v, string) result"

definition max_document_bytes :: nat where "max_document_bytes = 5 * 1024 * 1024"

definition cache_schema_version :: string where "cache_schema_version = ''2''"

section \<open>Statements and transactions\<close>

text \<open>One call of SQLite; what it does if it does not fail is the caller's.\<close>

definition sqlite_call :: "offline_store \<Rightarrow> (unit, string) result \<times> offline_store" where
  "sqlite_call s =
     (case os_faults s 0 of None \<Rightarrow> Ok () | Some e \<Rightarrow> Err e, s\<lparr>os_faults := \<lambda>n. os_faults s (Suc n)\<rparr>)"

text \<open>The statements of a transaction, each on the tables the ones before it have left.\<close>

fun execute_all ::
  "(offline_tables \<Rightarrow> offline_tables) list \<Rightarrow> offline_tables \<Rightarrow> offline_store \<Rightarrow> (offline_tables, string) result \<times> offline_store" where
  "execute_all [] tables s = (Ok tables, s)"
| "execute_all (statement # rest) tables s =
     perform (sqlite_call s) id (\<lambda>_ s. execute_all rest (statement tables) s)"

definition transaction_of :: "(offline_tables \<Rightarrow> offline_tables) list \<Rightarrow> offline_store \<Rightarrow> (unit, string) result \<times> offline_store" where
  "transaction_of statements s =
     perform (sqlite_call s) id (\<lambda>_ s.
     perform (execute_all statements (os_tables s) s) id (\<lambda>tables s.
     perform (sqlite_call s) id (\<lambda>_ s. (Ok (), s\<lparr>os_tables := tables\<rparr>))))"

definition lock_connection :: "offline_store \<Rightarrow> (unit, string) result" where
  "lock_connection s = (if os_poisoned s then Err ''offline store lock poisoned'' else Ok ())"

section \<open>The operations\<close>

text \<open>Opening the file, creating the tables if there are none, and reading the version of the cache are one call each.\<close>

definition offline_open :: "offline_store \<Rightarrow> (unit, string) result \<times> offline_store" where
  "offline_open s =
     perform (sqlite_call s) id (\<lambda>_ s.
     perform (sqlite_call s) id (\<lambda>_ s.
     perform (sqlite_call s) id (\<lambda>_ s.
     if ot_metadata (os_tables s) ''cache_schema_version'' \<noteq> Some cache_schema_version then
       transaction_of [\<lambda>t. t\<lparr>ot_cache := \<lambda>_. None\<rparr>, \<lambda>t. t\<lparr>ot_metadata := \<lambda>_. None\<rparr>,
         \<lambda>t. t\<lparr>ot_metadata := (ot_metadata t)(''cache_schema_version'' \<mapsto> cache_schema_version)\<rparr>] s
     else (Ok (), s))))"

definition offline_load_last :: "'v document_format \<Rightarrow> offline_store \<Rightarrow> ('v option, string) result \<times> offline_store" where
  "offline_load_last df s =
     attempt (lock_connection s) id s (\<lambda>_.
     perform (sqlite_call s) id (\<lambda>_ s.
     case Option.bind (ot_metadata (os_tables s) ''active_user_id'') (ot_cache (os_tables s)) of
       None \<Rightarrow> (Ok None, s)
     | Some (document, _) \<Rightarrow> attempt (df_read df document) id s (\<lambda>v. (Ok (Some v), s))))"

definition offline_save :: "'v document_format \<Rightarrow> string \<Rightarrow> 'v \<Rightarrow> offline_store \<Rightarrow> (unit, string) result \<times> offline_store" where
  "offline_save df user v s =
     attempt (df_write df v) id s (\<lambda>encoded.
     if length encoded > max_document_bytes then (Err ''offline cache exceeds 5 MiB'', s)
     else if \<not> valid_utf8 encoded then (Err ''invalid utf-8 sequence'', s)
     else attempt (lock_connection s) id s (\<lambda>_.
       let now = os_unix_epoch s 0; s = s\<lparr>os_unix_epoch := \<lambda>n. os_unix_epoch s (Suc n)\<rparr> in
       transaction_of [\<lambda>t. t\<lparr>ot_cache := (ot_cache t)(user \<mapsto> (encoded, now))\<rparr>,
         \<lambda>t. t\<lparr>ot_metadata := (ot_metadata t)(''active_user_id'' \<mapsto> user)\<rparr>] s))"

definition offline_clear :: "string \<Rightarrow> offline_store \<Rightarrow> (unit, string) result \<times> offline_store" where
  "offline_clear user s =
     attempt (lock_connection s) id s (\<lambda>_.
     transaction_of [\<lambda>t. t\<lparr>ot_cache := (ot_cache t)(user := None)\<rparr>,
       \<lambda>t. if ot_metadata t ''active_user_id'' = Some user
           then t\<lparr>ot_metadata := (ot_metadata t)(''active_user_id'' := None)\<rparr> else t] s)"

end
