(* ===== verification/Shell.thy ===== *)
theory Shell
  imports StateFiles OfflineCache Analytics
begin

text \<open>
  The commands of the desktop and mobile shell (\<open>src-tauri/src/lib.rs\<close>): a ledger of its own in a state file, the
  cache of the server's documents, and the refresh session kept in the system's credential store. A command that
  changes the ledger runs on the shared ledger itself, under its lock, and saves it afterwards.
\<close>

section \<open>The ledger\<close>

datatype shell_error = ShellText string | ShellService app_error

record shell =
  sh_ledger :: app_ledger_service
  sh_world :: world
  sh_disk :: disk
  sh_poisoned :: bool

record shell_env =
  se_env :: env
  se_calendar :: calendar
  se_json :: json_env
  se_path :: string

definition shell_lock :: "shell \<Rightarrow> (app_ledger_service, shell_error) result" where
  "shell_lock \<sigma> = (if sh_poisoned \<sigma> then Err (ShellText ''ledger service lock poisoned'') else Ok (sh_ledger \<sigma>))"

definition shell_save :: "shell_env \<Rightarrow> shell \<Rightarrow> (unit, shell_error) result \<times> shell" where
  "shell_save se \<sigma> =
     (let (r, d) = save_to_path (se_json se) (se_path se) (sh_ledger \<sigma>) (sh_disk \<sigma>); \<sigma> = \<sigma>\<lparr>sh_disk := d\<rparr>
      in attempt r ShellService \<sigma> (\<lambda>_. (Ok (), \<sigma>)))"

text \<open>
  The body the six changing commands share; \<open>operation\<close> is the ledger operation as the current user. The guard of the
  lock lives until the command returns, so a panic of the operation poisons it.
\<close>

definition shell_mutation ::
  "shell_env \<Rightarrow> (uuid \<Rightarrow> app_state \<Rightarrow> ('a, app_error) result \<times> app_state) \<Rightarrow> shell \<Rightarrow> ('a, shell_error) result \<times> shell" where
  "shell_mutation se operation \<sigma> =
     attempt (shell_lock \<sigma>) id \<sigma> (\<lambda>service.
     let (r, s, w) = operation (current_user_id service) (service, sh_world \<sigma>);
         \<sigma> = \<sigma>\<lparr>sh_ledger := s, sh_world := w, sh_poisoned := panics r\<rparr>
     in attempt r ShellService \<sigma> (\<lambda>x. perform (shell_save se \<sigma>) id (\<lambda>_ \<sigma>. (Ok x, \<sigma>))))"

definition shell_create_category ::
  "shell_env \<Rightarrow> create_category_input \<Rightarrow> shell \<Rightarrow> (category_dto, shell_error) result \<times> shell" where
  "shell_create_category se i = shell_mutation se (\<lambda>actor. create_category (se_env se) (i\<lparr>cc_actor := actor\<rparr>))"

definition shell_create_transaction ::
  "shell_env \<Rightarrow> create_transaction_input \<Rightarrow> shell \<Rightarrow> (transaction_dto, shell_error) result \<times> shell" where
  "shell_create_transaction se i = shell_mutation se (\<lambda>actor. create_transaction (se_env se) (i\<lparr>ct_actor := actor\<rparr>))"

definition shell_decide_approval ::
  "shell_env \<Rightarrow> decide_approval_input \<Rightarrow> shell \<Rightarrow> (transaction_dto, shell_error) result \<times> shell" where
  "shell_decide_approval se i = shell_mutation se (\<lambda>actor. decide_approval (se_env se) (i\<lparr>da_actor := actor\<rparr>))"

definition shell_mark_transaction_paid ::
  "shell_env \<Rightarrow> mark_paid_input \<Rightarrow> shell \<Rightarrow> (transaction_dto, shell_error) result \<times> shell" where
  "shell_mark_transaction_paid se i = shell_mutation se (\<lambda>actor. mark_transaction_paid (se_env se) (i\<lparr>mp_actor := actor\<rparr>))"

definition shell_void_transaction ::
  "shell_env \<Rightarrow> void_transaction_input \<Rightarrow> shell \<Rightarrow> (transaction_dto, shell_error) result \<times> shell" where
  "shell_void_transaction se i = shell_mutation se (\<lambda>actor. void_transaction (se_env se) (i\<lparr>vt_actor := actor\<rparr>))"

definition shell_confirm_transaction_receipt ::
  "shell_env \<Rightarrow> confirm_receipt_input \<Rightarrow> shell \<Rightarrow> (transaction_dto, shell_error) result \<times> shell" where
  "shell_confirm_transaction_receipt se i =
     shell_mutation se (\<lambda>actor. confirm_transaction_receipt (se_env se) (i\<lparr>cr_actor := actor\<rparr>))"

text \<open>A report runs under the lock too.\<close>

definition shell_report ::
  "(app_ledger_service \<Rightarrow> world \<Rightarrow> ('a, app_error) result \<times> world) \<Rightarrow> shell \<Rightarrow> ('a, shell_error) result \<times> shell" where
  "shell_report report \<sigma> =
     attempt (shell_lock \<sigma>) id \<sigma> (\<lambda>service.
     let (r, w) = report service (sh_world \<sigma>); \<sigma> = \<sigma>\<lparr>sh_world := w, sh_poisoned := panics r\<rparr>
     in attempt r ShellService \<sigma> (\<lambda>x. (Ok x, \<sigma>)))"

definition shell_overview :: "shell_env \<Rightarrow> shell \<Rightarrow> (ledger_overview, shell_error) result \<times> shell" where
  "shell_overview se = shell_report (\<lambda>s w. map_prod Ok id (overview (se_calendar se) (se_env se) (current_user_id s) s w))"

definition shell_financial_analysis ::
  "shell_env \<Rightarrow> uuid \<Rightarrow> nat \<Rightarrow> shell \<Rightarrow> (financial_analysis_dto, shell_error) result \<times> shell" where
  "shell_financial_analysis se ledger months =
     shell_report (\<lambda>s. financial_analysis (se_calendar se) (se_env se) (current_user_id s) ledger months s)"

definition shell_financial_month_detail ::
  "shell_env \<Rightarrow> uuid \<Rightarrow> string \<Rightarrow> shell \<Rightarrow> (month_detail_dto, shell_error) result \<times> shell" where
  "shell_financial_month_detail se ledger month =
     shell_report (\<lambda>s w. (financial_month_detail (se_calendar se) (se_env se) (current_user_id s) ledger month s, w))"

definition shell_financial_member_detail ::
  "shell_env \<Rightarrow> uuid \<Rightarrow> nat \<Rightarrow> uuid \<Rightarrow> shell \<Rightarrow> (member_detail_dto, shell_error) result \<times> shell" where
  "shell_financial_member_detail se ledger months member =
     shell_report (\<lambda>s. financial_member_detail (se_calendar se) (se_env se) (current_user_id s) ledger months member s)"

definition shell_transactions_for_month ::
  "shell_env \<Rightarrow> uuid \<Rightarrow> string option \<Rightarrow> string option \<Rightarrow> shell \<Rightarrow> (transaction_month_dto, shell_error) result \<times> shell" where
  "shell_transactions_for_month se ledger month day =
     shell_report (\<lambda>s. case day of
       Some day \<Rightarrow> transactions_for_day (se_calendar se) (se_env se) (current_user_id s) ledger month day s
     | None \<Rightarrow> transactions_for_month (se_calendar se) (se_env se) (current_user_id s) ledger month s)"

definition shell_audit_period ::
  "shell_env \<Rightarrow> uuid \<Rightarrow> string \<Rightarrow> string \<Rightarrow> shell \<Rightarrow> (audit_period_dto, shell_error) result \<times> shell" where
  "shell_audit_period se ledger granularity period \<sigma> =
     attempt (if granularity = ''day'' then Ok ByDay else if granularity = ''month'' then Ok ByMonth
       else Err InvalidAuditGranularity) ShellService \<sigma> (\<lambda>g.
     shell_report (\<lambda>s w. (audit_period (se_calendar se) (se_env se) (current_user_id s) ledger g period s, w)) \<sigma>)"

definition shell_start :: "shell_env \<Rightarrow> start_state \<Rightarrow> (shell, app_error) result \<times> start_state" where
  "shell_start se \<sigma> =
     perform (load_or_seed (se_json se) (se_env se) (se_path se) \<sigma>) id (\<lambda>s (d, w).
       (Ok \<lparr>sh_ledger = s, sh_world = w, sh_disk = d, sh_poisoned = False\<rparr>, d, w))"

section \<open>The cache\<close>

definition parse_user_id :: "env \<Rightarrow> string \<Rightarrow> (unit, string) result" where
  "parse_user_id env user = (if parse_uuid env user = None then Err ''invalid offline cache user id'' else Ok ())"

definition offline_cache_store ::
  "env \<Rightarrow> 'v document_format \<Rightarrow> string \<Rightarrow> 'v \<Rightarrow> offline_store \<Rightarrow> (unit, string) result \<times> offline_store" where
  "offline_cache_store env df user v s = attempt (parse_user_id env user) id s (\<lambda>_. offline_save df user v s)"

definition offline_cache_clear :: "env \<Rightarrow> string \<Rightarrow> offline_store \<Rightarrow> (unit, string) result \<times> offline_store" where
  "offline_cache_clear env user s = attempt (parse_user_id env user) id s (\<lambda>_. offline_clear user s)"

section \<open>The refresh session\<close>

text \<open>
  The session of a desktop: in the system's credential store, or in memory when the store refuses. Opening the
  entry, reading, writing and deleting may each fail.
\<close>

record secure_refresh_session =
  sr_refresh_token :: string
  sr_installation_id :: string

record secure_session_state =
  cs_entry :: "string option"
  cs_fails :: "nat \<Rightarrow> bool"
  cs_memory :: "secure_refresh_session option"
  cs_poisoned :: bool

record session_format =
  sf_write :: "secure_refresh_session \<Rightarrow> (string, string) result"
  sf_read :: "string \<Rightarrow> secure_refresh_session option"

definition credential_call :: "secure_session_state \<Rightarrow> bool \<times> secure_session_state" where
  "credential_call \<sigma> = (\<not> cs_fails \<sigma> 0, \<sigma>\<lparr>cs_fails := \<lambda>n. cs_fails \<sigma> (Suc n)\<rparr>)"

definition set_password :: "string \<Rightarrow> secure_session_state \<Rightarrow> bool \<times> secure_session_state" where
  "set_password payload \<sigma> =
     (let (opened, \<sigma>) = credential_call \<sigma> in
      if \<not> opened then (False, \<sigma>)
      else let (written, \<sigma>) = credential_call \<sigma> in (written, if written then \<sigma>\<lparr>cs_entry := Some payload\<rparr> else \<sigma>))"

definition delete_credential :: "secure_session_state \<Rightarrow> secure_session_state" where
  "delete_credential \<sigma> =
     (let (deleted, \<sigma>) = credential_call \<sigma> in if deleted then \<sigma>\<lparr>cs_entry := None\<rparr> else \<sigma>)"

definition lock_memory :: "secure_session_state \<Rightarrow> (unit, string) result" where
  "lock_memory \<sigma> = (if cs_poisoned \<sigma> then Err ''secure session lock poisoned'' else Ok ())"

definition desktop_store ::
  "session_format \<Rightarrow> secure_refresh_session \<Rightarrow> secure_session_state \<Rightarrow> (unit, string) result \<times> secure_session_state" where
  "desktop_store sf session \<sigma> =
     attempt (sf_write sf session) id \<sigma> (\<lambda>payload.
     let (stored, \<sigma>) = set_password payload \<sigma>
     in attempt (lock_memory \<sigma>) id \<sigma> (\<lambda>_. (Ok (), \<sigma>\<lparr>cs_memory := if stored then None else Some session\<rparr>)))"

definition desktop_load ::
  "session_format \<Rightarrow> secure_session_state \<Rightarrow> (secure_refresh_session option, string) result \<times> secure_session_state" where
  "desktop_load sf \<sigma> =
     (let (opened, \<sigma>) = credential_call \<sigma>;
          from_memory = (\<lambda>\<sigma>. attempt (lock_memory \<sigma>) id \<sigma> (\<lambda>_. (Ok (cs_memory \<sigma>), \<sigma>))) in
      if \<not> opened then from_memory \<sigma>
      else let (got, \<sigma>) = credential_call \<sigma> in
        case (if got then cs_entry \<sigma> else None) of
          None \<Rightarrow> from_memory \<sigma>
        | Some payload \<Rightarrow> (case sf_read sf payload of
            Some session \<Rightarrow> (Ok (Some session), \<sigma>)
          | None \<Rightarrow> from_memory (delete_credential \<sigma>)))"

definition desktop_clear :: "secure_session_state \<Rightarrow> (unit, string) result \<times> secure_session_state" where
  "desktop_clear \<sigma> =
     (let (opened, \<sigma>) = credential_call \<sigma>; \<sigma> = (if opened then delete_credential \<sigma> else \<sigma>)
      in attempt (lock_memory \<sigma>) id \<sigma> (\<lambda>_. (Ok (), \<sigma>\<lparr>cs_memory := None\<rparr>)))"

definition secure_session_store ::
  "session_format \<Rightarrow> string \<Rightarrow> string \<Rightarrow> secure_session_state \<Rightarrow> (unit, string) result \<times> secure_session_state" where
  "secure_session_store sf refresh_token installation \<sigma> =
     (if trim refresh_token = [] \<or> trim installation = []
      then (Err ''refresh token and installation id are required'', \<sigma>)
      else desktop_store sf \<lparr>sr_refresh_token = refresh_token, sr_installation_id = installation\<rparr> \<sigma>)"

end
