(* ===== verification/FileProperties.thy ===== *)
theory FileProperties
  imports StateFiles Machine
begin

text \<open>
  What a state file holds after any history of saves, however many of them failed or were cut short by the end
  of the process. The contract of a store whose saves happen completely or not at all is a locale, interpreted on
  the file of the ledger and on the file of the accounts.
\<close>

section \<open>A store that is never torn\<close>

locale crash_safe_store =
  fixes save :: "'v \<Rightarrow> 'd \<Rightarrow> ('u, 'e) result \<times> 'd"
    and held :: "'d \<Rightarrow> 'v option"
    and usable :: bool
  assumes save_atomic: "usable \<Longrightarrow> save v d = (r, d') \<Longrightarrow> held d' = held d \<or> held d' = Some v"
    and save_complete: "usable \<Longrightarrow> save v d = (Ok u, d') \<Longrightarrow> held d' = Some v"
begin

abbreviation saves :: "'v list \<Rightarrow> 'd \<Rightarrow> 'd" where
  "saves vs d \<equiv> run (\<lambda>d v. snd (save v d)) d vs"

lemma saves_held: "usable \<Longrightarrow> held (saves vs d) \<in> insert (held d) (Some ` set vs)"
proof (induction vs arbitrary: d)
  case (Cons v vs)
  obtain r d' where d': "save v d = (r, d')" by fastforce
  from Cons.IH [OF Cons.prems, of d'] save_atomic [OF Cons.prems d'] show ?case by (auto simp: d')
qed simp

lemma last_save_held: "usable \<Longrightarrow> fst (save v (saves vs d)) = Ok u \<Longrightarrow> held (saves (vs @ [v]) d) = Some v"
  using save_complete [of v "saves vs d" u "snd (save v (saves vs d))"] by (simp add: prod_eq_iff)

end

section \<open>Replacing a file\<close>

lemma sidecar_other [simp]: "sidecar_path path ''.tmp'' \<noteq> path" "sidecar_path path ''.bak'' \<noteq> path"
  by (simp_all add: sidecar_path_def)

lemma replace_file_atomic:
  assumes "replace_file path document d = (r, d')"
  shows "dk_files d' path = dk_files d path \<or> dk_files d' path = Some document"
    and "r = Ok u \<Longrightarrow> dk_files d' path = Some document"
proof -
  let ?t = "sidecar_path path ''.tmp''"
  obtain r1 d1 where 1: "create_file ?t d = (r1, d1)" by fastforce
  obtain r2 d2 where 2: "write_all ?t document d1 = (r2, d2)" by fastforce
  obtain r3 d3 where 3: "touch_nothing d2 = (r3, d3)" by fastforce
  obtain r4 d4 where 4: "rename_file ?t path d3 = (r4, d4)" by fastforce
  have same: "dk_files d1 path = dk_files d path" "dk_files d2 path = dk_files d1 path" "dk_files d3 path = dk_files d2 path"
    using other_files(1) [of path ?t d] other_files(2) [of path ?t document d1] touch_nothing_files [of d2] 1 2 3
      sidecar_other(1) [of path] by (metis snd_conv)+
  have doc: "dk_files d3 ?t = Some document" if "r1 = Ok ()" "r2 = Ok ()"
    using created_file [of ?t d d1] written_file [of ?t document d1 d2 "[]"] touch_nothing_files [of d2] 1 2 3 that by auto
  have steps: "replace_file path document d = attempt r1 (\<lambda>e. ''create '' @ ?t @ '': '' @ e) d1 (\<lambda>_.
      attempt r2 (\<lambda>e. ''write '' @ ?t @ '': '' @ e) d2 (\<lambda>_. attempt r3 (\<lambda>e. ''sync '' @ ?t @ '': '' @ e) d3 (\<lambda>_.
      attempt r4 (\<lambda>e. ''replace '' @ path @ '' with '' @ ?t @ '': '' @ e) d4 (\<lambda>_. (Ok (), d4)))))"
    by (simp add: replace_file_def Let_def 1 2 3 4)
  consider "d' \<in> {d1, d2, d3}" "\<not> is_ok r" | "r1 = Ok ()" "r2 = Ok ()" "d' = d4" "is_ok r \<longrightarrow> r4 = Ok ()"
    using assms unfolding steps by (cases r1; cases r2; cases r3; cases r4) auto
  then have "(dk_files d' path = dk_files d path \<or> dk_files d' path = Some document) \<and> (is_ok r \<longrightarrow> dk_files d' path = Some document)"
  proof cases
    case 1
    with same show ?thesis by auto
  next
    case 2
    with renamed_file(1,2) [OF 4 sidecar_other(1)] same doc show ?thesis by auto
  qed
  then show "dk_files d' path = dk_files d path \<or> dk_files d' path = Some document"
    and "r = Ok u \<Longrightarrow> dk_files d' path = Some document" by auto
qed

lemma save_to_path_atomic:
  assumes "save_to_path je path s d = (r, d')"
  shows "dk_files d' path = dk_files d path \<or> (\<exists>doc. js_write_ledger je s = Ok doc \<and> dk_files d' path = Some doc)"
    and "r = Ok u \<Longrightarrow> \<exists>doc. js_write_ledger je s = Ok doc \<and> dk_files d' path = Some doc"
proof -
  obtain r1 d1 where 1: "touch_nothing d = (r1, d1)" by fastforce
  have same1: "dk_files d1 path = dk_files d path" using touch_nothing_files [of d] 1 by simp
  show "dk_files d' path = dk_files d path \<or> (\<exists>doc. js_write_ledger je s = Ok doc \<and> dk_files d' path = Some doc)"
    and "r = Ok u \<Longrightarrow> \<exists>doc. js_write_ledger je s = Ok doc \<and> dk_files d' path = Some doc"
  proof -
    have "(dk_files d' path = dk_files d path \<or> (\<exists>doc. js_write_ledger je s = Ok doc \<and> dk_files d' path = Some doc))
      \<and> (r = Ok u \<longrightarrow> (\<exists>doc. js_write_ledger je s = Ok doc \<and> dk_files d' path = Some doc))"
    proof (cases "r1 = Ok () \<and> (\<exists>doc. js_write_ledger je s = Ok doc)")
      case True
      then obtain doc where doc: "js_write_ledger je s = Ok doc" by blast
      obtain r2 d2 where 2: "replace_file path doc d1 = (r2, d2)" by fastforce
      obtain r3 d3 where 3: "sync_ignoring_errors d2 = (r3, d3)" by fastforce
      obtain r4 d4 where 4: "copy_file path (sidecar_path path ''.bak'') d3 = (r4, d4)" by fastforce
      have "dk_files d3 path = dk_files d2 path" "dk_files d4 path = dk_files d3 path"
        using touch_nothing_files [of d2] 3 4 other_files(3) [of path "sidecar_path path ''.bak''" path d3] sidecar_other(2) [of path]
        by (auto simp: sync_ignoring_errors_def split_beta)
      with assms 1 True doc 2 3 4 replace_file_atomic [OF 2] same1 show ?thesis
        by (cases r2; cases r3; cases r4) (auto simp: save_to_path_def Let_def)
    next
      case False
      with assms 1 same1 show ?thesis
        by (cases r1; cases "js_write_ledger je s") (auto simp: save_to_path_def Let_def)
    qed
    then show "dk_files d' path = dk_files d path \<or> (\<exists>doc. js_write_ledger je s = Ok doc \<and> dk_files d' path = Some doc)"
      and "r = Ok u \<Longrightarrow> \<exists>doc. js_write_ledger je s = Ok doc \<and> dk_files d' path = Some doc" by blast+
  qed
qed

section \<open>The two files\<close>

definition held_ledger :: "json_env \<Rightarrow> string \<Rightarrow> disk \<Rightarrow> app_ledger_service option" where
  "held_ledger je path d =
     (case dk_files d path of None \<Rightarrow> None
      | Some document \<Rightarrow> if \<not> valid_utf8 document then None
          else (case js_read_ledger je document of Ok s \<Rightarrow> Some s | _ \<Rightarrow> None))"

definition held_auth :: "json_env \<Rightarrow> string \<Rightarrow> disk \<Rightarrow> auth_service option" where
  "held_auth je path d =
     (case dk_files d path of None \<Rightarrow> None
      | Some document \<Rightarrow> if \<not> valid_utf8 document then None
          else (case js_read_auth je document of Ok s \<Rightarrow> Some s | _ \<Rightarrow> None))"

lemma auth_save_atomic:
  assumes "auth_save_to_path je path s d = (r, d')"
  shows "(dk_files d' path = dk_files d path \<or> (\<exists>doc. js_write_auth je s = Ok doc \<and> dk_files d' path = Some doc))
    \<and> (is_ok r \<longrightarrow> (\<exists>doc. js_write_auth je s = Ok doc \<and> dk_files d' path = Some doc))"
proof -
  obtain r1 d1 where 1: "touch_nothing d = (r1, d1)" by fastforce
  have same: "dk_files d1 path = dk_files d path" using touch_nothing_files [of d] 1 by simp
  show ?thesis
  proof (cases "r1 = Ok () \<and> (\<exists>doc. js_write_auth je s = Ok doc)")
    case True
    then obtain doc where doc: "js_write_auth je s = Ok doc" by blast
    obtain r2 d2 where 2: "replace_file path doc d1 = (r2, d2)" by fastforce
    from assms 1 True doc 2 replace_file_atomic [OF 2] same show ?thesis
      by (cases r2) (auto simp: auth_save_to_path_def)
  next
    case False
    with assms 1 same show ?thesis
      by (cases r1; cases "js_write_auth je s") (auto simp: auth_save_to_path_def)
  qed
qed

interpretation ledger_file: crash_safe_store "save_to_path je path" "held_ledger je path" "json_exact je" for je path
proof
  fix s d d' and r :: "(unit, app_error) result" and u
  assume je: "json_exact je" and save: "save_to_path je path s d = (r, d')"
  show "held_ledger je path d' = held_ledger je path d \<or> held_ledger je path d' = Some s"
    using save_to_path_atomic(1) [OF save] je by (auto simp: held_ledger_def json_exact_def)
next
  fix s d d' and u
  assume "json_exact je" "save_to_path je path s d = (Ok u, d')"
  then show "held_ledger je path d' = Some s"
    using save_to_path_atomic(2) [of je path s d "Ok u" d' u] by (auto simp: held_ledger_def json_exact_def)
qed

interpretation auth_file: crash_safe_store "auth_save_to_path je path" "held_auth je path" "json_exact je" for je path
proof
  fix s d d' and r :: "(unit, auth_error) result" and u
  assume je: "json_exact je" and save: "auth_save_to_path je path s d = (r, d')"
  show "held_auth je path d' = held_auth je path d \<or> held_auth je path d' = Some s"
    using auth_save_atomic [OF save] je by (auto simp: held_auth_def json_exact_def)
next
  fix s d d' and u
  assume "json_exact je" "auth_save_to_path je path s d = (Ok u, d')"
  then show "held_auth je path d' = Some s"
    using auth_save_atomic [of je path s d "Ok u" d'] by (auto simp: held_auth_def json_exact_def)
qed

lemma load_held:
  assumes "held_ledger je path d = Some s" "schema_version s = app_state_schema_version"
  shows "load_from_path je env path (sound_disk d, w) = (Ok s, sound_disk d, w)"
  using assms
  by (auto simp: held_ledger_def load_from_path_def read_state_document_def migrate_to_current_schema_def
    app_state_schema_version_def split: option.splits if_splits result.splits)

text \<open>
  C11: The state file is never torn. Whatever goes wrong while the ledger is saved again and again, a call that fails
  or the end of the process in the middle of any of them, the file afterwards loads as one of the states that
  were saved or as the state before, and as the last one when the last save reported success.
\<close>

theorem state_file_never_torn:
  assumes "json_exact je" "held_ledger je path d = Some s"
    and "\<forall>t \<in> insert s (set ts). schema_version t = app_state_schema_version"
  shows "\<exists>t \<in> insert s (set ts).
    load_from_path je env path (sound_disk (run (\<lambda>d t. snd (save_to_path je path t d)) d ts), w)
      = (Ok t, sound_disk (run (\<lambda>d t. snd (save_to_path je path t d)) d ts), w)
    \<and> (\<forall>us u. ts = us @ [u] \<and> is_ok (fst (save_to_path je path u (run (\<lambda>d t. snd (save_to_path je path t d)) d us)))
         \<longrightarrow> t = u)"
proof -
  let ?d = "run (\<lambda>d t. snd (save_to_path je path t d)) d ts"
  from ledger_file.saves_held [OF assms(1), of path d ts] assms(2)
  obtain t where t: "t \<in> insert s (set ts)" "held_ledger je path ?d = Some t" by auto
  have "t = u" if "ts = us @ [u]" "is_ok (fst (save_to_path je path u (run (\<lambda>d t. snd (save_to_path je path t d)) d us)))" for us u
    using ledger_file.last_save_held [OF assms(1), of path u d us] that t(2) by (auto simp: is_ok_iff)
  moreover have "load_from_path je env path (sound_disk ?d, w) = (Ok t, sound_disk ?d, w)"
    using load_held [OF t(2)] t(1) assms(3) by blast
  ultimately show ?thesis using t(1) by blast
qed

text \<open>Two states with a text, on a disk whose third call is the last one before the process ends.\<close>

definition demo_saved :: app_ledger_service where
  "demo_saved = uninitialized\<lparr>current_user_id := 4\<rparr>"

definition demo_json :: json_env where
  "demo_json =
     \<lparr>js_write_ledger = (\<lambda>s. if s = uninitialized then Ok ''0'' else if s = demo_saved then Ok ''4'' else Err ''unknown''),
      js_read_ledger = (\<lambda>d. if d = ''0'' then Ok uninitialized else if d = ''4'' then Ok demo_saved else Err ''unknown''),
      js_write_auth = (\<lambda>s. if s = auth_default then Ok ''0'' else Err ''unknown''),
      js_read_auth = (\<lambda>d. if d = ''0'' then Ok auth_default else Err ''unknown'')\<rparr>"

definition demo_disk :: disk where
  "demo_disk = \<lparr>dk_files = (\<lambda>p. if p = ''s'' then Some ''0'' else None),
     dk_faults = (\<lambda>n. if n = 2 then Some (Crashes 0) else None)\<rparr>"

lemma demo_json_exact: "json_exact demo_json"
  by (auto simp: json_exact_def demo_json_def demo_saved_def uninitialized_def)

theorem state_file_never_torn_witness:
  "fst (load_from_path demo_json demo_env ''s'' (sound_disk (run (\<lambda>d t. snd (save_to_path demo_json ''s'' t d)) demo_disk
     [demo_saved, demo_saved]), demo_world)) \<in> {Ok uninitialized, Ok demo_saved}"
proof -
  have "held_ledger demo_json ''s'' demo_disk = Some uninitialized"
    by (simp add: held_ledger_def demo_disk_def demo_json_def)
  moreover have "\<forall>t \<in> insert uninitialized (set [demo_saved, demo_saved]). schema_version t = app_state_schema_version"
    by (simp add: demo_saved_def uninitialized_def)
  ultimately show ?thesis
    using state_file_never_torn [OF demo_json_exact, of "''s''" demo_disk uninitialized "[demo_saved, demo_saved]" demo_env demo_world]
    by fastforce
qed

end
