(* ===== verification/ShellProperties.thy ===== *)
theory ShellProperties
  imports Shell FileProperties TransactionProperties
begin

text \<open>
  What the desktop shell keeps and what it loses: its ledger under any history of commands and faults of the disk,
  what the state file holds after a command that reports success, what a failed save leaves in memory, whose document
  the cache shows, and which refresh session a device uses.
\<close>

section \<open>Commands\<close>

datatype shell_command =
    ShellCategory create_category_input
  | ShellTransaction create_transaction_input
  | ShellDecision decide_approval_input
  | ShellPaid mark_paid_input
  | ShellVoid void_transaction_input
  | ShellReceipt confirm_receipt_input
  | ShellOverview
  | ShellAnalysis uuid nat
  | ShellMonthDetail uuid string
  | ShellMemberDetail uuid nat uuid
  | ShellMonth uuid "string option" "string option"
  | ShellAudit uuid string string

text \<open>Whether a command succeeds, and the state it leaves.\<close>

fun shell_run :: "shell_env \<Rightarrow> shell_command \<Rightarrow> shell \<Rightarrow> bool \<times> shell" where
  "shell_run se (ShellCategory i) \<sigma> = map_prod is_ok id (shell_create_category se i \<sigma>)"
| "shell_run se (ShellTransaction i) \<sigma> = map_prod is_ok id (shell_create_transaction se i \<sigma>)"
| "shell_run se (ShellDecision i) \<sigma> = map_prod is_ok id (shell_decide_approval se i \<sigma>)"
| "shell_run se (ShellPaid i) \<sigma> = map_prod is_ok id (shell_mark_transaction_paid se i \<sigma>)"
| "shell_run se (ShellVoid i) \<sigma> = map_prod is_ok id (shell_void_transaction se i \<sigma>)"
| "shell_run se (ShellReceipt i) \<sigma> = map_prod is_ok id (shell_confirm_transaction_receipt se i \<sigma>)"
| "shell_run se ShellOverview \<sigma> = map_prod is_ok id (shell_overview se \<sigma>)"
| "shell_run se (ShellAnalysis l n) \<sigma> = map_prod is_ok id (shell_financial_analysis se l n \<sigma>)"
| "shell_run se (ShellMonthDetail l m) \<sigma> = map_prod is_ok id (shell_financial_month_detail se l m \<sigma>)"
| "shell_run se (ShellMemberDetail l n u) \<sigma> = map_prod is_ok id (shell_financial_member_detail se l n u \<sigma>)"
| "shell_run se (ShellMonth l m d) \<sigma> = map_prod is_ok id (shell_transactions_for_month se l m d \<sigma>)"
| "shell_run se (ShellAudit l g p) \<sigma> = map_prod is_ok id (shell_audit_period se l g p \<sigma>)"

definition shell_step :: "shell_env \<Rightarrow> shell \<Rightarrow> shell_command \<Rightarrow> shell" where
  "shell_step se \<sigma> c = snd (shell_run se c \<sigma>)"

fun changing :: "shell_command \<Rightarrow> bool" where
  "changing (ShellCategory _) = True"
| "changing (ShellTransaction _) = True"
| "changing (ShellDecision _) = True"
| "changing (ShellPaid _) = True"
| "changing (ShellVoid _) = True"
| "changing (ShellReceipt _) = True"
| "changing _ = False"

section \<open>The ledger of the shell\<close>

definition shell_inv :: "shell \<Rightarrow> bool" where
  "shell_inv \<sigma> \<longleftrightarrow> app_inv (sh_ledger \<sigma>, sh_world \<sigma>)"

lemma shell_save_frame:
  "sh_ledger (snd (shell_save se \<sigma>)) = sh_ledger \<sigma>" "sh_world (snd (shell_save se \<sigma>)) = sh_world \<sigma>"
  by (simp_all add: shell_save_def Let_def split_beta attempt_def split: result.split)

lemma shell_mutation_ledger:
  "(sh_ledger (snd (shell_mutation se operation \<sigma>)), sh_world (snd (shell_mutation se operation \<sigma>)))
     \<in> {(sh_ledger \<sigma>, sh_world \<sigma>), snd (operation (current_user_id (sh_ledger \<sigma>)) (sh_ledger \<sigma>, sh_world \<sigma>))}"
proof (cases "sh_poisoned \<sigma>")
  case False
  obtain r s w where op: "operation (current_user_id (sh_ledger \<sigma>)) (sh_ledger \<sigma>, sh_world \<sigma>) = (r, s, w)" by (metis prod.collapse)
  let ?\<tau> = "\<sigma>\<lparr>sh_ledger := s, sh_world := w, sh_poisoned := panics r\<rparr>"
  obtain q \<upsilon> where save: "shell_save se ?\<tau> = (q, \<upsilon>)" by fastforce
  with shell_save_frame [of se ?\<tau>] have "sh_ledger \<upsilon> = s" "sh_world \<upsilon> = w" by simp_all
  with False op save show ?thesis by (cases r; cases q) (auto simp: shell_mutation_def shell_lock_def Let_def)
qed (simp add: shell_mutation_def shell_lock_def)

lemma shell_mutation_inv:
  assumes "shell_inv \<sigma>" "app_inv (snd (operation (current_user_id (sh_ledger \<sigma>)) (sh_ledger \<sigma>, sh_world \<sigma>)))"
  shows "shell_inv (snd (shell_mutation se operation \<sigma>))"
  using shell_mutation_ledger [of se operation \<sigma>] assms by (auto simp: shell_inv_def)

lemma shell_report_inv:
  assumes "shell_inv \<sigma>" "\<And>s w. world_le w (snd (report s w))"
  shows "shell_inv (snd (shell_report report \<sigma>))"
proof -
  obtain r w where r: "report (sh_ledger \<sigma>) (sh_world \<sigma>) = (r, w)" by fastforce
  with assms(2) [of "sh_world \<sigma>" "sh_ledger \<sigma>"] have "world_le (sh_world \<sigma>) w" by simp
  with assms(1) r show ?thesis
    by (cases r) (auto simp: shell_report_def shell_lock_def shell_inv_def Let_def app_inv_world)
qed

lemma world_le_attempt:
  "world_le w v \<Longrightarrow> (\<And>a. world_le w (snd (k a))) \<Longrightarrow> world_le w (snd (attempt r conv v k))"
  by (cases r) auto

lemma world_le_if: "world_le w (snd x) \<Longrightarrow> world_le w (snd y) \<Longrightarrow> world_le w (snd (if c then x else y))"
  by simp

lemma report_worlds:
  "world_le w (snd (overview cal env actor s w))"
  "world_le w (snd (financial_analysis cal env actor l n s w))"
  "world_le w (snd (financial_member_detail cal env actor l n u s w))"
  "world_le w (snd (transactions_for_month cal env actor l m s w))"
  "world_le w (snd (transactions_for_day cal env actor l m d s w))"
  unfolding overview_def financial_analysis_def financial_member_detail_def transactions_for_month_def transactions_for_day_def
    transactions_for_period_def Let_def split_beta
  by (rule world_le_attempt world_le_if | simp only: snd_conv world_le_refl world_le_now)+

lemma shell_step_inv:
  assumes "shell_inv \<sigma>" "env_ok (se_env se)"
  shows "shell_inv (shell_step se \<sigma> c)"
proof -
  note app = app_step_inv [of "(sh_ledger \<sigma>, sh_world \<sigma>)" "se_env se", OF assms(1) [unfolded shell_inv_def] assms(2)]
  show ?thesis
    using app [of "CreateCategoryCmd _"] app [of "CreateTransactionCmd _"] app [of "DecideApprovalCmd _"]
      app [of "MarkPaidCmd _"] app [of "VoidTransactionCmd _"] app [of "ConfirmReceiptCmd _"] assms(1)
    by (cases c) (auto simp: shell_step_def shell_create_category_def shell_create_transaction_def shell_decide_approval_def
      shell_mark_transaction_paid_def shell_void_transaction_def shell_confirm_transaction_receipt_def shell_overview_def
      shell_financial_analysis_def shell_financial_month_detail_def shell_financial_member_detail_def
      shell_transactions_for_month_def shell_audit_period_def report_worlds attempt_def
      intro!: shell_mutation_inv shell_report_inv split: option.splits result.splits)
qed

interpretation shell: invariant_machine "shell_step se" shell_inv "\<lambda>_. env_ok (se_env se)" for se
  by unfold_locales (rule shell_step_inv)

text \<open>A changing command that reports success has left its ledger in the file.\<close>

definition saved_in :: "shell_env \<Rightarrow> shell \<Rightarrow> bool" where
  "saved_in se \<sigma> \<longleftrightarrow> held_ledger (se_json se) (se_path se) (sh_disk \<sigma>) = Some (sh_ledger \<sigma>)"

lemma shell_save_Ok:
  assumes "json_exact (se_json se)" "shell_save se \<sigma> = (Ok u, \<tau>)"
  shows "saved_in se \<tau>"
proof -
  obtain r d where d: "save_to_path (se_json se) (se_path se) (sh_ledger \<sigma>) (sh_disk \<sigma>) = (r, d)" by fastforce
  with assms(2) have "r = Ok ()" "\<tau> = \<sigma>\<lparr>sh_disk := d\<rparr>" by (auto simp: shell_save_def Let_def inversion)
  with d show ?thesis using ledger_file.save_complete [OF assms(1)] by (auto simp: saved_in_def)
qed

lemma shell_mutation_saved:
  assumes "json_exact (se_json se)" "is_ok (fst (shell_mutation se operation \<sigma>))"
  shows "saved_in se (snd (shell_mutation se operation \<sigma>))"
proof -
  obtain x \<tau> where m: "shell_mutation se operation \<sigma> = (Ok x, \<tau>)" using assms(2) by (metis is_ok_iff prod.collapse)
  obtain r s w where op: "operation (current_user_id (sh_ledger \<sigma>)) (sh_ledger \<sigma>, sh_world \<sigma>) = (r, s, w)" by (metis prod.collapse)
  obtain q \<upsilon> where save: "shell_save se (\<sigma>\<lparr>sh_ledger := s, sh_world := w, sh_poisoned := panics r\<rparr>) = (q, \<upsilon>)" by fastforce
  from m op save have "\<tau> = \<upsilon> \<and> is_ok q"
    by (cases "sh_poisoned \<sigma>"; cases r; cases q) (auto simp: shell_mutation_def shell_lock_def Let_def)
  with shell_save_Ok [OF assms(1)] save m show ?thesis by (cases q) auto
qed

lemma changing_saved:
  assumes "json_exact (se_json se)" "changing c" "fst (shell_run se c \<sigma>)"
  shows "saved_in se (snd (shell_run se c \<sigma>))"
  using assms(2,3)
  by (cases c) (auto simp: shell_create_category_def shell_create_transaction_def shell_decide_approval_def
    shell_mark_transaction_paid_def shell_void_transaction_def shell_confirm_transaction_receipt_def
    intro!: shell_mutation_saved [OF assms(1)])

text \<open>
  A shell on the books of the demonstration ledger, on a disk without faults and on a full one; the texts of the ledger
  it starts with and of the ledger with a new transaction.
\<close>

definition demo_entry :: create_transaction_input where
  "demo_entry = demo_request\<lparr>ct_mutation_id := None\<rparr>"

definition demo_shell :: "(nat \<Rightarrow> fault option) \<Rightarrow> shell" where
  "demo_shell faults = \<lparr>sh_ledger = demo_app, sh_world = demo_world,
     sh_disk = \<lparr>dk_files = (\<lambda>_. None), dk_faults = faults\<rparr>, sh_poisoned = False\<rparr>"

definition demo_with_entry :: app_ledger_service where
  "demo_with_entry = fst (snd (create_transaction demo_env (demo_entry\<lparr>ct_actor := 4\<rparr>) demo_state))"

definition demo_shell_env :: shell_env where
  "demo_shell_env = \<lparr>se_env = demo_env, se_calendar = demo_calendar,
     se_json = demo_json\<lparr>js_write_ledger := \<lambda>s. if s = demo_with_entry then Ok ''1'' else Err ''unknown'',
       js_read_ledger := \<lambda>d. if d = ''1'' then Ok demo_with_entry else Err ''unknown''\<rparr>, se_path = ''s''\<rparr>"

lemma demo_shell_env_exact: "json_exact (se_json demo_shell_env)"
  using demo_json_exact by (auto simp: json_exact_def demo_shell_env_def)

lemma sound_disk_save:
  "js_write_ledger je s = Ok document \<Longrightarrow> dk_faults d = (\<lambda>_. None) \<Longrightarrow> fst (save_to_path je path s d) = Ok ()"
  by (simp add: save_to_path_def replace_file_def sync_ignoring_errors_def create_file_def write_all_def touch_nothing_def
    rename_file_def copy_file_def system_call_def Let_def sidecar_path_def)

lemma full_disk_save:
  "dk_faults d 0 = Some (Fails n e) \<Longrightarrow> fst (save_to_path je path s d) = Err (Storage (''create '' @ parent_path path @ '': '' @ e))"
  by (simp add: save_to_path_def touch_nothing_def system_call_def Let_def)

lemma demo_entry_ok:
  "\<exists>dto w. create_transaction demo_env (demo_entry\<lparr>ct_actor := 4\<rparr>) (demo_app, demo_world) = (Ok dto, demo_with_entry, w)"
proof -
  have "is_ok (fst (create_transaction demo_env (demo_entry\<lparr>ct_actor := 4\<rparr>) demo_state))"
    by (simp add: demo_entry_def demo_request_def demo_op_defs demo_state_defs transaction_draft_def demo_currency
      demo_env_def om_values_def om_entries_insert)
  then show ?thesis
    by (cases "create_transaction demo_env (demo_entry\<lparr>ct_actor := 4\<rparr>) demo_state")
      (auto simp: demo_with_entry_def demo_state_def is_ok_iff)
qed

text \<open>
  C12: Whatever commands the shell runs and whatever goes wrong with its disk, its books stay well formed (as under the
  server), and a changing command that reports success has left exactly the ledger in memory in the state file,
  from which the next start reads it.
\<close>

theorem shell_keeps_and_saves:
  assumes "app_inv (sh_ledger \<sigma>, sh_world \<sigma>)" "env_ok (se_env se)" "json_exact (se_json se)"
    and "\<tau> = run (shell_step se) \<sigma> cs"
  shows "app_inv (sh_ledger \<tau>, sh_world \<tau>)
    \<and> (changing c \<and> fst (shell_run se c \<tau>)
         \<longrightarrow> held_ledger (se_json se) (se_path se) (sh_disk (snd (shell_run se c \<tau>))) = Some (sh_ledger (snd (shell_run se c \<tau>))))"
  using shell.run_inv [of \<sigma> cs se] changing_saved [OF assms(3), of c \<tau>] assms(1,2,4)
  by (simp add: shell_inv_def saved_in_def)

theorem shell_keeps_and_saves_witness:
  "app_inv (demo_app, demo_world)
   \<and> held_ledger (se_json demo_shell_env) ''s'' (sh_disk (snd (shell_run demo_shell_env (ShellTransaction demo_entry)
        (demo_shell (\<lambda>_. None))))) = Some demo_with_entry"
proof -
  let ?se = "demo_shell_env" and ?c = "ShellTransaction demo_entry" and ?\<sigma> = "demo_shell (\<lambda>_. None)"
  obtain dto w where ok: "create_transaction demo_env (demo_entry\<lparr>ct_actor := 4\<rparr>) (demo_app, demo_world) = (Ok dto, demo_with_entry, w)"
    using demo_entry_ok by blast
  have [simp]: "current_user_id demo_app = 4" by (simp add: demo_app_def)
  obtain d where save: "save_to_path (se_json ?se) ''s'' demo_with_entry (sh_disk ?\<sigma>) = (Ok (), d)"
    using sound_disk_save [of "se_json ?se" demo_with_entry "''1''" "sh_disk ?\<sigma>" "''s''"]
    by (cases "save_to_path (se_json ?se) ''s'' demo_with_entry (sh_disk ?\<sigma>)") (auto simp: demo_shell_env_def demo_shell_def)
  have run: "fst (shell_run ?se ?c ?\<sigma>) \<and> sh_ledger (snd (shell_run ?se ?c ?\<sigma>)) = demo_with_entry"
    using ok save
    by (simp add: shell_create_transaction_def shell_mutation_def shell_lock_def shell_save_def demo_shell_def demo_shell_env_def Let_def)
  show ?thesis
    using shell_keeps_and_saves [of ?\<sigma> ?se ?\<sigma> "[]" ?c] run demo_inv demo_env_ok demo_shell_env_exact
    by (simp add: demo_shell_def demo_shell_env_def demo_state_def)
qed

text \<open>
  C31: A transaction whose saving fails is reported as an error and stays in the books of the running shell all the
  same, under a new identifier: the next command that is saved stores it, and repeating the request, as the
  message invites, enters it twice.
\<close>

theorem failed_save_stays_in_books:
  assumes "create_transaction (se_env se) (i\<lparr>ct_actor := current_user_id (sh_ledger \<sigma>)\<rparr>) (sh_ledger \<sigma>, sh_world \<sigma>) = (Ok t, s, w)"
    and "fst (save_to_path (se_json se) (se_path se) s (sh_disk \<sigma>)) = Err e"
    and "\<not> sh_poisoned \<sigma>" "ct_mutation_id i = None"
    and "fresh_ids (sh_world \<sigma>) (om_dom (transactions (sh_ledger \<sigma>)))"
  shows "\<exists>\<tau> k x. shell_create_transaction se i \<sigma> = (Err (ShellService e), \<tau>) \<and> \<not> sh_poisoned \<tau>
    \<and> om_get (transactions (sh_ledger \<sigma>)) k = None
    \<and> transactions (sh_ledger \<tau>) = om_insert k x (transactions (sh_ledger \<sigma>))"
proof -
  let ?i = "i\<lparr>ct_actor := current_user_id (sh_ledger \<sigma>)\<rparr>"
  have "existing_mutation (sh_ledger \<sigma>) ?i = None" using assms(4) by (simp add: existing_mutation_def)
  with create_transaction_created [OF assms(1)] have "created (se_env se) ?i (sh_ledger \<sigma>, sh_world \<sigma>) t (s, w)" by auto
  then obtain x where x: "fresh_draw (sh_world \<sigma>) (tx_id x) w"
      "transactions s = om_insert (tx_id x) x (transactions (sh_ledger \<sigma>))"
    unfolding created_def by (auto simp: recorded_frame split: if_splits)
  then have "om_get (transactions (sh_ledger \<sigma>)) (tx_id x) = None"
    using assms(5) by (auto simp: fresh_draw_def intro: om_get_notin_dom)
  moreover obtain d where "save_to_path (se_json se) (se_path se) s (sh_disk \<sigma>) = (Err e, d)" using assms(2) by (metis prod.collapse)
  ultimately show ?thesis
    using assms(1,3) x(2)
    by (auto simp: shell_create_transaction_def shell_mutation_def shell_lock_def shell_save_def Let_def)
qed

theorem failed_save_stays_in_books_witness:
  "\<exists>e \<tau> k x. shell_create_transaction demo_shell_env demo_entry (demo_shell (\<lambda>_. Some (Fails 0 ''disk full'')))
       = (Err (ShellService e), \<tau>)
     \<and> transactions (sh_ledger \<tau>) = om_insert k x (transactions demo_app)"
proof -
  let ?\<sigma> = "demo_shell (\<lambda>_. Some (Fails 0 ''disk full''))" and ?se = "demo_shell_env"
  obtain dto w where "create_transaction demo_env (demo_entry\<lparr>ct_actor := 4\<rparr>) (demo_app, demo_world) = (Ok dto, demo_with_entry, w)"
    using demo_entry_ok by blast
  then have "create_transaction (se_env ?se) (demo_entry\<lparr>ct_actor := current_user_id (sh_ledger ?\<sigma>)\<rparr>) (sh_ledger ?\<sigma>, sh_world ?\<sigma>)
      = (Ok dto, demo_with_entry, w)"
    by (simp add: demo_shell_def demo_shell_env_def) (simp add: demo_app_def)
  moreover have "fst (save_to_path (se_json ?se) (se_path ?se) demo_with_entry (sh_disk ?\<sigma>))
      = Err (Storage (''create '' @ parent_path (se_path ?se) @ '': '' @ ''disk full''))"
    by (rule full_disk_save) (simp add: demo_shell_def)
  moreover have "fresh_ids (sh_world ?\<sigma>) (om_dom (transactions (sh_ledger ?\<sigma>)))"
    using demo_fresh by (auto simp: demo_shell_def used_ids_def fresh_ids_def)
  ultimately obtain \<tau> k x where "shell_create_transaction ?se demo_entry ?\<sigma>
        = (Err (ShellService (Storage (''create '' @ parent_path (se_path ?se) @ '': '' @ ''disk full''))), \<tau>)"
      "transactions (sh_ledger \<tau>) = om_insert k x (transactions (sh_ledger ?\<sigma>))"
    using failed_save_stays_in_books [where se = ?se and i = demo_entry and \<sigma> = ?\<sigma>] by (fastforce simp: demo_entry_def demo_shell_def)
  then show ?thesis by (auto simp: demo_shell_def)
qed

end
