(* ===== verification/ClientProperties.thy ===== *)
theory ClientProperties
  imports Shell Machine
begin

text \<open>
  What the client keeps of the server: the document its cache shows after any history of openings, stores, clears and
  failures of SQLite, and the refresh session it loads when the system's credential store is steady and when it is not.
\<close>

section \<open>The cache refines a single slot\<close>

datatype 'v cache_command = CacheOpen | CacheStore string 'v | CacheClear string

text \<open>Whether a command succeeds, and the store it leaves.\<close>

fun cache_call :: "env \<Rightarrow> 'v document_format \<Rightarrow> 'v cache_command \<Rightarrow> offline_store \<Rightarrow> (unit, string) result \<times> offline_store" where
  "cache_call env df CacheOpen s = offline_open s"
| "cache_call env df (CacheStore user v) s = offline_cache_store env df user v s"
| "cache_call env df (CacheClear user) s = offline_cache_clear env user s"

text \<open>What the user sees: the document stored last, until the user it belongs to clears it.\<close>

fun slot_step :: "'v cache_command \<Rightarrow> bool \<Rightarrow> (string \<times> 'v) option \<Rightarrow> (string \<times> 'v) option" where
  "slot_step _ False a = a"
| "slot_step CacheOpen True a = a"
| "slot_step (CacheStore user v) True a = Some (user, v)"
| "slot_step (CacheClear user) True a = (if map_option fst a = Some user then None else a)"

definition cache_step ::
  "env \<Rightarrow> 'v document_format \<Rightarrow> offline_store \<times> (string \<times> 'v) option \<Rightarrow> 'v cache_command \<Rightarrow> offline_store \<times> (string \<times> 'v) option" where
  "cache_step env df sa c =
     (let (r, s) = cache_call env df c (fst sa) in (s, slot_step c (is_ok r) (snd sa)))"

definition document_exact :: "'v document_format \<Rightarrow> bool" where
  "document_exact df \<longleftrightarrow> (\<forall>v d. df_write df v = Ok d \<longrightarrow> df_read df d = Ok v)"

text \<open>The tables hold the slot: the active user's document is that of the slot, and without a slot nobody is active.\<close>

definition shows_slot :: "'v document_format \<Rightarrow> offline_store \<times> (string \<times> 'v) option \<Rightarrow> bool" where
  "shows_slot df sa \<longleftrightarrow>
     ot_metadata (os_tables (fst sa)) ''cache_schema_version'' = Some cache_schema_version
   \<and> \<not> os_poisoned (fst sa)
   \<and> ot_metadata (os_tables (fst sa)) ''active_user_id'' = map_option fst (snd sa)
   \<and> (\<forall>user v. snd sa = Some (user, v) \<longrightarrow>
        (\<exists>document now. ot_cache (os_tables (fst sa)) user = Some (document, now) \<and> df_read df document = Ok v))"

lemma sqlite_call_tables [simp]:
  "os_tables (snd (sqlite_call s)) = os_tables s" "os_poisoned (snd (sqlite_call s)) = os_poisoned s"
  by (simp_all add: sqlite_call_def)

lemma execute_all_tables:
  "execute_all statements tables s = (r, s') \<Longrightarrow> os_tables s' = os_tables s \<and> os_poisoned s' = os_poisoned s
     \<and> (\<forall>t. r = Ok t \<longrightarrow> t = fold (\<lambda>f t. f t) statements tables)"
proof (induction statements arbitrary: tables s)
  case (Cons f rest)
  obtain q u where call: "sqlite_call s = (q, u)" by fastforce
  then have "os_tables u = os_tables s" "os_poisoned u = os_poisoned s"
    using sqlite_call_tables [of s] by simp_all
  with Cons.IH [of "f tables" u] Cons.prems call show ?case by (cases q) auto
qed auto

text \<open>A transaction happens completely, with success, or not at all, with an error.\<close>

lemma transaction_atomic:
  assumes "transaction_of statements s = (r, s')"
  shows "os_poisoned s' = os_poisoned s
    \<and> os_tables s' = (if is_ok r then fold (\<lambda>f t. f t) statements (os_tables s) else os_tables s)"
proof -
  obtain r1 s1 where 1: "sqlite_call s = (r1, s1)" by fastforce
  obtain r2 s2 where 2: "execute_all statements (os_tables s1) s1 = (r2, s2)" by fastforce
  obtain r3 s3 where 3: "sqlite_call s2 = (r3, s3)" by fastforce
  have "os_tables s1 = os_tables s" "os_poisoned s1 = os_poisoned s" "os_tables s2 = os_tables s1" "os_poisoned s2 = os_poisoned s1"
    "os_tables s3 = os_tables s2" "os_poisoned s3 = os_poisoned s2" "\<And>t. r2 = Ok t \<Longrightarrow> t = fold (\<lambda>f t. f t) statements (os_tables s1)"
    using sqlite_call_tables [of s] sqlite_call_tables [of s2] execute_all_tables [OF 2] 1 3 by simp_all
  with assms 1 2 3 show ?thesis
    by (cases r1; cases r2; cases r3) (auto simp: transaction_of_def)
qed

lemma open_slot:
  assumes "offline_open s = (r, s')"
  shows "os_poisoned s' = os_poisoned s
    \<and> (os_tables s' = os_tables s \<and> (is_ok r \<longrightarrow> ot_metadata (os_tables s) ''cache_schema_version'' = Some cache_schema_version)
      \<or> is_ok r \<and> os_tables s' = \<lparr>ot_cache = \<lambda>_. None, ot_metadata = [''cache_schema_version'' \<mapsto> cache_schema_version]\<rparr>
         \<and> ot_metadata (os_tables s) ''cache_schema_version'' \<noteq> Some cache_schema_version)"
proof -
  obtain r1 s1 where 1: "sqlite_call s = (r1, s1)" by fastforce
  obtain r2 s2 where 2: "sqlite_call s1 = (r2, s2)" by fastforce
  obtain r3 s3 where 3: "sqlite_call s2 = (r3, s3)" by fastforce
  have same: "os_tables s1 = os_tables s" "os_tables s2 = os_tables s" "os_tables s3 = os_tables s"
    "os_poisoned s1 = os_poisoned s" "os_poisoned s2 = os_poisoned s" "os_poisoned s3 = os_poisoned s"
    using sqlite_call_tables [of s] sqlite_call_tables [of s1] sqlite_call_tables [of s2] 1 2 3 by simp_all
  let ?upgrade = "[\<lambda>t. t\<lparr>ot_cache := \<lambda>_. None\<rparr>, \<lambda>t. t\<lparr>ot_metadata := \<lambda>_. None\<rparr>,
    \<lambda>t. t\<lparr>ot_metadata := (ot_metadata t)(''cache_schema_version'' \<mapsto> cache_schema_version)\<rparr>]"
  obtain r4 s4 where 4: "transaction_of ?upgrade s3 = (r4, s4)" by fastforce
  show ?thesis
    using assms 1 2 3 4 same transaction_atomic [OF 4]
    by (cases r1; cases r2; cases r3) (auto simp: offline_open_def split: if_splits)
qed

lemma save_slot:
  assumes "offline_save df user v s = (r, s')"
  shows "os_poisoned s' = os_poisoned s
    \<and> (\<not> is_ok r \<and> os_tables s' = os_tables s
      \<or> is_ok r \<and> (\<exists>document now. df_write df v = Ok document
         \<and> os_tables s' = os_tables s\<lparr>ot_cache := (ot_cache (os_tables s))(user \<mapsto> (document, now)),
              ot_metadata := (ot_metadata (os_tables s))(''active_user_id'' \<mapsto> user)\<rparr>))"
proof (cases "df_write df v")
  case (Ok document)
  let ?s = "s\<lparr>os_unix_epoch := \<lambda>n. os_unix_epoch s (Suc n)\<rparr>"
  let ?fs = "[\<lambda>t. t\<lparr>ot_cache := (ot_cache t)(user \<mapsto> (document, os_unix_epoch s 0))\<rparr>,
         \<lambda>t. t\<lparr>ot_metadata := (ot_metadata t)(''active_user_id'' \<mapsto> user)\<rparr>]"
  obtain q u where t: "transaction_of ?fs ?s = (q, u)" by fastforce
  from assms Ok t transaction_atomic [OF t] show ?thesis
    by (cases "os_poisoned s") (auto simp: offline_save_def lock_connection_def Let_def split: if_splits)
qed (use assms in \<open>auto simp: offline_save_def\<close>)

lemma clear_slot:
  assumes "offline_clear user s = (r, s')"
  shows "os_poisoned s' = os_poisoned s
    \<and> (\<not> is_ok r \<and> os_tables s' = os_tables s
      \<or> is_ok r \<and> os_tables s' = os_tables s\<lparr>ot_cache := (ot_cache (os_tables s))(user := None),
              ot_metadata := (if ot_metadata (os_tables s) ''active_user_id'' = Some user
                then (ot_metadata (os_tables s))(''active_user_id'' := None) else ot_metadata (os_tables s))\<rparr>)"
proof -
  let ?fs = "[\<lambda>t. t\<lparr>ot_cache := (ot_cache t)(user := None)\<rparr>,
       \<lambda>t. if ot_metadata t ''active_user_id'' = Some user
           then t\<lparr>ot_metadata := (ot_metadata t)(''active_user_id'' := None)\<rparr> else t]"
  obtain q u where t: "transaction_of ?fs s = (q, u)" by fastforce
  from assms t transaction_atomic [OF t] show ?thesis
    by (cases "os_poisoned s") (auto simp: offline_clear_def lock_connection_def)
qed

lemma cache_step_shows:
  assumes exact: "document_exact df" and slot: "shows_slot df sa"
  shows "shows_slot df (cache_step env df sa c)"
proof -
  obtain s a where sa: "sa = (s, a)" by fastforce
  obtain r s' where call: "cache_call env df c s = (r, s')" by fastforce
  show ?thesis
  proof (cases c)
    case CacheOpen
    with call slot open_slot [of s r s'] show ?thesis
      by (cases r) (auto simp: sa cache_step_def shows_slot_def)
  next
    case (CacheStore user v)
    with call slot exact save_slot [of df user v s r s'] show ?thesis
      by (cases "parse_user_id env user"; cases r)
        (auto simp: sa cache_step_def shows_slot_def offline_cache_store_def document_exact_def)
  next
    case (CacheClear user)
    with call slot clear_slot [of user s r s'] show ?thesis
      by (cases "parse_user_id env user"; cases r)
        (auto simp: sa cache_step_def shows_slot_def offline_cache_clear_def)
  qed
qed

interpretation cache: invariant_machine "cache_step env df" "shows_slot df" "\<lambda>_. document_exact df" for env df
  by unfold_locales (rule cache_step_shows)

text \<open>
  C13: From a cache of an older version on, whatever is stored and cleared, by whomever, across restarts and failures of
  SQLite, the cache shows the document that was stored last with success, until the user it belongs to clears it:
  never the document of a user who was not the last, and never part of one.
\<close>

theorem offline_cache_shows_last:
  assumes "document_exact df" "\<not> os_poisoned s0"
    and "ot_metadata (os_tables s0) ''cache_schema_version'' \<noteq> Some cache_schema_version" "offline_open s0 = (Ok (), s)"
    and "run (cache_step env df) (s, None) cs = (t, slot)" "os_faults t 0 = None"
  shows "fst (offline_load_last df t) = Ok (map_option snd slot)"
proof -
  have "shows_slot df (s, None)"
    using open_slot [OF assms(4)] assms(2,3) by (auto simp: shows_slot_def)
  from cache.run_inv [OF this, of cs env] assms(1,5) have "shows_slot df (t, slot)" by simp
  then show ?thesis
    using assms(6)
    by (cases slot) (auto simp: shows_slot_def offline_load_last_def lock_connection_def sqlite_call_def)
qed

text \<open>Two users, and a disk that is full when the second stores again.\<close>

definition demo_documents :: "string document_format" where
  "demo_documents = \<lparr>df_write = \<lambda>v. if valid_utf8 v then Ok v else Err ''lone surrogate'', df_read = Ok\<rparr>"

definition demo_client_env :: env where
  "demo_client_env = demo_env\<lparr>parse_uuid := \<lambda>u. if length u = 1 then Some 7 else None\<rparr>"

definition demo_cache :: offline_store where
  "demo_cache = \<lparr>os_tables = \<lparr>ot_cache = \<lambda>_. None, ot_metadata = \<lambda>_. None\<rparr>,
     os_faults = \<lambda>n. if n = 25 then Some ''disk full'' else None, os_unix_epoch = int, os_poisoned = False\<rparr>"

definition demo_cache_commands :: "string cache_command list" where
  "demo_cache_commands = [CacheStore ''a'' ''1'', CacheStore ''b'' ''2'', CacheClear ''a'', CacheOpen, CacheStore ''b'' ''3'']"

lemma demo_cache_opens: "fst (offline_open demo_cache) = Ok ()"
  by code_simp

lemma demo_cache_run:
  "snd (run (cache_step demo_client_env demo_documents) (snd (offline_open demo_cache), None) demo_cache_commands) = Some (''b'', ''2'')"
  "os_faults (fst (run (cache_step demo_client_env demo_documents) (snd (offline_open demo_cache), None) demo_cache_commands)) 0 = None"
  by (simp_all add: demo_cache_commands_def cache_step_def offline_cache_store_def offline_cache_clear_def parse_user_id_def
    demo_client_env_def offline_save_def offline_clear_def offline_open_def transaction_of_def sqlite_call_def lock_connection_def
    demo_documents_def demo_cache_def max_document_bytes_def Let_def)

theorem offline_cache_shows_last_witness:
  "fst (offline_load_last demo_documents (fst (run (cache_step demo_client_env demo_documents)
     (snd (offline_open demo_cache), None) demo_cache_commands))) = Ok (Some ''2'')"
proof -
  have "document_exact demo_documents" by (simp add: document_exact_def demo_documents_def)
  moreover have "\<not> os_poisoned demo_cache" "ot_metadata (os_tables demo_cache) ''cache_schema_version'' \<noteq> Some cache_schema_version"
    by (simp_all add: demo_cache_def)
  moreover have "offline_open demo_cache = (Ok (), snd (offline_open demo_cache))"
    using demo_cache_opens by (metis prod.collapse)
  ultimately show ?thesis
    using offline_cache_shows_last [of demo_documents demo_cache "snd (offline_open demo_cache)" demo_client_env demo_cache_commands]
      demo_cache_run by (metis (no_types, lifting) option.simps(9) prod.collapse snd_conv)
qed

section \<open>The refresh session\<close>

definition session_exact :: "session_format \<Rightarrow> bool" where
  "session_exact sf \<longleftrightarrow> (\<forall>x p. sf_write sf x = Ok p \<longrightarrow> sf_read sf p = Some x)"

lemmas credential_defs = desktop_store_def desktop_load_def desktop_clear_def set_password_def delete_credential_def
  credential_call_def lock_memory_def Let_def

text \<open>
  On a system whose credential store always works, and on one where it never does, the client loads the refresh
  session it stored last, whatever was there before, and none after it has cleared it.
\<close>

theorem steady_store_keeps_session:
  assumes "session_exact sf" "sf_write sf session = Ok payload" "\<not> cs_poisoned \<sigma>"
    and "(\<forall>n. cs_fails \<sigma> n) \<or> (\<forall>n. \<not> cs_fails \<sigma> n)"
  shows "\<exists>\<tau> \<upsilon>. desktop_store sf session \<sigma> = (Ok (), \<tau>) \<and> fst (desktop_load sf \<tau>) = Ok (Some session)
    \<and> desktop_clear \<tau> = (Ok (), \<upsilon>) \<and> fst (desktop_load sf \<upsilon>) = Ok None"
  using assms by (auto simp: session_exact_def credential_defs)

text \<open>
  C32: When the store fails for a moment it is otherwise. A write that fails leaves the entry of the old session, and
  the next load returns that one, though the store reported success and memory holds the new one; a
  deletion that fails is reported as success too, and the session that was cleared is loaded again.
\<close>

theorem unsteady_store_returns_old_session:
  assumes "cs_entry \<sigma> = Some payload" "sf_read sf payload = Some old" "sf_write sf session = Ok payload'"
    and "\<not> cs_poisoned \<sigma>" "\<forall>n < 4. cs_fails \<sigma> n \<longleftrightarrow> n = 1"
  shows "\<exists>\<tau> \<upsilon>. desktop_store sf session \<sigma> = (Ok (), \<tau>) \<and> cs_memory \<tau> = Some session
    \<and> fst (desktop_load sf \<tau>) = Ok (Some old)
    \<and> desktop_clear \<sigma> = (Ok (), \<upsilon>) \<and> fst (desktop_load sf \<upsilon>) = Ok (Some old)"
  using assms by (simp add: credential_defs numeral_2_eq_2)

definition demo_session :: "string \<Rightarrow> secure_refresh_session" where
  "demo_session t = \<lparr>sr_refresh_token = t, sr_installation_id = ''i''\<rparr>"

definition demo_sessions :: session_format where
  "demo_sessions = \<lparr>sf_write = \<lambda>x. if sr_installation_id x = ''i'' then Ok (sr_refresh_token x) else Err ''other'',
     sf_read = \<lambda>p. Some (demo_session p)\<rparr>"

definition demo_credentials :: "(nat \<Rightarrow> bool) \<Rightarrow> secure_session_state" where
  "demo_credentials fails = \<lparr>cs_entry = Some ''old'', cs_fails = fails, cs_memory = None, cs_poisoned = False\<rparr>"

theorem steady_store_keeps_session_witness:
  "\<exists>\<tau>. desktop_store demo_sessions (demo_session ''new'') (demo_credentials (\<lambda>_. False)) = (Ok (), \<tau>)
     \<and> fst (desktop_load demo_sessions \<tau>) = Ok (Some (demo_session ''new''))"
proof -
  have "session_exact demo_sessions" by (auto simp: session_exact_def demo_sessions_def demo_session_def)
  moreover have "sf_write demo_sessions (demo_session ''new'') = Ok ''new''" by (simp add: demo_sessions_def demo_session_def)
  ultimately show ?thesis
    using steady_store_keeps_session [of demo_sessions "demo_session ''new''" "''new''" "demo_credentials (\<lambda>_. False)"]
    by (auto simp: demo_credentials_def)
qed

theorem unsteady_store_returns_old_session_witness:
  "\<exists>\<tau>. desktop_store demo_sessions (demo_session ''new'') (demo_credentials (\<lambda>n. n = 1)) = (Ok (), \<tau>)
     \<and> fst (desktop_load demo_sessions \<tau>) = Ok (Some (demo_session ''old''))"
  using unsteady_store_returns_old_session [of "demo_credentials (\<lambda>n. n = 1)" "''old''" demo_sessions "demo_session ''old''"
      "demo_session ''new''" "''new''"]
  by (auto simp: demo_credentials_def demo_sessions_def demo_session_def)

end
