(* ===== verification/PostgresRows.thy ===== *)
theory PostgresRows
  imports StateFiles AuditChain
begin

text \<open>
  The tables in which PostgreSQL keeps the ledger and the accounts, as the migrations leave them
  (\<open>cloudledger-server/migrations\<close>): a table is the list of its rows, a column of an enum is its text, a time is what the
  column keeps of it. The checks, unique columns and foreign keys of a table are a predicate on the row that is
  inserted. Of PostgreSQL the parameter \<open>pg_env\<close> has the case mapping of its collation and, from \<open>audit_env\<close>, what a
  time column keeps; of the crate \<open>hex\<close> the decoding.
\<close>

section \<open>The outside\<close>

record pg_env =
  pe_audit :: audit_env
  pe_signer :: audit_signer
  pe_lower :: "string \<Rightarrow> string"
  pe_upper :: "string \<Rightarrow> string"
  pe_unhex :: "string \<Rightarrow> bytes option"

abbreviation pe_time :: "pg_env \<Rightarrow> instant \<Rightarrow> instant" where
  "pe_time pe \<equiv> ad_time_column (pe_audit pe)"

datatype pg_error =
    PgConnection
  | PgViolation string
  | PgRestricted string
  | PgColumn string
  | PgMoney money_error
  | PgHex
  | PgAudit audit_error

section \<open>Enums as text\<close>

fun membership_role_to_db :: "membership_role \<Rightarrow> string" where
  "membership_role_to_db Owner = ''owner''"
| "membership_role_to_db Admin = ''admin''"
| "membership_role_to_db BusinessOwner = ''business_owner''"
| "membership_role_to_db Employee = ''employee''"
| "membership_role_to_db Accountant = ''accountant''"
| "membership_role_to_db Approver = ''approver''"
| "membership_role_to_db Member = ''member''"
| "membership_role_to_db Viewer = ''viewer''"

fun ledger_kind_to_db :: "ledger_kind \<Rightarrow> string" where
  "ledger_kind_to_db Personal = ''personal''"
| "ledger_kind_to_db OrganizationPublic = ''organization_public''"

fun financial_account_kind_to_db :: "financial_account_kind \<Rightarrow> string" where
  "financial_account_kind_to_db Cash = ''cash''"
| "financial_account_kind_to_db Bank = ''bank''"
| "financial_account_kind_to_db Wallet = ''wallet''"
| "financial_account_kind_to_db Wechat = ''wechat''"
| "financial_account_kind_to_db Alipay = ''alipay''"
| "financial_account_kind_to_db CreditAccount = ''credit''"
| "financial_account_kind_to_db Receivable = ''receivable''"
| "financial_account_kind_to_db Payable = ''payable''"

fun category_kind_to_db :: "category_kind \<Rightarrow> string" where
  "category_kind_to_db IncomeCategory = ''income''"
| "category_kind_to_db ExpenseCategory = ''expense''"

fun transaction_kind_to_db :: "transaction_kind \<Rightarrow> string" where
  "transaction_kind_to_db Income = ''income''"
| "transaction_kind_to_db Expense = ''expense''"
| "transaction_kind_to_db Transfer = ''transfer''"

fun approval_state_to_db :: "approval_state \<Rightarrow> string" where
  "approval_state_to_db Draft = ''draft''"
| "approval_state_to_db Submitted = ''submitted''"
| "approval_state_to_db Approved = ''approved''"
| "approval_state_to_db Rejected = ''rejected''"
| "approval_state_to_db Voided = ''voided''"

fun payment_state_to_db :: "payment_state \<Rightarrow> string" where
  "payment_state_to_db NotApplicable = ''not_applicable''"
| "payment_state_to_db PendingPayment = ''pending_payment''"
| "payment_state_to_db PaidPendingReceipt = ''paid_pending_receipt''"
| "payment_state_to_db Received = ''received''"

fun account_kind_to_db :: "account_kind \<Rightarrow> string" where
  "account_kind_to_db Business = ''business''"
| "account_kind_to_db OrganizationAdmin = ''organization_admin''"

fun session_kind_to_db :: "session_kind \<Rightarrow> string" where
  "session_kind_to_db Tauri = ''tauri''"
| "session_kind_to_db Web = ''web''"
| "session_kind_to_db AdminKind = ''admin''"

text \<open>\<open>serde\<close> reads a variant by the name it writes; the first kind of session has the second name \<open>app\<close>.\<close>

definition enum_from_db :: "('a \<Rightarrow> string) \<Rightarrow> 'a list \<Rightarrow> string \<Rightarrow> ('a, pg_error) result" where
  "enum_from_db to_db variants text = ok_or (List.find (\<lambda>v. to_db v = text) variants) (PgColumn text)"

definition membership_role_from_db :: "string \<Rightarrow> (membership_role, pg_error) result" where
  "membership_role_from_db =
     enum_from_db membership_role_to_db [Owner, Admin, BusinessOwner, Employee, Accountant, Approver, Member, Viewer]"

definition ledger_kind_from_db :: "string \<Rightarrow> (ledger_kind, pg_error) result" where
  "ledger_kind_from_db = enum_from_db ledger_kind_to_db [Personal, OrganizationPublic]"

definition financial_account_kind_from_db :: "string \<Rightarrow> (financial_account_kind, pg_error) result" where
  "financial_account_kind_from_db =
     enum_from_db financial_account_kind_to_db [Cash, Bank, Wallet, Wechat, Alipay, CreditAccount, Receivable, Payable]"

definition category_kind_from_db :: "string \<Rightarrow> (category_kind, pg_error) result" where
  "category_kind_from_db = enum_from_db category_kind_to_db [IncomeCategory, ExpenseCategory]"

definition transaction_kind_from_db :: "string \<Rightarrow> (transaction_kind, pg_error) result" where
  "transaction_kind_from_db = enum_from_db transaction_kind_to_db [Income, Expense, Transfer]"

definition approval_state_from_db :: "string \<Rightarrow> (approval_state, pg_error) result" where
  "approval_state_from_db = enum_from_db approval_state_to_db [Draft, Submitted, Approved, Rejected, Voided]"

definition payment_state_from_db :: "string \<Rightarrow> (payment_state, pg_error) result" where
  "payment_state_from_db = enum_from_db payment_state_to_db [NotApplicable, PendingPayment, PaidPendingReceipt, Received]"

definition account_kind_from_db :: "string \<Rightarrow> (account_kind, pg_error) result" where
  "account_kind_from_db = enum_from_db account_kind_to_db [Business, OrganizationAdmin]"

definition session_kind_from_db :: "string \<Rightarrow> (session_kind, pg_error) result" where
  "session_kind_from_db text =
     (if text = ''app'' then Ok Tauri else enum_from_db session_kind_to_db [Tauri, Web, AdminKind] text)"

section \<open>The rows\<close>

text \<open>A row of \<open>domain_users\<close> and of \<open>organizations\<close> has the fields of the struct.\<close>

record membership_row =
  mr_id :: uuid
  mr_organization :: uuid
  mr_user :: uuid
  mr_role :: string
  mr_created_at :: instant

record ledger_row =
  lr_id :: uuid
  lr_name :: string
  lr_kind :: string
  lr_owner_user :: "uuid option"
  lr_organization :: "uuid option"
  lr_created_at :: instant
  lr_deleted_at :: "instant option"

record account_row =
  ar_id :: uuid
  ar_ledger :: uuid
  ar_name :: string
  ar_kind :: string
  ar_opening_balance_minor :: i64
  ar_currency :: string
  ar_created_at :: instant
  ar_deleted_at :: "instant option"

record category_row =
  ctr_id :: uuid
  ctr_ledger :: uuid
  ctr_name :: string
  ctr_kind :: string

record transaction_row =
  tr_id :: uuid
  tr_client_mutation :: "uuid option"
  tr_ledger :: uuid
  tr_account :: uuid
  tr_category :: "uuid option"
  tr_kind :: string
  tr_amount_minor :: i64
  tr_currency :: string
  tr_occurred_at :: instant
  tr_description :: string
  tr_approval_state :: string
  tr_payment_state :: string
  tr_created_by :: uuid
  tr_submitted_by :: "uuid option"
  tr_approved_by :: "uuid option"
  tr_approved_at :: "instant option"
  tr_paid_by :: "uuid option"
  tr_paid_at :: "instant option"
  tr_received_by :: "uuid option"
  tr_received_at :: "instant option"
  tr_version :: i64
  tr_created_at :: instant
  tr_updated_at :: instant
  tr_deleted_at :: "instant option"

record metadata_row =
  md_schema_version :: "32 word"
  md_current_user :: "uuid option"

record auth_user_row =
  aur_id :: uuid
  aur_display_name :: string
  aur_email :: "string option"
  aur_phone :: "string option"
  aur_password_hash :: string
  aur_account_kind :: string
  aur_organization :: "uuid option"
  aur_created_at :: instant
  aur_updated_at :: instant

record session_row =
  ser_id :: uuid
  ser_family :: uuid
  ser_user :: uuid
  ser_installation :: "string option"
  ser_access_hash :: bytes
  ser_refresh_hash :: "bytes option"
  ser_client_kind :: string
  ser_access_expires_at :: instant
  ser_refresh_expires_at :: "instant option"
  ser_created_at :: instant
  ser_rotated_at :: "instant option"
  ser_revoked_at :: "instant option"

text \<open>\<open>pt_legacy\<close> is \<open>audit_logs_legacy\<close>, the audit log of before migration 4, which nobody may change any more.\<close>

record pg_tables =
  pt_users :: "user list"
  pt_organizations :: "organization list"
  pt_memberships :: "membership_row list"
  pt_ledgers :: "ledger_row list"
  pt_accounts :: "account_row list"
  pt_categories :: "category_row list"
  pt_transactions :: "transaction_row list"
  pt_metadata :: "metadata_row list"
  pt_legacy :: "audit_log list"
  pt_audit :: "audit_row list"
  pt_auth_users :: "auth_user_row list"
  pt_installations :: "(string \<times> uuid) list"
  pt_sessions :: "session_row list"

section \<open>From the structs and back\<close>

definition user_kept :: "pg_env \<Rightarrow> user \<Rightarrow> user" where
  "user_kept pe u = u\<lparr>usr_created_at := pe_time pe (usr_created_at u)\<rparr>"

definition organization_kept :: "pg_env \<Rightarrow> organization \<Rightarrow> organization" where
  "organization_kept pe g = g\<lparr>org_created_at := pe_time pe (org_created_at g)\<rparr>"

definition membership_to_row :: "pg_env \<Rightarrow> membership \<Rightarrow> membership_row" where
  "membership_to_row pe m =
     \<lparr>mr_id = ms_id m, mr_organization = ms_organization m, mr_user = ms_user m,
      mr_role = membership_role_to_db (ms_role m), mr_created_at = pe_time pe (ms_created_at m)\<rparr>"

definition membership_from_row :: "membership_row \<Rightarrow> (membership, pg_error) result" where
  "membership_from_row r =
     attempt_pure (membership_role_from_db (mr_role r)) id (\<lambda>role.
     Ok \<lparr>ms_id = mr_id r, ms_organization = mr_organization r, ms_user = mr_user r, ms_role = role,
         ms_created_at = mr_created_at r\<rparr>)"

definition ledger_to_row :: "pg_env \<Rightarrow> ledger \<Rightarrow> ledger_row" where
  "ledger_to_row pe l =
     \<lparr>lr_id = lg_id l, lr_name = lg_name l, lr_kind = ledger_kind_to_db (lg_kind l), lr_owner_user = owner_user_id l,
      lr_organization = organization_id l, lr_created_at = pe_time pe (lg_created_at l),
      lr_deleted_at = map_option (pe_time pe) (lg_deleted_at l)\<rparr>"

definition ledger_from_row :: "ledger_row \<Rightarrow> (ledger, pg_error) result" where
  "ledger_from_row r =
     attempt_pure (ledger_kind_from_db (lr_kind r)) id (\<lambda>kind.
     Ok \<lparr>lg_id = lr_id r, lg_name = lr_name r, lg_kind = kind, owner_user_id = lr_owner_user r,
         organization_id = lr_organization r, lg_created_at = lr_created_at r, lg_deleted_at = lr_deleted_at r\<rparr>)"

definition account_to_row :: "pg_env \<Rightarrow> financial_account \<Rightarrow> account_row" where
  "account_to_row pe a =
     \<lparr>ar_id = fa_id a, ar_ledger = fa_ledger a, ar_name = fa_name a, ar_kind = financial_account_kind_to_db (fa_kind a),
      ar_opening_balance_minor = amount_minor (opening_balance a), ar_currency = currency (opening_balance a),
      ar_created_at = pe_time pe (fa_created_at a), ar_deleted_at = map_option (pe_time pe) (fa_deleted_at a)\<rparr>"

definition money_from_row :: "env \<Rightarrow> i64 \<Rightarrow> string \<Rightarrow> (money, pg_error) result" where
  "money_from_row env n cur = attempt_pure (money_new (to_uppercase env) n cur) PgMoney Ok"

definition account_from_row :: "env \<Rightarrow> account_row \<Rightarrow> (financial_account, pg_error) result" where
  "account_from_row env r =
     attempt_pure (financial_account_kind_from_db (ar_kind r)) id (\<lambda>kind.
     attempt_pure (money_from_row env (ar_opening_balance_minor r) (ar_currency r)) id (\<lambda>opening.
     Ok \<lparr>fa_id = ar_id r, fa_ledger = ar_ledger r, fa_name = ar_name r, fa_kind = kind, opening_balance = opening,
         fa_created_at = ar_created_at r, fa_deleted_at = ar_deleted_at r\<rparr>))"

definition category_to_row :: "category \<Rightarrow> category_row" where
  "category_to_row c =
     \<lparr>ctr_id = cat_id c, ctr_ledger = cat_ledger c, ctr_name = cat_name c, ctr_kind = category_kind_to_db (cat_kind c)\<rparr>"

definition category_from_row :: "category_row \<Rightarrow> (category, pg_error) result" where
  "category_from_row r =
     attempt_pure (category_kind_from_db (ctr_kind r)) id (\<lambda>kind.
     Ok \<lparr>cat_id = ctr_id r, cat_ledger = ctr_ledger r, cat_name = ctr_name r, cat_kind = kind\<rparr>)"

definition transaction_to_row :: "pg_env \<Rightarrow> transaction \<Rightarrow> transaction_row" where
  "transaction_to_row pe t =
     \<lparr>tr_id = tx_id t, tr_client_mutation = client_mutation_id t, tr_ledger = tx_ledger t, tr_account = tx_account t,
      tr_category = tx_category t, tr_kind = transaction_kind_to_db (tx_kind t),
      tr_amount_minor = amount_minor (tx_amount t), tr_currency = currency (tx_amount t),
      tr_occurred_at = pe_time pe (occurred_at t), tr_description = tx_description t,
      tr_approval_state = approval_state_to_db (approval_state t), tr_payment_state = payment_state_to_db (payment_state t),
      tr_created_by = tx_created_by t, tr_submitted_by = submitted_by t, tr_approved_by = approved_by t,
      tr_approved_at = map_option (pe_time pe) (approved_at t), tr_paid_by = paid_by t,
      tr_paid_at = map_option (pe_time pe) (paid_at t), tr_received_by = received_by t,
      tr_received_at = map_option (pe_time pe) (received_at t), tr_version = tx_version t,
      tr_created_at = pe_time pe (tx_created_at t), tr_updated_at = pe_time pe (tx_updated_at t),
      tr_deleted_at = map_option (pe_time pe) (tx_deleted_at t)\<rparr>"

definition transaction_from_row :: "env \<Rightarrow> transaction_row \<Rightarrow> (transaction, pg_error) result" where
  "transaction_from_row env r =
     attempt_pure (transaction_kind_from_db (tr_kind r)) id (\<lambda>kind.
     attempt_pure (money_from_row env (tr_amount_minor r) (tr_currency r)) id (\<lambda>amount.
     attempt_pure (approval_state_from_db (tr_approval_state r)) id (\<lambda>approval.
     attempt_pure (payment_state_from_db (tr_payment_state r)) id (\<lambda>payment.
     Ok \<lparr>tx_id = tr_id r, client_mutation_id = tr_client_mutation r, tx_ledger = tr_ledger r, tx_account = tr_account r,
         tx_category = tr_category r, tx_kind = kind, tx_amount = amount, occurred_at = tr_occurred_at r,
         tx_description = tr_description r, approval_state = approval, payment_state = payment,
         tx_created_by = tr_created_by r, submitted_by = tr_submitted_by r, approved_by = tr_approved_by r,
         approved_at = tr_approved_at r, paid_by = tr_paid_by r, paid_at = tr_paid_at r, received_by = tr_received_by r,
         received_at = tr_received_at r, tx_version = tr_version r, tx_created_at = tr_created_at r,
         tx_updated_at = tr_updated_at r, tx_deleted_at = tr_deleted_at r\<rparr>))))"

definition metadata_to_row :: "app_ledger_snapshot \<Rightarrow> metadata_row" where
  "metadata_to_row n =
     \<lparr>md_schema_version = of_nat (sn_schema_version n),
      md_current_user = (if sn_current_user_id n = nil_uuid then None else Some (sn_current_user_id n))\<rparr>"

definition auth_user_to_row :: "pg_env \<Rightarrow> stored_user \<Rightarrow> auth_user_row" where
  "auth_user_to_row pe u =
     \<lparr>aur_id = su_id u, aur_display_name = su_display_name u, aur_email = su_email u, aur_phone = su_phone u,
      aur_password_hash = su_password_hash u, aur_account_kind = account_kind_to_db (su_account_kind u),
      aur_organization = su_organization u, aur_created_at = pe_time pe (su_created_at u),
      aur_updated_at = pe_time pe (su_updated_at u)\<rparr>"

definition auth_user_from_row :: "auth_user_row \<Rightarrow> (stored_user, pg_error) result" where
  "auth_user_from_row r =
     attempt_pure (account_kind_from_db (aur_account_kind r)) id (\<lambda>kind.
     Ok \<lparr>su_id = aur_id r, su_display_name = aur_display_name r, su_email = aur_email r, su_phone = aur_phone r,
         su_password_hash = aur_password_hash r, su_account_kind = kind, su_organization = aur_organization r,
         su_created_at = aur_created_at r, su_updated_at = aur_updated_at r\<rparr>)"

definition session_to_row :: "pg_env \<Rightarrow> stored_session \<Rightarrow> (session_row, pg_error) result" where
  "session_to_row pe x =
     attempt_pure (ok_or (pe_unhex pe (ss_access_token x)) PgHex) id (\<lambda>access.
     attempt_pure (if ss_refresh_token x = [] then Ok None
       else attempt_pure (ok_or (pe_unhex pe (ss_refresh_token x)) PgHex) id (\<lambda>h. Ok (Some h))) id (\<lambda>refresh.
     Ok \<lparr>ser_id = ss_id x, ser_family = ss_family x, ser_user = ss_user x,
         ser_installation = (if ss_installation x = [] then None else Some (ss_installation x)),
         ser_access_hash = access, ser_refresh_hash = refresh, ser_client_kind = session_kind_to_db (ss_kind x),
         ser_access_expires_at = pe_time pe (ss_access_expires_at x),
         ser_refresh_expires_at = map_option (pe_time pe) (ss_refresh_expires_at x),
         ser_created_at = pe_time pe (ss_created_at x), ser_rotated_at = map_option (pe_time pe) (ss_rotated_at x),
         ser_revoked_at = map_option (pe_time pe) (ss_revoked_at x)\<rparr>))"

definition session_from_row :: "pg_env \<Rightarrow> session_row \<Rightarrow> (stored_session, pg_error) result" where
  "session_from_row pe r =
     attempt_pure (session_kind_from_db (ser_client_kind r)) id (\<lambda>kind.
     Ok \<lparr>ss_id = ser_id r, ss_family = ser_family r, ss_user = ser_user r,
         ss_installation = (case ser_installation r of Some i \<Rightarrow> i | None \<Rightarrow> []),
         ss_access_token = ad_hex (pe_audit pe) (ser_access_hash r),
         ss_refresh_token = (case ser_refresh_hash r of Some h \<Rightarrow> ad_hex (pe_audit pe) h | None \<Rightarrow> []),
         ss_kind = kind, ss_created_at = ser_created_at r, ss_access_expires_at = ser_access_expires_at r,
         ss_refresh_expires_at = ser_refresh_expires_at r, ss_rotated_at = ser_rotated_at r,
         ss_revoked_at = ser_revoked_at r\<rparr>)"

end
