(* ===== verification/Postgres.thy ===== *)
theory Postgres
  imports PostgresRows "HOL-Library.AList"
begin

text \<open>
  The storage of the server in PostgreSQL (\<open>storage/postgres.rs\<close>): its statements, each of which may fail for reasons outside
  (the connection, the limits of the server), the transactions they form, and loading. A statement that fails ends its
  transaction, and the tables are as they were before it; only the answer to a commit can be lost after the commit.
\<close>

datatype pg_fault = Undisturbed | Refused | AnswerLost

record pg_database =
  db_tables :: pg_tables
  db_faults :: "nat \<Rightarrow> pg_fault"

section \<open>Statements\<close>

definition next_fault :: "pg_database \<Rightarrow> pg_fault \<times> pg_database" where
  "next_fault db = (db_faults db 0, db\<lparr>db_faults := \<lambda>n. db_faults db (Suc n)\<rparr>)"

definition statement ::
  "(pg_tables \<Rightarrow> (pg_tables, pg_error) result) \<Rightarrow> pg_database \<Rightarrow> (unit, pg_error) result \<times> pg_database" where
  "statement effect db =
     (let (fault, db) = next_fault db in
      if fault \<noteq> Undisturbed then (Err PgConnection, db)
      else attempt (effect (db_tables db)) id db (\<lambda>t. (Ok (), db\<lparr>db_tables := t\<rparr>)))"

definition query :: "(pg_tables \<Rightarrow> ('a, pg_error) result) \<Rightarrow> pg_database \<Rightarrow> ('a, pg_error) result \<times> pg_database" where
  "query f db = perform (statement Ok db) id (\<lambda>_ db. (f (db_tables db), db))"

text \<open>A loop with one statement for each element.\<close>

fun each ::
  "('a \<Rightarrow> pg_tables \<Rightarrow> (pg_tables, pg_error) result) \<Rightarrow> 'a list \<Rightarrow> pg_database \<Rightarrow> (unit, pg_error) result \<times> pg_database" where
  "each f [] db = (Ok (), db)"
| "each f (x # xs) db = perform (statement (f x) db) id (\<lambda>_. each f xs)"

text \<open>A foreign key that may be null, and those that are checked when the transaction commits.\<close>

definition present :: "'k option \<Rightarrow> 'k set \<Rightarrow> bool" where
  "present k ks \<longleftrightarrow> (case k of None \<Rightarrow> True | Some x \<Rightarrow> x \<in> ks)"

definition deferred_keys :: "pg_tables \<Rightarrow> bool" where
  "deferred_keys t \<longleftrightarrow>
     (\<forall>u \<in> set (pt_auth_users t). present (aur_organization u) (org_id ` set (pt_organizations t)))
   \<and> (\<forall>a \<in> set (pt_legacy t). present (al_organization a) (org_id ` set (pt_organizations t)))"

text \<open>Whether the transaction is stored, and what the program is told.\<close>

definition commit :: "pg_database \<Rightarrow> bool \<times> (unit, pg_error) result \<times> pg_database" where
  "commit db =
     (let (fault, db) = next_fault db; valid = deferred_keys (db_tables db)
      in (valid \<and> fault \<noteq> Refused,
          if valid \<and> fault = Undisturbed then Ok ()
          else if fault = Undisturbed then Err (PgViolation ''organization_id'') else Err PgConnection, db))"

definition pg_transaction ::
  "(pg_database \<Rightarrow> (unit, pg_error) result \<times> pg_database) \<Rightarrow> pg_database \<Rightarrow> (unit, pg_error) result \<times> pg_database" where
  "pg_transaction body db =
     (let before = db_tables db; (r, db) = perform (statement Ok db) id (\<lambda>_ db. body db)
      in if \<not> is_ok r then (r, db\<lparr>db_tables := before\<rparr>)
      else let (stored, r, db) = commit db in (r, if stored then db else db\<lparr>db_tables := before\<rparr>))"

section \<open>The constraints\<close>

text \<open>
  As the migrations leave them: the tables are of \<open>0001_initial.sql\<close>; \<open>0002\<close> replaces the roles of a membership and adds the
  payment of a transaction, \<open>0003\<close> replaces the kinds of an account and adds the categories, \<open>0004\<close> the sessions, \<open>0005\<close> the unique
  index on the mutation of a client.
\<close>

definition fresh_key :: "('a \<Rightarrow> 'k) \<Rightarrow> 'a \<Rightarrow> 'a list \<Rightarrow> bool" where
  "fresh_key f r rows \<longleftrightarrow> f r \<notin> f ` set rows"

text \<open>A unique column that may be null.\<close>

definition fresh_value :: "('a \<Rightarrow> 'k option) \<Rightarrow> 'a \<Rightarrow> 'a list \<Rightarrow> bool" where
  "fresh_value f r rows \<longleftrightarrow> f r = None \<or> f r \<notin> f ` set rows"

definition currency_check :: "pg_env \<Rightarrow> string \<Rightarrow> bool" where
  "currency_check pe c \<longleftrightarrow> chars_count c = 3 \<and> c = pe_upper pe c"

definition btrim :: "string \<Rightarrow> string" where
  "btrim s = rev (dropWhile (\<lambda>c. c = CHR '' '') (rev (dropWhile (\<lambda>c. c = CHR '' '') s)))"

definition user_fits :: "user \<Rightarrow> pg_tables \<Rightarrow> bool" where
  "user_fits r t \<longleftrightarrow> fresh_key usr_id r (pt_users t) \<and> fresh_value email r (pt_users t) \<and> fresh_value phone r (pt_users t)"

definition organization_fits :: "organization \<Rightarrow> pg_tables \<Rightarrow> bool" where
  "organization_fits r t \<longleftrightarrow> fresh_key org_id r (pt_organizations t) \<and> org_created_by r \<in> usr_id ` set (pt_users t)"

definition membership_fits :: "membership_row \<Rightarrow> pg_tables \<Rightarrow> bool" where
  "membership_fits r t \<longleftrightarrow>
     fresh_key mr_id r (pt_memberships t) \<and> fresh_key (\<lambda>r. (mr_organization r, mr_user r)) r (pt_memberships t)
   \<and> mr_role r \<in> {''owner'', ''admin'', ''business_owner'', ''employee''}
   \<and> mr_organization r \<in> org_id ` set (pt_organizations t) \<and> mr_user r \<in> usr_id ` set (pt_users t)"

definition ledger_fits :: "ledger_row \<Rightarrow> pg_tables \<Rightarrow> bool" where
  "ledger_fits r t \<longleftrightarrow>
     fresh_key lr_id r (pt_ledgers t)
   \<and> (lr_kind r = ''personal'' \<and> lr_owner_user r \<noteq> None \<and> lr_organization r = None
      \<or> lr_kind r = ''organization_public'' \<and> lr_owner_user r = None \<and> lr_organization r \<noteq> None)
   \<and> present (lr_owner_user r) (usr_id ` set (pt_users t)) \<and> present (lr_organization r) (org_id ` set (pt_organizations t))"

definition account_fits :: "pg_env \<Rightarrow> account_row \<Rightarrow> pg_tables \<Rightarrow> bool" where
  "account_fits pe r t \<longleftrightarrow>
     fresh_key ar_id r (pt_accounts t) \<and> ar_ledger r \<in> lr_id ` set (pt_ledgers t)
   \<and> ar_kind r \<in> {''cash'', ''bank'', ''wallet'', ''wechat'', ''alipay'', ''credit'', ''receivable'', ''payable''}
   \<and> currency_check pe (ar_currency r)"

definition category_fits :: "pg_env \<Rightarrow> category_row \<Rightarrow> pg_tables \<Rightarrow> bool" where
  "category_fits pe r t \<longleftrightarrow>
     fresh_key ctr_id r (pt_categories t) \<and> ctr_ledger r \<in> lr_id ` set (pt_ledgers t)
   \<and> fresh_key (\<lambda>r. (ctr_ledger r, ctr_kind r, pe_lower pe (ctr_name r))) r (pt_categories t)
   \<and> ctr_kind r \<in> {''income'', ''expense''} \<and> 1 \<le> chars_count (btrim (ctr_name r)) \<and> chars_count (btrim (ctr_name r)) \<le> 24"

definition payment_check :: "transaction_row \<Rightarrow> bool" where
  "payment_check r \<longleftrightarrow>
     tr_payment_state r \<in> {''not_applicable'', ''pending_payment''}
       \<and> tr_paid_by r = None \<and> tr_paid_at r = None \<and> tr_received_by r = None \<and> tr_received_at r = None
   \<or> tr_payment_state r = ''paid_pending_receipt''
       \<and> tr_paid_by r \<noteq> None \<and> tr_paid_at r \<noteq> None \<and> tr_received_by r = None \<and> tr_received_at r = None
   \<or> tr_payment_state r = ''received'' \<and> tr_received_by r \<noteq> None \<and> tr_received_at r \<noteq> None"

definition transaction_fits :: "pg_env \<Rightarrow> transaction_row \<Rightarrow> pg_tables \<Rightarrow> bool" where
  "transaction_fits pe r t \<longleftrightarrow>
     fresh_key tr_id r (pt_transactions t)
   \<and> fresh_value (\<lambda>r. map_option (\<lambda>m. (tr_ledger r, tr_created_by r, m)) (tr_client_mutation r)) r (pt_transactions t)
   \<and> tr_ledger r \<in> lr_id ` set (pt_ledgers t) \<and> tr_account r \<in> ar_id ` set (pt_accounts t)
   \<and> present (tr_category r) (ctr_id ` set (pt_categories t))
   \<and> tr_kind r \<in> {''income'', ''expense'', ''transfer''} \<and> (tr_kind r = ''transfer'' \<or> tr_category r \<noteq> None)
   \<and> tr_approval_state r \<in> {''draft'', ''submitted'', ''approved'', ''rejected'', ''voided''}
   \<and> currency_check pe (tr_currency r) \<and> 0 < sint (tr_version r) \<and> payment_check r
   \<and> (\<forall>u \<in> {Some (tr_created_by r), tr_submitted_by r, tr_approved_by r, tr_paid_by r, tr_received_by r}.
        present u (usr_id ` set (pt_users t)))"

definition auth_user_fits :: "auth_user_row \<Rightarrow> auth_user_row list \<Rightarrow> bool" where
  "auth_user_fits r others \<longleftrightarrow>
     fresh_value aur_email r others \<and> fresh_value aur_phone r others
   \<and> (aur_account_kind r = ''business'' \<and> aur_organization r = None
      \<or> aur_account_kind r = ''organization_admin'' \<and> aur_organization r \<noteq> None)"

definition session_fits :: "session_row \<Rightarrow> pg_tables \<Rightarrow> bool" where
  "session_fits r t \<longleftrightarrow>
     fresh_key ser_access_hash r (pt_sessions t) \<and> fresh_value ser_refresh_hash r (pt_sessions t)
   \<and> (ser_client_kind r = ''admin'' \<and> ser_refresh_hash r = None \<and> ser_refresh_expires_at r = None
      \<or> ser_client_kind r \<in> {''tauri'', ''web''} \<and> ser_refresh_hash r \<noteq> None \<and> ser_refresh_expires_at r \<noteq> None)
   \<and> ser_user r \<in> aur_id ` set (pt_auth_users t)"

definition insert_if :: "bool \<Rightarrow> string \<Rightarrow> pg_tables \<Rightarrow> (pg_tables, pg_error) result" where
  "insert_if fits table t = (if fits then Ok t else Err (PgViolation table))"

section \<open>Saving the ledger\<close>

text \<open>
  The eight deletions in one statement. The old audit log refers to the ledgers and to the users it names, with
  \<open>ON DELETE RESTRICT\<close>; what else refers to the rows has been deleted before them.
\<close>

definition delete_ledger_rows :: "pg_tables \<Rightarrow> (pg_tables, pg_error) result" where
  "delete_ledger_rows t =
     (if \<exists>a \<in> set (pt_legacy t). al_ledger a \<in> lr_id ` set (pt_ledgers t) then Err (PgRestricted ''ledgers'')
      else if \<exists>a \<in> set (pt_legacy t). al_actor a \<in> usr_id ` set (pt_users t) then Err (PgRestricted ''domain_users'')
      else Ok (t\<lparr>pt_transactions := [], pt_categories := [], pt_accounts := [], pt_ledgers := [], pt_memberships := [],
             pt_organizations := [], pt_users := [], pt_metadata := []\<rparr>))"

definition insert_user :: "pg_env \<Rightarrow> user \<Rightarrow> pg_tables \<Rightarrow> (pg_tables, pg_error) result" where
  "insert_user pe u t =
     (let r = user_kept pe u in insert_if (user_fits r t) ''domain_users'' (t\<lparr>pt_users := pt_users t @ [r]\<rparr>))"

definition insert_organization :: "pg_env \<Rightarrow> organization \<Rightarrow> pg_tables \<Rightarrow> (pg_tables, pg_error) result" where
  "insert_organization pe g t =
     (let r = organization_kept pe g
      in insert_if (organization_fits r t) ''organizations'' (t\<lparr>pt_organizations := pt_organizations t @ [r]\<rparr>))"

definition insert_membership :: "pg_env \<Rightarrow> membership \<Rightarrow> pg_tables \<Rightarrow> (pg_tables, pg_error) result" where
  "insert_membership pe m t =
     (let r = membership_to_row pe m
      in insert_if (membership_fits r t) ''organization_memberships'' (t\<lparr>pt_memberships := pt_memberships t @ [r]\<rparr>))"

definition insert_ledger :: "pg_env \<Rightarrow> ledger \<Rightarrow> pg_tables \<Rightarrow> (pg_tables, pg_error) result" where
  "insert_ledger pe l t =
     (let r = ledger_to_row pe l in insert_if (ledger_fits r t) ''ledgers'' (t\<lparr>pt_ledgers := pt_ledgers t @ [r]\<rparr>))"

definition insert_account :: "pg_env \<Rightarrow> financial_account \<Rightarrow> pg_tables \<Rightarrow> (pg_tables, pg_error) result" where
  "insert_account pe a t =
     (let r = account_to_row pe a
      in insert_if (account_fits pe r t) ''financial_accounts'' (t\<lparr>pt_accounts := pt_accounts t @ [r]\<rparr>))"

definition insert_category :: "pg_env \<Rightarrow> category \<Rightarrow> pg_tables \<Rightarrow> (pg_tables, pg_error) result" where
  "insert_category pe c t =
     (let r = category_to_row c
      in insert_if (category_fits pe r t) ''categories'' (t\<lparr>pt_categories := pt_categories t @ [r]\<rparr>))"

definition insert_transaction :: "pg_env \<Rightarrow> transaction \<Rightarrow> pg_tables \<Rightarrow> (pg_tables, pg_error) result" where
  "insert_transaction pe x t =
     (let r = transaction_to_row pe x
      in insert_if (transaction_fits pe r t) ''transactions'' (t\<lparr>pt_transactions := pt_transactions t @ [r]\<rparr>))"

definition insert_metadata :: "app_ledger_snapshot \<Rightarrow> pg_tables \<Rightarrow> (pg_tables, pg_error) result" where
  "insert_metadata n t = insert_if (pt_metadata t = []) ''app_metadata'' (t\<lparr>pt_metadata := [metadata_to_row n]\<rparr>)"

definition replace_ledger ::
  "pg_env \<Rightarrow> app_ledger_snapshot \<Rightarrow> pg_database \<Rightarrow> (unit, pg_error) result \<times> pg_database" where
  "replace_ledger pe n db =
     perform (statement delete_ledger_rows db) id (\<lambda>_ db.
     perform (each (insert_user pe) (sn_users n) db) id (\<lambda>_ db.
     perform (each (insert_organization pe) (sn_organizations n) db) id (\<lambda>_ db.
     perform (each (insert_membership pe) (sn_memberships n) db) id (\<lambda>_ db.
     perform (each (insert_ledger pe) (sn_ledgers n) db) id (\<lambda>_ db.
     perform (each (insert_account pe) (sn_accounts n) db) id (\<lambda>_ db.
     perform (each (insert_category pe) (sn_categories n) db) id (\<lambda>_ db.
     perform (each (insert_transaction pe) (sn_transactions n) db) id (\<lambda>_ db.
     statement (insert_metadata n) db))))))))"

text \<open>The statements of \<open>append_domain_logs\<close> are one here: wherever one of them fails, the transaction is rolled back.\<close>

definition append_audits :: "pg_env \<Rightarrow> audit_log list \<Rightarrow> pg_database \<Rightarrow> (unit, pg_error) result \<times> pg_database" where
  "append_audits pe audits =
     statement (\<lambda>t. let (r, rows) = append_domain_logs (pe_audit pe) (pe_signer pe) audits (pt_audit t)
       in attempt_pure r PgAudit (\<lambda>_. Ok (t\<lparr>pt_audit := rows\<rparr>)))"

definition pg_save_ledger ::
  "pg_env \<Rightarrow> app_ledger_snapshot \<Rightarrow> pg_database \<Rightarrow> (unit, pg_error) result \<times> pg_database" where
  "pg_save_ledger pe n =
     pg_transaction (\<lambda>db. perform (replace_ledger pe n db) id (\<lambda>_ db. append_audits pe (sn_audit_logs n) db))"

section \<open>Saving the accounts\<close>

definition session_row_end :: "session_row \<Rightarrow> instant" where
  "session_row_end r = (case ser_refresh_expires_at r of Some t \<Rightarrow> t | None \<Rightarrow> ser_access_expires_at r)"

definition delete_expired :: "instant \<Rightarrow> pg_tables \<Rightarrow> (pg_tables, pg_error) result" where
  "delete_expired now t = Ok (t\<lparr>pt_sessions := filter (\<lambda>r. \<not> session_row_end r \<le> now) (pt_sessions t)\<rparr>)"

text \<open>An account that is there is replaced only when the new one was changed later; the creation time stays.\<close>

definition upsert_auth_user :: "pg_env \<Rightarrow> stored_user \<Rightarrow> pg_tables \<Rightarrow> (pg_tables, pg_error) result" where
  "upsert_auth_user pe u t =
     (let r = auth_user_to_row pe u in
      case List.find (\<lambda>q. aur_id q = aur_id r) (pt_auth_users t) of
        None \<Rightarrow> insert_if (auth_user_fits r (pt_auth_users t)) ''auth_users'' (t\<lparr>pt_auth_users := pt_auth_users t @ [r]\<rparr>)
      | Some q \<Rightarrow>
          if aur_updated_at q < aur_updated_at r
          then insert_if (auth_user_fits r (filter (\<lambda>q. aur_id q \<noteq> aur_id r) (pt_auth_users t))) ''auth_users''
            (t\<lparr>pt_auth_users := map (\<lambda>q. if aur_id q = aur_id r \<and> aur_updated_at q < aur_updated_at r then r\<lparr>aur_created_at := aur_created_at q\<rparr> else q)
                (pt_auth_users t)\<rparr>)
          else insert_if (aur_account_kind r = ''business'' \<and> aur_organization r = None
              \<or> aur_account_kind r = ''organization_admin'' \<and> aur_organization r \<noteq> None) ''auth_users'' t)"

definition upsert_installation :: "string \<times> uuid \<Rightarrow> pg_tables \<Rightarrow> (pg_tables, pg_error) result" where
  "upsert_installation iu t =
     insert_if (snd iu \<in> aur_id ` set (pt_auth_users t)) ''auth_installations''
       (t\<lparr>pt_installations := AList.update (fst iu) (snd iu) (pt_installations t)\<rparr>)"

definition delete_installations :: "string list \<Rightarrow> pg_tables \<Rightarrow> (pg_tables, pg_error) result" where
  "delete_installations kept t = Ok (t\<lparr>pt_installations := filter (\<lambda>iu. fst iu \<in> set kept) (pt_installations t)\<rparr>)"

definition coalesce :: "'a option \<Rightarrow> 'a option \<Rightarrow> 'a option" where
  "coalesce x y = (case x of None \<Rightarrow> y | Some _ \<Rightarrow> x)"

text \<open>Of a session that is there only the two marks are taken over, and only where there is none.\<close>

definition upsert_session :: "pg_env \<Rightarrow> stored_session \<Rightarrow> pg_tables \<Rightarrow> (pg_tables, pg_error) result" where
  "upsert_session pe x t =
     attempt_pure (session_to_row pe x) id (\<lambda>r.
     if ser_id r \<in> ser_id ` set (pt_sessions t)
     then insert_if (ser_client_kind r = ''admin'' \<and> ser_refresh_hash r = None \<and> ser_refresh_expires_at r = None
          \<or> ser_client_kind r \<in> {''tauri'', ''web''} \<and> ser_refresh_hash r \<noteq> None \<and> ser_refresh_expires_at r \<noteq> None)
        ''auth_sessions''
        (t\<lparr>pt_sessions := map (\<lambda>q. if ser_id q = ser_id r
            then q\<lparr>ser_rotated_at := coalesce (ser_rotated_at q) (ser_rotated_at r),
                   ser_revoked_at := coalesce (ser_revoked_at q) (ser_revoked_at r)\<rparr> else q) (pt_sessions t)\<rparr>)
     else insert_if (session_fits r t) ''auth_sessions'' (t\<lparr>pt_sessions := pt_sessions t @ [r]\<rparr>))"

text \<open>\<open>now\<close> is \<open>CURRENT_TIMESTAMP\<close>, the time of the database at the start of the transaction.\<close>

definition replace_auth_rows ::
  "pg_env \<Rightarrow> instant \<Rightarrow> auth_snapshot \<Rightarrow> pg_database \<Rightarrow> (unit, pg_error) result \<times> pg_database" where
  "replace_auth_rows pe now n db =
     perform (statement (delete_expired now) db) id (\<lambda>_ db.
     perform (each (upsert_auth_user pe) (asn_users n) db) id (\<lambda>_ db.
     perform (each upsert_installation (asn_installations n) db) id (\<lambda>_ db.
     perform (statement (delete_installations (map fst (asn_installations n))) db) id (\<lambda>_ db.
     each (upsert_session pe) (asn_sessions n) db))))"

definition pg_save_auth ::
  "pg_env \<Rightarrow> instant \<Rightarrow> auth_snapshot \<Rightarrow> pg_database \<Rightarrow> (unit, pg_error) result \<times> pg_database" where
  "pg_save_auth pe now n = pg_transaction (replace_auth_rows pe now n)"

definition pg_save_all ::
  "pg_env \<Rightarrow> instant \<Rightarrow> app_ledger_snapshot \<Rightarrow> auth_snapshot \<Rightarrow> pg_database \<Rightarrow> (unit, pg_error) result \<times> pg_database" where
  "pg_save_all pe now n m =
     pg_transaction (\<lambda>db. perform (replace_ledger pe n db) id (\<lambda>_ db.
       perform (append_audits pe (sn_audit_logs n) db) id (\<lambda>_ db. replace_auth_rows pe now m db)))"

definition pg_append_security_event ::
  "pg_env \<Rightarrow> security_audit_event \<Rightarrow> pg_database \<times> world \<Rightarrow> (unit, pg_error) result \<times> (pg_database \<times> world)" where
  "pg_append_security_event pe e \<sigma> =
     (let (db, w) = \<sigma>; (event, w) = into_append e w;
          (r, db) = pg_transaction (statement (\<lambda>t. let (r, rows) = append_event (pe_audit pe) (pe_signer pe) event (pt_audit t)
            in attempt_pure r PgAudit (\<lambda>_. Ok (t\<lparr>pt_audit := rows\<rparr>)))) db
      in (r, db, w))"

section \<open>Loading\<close>

definition has_state :: "pg_database \<Rightarrow> (bool, pg_error) result \<times> pg_database" where
  "has_state = query (\<lambda>t. Ok (pt_metadata t \<noteq> []))"

definition select_rows ::
  "('r \<Rightarrow> ('a, pg_error) result) \<Rightarrow> ('r \<Rightarrow> 'k::linorder) \<Rightarrow> (pg_tables \<Rightarrow> 'r list) \<Rightarrow> pg_database
     \<Rightarrow> ('a list, pg_error) result \<times> pg_database" where
  "select_rows read key table = query (\<lambda>t. map_result read (sort_key key (table t)))"

text \<open>The last step, \<open>from_snapshot\<close>, is the application's.\<close>

definition load_snapshot :: "pg_env \<Rightarrow> pg_database \<Rightarrow> (app_ledger_snapshot, pg_error) result \<times> pg_database" where
  "load_snapshot pe db =
     (let env = ad_env (pe_audit pe) in
      perform (query (\<lambda>t. case pt_metadata t of [] \<Rightarrow> Err (PgColumn ''app_metadata'') | m # _ \<Rightarrow> Ok m) db) id (\<lambda>m db.
      perform (select_rows Ok usr_id pt_users db) id (\<lambda>us db.
      perform (select_rows Ok org_id pt_organizations db) id (\<lambda>gs db.
      perform (select_rows membership_from_row mr_id pt_memberships db) id (\<lambda>ms db.
      perform (select_rows ledger_from_row lr_id pt_ledgers db) id (\<lambda>ls db.
      perform (select_rows (account_from_row env) ar_id pt_accounts db) id (\<lambda>as db.
      perform (select_rows category_from_row (\<lambda>r. (ctr_ledger r, ctr_kind r, ctr_name r, ctr_id r)) pt_categories db) id (\<lambda>cs db.
      perform (select_rows (transaction_from_row env) tr_id pt_transactions db) id (\<lambda>ts db.
      perform (query (\<lambda>t. attempt_pure (load_audit_logs env (pt_audit t)) PgAudit Ok) db) id (\<lambda>logs db.
      (Ok \<lparr>sn_schema_version = unat (md_schema_version m),
           sn_current_user_id = (case md_current_user m of Some i \<Rightarrow> i | None \<Rightarrow> nil_uuid),
           sn_users = us, sn_organizations = gs, sn_memberships = ms, sn_ledgers = ls, sn_accounts = as,
           sn_categories = cs, sn_transactions = ts, sn_audit_logs = logs\<rparr>, db)))))))))))"

definition load_auth_snapshot :: "pg_env \<Rightarrow> pg_database \<Rightarrow> (auth_snapshot, pg_error) result \<times> pg_database" where
  "load_auth_snapshot pe db =
     perform (select_rows auth_user_from_row aur_id pt_auth_users db) id (\<lambda>us db.
     perform (select_rows Ok fst pt_installations db) id (\<lambda>is db.
     perform (select_rows (session_from_row pe) ser_id pt_sessions db) id (\<lambda>ss db.
     (Ok \<lparr>asn_users = us, asn_installations = is, asn_sessions = ss\<rparr>, db))))"

datatype import_error = ImportDatabase pg_error | ImportLedger app_error | ImportAuth auth_error

type_synonym import_state = "pg_database \<times> disk \<times> auth_world"

definition load_ledger :: "pg_env \<Rightarrow> import_state \<Rightarrow> (app_ledger_service, import_error) result \<times> import_state" where
  "load_ledger pe \<sigma> =
     (let (db, d, v) = \<sigma>; (r, db) = load_snapshot pe db in
      attempt r ImportDatabase (db, d, v) (\<lambda>n.
      let (r, s, w) = from_snapshot (ad_env (pe_audit pe)) n (aw_world v); v = v\<lparr>aw_world := w\<rparr> in
      attempt r ImportLedger (db, d, v) (\<lambda>_. (Ok s, db, d, v))))"

definition load_auth :: "pg_env \<Rightarrow> import_state \<Rightarrow> (auth_service, import_error) result \<times> import_state" where
  "load_auth pe \<sigma> =
     (let (db, d, v) = \<sigma>; (r, db) = load_auth_snapshot pe db in
      attempt r ImportDatabase (db, d, v) (\<lambda>n. let (s, v) = auth_from_snapshot n v in (Ok s, db, d, v)))"

text \<open>A file that the system cannot tell to exist does not: \<open>path_exists\<close> ends with an answer or with the process.\<close>

definition import_exists :: "string \<Rightarrow> import_state \<Rightarrow> (bool, import_error) result \<times> import_state" where
  "import_exists path \<sigma> =
     (let (db, d, v) = \<sigma>; (r, d) = path_exists path d in attempt r (\<lambda>e. ImportLedger (Storage e)) (db, d, v) (\<lambda>b. (Ok b, db, d, v)))"

definition import_ledger ::
  "json_env \<Rightarrow> pg_env \<Rightarrow> string \<Rightarrow> import_state \<Rightarrow> (app_ledger_service, import_error) result \<times> import_state" where
  "import_ledger je pe path \<sigma> =
     (let (db, d, v) = \<sigma>; (r, d, w) = load_from_path je (ad_env (pe_audit pe)) path (d, aw_world v); v = v\<lparr>aw_world := w\<rparr>
      in attempt r ImportLedger (db, d, v) (\<lambda>s. (Ok s, db, d, v)))"

definition load_or_import ::
  "json_env \<Rightarrow> pg_env \<Rightarrow> instant \<Rightarrow> string \<Rightarrow> string \<Rightarrow> import_state
     \<Rightarrow> (app_ledger_service \<times> auth_service \<times> bool, import_error) result \<times> import_state" where
  "load_or_import je pe now ledger_path auth_path \<sigma> =
     (let (db, d, v) = \<sigma>; (r, db) = has_state db in
      attempt r ImportDatabase (db, d, v) (\<lambda>found.
      if found then
        perform (load_ledger pe (db, d, v)) id (\<lambda>s \<sigma>. perform (load_auth pe \<sigma>) id (\<lambda>a \<sigma>. (Ok (s, a, False), \<sigma>)))
      else
        perform (import_exists ledger_path (db, d, v)) id (\<lambda>ledger_file \<sigma>.
        perform (if ledger_file then (Ok True, \<sigma>) else import_exists auth_path \<sigma>) id (\<lambda>imported \<sigma>.
        perform (import_exists ledger_path \<sigma>) id (\<lambda>ledger_file \<sigma>.
        perform (if ledger_file then import_ledger je pe ledger_path \<sigma> else (Ok uninitialized, \<sigma>)) id (\<lambda>s \<sigma>.
        let (db, d, v) = \<sigma>; (r, d, v) = load_or_default je auth_path (d, v) in
        attempt r ImportAuth (db, d, v) (\<lambda>a.
        let (r, db) = pg_save_all pe now (snapshot s) (auth_snapshot_of a) db in
        attempt r ImportDatabase (db, d, v) (\<lambda>_. (Ok (s, a, imported), db, d, v)))))))))"

end
