(* ===== verification/PostgresProperties.thy ===== *)
theory PostgresProperties
  imports Postgres AuditProperties
begin

text \<open>
  What the database keeps, whoever saves to it: the rules that carry a predicate of the tables through the statements of
  a transaction, the database as a machine of saves by any number of instances with whatever snapshots they hold, and
  the round trip of the ledger.
\<close>

section \<open>Predicates that statements keep\<close>

definition keeps :: "(pg_tables \<Rightarrow> bool) \<Rightarrow> (pg_database \<Rightarrow> (unit, pg_error) result \<times> pg_database) \<Rightarrow> bool" where
  "keeps P body \<longleftrightarrow> (\<forall>db r db'. P (db_tables db) \<longrightarrow> body db = (r, db') \<longrightarrow> P (db_tables db'))"

definition effect_keeps :: "(pg_tables \<Rightarrow> bool) \<Rightarrow> (pg_tables \<Rightarrow> (pg_tables, pg_error) result) \<Rightarrow> bool" where
  "effect_keeps P f \<longleftrightarrow> (\<forall>t t'. P t \<longrightarrow> f t = Ok t' \<longrightarrow> P t')"

lemma statement_cases:
  assumes "statement f db = (r, db')"
  shows "(r = Ok () \<and> f (db_tables db) = Ok (db_tables db')) \<or> (\<not> is_ok r \<and> db_tables db' = db_tables db)"
  using assms by (cases "f (db_tables db)") (auto simp: statement_def next_fault_def split: if_splits)

lemma keeps_statement [intro]: "effect_keeps P f \<Longrightarrow> keeps P (statement f)"
  unfolding keeps_def effect_keeps_def using statement_cases by metis

lemma keeps_perform [intro]:
  assumes "keeps P f" "keeps P g"
  shows "keeps P (\<lambda>db. perform (f db) id (\<lambda>_. g))"
  unfolding keeps_def
proof (intro allI impI)
  fix db r db' assume P: "P (db_tables db)" and whole: "perform (f db) id (\<lambda>_. g) = (r, db')"
  obtain q e where first: "f db = (q, e)" by fastforce
  with P assms(1) have e: "P (db_tables e)" unfolding keeps_def by blast
  from whole first have "db' = e \<or> g e = (r, db')" by (cases q) auto
  with e assms(2) show "P (db_tables db')" unfolding keeps_def by blast
qed

lemma keeps_each [intro]:
  assumes "\<And>x. effect_keeps P (f x)"
  shows "keeps P (each f xs)"
proof (induction xs)
  case (Cons x xs)
  have "each f (x # xs) = (\<lambda>db. perform (statement (f x) db) id (\<lambda>_. each f xs))" by (rule ext) simp
  with keeps_perform [OF keeps_statement [OF assms, of x] Cons] show ?case by simp
qed (simp add: keeps_def)

lemma commit_cases:
  assumes "commit db = (b, r, db')"
  shows "db_tables db' = db_tables db \<and> (is_ok r \<longrightarrow> b) \<and> (b \<longrightarrow> deferred_keys (db_tables db))"
  using assms by (cases "db_faults db 0") (auto simp: commit_def next_fault_def Let_def split: if_splits)

text \<open>A transaction is stored completely, which a success implies, or not at all.\<close>

lemma transaction_cases:
  assumes "pg_transaction body db = (r, db')"
  shows "db_tables db' = db_tables db \<and> \<not> is_ok r
    \<or> (\<exists>db1 db2. db_tables db1 = db_tables db \<and> body db1 = (Ok (), db2) \<and> db_tables db' = db_tables db2
         \<and> deferred_keys (db_tables db2))"
proof -
  obtain q db1 where begins: "statement Ok db = (q, db1)" by fastforce
  obtain r1 db2 where runs: "body db1 = (r1, db2)" by fastforce
  obtain b r3 db3 where ends: "commit db2 = (b, r3, db3)" by (metis prod.collapse)
  from statement_cases [OF begins] have "db_tables db1 = db_tables db" by auto
  with assms begins runs ends commit_cases [OF ends] show ?thesis
    by (cases q; cases r1; cases b) (auto simp: pg_transaction_def)
qed

lemma keeps_transaction [intro]: "keeps P body \<Longrightarrow> keeps P (pg_transaction body)"
  unfolding keeps_def using transaction_cases by metis

section \<open>The database as a machine\<close>

text \<open>The saves of any number of instances, with whatever snapshots they hold, at the times of the database.\<close>

datatype pg_command =
    SaveLedger app_ledger_snapshot
  | SaveAuth instant auth_snapshot
  | SaveAll instant app_ledger_snapshot auth_snapshot
  | AppendEvent security_audit_event world

fun pg_run :: "pg_env \<Rightarrow> pg_command \<Rightarrow> pg_database \<Rightarrow> (unit, pg_error) result \<times> pg_database" where
  "pg_run pe (SaveLedger n) db = pg_save_ledger pe n db"
| "pg_run pe (SaveAuth now m) db = pg_save_auth pe now m db"
| "pg_run pe (SaveAll now n m) db = pg_save_all pe now n m db"
| "pg_run pe (AppendEvent e w) db = map_prod id fst (pg_append_security_event pe e (db, w))"

definition pg_step :: "pg_env \<Rightarrow> pg_database \<Rightarrow> pg_command \<Rightarrow> pg_database" where
  "pg_step pe db c = snd (pg_run pe c db)"

fun saved_at :: "pg_command \<Rightarrow> instant option" where
  "saved_at (SaveAuth now _) = Some now"
| "saved_at (SaveAll now _ _) = Some now"
| "saved_at _ = None"

text \<open>What the statements of one kind leave alone.\<close>

definition auth_rows :: "pg_tables \<Rightarrow> auth_user_row list \<times> (string \<times> uuid) list \<times> session_row list" where
  "auth_rows t = (pt_auth_users t, pt_installations t, pt_sessions t)"

definition ledger_rows where
  "ledger_rows t = (pt_users t, pt_organizations t, pt_memberships t, pt_ledgers t, pt_accounts t, pt_categories t,
     pt_transactions t, pt_metadata t, pt_legacy t)"

lemmas ledger_statements = delete_ledger_rows_def insert_user_def insert_organization_def insert_membership_def insert_ledger_def
  insert_account_def insert_category_def insert_transaction_def insert_metadata_def insert_if_def Let_def

lemmas auth_statements = delete_expired_def upsert_auth_user_def upsert_installation_def delete_installations_def
  upsert_session_def insert_if_def Let_def

lemma replace_ledger_keeps: "(\<And>t t'. P t \<Longrightarrow> auth_rows t' = auth_rows t \<Longrightarrow> P t') \<Longrightarrow> keeps P (replace_ledger pe n)"
  unfolding replace_ledger_def
  by (intro keeps_perform keeps_statement keeps_each)
    (auto simp: effect_keeps_def ledger_statements auth_rows_def split: if_splits)

lemma append_audits_keeps:
  "(\<And>t t'. P t \<Longrightarrow> auth_rows t' = auth_rows t \<Longrightarrow> ledger_rows t' = ledger_rows t \<Longrightarrow> P t') \<Longrightarrow> keeps P (append_audits pe logs)"
  unfolding append_audits_def
  by (rule keeps_statement) (auto simp: effect_keeps_def auth_rows_def ledger_rows_def inversion split: prod.splits)

lemma replace_auth_keeps:
  assumes "\<And>t t'. P t \<Longrightarrow> auth_rows t' = auth_rows t \<Longrightarrow> P t'"
    and "\<And>t. P t \<Longrightarrow> P (t\<lparr>pt_sessions := filter (\<lambda>r. \<not> session_row_end r \<le> now) (pt_sessions t)\<rparr>)"
    and "\<And>u. effect_keeps P (upsert_auth_user pe u)" "\<And>x. effect_keeps P (upsert_session pe x)"
    and "\<And>t is. P t \<Longrightarrow> P (t\<lparr>pt_installations := is\<rparr>)"
  shows "keeps P (replace_auth_rows pe now m)"
  unfolding replace_auth_rows_def
  by (intro keeps_perform keeps_statement keeps_each assms(3,4))
    (auto simp: effect_keeps_def delete_expired_def upsert_installation_def delete_installations_def insert_if_def
      intro: assms(2,5) split: if_splits)

lemma pg_step_keeps:
  assumes ledger: "\<And>t t'. P t \<Longrightarrow> auth_rows t' = auth_rows t \<Longrightarrow> P t'"
    and auth: "\<And>now m. saved_at c = Some now \<Longrightarrow> keeps P (replace_auth_rows pe now m)"
    and "P (db_tables db)"
  shows "P (db_tables (pg_step pe db c))"
proof -
  have parts: "keeps P (replace_ledger pe n)" "keeps P (append_audits pe logs)" for n logs
    using ledger by (auto intro: replace_ledger_keeps append_audits_keeps)
  have "keeps P (pg_run pe c)"
  proof (cases c)
    case (SaveLedger n)
    have "pg_run pe c = pg_save_ledger pe n" by (rule ext) (simp add: SaveLedger)
    then show ?thesis unfolding pg_save_ledger_def using parts by (metis keeps_perform keeps_transaction)
  next
    case (SaveAuth now m)
    have "pg_run pe c = pg_save_auth pe now m" by (rule ext) (simp add: SaveAuth)
    then show ?thesis unfolding pg_save_auth_def using auth SaveAuth by (simp add: keeps_transaction)
  next
    case (SaveAll now n m)
    have "pg_run pe c = pg_save_all pe now n m" by (rule ext) (simp add: SaveAll)
    then show ?thesis unfolding pg_save_all_def using auth [of now m] SaveAll parts
      by (auto intro!: keeps_perform keeps_transaction)
  next
    case (AppendEvent e w)
    let ?event = "fst (into_append e w)"
    let ?f = "\<lambda>t. let (r, rows) = append_event (pe_audit pe) (pe_signer pe) ?event (pt_audit t)
            in attempt_pure r PgAudit (\<lambda>_. Ok (t\<lparr>pt_audit := rows\<rparr>))"
    have "pg_run pe c = pg_transaction (statement ?f)"
      by (rule ext) (simp add: AppendEvent pg_append_security_event_def split_beta Let_def)
    moreover have "effect_keeps P ?f"
      using ledger by (auto simp: effect_keeps_def auth_rows_def inversion split: prod.splits)
    ultimately show ?thesis by (simp add: keeps_statement keeps_transaction)
  qed
  with assms(3) show ?thesis unfolding keeps_def pg_step_def by (metis prod.collapse)
qed

section \<open>An example\<close>

definition demo_pg :: pg_env where
  "demo_pg = \<lparr>pe_audit = demo_audit_env, pe_signer = \<lparr>as_key_id = ''k'', as_key = [1]\<rparr>, pe_lower = to_ascii_lowercase,
     pe_upper = to_ascii_uppercase, pe_unhex = \<lambda>s. Some (map (\<lambda>c. word_of_nat (of_char c)) s)\<rparr>"

definition demo_tables :: pg_tables where
  "demo_tables = \<lparr>pt_users = [], pt_organizations = [], pt_memberships = [], pt_ledgers = [], pt_accounts = [],
     pt_categories = [], pt_transactions = [], pt_metadata = [], pt_legacy = [], pt_audit = [], pt_auth_users = [],
     pt_installations = [], pt_sessions = []\<rparr>"

definition demo_account_row :: auth_user_row where
  "demo_account_row = \<lparr>aur_id = 2, aur_display_name = ''Bob'', aur_email = Some ''b@x'', aur_phone = None,
     aur_password_hash = ''new'', aur_account_kind = ''business'', aur_organization = None, aur_created_at = 0, aur_updated_at = 5000\<rparr>"

text \<open>The account and the revoked session of an instance that has not heard of the change.\<close>

definition demo_stale_user :: stored_user where
  "demo_stale_user = \<lparr>su_id = 2, su_display_name = ''Bob'', su_email = Some ''b@x'', su_phone = None, su_password_hash = ''old'',
     su_account_kind = Business, su_organization = None, su_created_at = 0, su_updated_at = 4000\<rparr>"

definition demo_session_row :: session_row where
  "demo_session_row = \<lparr>ser_id = 9, ser_family = 8, ser_user = 2, ser_installation = Some ''phone'', ser_access_hash = [65],
     ser_refresh_hash = Some [66], ser_client_kind = ''web'', ser_access_expires_at = 10000, ser_refresh_expires_at = Some 90000,
     ser_created_at = 1000, ser_rotated_at = None, ser_revoked_at = Some 6000\<rparr>"

definition demo_stale_session :: stored_session where
  "demo_stale_session = \<lparr>ss_id = 9, ss_family = 8, ss_user = 2, ss_installation = ''phone'', ss_access_token = ''A'',
     ss_refresh_token = ''B'', ss_kind = Web, ss_created_at = 1000, ss_access_expires_at = 10000,
     ss_refresh_expires_at = Some 90000, ss_rotated_at = None, ss_revoked_at = None\<rparr>"

definition demo_stale :: auth_snapshot where
  "demo_stale = \<lparr>asn_users = [demo_stale_user], asn_installations = [(''phone'', 2)], asn_sessions = [demo_stale_session]\<rparr>"

definition demo_database :: pg_database where
  "demo_database = \<lparr>db_tables = demo_tables\<lparr>pt_auth_users := [demo_account_row], pt_sessions := [demo_session_row]\<rparr>,
     db_faults = \<lambda>_. Undisturbed\<rparr>"

lemma demo_stale_saved: "fst (pg_run demo_pg (SaveAuth 7000 demo_stale) demo_database) = Ok ()"
  by code_simp

section \<open>Sessions\<close>

text \<open>The row of a revoked session, which no other row resembles.\<close>

definition resembles :: "session_row \<Rightarrow> session_row \<Rightarrow> bool" where
  "resembles x r \<longleftrightarrow> ser_id r = ser_id x \<or> ser_access_hash r = ser_access_hash x"

definition revoked_as :: "session_row \<Rightarrow> session_row \<Rightarrow> bool" where
  "revoked_as x r \<longleftrightarrow> ser_id r = ser_id x \<and> ser_access_hash r = ser_access_hash x \<and> session_row_end r = session_row_end x
     \<and> ser_revoked_at r = ser_revoked_at x \<and> ser_revoked_at x \<noteq> None"

definition revoked_rows :: "session_row \<Rightarrow> session_row list \<Rightarrow> bool" where
  "revoked_rows x rows \<longleftrightarrow> (\<exists>r \<in> set rows. revoked_as x r) \<and> (\<forall>r \<in> set rows. resembles x r \<longrightarrow> revoked_as x r)"

lemma revoked_rows_map:
  assumes "revoked_rows x rows" "\<And>q. resembles x (g q) \<Longrightarrow> resembles x q" "\<And>q. revoked_as x q \<Longrightarrow> revoked_as x (g q)"
  shows "revoked_rows x (map g rows)"
  using assms unfolding revoked_rows_def by fastforce

lemma revoked_rows_filter:
  assumes "revoked_rows x rows" "now < session_row_end x"
  shows "revoked_rows x (filter (\<lambda>r. \<not> session_row_end r \<le> now) rows)"
proof -
  have "\<not> session_row_end r \<le> now" if "revoked_as x r" for r using that assms(2) by (simp add: revoked_as_def)
  with assms(1) show ?thesis unfolding revoked_rows_def by fastforce
qed

lemma upsert_session_revoked:
  assumes "revoked_rows x (pt_sessions t)" "upsert_session pe y t = Ok t'"
  shows "revoked_rows x (pt_sessions t')"
proof -
  from assms(2) obtain r where r: "session_to_row pe y = Ok r" by (auto simp: upsert_session_def inversion)
  show ?thesis
  proof (cases "ser_id r \<in> ser_id ` set (pt_sessions t)")
    case True
    define g :: "session_row \<Rightarrow> session_row" where "g q = (if ser_id q = ser_id r
            then q\<lparr>ser_rotated_at := coalesce (ser_rotated_at q) (ser_rotated_at r),
                   ser_revoked_at := coalesce (ser_revoked_at q) (ser_revoked_at r)\<rparr> else q)" for q
    from True assms(2) r have "pt_sessions t' = map g (pt_sessions t)"
      by (auto simp: upsert_session_def insert_if_def g_def [abs_def] split: if_splits)
    moreover have "ser_id (g q) = ser_id q" "ser_access_hash (g q) = ser_access_hash q" "session_row_end (g q) = session_row_end q"
      "ser_revoked_at q \<noteq> None \<Longrightarrow> ser_revoked_at (g q) = ser_revoked_at q" for q
      by (auto simp: g_def coalesce_def session_row_end_def split: option.split)
    ultimately show ?thesis
      using revoked_rows_map [OF assms(1), of g] by (simp add: resembles_def revoked_as_def)
  next
    case False
    with assms(2) r have new: "session_fits r t" "pt_sessions t' = pt_sessions t @ [r]"
      by (auto simp: upsert_session_def insert_if_def split: if_splits)
    obtain q where q: "q \<in> set (pt_sessions t)" "revoked_as x q" using assms(1) unfolding revoked_rows_def by blast
    then have "ser_id x \<in> ser_id ` set (pt_sessions t)" "ser_access_hash x \<in> ser_access_hash ` set (pt_sessions t)"
      unfolding revoked_as_def by (metis image_eqI)+
    with new(1) False have "\<not> resembles x r" by (auto simp: resembles_def session_fits_def fresh_key_def)
    with new(2) assms(1) show ?thesis by (simp add: revoked_rows_def)
  qed
qed

lemma upsert_auth_user_sessions: "upsert_auth_user pe u t = Ok t' \<Longrightarrow> pt_sessions t' = pt_sessions t"
  by (auto simp: upsert_auth_user_def insert_if_def Let_def split: if_splits option.splits)

lemma pg_step_revoked:
  assumes "revoked_rows x (pt_sessions (db_tables db))" "\<forall>now. saved_at c = Some now \<longrightarrow> now < session_row_end x"
  shows "revoked_rows x (pt_sessions (db_tables (pg_step pe db c)))"
proof (rule pg_step_keeps [where P = "\<lambda>t. revoked_rows x (pt_sessions t)", OF _ _ assms(1)])
  show "revoked_rows x (pt_sessions t) \<Longrightarrow> auth_rows t' = auth_rows t \<Longrightarrow> revoked_rows x (pt_sessions t')" for t t'
    by (simp add: auth_rows_def)
  fix now m assume "saved_at c = Some now"
  with assms(2) have "now < session_row_end x" by blast
  then show "keeps (\<lambda>t. revoked_rows x (pt_sessions t)) (replace_auth_rows pe now m)"
    by (intro replace_auth_keeps)
      (auto simp: auth_rows_def effect_keeps_def intro: revoked_rows_filter upsert_session_revoked dest: upsert_auth_user_sessions)
qed

interpretation revoked: invariant_machine "pg_step pe" "\<lambda>db. revoked_rows x (pt_sessions (db_tables db))"
  "\<lambda>c. \<forall>now. saved_at c = Some now \<longrightarrow> now < session_row_end x" for pe x
  by unfold_locales (rule pg_step_revoked)

text \<open>What an instance finds when it loads the accounts.\<close>

lemma query_Ok: "query f db = (Ok a, db') \<Longrightarrow> f (db_tables db) = Ok a \<and> db_tables db' = db_tables db"
  using statement_cases [of Ok db "fst (statement Ok db)" "snd (statement Ok db)"]
  by (cases "statement Ok db"; cases "fst (statement Ok db)") (auto simp: query_def)

lemma select_rows_Ok:
  "select_rows f k table db = (Ok vs, db')
   \<Longrightarrow> map f (sort_key k (table (db_tables db))) = map Ok vs \<and> db_tables db' = db_tables db"
  unfolding select_rows_def by (auto simp: map_result_Ok dest!: query_Ok)

lemma load_auth_Ok:
  assumes "load_auth_snapshot pe db = (Ok m, db')"
  shows "map auth_user_from_row (sort_key aur_id (pt_auth_users (db_tables db))) = map Ok (asn_users m)
    \<and> asn_installations m = sort_key fst (pt_installations (db_tables db))
    \<and> map (session_from_row pe) (sort_key ser_id (pt_sessions (db_tables db))) = map Ok (asn_sessions m)"
proof -
  from assms obtain us bs ss db1 db2 where
    "select_rows auth_user_from_row aur_id pt_auth_users db = (Ok us, db1)"
    "select_rows Ok fst pt_installations db1 = (Ok bs, db2)"
    "select_rows (session_from_row pe) ser_id pt_sessions db2 = (Ok ss, db')"
    "m = \<lparr>asn_users = us, asn_installations = bs, asn_sessions = ss\<rparr>"
    by (auto simp: load_auth_snapshot_def inversion)
  then show ?thesis
    using select_rows_Ok [of auth_user_from_row aur_id pt_auth_users db us db1] select_rows_Ok [of Ok fst pt_installations db1 bs db2]
      select_rows_Ok [of "session_from_row pe" ser_id pt_sessions db2 ss db'] by (simp add: inj_map_eq_map inj_def)
qed

text \<open>
  C15: Once the database holds a session as revoked, no instance can bring it back: whatever snapshots are saved
  afterwards, by instances that have not heard of the revocation too, an instance that loads the accounts finds every
  session of this token revoked, until the session has expired.
\<close>

theorem revoked_session_stays_revoked:
  assumes "x \<in> set (pt_sessions (db_tables db))" "ser_revoked_at x \<noteq> None"
    and "\<forall>r \<in> set (pt_sessions (db_tables db)). ser_id r = ser_id x \<or> ser_access_hash r = ser_access_hash x \<longrightarrow> r = x"
    and "\<forall>c \<in> set cs. \<forall>now. saved_at c = Some now \<longrightarrow> now < session_row_end x"
    and "fst (load_auth_snapshot pe (run (pg_step pe) db cs)) = Ok m" "inj (ad_hex (pe_audit pe))"
  shows "\<forall>y \<in> set (asn_sessions m). ss_access_token y = ad_hex (pe_audit pe) (ser_access_hash x) \<longrightarrow> ss_revoked_at y \<noteq> None"
proof -
  have "revoked_rows x (pt_sessions (db_tables db))"
    using assms(1-3) unfolding revoked_rows_def resembles_def revoked_as_def by blast
  then have row: "revoked_rows x (pt_sessions (db_tables (run (pg_step pe) db cs)))" using revoked.run_inv assms(4) by blast
  obtain db' where load: "load_auth_snapshot pe (run (pg_step pe) db cs) = (Ok m, db')" using assms(5) by (metis prod.collapse)
  let ?rows = "sort_key ser_id (pt_sessions (db_tables (run (pg_step pe) db cs)))"
  have "ss_revoked_at y \<noteq> None"
    if y: "y \<in> set (asn_sessions m)" "ss_access_token y = ad_hex (pe_audit pe) (ser_access_hash x)" for y
  proof -
    from load_auth_Ok [OF load] y(1) have "Ok y \<in> set (map (session_from_row pe) ?rows)" by simp
    then obtain r where r: "r \<in> set ?rows" "session_from_row pe r = Ok y" by auto
    then have "ss_access_token y = ad_hex (pe_audit pe) (ser_access_hash r)" "ss_revoked_at y = ser_revoked_at r"
      by (auto simp: session_from_row_def inversion)
    with y(2) assms(6) have "ser_access_hash r = ser_access_hash x" by (simp add: inj_eq)
    with r(1) row \<open>ss_revoked_at y = ser_revoked_at r\<close> show ?thesis
      unfolding revoked_rows_def resembles_def revoked_as_def by auto
  qed
  then show ?thesis by blast
qed

lemma demo_stale_loaded:
  "case fst (load_auth_snapshot demo_pg (run (pg_step demo_pg) demo_database [SaveAuth 7000 demo_stale])) of
     Ok m \<Rightarrow> map ss_access_token (asn_sessions m) = [''A''] | _ \<Rightarrow> False"
  by code_simp

theorem revoked_session_stays_revoked_witness:
  "\<exists>m y. fst (load_auth_snapshot demo_pg (run (pg_step demo_pg) demo_database [SaveAuth 7000 demo_stale])) = Ok m
     \<and> asn_sessions m = [y] \<and> ss_access_token y = ''A'' \<and> ss_revoked_at y \<noteq> None"
proof -
  obtain m where m: "fst (load_auth_snapshot demo_pg (run (pg_step demo_pg) demo_database [SaveAuth 7000 demo_stale])) = Ok m"
      "map ss_access_token (asn_sessions m) = [''A'']"
    using demo_stale_loaded by (auto split: result.splits)
  then obtain y where y: "asn_sessions m = [y]" "ss_access_token y = ''A''" by (auto simp: map_eq_Cons_conv)
  have hex: "inj (ad_hex (pe_audit demo_pg))" using demo_injective(1) by (simp add: demo_pg_def)
  have token: "ad_hex (pe_audit demo_pg) (ser_access_hash demo_session_row) = ''A''" by code_simp
  have "ss_revoked_at y \<noteq> None"
    using revoked_session_stays_revoked [of demo_session_row demo_database "[SaveAuth 7000 demo_stale]" demo_pg m, OF _ _ _ _ m(1) hex]
      y token by (simp add: demo_database_def demo_session_row_def session_row_end_def)
  with m(1) y show ?thesis by blast
qed

section \<open>Accounts\<close>

definition later_version :: "auth_user_row \<Rightarrow> auth_user_row \<Rightarrow> bool" where
  "later_version q q' \<longleftrightarrow>
     aur_id q' = aur_id q \<and> aur_created_at q' = aur_created_at q \<and> (q' = q \<or> aur_updated_at q < aur_updated_at q')"

definition accounts_le :: "auth_user_row list \<Rightarrow> auth_user_row list \<Rightarrow> bool" where
  "accounts_le us us' \<longleftrightarrow> (\<forall>q \<in> set us. \<exists>q' \<in> set us'. later_version q q')"

lemma later_version_refl: "later_version q q"
  by (simp add: later_version_def)

lemma later_version_trans: "later_version p q \<Longrightarrow> later_version q r \<Longrightarrow> later_version p r"
  by (auto simp: later_version_def)

lemma accounts_le_refl: "accounts_le us us"
  using later_version_refl unfolding accounts_le_def by blast

lemma accounts_le_trans: "accounts_le us vs \<Longrightarrow> accounts_le vs ws \<Longrightarrow> accounts_le us ws"
  using later_version_trans unfolding accounts_le_def by blast

lemma accounts_le_map: "(\<And>q. later_version q (g q)) \<Longrightarrow> accounts_le us (map g us)"
  unfolding accounts_le_def by auto

lemma upsert_accounts_le:
  assumes "upsert_auth_user pe u t = Ok t'"
  shows "accounts_le (pt_auth_users t) (pt_auth_users t')"
proof -
  let ?r = "auth_user_to_row pe u"
  define g :: "auth_user_row \<Rightarrow> auth_user_row" where
    "g q = (if aur_id q = aur_id ?r \<and> aur_updated_at q < aur_updated_at ?r then ?r\<lparr>aur_created_at := aur_created_at q\<rparr> else q)" for q
  from assms have "pt_auth_users t' \<in> {pt_auth_users t, pt_auth_users t @ [?r], map g (pt_auth_users t)}"
    by (auto simp: upsert_auth_user_def insert_if_def Let_def g_def [abs_def] split: if_splits option.splits)
  moreover have "accounts_le us (us @ [?r])" for us using later_version_refl unfolding accounts_le_def by auto
  moreover have "accounts_le us (map g us)" for us by (rule accounts_le_map) (simp add: g_def later_version_def)
  ultimately show ?thesis using accounts_le_refl by auto
qed

lemma upsert_session_accounts: "upsert_session pe x t = Ok t' \<Longrightarrow> pt_auth_users t' = pt_auth_users t"
  by (cases "session_to_row pe x") (auto simp: upsert_session_def insert_if_def split: if_splits)

lemma pg_step_accounts: "accounts_le (pt_auth_users (db_tables db)) (pt_auth_users (db_tables (pg_step pe db c)))"
proof (rule pg_step_keeps [where P = "\<lambda>t. accounts_le (pt_auth_users (db_tables db)) (pt_auth_users t)"])
  let ?P = "\<lambda>t. accounts_le (pt_auth_users (db_tables db)) (pt_auth_users t)"
  show "?P t \<Longrightarrow> auth_rows t' = auth_rows t \<Longrightarrow> ?P t'" for t t'
    by (simp add: auth_rows_def)
  have "effect_keeps ?P (upsert_auth_user pe u)" for u
    unfolding effect_keeps_def using upsert_accounts_le accounts_le_trans by blast
  moreover have "effect_keeps ?P (upsert_session pe x)" for x
    unfolding effect_keeps_def using upsert_session_accounts by metis
  ultimately show "keeps ?P (replace_auth_rows pe now m)" for now m
    by (intro replace_auth_keeps) (simp_all add: auth_rows_def)
qed (rule accounts_le_refl)

interpretation accounts: forward_machine "pg_step pe" "\<lambda>_. True" "\<lambda>_. True" "\<lambda>db db'. accounts_le (pt_auth_users (db_tables db)) (pt_auth_users (db_tables db'))" for pe
  by unfold_locales (auto intro: accounts_le_refl accounts_le_trans pg_step_accounts)

text \<open>
  C16: The account that was changed last wins: whatever snapshots are saved by whatever instances, a stored account is
  never removed, keeps its creation time, and is only replaced by a version that was changed later, so
  that an old password never comes back.
\<close>

theorem account_never_goes_back:
  assumes "q \<in> set (pt_auth_users (db_tables db))"
  shows "\<exists>q' \<in> set (pt_auth_users (db_tables (run (pg_step pe) db cs))).
    aur_id q' = aur_id q \<and> aur_created_at q' = aur_created_at q \<and> (q' = q \<or> aur_updated_at q < aur_updated_at q')"
proof -
  have "accounts_le (pt_auth_users (db_tables db)) (pt_auth_users (db_tables (run (pg_step pe) db cs)))"
    by (rule accounts.run_le) simp_all
  then show ?thesis using assms unfolding accounts_le_def later_version_def by blast
qed

theorem account_never_goes_back_witness:
  "\<exists>q. q \<in> set (pt_auth_users (db_tables (run (pg_step demo_pg) demo_database [SaveAuth 7000 demo_stale])))
     \<and> aur_id q = 2 \<and> (q = demo_account_row \<or> 5000 < aur_updated_at q)"
  using account_never_goes_back [of demo_account_row demo_database demo_pg "[SaveAuth 7000 demo_stale]"]
  by (auto simp: demo_database_def demo_account_row_def)

section \<open>A database of before the audit chain\<close>

definition frozen :: "pg_tables \<Rightarrow> bool" where
  "frozen t \<longleftrightarrow> (\<exists>a \<in> set (pt_legacy t). al_ledger a \<in> lr_id ` set (pt_ledgers t))"

lemma frozen_refuses: "frozen (db_tables db) \<Longrightarrow> \<not> is_ok (fst (replace_ledger pe n db))"
proof -
  assume "frozen (db_tables db)"
  then have "\<not> is_ok (fst (statement delete_ledger_rows db))"
    using statement_cases [of delete_ledger_rows db "fst (statement delete_ledger_rows db)" "snd (statement delete_ledger_rows db)"]
    by (auto simp: frozen_def delete_ledger_rows_def split: if_splits)
  then show ?thesis
    by (cases "statement delete_ledger_rows db"; cases "fst (statement delete_ledger_rows db)") (auto simp: replace_ledger_def)
qed

lemma frozen_transaction:
  assumes "frozen (db_tables db)" "pg_transaction (\<lambda>db. perform (replace_ledger pe n db) id k) db = (r, db')"
  shows "\<not> is_ok r \<and> db_tables db' = db_tables db"
proof -
  have "\<not> is_ok (fst (perform (replace_ledger pe n db1) id k))" if "db_tables db1 = db_tables db" for db1
    using frozen_refuses [of db1 pe n] assms(1) that
    by (cases "replace_ledger pe n db1"; cases "fst (replace_ledger pe n db1)") auto
  then have "\<not> (\<exists>db1 db2. db_tables db1 = db_tables db \<and> perform (replace_ledger pe n db1) id k = (Ok (), db2))"
    by (metis fst_conv is_ok.simps(1))
  with transaction_cases [OF assms(2)] show ?thesis by blast
qed

lemma frozen_saves:
  assumes "frozen (db_tables db)"
  shows "\<not> is_ok (fst (pg_save_ledger pe n db)) \<and> db_tables (snd (pg_save_ledger pe n db)) = db_tables db"
    and "\<not> is_ok (fst (pg_save_all pe now n m db)) \<and> db_tables (snd (pg_save_all pe now n m db)) = db_tables db"
  unfolding pg_save_ledger_def pg_save_all_def
  using frozen_transaction [OF assms prod.collapse [symmetric]] by blast+

text \<open>What saving accounts and appending events leaves of the ledger.\<close>

lemma upsert_session_rows: "upsert_session pe x t = Ok t' \<Longrightarrow> \<exists>rows. t' = t\<lparr>pt_sessions := rows\<rparr>"
  by (cases "session_to_row pe x") (auto simp: upsert_session_def insert_if_def split: if_splits)

lemma auth_effects_ledger:
  "upsert_auth_user pe u t = Ok t' \<Longrightarrow> ledger_rows t' = ledger_rows t"
  "upsert_installation i t = Ok t' \<Longrightarrow> ledger_rows t' = ledger_rows t"
  "upsert_session pe x t = Ok t' \<Longrightarrow> ledger_rows t' = ledger_rows t"
  "delete_expired now t = Ok t' \<Longrightarrow> ledger_rows t' = ledger_rows t"
  "delete_installations kept t = Ok t' \<Longrightarrow> ledger_rows t' = ledger_rows t"
  by (auto simp: upsert_auth_user_def upsert_installation_def delete_expired_def delete_installations_def insert_if_def
    Let_def ledger_rows_def dest: upsert_session_rows split: if_splits option.splits)

lemma auth_keeps_ledger: "keeps (\<lambda>t. ledger_rows t = l) (replace_auth_rows pe now m)"
  unfolding replace_auth_rows_def
  by (intro keeps_perform keeps_statement keeps_each) (auto simp: effect_keeps_def auth_effects_ledger)

lemma pg_step_frozen:
  assumes "ledger_rows (db_tables db) = ledger_rows t" "frozen t"
  shows "ledger_rows (db_tables (pg_step pe db c)) = ledger_rows t"
proof -
  have frozen: "frozen (db_tables db)" using assms by (auto simp: frozen_def ledger_rows_def)
  show ?thesis
  proof (cases c)
    case (SaveAuth now m)
    have "keeps (\<lambda>t'. ledger_rows t' = ledger_rows t) (pg_save_auth pe now m)"
      unfolding pg_save_auth_def by (intro keeps_transaction auth_keeps_ledger)
    then show ?thesis using assms(1) SaveAuth unfolding keeps_def pg_step_def by (metis pg_run.simps(2) prod.collapse)
  next
    case (AppendEvent e w)
    let ?f = "\<lambda>t. let (r, rows) = append_event (pe_audit pe) (pe_signer pe) (fst (into_append e w)) (pt_audit t)
            in attempt_pure r PgAudit (\<lambda>_. Ok (t\<lparr>pt_audit := rows\<rparr>))"
    have "keeps (\<lambda>t'. ledger_rows t' = ledger_rows t) (pg_transaction (statement ?f))"
      by (intro keeps_transaction keeps_statement) (auto simp: effect_keeps_def ledger_rows_def inversion split: prod.splits)
    moreover have "pg_step pe db c = snd (pg_transaction (statement ?f) db)"
      by (simp add: pg_step_def AppendEvent pg_append_security_event_def split_beta Let_def)
    moreover obtain r db' where "pg_transaction (statement ?f) db = (r, db')" by fastforce
    ultimately show ?thesis using assms(1) unfolding keeps_def by simp
  qed (use frozen_saves [OF frozen] assms(1) in \<open>simp_all add: pg_step_def\<close>)
qed

interpretation frozen: invariant_machine "pg_step pe" "\<lambda>db. ledger_rows (db_tables db) = ledger_rows t" "\<lambda>_. frozen t" for pe t
  by unfold_locales (rule pg_step_frozen)

text \<open>
  C22: A database that was upgraded to the audit chain with an audit log in it never stores a change of the
  ledger again. The old log, which nobody may delete, refers to the ledgers with \<open>ON DELETE RESTRICT\<close>, and
  every save begins by deleting them: each fails, and the rows of the ledger stay what they were.
\<close>

theorem upgraded_database_refuses_saves:
  assumes "a \<in> set (pt_legacy (db_tables db))" "al_ledger a \<in> lr_id ` set (pt_ledgers (db_tables db))"
    and "db' = run (pg_step pe) db cs"
  shows "\<not> is_ok (fst (pg_save_ledger pe n db')) \<and> \<not> is_ok (fst (pg_save_all pe now n m db'))
    \<and> ledger_rows (db_tables db') = ledger_rows (db_tables db)"
proof -
  have start: "frozen (db_tables db)" using assms(1,2) by (auto simp: frozen_def)
  then have same: "ledger_rows (db_tables db') = ledger_rows (db_tables db)"
    unfolding assms(3) by (intro frozen.run_inv) auto
  with start have "frozen (db_tables db')" by (auto simp: frozen_def ledger_rows_def)
  then show ?thesis using frozen_saves same by blast
qed

text \<open>A database with one ledger and one record of the old log.\<close>

definition demo_upgraded :: pg_database where
  "demo_upgraded = \<lparr>db_tables = demo_tables\<lparr>pt_ledgers := [\<lparr>lr_id = 30, lr_name = ''books'', lr_kind = ''organization_public'',
       lr_owner_user = None, lr_organization = Some 10, lr_created_at = 0, lr_deleted_at = None\<rparr>],
     pt_legacy := [\<lparr>al_id = 70, al_organization = Some 10, al_ledger = 30, al_actor = 2, al_action = ''transaction.submitted'',
       al_resource_type = ''transaction'', al_resource = 60, al_summary = ''taxi'', al_created_at = 0\<rparr>]\<rparr>,
     db_faults = \<lambda>_. Undisturbed\<rparr>"

theorem upgraded_database_refuses_saves_witness:
  "\<not> is_ok (fst (pg_save_ledger demo_pg (snapshot uninitialized) (run (pg_step demo_pg) demo_upgraded [SaveAuth 7000 demo_stale])))"
  using upgraded_database_refuses_saves [of _ demo_upgraded "run (pg_step demo_pg) demo_upgraded [SaveAuth 7000 demo_stale]"
      demo_pg "[SaveAuth 7000 demo_stale]" "snapshot uninitialized"]
  by (simp add: demo_upgraded_def)

end
