(* ===== verification/PostgresLedger.thy ===== *)
theory PostgresLedger
  imports PostgresProperties TransactionProperties
begin

text \<open>
  The ledger through the database and back: what a save that succeeds has left in the tables, and that loading
  them yields the ledger that was saved, each list in the order of its query and each time as its column keeps it.
\<close>

section \<open>What a successful save has left\<close>

lemma statement_Ok: "statement f db = (Ok u, db') \<Longrightarrow> f (db_tables db) = Ok (db_tables db')"
  using statement_cases [of f db "Ok u" db'] by simp

lemma each_Ok: "each f xs db = (Ok u, db') \<Longrightarrow> fold_result f xs (db_tables db) = Ok (db_tables db')"
proof (induction xs arbitrary: db)
  case (Cons x xs)
  obtain q e where first: "statement (f x) db = (q, e)" by fastforce
  with Cons.prems have "q = Ok ()" "each f xs e = (Ok u, db')" by (cases q; simp)+
  with Cons.IH [of e] statement_Ok [of "f x" db "()" e] first show ?case by simp
qed simp

text \<open>A loop of insertions appends the rows, in the order of the list.\<close>

lemma insertions_append:
  assumes "\<And>x t t'. f x t = Ok t' \<Longrightarrow> t' = upd (\<lambda>rs. rs @ [row x]) t"
    and "\<And>g h t. upd g (upd h t) = upd (\<lambda>r. g (h r)) t" and "\<And>t. upd (\<lambda>r. r) t = t"
  shows "fold_result f xs t = Ok t' \<Longrightarrow> t' = upd (\<lambda>rs. rs @ map row xs) t"
proof (induction xs arbitrary: t)
  case (Cons x xs)
  then obtain t1 where "f x t = Ok t1" "fold_result f xs t1 = Ok t'" by (auto simp: inversion)
  with assms(1) [of x t t1] Cons.IH [of t1] assms(2) show ?case by simp
qed (simp add: assms(3))

lemma inserted_rows:
  "fold_result (insert_user pe) us t = Ok t' \<Longrightarrow> t' = pt_users_update (\<lambda>rs. rs @ map (user_kept pe) us) t"
  "fold_result (insert_organization pe) gs t = Ok t' \<Longrightarrow> t' = pt_organizations_update (\<lambda>rs. rs @ map (organization_kept pe) gs) t"
  "fold_result (insert_membership pe) ms t = Ok t' \<Longrightarrow> t' = pt_memberships_update (\<lambda>rs. rs @ map (membership_to_row pe) ms) t"
  "fold_result (insert_ledger pe) ls t = Ok t' \<Longrightarrow> t' = pt_ledgers_update (\<lambda>rs. rs @ map (ledger_to_row pe) ls) t"
  "fold_result (insert_account pe) fs t = Ok t' \<Longrightarrow> t' = pt_accounts_update (\<lambda>rs. rs @ map (account_to_row pe) fs) t"
  "fold_result (insert_category pe) cs t = Ok t' \<Longrightarrow> t' = pt_categories_update (\<lambda>rs. rs @ map category_to_row cs) t"
  "fold_result (insert_transaction pe) xs t = Ok t' \<Longrightarrow> t' = pt_transactions_update (\<lambda>rs. rs @ map (transaction_to_row pe) xs) t"
  by (rule insertions_append; auto simp: insert_user_def insert_organization_def insert_membership_def insert_ledger_def
    insert_account_def insert_category_def insert_transaction_def insert_if_def Let_def split: if_splits)+

text \<open>The tables of the ledger as a save writes them.\<close>

definition saved_rows :: "pg_env \<Rightarrow> app_ledger_snapshot \<Rightarrow> pg_tables \<Rightarrow> bool" where
  "saved_rows pe n t \<longleftrightarrow>
     pt_users t = map (user_kept pe) (sn_users n) \<and> pt_organizations t = map (organization_kept pe) (sn_organizations n)
   \<and> pt_memberships t = map (membership_to_row pe) (sn_memberships n) \<and> pt_ledgers t = map (ledger_to_row pe) (sn_ledgers n)
   \<and> pt_accounts t = map (account_to_row pe) (sn_accounts n) \<and> pt_categories t = map category_to_row (sn_categories n)
   \<and> pt_transactions t = map (transaction_to_row pe) (sn_transactions n) \<and> pt_metadata t = [metadata_to_row n]"

lemma replace_ledger_saves:
  assumes "replace_ledger pe n db = (Ok u, db')"
  shows "saved_rows pe n (db_tables db')"
proof -
  from assms obtain d1 d2 d3 d4 d5 d6 d7 d8 where
    deleted: "statement delete_ledger_rows db = (Ok (), d1)" and stored: "statement (insert_metadata n) d8 = (Ok u, db')"
    and loops: "each (insert_user pe) (sn_users n) d1 = (Ok (), d2)"
    "each (insert_organization pe) (sn_organizations n) d2 = (Ok (), d3)"
    "each (insert_membership pe) (sn_memberships n) d3 = (Ok (), d4)" "each (insert_ledger pe) (sn_ledgers n) d4 = (Ok (), d5)"
    "each (insert_account pe) (sn_accounts n) d5 = (Ok (), d6)" "each (insert_category pe) (sn_categories n) d6 = (Ok (), d7)"
    "each (insert_transaction pe) (sn_transactions n) d7 = (Ok (), d8)"
    by (auto simp: replace_ledger_def inversion)
  have "db_tables d1 = (db_tables db)\<lparr>pt_transactions := [], pt_categories := [], pt_accounts := [], pt_ledgers := [],
      pt_memberships := [], pt_organizations := [], pt_users := [], pt_metadata := []\<rparr>"
    using statement_Ok [OF deleted] by (simp add: delete_ledger_rows_def split: if_splits)
  moreover have "db_tables db' = (db_tables d8)\<lparr>pt_metadata := [metadata_to_row n]\<rparr>"
    using statement_Ok [OF stored] by (simp add: insert_metadata_def insert_if_def split: if_splits)
  ultimately show ?thesis
    using inserted_rows(1) [OF each_Ok [OF loops(1)]] inserted_rows(2) [OF each_Ok [OF loops(2)]]
      inserted_rows(3) [OF each_Ok [OF loops(3)]] inserted_rows(4) [OF each_Ok [OF loops(4)]]
      inserted_rows(5) [OF each_Ok [OF loops(5)]] inserted_rows(6) [OF each_Ok [OF loops(6)]]
      inserted_rows(7) [OF each_Ok [OF loops(7)]]
    by (simp add: saved_rows_def)
qed

lemma append_audits_rows:
  assumes "append_audits pe logs db = (Ok u, db')" "saved_rows pe n (db_tables db)"
  shows "saved_rows pe n (db_tables db')"
proof -
  obtain r rows where "append_domain_logs (pe_audit pe) (pe_signer pe) logs (pt_audit (db_tables db)) = (r, rows)" by fastforce
  with statement_Ok [OF assms(1) [unfolded append_audits_def]] have "db_tables db' = (db_tables db)\<lparr>pt_audit := rows\<rparr>"
    by (cases r) simp_all
  with assms(2) show ?thesis by (simp add: saved_rows_def)
qed

lemma save_ledger_rows:
  assumes "pg_save_ledger pe n db = (Ok u, db')"
  shows "saved_rows pe n (db_tables db')"
proof -
  from transaction_cases [OF assms [unfolded pg_save_ledger_def]] obtain db1 db2 where
    "perform (replace_ledger pe n db1) id (\<lambda>_ db. append_audits pe (sn_audit_logs n) db) = (Ok (), db2)"
    "db_tables db' = db_tables db2" by auto
  then show ?thesis using replace_ledger_saves append_audits_rows by (fastforce simp: inversion)
qed

section \<open>Reading it back\<close>

lemma read_sorted:
  assumes "\<And>x. x \<in> set xs \<Longrightarrow> read (row x) = Ok (kept x)" "\<And>x. key (row x) = key' (kept x)"
  shows "map_result read (sort_key key (map row xs)) = Ok (sort_key key' (map kept xs))"
  using assms(1) by (simp add: map_result_Ok assms(2) flip: sort_key_map)

text \<open>A struct with the times that the columns keep.\<close>

definition membership_kept :: "pg_env \<Rightarrow> membership \<Rightarrow> membership" where
  "membership_kept pe m = m\<lparr>ms_created_at := pe_time pe (ms_created_at m)\<rparr>"

definition ledger_kept :: "pg_env \<Rightarrow> ledger \<Rightarrow> ledger" where
  "ledger_kept pe l = l\<lparr>lg_created_at := pe_time pe (lg_created_at l), lg_deleted_at := map_option (pe_time pe) (lg_deleted_at l)\<rparr>"

definition account_kept :: "pg_env \<Rightarrow> financial_account \<Rightarrow> financial_account" where
  "account_kept pe a = a\<lparr>fa_created_at := pe_time pe (fa_created_at a), fa_deleted_at := map_option (pe_time pe) (fa_deleted_at a)\<rparr>"

definition transaction_kept :: "pg_env \<Rightarrow> transaction \<Rightarrow> transaction" where
  "transaction_kept pe t = t\<lparr>occurred_at := pe_time pe (occurred_at t), approved_at := map_option (pe_time pe) (approved_at t),
     paid_at := map_option (pe_time pe) (paid_at t), received_at := map_option (pe_time pe) (received_at t),
     tx_created_at := pe_time pe (tx_created_at t), tx_updated_at := pe_time pe (tx_updated_at t),
     tx_deleted_at := map_option (pe_time pe) (tx_deleted_at t)\<rparr>"

text \<open>A money whose currency is an ISO code, as \<open>Money::new\<close> leaves it.\<close>

definition money_ok :: "env \<Rightarrow> money \<Rightarrow> bool" where
  "money_ok env m \<longleftrightarrow> money_new (to_uppercase env) (amount_minor m) (currency m) = Ok m"

lemma enums_read_back [simp]:
  "membership_role_from_db (membership_role_to_db r) = Ok r"
  "ledger_kind_from_db (ledger_kind_to_db k) = Ok k"
  "financial_account_kind_from_db (financial_account_kind_to_db a) = Ok a"
  "category_kind_from_db (category_kind_to_db c) = Ok c"
  "transaction_kind_from_db (transaction_kind_to_db t) = Ok t"
  "approval_state_from_db (approval_state_to_db s) = Ok s"
  "payment_state_from_db (payment_state_to_db p) = Ok p"
  subgoal by (cases r) (simp_all add: membership_role_from_db_def enum_from_db_def)
  subgoal by (cases k) (simp_all add: ledger_kind_from_db_def enum_from_db_def)
  subgoal by (cases a) (simp_all add: financial_account_kind_from_db_def enum_from_db_def)
  subgoal by (cases c) (simp_all add: category_kind_from_db_def enum_from_db_def)
  subgoal by (cases t) (simp_all add: transaction_kind_from_db_def enum_from_db_def)
  subgoal by (cases s) (simp_all add: approval_state_from_db_def enum_from_db_def)
  subgoal by (cases p) (simp_all add: payment_state_from_db_def enum_from_db_def)
  done

lemma rows_read_back:
  "membership_from_row (membership_to_row pe m) = Ok (membership_kept pe m)"
  "ledger_from_row (ledger_to_row pe l) = Ok (ledger_kept pe l)"
  "money_ok env (opening_balance a) \<Longrightarrow> account_from_row env (account_to_row pe a) = Ok (account_kept pe a)"
  "category_from_row (category_to_row c) = Ok c"
  "money_ok env (tx_amount t) \<Longrightarrow> transaction_from_row env (transaction_to_row pe t) = Ok (transaction_kept pe t)"
  by (simp_all add: membership_from_row_def membership_to_row_def membership_kept_def ledger_from_row_def ledger_to_row_def
    ledger_kept_def account_from_row_def account_to_row_def account_kept_def money_from_row_def money_ok_def
    category_from_row_def category_to_row_def transaction_from_row_def transaction_to_row_def transaction_kept_def)

text \<open>The snapshot that is read: the lists in the order of the queries, the audit log of the chain.\<close>

definition snapshot_kept :: "pg_env \<Rightarrow> app_ledger_snapshot \<Rightarrow> audit_log list \<Rightarrow> app_ledger_snapshot" where
  "snapshot_kept pe n logs =
     \<lparr>sn_schema_version = sn_schema_version n, sn_current_user_id = sn_current_user_id n,
      sn_users = sort_key usr_id (map (user_kept pe) (sn_users n)),
      sn_organizations = sort_key org_id (map (organization_kept pe) (sn_organizations n)),
      sn_memberships = sort_key ms_id (map (membership_kept pe) (sn_memberships n)),
      sn_ledgers = sort_key lg_id (map (ledger_kept pe) (sn_ledgers n)),
      sn_accounts = sort_key fa_id (map (account_kept pe) (sn_accounts n)),
      sn_categories = sort_key (\<lambda>c. (cat_ledger c, category_kind_to_db (cat_kind c), cat_name c, cat_id c)) (sn_categories n),
      sn_transactions = sort_key tx_id (map (transaction_kept pe) (sn_transactions n)), sn_audit_logs = logs\<rparr>"

lemma query_undisturbed:
  "db_faults db = (\<lambda>_. Undisturbed) \<Longrightarrow> query f db = (f (db_tables db), db)"
  by (simp add: query_def statement_def next_fault_def)

lemma undisturbed_shift: "db_faults db = (\<lambda>_. Undisturbed) \<Longrightarrow> db\<lparr>db_faults := \<lambda>n. Undisturbed\<rparr> = db"
  by simp

lemma saved_rows_read:
  assumes "saved_rows pe n t" "\<forall>a \<in> set (sn_accounts n). money_ok env (opening_balance a)"
    and "\<forall>x \<in> set (sn_transactions n). money_ok env (tx_amount x)"
  shows "map_result Ok (sort_key usr_id (pt_users t)) = Ok (sort_key usr_id (map (user_kept pe) (sn_users n)))"
    and "map_result Ok (sort_key org_id (pt_organizations t)) = Ok (sort_key org_id (map (organization_kept pe) (sn_organizations n)))"
    and "map_result membership_from_row (sort_key mr_id (pt_memberships t)) = Ok (sort_key ms_id (map (membership_kept pe) (sn_memberships n)))"
    and "map_result ledger_from_row (sort_key lr_id (pt_ledgers t)) = Ok (sort_key lg_id (map (ledger_kept pe) (sn_ledgers n)))"
    and "map_result (account_from_row env) (sort_key ar_id (pt_accounts t)) = Ok (sort_key fa_id (map (account_kept pe) (sn_accounts n)))"
    and "map_result category_from_row (sort_key (\<lambda>r. (ctr_ledger r, ctr_kind r, ctr_name r, ctr_id r)) (pt_categories t))
      = Ok (sort_key (\<lambda>c. (cat_ledger c, category_kind_to_db (cat_kind c), cat_name c, cat_id c)) (sn_categories n))"
    and "map_result (transaction_from_row env) (sort_key tr_id (pt_transactions t))
      = Ok (sort_key tx_id (map (transaction_kept pe) (sn_transactions n)))"
proof -
  have keys: "mr_id (membership_to_row pe m) = ms_id (membership_kept pe m)" "lr_id (ledger_to_row pe l) = lg_id (ledger_kept pe l)"
    "ar_id (account_to_row pe a) = fa_id (account_kept pe a)" "tr_id (transaction_to_row pe x) = tx_id (transaction_kept pe x)"
    for m l a x
    by (simp_all add: membership_to_row_def membership_kept_def ledger_to_row_def ledger_kept_def account_to_row_def
      account_kept_def transaction_to_row_def transaction_kept_def)
  note t = assms(1) [unfolded saved_rows_def]
  show "map_result membership_from_row (sort_key mr_id (pt_memberships t)) = Ok (sort_key ms_id (map (membership_kept pe) (sn_memberships n)))"
    "map_result ledger_from_row (sort_key lr_id (pt_ledgers t)) = Ok (sort_key lg_id (map (ledger_kept pe) (sn_ledgers n)))"
    "map_result (account_from_row env) (sort_key ar_id (pt_accounts t)) = Ok (sort_key fa_id (map (account_kept pe) (sn_accounts n)))"
    "map_result (transaction_from_row env) (sort_key tr_id (pt_transactions t))
      = Ok (sort_key tx_id (map (transaction_kept pe) (sn_transactions n)))"
    using t assms(2,3) by (auto intro!: read_sorted rows_read_back keys)
  have "map_result category_from_row (sort_key (\<lambda>r. (ctr_ledger r, ctr_kind r, ctr_name r, ctr_id r)) (map category_to_row (sn_categories n)))
      = Ok (sort_key (\<lambda>c. (cat_ledger c, category_kind_to_db (cat_kind c), cat_name c, cat_id c)) (map (\<lambda>c. c) (sn_categories n)))"
    by (rule read_sorted) (simp_all add: rows_read_back, simp add: category_to_row_def)
  then show "map_result category_from_row (sort_key (\<lambda>r. (ctr_ledger r, ctr_kind r, ctr_name r, ctr_id r)) (pt_categories t))
      = Ok (sort_key (\<lambda>c. (cat_ledger c, category_kind_to_db (cat_kind c), cat_name c, cat_id c)) (sn_categories n))"
    using t by simp
qed (use assms(1) in \<open>simp_all add: saved_rows_def map_result_Ok\<close>)

text \<open>
  C14: A ledger that has been saved is read back as it was: every user, organization, membership, ledger,
  account, category and transaction with all its fields, in the order of their identifiers, its times as the
  columns keep them; and nothing else.
\<close>

theorem saved_ledger_reads_back:
  assumes "pg_save_ledger pe n db = (Ok (), db')"
    and "\<forall>a \<in> set (sn_accounts n). money_ok (ad_env (pe_audit pe)) (opening_balance a)"
    and "\<forall>x \<in> set (sn_transactions n). money_ok (ad_env (pe_audit pe)) (tx_amount x)"
    and "sn_schema_version n < 2 ^ 32" "load_audit_logs (ad_env (pe_audit pe)) (pt_audit (db_tables db')) = Ok logs"
  shows "fst (load_snapshot pe (db'\<lparr>db_faults := \<lambda>_. Undisturbed\<rparr>)) = Ok (snapshot_kept pe n logs)"
proof -
  have rows: "saved_rows pe n (db_tables db')" by (rule save_ledger_rows [OF assms(1)])
  have metadata: "pt_metadata (db_tables db') = [metadata_to_row n]" using rows by (simp add: saved_rows_def)
  have version: "unat (md_schema_version (metadata_to_row n)) = sn_schema_version n"
    using assms(4) by (simp add: metadata_to_row_def unat_of_nat take_bit_nat_def)
  show ?thesis
    by (simp add: load_snapshot_def select_rows_def query_undisturbed saved_rows_read [OF rows assms(2,3)]
      metadata version assms(5) Let_def snapshot_kept_def) (simp add: metadata_to_row_def)
qed

text \<open>The books of the demonstration ledger, without its log, saved to an empty database.\<close>

definition demo_snapshot :: app_ledger_snapshot where
  "demo_snapshot = (snapshot demo_app)\<lparr>sn_audit_logs := []\<rparr>"

definition demo_empty :: pg_database where
  "demo_empty = \<lparr>db_tables = demo_tables, db_faults = \<lambda>_. Undisturbed\<rparr>"

lemma demo_books_saved:
  "fst (pg_save_ledger demo_pg demo_snapshot demo_empty) = Ok ()"
  "pt_audit (db_tables (snd (pg_save_ledger demo_pg demo_snapshot demo_empty))) = []"
  by code_simp+

lemma demo_books_valid:
  "list_all (\<lambda>a. money_ok demo_env (opening_balance a)) (sn_accounts demo_snapshot)"
  "list_all (\<lambda>x. money_ok demo_env (tx_amount x)) (sn_transactions demo_snapshot)" "sn_schema_version demo_snapshot = 3"
  by code_simp+

theorem saved_ledger_reads_back_witness:
  "fst (load_snapshot demo_pg ((snd (pg_save_ledger demo_pg demo_snapshot demo_empty))\<lparr>db_faults := \<lambda>_. Undisturbed\<rparr>))
     = Ok (snapshot_kept demo_pg demo_snapshot [])"
proof -
  have "money_ok (ad_env (pe_audit demo_pg)) = money_ok demo_env"
    by (rule ext) (simp add: money_ok_def demo_pg_def demo_audit_env_def)
  then show ?thesis
    using saved_ledger_reads_back [of demo_pg demo_snapshot demo_empty "snd (pg_save_ledger demo_pg demo_snapshot demo_empty)" "[]"]
      demo_books_saved demo_books_valid by (simp add: prod_eq_iff list_all_iff load_audit_logs_def)
qed

end
