(* ===== verification/Sqlite.thy ===== *)
theory Sqlite
  imports LedgerService
begin

text \<open>
  \<open>SqliteLedgerRepository\<close> (\<open>cloudledger-db/src/sqlite.rs\<close>): the second implementation of the trait. A table is a map from
  its primary key to the other columns; each object is kept as a document beside the columns that
  the queries use. The document is \<open>serde_json\<close>'s, and its type and the functions that write and read it are
  parameters. A statement that writes may fail, as the supply \<open>sq_write_faults\<close> says of the next ones, and so may all that read.
\<close>

section \<open>Documents and tables\<close>

record 'd sqlite_formats =
  write_ledger :: "book_ledger \<Rightarrow> ('d, string) result"
  read_ledger :: "'d \<Rightarrow> (book_ledger, string) result"
  write_member :: "ledger_member \<Rightarrow> ('d, string) result"
  read_member :: "'d \<Rightarrow> (ledger_member, string) result"
  write_entry :: "journal_entry \<Rightarrow> ('d, string) result"
  read_entry :: "'d \<Rightarrow> (journal_entry, string) result"
  write_request :: "approval_request \<Rightarrow> ('d, string) result"
  read_request :: "'d \<Rightarrow> (approval_request, string) result"

record 'd entry_row =
  er_ledger :: string
  er_status :: string
  er_document :: 'd

record 'd request_row =
  rr_ledger :: string
  rr_entry :: string
  rr_status :: string
  rr_document :: 'd

record 'd sqlite_repository =
  sq_poisoned :: bool
  sq_write_faults :: "nat \<Rightarrow> string option"
  sq_read_fault :: "string option"
  sq_ledgers :: "(string, string \<times> 'd) ord_map"
  sq_members :: "(string \<times> string \<times> string, 'd) ord_map"
  sq_entries :: "(string, 'd entry_row) ord_map"
  sq_requests :: "(string, 'd request_row) ord_map"

text \<open>\<open>format!("{:?}", ...)\<close>\<close>

fun role_debug :: "ledger_role \<Rightarrow> string" where
  "role_debug LOwner = ''Owner''"
| "role_debug LBookkeeper = ''Bookkeeper''"
| "role_debug LApprover = ''Approver''"
| "role_debug LAuditor = ''Auditor''"

fun journal_status_debug :: "journal_status \<Rightarrow> string" where
  "journal_status_debug JDraft = ''Draft''"
| "journal_status_debug JPendingApproval = ''PendingApproval''"
| "journal_status_debug JPosted = ''Posted''"
| "journal_status_debug JRejected = ''Rejected''"
| "journal_status_debug JVoided = ''Voided''"

fun approval_status_debug :: "approval_status \<Rightarrow> string" where
  "approval_status_debug ASPending = ''Pending''"
| "approval_status_debug ASApproved = ''Approved''"
| "approval_status_debug ASRejected = ''Rejected''"
| "approval_status_debug ASCancelled = ''Cancelled''"

section \<open>Statements\<close>

definition sq_conn :: "'d sqlite_repository \<Rightarrow> (unit, repository_error) result" where
  "sq_conn r = (if sq_poisoned r then Err (Backend ''sqlite connection lock poisoned'') else Ok ())"

definition sq_execute ::
  "('d sqlite_repository \<Rightarrow> 'd sqlite_repository) \<Rightarrow> 'd sqlite_repository
     \<Rightarrow> (unit, repository_error) result \<times> 'd sqlite_repository" where
  "sq_execute effect r =
     (let fault = sq_write_faults r 0; r = r\<lparr>sq_write_faults := \<lambda>n. sq_write_faults r (Suc n)\<rparr>
      in case fault of Some e \<Rightarrow> (Err (Backend e), r) | None \<Rightarrow> (Ok (), effect r))"

text \<open>The connection is locked first, then the parameters of the statement are made, then it runs.\<close>

definition sq_upsert ::
  "('d, string) result \<Rightarrow> ('d \<Rightarrow> 'd sqlite_repository \<Rightarrow> 'd sqlite_repository) \<Rightarrow> 'd sqlite_repository
     \<Rightarrow> (unit, repository_error) result \<times> 'd sqlite_repository" where
  "sq_upsert document effect r =
     attempt (sq_conn r) id r (\<lambda>_. attempt document Backend r (\<lambda>d. sq_execute (effect d) r))"

definition sq_query ::
  "('d sqlite_repository \<Rightarrow> 'a) \<Rightarrow> 'd sqlite_repository \<Rightarrow> ('a, repository_error) result" where
  "sq_query f r =
     attempt_pure (sq_conn r) id (\<lambda>_. case sq_read_fault r of Some e \<Rightarrow> Err (Backend e) | None \<Rightarrow> Ok (f r))"

definition sq_get ::
  "('d \<Rightarrow> ('a, string) result) \<Rightarrow> ('d sqlite_repository \<Rightarrow> 'd option) \<Rightarrow> 'd sqlite_repository
     \<Rightarrow> ('a option, repository_error) result" where
  "sq_get read document r =
     attempt_pure (sq_query document r) id (\<lambda>d. case d of None \<Rightarrow> Ok None | Some d \<Rightarrow> attempt_pure (read d) Backend (\<lambda>x. Ok (Some x)))"

definition sq_list ::
  "('d \<Rightarrow> ('a, string) result) \<Rightarrow> ('d sqlite_repository \<Rightarrow> 'd list) \<Rightarrow> 'd sqlite_repository
     \<Rightarrow> ('a list, repository_error) result" where
  "sq_list read documents r =
     attempt_pure (sq_query documents r) id (\<lambda>ds. attempt_pure (map_result read ds) Backend Ok)"

section \<open>The operations\<close>

fun ledger_kind_name :: "book_kind \<Rightarrow> string" where
  "ledger_kind_name (PersonalPrivate _) = ''personal_private''"
| "ledger_kind_name (CompanyPublic _) = ''company_public''"

definition sq_save_ledger where
  "sq_save_ledger sf l = sq_upsert (write_ledger sf l)
     (\<lambda>d r. r\<lparr>sq_ledgers := om_insert (as_str (bl_id l)) (ledger_kind_name (bl_kind l), d) (sq_ledgers r)\<rparr>)"

definition sq_get_ledger where
  "sq_get_ledger sf i = sq_get (read_ledger sf) (\<lambda>r. map_option snd (om_get (sq_ledgers r) (as_str i)))"

definition sq_save_member where
  "sq_save_member sf m = sq_upsert (write_member sf m)
     (\<lambda>d r. r\<lparr>sq_members := om_insert (as_str (mem_ledger m), as_str (mem_user m), role_debug (mem_role m)) d (sq_members r)\<rparr>)"

definition sq_list_members where
  "sq_list_members sf l = sq_list (read_member sf)
     (\<lambda>r. map snd (filter (\<lambda>(k, _). fst k = as_str l) (om_entries (sq_members r))))"

definition sq_save_journal_entry where
  "sq_save_journal_entry sf e = sq_upsert (write_entry sf e)
     (\<lambda>d r. r\<lparr>sq_entries := om_insert (as_str (je_id e))
        \<lparr>er_ledger = as_str (je_ledger e), er_status = journal_status_debug (je_status e), er_document = d\<rparr> (sq_entries r)\<rparr>)"

definition sq_get_journal_entry where
  "sq_get_journal_entry sf i = sq_get (read_entry sf) (\<lambda>r. map_option er_document (om_get (sq_entries r) (as_str i)))"

definition sq_list_journal_entries where
  "sq_list_journal_entries sf l = sq_list (read_entry sf)
     (\<lambda>r. map er_document (filter (\<lambda>e. er_ledger e = as_str l) (om_values (sq_entries r))))"

definition sq_save_approval_request where
  "sq_save_approval_request sf q = sq_upsert (write_request sf q)
     (\<lambda>d r. r\<lparr>sq_requests := om_insert (as_str (ar_id q))
        \<lparr>rr_ledger = as_str (ar_ledger q), rr_entry = as_str (ar_entry q), rr_status = approval_status_debug (ar_status q),
         rr_document = d\<rparr> (sq_requests r)\<rparr>)"

definition sq_get_approval_request where
  "sq_get_approval_request sf i = sq_get (read_request sf) (\<lambda>r. map_option rr_document (om_get (sq_requests r) (as_str i)))"

definition sq_list_approval_requests where
  "sq_list_approval_requests sf l = sq_list (read_request sf)
     (\<lambda>r. map rr_document (filter (\<lambda>q. rr_ledger q = as_str l) (om_values (sq_requests r))))"

definition sqlite_ledger_repository :: "'d sqlite_formats \<Rightarrow> 'd sqlite_repository ledger_repository" where
  "sqlite_ledger_repository sf =
     \<lparr>save_ledger = sq_save_ledger sf, get_ledger = sq_get_ledger sf,
      save_member = sq_save_member sf, list_members = sq_list_members sf,
      save_journal_entry = sq_save_journal_entry sf, get_journal_entry = sq_get_journal_entry sf,
      list_journal_entries = sq_list_journal_entries sf,
      save_approval_request = sq_save_approval_request sf,
      get_approval_request = sq_get_approval_request sf,
      list_approval_requests = sq_list_approval_requests sf\<rparr>"

end
