(* ===== verification/SqliteProperties.thy ===== *)
theory SqliteProperties
  imports Sqlite LedgerProperties
begin

text \<open>
  The SQLite repository meets the contract of the trait, which is interpreted on it a second time, so that the ledger
  service over SQLite refines the same book of rules; and what is left when its second statement fails.
\<close>

section \<open>What is stored\<close>

definition result_option :: "('a, 'e) result \<Rightarrow> 'a option" where
  "result_option r = (case r of Ok x \<Rightarrow> Some x | _ \<Rightarrow> None)"

definition sq_view :: "'d sqlite_formats \<Rightarrow> 'd sqlite_repository \<Rightarrow> book_store" where
  "sq_view sf r =
     \<lparr>st_ledgers = \<lambda>i. Option.bind (om_get (sq_ledgers r) (as_str i)) (\<lambda>(_, d). result_option (read_ledger sf d)),
      st_members = \<lambda>l. List.map_filter (\<lambda>d. result_option (read_member sf d))
        (map snd (filter (\<lambda>(k, _). fst k = as_str l) (om_entries (sq_members r)))),
      st_entries = \<lambda>i. Option.bind (om_get (sq_entries r) (as_str i)) (\<lambda>e. result_option (read_entry sf (er_document e))),
      st_approvals = \<lambda>i. Option.bind (om_get (sq_requests r) (as_str i)) (\<lambda>q. result_option (read_request sf (rr_document q)))\<rparr>"

text \<open>What is documented of \<open>serde_json\<close> for these structs: they can be written, and are read back as they were.\<close>

definition formats_exact :: "'d sqlite_formats \<Rightarrow> bool" where
  "formats_exact sf \<longleftrightarrow>
     (\<forall>x. \<exists>d. write_ledger sf x = Ok d \<and> read_ledger sf d = Ok x) \<and> (\<forall>x. \<exists>d. write_member sf x = Ok d \<and> read_member sf d = Ok x)
   \<and> (\<forall>x. \<exists>d. write_entry sf x = Ok d \<and> read_entry sf d = Ok x) \<and> (\<forall>x. \<exists>d. write_request sf x = Ok d \<and> read_request sf d = Ok x)"

text \<open>Each row's document is that of an object with the row's key.\<close>

definition rows_exact :: "'d sqlite_formats \<Rightarrow> 'd sqlite_repository \<Rightarrow> bool" where
  "rows_exact sf r \<longleftrightarrow>
     (\<forall>k v. om_get (sq_ledgers r) k = Some v \<longrightarrow> (\<exists>x. read_ledger sf (snd v) = Ok x \<and> as_str (bl_id x) = k))
   \<and> (\<forall>k d. om_get (sq_members r) k = Some d \<longrightarrow> (\<exists>x. read_member sf d = Ok x))
   \<and> (\<forall>k e. om_get (sq_entries r) k = Some e \<longrightarrow> (\<exists>x. read_entry sf (er_document e) = Ok x \<and> as_str (je_id x) = k))
   \<and> (\<forall>k q. om_get (sq_requests r) k = Some q \<longrightarrow> (\<exists>x. read_request sf (rr_document q) = Ok x \<and> as_str (ar_id x) = k))"

definition sq_ok :: "'d sqlite_formats \<Rightarrow> 'd sqlite_repository \<Rightarrow> bool" where
  "sq_ok sf r \<longleftrightarrow> formats_exact sf \<and> rows_exact sf r \<and> \<not> sq_poisoned r \<and> sq_read_fault r = None \<and> sq_write_faults r = (\<lambda>_. None)"

lemma sq_query_ok: "sq_ok sf r \<Longrightarrow> sq_query f r = Ok (f r)"
  by (simp add: sq_query_def sq_conn_def sq_ok_def)

lemma sq_upsert_ok:
  "sq_ok sf r \<Longrightarrow> sq_upsert (Ok d) effect r = (Ok (), effect d (r\<lparr>sq_write_faults := \<lambda>_. None\<rparr>))"
  by (simp add: sq_upsert_def sq_conn_def sq_execute_def sq_ok_def Let_def)

lemma sq_get_ok:
  assumes "sq_ok sf r" "\<And>v. row r = Some v \<Longrightarrow> \<exists>x. read (document v) = Ok x"
  shows "sq_get read (\<lambda>r. map_option document (row r)) r = Ok (Option.bind (row r) (\<lambda>v. result_option (read (document v))))"
  using assms(2) by (cases "row r") (auto simp: sq_get_def sq_query_ok [OF assms(1)] result_option_def)

lemma map_result_filter:
  "(\<And>d. d \<in> set ds \<Longrightarrow> \<exists>x. read d = Ok x) \<Longrightarrow> map_result read ds = Ok (List.map_filter (\<lambda>d. result_option (read d)) ds)"
  by (induction ds) (force simp: result_option_def List.map_filter_simps)+

lemmas sqlite_ops = sqlite_ledger_repository_def sq_save_ledger_def sq_get_ledger_def sq_save_member_def sq_list_members_def
  sq_save_journal_entry_def sq_get_journal_entry_def sq_list_journal_entries_def sq_save_approval_request_def
  sq_get_approval_request_def sq_list_approval_requests_def

lemma as_str_eq: "as_str i = as_str j \<longleftrightarrow> i = j"
  by (auto intro: ident.expand)

interpretation sqlite: ledger_repository_laws "sqlite_ledger_repository sf" "sq_view sf" "sq_ok sf"
  for sf :: "'d sqlite_formats"
proof
  fix r :: "'d sqlite_repository" and x q l b e y a p
  assume ok: "sq_ok sf r"
  then have rows: "rows_exact sf r" and formats: "formats_exact sf" by (simp_all add: sq_ok_def)
  have readable: "om_get (sq_ledgers r) k = Some v \<Longrightarrow> \<exists>x. read_ledger sf (snd v) = Ok x"
    "om_get (sq_entries r) k = Some e \<Longrightarrow> \<exists>x. read_entry sf (er_document e) = Ok x"
    "om_get (sq_requests r) k = Some q \<Longrightarrow> \<exists>x. read_request sf (rr_document q) = Ok x" for k v e q
    using rows unfolding rows_exact_def by blast+
  show "get_ledger (sqlite_ledger_repository sf) l r = Ok (st_ledgers (sq_view sf r) l)"
    "get_journal_entry (sqlite_ledger_repository sf) e r = Ok (st_entries (sq_view sf r) e)"
    "get_approval_request (sqlite_ledger_repository sf) a r = Ok (st_approvals (sq_view sf r) a)"
    using readable
      sq_get_ok [OF ok, of "\<lambda>r. om_get (sq_ledgers r) (as_str l)" "read_ledger sf" snd]
      sq_get_ok [OF ok, of "\<lambda>r. om_get (sq_entries r) (as_str e)" "read_entry sf" er_document]
      sq_get_ok [OF ok, of "\<lambda>r. om_get (sq_requests r) (as_str a)" "read_request sf" rr_document]
    by (simp_all add: sqlite_ops sq_view_def case_prod_beta')
  show "list_members (sqlite_ledger_repository sf) l r = Ok (st_members (sq_view sf r) l)"
  proof -
    have "map_result (read_member sf) (map snd (filter (\<lambda>(k, _). fst k = as_str l) (om_entries (sq_members r))))
        = Ok (List.map_filter (\<lambda>d. result_option (read_member sf d))
            (map snd (filter (\<lambda>(k, _). fst k = as_str l) (om_entries (sq_members r)))))"
      using rows unfolding rows_exact_def by (intro map_result_filter) (auto simp: om_in_entries)
    then show ?thesis by (simp add: sqlite_ops sq_view_def sq_list_def sq_query_ok [OF ok])
  qed
  obtain d where d: "write_entry sf x = Ok d" "read_entry sf d = Ok x" using formats unfolding formats_exact_def by blast
  show "\<exists>r'. save_journal_entry (sqlite_ledger_repository sf) x r = (Ok (), r') \<and> sq_ok sf r'
      \<and> sq_view sf r' = (sq_view sf r)\<lparr>st_entries := (st_entries (sq_view sf r))(je_id x \<mapsto> x)\<rparr>"
  proof -
    obtain d where d: "write_entry sf x = Ok d" "read_entry sf d = Ok x" using formats unfolding formats_exact_def by blast
    show ?thesis
      using ok rows formats d(2)
      by (simp add: sqlite_ops d(1) sq_upsert_ok [OF ok] sq_view_def fun_eq_iff as_str_eq result_option_def)
        (simp add: sq_ok_def rows_exact_def)
  qed
  show "\<exists>r'. save_approval_request (sqlite_ledger_repository sf) q r = (Ok (), r') \<and> sq_ok sf r'
      \<and> sq_view sf r' = (sq_view sf r)\<lparr>st_approvals := (st_approvals (sq_view sf r))(ar_id q \<mapsto> q)\<rparr>"
  proof -
    obtain c where c: "write_request sf q = Ok c" "read_request sf c = Ok q" using formats unfolding formats_exact_def by blast
    show ?thesis
      using ok rows formats c(2)
      by (simp add: sqlite_ops c(1) sq_upsert_ok [OF ok] sq_view_def fun_eq_iff as_str_eq result_option_def)
        (simp add: sq_ok_def rows_exact_def)
  qed
  show "st_ledgers (sq_view sf r) l = Some b \<Longrightarrow> bl_id b = l"
    "st_entries (sq_view sf r) e = Some y \<Longrightarrow> je_id y = e" "st_approvals (sq_view sf r) a = Some p \<Longrightarrow> ar_id p = a"
    using rows unfolding rows_exact_def
    by (fastforce simp: sq_view_def as_str_eq result_option_def split: Option.bind_splits result.splits)+
qed


section \<open>The service over SQLite\<close>

fun sqlite_service_step :: "'d sqlite_formats \<Rightarrow> 'd sqlite_repository \<Rightarrow> service_call \<Rightarrow> 'd sqlite_repository" where
  "sqlite_service_step sf r (SubmitEntry u e) = snd (submit_entry (sqlite_ledger_repository sf) u e r)"
| "sqlite_service_step sf r (DecideApproval u i v note) =
     snd (ledger_decide_approval (sqlite_ledger_repository sf) u i v note r)"

lemma sqlite_step_refines:
  assumes "sq_ok sf r"
  shows "sq_ok sf (sqlite_service_step sf r c)
    \<and> (sqlite_service_step sf r c = r \<or> book_step (sq_view sf r) (sq_view sf (sqlite_service_step sf r c)))"
proof (cases c)
  case (SubmitEntry u e)
  then show ?thesis using sqlite.submit_entry_refines [OF assms, where actor = u and e = e] assms
    by (cases "submit_entry (sqlite_ledger_repository sf) u e r";
        cases "fst (submit_entry (sqlite_ledger_repository sf) u e r)") auto
next
  case (DecideApproval u i v n)
  then show ?thesis
    using sqlite.decide_approval_refines [OF assms, where actor = u and i = i and v = v and ?note = n] assms
    by (cases "ledger_decide_approval (sqlite_ledger_repository sf) u i v n r";
        cases "fst (ledger_decide_approval (sqlite_ledger_repository sf) u i v n r)") (auto intro: decided)
qed

text \<open>What is reached from a store by the rules of the book.\<close>

definition sqlite_reaches :: "'d sqlite_formats \<Rightarrow> book_store \<Rightarrow> 'd sqlite_repository \<Rightarrow> bool" where
  "sqlite_reaches sf s0 r \<longleftrightarrow> sq_ok sf r \<and> book_ok (sq_view sf r) \<and> book_step\<^sup>*\<^sup>* s0 (sq_view sf r)"

interpretation sqlite_service: invariant_machine "sqlite_service_step sf" "sqlite_reaches sf s0" "\<lambda>_. True" for sf s0
proof
  fix r c assume r: "sqlite_reaches sf s0 r"
  then have "sq_ok sf r" by (simp add: sqlite_reaches_def)
  from sqlite_step_refines [OF this, of c] r
    book_step_ok [of "sq_view sf r" "sq_view sf (sqlite_service_step sf r c)"]
  show "sqlite_reaches sf s0 (sqlite_service_step sf r c)"
    by (auto simp: sqlite_reaches_def intro: rtranclp.rtrancl_into_rtrancl)
qed

section \<open>A store with a company ledger\<close>

datatype document = DLedger book_ledger | DMember ledger_member | DEntry journal_entry | DRequest approval_request

definition demo_formats :: "document sqlite_formats" where
  "demo_formats = \<lparr>write_ledger = Ok \<circ> DLedger, read_ledger = \<lambda>d. case d of DLedger x \<Rightarrow> Ok x | _ \<Rightarrow> Err ''ledger'',
     write_member = Ok \<circ> DMember, read_member = \<lambda>d. case d of DMember x \<Rightarrow> Ok x | _ \<Rightarrow> Err ''member'',
     write_entry = Ok \<circ> DEntry, read_entry = \<lambda>d. case d of DEntry x \<Rightarrow> Ok x | _ \<Rightarrow> Err ''entry'',
     write_request = Ok \<circ> DRequest, read_request = \<lambda>d. case d of DRequest x \<Rightarrow> Ok x | _ \<Rightarrow> Err ''request''\<rparr>"

definition sqlite_empty :: "document sqlite_repository" where
  "sqlite_empty = \<lparr>sq_poisoned = False, sq_write_faults = \<lambda>_. None, sq_read_fault = None,
     sq_ledgers = om_empty, sq_members = om_empty, sq_entries = om_empty, sq_requests = om_empty\<rparr>"

definition demo_sqlite :: "document sqlite_repository" where
  "demo_sqlite = fold (\<lambda>m r. snd (sq_save_member demo_formats m r))
     [demo_member ''bo'' LBookkeeper, demo_member ''ap'' LApprover]
     (snd (sq_save_ledger demo_formats demo_company sqlite_empty))"

lemmas sqlite_stores = demo_sqlite_def demo_formats_def sqlite_empty_def sqlite_ops sq_upsert_def sq_query_def sq_get_def
  sq_list_def sq_conn_def sq_execute_def attempt_def attempt_pure_def

lemma demo_sqlite_eq:
  "demo_sqlite = \<lparr>sq_poisoned = False, sq_write_faults = \<lambda>_. None, sq_read_fault = None,
     sq_ledgers = om_insert ''co'' (''company_public'', DLedger demo_company) om_empty,
     sq_members = om_insert (''co'', ''ap'', ''Approver'') (DMember (demo_member ''ap'' LApprover))
       (om_insert (''co'', ''bo'', ''Bookkeeper'') (DMember (demo_member ''bo'' LBookkeeper)) om_empty),
     sq_entries = om_empty, sq_requests = om_empty\<rparr>"
  by (simp add: sqlite_stores demo_company_def demo_member_def ledger_member_new_def Let_def)

lemma demo_sqlite_ok: "sq_ok demo_formats demo_sqlite"
  by (simp add: sq_ok_def demo_sqlite_eq rows_exact_def formats_exact_def demo_formats_def demo_company_def)

lemma demo_sqlite_book: "book_ok (sq_view demo_formats demo_sqlite)"
  by (simp add: book_ok_def sq_view_def demo_sqlite_eq)


section \<open>Properties\<close>

text \<open>
  C17: over SQLite, too, the service follows the rules of the book: as long as the database answers,
  every sequence of submissions and decisions leads from one store to another by steps of the abstract transition relation alone,
  so that what is stored keeps the invariant of the book (entries balance, and what is posted has been approved by
  somebody else or is an owner's below the threshold), and every row is still read back as an object with the row's key.
\<close>

theorem sqlite_service_follows_book:
  assumes "sq_ok sf r" "book_ok (sq_view sf r)"
  shows "let r' = run (sqlite_service_step sf) r calls in
      rows_exact sf r' \<and> book_step\<^sup>*\<^sup>* (sq_view sf r) (sq_view sf r') \<and> book_ok (sq_view sf r')"
proof -
  have "sqlite_reaches sf (sq_view sf r) (run (sqlite_service_step sf) r calls)"
    by (rule sqlite_service.run_inv) (simp_all add: sqlite_reaches_def assms)
  then show ?thesis by (simp add: sqlite_reaches_def sq_ok_def Let_def)
qed

definition demo_decided :: "document sqlite_repository" where
  "demo_decided = run (sqlite_service_step demo_formats) demo_sqlite demo_calls"

theorem sqlite_service_follows_book_witness:
  "book_ok (sq_view demo_formats demo_decided)
     \<and> book_step\<^sup>*\<^sup>* (sq_view demo_formats demo_sqlite) (sq_view demo_formats demo_decided)"
  using sqlite_service_follows_book [OF demo_sqlite_ok demo_sqlite_book, of demo_calls]
  by (simp add: Let_def demo_decided_def)

text \<open>A decision that succeeds on one store makes the same two writes on any other that reads the same.\<close>

lemma decision_saves:
  assumes "ledger_decide_approval repo u i v note s = (Ok out, s')"
    and "\<And>a. get_approval_request repo a r = get_approval_request repo a s"
    and "\<And>e. get_journal_entry repo e r = get_journal_entry repo e s"
    and "\<And>l. get_ledger repo l r = get_ledger repo l s"
    and "\<And>l. list_members repo l r = list_members repo l s"
  shows "ledger_decide_approval repo u i v note r =
     perform (save_journal_entry repo (outcome_entry out) r) SRepository (\<lambda>_ r.
       perform (save_approval_request repo (outcome_request out) r) SRepository (\<lambda>_ r. (Ok out, r)))"
  using assms(1) by (auto simp: ledger_decide_approval_def assms(2-) inversion Let_def case_prod_beta
      split: if_splits)

text \<open>What is read does not depend on what later writes meet.\<close>

lemma reads_ignore_writes:
  "get_ledger (sqlite_ledger_repository sf) l r = get_ledger (sqlite_ledger_repository sf) l (r\<lparr>sq_write_faults := f\<rparr>)"
  "list_members (sqlite_ledger_repository sf) l r = list_members (sqlite_ledger_repository sf) l (r\<lparr>sq_write_faults := f\<rparr>)"
  "get_journal_entry (sqlite_ledger_repository sf) e r = get_journal_entry (sqlite_ledger_repository sf) e (r\<lparr>sq_write_faults := f\<rparr>)"
  "get_approval_request (sqlite_ledger_repository sf) a r = get_approval_request (sqlite_ledger_repository sf) a (r\<lparr>sq_write_faults := f\<rparr>)"
  "sq_view sf r = sq_view sf (r\<lparr>sq_write_faults := f\<rparr>)"
  by (simp_all add: sqlite_ops sq_get_def sq_list_def sq_query_def sq_conn_def sq_view_def split: option.split)

text \<open>
  C23: a decision is stored in two statements that no transaction joins. When the second one fails, the caller is told
  that the decision was not stored, but the entry already has the status the decision gave it, while the
  request in the database stays without the decision.
\<close>

theorem half_stored_decision:
  assumes "sq_ok sf (r\<lparr>sq_write_faults := \<lambda>_. None\<rparr>)"
    and "sq_write_faults r 0 = None" "sq_write_faults r 1 = Some m"
    and "ledger_decide_approval (sqlite_ledger_repository sf) u i v note (r\<lparr>sq_write_faults := \<lambda>_. None\<rparr>) = (Ok out, r0)"
    and "ledger_decide_approval (sqlite_ledger_repository sf) u i v note r = (answer, r')"
  shows "answer = Err (SRepository (Backend m))
    \<and> st_entries (sq_view sf r') = (st_entries (sq_view sf r))(je_id (outcome_entry out) \<mapsto> outcome_entry out)
    \<and> st_approvals (sq_view sf r') = st_approvals (sq_view sf r)"
proof -
  have formats: "formats_exact sf" and up: "\<not> sq_poisoned r" using assms(1) by (simp_all add: sq_ok_def)
  obtain d where d: "write_entry sf (outcome_entry out) = Ok d" "read_entry sf d = Ok (outcome_entry out)"
    using formats unfolding formats_exact_def by blast
  obtain q where q: "write_request sf (outcome_request out) = Ok q" using formats unfolding formats_exact_def by blast
  have "(answer, r') = perform (save_journal_entry (sqlite_ledger_repository sf) (outcome_entry out) r) SRepository (\<lambda>_ r.
      perform (save_approval_request (sqlite_ledger_repository sf) (outcome_request out) r) SRepository (\<lambda>_ r. (Ok out, r)))"
    using decision_saves [OF assms(4) reads_ignore_writes(4,3,1,2), symmetric] assms(5) by simp
  then show ?thesis using assms(2,3) up d q
    by (simp add: sqlite_ops sq_upsert_def sq_conn_def sq_execute_def perform_def Let_def)
      (simp add: sq_view_def fun_eq_iff as_str_eq result_option_def)
qed


definition demo_submitted :: "document sqlite_repository" where
  "demo_submitted = sqlite_service_step demo_formats demo_sqlite (SubmitEntry (Ident ''bo'') (demo_entry ''e1'' ''bo'' 2000))"

definition demo_failing :: "document sqlite_repository" where
  "demo_failing = demo_submitted\<lparr>sq_write_faults := \<lambda>n. if n = 1 then Some ''disk full'' else None\<rparr>"

definition demo_vote :: "document sqlite_repository \<Rightarrow> (approval_outcome, service_error) result \<times> document sqlite_repository" where
  "demo_vote = ledger_decide_approval (sqlite_ledger_repository demo_formats) (Ident ''ap'') (Ident ''approval:e1'') Approve None"

lemma demo_submitted_ok: "sq_ok demo_formats demo_submitted"
  unfolding demo_submitted_def using sqlite_step_refines [OF demo_sqlite_ok] by blast

lemma demo_submitted_no_fault: "demo_submitted\<lparr>sq_write_faults := \<lambda>_. None\<rparr> = demo_submitted"
  using demo_submitted_ok by (simp add: sq_ok_def)

definition demo_waiting :: journal_entry where
  "demo_waiting = demo_entry ''e1'' ''bo'' 2000 \<lparr>je_status := JPendingApproval\<rparr>"

definition demo_request :: approval_request where
  "demo_request = approval_request_new (Ident ''approval:e1'') (Ident ''co'') (Ident ''e1'') (Ident ''bo'')
     \<lparr>min_approvals = 1, required_roles = [LApprover, LOwner], reason = CompanyLedger\<rparr>"

lemma demo_submitted_eq:
  "demo_submitted = demo_sqlite\<lparr>
     sq_entries := om_insert ''e1'' \<lparr>er_ledger = ''co'', er_status = ''PendingApproval'', er_document = DEntry demo_waiting\<rparr> om_empty,
     sq_requests := om_insert ''approval:e1'' \<lparr>rr_ledger = ''co'', rr_entry = ''e1'', rr_status = ''Pending'', rr_document = DRequest demo_request\<rparr> om_empty\<rparr>"
  by (simp add: demo_submitted_def demo_waiting_def demo_request_def demo_sqlite_eq demo_defs lookup_defs service_defs sqlite_stores)

lemma demo_vote_posts:
  "case fst (demo_vote demo_submitted) of Ok out \<Rightarrow> je_id (outcome_entry out) = Ident ''e1'' \<and> je_status (outcome_entry out) = JPosted | _ \<Rightarrow> False"
  by (simp add: demo_vote_def demo_submitted_eq demo_waiting_def demo_request_def demo_sqlite_eq demo_defs lookup_defs service_defs sqlite_stores)

lemma demo_pending:
  "map_option ar_status (st_approvals (sq_view demo_formats demo_failing) (Ident ''approval:e1'')) = Some ASPending"
  by (simp add: demo_failing_def demo_submitted_eq sq_view_def demo_formats_def result_option_def demo_request_def approval_request_new_def)

theorem half_stored_decision_witness:
  "fst (demo_vote demo_failing) = Err (SRepository (Backend ''disk full''))
     \<and> map_option je_status (st_entries (sq_view demo_formats (snd (demo_vote demo_failing))) (Ident ''e1'')) = Some JPosted
     \<and> map_option ar_status (st_approvals (sq_view demo_formats (snd (demo_vote demo_failing))) (Ident ''approval:e1'')) = Some ASPending"
proof -
  obtain out r0 where good: "demo_vote demo_submitted = (Ok out, r0)"
    and out: "je_id (outcome_entry out) = Ident ''e1''" "je_status (outcome_entry out) = JPosted"
    using demo_vote_posts by (cases "demo_vote demo_submitted") (auto split: result.splits)
  obtain answer r' where bad: "demo_vote demo_failing = (answer, r')" by fastforce
  have "demo_failing\<lparr>sq_write_faults := \<lambda>_. None\<rparr> = demo_submitted"
    using demo_submitted_no_fault by (simp add: demo_failing_def)
  then have "answer = Err (SRepository (Backend ''disk full''))
      \<and> st_entries (sq_view demo_formats r') = (st_entries (sq_view demo_formats demo_failing))(je_id (outcome_entry out) \<mapsto> outcome_entry out)
      \<and> st_approvals (sq_view demo_formats r') = st_approvals (sq_view demo_formats demo_failing)"
    using half_stored_decision [of demo_formats demo_failing "''disk full''" "Ident ''ap''" "Ident ''approval:e1''" Approve None out r0 answer r']
      good bad demo_submitted_ok by (simp add: demo_vote_def demo_failing_def)
  then show ?thesis using bad out demo_pending by simp
qed

end
