(* ===== verification/Config.thy ===== *)
theory Config
  imports StateFiles LoginProtection
begin

text \<open>
  The configuration of the server (\<open>cloudledger-server/src/config.rs\<close>): its sections, the checks, the credentials and keys
  that are completed at the start, and the private file. Parameters are what other crates do: \<open>url\<close>, \<open>semver\<close> (any linear
  order of versions), \<open>toml\<close>, \<open>base64\<close>, \<open>uuid\<close>, the networks of \<open>ipnet\<close>. An address is opaque, as in \<open>LoginProtection\<close>.
\<close>

section \<open>The sections\<close>

datatype run_mode = ReverseProxy | Development

type_synonym socket_addr = "ip_addr \<times> nat"
type_synonym ip_net = "ip_addr \<times> nat"

record server_config =
  sc_mode :: run_mode
  sc_api_bind_addr :: socket_addr
  sc_admin_bind_addr :: socket_addr
  sc_public_api_url :: string
  sc_public_admin_url :: string
  sc_allow_insecure_lan :: bool
  sc_web_login_enabled :: bool
  sc_client_version :: string
  sc_min_supported_client_version :: string
  sc_client_download_url :: string
  sc_data_dir :: string

record database_config =
  dc_url :: string
  dc_auto_migrate :: bool
  dc_max_connections :: nat
  dc_connect_timeout_seconds :: nat

record admin_config =
  ac_path :: string
  ac_token :: string

record turnstile_config =
  tc_site_key :: string
  tc_secret_key :: string
  tc_verify_url :: string

record network_security_config =
  nc_trusted_proxy_cidrs :: "ip_net list"
  nc_cors_allowed_origins :: "string list"

record audit_security_config =
  asc_key_id :: string
  asc_hmac_key :: string
  asc_identifier_hmac_key :: string

record security_config =
  sec_login :: login_security_config
  sec_turnstile :: turnstile_config
  sec_network :: network_security_config
  sec_audit :: audit_security_config

record backend_config =
  bc_server :: server_config
  bc_database :: database_config
  bc_admin :: admin_config
  bc_security :: security_config

section \<open>The outside\<close>

record parsed_url =
  url_scheme :: string
  url_host :: "string option"
  url_password :: "string option"
  url_path :: string
  url_query :: "string option"
  url_fragment :: "string option"
  url_pairs :: "(string \<times> string) list"

record 'v config_env =
  cv_url :: "string \<Rightarrow> parsed_url option"
  cv_semver :: "string \<Rightarrow> 'v option"
  cv_parse_ip :: "string \<Rightarrow> ip_addr option"
  cv_loopback :: "ip_addr \<Rightarrow> bool"
  cv_localhost :: ip_addr
  cv_contains :: "ip_net \<Rightarrow> ip_addr \<Rightarrow> bool"
  cv_encode_key :: "string \<Rightarrow> string"
  cv_decode_key :: "string \<Rightarrow> string option"
  cv_uuid_simple :: "uuid \<Rightarrow> string"
  cv_uuid_text :: "uuid \<Rightarrow> string"
  cv_read :: "string \<Rightarrow> (backend_config, string) result"
  cv_write :: "backend_config \<Rightarrow> (string, string) result"

datatype config_error = Bail string | LoginSettings login_config_error | Io string

text \<open>The disk with the permissions of its files, the identifiers and the keys that are drawn.\<close>

record config_world =
  cw_disk :: disk
  cw_modes :: "string \<Rightarrow> nat"
  cw_world :: world
  cw_keys :: "nat \<Rightarrow> string"

section \<open>Defaults\<close>

definition default_turnstile_verify_url :: string where
  "default_turnstile_verify_url = ''https://challenges.cloudflare.com/turnstile/v0/siteverify''"

definition server_config_default :: "'v config_env \<Rightarrow> server_config" where
  "server_config_default ce =
     \<lparr>sc_mode = Development, sc_api_bind_addr = (cv_localhost ce, 8787), sc_admin_bind_addr = (cv_localhost ce, 8788),
      sc_public_api_url = ''http://127.0.0.1:8787'', sc_public_admin_url = ''http://127.0.0.1:8788'',
      sc_allow_insecure_lan = False, sc_web_login_enabled = False, sc_client_version = ''0.1.13'',
      sc_min_supported_client_version = ''0.0.0'',
      sc_client_download_url = ''https://github.com/dahai9/CloudLedger/releases/latest'',
      sc_data_dir = ''.cloudledger-server''\<rparr>"

definition database_config_default :: database_config where
  "database_config_default =
     \<lparr>dc_url = ''postgres://cloudledger@127.0.0.1:5432/cloudledger'', dc_auto_migrate = True, dc_max_connections = 10,
      dc_connect_timeout_seconds = 10\<rparr>"

definition network_security_default :: "'v config_env \<Rightarrow> network_security_config" where
  "network_security_default ce =
     \<lparr>nc_trusted_proxy_cidrs = [(cv_localhost ce, 32)],
      nc_cors_allowed_origins = [''tauri://localhost'', ''https://tauri.localhost'']\<rparr>"

definition turnstile_config_default :: turnstile_config where
  "turnstile_config_default = \<lparr>tc_site_key = [], tc_secret_key = [], tc_verify_url = default_turnstile_verify_url\<rparr>"

definition backend_config_default :: "'v config_env \<Rightarrow> backend_config" where
  "backend_config_default ce =
     \<lparr>bc_server = server_config_default ce, bc_database = database_config_default,
      bc_admin = \<lparr>ac_path = [], ac_token = []\<rparr>,
      bc_security = \<lparr>sec_login = login_security_default, sec_turnstile = turnstile_config_default,
        sec_network = network_security_default ce,
        sec_audit = \<lparr>asc_key_id = [], asc_hmac_key = [], asc_identifier_hmac_key = []\<rparr>\<rparr>\<rparr>"

section \<open>The checks\<close>

definition is_ascii_alphanumeric :: "char \<Rightarrow> bool" where
  "is_ascii_alphanumeric c \<longleftrightarrow> is_ascii_lowercase c \<or> is_ascii_uppercase c \<or> 48 \<le> byte c \<and> byte c \<le> 57"

definition eq_ignore_ascii_case :: "string \<Rightarrow> string \<Rightarrow> bool" where
  "eq_ignore_ascii_case s t \<longleftrightarrow> to_ascii_lowercase s = to_ascii_lowercase t"

definition starts_with :: "string \<Rightarrow> string \<Rightarrow> bool" where
  "starts_with p s \<longleftrightarrow> take (length p) s = p"

text \<open>\<open>if condition { bail!(message) }\<close>, and \<open>parse(...).with_context(message)?\<close>\<close>

definition bail_if :: "bool \<Rightarrow> string \<Rightarrow> (unit, config_error) result" where
  "bail_if b message = (if b then Err (Bail message) else Ok ())"

definition validate_database_url :: "'v config_env \<Rightarrow> string \<Rightarrow> (parsed_url, config_error) result" where
  "validate_database_url ce value =
     attempt_pure (ok_or (cv_url ce value) (Bail ''database.url must be a valid URL'')) id (\<lambda>parsed.
     if url_scheme parsed \<notin> {''postgres'', ''postgresql''} then Err (Bail ''database.url must be a PostgreSQL connection URL'')
     else Ok parsed)"

definition validate_public_url :: "'v config_env \<Rightarrow> string \<Rightarrow> string \<Rightarrow> (parsed_url, config_error) result" where
  "validate_public_url ce name value =
     attempt_pure (ok_or (cv_url ce value) (Bail (name @ '' must be an absolute URL''))) id (\<lambda>parsed.
     if url_scheme parsed \<notin> {''http'', ''https''} \<or> url_host parsed = None
     then Err (Bail (name @ '' must be an absolute HTTP(S) URL''))
     else Ok parsed)"

definition reject_known_database_password :: "parsed_url \<Rightarrow> (unit, config_error) result" where
  "reject_known_database_password u =
     (let password = (case url_password u of Some p \<Rightarrow> p | None \<Rightarrow> []) in
      bail_if (password = [] \<or> password \<in> {''cloudledger'', ''postgres'', ''change-this-password''})
        ''reverse_proxy mode requires a non-example database password'')"

definition is_loopback_host :: "'v config_env \<Rightarrow> string \<Rightarrow> bool" where
  "is_loopback_host ce host \<longleftrightarrow>
     eq_ignore_ascii_case host ''localhost''
   \<or> (case cv_parse_ip ce host of Some ip \<Rightarrow> cv_loopback ce ip | None \<Rightarrow> False)"

definition validate_production_database_url :: "'v config_env \<Rightarrow> parsed_url \<Rightarrow> (unit, config_error) result" where
  "validate_production_database_url ce u =
     attempt_pure (reject_known_database_password u) id (\<lambda>_.
     let host = (case url_host u of Some h \<Rightarrow> h | None \<Rightarrow> []) in
     bail_if (\<not> is_loopback_host ce host
         \<and> (case List.find (\<lambda>(key, _). key = ''sslmode'') (url_pairs u) of None \<Rightarrow> True | Some (_, v) \<Rightarrow> v \<noteq> ''verify-full''))
       ''remote PostgreSQL requires sslmode=verify-full in reverse_proxy mode'')"

definition tauri_origins :: "string list" where
  "tauri_origins = [''tauri://localhost'', ''https://tauri.localhost'']"

definition lan_listener :: "'v config_env \<Rightarrow> server_config \<Rightarrow> bool" where
  "lan_listener ce s \<longleftrightarrow> \<not> cv_loopback ce (fst (sc_api_bind_addr s)) \<or> \<not> cv_loopback ce (fst (sc_admin_bind_addr s))"

definition plain_public_url :: "server_config \<Rightarrow> bool" where
  "plain_public_url s \<longleftrightarrow> \<not> starts_with ''https://'' (sc_public_api_url s) \<or> \<not> starts_with ''https://'' (sc_public_admin_url s)"

definition validate_server_mode :: "'v config_env \<Rightarrow> backend_config \<Rightarrow> parsed_url \<Rightarrow> (unit, config_error) result" where
  "validate_server_mode ce c database_url =
     (let server = bc_server c; turnstile = sec_turnstile (bc_security c) in
      case sc_mode server of
        ReverseProxy \<Rightarrow>
          attempt_pure (bail_if (lan_listener ce server) ''reverse_proxy mode requires API and admin listeners on loopback'') id (\<lambda>_.
          attempt_pure (bail_if (plain_public_url server) ''reverse_proxy mode requires HTTPS public URLs'') id (\<lambda>_.
          attempt_pure (bail_if (sc_web_login_enabled server) ''Web login must be disabled in reverse_proxy mode'') id (\<lambda>_.
          attempt_pure (bail_if (dc_auto_migrate (bc_database c))
            ''reverse_proxy mode requires database.auto_migrate = false; use the one-time migrate command'') id (\<lambda>_.
          attempt_pure (bail_if (tc_site_key turnstile = [] \<or> tc_secret_key turnstile = [])
            ''reverse_proxy mode requires Cloudflare Turnstile'') id (\<lambda>_.
          attempt_pure (validate_production_database_url ce database_url) id (\<lambda>_.
          bail_if (\<exists>origin \<in> set (nc_cors_allowed_origins (sec_network (bc_security c))). origin \<notin> set tauri_origins)
            ''reverse_proxy mode permits only built-in Tauri CORS origins''))))))
      | Development \<Rightarrow>
          attempt_pure (bail_if (lan_listener ce server \<and> \<not> sc_allow_insecure_lan server)
            ''development LAN HTTP requires server.allow_insecure_lan = true'') id (\<lambda>_.
          bail_if (sc_web_login_enabled server \<and> plain_public_url server)
            ''development Web login requires local HTTPS public URLs''))"

definition quoted :: "string \<Rightarrow> string" where
  "quoted s = CHR 0x27 # s @ [CHR 0x27]"

definition validate_admin_path :: "string \<Rightarrow> (unit, config_error) result" where
  "validate_admin_path value =
     bail_if (\<not> (16 \<le> length value \<and> length value \<le> 128 \<and> value \<noteq> ''admin''
       \<and> (\<forall>c \<in> set value. is_ascii_alphanumeric c \<or> c = CHR ''-'' \<or> c = CHR ''_'')))
       (''admin.path must be one 16-128 character path segment using letters, numbers, '' @ quoted ''-'' @ '' or '' @ quoted ''_''
         @ '', and cannot be '' @ quoted ''admin'')"

definition decode_32_byte_key :: "'v config_env \<Rightarrow> string \<Rightarrow> string \<Rightarrow> (string, config_error) result" where
  "decode_32_byte_key ce name value =
     attempt_pure (ok_or (cv_decode_key ce value) (Bail (name @ '' must use unpadded base64url''))) id (\<lambda>decoded.
     if length decoded \<noteq> 32 then Err (Bail (name @ '' must decode to exactly 32 bytes'')) else Ok decoded)"

definition validate_origin :: "'v config_env \<Rightarrow> string \<Rightarrow> (unit, config_error) result" where
  "validate_origin ce origin =
     attempt_pure (ok_or (cv_url ce origin) (Bail (''invalid CORS origin '' @ origin))) id (\<lambda>parsed.
     bail_if (url_path parsed \<notin> {[], ''/''} \<or> url_query parsed \<noteq> None \<or> url_fragment parsed \<noteq> None)
       (''CORS origin must contain only scheme and authority: '' @ origin))"

definition validate_versions :: "'v::linorder config_env \<Rightarrow> server_config \<Rightarrow> (unit, config_error) result" where
  "validate_versions ce s =
     attempt_pure (ok_or (cv_semver ce (sc_client_version s))
       (Bail ''server.client_version must be valid semantic version'')) id (\<lambda>current.
     attempt_pure (ok_or (cv_semver ce (sc_min_supported_client_version s))
       (Bail ''server.min_supported_client_version must be valid semantic version'')) id (\<lambda>minimum.
     bail_if (minimum > current) ''server.min_supported_client_version cannot exceed server.client_version''))"

definition validate_download_url :: "'v config_env \<Rightarrow> server_config \<Rightarrow> (unit, config_error) result" where
  "validate_download_url ce s =
     attempt_pure (ok_or (cv_url ce (sc_client_download_url s)) (Bail ''server.client_download_url must be a valid URL'')) id (\<lambda>u.
     bail_if (url_scheme u \<noteq> ''https'' \<or> url_host u = None) ''server.client_download_url must use HTTPS'')"

definition validate_security :: "'v config_env \<Rightarrow> security_config \<Rightarrow> (unit, config_error) result" where
  "validate_security ce s =
     (let turnstile = sec_turnstile s; origins = nc_cors_allowed_origins (sec_network s); audit = sec_audit s in
      attempt_pure (validate_login_security (sec_login s)) LoginSettings (\<lambda>_.
      attempt_pure (bail_if ((tc_site_key turnstile = []) \<noteq> (tc_secret_key turnstile = []))
        ''security.turnstile.site_key and security.turnstile.secret_key must be configured together'') id (\<lambda>_.
      attempt_pure (bail_if (tc_verify_url turnstile = []) ''security.turnstile.verify_url cannot be empty'') id (\<lambda>_.
      attempt_pure (bail_if (\<exists>origin \<in> set origins. CHR ''*'' \<in> set origin)
        ''security.network.cors_allowed_origins must not contain wildcards'') id (\<lambda>_.
      attempt_pure (map_result (validate_origin ce) origins) id (\<lambda>_.
      bail_if (asc_key_id audit = []
          \<or> \<not> is_ok (decode_32_byte_key ce ''security.audit.hmac_key'' (asc_hmac_key audit))
          \<or> \<not> is_ok (decode_32_byte_key ce ''security.audit.identifier_hmac_key'' (asc_identifier_hmac_key audit)))
        ''security.audit.key_id and 32-byte hmac_key/identifier_hmac_key are required''))))))"

definition config_validate :: "'v::linorder config_env \<Rightarrow> backend_config \<Rightarrow> (unit, config_error) result" where
  "config_validate ce c =
     (let server = bc_server c; database = bc_database c in
      attempt_pure (bail_if (sc_data_dir server = []) ''server.data_dir cannot be empty'') id (\<lambda>_.
      attempt_pure (validate_database_url ce (dc_url database)) id (\<lambda>database_url.
      attempt_pure (bail_if (dc_max_connections database = 0) ''database.max_connections must be greater than zero'') id (\<lambda>_.
      attempt_pure (bail_if (dc_connect_timeout_seconds database = 0)
        ''database.connect_timeout_seconds must be greater than zero'') id (\<lambda>_.
      attempt_pure (validate_public_url ce ''server.public_api_url'' (sc_public_api_url server)) id (\<lambda>_.
      attempt_pure (validate_public_url ce ''server.public_admin_url'' (sc_public_admin_url server)) id (\<lambda>_.
      attempt_pure (validate_versions ce server) id (\<lambda>_.
      attempt_pure (validate_download_url ce server) id (\<lambda>_.
      attempt_pure (validate_server_mode ce c database_url) id (\<lambda>_.
      attempt_pure (validate_admin_path (ac_path (bc_admin c))) id (\<lambda>_.
      attempt_pure (bail_if (ac_token (bc_admin c) = []) ''admin.token cannot be empty'') id (\<lambda>_.
      validate_security ce (bc_security c)))))))))))))"

definition validate_migration_database_url :: "'v config_env \<Rightarrow> backend_config \<Rightarrow> string \<Rightarrow> (unit, config_error) result" where
  "validate_migration_database_url ce c value =
     attempt_pure (validate_database_url ce value) id (\<lambda>database_url.
     if sc_mode (bc_server c) = ReverseProxy then validate_production_database_url ce database_url else Ok ())"


section \<open>Completing and trimming\<close>

definition on_disk :: "(disk \<Rightarrow> ('a, string) result \<times> disk) \<Rightarrow> config_world \<Rightarrow> ('a, config_error) result \<times> config_world" where
  "on_disk f \<sigma> = (let (r, d) = f (cw_disk \<sigma>); \<sigma> = \<sigma>\<lparr>cw_disk := d\<rparr> in attempt r Io \<sigma> (\<lambda>x. (Ok x, \<sigma>)))"

definition draw_uuid :: "config_world \<Rightarrow> uuid \<times> config_world" where
  "draw_uuid \<sigma> = (let (i, w) = new_v4 (cw_world \<sigma>) in (i, \<sigma>\<lparr>cw_world := w\<rparr>))"

definition random_key :: "'v config_env \<Rightarrow> config_world \<Rightarrow> string \<times> config_world" where
  "random_key ce \<sigma> = (cv_encode_key ce (cw_keys \<sigma> 0), \<sigma>\<lparr>cw_keys := \<lambda>n. cw_keys \<sigma> (Suc n)\<rparr>)"

definition path_join :: "string \<Rightarrow> string \<Rightarrow> string" where
  "path_join dir file = (if dir = [] \<or> last dir = CHR ''/'' then dir @ file else dir @ ''/'' @ file)"

text \<open>\<open>0o600\<close>\<close>

definition private_mode :: nat where
  "private_mode = 6 * 64"

definition restrict_private_file_permissions :: "string \<Rightarrow> config_world \<Rightarrow> (unit, config_error) result \<times> config_world" where
  "restrict_private_file_permissions path \<sigma> =
     perform (on_disk touch_nothing \<sigma>) id (\<lambda>_ \<sigma>.
     if dk_files (cw_disk \<sigma>) path = None then (Err (Io ''No such file or directory''), \<sigma>)
     else if cw_modes \<sigma> path \<noteq> private_mode
     then perform (on_disk touch_nothing \<sigma>) id (\<lambda>_ \<sigma>. (Ok (), \<sigma>\<lparr>cw_modes := (cw_modes \<sigma>)(path := private_mode)\<rparr>))
     else (Ok (), \<sigma>))"

definition read_legacy_value :: "string \<Rightarrow> config_world \<Rightarrow> (string option, config_error) result \<times> config_world" where
  "read_legacy_value path \<sigma> =
     perform (on_disk (path_exists path) \<sigma>) id (\<lambda>found \<sigma>.
     if \<not> found then (Ok None, \<sigma>)
     else perform (restrict_private_file_permissions path \<sigma>) id (\<lambda>_ \<sigma>.
       perform (on_disk (read_to_string path) \<sigma>) id (\<lambda>value \<sigma>.
       let value = trim value in (Ok (if value \<noteq> [] then Some value else None), \<sigma>))))"

text \<open>The value of the old file, or a new one made of a random identifier.\<close>

definition legacy_or_new ::
  "string \<Rightarrow> (uuid \<Rightarrow> string) \<Rightarrow> config_world \<Rightarrow> (string, config_error) result \<times> config_world" where
  "legacy_or_new path text \<sigma> =
     perform (read_legacy_value path \<sigma>) id (\<lambda>value \<sigma>.
     case value of Some v \<Rightarrow> (Ok v, \<sigma>) | None \<Rightarrow> let (i, \<sigma>) = draw_uuid \<sigma> in (Ok (text i), \<sigma>))"

definition complete_admin_credentials ::
  "'v config_env \<Rightarrow> backend_config \<Rightarrow> config_world \<Rightarrow> (bool \<times> backend_config, config_error) result \<times> config_world" where
  "complete_admin_credentials ce c \<sigma> =
     (let dir = sc_data_dir (bc_server c); admin = bc_admin c; no_path = trim (ac_path admin) = [] in
      perform (if no_path then legacy_or_new (path_join dir ''admin-path'') (\<lambda>i. ''manage-'' @ cv_uuid_simple ce i) \<sigma>
        else (Ok (ac_path admin), \<sigma>)) id (\<lambda>path \<sigma>.
      let no_token = trim (ac_token admin) = [] in
      perform (if no_token then legacy_or_new (path_join dir ''admin-token'') (\<lambda>i. ''admin_'' @ cv_uuid_text ce i) \<sigma>
        else (Ok (ac_token admin), \<sigma>)) id (\<lambda>token \<sigma>.
      (Ok (no_path \<or> no_token, c\<lparr>bc_admin := \<lparr>ac_path = path, ac_token = token\<rparr>\<rparr>), \<sigma>))))"

definition key_or_new :: "'v config_env \<Rightarrow> string \<Rightarrow> config_world \<Rightarrow> string \<times> config_world" where
  "key_or_new ce key \<sigma> = (if trim key = [] then random_key ce \<sigma> else (key, \<sigma>))"

definition complete_security_keys ::
  "'v config_env \<Rightarrow> backend_config \<Rightarrow> config_world \<Rightarrow> (bool \<times> backend_config) \<times> config_world" where
  "complete_security_keys ce c \<sigma> =
     (let audit = sec_audit (bc_security c);
          no_id = trim (asc_key_id audit) = [];
          (key_id, \<sigma>) = (if no_id then let (i, \<sigma>) = draw_uuid \<sigma> in (''audit-'' @ cv_uuid_simple ce i, \<sigma>) else (asc_key_id audit, \<sigma>));
          (hmac_key, \<sigma>) = key_or_new ce (asc_hmac_key audit) \<sigma>;
          (identifier_key, \<sigma>) = key_or_new ce (asc_identifier_hmac_key audit) \<sigma>
      in ((no_id \<or> trim (asc_hmac_key audit) = [] \<or> trim (asc_identifier_hmac_key audit) = [],
           c\<lparr>bc_security := (bc_security c)\<lparr>sec_audit :=
             \<lparr>asc_key_id = key_id, asc_hmac_key = hmac_key, asc_identifier_hmac_key = identifier_key\<rparr>\<rparr>\<rparr>), \<sigma>))"

text \<open>\<open>trim_end_matches('/')\<close> and \<open>trim_matches('/')\<close>\<close>

definition trim_end_slashes :: "string \<Rightarrow> string" where
  "trim_end_slashes s = rev (dropWhile (\<lambda>c. c = CHR ''/'') (rev s))"

definition trim_slashes :: "string \<Rightarrow> string" where
  "trim_slashes s = trim_end_slashes (dropWhile (\<lambda>c. c = CHR ''/'') s)"

definition config_normalize :: "backend_config \<Rightarrow> backend_config" where
  "config_normalize c =
     (let server = bc_server c; database = bc_database c; admin = bc_admin c; security = bc_security c;
          turnstile = sec_turnstile security; network = sec_network security; audit = sec_audit security
      in c\<lparr>bc_admin := \<lparr>ac_path = trim_slashes (trim (ac_path admin)), ac_token = trim (ac_token admin)\<rparr>,
           bc_database := database\<lparr>dc_url := trim (dc_url database)\<rparr>,
           bc_server := server\<lparr>sc_public_api_url := trim_end_slashes (trim (sc_public_api_url server)),
             sc_public_admin_url := trim_end_slashes (trim (sc_public_admin_url server))\<rparr>,
           bc_security := security\<lparr>
             sec_network := network\<lparr>nc_cors_allowed_origins :=
               filter (\<lambda>origin. origin \<noteq> []) (map (\<lambda>origin. trim_end_slashes (trim origin)) (nc_cors_allowed_origins network))\<rparr>,
             sec_turnstile := \<lparr>tc_site_key = trim (tc_site_key turnstile), tc_secret_key = trim (tc_secret_key turnstile),
               tc_verify_url = trim (tc_verify_url turnstile)\<rparr>,
             sec_audit := \<lparr>asc_key_id = trim (asc_key_id audit), asc_hmac_key = trim (asc_hmac_key audit),
               asc_identifier_hmac_key = trim (asc_identifier_hmac_key audit)\<rparr>\<rparr>\<rparr>)"

section \<open>The file\<close>

text \<open>A file that \<open>open\<close> creates gets the mode \<open>0o600\<close>; one that is there keeps its mode and is emptied.\<close>

definition open_private :: "string \<Rightarrow> config_world \<Rightarrow> (unit, config_error) result \<times> config_world" where
  "open_private path \<sigma> =
     on_disk (create_file path)
       (if dk_files (cw_disk \<sigma>) path = None then \<sigma>\<lparr>cw_modes := (cw_modes \<sigma>)(path := private_mode)\<rparr> else \<sigma>)"

definition write_private_config ::
  "'v config_env \<Rightarrow> string \<Rightarrow> backend_config \<Rightarrow> config_world \<Rightarrow> (unit, config_error) result \<times> config_world" where
  "write_private_config ce path c \<sigma> =
     perform (if parent_path path = [] then (Ok (), \<sigma>) else on_disk touch_nothing \<sigma>) id (\<lambda>_ \<sigma>.
     attempt (cv_write ce c) Io \<sigma> (\<lambda>contents.
     perform (open_private path \<sigma>) id (\<lambda>_ \<sigma>.
     perform (on_disk (write_all path contents) \<sigma>) id (\<lambda>_ \<sigma>.
     perform (on_disk touch_nothing \<sigma>) id (\<lambda>_ \<sigma>.
     restrict_private_file_permissions path \<sigma>)))))"

definition read_config ::
  "'v config_env \<Rightarrow> string \<Rightarrow> config_world \<Rightarrow> (backend_config, config_error) result \<times> config_world" where
  "read_config ce path \<sigma> =
     perform (restrict_private_file_permissions path \<sigma>) id (\<lambda>_ \<sigma>.
     perform (on_disk (read_to_string path) \<sigma>) id (\<lambda>contents \<sigma>.
     attempt (cv_read ce contents) Io \<sigma> (\<lambda>c. (Ok c, \<sigma>))))"

definition load_or_create_with_default ::
  "'v::linorder config_env \<Rightarrow> string \<Rightarrow> backend_config \<Rightarrow> config_world \<Rightarrow> (backend_config, config_error) result \<times> config_world" where
  "load_or_create_with_default ce path initial \<sigma> =
     perform (on_disk (path_exists path) \<sigma>) id (\<lambda>existed \<sigma>.
     perform (if existed then read_config ce path \<sigma> else (Ok initial, \<sigma>)) id (\<lambda>c \<sigma>.
     perform (complete_admin_credentials ce c \<sigma>) id (\<lambda>(credentials_added, c) \<sigma>.
     let ((security_keys_added, c), \<sigma>) = complete_security_keys ce c \<sigma>; c = config_normalize c in
     attempt (config_validate ce c) id \<sigma> (\<lambda>_.
     perform (if \<not> existed \<or> credentials_added \<or> security_keys_added then write_private_config ce path c \<sigma> else (Ok (), \<sigma>)) id
       (\<lambda>_ \<sigma>. (Ok c, \<sigma>))))))"

definition load_or_create :: "'v::linorder config_env \<Rightarrow> string \<Rightarrow> config_world \<Rightarrow> (backend_config, config_error) result \<times> config_world" where
  "load_or_create ce path = load_or_create_with_default ce path (backend_config_default ce)"

definition load_or_create_for_data_dir ::
  "'v::linorder config_env \<Rightarrow> string \<Rightarrow> config_world \<Rightarrow> (backend_config, config_error) result \<times> config_world" where
  "load_or_create_for_data_dir ce data_dir =
     (let initial = backend_config_default ce in
      load_or_create_with_default ce (path_join data_dir ''config.toml'')
        (initial\<lparr>bc_server := (bc_server initial)\<lparr>sc_data_dir := data_dir\<rparr>\<rparr>))"

end
