(* ===== verification/Gateway.thy ===== *)
theory Gateway
  imports Config AuthRoutes
begin

text \<open>
  What a request passes before its handler (\<open>version.rs\<close>, \<open>request_security.rs\<close> and \<open>lib.rs\<close> of the server), outermost first: the check of the client's version, the
  address of the client, the limits on suspicious requests. \<open>axum\<close> runs them in this order; a handler is a parameter.
  What a middleware needs of the configuration is made at the start (\<open>turnstile.rs\<close>, \<open>cors_layer\<close>).
\<close>

section \<open>From the configuration\<close>

definition nonempty_value :: "string \<Rightarrow> string option" where
  "nonempty_value value = (let value = trim value in if value \<noteq> [] then Some value else None)"

record turnstile_verifier =
  tv_site_key :: "string option"
  tv_secret_key :: "string option"
  tv_verify_url :: string

text \<open>Building the HTTP client is the crate's; that it can fail is left out.\<close>

definition turnstile_from_config :: "turnstile_config \<Rightarrow> (turnstile_verifier, config_error) result" where
  "turnstile_from_config c =
     (let site_key = nonempty_value (tc_site_key c); secret_key = nonempty_value (tc_secret_key c) in
      if (site_key = None) \<noteq> (secret_key = None)
      then Err (Bail ''security.turnstile.site_key and security.turnstile.secret_key must be configured together'')
      else attempt_pure (ok_or (nonempty_value (tc_verify_url c)) (Bail ''security.turnstile.verify_url cannot be empty'')) id
        (\<lambda>verify_url. Ok \<lparr>tv_site_key = site_key, tv_secret_key = secret_key, tv_verify_url = verify_url\<rparr>))"

definition turnstile_is_enabled :: "turnstile_verifier \<Rightarrow> bool" where
  "turnstile_is_enabled v \<longleftrightarrow> tv_site_key v \<noteq> None \<and> tv_secret_key v \<noteq> None"

text \<open>\<open>HeaderValue::from_str(origin).expect(...)\<close> for every origin; the methods and headers that are allowed.\<close>

record cors_rules =
  cors_origins :: "string list"
  cors_methods :: "string list"
  cors_headers :: "string list"

definition cors_layer :: "string list \<Rightarrow> bool \<Rightarrow> (cors_rules, 'e) result" where
  "cors_layer origins ngrok_warning_bypass_enabled =
     attempt_pure (map_result (\<lambda>origin. if valid_header_value origin then Ok origin else Panic ''validated CORS origin'') origins) id (\<lambda>origins.
     Ok \<lparr>cors_origins = origins, cors_methods = [''GET'', ''POST'', ''PATCH''],
         cors_headers = [''authorization'', ''content-type'', ''x-cloudledger-client-version'']
           @ (if ngrok_warning_bypass_enabled then [''ngrok-skip-browser-warning''] else [])\<rparr>)"

record version_policy =
  vp_client_version :: string
  vp_min_supported :: string
  vp_download_url :: string

definition version_policy_of :: "server_config \<Rightarrow> version_policy" where
  "version_policy_of s =
     \<lparr>vp_client_version = sc_client_version s, vp_min_supported = sc_min_supported_client_version s,
      vp_download_url = sc_client_download_url s\<rparr>"

section \<open>Requests and responses\<close>

record http_request =
  rq_method :: string
  rq_path :: string
  rq_client_version :: "string option"
  rq_peer :: "ip_addr option"
  rq_headers :: http_headers

datatype 'b response =
    UpgradeRequired string string string
  | RefusedWith api_error
  | Answered nat 'b

fun response_status :: "'b response \<Rightarrow> nat" where
  "response_status (UpgradeRequired _ _ _) = 426"
| "response_status (RefusedWith e) = api_status e"
| "response_status (Answered status _) = status"

text \<open>The rest of the stack: it may panic, and the connection is closed then.\<close>

type_synonym 'b next_layer = "server \<Rightarrow> ('b response, unit) result \<times> server"

section \<open>The version of the client\<close>

definition client_version_of :: "'v config_env \<Rightarrow> http_request \<Rightarrow> 'v option" where
  "client_version_of ce rq = Option.bind (rq_client_version rq) (\<lambda>value. cv_semver ce (trim value))"

definition minimum_version :: "'v config_env \<Rightarrow> version_policy \<Rightarrow> ('v, 'e) result" where
  "minimum_version ce vp = expect_ok (ok_or (cv_semver ce (vp_min_supported vp)) ()) ''validated minimum client version''"

record client_version_response =
  cvr_current_version :: string
  cvr_min_supported_version :: string
  cvr_download_url :: string
  cvr_update_required :: bool

definition client_version :: "'v::linorder config_env \<Rightarrow> version_policy \<Rightarrow> http_request \<Rightarrow> (client_version_response, 'e) result" where
  "client_version ce vp rq =
     attempt_pure (case client_version_of ce rq of None \<Rightarrow> Ok True
         | Some version \<Rightarrow> attempt_pure (minimum_version ce vp) id (\<lambda>minimum. Ok (version < minimum))) id (\<lambda>update_required.
     Ok \<lparr>cvr_current_version = vp_client_version vp, cvr_min_supported_version = vp_min_supported vp,
         cvr_download_url = vp_download_url vp, cvr_update_required = update_required\<rparr>)"

definition version_exempt :: "http_request \<Rightarrow> bool" where
  "version_exempt rq \<longleftrightarrow> rq_method rq = ''OPTIONS'' \<or> rq_path rq \<in> {''/health'', ''/ready'', ''/client/version'', ''/auth/bootstrap''}"

definition enforce_client_version ::
  "'v::linorder config_env \<Rightarrow> version_policy \<Rightarrow> http_request \<Rightarrow> 'b next_layer \<Rightarrow> 'b next_layer" where
  "enforce_client_version ce vp rq next \<sigma> =
     (if version_exempt rq then next \<sigma>
      else attempt (minimum_version ce vp) id \<sigma> (\<lambda>minimum.
        let client = client_version_of ce rq;
            missing_version_allowed = (client = None \<and> Some minimum = cv_semver ce ''0.0.0'')
        in if \<not> missing_version_allowed \<and> (case client of None \<Rightarrow> True | Some version \<Rightarrow> version < minimum)
           then (Ok (UpgradeRequired (vp_client_version vp) (vp_min_supported vp) (vp_download_url vp)), \<sigma>)
           else next \<sigma>))"

section \<open>The address of the client\<close>

definition trusts :: "'v config_env \<Rightarrow> ip_net list \<Rightarrow> ip_addr \<Rightarrow> bool" where
  "trusts ce networks ip \<longleftrightarrow> (\<exists>network \<in> set networks. cv_contains ce network ip)"

text \<open>\<open>unspecified\<close> is 0.0.0.0, for a connection without an address.\<close>

definition resolve_request_context ::
  "'v config_env \<Rightarrow> ip_addr \<Rightarrow> ip_net list \<Rightarrow> http_request \<Rightarrow> (request_context \<Rightarrow> 'b next_layer) \<Rightarrow> 'b next_layer" where
  "resolve_request_context ce unspecified networks rq next =
     (let peer = (case rq_peer rq of Some ip \<Rightarrow> ip | None \<Rightarrow> unspecified)
      in next (resolve_context (trusts ce networks) (cv_parse_ip ce) peer (rq_headers rq)))"

section \<open>Suspicious requests\<close>

text \<open>With the login protection in memory, as in \<open>AuthRoutes\<close>.\<close>

definition check_request ::
  "route_env \<Rightarrow> security_rate_kind \<Rightarrow> ip_addr \<Rightarrow> server \<Rightarrow> (unit, api_error) result \<times> server" where
  "check_request re kind ip \<sigma> =
     (let (now, \<sigma>) = server_instant \<sigma>; (r, m) = check_security_memory (rt_lp re) kind ip now (srv_rate_limits \<sigma>);
          \<sigma> = \<sigma>\<lparr>srv_rate_limits := m\<rparr>
      in attempt r from_auth \<sigma> (\<lambda>_. (Ok (), \<sigma>)))"

text \<open>\<open>if ... { return error.into_response() }\<close>\<close>

definition refuse_or :: "(unit, api_error) result \<times> server \<Rightarrow> 'b next_layer \<Rightarrow> ('b response, unit) result \<times> server" where
  "refuse_or checked next =
     (case checked of (Ok _, \<sigma>) \<Rightarrow> next \<sigma> | (Err e, \<sigma>) \<Rightarrow> (Ok (RefusedWith e), \<sigma>) | (Panic p, \<sigma>) \<Rightarrow> (Panic p, \<sigma>))"

definition security_rate_limits ::
  "route_env \<Rightarrow> http_request \<Rightarrow> request_context \<Rightarrow> 'b next_layer \<Rightarrow> 'b next_layer" where
  "security_rate_limits re rq ctx next \<sigma> =
     (let has_bearer = (hd_authorization (rq_headers rq) \<noteq> None);
          anonymous_probe = (starts_with ''/app/'' (rq_path rq) \<and> \<not> has_bearer)
      in refuse_or (if anonymous_probe then check_request re AnonymousProbeRate (ctx_client_ip ctx) \<sigma> else (Ok (), \<sigma>)) (\<lambda>\<sigma>.
         case next \<sigma> of
           (Ok response, \<sigma>) \<Rightarrow>
             if has_bearer \<and> response_status response = 401
             then refuse_or (check_request re InvalidBearerRate (ctx_client_ip ctx) \<sigma>) (\<lambda>\<sigma>. (Ok response, \<sigma>))
             else (Ok response, \<sigma>)
         | (r, \<sigma>) \<Rightarrow> (r, \<sigma>)))"

text \<open>The layers of \<open>router\<close> around its routes.\<close>

record 'v gateway =
  gw_crates :: "'v config_env"
  gw_routes :: route_env
  gw_versions :: version_policy
  gw_unspecified :: ip_addr
  gw_networks :: "ip_net list"

definition serve_api ::
  "'v::linorder gateway \<Rightarrow> (http_request \<Rightarrow> request_context \<Rightarrow> 'b next_layer) \<Rightarrow> http_request \<Rightarrow> 'b next_layer" where
  "serve_api g handler rq =
     enforce_client_version (gw_crates g) (gw_versions g) rq
       (resolve_request_context (gw_crates g) (gw_unspecified g) (gw_networks g) rq
         (\<lambda>ctx. security_rate_limits (gw_routes g) rq ctx (handler rq ctx)))"

end
