(* ===== verification/Startup.thy ===== *)
theory Startup
  imports Gateway Postgres
begin

text \<open>
  The start of the server: the command line (\<open>main.rs\<close>), and the state that the handlers share made from the configuration, the files and the
  database (\<open>state.rs\<close>). Opening the pool of connections is not in it, and the migrations have run.
\<close>

section \<open>The command line\<close>

datatype command = Serve | Migrate | AuditVerify

definition default_config_path :: string where
  "default_config_path = ''.cloudledger-server/config.toml''"

definition command_usage :: string where
  "command_usage = ''usage: cloudledger-server [migrate|audit verify] [--config <path>]''"

definition config_argument :: "command \<Rightarrow> string list \<Rightarrow> (command \<times> string, string) result" where
  "config_argument command args =
     (case args of
        [] \<Rightarrow> Ok (command, default_config_path)
      | argument # args \<Rightarrow>
          if argument \<noteq> ''--config'' then Err command_usage
          else case args of
            [] \<Rightarrow> Err ''--config requires a file path''
          | path # args \<Rightarrow> if args \<noteq> [] then Err command_usage else Ok (command, path))"

definition parse_command :: "string list \<Rightarrow> (command \<times> string, string) result" where
  "parse_command args =
     (case args of
        [] \<Rightarrow> config_argument Serve []
      | first # rest \<Rightarrow>
          if first = ''audit'' then
            case rest of second # rest \<Rightarrow>
                if second = ''verify'' then config_argument AuditVerify rest
                else Err ''usage: cloudledger-server audit verify [--config <path>]''
            | [] \<Rightarrow> Err ''usage: cloudledger-server audit verify [--config <path>]''
          else if first = ''migrate'' then config_argument Migrate rest
          else config_argument Serve args)"

section \<open>The identity of the server\<close>

datatype start_error =
    StartConfig config_error
  | StartFile string
  | StartId
  | StartLedger app_error
  | StartAuth auth_error
  | StartDatabase import_error

text \<open>\<open>fs::write\<close> empties the file and writes it.\<close>

definition fs_write :: "string \<Rightarrow> string \<Rightarrow> disk \<Rightarrow> (unit, string) result \<times> disk" where
  "fs_write path contents d = perform (create_file path d) id (\<lambda>_ d. write_all path contents d)"

definition load_or_create_server_id :: "env \<Rightarrow> string \<Rightarrow> disk \<times> world \<Rightarrow> (uuid, start_error) result \<times> (disk \<times> world)" where
  "load_or_create_server_id env path \<sigma> =
     (let (d, w) = \<sigma>; (r, d) = path_exists path d in
      attempt r StartFile (d, w) (\<lambda>found.
      if found then
        let (r, d) = read_to_string path d in
        attempt r StartFile (d, w) (\<lambda>raw. attempt (ok_or (parse_uuid env (trim raw)) StartId) id (d, w) (\<lambda>i. (Ok i, d, w)))
      else
        let (i, w) = new_v4 w; (r, d) = fs_write path (uuid_to_string env i) d in
        attempt r StartFile (d, w) (\<lambda>_. (Ok i, d, w))))"

section \<open>The state\<close>

record started =
  sd_server_id :: uuid
  sd_ledger :: app_ledger_service
  sd_auth :: auth_service
  sd_admin_token :: string
  sd_admin_path :: string
  sd_login_protection :: login_protection_config
  sd_identifier_key :: string
  sd_turnstile :: turnstile_verifier
  sd_networks :: "ip_net list"
  sd_cors_origins :: "string list"
  sd_ngrok_warning_bypass :: bool
  sd_web_login_enabled :: bool
  sd_versions :: version_policy

text \<open>What is common to both ways of loading, from the identifier key of the login protection on.\<close>

definition load_with_security ::
  "'v config_env \<Rightarrow> env \<Rightarrow> backend_config \<Rightarrow> app_ledger_service \<Rightarrow> auth_service \<Rightarrow> disk \<times> world
     \<Rightarrow> (started, start_error) result \<times> (disk \<times> world)" where
  "load_with_security ce env c ledger auth \<sigma> =
     (let security = bc_security c; server = bc_server c; data_dir = sc_data_dir server in
      attempt (decode_32_byte_key ce ''security.audit.identifier_hmac_key'' (asc_identifier_hmac_key (sec_audit security)))
        StartConfig \<sigma> (\<lambda>identifier_key.
      attempt (turnstile_from_config (sec_turnstile security)) StartConfig \<sigma> (\<lambda>turnstile.
      let (d, w) = \<sigma>; (r, d) = touch_nothing d in
      attempt r StartFile (d, w) (\<lambda>_.
      perform (load_or_create_server_id env (path_join data_dir ''server-id'') (d, w)) id (\<lambda>server_id \<sigma>.
      (Ok \<lparr>sd_server_id = server_id, sd_ledger = ledger, sd_auth = auth, sd_admin_token = ac_token (bc_admin c),
           sd_admin_path = ac_path (bc_admin c), sd_login_protection = from_settings (sec_login security),
           sd_identifier_key = identifier_key, sd_turnstile = turnstile,
           sd_networks = nc_trusted_proxy_cidrs (sec_network security), sd_cors_origins = nc_cors_allowed_origins (sec_network security),
           sd_ngrok_warning_bypass = (sc_mode server = Development), sd_web_login_enabled = sc_web_login_enabled server,
           sd_versions = version_policy_of server\<rparr>, \<sigma>))))))"

text \<open>\<open>ServerState::load\<close>: a development server on JSON files, with the configuration of its directory.\<close>

definition server_load ::
  "json_env \<Rightarrow> 'v::linorder config_env \<Rightarrow> env \<Rightarrow> string \<Rightarrow> config_world \<times> auth_world
     \<Rightarrow> (started, start_error) result \<times> (config_world \<times> auth_world)" where
  "server_load je ce env data_dir \<sigma> =
     (let (\<kappa>, v) = \<sigma>; (r, \<kappa>) = load_or_create_for_data_dir ce data_dir (\<kappa>\<lparr>cw_world := aw_world v\<rparr>); v = v\<lparr>aw_world := cw_world \<kappa>\<rparr> in
      attempt r StartConfig (\<kappa>, v) (\<lambda>c.
      let dir = sc_data_dir (bc_server c); ledger_path = path_join dir ''ledger-state.json''; auth_path = path_join dir ''auth-state.json'';
          (r, d) = touch_nothing (cw_disk \<kappa>) in
      attempt r StartFile (\<kappa>\<lparr>cw_disk := d\<rparr>, v) (\<lambda>_.
      let (r, d, w) = load_or_seed je env ledger_path (d, aw_world v); v = v\<lparr>aw_world := w\<rparr> in
      attempt r StartLedger (\<kappa>\<lparr>cw_disk := d\<rparr>, v) (\<lambda>ledger.
      let (r, d, v) = load_or_default je auth_path (d, v) in
      attempt r StartAuth (\<kappa>\<lparr>cw_disk := d\<rparr>, v) (\<lambda>auth.
      let (changed, auth, v) = migrate_organization_admin_accounts ledger (auth, v);
          (r, d) = (if changed then auth_save_to_path je auth_path auth d else (Ok (), d)) in
      attempt r StartAuth (\<kappa>\<lparr>cw_disk := d\<rparr>, v) (\<lambda>_.
      let (r, d, w) = load_with_security ce env c ledger auth (d, aw_world v)
      in (r, \<kappa>\<lparr>cw_disk := d\<rparr>, v\<lparr>aw_world := w\<rparr>)))))))"

text \<open>\<open>AuditSigner::initialize_legacy\<close> at the connection: the old log is read, and the chains are begun in one transaction.\<close>

definition connect_with_audit :: "pg_env \<Rightarrow> pg_database \<times> world \<Rightarrow> (unit, pg_error) result \<times> (pg_database \<times> world)" where
  "connect_with_audit pe \<sigma> =
     (let (db, w) = \<sigma>; (r, db) = query (\<lambda>t. Ok (pt_audit t)) db in
      attempt r id (db, w) (\<lambda>rows.
      if rows \<noteq> [] then (Ok (), db, w)
      else
        let (r, db) = query (\<lambda>t. Ok (pt_legacy t)) db in
        attempt r id (db, w) (\<lambda>legacy.
        let (r, rows, w) = initialize_legacy (pe_audit pe) (pe_signer pe) legacy (rows, w);
            (r, db) = pg_transaction (statement (\<lambda>t. attempt_pure r PgAudit (\<lambda>_. Ok (t\<lparr>pt_audit := rows\<rparr>)))) db
        in (r, db, w))))"

text \<open>\<open>AuditSigner::from_config\<close>. A decoded key is a text of bytes.\<close>

definition signer_from_config :: "'v config_env \<Rightarrow> audit_security_config \<Rightarrow> (audit_signer, config_error) result" where
  "signer_from_config ce audit =
     attempt_pure (decode_32_byte_key ce ''security.audit.hmac_key'' (asc_hmac_key audit)) id (\<lambda>key.
     Ok \<lparr>as_key_id = asc_key_id audit, as_key = map (\<lambda>c. word_of_nat (of_char c)) key\<rparr>)"

text \<open>\<open>ServerState::load_from_config\<close>: the server on PostgreSQL. The two times are those of the two transactions in the database.\<close>

definition load_from_config ::
  "json_env \<Rightarrow> 'v::linorder config_env \<Rightarrow> pg_env \<Rightarrow> instant \<Rightarrow> instant \<Rightarrow> backend_config \<Rightarrow> import_state
     \<Rightarrow> (started, start_error) result \<times> import_state" where
  "load_from_config je ce pe now now' c \<sigma> =
     (let dir = sc_data_dir (bc_server c); env = ad_env (pe_audit pe) in
      attempt (config_validate ce c) StartConfig \<sigma> (\<lambda>_.
      let (db, d, v) = \<sigma>; (r, d) = touch_nothing d in
      attempt r StartFile (db, d, v) (\<lambda>_.
      attempt (signer_from_config ce (sec_audit (bc_security c))) StartConfig (db, d, v) (\<lambda>signer.
      let pe = pe\<lparr>pe_signer := signer\<rparr>; (r, db, w) = connect_with_audit pe (db, aw_world v); v = v\<lparr>aw_world := w\<rparr> in
      attempt r (\<lambda>e. StartDatabase (ImportDatabase e)) (db, d, v) (\<lambda>_.
      perform (load_or_import je pe now (path_join dir ''ledger-state.json'') (path_join dir ''auth-state.json'') (db, d, v)) StartDatabase
        (\<lambda>(ledger, auth, imported) (db, d, v).
      let (changed, auth, v) = migrate_organization_admin_accounts ledger (auth, v);
          (r, db) = (if changed then pg_save_auth pe now' (auth_snapshot_of auth) db else (Ok (), db)) in
      attempt r (\<lambda>e. StartDatabase (ImportDatabase e)) (db, d, v) (\<lambda>_.
      let (r, d, w) = load_with_security ce env c ledger auth (d, aw_world v)
      in (r, db, d, v\<lparr>aw_world := w\<rparr>))))))))"

end
