(* ===== verification/ConfigProperties.thy ===== *)
theory ConfigProperties
  imports Config
begin

text \<open>
  What the server finds in its configuration at the next start: after a start that went well the same configuration; after
  one that was cut off while it wrote the file the one of a development machine.
\<close>

section \<open>Starting again\<close>

text \<open>A start at which every system call succeeds.\<close>

definition rested :: "config_world \<Rightarrow> config_world" where
  "rested \<sigma> = \<sigma>\<lparr>cw_disk := sound_disk (cw_disk \<sigma>)\<rparr>"

lemma rested_disk [simp]: "cw_disk (rested \<sigma>) = sound_disk (cw_disk \<sigma>)" "cw_modes (rested \<sigma>) = cw_modes \<sigma>"
  "cw_keys (rested \<sigma>) = cw_keys \<sigma>" "dk_files (sound_disk d) = dk_files d" "cw_world (rested \<sigma>) = cw_world \<sigma>"
  by (simp_all add: rested_def sound_disk_def)

lemma rested_touch [simp]: "on_disk touch_nothing (rested \<sigma>) = (Ok (), rested \<sigma>)"
  by (simp add: on_disk_def rested_def touch_nothing_def system_call_def sound_disk_def)

lemma rested_exists [simp]: "on_disk (path_exists p) (rested \<sigma>) = (Ok (dk_files (cw_disk \<sigma>) p \<noteq> None), rested \<sigma>)"
  by (simp add: on_disk_def rested_def)

lemma rested_read [simp]:
  "dk_files (cw_disk \<sigma>) p = Some t \<Longrightarrow> valid_utf8 t \<Longrightarrow> on_disk (read_to_string p) (rested \<sigma>) = (Ok t, rested \<sigma>)"
  by (simp add: on_disk_def rested_def)

text \<open>What is documented of the crates: the text that is written is read back; no text at all is no key.\<close>

definition config_text_exact :: "'v config_env \<Rightarrow> bool" where
  "config_text_exact ce \<longleftrightarrow> (\<forall>c t. cv_write ce c = Ok t \<longrightarrow> valid_utf8 t \<and> cv_read ce t = Ok c) \<and> cv_decode_key ce [] = Some []"

section \<open>What a file that was written holds\<close>

lemma on_disk_Ok: "on_disk f \<sigma> = (Ok x, \<sigma>') \<longleftrightarrow> (\<exists>d. f (cw_disk \<sigma>) = (Ok x, d) \<and> \<sigma>' = \<sigma>\<lparr>cw_disk := d\<rparr>)"
  by (cases "f (cw_disk \<sigma>)") (auto simp: on_disk_def Let_def inversion)

lemma touched: "touch_nothing d = (r, d') \<Longrightarrow> dk_files d' = dk_files d"
  using touch_nothing_files [of d] by simp

lemma restrict_Ok:
  assumes "restrict_private_file_permissions path \<sigma> = (Ok u, \<sigma>')"
  shows "cw_modes \<sigma>' path = private_mode" "dk_files (cw_disk \<sigma>') = dk_files (cw_disk \<sigma>)"
  using assms by (auto simp: restrict_private_file_permissions_def inversion on_disk_Ok dest!: touched split: if_splits)

lemma write_private_config_Ok:
  assumes "write_private_config ce path c \<sigma> = (Ok u, \<sigma>')"
  shows "\<exists>t. cv_write ce c = Ok t \<and> dk_files (cw_disk \<sigma>') path = Some t \<and> cw_modes \<sigma>' path = private_mode"
proof -
  obtain \<sigma>1 \<sigma>2 \<sigma>3 \<sigma>4 t where t: "cv_write ce c = Ok t"
    and steps: "open_private path \<sigma>1 = (Ok (), \<sigma>2)" "on_disk (write_all path t) \<sigma>2 = (Ok (), \<sigma>3)"
      "on_disk touch_nothing \<sigma>3 = (Ok (), \<sigma>4)" "restrict_private_file_permissions path \<sigma>4 = (Ok u, \<sigma>')"
    using assms by (auto simp: write_private_config_def inversion)
  have "dk_files (cw_disk \<sigma>2) path = Some []"
    using steps(1) by (auto simp: open_private_def on_disk_Ok dest: created_file)
  then have "dk_files (cw_disk \<sigma>3) path = Some t"
    using steps(2) by (auto simp: on_disk_Ok dest: written_file)
  moreover have "dk_files (cw_disk \<sigma>4) = dk_files (cw_disk \<sigma>3)"
    using steps(3) by (auto simp: on_disk_Ok dest: touched)
  ultimately show ?thesis using t restrict_Ok [OF steps(4)] by simp
qed

section \<open>Trimming\<close>

definition name_char :: "char \<Rightarrow> bool" where
  "name_char c \<longleftrightarrow> is_ascii_alphanumeric c \<or> c = CHR ''-'' \<or> c = CHR ''_''"

lemma name_char_plain: "name_char c \<Longrightarrow> \<not> ws1 c \<and> byte c < 128 \<and> c \<noteq> CHR ''/''"
  by (auto simp: name_char_def is_ascii_alphanumeric_def is_ascii_lowercase_def is_ascii_uppercase_def ws1_def)

lemma name_no_ws: "name_char a \<Longrightarrow> \<not> ws1 a" "name_char a \<Longrightarrow> \<not> ws2 a b" "name_char a \<Longrightarrow> \<not> ws3 a b c"
  using name_char_plain [of a] by (simp_all add: ws2_def ws3_def)

lemma name_not_ws: "\<forall>c \<in> set s. name_char c \<Longrightarrow> \<not> starts_ws s"
  by (cases s rule: starts_ws.cases) (simp_all add: name_no_ws)

lemma name_not_ws_rev: "\<forall>c \<in> set s. name_char c \<Longrightarrow> \<not> starts_ws_rev s"
  by (cases s rule: starts_ws_rev.cases) (simp_all add: name_no_ws)

lemma name_settled: "\<forall>c \<in> set s. name_char c \<Longrightarrow> trim_slashes (trim s) = s"
proof -
  assume *: "\<forall>c \<in> set s. name_char c"
  then have "trim s = s" using name_not_ws [of s] name_not_ws_rev [of "rev s"] by (simp add: trim_eq_self)
  moreover have "dropWhile (\<lambda>c. c = CHR ''/'') t = t" if "\<forall>c \<in> set t. name_char c" for t
    using that by (cases t) (auto dest: name_char_plain)
  ultimately show ?thesis using * by (simp add: trim_slashes_def trim_end_slashes_def)
qed


section \<open>A configuration that has been loaded\<close>

lemma bail_if_Ok [simp]: "bail_if b message = Ok u \<longleftrightarrow> \<not> b"
  by (simp add: bail_if_def)

lemma is_ok_Ok: "is_ok r \<longleftrightarrow> (\<exists>x. r = Ok x)"
  by (cases r) simp_all

lemma validated:
  assumes "config_validate ce c = Ok u"
  shows "\<forall>x \<in> set (ac_path (bc_admin c)). name_char x" "ac_path (bc_admin c) \<noteq> []" "ac_token (bc_admin c) \<noteq> []"
    and "asc_key_id (sec_audit (bc_security c)) \<noteq> []"
    and "\<exists>k. cv_decode_key ce (asc_hmac_key (sec_audit (bc_security c))) = Some k \<and> length k = 32"
    and "\<exists>k. cv_decode_key ce (asc_identifier_hmac_key (sec_audit (bc_security c))) = Some k \<and> length k = 32"
proof -
  have admin: "validate_admin_path (ac_path (bc_admin c)) = Ok ()" and token: "ac_token (bc_admin c) \<noteq> []"
    and security: "validate_security ce (bc_security c) = Ok u"
    using assms unfolding config_validate_def Let_def by (simp_all add: inversion) blast+
  show "\<forall>x \<in> set (ac_path (bc_admin c)). name_char x" "ac_path (bc_admin c) \<noteq> []"
    using admin by (auto simp: validate_admin_path_def name_char_def)
  show "ac_token (bc_admin c) \<noteq> []" by (rule token)
  show "asc_key_id (sec_audit (bc_security c)) \<noteq> []"
    and "\<exists>k. cv_decode_key ce (asc_hmac_key (sec_audit (bc_security c))) = Some k \<and> length k = 32"
    and "\<exists>k. cv_decode_key ce (asc_identifier_hmac_key (sec_audit (bc_security c))) = Some k \<and> length k = 32"
    using security by (auto simp: validate_security_def Let_def inversion is_ok_Ok decode_32_byte_key_def split: if_splits)
qed

text \<open>A configuration that trimming does not change.\<close>

definition settled :: "backend_config \<Rightarrow> bool" where
  "settled c \<longleftrightarrow> config_normalize c = c"

lemma settled_parts:
  "settled c \<longleftrightarrow>
     trim_slashes (trim (ac_path (bc_admin c))) = ac_path (bc_admin c) \<and> trim (ac_token (bc_admin c)) = ac_token (bc_admin c)
   \<and> trim (dc_url (bc_database c)) = dc_url (bc_database c)
   \<and> trim_end_slashes (trim (sc_public_api_url (bc_server c))) = sc_public_api_url (bc_server c)
   \<and> trim_end_slashes (trim (sc_public_admin_url (bc_server c))) = sc_public_admin_url (bc_server c)
   \<and> filter (\<lambda>origin. origin \<noteq> []) (map (\<lambda>origin. trim_end_slashes (trim origin)) (nc_cors_allowed_origins (sec_network (bc_security c))))
       = nc_cors_allowed_origins (sec_network (bc_security c))
   \<and> trim (tc_site_key (sec_turnstile (bc_security c))) = tc_site_key (sec_turnstile (bc_security c))
   \<and> trim (tc_secret_key (sec_turnstile (bc_security c))) = tc_secret_key (sec_turnstile (bc_security c))
   \<and> trim (tc_verify_url (sec_turnstile (bc_security c))) = tc_verify_url (sec_turnstile (bc_security c))
   \<and> trim (asc_key_id (sec_audit (bc_security c))) = asc_key_id (sec_audit (bc_security c))
   \<and> trim (asc_hmac_key (sec_audit (bc_security c))) = asc_hmac_key (sec_audit (bc_security c))
   \<and> trim (asc_identifier_hmac_key (sec_audit (bc_security c))) = asc_identifier_hmac_key (sec_audit (bc_security c))"
proof -
  obtain server database admin security where c: "c = \<lparr>bc_server = server, bc_database = database, bc_admin = admin, bc_security = security\<rparr>"
    by (cases c)
  obtain login turnstile network audit where "security = \<lparr>sec_login = login, sec_turnstile = turnstile, sec_network = network, sec_audit = audit\<rparr>"
    by (cases security)
  with c show ?thesis
    by (cases server; cases database; cases admin; cases turnstile; cases network; cases audit)
      (auto simp: settled_def config_normalize_def Let_def)
qed

lemma normalized_parts:
  "bc_admin (config_normalize c) = \<lparr>ac_path = trim_slashes (trim (ac_path (bc_admin c))), ac_token = trim (ac_token (bc_admin c))\<rparr>"
  "bc_database (config_normalize c) = (bc_database c)\<lparr>dc_url := trim (dc_url (bc_database c))\<rparr>"
  "bc_server (config_normalize c) = (bc_server c)\<lparr>sc_public_api_url := trim_end_slashes (trim (sc_public_api_url (bc_server c))),
     sc_public_admin_url := trim_end_slashes (trim (sc_public_admin_url (bc_server c)))\<rparr>"
  "nc_cors_allowed_origins (sec_network (bc_security (config_normalize c))) =
     filter (\<lambda>origin. origin \<noteq> []) (map (\<lambda>origin. trim_end_slashes (trim origin)) (nc_cors_allowed_origins (sec_network (bc_security c))))"
  "sec_turnstile (bc_security (config_normalize c)) = \<lparr>tc_site_key = trim (tc_site_key (sec_turnstile (bc_security c))),
     tc_secret_key = trim (tc_secret_key (sec_turnstile (bc_security c))), tc_verify_url = trim (tc_verify_url (sec_turnstile (bc_security c)))\<rparr>"
  "sec_audit (bc_security (config_normalize c)) = \<lparr>asc_key_id = trim (asc_key_id (sec_audit (bc_security c))),
     asc_hmac_key = trim (asc_hmac_key (sec_audit (bc_security c))),
     asc_identifier_hmac_key = trim (asc_identifier_hmac_key (sec_audit (bc_security c)))\<rparr>"
  by (simp_all add: config_normalize_def Let_def)

text \<open>Only the path of the administration needs the checks: white space inside slashes would be left behind.\<close>

lemma normalized_settled:
  assumes "settled d" "config_validate ce (config_normalize (d\<lparr>bc_admin := a, bc_security := (bc_security d)\<lparr>sec_audit := k\<rparr>\<rparr>)) = Ok u"
  shows "settled (config_normalize (d\<lparr>bc_admin := a, bc_security := (bc_security d)\<lparr>sec_audit := k\<rparr>\<rparr>))"
proof -
  let ?c = "config_normalize (d\<lparr>bc_admin := a, bc_security := (bc_security d)\<lparr>sec_audit := k\<rparr>\<rparr>)"
  have "trim_slashes (trim (ac_path (bc_admin ?c))) = ac_path (bc_admin ?c)"
    using validated(1) [OF assms(2)] by (rule name_settled)
  then show ?thesis using assms(1) unfolding settled_parts normalized_parts by simp
qed


lemma default_settled: "settled (backend_config_default ce)"
  by (simp add: settled_parts backend_config_default_def server_config_default_def database_config_default_def
      turnstile_config_default_def network_security_default_def default_turnstile_verify_url_def
      trim_slashes_def trim_end_slashes_def trim_def trim_end_def ws1_def ws2_def ws3_def)

text \<open>Nothing is completed in a configuration that has been loaded.\<close>

lemma loaded_complete:
  assumes "settled c" "config_validate ce c = Ok u" "cv_decode_key ce [] = Some []"
  shows "complete_admin_credentials ce c \<sigma> = (Ok (False, c), \<sigma>)" "complete_security_keys ce c \<sigma> = ((False, c), \<sigma>)"
proof -
  have "trim (ac_path (bc_admin c)) \<noteq> []"
  proof
    assume "trim (ac_path (bc_admin c)) = []"
    then have "ac_path (bc_admin c) = []"
      using assms(1) unfolding settled_parts by (simp add: trim_slashes_def trim_end_slashes_def)
    then show False using validated(2) [OF assms(2)] by simp
  qed
  moreover have "trim (ac_token (bc_admin c)) \<noteq> []" using assms(1) validated(3) [OF assms(2)] unfolding settled_parts by simp
  ultimately show "complete_admin_credentials ce c \<sigma> = (Ok (False, c), \<sigma>)"
    by (simp add: complete_admin_credentials_def Let_def)
  have "trim (asc_key_id (sec_audit (bc_security c))) \<noteq> []"
    using assms(1) validated(4) [OF assms(2)] unfolding settled_parts by simp
  moreover have "trim (asc_hmac_key (sec_audit (bc_security c))) \<noteq> []" "trim (asc_identifier_hmac_key (sec_audit (bc_security c))) \<noteq> []"
    using assms(1,3) validated(5,6) [OF assms(2)] unfolding settled_parts by auto
  ultimately show "complete_security_keys ce c \<sigma> = ((False, c), \<sigma>)"
    by (simp add: complete_security_keys_def key_or_new_def Let_def)
qed

lemma read_config_exact:
  assumes "config_text_exact ce" "cv_write ce c = Ok t" "dk_files (cw_disk \<sigma>) path = Some t" "cw_modes \<sigma> path = private_mode"
  shows "read_config ce path (rested \<sigma>) = (Ok c, rested \<sigma>)"
  using assms by (simp add: read_config_def restrict_private_file_permissions_def config_text_exact_def)

lemma completed_admin: "complete_admin_credentials ce c \<sigma> = (Ok (b, c'), \<sigma>') \<Longrightarrow> \<exists>a. c' = c\<lparr>bc_admin := a\<rparr>"
  by (auto simp: complete_admin_credentials_def Let_def inversion)

lemma completed_keys:
  "complete_security_keys ce c \<sigma> = ((b, c'), \<sigma>') \<Longrightarrow> \<exists>k. c' = c\<lparr>bc_security := (bc_security c)\<lparr>sec_audit := k\<rparr>\<rparr>"
  by (auto simp: complete_security_keys_def Let_def split_beta)

lemma rested_modes [simp]: "(rested \<sigma>)\<lparr>cw_modes := m\<rparr> = rested (\<sigma>\<lparr>cw_modes := m\<rparr>)"
  by (simp add: rested_def)

lemma read_empty:
  assumes "dk_files (cw_disk \<sigma>) path = Some []" "cv_read ce [] = Ok d"
  shows "\<exists>m. read_config ce path (rested \<sigma>) = (Ok d, rested (\<sigma>\<lparr>cw_modes := m\<rparr>))"
proof (cases "cw_modes \<sigma> path = private_mode")
  case True
  then show ?thesis using assms
    by (intro exI [of _ "cw_modes \<sigma>"]) (simp add: read_config_def restrict_private_file_permissions_def)
next
  case False
  then show ?thesis using assms
    by (intro exI [of _ "(cw_modes \<sigma>)(path := private_mode)"]) (simp add: read_config_def restrict_private_file_permissions_def)
qed

section \<open>An installation that can be evaluated\<close>

text \<open>Crates that are simple enough to be evaluated; the reader and the writer of the file are left open.\<close>

definition demo_url :: "string \<Rightarrow> parsed_url option" where
  "demo_url s = Some \<lparr>url_scheme = takeWhile (\<lambda>c. c \<noteq> CHR '':'') s, url_host = Some ''host'', url_password = None, url_path = [],
     url_query = None, url_fragment = None, url_pairs = []\<rparr>"

definition demo_key :: string where
  "demo_key = ''kkkkkkkkkkkkkkkkkkkkkkkkkkkkkkkk''"

definition demo_crates ::
  "(string \<Rightarrow> (backend_config, string) result) \<Rightarrow> (backend_config \<Rightarrow> (string, string) result) \<Rightarrow> string config_env" where
  "demo_crates r w = \<lparr>cv_url = demo_url, cv_semver = Some, cv_parse_ip = \<lambda>_. None, cv_loopback = \<lambda>ip. ip = 127, cv_localhost = 127,
     cv_contains = (=) \<circ> fst, cv_encode_key = id, cv_decode_key = Some, cv_uuid_simple = \<lambda>_. ''aaaaaaaaaaaaaaaaaaaaaaaaaaaaaaaa'',
     cv_uuid_text = \<lambda>_. ''bbbbbbbbbbbbbbbbbbbbbbbbbbbbbbbbbbbb'', cv_read = r, cv_write = w\<rparr>"

definition demo_base :: backend_config where
  "demo_base = backend_config_default (demo_crates Err (\<lambda>_. Err []))"

definition demo_known :: backend_config where
  "demo_known = demo_base\<lparr>
     bc_admin := \<lparr>ac_path = ''manage-'' @ ''aaaaaaaaaaaaaaaaaaaaaaaaaaaaaaaa'', ac_token = ''admin_'' @ ''bbbbbbbbbbbbbbbbbbbbbbbbbbbbbbbbbbbb''\<rparr>,
     bc_security := (bc_security demo_base)\<lparr>sec_audit := \<lparr>asc_key_id = ''audit-'' @ ''aaaaaaaaaaaaaaaaaaaaaaaaaaaaaaaa'', asc_hmac_key = demo_key,
       asc_identifier_hmac_key = demo_key\<rparr>\<rparr>\<rparr>"

lemma demo_default: "backend_config_default (demo_crates r w) = demo_base"
  by (simp add: demo_base_def backend_config_default_def server_config_default_def network_security_default_def demo_crates_def)

lemmas demo_config = demo_known_def demo_base_def backend_config_default_def server_config_default_def database_config_default_def
  turnstile_config_default_def network_security_default_def default_turnstile_verify_url_def demo_crates_def demo_url_def demo_key_def login_security_default_def

lemma demo_path_valid: "validate_admin_path (ac_path (bc_admin demo_known)) = Ok ()"
  by (simp add: demo_config validate_admin_path_def is_ascii_alphanumeric_def is_ascii_lowercase_def is_ascii_uppercase_def)
lemma demo_security_valid: "validate_security (demo_crates r w) (bc_security demo_known) = Ok ()"
  by (simp add: demo_config validate_security_def validate_origin_def decode_32_byte_key_def validate_login_security_def bail_if_def)
lemma demo_mode_valid: "validate_server_mode (demo_crates r w) demo_known u = Ok ()"
  by (simp add: demo_config validate_server_mode_def lan_listener_def bail_if_def)
lemma demo_valid: "config_validate (demo_crates r w) demo_known = Ok ()"
  by (simp add: config_validate_def demo_path_valid demo_security_valid demo_mode_valid Let_def) (simp add: demo_config validate_database_url_def validate_public_url_def validate_versions_def validate_download_url_def bail_if_def)
lemma demo_settled: "config_normalize demo_known = demo_known"
proof -
  have "trim_slashes (trim (ac_path (bc_admin demo_known))) = ac_path (bc_admin demo_known)"
    using validated(1) [OF demo_valid] by (rule name_settled)
  then have "settled demo_known" using default_settled unfolding settled_parts
    by (simp add: demo_config trim_slashes_def trim_end_slashes_def trim_def trim_end_def ws1_def ws2_def ws3_def)
  then show ?thesis by (simp add: settled_def)
qed

lemma rested_draws [simp]: "(rested \<sigma>)\<lparr>cw_world := v\<rparr> = rested (\<sigma>\<lparr>cw_world := v\<rparr>)" "(rested \<sigma>)\<lparr>cw_keys := k\<rparr> = rested (\<sigma>\<lparr>cw_keys := k\<rparr>)"
  by (simp_all add: rested_def)

lemma rested_write: "cv_write ce c = Ok t \<Longrightarrow> fst (write_private_config ce path c (rested \<sigma>)) = Ok ()"
  by (simp add: write_private_config_def open_private_def restrict_private_file_permissions_def perform_def on_disk_def
      touch_nothing_def create_file_def write_all_def system_call_def rested_def sound_disk_def)

lemma fst_perform_const:
  "fst (perform x conv (\<lambda>_ s. (r, s))) = (case fst x of Ok _ \<Rightarrow> r | Err e \<Rightarrow> Err (conv e) | Panic p \<Rightarrow> Panic p)"
  by (cases x; cases "fst x") simp_all

lemma demo_load:
  assumes "dk_files (cw_disk \<sigma>) ''.cloudledger-server/admin-path'' = None" "dk_files (cw_disk \<sigma>) ''.cloudledger-server/admin-token'' = None"
    and "cw_keys \<sigma> = (\<lambda>_. demo_key)" "w demo_known = Ok t"
    and "dk_files (cw_disk \<sigma>) path = None \<or> dk_files (cw_disk \<sigma>) path = Some [] \<and> r [] = Ok demo_base"
  shows "fst (load_or_create (demo_crates r w) path (rested \<sigma>)) = Ok demo_known"
proof -
  have admin: "\<exists>v. complete_admin_credentials (demo_crates r w) demo_base (rested (\<sigma>\<lparr>cw_modes := m\<rparr>)) =
      (Ok (True, demo_base\<lparr>bc_admin := bc_admin demo_known\<rparr>), rested (\<sigma>\<lparr>cw_modes := m, cw_world := v\<rparr>))" for m
    using assms(1,2) by (auto simp: complete_admin_credentials_def legacy_or_new_def read_legacy_value_def draw_uuid_def new_v4_def
        demo_config Let_def path_join_def)
  have keys: "\<exists>v. complete_security_keys (demo_crates r w) (demo_base\<lparr>bc_admin := bc_admin demo_known\<rparr>) (rested (\<sigma>\<lparr>cw_modes := m, cw_world := u\<rparr>)) =
      ((True, demo_known), rested (\<sigma>\<lparr>cw_modes := m, cw_world := v, cw_keys := \<lambda>_. demo_key\<rparr>))" for m u
    using assms(3) by (auto simp: complete_security_keys_def key_or_new_def random_key_def draw_uuid_def new_v4_def demo_config Let_def)
  have found: "\<exists>m. (if dk_files (cw_disk \<sigma>) path \<noteq> None then read_config (demo_crates r w) path (rested \<sigma>) else (Ok demo_base, rested \<sigma>))
      = (Ok demo_base, rested (\<sigma>\<lparr>cw_modes := m\<rparr>))"
  proof (cases "dk_files (cw_disk \<sigma>) path")
    case None
    then show ?thesis by (auto intro!: exI [of _ "cw_modes \<sigma>"])
  next
    case (Some c)
    then show ?thesis using assms(5) read_empty [of \<sigma> path "demo_crates r w" demo_base] by (simp add: demo_crates_def)
  qed
  have "fst (write_private_config (demo_crates r w) path demo_known (rested s)) = Ok ()" for s
    using assms(4) by (intro rested_write [where t = t]) (simp add: demo_crates_def)
  moreover obtain m where m: "(if dk_files (cw_disk \<sigma>) path \<noteq> None then read_config (demo_crates r w) path (rested \<sigma>)
      else (Ok demo_base, rested \<sigma>)) = (Ok demo_base, rested (\<sigma>\<lparr>cw_modes := m\<rparr>))" using found by blast
  moreover obtain u where "complete_admin_credentials (demo_crates r w) demo_base (rested (\<sigma>\<lparr>cw_modes := m\<rparr>)) =
      (Ok (True, demo_base\<lparr>bc_admin := bc_admin demo_known\<rparr>), rested (\<sigma>\<lparr>cw_modes := m, cw_world := u\<rparr>))" using admin by blast
  moreover obtain v where "complete_security_keys (demo_crates r w) (demo_base\<lparr>bc_admin := bc_admin demo_known\<rparr>) (rested (\<sigma>\<lparr>cw_modes := m, cw_world := u\<rparr>)) =
      ((True, demo_known), rested (\<sigma>\<lparr>cw_modes := m, cw_world := v, cw_keys := \<lambda>_. demo_key\<rparr>))" using keys by blast
  ultimately show ?thesis
    by (simp add: load_or_create_def load_or_create_with_default_def demo_default demo_settled demo_valid fst_perform_const)
qed

section \<open>Properties\<close>

text \<open>
  C18: the server keeps the configuration it made for itself. When a start that found no file went well, whatever was drawn for it
  and whatever old credentials were taken over, its file is private and every later start loads exactly
  this configuration, the path and the token of the administration and the keys of the audit chain included, and draws and writes nothing.
\<close>

theorem configuration_survives_restart:
  assumes "config_text_exact ce" "settled d" "dk_files (cw_disk \<sigma>) path = None"
    and "load_or_create_with_default ce path d \<sigma> = (Ok c, \<sigma>')"
  shows "cw_modes \<sigma>' path = private_mode \<and> load_or_create_with_default ce path d' (rested \<sigma>') = (Ok c, rested \<sigma>')"
proof -
  have unseen: "on_disk (path_exists path) \<sigma> = (Ok b, \<sigma>1) \<Longrightarrow> \<not> b" for b \<sigma>1
    using assms(3) read_file(2) [of path "cw_disk \<sigma>"] touch_nothing_files [of "cw_disk \<sigma>"]
    by (auto simp: on_disk_Ok path_exists_def Let_def split_beta split: result.splits)
  obtain \<sigma>1 \<sigma>2 \<sigma>3 b1 b2 c1 c2 where steps: "complete_admin_credentials ce d \<sigma>1 = (Ok (b1, c1), \<sigma>2)"
    "complete_security_keys ce c1 \<sigma>2 = ((b2, c2), \<sigma>3)" "c = config_normalize c2" "config_validate ce c = Ok ()"
    "write_private_config ce path c \<sigma>3 = (Ok (), \<sigma>')"
    using assms(4) by (auto simp: load_or_create_with_default_def Let_def inversion split_beta dest!: unseen) (metis prod.collapse)
  obtain a k where "c2 = d\<lparr>bc_admin := a, bc_security := (bc_security d)\<lparr>sec_audit := k\<rparr>\<rparr>"
    using completed_admin [OF steps(1)] completed_keys [OF steps(2)] by auto
  then have settled: "settled c" using normalized_settled [OF assms(2)] steps(3,4) by simp
  obtain t where t: "cv_write ce c = Ok t" "dk_files (cw_disk \<sigma>') path = Some t" "cw_modes \<sigma>' path = private_mode"
    using write_private_config_Ok [OF steps(5)] by blast
  have "cv_decode_key ce [] = Some []" using assms(1) by (simp add: config_text_exact_def)
  with t(3) show ?thesis
    using read_config_exact [OF assms(1) t] loaded_complete [OF settled steps(4)] settled steps(4) t(2)
    by (simp add: load_or_create_with_default_def settled_def)
qed


definition demo_reader :: "string \<Rightarrow> (backend_config, string) result" where
  "demo_reader t = (if t = [] then Ok demo_base else if t = ''known'' then Ok demo_known else Err ''unknown key'')"

definition demo_writer :: "backend_config \<Rightarrow> (string, string) result" where
  "demo_writer c = (if c = demo_known then Ok ''known'' else Err ''not known'')"

definition demo_machine :: "(string \<rightharpoonup> string) \<Rightarrow> (nat \<Rightarrow> fault option) \<Rightarrow> config_world" where
  "demo_machine files faults = \<lparr>cw_disk = \<lparr>dk_files = files, dk_faults = faults\<rparr>, cw_modes = \<lambda>_. private_mode, cw_world = demo_world,
     cw_keys = \<lambda>_. demo_key\<rparr>"

theorem configuration_survives_restart_witness:
  "fst (load_or_create (demo_crates demo_reader demo_writer) ''config.toml''
     (rested (snd (load_or_create (demo_crates demo_reader demo_writer) ''config.toml'' (rested (demo_machine (\<lambda>_. None) (\<lambda>_. None))))))) = Ok demo_known"
proof -
  have "fst (load_or_create (demo_crates demo_reader demo_writer) ''config.toml'' (rested (demo_machine (\<lambda>_. None) (\<lambda>_. None)))) = Ok demo_known"
    by (rule demo_load) (simp_all add: demo_machine_def demo_writer_def)
  then obtain \<sigma> where first: "load_or_create (demo_crates demo_reader demo_writer) ''config.toml'' (rested (demo_machine (\<lambda>_. None) (\<lambda>_. None)))
      = (Ok demo_known, \<sigma>)" by (metis prod.collapse)
  have "config_text_exact (demo_crates demo_reader demo_writer)"
    by (simp add: config_text_exact_def demo_crates_def demo_reader_def demo_writer_def)
  moreover have "dk_files (cw_disk (rested (demo_machine (\<lambda>_. None) (\<lambda>_. None)))) ''config.toml'' = None" by (simp add: demo_machine_def)
  ultimately show ?thesis
    using configuration_survives_restart [OF _ default_settled _ first [unfolded load_or_create_def]] first
    by (simp add: load_or_create_def)
qed

text \<open>Completing the credentials draws no keys.\<close>

lemma perform_keys:
  "cw_keys (snd x) = K \<Longrightarrow> (\<And>a s. cw_keys s = K \<Longrightarrow> cw_keys (snd (k a s)) = K) \<Longrightarrow> cw_keys (snd (perform x conv k)) = K"
  by (cases x; cases "fst x") simp_all

lemma on_disk_keys [simp]: "cw_keys (snd (on_disk f \<sigma>)) = cw_keys \<sigma>"
  by (cases "f (cw_disk \<sigma>)"; cases "fst (f (cw_disk \<sigma>))") (simp_all add: on_disk_def)

lemma restrict_keys [simp]: "cw_keys (snd (restrict_private_file_permissions path \<sigma>)) = cw_keys \<sigma>"
  unfolding restrict_private_file_permissions_def by (intro perform_keys) (auto intro!: perform_keys)

lemma legacy_keys [simp]: "cw_keys (snd (legacy_or_new path text \<sigma>)) = cw_keys \<sigma>"
proof -
  have "cw_keys (snd (read_legacy_value path \<sigma>)) = cw_keys \<sigma>"
    unfolding read_legacy_value_def by (intro perform_keys) (auto intro!: perform_keys simp: Let_def)
  then show ?thesis
    unfolding legacy_or_new_def by (intro perform_keys) (auto simp: draw_uuid_def Let_def split_beta split: option.split)
qed

lemma completed_admin_keys: "cw_keys (snd (complete_admin_credentials ce c \<sigma>)) = cw_keys \<sigma>"
  unfolding complete_admin_credentials_def Let_def by (intro perform_keys) auto

text \<open>
  C21: the file is written in place. When the process ends after \<open>open\<close> has emptied the file of a running installation and before
  the text is in it, the next start takes the empty file for a configuration with nothing in it: the server comes up as a
  development machine with the default database and signs its audit log with a key just drawn.
\<close>

theorem interrupted_write_forgets_configuration:
  assumes "cv_read ce [] = Ok (backend_config_default ce)"
    and "parent_path path \<noteq> []" "dk_files (cw_disk \<sigma>) path = Some old"
    and "dk_faults (cw_disk \<sigma>) 0 = None" "dk_faults (cw_disk \<sigma>) 1 = None" "dk_faults (cw_disk \<sigma>) 2 = Some (Crashes 0)"
    and "write_private_config ce path c \<sigma> = (r, \<sigma>1)" "cv_write ce c = Ok t"
    and "load_or_create ce path (rested \<sigma>1) = (Ok c', \<sigma>2)"
  shows "sc_mode (bc_server c') = Development
    \<and> dc_url (bc_database c') = ''postgres://cloudledger@127.0.0.1:5432/cloudledger''
    \<and> asc_hmac_key (sec_audit (bc_security c')) = trim (cv_encode_key ce (cw_keys \<sigma> 0))"
proof -
  have emptied: "dk_files (cw_disk \<sigma>1) path = Some []" and keys: "cw_keys \<sigma>1 = cw_keys \<sigma>"
    using assms(2-8) by (auto simp: write_private_config_def on_disk_def touch_nothing_def system_call_def open_private_def
        create_file_def write_all_def perform_def numeral_2_eq_2)
  obtain m where m: "read_config ce path (rested \<sigma>1) = (Ok (backend_config_default ce), rested (\<sigma>1\<lparr>cw_modes := m\<rparr>))"
    using read_empty [OF emptied assms(1)] by blast
  obtain b b' c1 c2 \<sigma>4 \<sigma>5 where steps:
    "complete_admin_credentials ce (backend_config_default ce) (rested (\<sigma>1\<lparr>cw_modes := m\<rparr>)) = (Ok (b, c1), \<sigma>4)"
    "complete_security_keys ce c1 \<sigma>4 = ((b', c2), \<sigma>5)" "c' = config_normalize c2"
    using assms(9) emptied m
    by (auto simp: load_or_create_def load_or_create_with_default_def Let_def inversion split_beta) (metis prod.collapse)
  have drawn: "cw_keys \<sigma>4 = cw_keys \<sigma>"
    using completed_admin_keys [of ce "backend_config_default ce" "rested (\<sigma>1\<lparr>cw_modes := m\<rparr>)"] steps(1) keys by simp
  obtain a where c1: "c1 = (backend_config_default ce)\<lparr>bc_admin := a\<rparr>" using completed_admin [OF steps(1)] by blast
  obtain k where c2: "c2 = c1\<lparr>bc_security := (bc_security c1)\<lparr>sec_audit := k\<rparr>\<rparr>" using completed_keys [OF steps(2)] by blast
  have "asc_hmac_key k = cv_encode_key ce (cw_keys \<sigma> 0)"
    using steps(2) unfolding c1 c2
    by (auto simp: complete_security_keys_def key_or_new_def random_key_def draw_uuid_def backend_config_default_def drawn Let_def split_beta)
  moreover have "settled (backend_config_default ce)" by (rule default_settled)
  ultimately show ?thesis
    unfolding steps(3) c1 c2 normalized_parts settled_parts
    by (simp add: backend_config_default_def server_config_default_def database_config_default_def)
qed


text \<open>An installation behind a proxy, which writes its file, is cut off between \<open>open\<close> and \<open>write\<close>, and starts again.\<close>

definition demo_production :: backend_config where
  "demo_production = demo_known\<lparr>bc_server := (bc_server demo_known)\<lparr>sc_mode := ReverseProxy\<rparr>\<rparr>"

definition demo_rewrite :: "(unit, config_error) result \<times> config_world" where
  "demo_rewrite = write_private_config (demo_crates demo_reader (\<lambda>_. Ok ''known'')) ''data/config.toml'' demo_production
     (demo_machine [''data/config.toml'' \<mapsto> ''known''] (\<lambda>n. if n = 2 then Some (Crashes 0) else None))"

lemma demo_emptied:
  "dk_files (cw_disk (snd demo_rewrite)) = [''data/config.toml'' \<mapsto> []]" "cw_keys (snd demo_rewrite) = (\<lambda>_. demo_key)"
  by (simp_all add: demo_rewrite_def demo_machine_def write_private_config_def on_disk_def touch_nothing_def system_call_def
      open_private_def create_file_def write_all_def perform_def parent_path_def demo_crates_def numeral_2_eq_2 Let_def)

theorem interrupted_write_forgets_configuration_witness:
  "\<exists>c'. fst (load_or_create (demo_crates demo_reader (\<lambda>_. Ok ''known'')) ''data/config.toml'' (rested (snd demo_rewrite))) = Ok c'
     \<and> sc_mode (bc_server demo_production) = ReverseProxy \<and> sc_mode (bc_server c') = Development"
proof -
  have "fst (load_or_create (demo_crates demo_reader (\<lambda>_. Ok ''known'')) ''data/config.toml'' (rested (snd demo_rewrite))) = Ok demo_known"
    by (rule demo_load) (simp_all add: demo_emptied demo_reader_def)
  then obtain \<sigma> where start: "load_or_create (demo_crates demo_reader (\<lambda>_. Ok ''known'')) ''data/config.toml'' (rested (snd demo_rewrite))
      = (Ok demo_known, \<sigma>)" by (metis prod.collapse)
  obtain r \<sigma>1 where rewritten: "demo_rewrite = (r, \<sigma>1)" by fastforce
  have "sc_mode (bc_server demo_known) = Development"
    using interrupted_write_forgets_configuration [of "demo_crates demo_reader (\<lambda>_. Ok ''known'')" "''data/config.toml''"
        "demo_machine [''data/config.toml'' \<mapsto> ''known''] (\<lambda>n. if n = 2 then Some (Crashes 0) else None)" "''known''"
        demo_production r \<sigma>1 "''known''" demo_known \<sigma>] rewritten start
    by (simp add: demo_rewrite_def demo_machine_def demo_default demo_reader_def parent_path_def) (simp add: demo_crates_def demo_reader_def)
  then show ?thesis using start by (simp add: demo_production_def)
qed

end
