(* ===== verification/GatewayProperties.thy ===== *)
theory GatewayProperties
  imports Gateway ConfigProperties ApiProperties
begin

text \<open>
  What a checked configuration gives the server behind a proxy, and what the layers before the handlers keep away from them.
\<close>

section \<open>The start\<close>

lemma bail_if_attempt [simp]: "attempt_pure (bail_if b message) id k = Ok u \<longleftrightarrow> \<not> b \<and> k () = Ok u"
  by (simp add: bail_if_def)

lemma validated_mode:
  assumes "config_validate ce c = Ok u" "sc_mode (bc_server c) = ReverseProxy"
  shows "\<not> lan_listener ce (bc_server c)" "\<not> plain_public_url (bc_server c)" "\<not> sc_web_login_enabled (bc_server c)"
    and "\<not> dc_auto_migrate (bc_database c)"
    and "tc_site_key (sec_turnstile (bc_security c)) \<noteq> []" "tc_secret_key (sec_turnstile (bc_security c)) \<noteq> []"
    and "set (nc_cors_allowed_origins (sec_network (bc_security c))) \<subseteq> set tauri_origins"
    and "\<exists>d p. cv_url ce (dc_url (bc_database c)) = Some d \<and> url_password d = Some p
          \<and> p \<notin> {[], ''cloudledger'', ''postgres'', ''change-this-password''}"
proof -
  obtain d where d: "validate_database_url ce (dc_url (bc_database c)) = Ok d" "validate_server_mode ce c d = Ok ()"
    using assms(1) unfolding config_validate_def Let_def by (auto simp: inversion)
  then have url: "cv_url ce (dc_url (bc_database c)) = Some d"
    by (auto simp: validate_database_url_def inversion split: if_splits)
  have mode: "\<not> lan_listener ce (bc_server c) \<and> \<not> plain_public_url (bc_server c) \<and> \<not> sc_web_login_enabled (bc_server c)
      \<and> \<not> dc_auto_migrate (bc_database c) \<and> tc_site_key (sec_turnstile (bc_security c)) \<noteq> []
      \<and> tc_secret_key (sec_turnstile (bc_security c)) \<noteq> [] \<and> reject_known_database_password d = Ok ()
      \<and> set (nc_cors_allowed_origins (sec_network (bc_security c))) \<subseteq> set tauri_origins"
    using d(2) assms(2) by (auto simp: validate_server_mode_def Let_def inversion validate_production_database_url_def)
  then show "\<not> lan_listener ce (bc_server c)" "\<not> plain_public_url (bc_server c)" "\<not> sc_web_login_enabled (bc_server c)"
    and "\<not> dc_auto_migrate (bc_database c)"
    and "tc_site_key (sec_turnstile (bc_security c)) \<noteq> []" "tc_secret_key (sec_turnstile (bc_security c)) \<noteq> []"
    and "set (nc_cors_allowed_origins (sec_network (bc_security c))) \<subseteq> set tauri_origins" by blast+
  have "reject_known_database_password d = Ok ()" using mode by blast
  then have "\<exists>p. url_password d = Some p \<and> p \<notin> {[], ''cloudledger'', ''postgres'', ''change-this-password''}"
    by (cases "url_password d") (auto simp: reject_known_database_password_def)
  with url show "\<exists>d p. cv_url ce (dc_url (bc_database c)) = Some d \<and> url_password d = Some p
      \<and> p \<notin> {[], ''cloudledger'', ''postgres'', ''change-this-password''}" by blast
qed

lemma validated_versions:
  assumes "config_validate ce c = Ok u"
  shows "\<exists>m. cv_semver ce (sc_min_supported_client_version (bc_server c)) = Some m"
proof -
  have "validate_versions ce (bc_server c) = Ok ()"
    using assms unfolding config_validate_def Let_def by (auto simp: inversion)
  then show ?thesis by (auto simp: validate_versions_def inversion)
qed

lemma validated_turnstile:
  assumes "config_validate ce c = Ok u"
  shows "tc_verify_url (sec_turnstile (bc_security c)) \<noteq> []"
proof -
  have "validate_security ce (bc_security c) = Ok u"
    using assms unfolding config_validate_def Let_def by (auto simp: inversion)
  then show ?thesis by (auto simp: validate_security_def Let_def inversion)
qed

lemma version_policy_simps [simp]:
  "vp_client_version (version_policy_of s) = sc_client_version s" "vp_min_supported (version_policy_of s) = sc_min_supported_client_version s"
  "vp_download_url (version_policy_of s) = sc_client_download_url s"
  by (simp_all add: version_policy_of_def)

lemma tauri_header_values: "origin \<in> set tauri_origins \<Longrightarrow> valid_header_value origin"
  by (auto simp: tauri_origins_def valid_header_value_def)

lemma cors_layer_Ok:
  assumes "\<forall>origin \<in> set origins. valid_header_value origin"
  shows "\<exists>rules. (cors_layer origins bypass :: (cors_rules, 'e) result) = Ok rules \<and> cors_origins rules = origins"
proof -
  have "(map_result (\<lambda>origin. if valid_header_value origin then Ok origin else Panic ''validated CORS origin'') origins
      :: (string list, 'e) result) = Ok origins"
    using assms by (simp add: map_result_Ok)
  then show ?thesis by (simp add: cors_layer_def)
qed

section \<open>The layers\<close>




section \<open>Properties\<close>

text \<open>
  A configuration that was loaded and says \<open>reverse_proxy\<close> starts a closed server: both listeners are on loopback, the public
  addresses are HTTPS, the login of browsers is off, the runtime never migrates, the password of the database is none of the
  examples, the challenge is enabled, only the desktop's own origins may call, and nothing that the start unwraps with \<open>expect\<close> (the origins,
  the minimum version) can panic.
\<close>

theorem production_configuration_closed:
  assumes "config_validate ce c = Ok u" "settled c" "sc_mode (bc_server c) = ReverseProxy"
  shows "\<exists>t rules m d password.
      turnstile_from_config (sec_turnstile (bc_security c)) = Ok t \<and> turnstile_is_enabled t
    \<and> (cors_layer (nc_cors_allowed_origins (sec_network (bc_security c))) False :: (cors_rules, unit) result) = Ok rules
    \<and> set (cors_origins rules) \<subseteq> set tauri_origins
    \<and> (minimum_version ce (version_policy_of (bc_server c)) :: (_, unit) result) = Ok m
    \<and> cv_loopback ce (fst (sc_api_bind_addr (bc_server c))) \<and> cv_loopback ce (fst (sc_admin_bind_addr (bc_server c)))
    \<and> starts_with ''https://'' (sc_public_api_url (bc_server c)) \<and> starts_with ''https://'' (sc_public_admin_url (bc_server c))
    \<and> \<not> sc_web_login_enabled (bc_server c) \<and> \<not> dc_auto_migrate (bc_database c)
    \<and> cv_url ce (dc_url (bc_database c)) = Some d \<and> url_password d = Some password
    \<and> password \<notin> {[], ''cloudledger'', ''postgres'', ''change-this-password''}"
proof -
  have keys: "trim (tc_site_key (sec_turnstile (bc_security c))) \<noteq> []" "trim (tc_secret_key (sec_turnstile (bc_security c))) \<noteq> []"
    "trim (tc_verify_url (sec_turnstile (bc_security c))) \<noteq> []"
    using assms(2) validated_mode(5,6) [OF assms(1,3)] validated_turnstile [OF assms(1)] unfolding settled_parts by simp_all
  obtain t where "turnstile_from_config (sec_turnstile (bc_security c)) = Ok t" "turnstile_is_enabled t"
    using keys by (simp add: turnstile_from_config_def nonempty_value_def turnstile_is_enabled_def)
  moreover obtain rules where "(cors_layer (nc_cors_allowed_origins (sec_network (bc_security c))) False :: (cors_rules, unit) result) = Ok rules"
    "cors_origins rules = nc_cors_allowed_origins (sec_network (bc_security c))"
    using cors_layer_Ok [of "nc_cors_allowed_origins (sec_network (bc_security c))" False] validated_mode(7) [OF assms(1,3)]
      tauri_header_values by blast
  moreover obtain m where "(minimum_version ce (version_policy_of (bc_server c)) :: (_, unit) result) = Ok m"
    using validated_versions [OF assms(1)] by (auto simp: minimum_version_def)
  ultimately show ?thesis
    using validated_mode(1-4,7,8) [OF assms(1,3)] by (auto simp: lan_listener_def plain_public_url_def)
qed


text \<open>An installation behind a proxy.\<close>

definition demo_proxy_crates :: "string config_env" where
  "demo_proxy_crates = (demo_crates Err (\<lambda>_. Err []))\<lparr>cv_url := \<lambda>s. map_option (\<lambda>u. u\<lparr>url_host := Some ''localhost'', url_password := Some ''strong''\<rparr>) (demo_url s)\<rparr>"

definition demo_proxy :: backend_config where
  "demo_proxy = demo_known\<lparr>
     bc_server := (bc_server demo_known)\<lparr>sc_mode := ReverseProxy, sc_public_api_url := ''https://api'', sc_public_admin_url := ''https://admin'',
       sc_min_supported_client_version := ''0.1.13''\<rparr>,
     bc_database := (bc_database demo_known)\<lparr>dc_auto_migrate := False\<rparr>,
     bc_security := (bc_security demo_known)\<lparr>sec_turnstile := \<lparr>tc_site_key = ''site'', tc_secret_key = ''secret'', tc_verify_url = ''https://verify''\<rparr>\<rparr>\<rparr>"

lemma demo_proxy_path: "validate_admin_path (ac_path (bc_admin demo_proxy)) = Ok ()"
  using demo_path_valid by (simp add: demo_proxy_def)

lemma demo_proxy_security: "validate_security demo_proxy_crates (bc_security demo_proxy) = Ok ()"
  by (simp add: demo_proxy_def demo_proxy_crates_def demo_config validate_security_def validate_origin_def decode_32_byte_key_def
      validate_login_security_def bail_if_def)

lemma demo_proxy_mode: "url_password u = Some ''strong'' \<Longrightarrow> url_host u = Some ''localhost'' \<Longrightarrow> validate_server_mode demo_proxy_crates demo_proxy u = Ok ()"
  by (simp add: demo_proxy_def demo_proxy_crates_def demo_config validate_server_mode_def lan_listener_def plain_public_url_def
      starts_with_def validate_production_database_url_def reject_known_database_password_def is_loopback_host_def
      eq_ignore_ascii_case_def tauri_origins_def bail_if_def)

lemma demo_proxy_database:
  "\<exists>u. validate_database_url demo_proxy_crates (dc_url (bc_database demo_proxy)) = Ok u \<and> url_password u = Some ''strong'' \<and> url_host u = Some ''localhost''"
  by (simp add: demo_proxy_def demo_proxy_crates_def demo_config validate_database_url_def)

lemma demo_proxy_addresses:
  "\<exists>u. validate_public_url demo_proxy_crates name (sc_public_api_url (bc_server demo_proxy)) = Ok u"
  "\<exists>u. validate_public_url demo_proxy_crates name (sc_public_admin_url (bc_server demo_proxy)) = Ok u"
  "validate_versions demo_proxy_crates (bc_server demo_proxy) = Ok ()" "validate_download_url demo_proxy_crates (bc_server demo_proxy) = Ok ()"
  by (simp_all add: demo_proxy_def demo_proxy_crates_def demo_config validate_public_url_def validate_versions_def validate_download_url_def)

lemma demo_proxy_valid: "config_validate demo_proxy_crates demo_proxy = Ok ()"
proof -
  have "sc_data_dir (bc_server demo_proxy) \<noteq> []" "dc_max_connections (bc_database demo_proxy) \<noteq> 0"
    "dc_connect_timeout_seconds (bc_database demo_proxy) \<noteq> 0" "ac_token (bc_admin demo_proxy) \<noteq> []"
    by (simp_all add: demo_proxy_def demo_config)
  then show ?thesis
    using demo_proxy_database demo_proxy_addresses demo_proxy_path demo_proxy_security
    by (auto simp: config_validate_def Let_def inversion demo_proxy_mode)
qed

lemma demo_proxy_settled: "settled demo_proxy"
proof -
  have "settled demo_known" using demo_settled by (simp add: settled_def)
  then show ?thesis unfolding settled_parts
    by (simp add: demo_proxy_def trim_end_slashes_def trim_def trim_end_def ws1_def ws2_def ws3_def)
qed

theorem production_configuration_closed_example:
  "\<exists>t. turnstile_from_config (sec_turnstile (bc_security demo_proxy)) = Ok t \<and> turnstile_is_enabled t"
proof -
  have "sc_mode (bc_server demo_proxy) = ReverseProxy" by (simp add: demo_proxy_def)
  from production_configuration_closed [OF demo_proxy_valid demo_proxy_settled this] show ?thesis by blast
qed






end
