(* ===== verification/StartupProperties.thy ===== *)
theory StartupProperties
  imports Startup FileProperties GatewayProperties PostgresProperties
begin

text \<open>
  What a start that went well guarantees, and a start that cannot be repeated.
\<close>

section \<open>Administrators\<close>

text \<open>An account is not there, or is one of the administration.\<close>

definition backend_only :: "auth_service \<Rightarrow> uuid \<Rightarrow> bool" where
  "backend_only s u \<longleftrightarrow> account_kind_of s u \<in> {None, Some OrganizationAdmin}"

lemma revoke_keeps_users: "users_by_id (fst (revoke_user_sessions uid (s, w))) = users_by_id s"
  by (simp add: revoke_user_sessions_def revoke_where_def Let_def split_beta)

lemma marked_users:
  assumes "mark_organization_admin uid org (s, w) = (b, s', w')"
  shows "users_by_id s' = users_by_id s \<and> backend_only s uid
    \<or> (\<exists>x. users_by_id s' = om_insert uid x (users_by_id s) \<and> su_account_kind x = OrganizationAdmin)"
proof (cases "users_by_id s' = users_by_id s \<and> backend_only s uid")
  case False
  then obtain u where u: "om_get (users_by_id s) uid = Some u"
    "\<not> (su_account_kind u = OrganizationAdmin \<and> su_organization u = Some org)"
    using assms by (fastforce simp: mark_organization_admin_def backend_only_def account_kind_of_def split: option.splits if_splits)
  obtain now w1 where now: "auth_now w = (now, w1)" by fastforce
  let ?x = "u\<lparr>su_account_kind := OrganizationAdmin, su_organization := Some org, su_updated_at := now\<rparr>"
  have "(s', w') = revoke_user_sessions uid (s\<lparr>users_by_id := om_insert uid ?x (users_by_id s)\<rparr>, w1)"
    using assms u by (auto simp: mark_organization_admin_def now)
  then have "users_by_id s' = om_insert uid ?x (users_by_id s)"
    using revoke_keeps_users [of uid "s\<lparr>users_by_id := om_insert uid ?x (users_by_id s)\<rparr>" w1] by (simp flip: \<open>(s', w') = _\<close>)
  then show ?thesis by auto
qed simp

lemma mark_backend_only:
  assumes "mark_organization_admin uid org (s, w) = (b, s', w')"
  shows "backend_only s' uid" "backend_only s u \<Longrightarrow> backend_only s' u"
  using marked_users [OF assms]
  by (cases "om_get (users_by_id s') uid"; cases "om_get (users_by_id s') u"; force simp: backend_only_def account_kind_of_def split: if_splits)+

lemma migrated_backend_only:
  assumes "fold (\<lambda>(u, org) (changed, \<sigma>). let (c, \<sigma>) = mark_organization_admin u org \<sigma> in (c \<or> changed, \<sigma>)) as (b, s, w) = (b', s', w')"
  shows "(\<forall>(u, org) \<in> set as. backend_only s' u) \<and> (\<forall>u. backend_only s u \<longrightarrow> backend_only s' u)"
  using assms
proof (induction as arbitrary: b s w)
  case (Cons a as)
  obtain u org where a: "a = (u, org)" by fastforce
  obtain c s1 w1 where m: "mark_organization_admin u org (s, w) = (c, s1, w1)" by (metis prod.collapse)
  have "(\<forall>(u, org) \<in> set as. backend_only s' u) \<and> (\<forall>u. backend_only s1 u \<longrightarrow> backend_only s' u)"
    using Cons.prems by (intro Cons.IH) (simp add: a m)
  then show ?case using mark_backend_only [OF m] by (auto simp: a)
qed simp


lemma load_with_security_Ok:
  assumes "load_with_security ce env c ledger auth \<sigma> = (Ok x, \<sigma>')"
  shows "sd_ledger x = ledger" "sd_auth x = auth" "sd_admin_path x = ac_path (bc_admin c)"
    and "turnstile_from_config (sec_turnstile (bc_security c)) = Ok (sd_turnstile x)"
    and "sd_cors_origins x = nc_cors_allowed_origins (sec_network (bc_security c))"
    and "sd_ngrok_warning_bypass x \<longleftrightarrow> sc_mode (bc_server c) = Development"
    and "sd_web_login_enabled x = sc_web_login_enabled (bc_server c)" "sd_versions x = version_policy_of (bc_server c)"
  using assms by (auto simp: load_with_security_def Let_def inversion split_beta)

section \<open>Properties\<close>

text \<open>
  C20: a server that started behind a proxy is closed and has its administrators apart. Its challenge is enabled, browsers
  cannot log in, the tunnel's bypass is off, only the desktop's own origins are answered, the minimum version can be read at every
  request; and whoever the loaded ledger names as the owner of an organization has an account of the administration or none, whatever the
  stored account was, so that no owner logs in to the books.
\<close>

theorem started_server_is_closed:
  assumes "load_from_config je ce pe now now' c \<sigma> = (Ok x, \<sigma>')" "settled c" "sc_mode (bc_server c) = ReverseProxy"
  shows "turnstile_is_enabled (sd_turnstile x) \<and> \<not> sd_web_login_enabled x \<and> \<not> sd_ngrok_warning_bypass x
    \<and> set (sd_cors_origins x) \<subseteq> set tauri_origins
    \<and> (\<exists>m. (minimum_version ce (sd_versions x) :: (_, unit) result) = Ok m)
    \<and> (\<forall>(u, org) \<in> set (organization_admin_accounts (sd_ledger x)).
         account_kind_of (sd_auth x) u \<in> {None, Some OrganizationAdmin})"
proof -
  have valid: "config_validate ce c = Ok ()"
    using assms(1) by (auto simp: load_from_config_def Let_def inversion)
  obtain ledger auth v auth' v' b d w \<sigma>2 where
    migrated: "migrate_organization_admin_accounts ledger (auth, v) = (b, auth', v')"
    and loaded: "load_with_security ce (ad_env (pe_audit pe)) c ledger auth' (d, w) = (Ok x, \<sigma>2)"
    using assms(1) by (auto simp: load_from_config_def Let_def inversion split_beta) (metis prod.collapse)
  note x = load_with_security_Ok [OF loaded]
  have "\<forall>(u, org) \<in> set (organization_admin_accounts ledger). backend_only auth' u"
    using migrated_backend_only migrated unfolding migrate_organization_admin_accounts_def by blast
  then have "\<forall>(u, org) \<in> set (organization_admin_accounts (sd_ledger x)). account_kind_of (sd_auth x) u \<in> {None, Some OrganizationAdmin}"
    using x by (auto simp: backend_only_def)
  moreover obtain m where "(minimum_version ce (sd_versions x) :: (_, unit) result) = Ok m"
    using validated_versions [OF valid] x(8) by (auto simp: minimum_version_def)
  moreover have "turnstile_is_enabled (sd_turnstile x)"
    using production_configuration_closed [OF valid assms(2,3)] x(4) by auto
  moreover have "\<not> sd_web_login_enabled x" "\<not> sd_ngrok_warning_bypass x" "set (sd_cors_origins x) \<subseteq> set tauri_origins"
    using x(5-7) validated_mode(3,7) [OF valid assms(3)] assms(3) by simp_all
  ultimately show ?thesis by blast
qed

text \<open>A first start behind a proxy, on an empty database and an empty directory.\<close>

definition demo_empty :: pg_database where
  "demo_empty = \<lparr>db_tables = demo_tables, db_faults = \<lambda>_. Undisturbed\<rparr>"

definition demo_keyed :: "audit_signer \<Rightarrow> pg_env" where
  "demo_keyed signer = demo_pg\<lparr>pe_signer := signer\<rparr>"

definition demo_connected :: "audit_signer \<Rightarrow> pg_database \<times> world" where
  "demo_connected signer = snd (connect_with_audit (demo_keyed signer) (demo_empty, demo_world))"

lemma demo_connection:
  "fst (connect_with_audit (demo_keyed signer) (demo_empty, demo_world)) = Ok ()"
  "snd (connect_with_audit (demo_keyed signer) (demo_empty, demo_world)) = demo_connected signer"
  "fst (has_state (fst (demo_connected signer))) = Ok False"
  by (code_simp, simp add: demo_connected_def, code_simp)

lemma demo_first_save:
  "\<exists>db. pg_save_all (demo_keyed signer) 7000 (snapshot uninitialized) (auth_snapshot_of auth_default)
     (snd (has_state (fst (demo_connected signer)))) = (Ok (), db)"
proof -
  have "fst (pg_save_all (demo_keyed signer) 7000 (snapshot uninitialized) (auth_snapshot_of auth_default)
      (snd (has_state (fst (demo_connected signer))))) = Ok ()"
    by code_simp
  then show ?thesis by (metis prod.collapse)
qed

lemma demo_disk_calls:
  "touch_nothing \<lparr>dk_files = \<lambda>_. None, dk_faults = \<lambda>_. None\<rparr> = (Ok (), \<lparr>dk_files = \<lambda>_. None, dk_faults = \<lambda>_. None\<rparr>)"
  by (simp add: touch_nothing_def system_call_def)

lemma demo_server_id:
  "fst (load_or_create_server_id env path (\<lparr>dk_files = \<lambda>_. None, dk_faults = \<lambda>_. None\<rparr>, w)) = Ok (ids w 0)"
  by (simp add: load_or_create_server_id_def path_exists_def demo_disk_calls fs_write_def create_file_def write_all_def system_call_def
      new_v4_def perform_def Let_def split_beta)

lemma demo_proxy_turnstile: "\<exists>t. turnstile_from_config (sec_turnstile (bc_security demo_proxy)) = Ok t"
  using production_configuration_closed [OF demo_proxy_valid demo_proxy_settled] by (auto simp: demo_proxy_def)

lemma demo_proxy_keys:
  "\<exists>k. decode_32_byte_key demo_proxy_crates name (asc_identifier_hmac_key (sec_audit (bc_security demo_proxy))) = Ok k"
  "\<exists>signer. signer_from_config demo_proxy_crates (sec_audit (bc_security demo_proxy)) = Ok signer"
proof -
  have "cv_decode_key demo_proxy_crates demo_key = Some demo_key" "length demo_key = 32"
    "asc_hmac_key (sec_audit (bc_security demo_proxy)) = demo_key" "asc_identifier_hmac_key (sec_audit (bc_security demo_proxy)) = demo_key"
    by (simp_all add: demo_proxy_def demo_proxy_crates_def demo_known_def demo_crates_def demo_key_def)
  then show "\<exists>k. decode_32_byte_key demo_proxy_crates name (asc_identifier_hmac_key (sec_audit (bc_security demo_proxy))) = Ok k"
    "\<exists>signer. signer_from_config demo_proxy_crates (sec_audit (bc_security demo_proxy)) = Ok signer"
    by (simp_all add: signer_from_config_def decode_32_byte_key_def)
qed

lemma demo_start:
  "\<exists>x. fst (load_from_config je demo_proxy_crates demo_pg 7000 7000 demo_proxy
     (demo_empty, \<lparr>dk_files = \<lambda>_. None, dk_faults = \<lambda>_. None\<rparr>, \<lparr>aw_world = demo_world, aw_tokens = t, aw_salts = u\<rparr>)) = Ok x"
proof -
  let ?d = "\<lparr>dk_files = \<lambda>_. None, dk_faults = \<lambda>_. None\<rparr> :: disk"
  obtain signer where signer: "signer_from_config demo_proxy_crates (sec_audit (bc_security demo_proxy)) = Ok signer"
    using demo_proxy_keys by blast
  let ?v = "\<lparr>aw_world = snd (demo_connected signer), aw_tokens = t, aw_salts = u\<rparr>"
  obtain db where "pg_save_all (demo_keyed signer) 7000 (snapshot uninitialized) (auth_snapshot_of auth_default)
      (snd (has_state (fst (demo_connected signer)))) = (Ok (), db)"
    using demo_first_save by blast
  then have "load_or_import je (demo_keyed signer) 7000 l a (fst (demo_connected signer), ?d, ?v) = (Ok (uninitialized, auth_default, False), db, ?d, ?v)" for l a
    using demo_connection(3) [of signer]
    by (simp add: load_or_import_def import_exists_def path_exists_def demo_disk_calls load_or_default_def perform_def Let_def split_beta)
  moreover obtain k ta where
    "decode_32_byte_key demo_proxy_crates ''security.audit.identifier_hmac_key'' (asc_identifier_hmac_key (sec_audit (bc_security demo_proxy))) = Ok k"
    "turnstile_from_config (sec_turnstile (bc_security demo_proxy)) = Ok ta"
    using demo_proxy_keys demo_proxy_turnstile by blast
  moreover have "organization_admin_accounts uninitialized = []" by (simp add: organization_admin_accounts_def uninitialized_def)
  ultimately show ?thesis
    using demo_connection(1,2) [of signer] signer
    by (simp add: load_from_config_def demo_proxy_valid demo_disk_calls load_with_security_def migrate_organization_admin_accounts_def
       demo_server_id perform_def Let_def split_beta flip: demo_keyed_def)
qed

theorem started_server_is_closed_witness:
  "\<exists>x. fst (load_from_config demo_json demo_proxy_crates demo_pg 7000 7000 demo_proxy
     (demo_empty, \<lparr>dk_files = \<lambda>_. None, dk_faults = \<lambda>_. None\<rparr>, demo_auth_world)) = Ok x
   \<and> turnstile_is_enabled (sd_turnstile x) \<and> \<not> sd_web_login_enabled x"
proof -
  obtain x \<sigma>' where start: "load_from_config demo_json demo_proxy_crates demo_pg 7000 7000 demo_proxy (demo_empty,
      \<lparr>dk_files = \<lambda>_. None, dk_faults = \<lambda>_. None\<rparr>, demo_auth_world) = (Ok x, \<sigma>')"
    using demo_start unfolding demo_auth_world_def by (metis prod.collapse)
  have "sc_mode (bc_server demo_proxy) = ReverseProxy" by (simp add: demo_proxy_def)
  with started_server_is_closed [OF start demo_proxy_settled] start show ?thesis by auto
qed

text \<open>
  The identity of the server is written in place. When the process ends between emptying the file \<open>server-id\<close> and
  writing it, at its first start, every later start finds an empty file, takes it for an identity it cannot read, and fails,
  until somebody removes the file.
\<close>

theorem interrupted_first_start_blocks:
  assumes "parse_uuid env [] = None" "dk_files d path = None"
    and "dk_faults d 0 = None" "dk_faults d 1 = None" "dk_faults d 2 = Some (Crashes 0)"
    and "load_or_create_server_id env path (d, w) = (r, d', w')"
  shows "load_or_create_server_id env path (sound_disk d', v) = (Err StartId, sound_disk d', v)"
proof -
  have "dk_files d' path = Some []"
    using assms(2-6) by (auto simp: load_or_create_server_id_def path_exists_def touch_nothing_def system_call_def fs_write_def
        create_file_def write_all_def new_v4_def perform_def numeral_2_eq_2 Let_def)
  then show ?thesis using assms(1) by (simp add: load_or_create_server_id_def)
qed

theorem interrupted_first_start_blocks_example:
  "\<exists>d'. fst (load_or_create_server_id demo_env ''server-id'' (sound_disk d', demo_world)) = Err StartId
     \<and> d' = fst (snd (load_or_create_server_id demo_env ''server-id''
          (\<lparr>dk_files = \<lambda>_. None, dk_faults = \<lambda>n. if n = 2 then Some (Crashes 0) else None\<rparr>, demo_world)))"
proof -
  obtain r d' w' where first: "load_or_create_server_id demo_env ''server-id''
      (\<lparr>dk_files = \<lambda>_. None, dk_faults = \<lambda>n. if n = 2 then Some (Crashes 0) else None\<rparr>, demo_world) = (r, d', w')"
    by (metis prod.collapse)
  have "load_or_create_server_id demo_env ''server-id'' (sound_disk d', demo_world) = (Err StartId, sound_disk d', demo_world)"
    by (rule interrupted_first_start_blocks [OF _ _ _ _ _ first]) (simp_all add: demo_env_def)
  then show ?thesis using first by (intro exI [of _ d']) simp
qed

end
