(* ===== verification/Spec2Isabelle.thy ===== *)
theory Spec2Isabelle
  imports LedgerProperties SetupProperties LoginProperties ApiProperties ReportProperties LockProperties AdminScope
    ShellProperties ClientProperties PostgresLedger SqliteProperties StartupProperties
begin

text \<open>
  CloudLedger: a verification development for the Rust workspace under \<open>src/crates\<close>.

  The program keeps the books of persons and small organizations. It has two bookkeeping halves that share
  the crate \<open>cloudledger-core\<close>, and a server around the second. The double-entry half (\<open>cloudledger-core/src\<close>: \<open>ledger.rs\<close>, \<open>auth.rs\<close>,
  \<open>journal.rs\<close>, \<open>approval.rs\<close>; \<open>cloudledger-db/src\<close>; \<open>cloudledger-service/src/service.rs\<close>) submits
  journal entries to a repository and has company entries approved. The application half
  (\<open>cloudledger-core/src\<close>: \<open>types.rs\<close>, \<open>permissions.rs\<close>, \<open>money.rs\<close>; \<open>cloudledger-service/src/app.rs\<close>)
  is the state behind the server: users, organizations, memberships, personal and public ledgers,
  accounts, categories, transactions with an approval and a payment state, and an audit log. The server
  (\<open>cloudledger-server/src\<close>) has accounts, sessions and tokens (\<open>auth.rs\<close>), limits on failed logins
  (\<open>login_protection.rs\<close>), and handlers (\<open>auth_routes.rs\<close>, \<open>app_api.rs\<close>, \<open>admin.rs\<close>) that run the operations
  of the accounts and of the ledger on a clone, save it, and replace the shared state. The records of the ledger's
  log and the security events of the handlers go into a signed, chained table (\<open>audit.rs\<close>). What is saved is stored
  in files (\<open>app.rs\<close>, \<open>auth.rs\<close>, \<open>storage/persistence.rs\<close>) or in PostgreSQL (\<open>storage/postgres.rs\<close>). A desktop shell
  (\<open>src-tauri/src\<close>) runs the same ledger on one computer, and keeps a cache of what a server sent and the session with it.

  Conventions. A struct is a record, an enum a datatype, \<open>i64\<close> a 64-bit word read by \<open>sint\<close> (additions
  wrap, as in a release build), \<open>i128\<close> an \<open>int\<close> (a journal entry of fewer than \<open>2 ^ 64\<close> lines cannot
  overflow it: \<open>totals_fit_i128\<close> in \<open>Journal\<close>). Text is its UTF-8 bytes. \<open>BTreeMap\<close> and \<open>HashMap\<close> are
  \<open>ord_map\<close>; the order in which a \<open>HashMap\<close> yields its values is not relied upon (\<open>list_members_sorted\<close>).
  A \<open>Result\<close> is \<open>result\<close> with a third outcome for panics; a method on \<open>&mut self\<close> returns the result
  and the next state, also when it fails after a change. Random identifiers and the clock are drawn from
  a \<open>world\<close> that is threaded through; what comes from outside \<open>src\<close> (Unicode case mapping, the text form
  of identifiers and times) is the parameter \<open>env\<close>. The only hypotheses on them are \<open>fresh_ids\<close> (random
  identifiers do not repeat) and \<open>env_ok\<close> (upper-casing keeps three upper-case ASCII letters). The server
  adds SHA-256, Argon2 and the random source of tokens and salts (\<open>auth_env\<close>, \<open>auth_world\<close>; the hypothesis
  \<open>supply_ok\<close>: the tokens drawn have digests that are not empty and never repeat), the storage and the web
  service of the challenge (\<open>route_env\<close>; the hypothesis \<open>transactional\<close>: a save stores the snapshot or
  reports an error and stores nothing). Times are nanoseconds. The reports take the calendar of the local time
  zone (\<open>calendar\<close>; the hypothesis \<open>calendar_ok\<close>: a month starts with its first day, and an instant lies in
  a month or later exactly when the month has started). The audit chain takes HMAC-SHA-256, hexadecimal text, the serializer and what a time column keeps
  (\<open>audit_env\<close>; the hypotheses \<open>times_kept\<close>: times of the present are stored to the microsecond,
  \<open>uuid_text_exact\<close>: the text of an identifier is read back as itself, \<open>no_collision\<close>: two contents that occur are not
  signed alike). The texts of documents are \<open>serde_json\<close>'s (\<open>json_exact\<close>, \<open>document_exact\<close>, \<open>session_exact\<close>,
  \<open>formats_exact\<close>: what is written is read back as it was), those of the configuration \<open>toml\<close>'s (\<open>config_text_exact\<close>, which also
  says that base64 decodes the empty text to no bytes); \<open>config_env\<close> holds the other crates of the configuration. System calls and statements of a database fail as a supply of
  faults says, which no property restricts unless it says so.

  Theories, in the order of their imports.

  \<^item> \<open>Prelude\<close>, \<open>OrdMap\<close>, \<open>RustText\<close>, \<open>Environment\<close>, \<open>Machine\<close>: results, fixed-width integers, lists,
    ordered maps, \<open>str\<close> functions, the world, and the contract of a stateful component (the locales
    \<open>invariant_machine\<close> and \<open>forward_machine\<close>: what every step keeps holds after every history).
  \<^item> \<open>Ident\<close>, \<open>Amount\<close>, \<open>Book\<close>, \<open>Journal\<close>, \<open>Approval\<close>: \<open>ids.rs\<close>, \<open>amount.rs\<close> and \<open>money.rs\<close>, \<open>ledger.rs\<close>
    and \<open>auth.rs\<close>, \<open>journal.rs\<close>, \<open>approval.rs\<close>. An approval request interprets the machine contract.
  \<^item> \<open>Repository\<close>: the trait \<open>LedgerRepository\<close> as a record of operations and its laws as the locale
    \<open>ledger_repository_laws\<close>, interpreted on the model of \<open>memory.rs\<close>.
  \<^item> \<open>LedgerService\<close>: \<open>submit_entry\<close> and \<open>decide_approval\<close> of \<open>service.rs\<close>, written over any repository;
    the contract \<open>book_step\<close> they refine and its invariant \<open>book_ok\<close>.
  \<^item> \<open>LedgerProperties\<close>: the properties of this half, with their witnesses.
  \<^item> \<open>AppTypes\<close>, \<open>Permissions\<close>: \<open>types.rs\<close> and \<open>permissions.rs\<close>.
  \<^item> \<open>AppState\<close>, \<open>AppTransactions\<close>, \<open>AppSetup\<close>, \<open>AppOrganizations\<close>: \<open>app.rs\<close>, one definition per
    method: state, authorization, visibility, balances and DTOs; transactions; standard accounts,
    categories, migration and snapshots; organizations, members and users.
  \<^item> \<open>Lifecycle\<close>: the events of a transaction (\<open>tx_event\<close>) and the lemma that each operation either
    fails and changes nothing or makes exactly one event and records it.
  \<^item> \<open>Books\<close>, \<open>AppMachine\<close>: all commands as one machine (\<open>app_step\<close>), the phases of a transaction, the
    invariant \<open>app_inv\<close> (every transaction fits its ledger, account and category, its fields agree, and
    the audit log tells its story) and its preservation; the contract is interpreted on \<open>app_step\<close>.
  \<^item> \<open>Balances\<close>: a balance as a sum of contributions, what each event does to it, exactness.
  \<^item> \<open>Members\<close>: the changes of the memberships and their invariant, as a second interpretation.
  \<^item> \<open>TransactionProperties\<close>, \<open>OrganizationProperties\<close>, \<open>SetupProperties\<close>: the properties of this half.
  \<^item> \<open>Reach\<close>: reachability by commands that must be legal where they are made (the locales
    \<open>guarded_machine\<close> and \<open>guarded_forward\<close>), and the rules that carry a predicate through the
    early returns of an operation.
  \<^item> \<open>AuthState\<close>, \<open>AuthService\<close>: \<open>auth.rs\<close>, one definition per method. \<open>AuthMoves\<close>, \<open>AuthOperations\<close>: what
    each statement and each method does to the invariant \<open>auth_ok\<close> (indexes exact, keys are digests,
    sessions of one token each) and to the sessions, which are only added, marked or removed.
    \<open>AuthMachine\<close>: the service with the log of its answers as a guarded machine, and that a session that
    was rotated, revoked or removed never comes back. \<open>AuthProperties\<close>, \<open>SessionProperties\<close>,
    \<open>AccountProperties\<close>: the properties of accounts and sessions.
  \<^item> \<open>LoginProtection\<close>, \<open>LoginBuckets\<close>: both backends of \<open>login_protection.rs\<close>, the statements of PostgreSQL
    as functions on the row of their key, and the specification of one bucket (idle, counting, blocked)
    that both refine. \<open>LoginProperties\<close>: their equivalence and the duration of a lockout.
  \<^item> \<open>Calendar\<close>, \<open>Reports\<close>, \<open>Analytics\<close>: the months and days of \<open>app.rs\<close>, the overview, the lists of a period, and
    the financial analysis with its details. \<open>ReportProperties\<close>: what they show, to whom, and that the
    analysis adds up.
  \<^item> \<open>AuditChain\<close>: \<open>audit.rs\<close> and the two statements of \<open>postgres.rs\<close> around it; appending, the import of the old
    log, verification. \<open>AuditProperties\<close>: what the program writes always verifies, a verified chain is determined by
    its last hash, the ledger's log is read back as it was saved.
  \<^item> \<open>ServerState\<close>, \<open>AuthRoutes\<close>, \<open>AppApi\<close>: the shared state, errors and checks of a request; the handlers
    that log in, refresh, show and change a profile and log out; the handlers that change the ledger.
    \<open>ApiProperties\<close>: the handlers as a machine (an interpretation of \<open>invariant_machine\<close>) whose memory and
    storage agree, who acts, and what is lost when a refresh is refused. \<open>LockProperties\<close>: the handler of a
    report that panics under the lock, and what the server still does afterwards.
  \<^item> \<open>AdminRoutes\<close>: \<open>admin.rs\<close>, the guard and the handlers of the operator and of an organization's administrator.
    \<open>AdminProperties\<close>: all handlers of the server as one machine whose memory and storage always agree.
    \<open>AdminScope\<close>: how far an administrator reaches.
  \<^item> \<open>Files\<close>, \<open>StateFiles\<close>: the system calls on files, any of which may fail or be the last before the process ends;
    saving and loading of the ledger and of the accounts with their backup, and the JSON store. \<open>FileProperties\<close>: what a
    reader finds after a save that was cut off anywhere.
  \<^item> \<open>OfflineCache\<close>, \<open>Shell\<close>: \<open>offline_store.rs\<close>, and the commands of \<open>src-tauri/src/lib.rs\<close> on the ledger, the cache and the
    refresh session. \<open>ShellProperties\<close>, \<open>ClientProperties\<close>: the books of the shell and its file, the document the
    cache shows, the session the client gets back.
  \<^item> \<open>PostgresRows\<close>, \<open>Postgres\<close>: the tables and their constraints, the rows of the structs, and \<open>postgres.rs\<close>: every statement
    of a save, transactions that are rolled back and answers that are lost, loading, importing the files.
    \<open>PostgresProperties\<close>: several instances on one database as a machine (three interpretations), and what none of them can undo or do;
    \<open>PostgresLedger\<close>: a saved ledger is read back.
  \<^item> \<open>Sqlite\<close>: \<open>sqlite.rs\<close>. \<open>SqliteProperties\<close>: the second interpretation of \<open>ledger_repository_laws\<close>, by which the service over
    SQLite refines \<open>book_step\<close> too, and what is left when its second statement fails.
  \<^item> \<open>Config\<close>: \<open>config.rs\<close>: the sections and defaults, all checks, the credentials and keys completed at a start, the private
    file. \<open>ConfigProperties\<close>: what is written is what every later start loads, and what an interrupted write costs.
  \<^item> \<open>Gateway\<close>: the layers of \<open>router\<close> before a handler (\<open>version.rs\<close>, \<open>request_security.rs\<close>, \<open>lib.rs\<close>), and what they and the
    challenge take from the configuration. \<open>GatewayProperties\<close>: what a checked configuration excludes behind a proxy, and what the layers
    keep from any handler.
  \<^item> \<open>Startup\<close>: the command line (\<open>main.rs\<close>) and the loading of the server's state (\<open>state.rs\<close>) over the configuration, the files and
    the database. \<open>StartupProperties\<close>: a server that started behind a proxy is closed, and a first start that cannot be repeated.

  Every loop of the modelled code runs over a finite collection and is structural recursion or a fold,
  so no fuel occurs. What the lemmas show of errors: a failing transaction operation leaves the state
  as it was (\<open>decide_approval_Err\<close> and the like), and none of the modelled operations panics from a
  state that satisfies the invariant (\<open>transaction_ops_no_panic\<close>, \<open>ensure_ledger_setup_brings\<close>).

  Not modelled: the HTTP framework with its tables of routes and sockets, the body of \<open>main\<close> after the command line, opening the pool
  of a database and running its migrations (the tables are as they leave them; the order of text in
  a query is that of its bytes), the seed data, the credential store of Android, the mobile and web
  clients. They are input and output around the modelled core. A handler is one step: the write gate serialises those
  that change the state, and the reads before the gate are made in the same state.
\<close>

end
